(* ===== verification/Prelude.thy ===== *)
theory Prelude
  imports Main "HOL-Library.AList"
begin

text \<open>
  Shared vocabulary of the development: Python exceptions as values, the result type of code that
  may raise, insertion-ordered dictionaries with string keys, and the few list and string
  facts the components use.  A Python \<open>str\<close> or \<open>bytes\<close> is a HOL \<open>string\<close>; a \<open>str\<close> is kept as
  the bytes of its UTF-8 form (surrogates as three bytes), which keeps equality, emptiness,
  concatenation and ASCII prefixes.
\<close>

section \<open>Results of code that may raise\<close>

type_synonym bytes = string

text \<open>
  The exceptions the modelled code raises or lets through.  \<open>ProjectionRejected\<close> is
  \<open>ProjectionRejectedError(reason)\<close>, a subclass of \<open>ValueError\<close>; \<open>BrokenPipe\<close> is either exception of
  a closed client connection; \<open>InstallError\<close> is that class of \<open>errors.py\<close> or one of its subclasses there
  and in \<open>deployment/apply.py\<close>, with its message; any other class is given by its name.
\<close>

datatype install_class =
    Install_failed
  | Recovery_required
  | Recovery_state
  | Rollback_state
  | Install_input
  | Not_installed
  | Service_unavailable
  | Unknown_outcome

datatype py_exc =
    ProjectionRejected string
  | ValueError string
  | TypeError
  | RecursionError
  | UnicodeError
  | BrokenPipe
  | InstallError install_class string
  | OtherError string

type_synonym 'a res = "py_exc + 'a"

text \<open>The class name a log line shows, and the subclasses of \<open>ValueError\<close>.\<close>

fun exc_label :: "py_exc \<Rightarrow> string" where
  "exc_label (ProjectionRejected r) = ''ProjectionRejectedError''"
| "exc_label (ValueError r) = ''ValueError''"
| "exc_label TypeError = ''TypeError''"
| "exc_label RecursionError = ''RecursionError''"
| "exc_label UnicodeError = ''UnicodeDecodeError''"
| "exc_label BrokenPipe = ''BrokenPipeError''"
| "exc_label (InstallError c m) =
     (case c of Install_failed \<Rightarrow> ''InstallError'' | Recovery_required \<Rightarrow> ''RecoveryRequiredError''
      | Recovery_state \<Rightarrow> ''RecoveryStateError'' | Rollback_state \<Rightarrow> ''RollbackStateError''
      | Install_input \<Rightarrow> ''InstallInputError'' | Not_installed \<Rightarrow> ''NotInstalledError''
      | Service_unavailable \<Rightarrow> ''NativeServiceUnavailableError'' | Unknown_outcome \<Rightarrow> ''UnknownDeploymentOutcome'')"
| "exc_label (OtherError n) = n"

fun is_value_error :: "py_exc \<Rightarrow> bool" where
  "is_value_error (ProjectionRejected r) = True"
| "is_value_error (ValueError r) = True"
| "is_value_error UnicodeError = True"
| "is_value_error _ = False"

definition res_bind :: "'a res \<Rightarrow> ('a \<Rightarrow> 'b res) \<Rightarrow> 'b res" where
  "res_bind m f = (case m of Inl e \<Rightarrow> Inl e | Inr x \<Rightarrow> f x)"

abbreviation reject :: "string \<Rightarrow> 'a res" where
  "reject reason \<equiv> Inl (ProjectionRejected reason)"

text \<open>An \<open>except (\<dots>)\<close> clause: the handler runs on the exceptions it names.\<close>

definition res_catch :: "(py_exc \<Rightarrow> bool) \<Rightarrow> 'a res \<Rightarrow> (py_exc \<Rightarrow> 'a res) \<Rightarrow> 'a res" where
  "res_catch caught m handler =
     (case m of Inl e \<Rightarrow> if caught e then handler e else Inl e | Inr x \<Rightarrow> Inr x)"

named_theorems res_simps \<open>how a result splits into its parts\<close>

lemma res_bind_simps [simp]:
  "res_bind (Inl e) f = Inl e"
  "res_bind (Inr x) f = f x"
  by (simp_all add: res_bind_def)

lemma res_bind_Inr [res_simps, simp]:
  "res_bind m f = Inr y \<longleftrightarrow> (\<exists>x. m = Inr x \<and> f x = Inr y)"
  by (cases m) auto

lemma res_bind_Inl [res_simps]:
  "res_bind m f = Inl e \<longleftrightarrow> m = Inl e \<or> (\<exists>x. m = Inr x \<and> f x = Inl e)"
  by (cases m) auto

lemma res_bind_assoc: "res_bind (res_bind m f) g = res_bind m (\<lambda>x. res_bind (f x) g)"
  by (cases m) auto

lemma res_catch_simps [simp]:
  "res_catch c (Inr x) h = Inr x"
  "res_catch c (Inl e) h = (if c e then h e else Inl e)"
  by (simp_all add: res_catch_def)

lemma if_Inl_eq_Inr [res_simps, simp]:
  "((if b then Inl e else m) = Inr y) \<longleftrightarrow> \<not> b \<and> m = Inr y"
  "((if b then m else Inl e) = Inr y) \<longleftrightarrow> b \<and> m = Inr y"
  by auto

text \<open>Iterating a step that may raise over a list, threading a state: a Python \<open>for\<close> loop.\<close>

fun res_fold :: "('s \<Rightarrow> 'a \<Rightarrow> 's res) \<Rightarrow> 's \<Rightarrow> 'a list \<Rightarrow> 's res" where
  "res_fold f s [] = Inr s"
| "res_fold f s (x # xs) = res_bind (f s x) (\<lambda>s'. res_fold f s' xs)"

lemma res_fold_append:
  "res_fold f s (xs @ ys) = res_bind (res_fold f s xs) (\<lambda>s'. res_fold f s' ys)"
  by (induction xs arbitrary: s) (auto simp: res_bind_assoc)

lemma res_fold_invariant:
  assumes "res_fold f s xs = Inr s'" and "I s"
    and "\<And>t t' x. I t \<Longrightarrow> x \<in> set xs \<Longrightarrow> f t x = Inr t' \<Longrightarrow> I t'"
  shows "I s'"
  using assms
proof (induction xs arbitrary: s)
  case (Cons x xs)
  from Cons.prems(1) obtain t where t: "f s x = Inr t" "res_fold f t xs = Inr s'" by auto
  from Cons.prems(3) [OF Cons.prems(2) _ t(1)] have "I t" by simp
  then show ?case by (rule Cons.IH [OF t(2)]) (rule Cons.prems(3), auto)
qed simp

text \<open>A step applied to every element in order, until the first that raises.\<close>

fun res_map :: "('a \<Rightarrow> 'b res) \<Rightarrow> 'a list \<Rightarrow> 'b list res" where
  "res_map f [] = Inr []"
| "res_map f (x # xs) = res_bind (f x) (\<lambda>y. res_bind (res_map f xs) (\<lambda>ys. Inr (y # ys)))"

lemma res_map_Inr: "res_map f xs = Inr ys \<longleftrightarrow> list_all2 (\<lambda>x y. f x = Inr y) xs ys"
  by (induction xs arbitrary: ys) (auto simp: list_all2_Cons1)

section \<open>Dictionaries\<close>

text \<open>
  A Python \<open>dict\<close> with string keys is an association list in insertion order.  Assignment is
  \<open>AList.update\<close>, which overwrites in place or appends; \<open>pop\<close> is \<open>AList.delete\<close>.
\<close>

type_synonym 'v dict = "(string \<times> 'v) list"

definition has_key :: "'v dict \<Rightarrow> string \<Rightarrow> bool" where
  "has_key d k \<longleftrightarrow> k \<in> set (map fst d)"

text \<open>\<open>not set(d) - allowed\<close> and \<open>set(d) == keys\<close>.\<close>

definition keys_within :: "'v dict \<Rightarrow> string list \<Rightarrow> bool" where
  "keys_within d allowed \<longleftrightarrow> list_all (\<lambda>k. List.member allowed k) (map fst d)"

definition keys_exactly :: "'v dict \<Rightarrow> string list \<Rightarrow> bool" where
  "keys_exactly d ks \<longleftrightarrow> keys_within d ks \<and> list_all (has_key d) ks"

abbreviation distinct_keys :: "'v dict \<Rightarrow> bool" where
  "distinct_keys d \<equiv> distinct (map fst d)"

lemma has_key_map_of: "has_key d k \<longleftrightarrow> map_of d k \<noteq> None"
  by (simp add: has_key_def map_of_eq_None_iff)

lemma has_key_code [code, simp]:
  "has_key [] k = False"
  "has_key (p # d) k = (fst p = k \<or> has_key d k)"
  by (auto simp: has_key_def)

lemma keys_within_code [code, simp]:
  "keys_within [] allowed = True"
  "keys_within (p # d) allowed \<longleftrightarrow> fst p \<in> set allowed \<and> keys_within d allowed"
  by (simp_all add: keys_within_def)

lemma keys_within_iff: "keys_within d allowed \<longleftrightarrow> (\<forall>k. has_key d k \<longrightarrow> k \<in> set allowed)"
  by (auto simp: keys_within_def has_key_def list_all_iff)

lemma keys_exactly_iff: "keys_exactly d ks \<longleftrightarrow> set (map fst d) = set ks"
  by (auto simp: keys_exactly_def keys_within_def has_key_def list_all_iff)

lemma keys_within_absent: "keys_within d allowed \<Longrightarrow> k \<notin> set allowed \<Longrightarrow> \<not> has_key d k"
  by (auto simp: keys_within_iff)

lemma map_of_dict_set [simp]:
  "map_of (AList.update k v d) k' = (if k' = k then Some v else map_of d k')"
  by (simp add: update_conv')

lemma map_of_dict_pop [simp]:
  "map_of (AList.delete k d) k' = (if k' = k then None else map_of d k')"
  by (simp add: delete_conv')

lemma has_key_update [simp]: "has_key (AList.update k v d) k' \<longleftrightarrow> k' = k \<or> has_key d k'"
  by (auto simp: has_key_map_of)

lemma has_key_delete [simp]: "has_key (AList.delete k d) k' \<longleftrightarrow> k' \<noteq> k \<and> has_key d k'"
  by (auto simp: has_key_map_of)

lemma delete_absent: "\<not> has_key d k \<Longrightarrow> AList.delete k d = d"
  by (simp add: has_key_def)

lemma update_same: "map_of d k = Some v \<Longrightarrow> distinct_keys d \<Longrightarrow> AList.update k v d = d"
  by (induction d) (auto split: if_splits)

lemma map_of_mem: "map_of d k = Some v \<Longrightarrow> (k, v) \<in> set d"
  by (rule map_of_SomeD)

section \<open>Lists and strings\<close>

definition starts_with :: "string \<Rightarrow> string \<Rightarrow> bool" where
  "starts_with p s \<longleftrightarrow> take (length p) s = p"

text \<open>\<open>s.partition(c)\<close> for a one-character separator: head, whether it occurs, tail.\<close>

fun partition_at :: "char \<Rightarrow> string \<Rightarrow> string \<times> bool \<times> string" where
  "partition_at c [] = ([], False, [])"
| "partition_at c (x # xs) =
     (if x = c then ([], True, xs)
      else case partition_at c xs of (a, found, b) \<Rightarrow> (x # a, found, b))"

definition lower_char :: "char \<Rightarrow> char" where
  "lower_char c =
     (if 65 \<le> (of_char c :: nat) \<and> of_char c \<le> (90 :: nat) then char_of (of_char c + (32 :: nat)) else c)"

definition lower :: "string \<Rightarrow> string" where
  "lower s = map lower_char s"

lemma partition_at_join:
  "partition_at c s = (a, found, b) \<Longrightarrow> s = a @ (if found then [c] else []) @ b"
  by (induction c s arbitrary: a b rule: partition_at.induct) (auto split: if_splits prod.splits)

text \<open>\<open>s.split(c)\<close> and \<open>c.join(ps)\<close> for a one-character separator.\<close>

fun split_on :: "char \<Rightarrow> string \<Rightarrow> string list" where
  "split_on c [] = [[]]"
| "split_on c (x # xs) =
     (if x = c then [] # split_on c xs
      else case split_on c xs of [] \<Rightarrow> [[x]] | p # ps \<Rightarrow> (x # p) # ps)"

fun join_on :: "char \<Rightarrow> string list \<Rightarrow> string" where
  "join_on c [] = []"
| "join_on c [p] = p"
| "join_on c (p # q # ps) = p @ [c] @ join_on c (q # ps)"

lemma split_on_nonempty [simp]: "split_on c s \<noteq> []"
  by (induction s) (auto split: list.splits)

lemma join_split_on: "join_on c (split_on c s) = s"
proof (induction s)
  case (Cons x xs)
  then show ?case by (cases "split_on c xs") (auto, metis join_on.simps(2,3) list.exhaust append_Cons)
qed simp

lemma split_on_single: "c \<notin> set s \<Longrightarrow> split_on c s = [s]"
  by (induction s) auto

lemma split_on_append: "c \<notin> set a \<Longrightarrow> split_on c (a @ c # b) = a # split_on c b"
  by (induction a) auto

lemma split_join_on: "ps \<noteq> [] \<Longrightarrow> list_all (\<lambda>p. c \<notin> set p) ps \<Longrightarrow> split_on c (join_on c ps) = ps"
  by (induction c ps rule: join_on.induct) (auto simp: split_on_single split_on_append)

lemma join_on_snoc: "join_on c (ps @ [p]) @ s = join_on c (ps @ [p @ s])"
proof (induction ps)
  case (Cons q ps)
  then show ?case by (cases ps) auto
qed simp

end
