(* ===== verification/Effects.thy ===== *)
theory Effects
  imports Prelude
begin

text \<open>
  Effects with exceptions over any state: an action takes a state to a result or an exception and the
  state it leaves, so an effect that precedes an exception is kept.  With them a Hoare logic whose
  triples have a second postcondition for exceptions, and the parts of a state that an action keeps.
\<close>

section \<open>Actions\<close>

type_synonym ('s, 'a) eff = "'s \<Rightarrow> 'a res \<times> 's"

definition act_return :: "'a \<Rightarrow> ('s, 'a) eff" where
  "act_return x w = (Inr x, w)"

definition act_raise :: "py_exc \<Rightarrow> ('s, 'a) eff" where
  "act_raise e w = (Inl e, w)"

definition act_bind :: "('s, 'a) eff \<Rightarrow> ('a \<Rightarrow> ('s, 'b) eff) \<Rightarrow> ('s, 'b) eff" where
  "act_bind m f w = (case m w of (Inl e, w') \<Rightarrow> (Inl e, w') | (Inr x, w') \<Rightarrow> f x w')"

definition act_then :: "('s, 'a) eff \<Rightarrow> ('s, 'b) eff \<Rightarrow> ('s, 'b) eff" where
  "act_then m n = act_bind m (\<lambda>_. n)"

definition act_lift :: "'a res \<Rightarrow> ('s, 'a) eff" where
  "act_lift r w = (r, w)"

definition act_modify :: "('s \<Rightarrow> 's) \<Rightarrow> ('s, unit) eff" where
  "act_modify f w = (Inr (), f w)"

text \<open>\<open>try: m except \<dots>: h\<close> and \<open>try: m finally: f\<close> for an \<open>f\<close> that does not raise.\<close>

definition act_catch :: "('s, 'a) eff \<Rightarrow> (py_exc \<Rightarrow> ('s, 'a) eff option) \<Rightarrow> ('s, 'a) eff" where
  "act_catch m h w =
     (case m w of
        (Inl e, w') \<Rightarrow> (case h e of Some a \<Rightarrow> a w' | None \<Rightarrow> (Inl e, w'))
      | r \<Rightarrow> r)"

definition act_finally :: "('s, 'a) eff \<Rightarrow> ('s, unit) eff \<Rightarrow> ('s, 'a) eff" where
  "act_finally m f w = (case m w of (r, w') \<Rightarrow> (r, snd (f w')))"

text \<open>\<open>try: m finally: f\<close> where an exception of \<open>f\<close> replaces the outcome of \<open>m\<close>.\<close>

definition act_ensure :: "('s, 'a) eff \<Rightarrow> ('s, unit) eff \<Rightarrow> ('s, 'a) eff" where
  "act_ensure m f w = (case m w of (r, w') \<Rightarrow> (case f w' of (Inl e, w'') \<Rightarrow> (Inl e, w'') | (Inr _, w'') \<Rightarrow> (r, w'')))"

fun act_each :: "('a \<Rightarrow> ('s, unit) eff) \<Rightarrow> 'a list \<Rightarrow> ('s, unit) eff" where
  "act_each f [] = act_return ()"
| "act_each f (x # xs) = act_then (f x) (act_each f xs)"

section \<open>Runs that return\<close>

named_theorems returns \<open>when an action returns and what it leaves\<close>

lemma act_return_run [returns]: "act_return x w = (Inr y, w') \<longleftrightarrow> y = x \<and> w' = w"
  by (auto simp: act_return_def)

lemma act_raise_run [returns]: "act_raise e w = (Inr y, w') \<longleftrightarrow> False"
  by (simp add: act_raise_def)

lemma act_lift_run [returns]: "act_lift r w = (Inr y, w') \<longleftrightarrow> r = Inr y \<and> w' = w"
  by (auto simp: act_lift_def)

lemma act_modify_run [returns]: "act_modify f w = (Inr y, w') \<longleftrightarrow> w' = f w"
  by (auto simp: act_modify_def)

lemma act_bind_run [returns]:
  "act_bind m f w = (Inr y, w') \<longleftrightarrow> (\<exists>x w1. m w = (Inr x, w1) \<and> f x w1 = (Inr y, w'))"
  by (auto simp: act_bind_def split: prod.splits sum.splits)

lemma act_then_run [returns]:
  "act_then m n w = (Inr y, w') \<longleftrightarrow> (\<exists>x w1. m w = (Inr x, w1) \<and> n w1 = (Inr y, w'))"
  by (simp add: act_then_def act_bind_run)

lemma act_bind_eq: "m w = (Inr x, w1) \<Longrightarrow> act_bind m f w = f x w1"
  by (simp add: act_bind_def)

lemma act_then_eq: "m w = (Inr x, w1) \<Longrightarrow> act_then m n w = n w1"
  by (simp add: act_then_def act_bind_eq)

lemma act_catch_run:
  assumes "act_catch m h w = (Inr y, w')"
  shows "m w = (Inr y, w') \<or> (\<exists>e w1 a. m w = (Inl e, w1) \<and> h e = Some a \<and> a w1 = (Inr y, w'))"
  using assms by (auto simp: act_catch_def split: prod.splits sum.splits option.splits)

section \<open>Triples\<close>

lemma act_bind_return [simp]: "act_bind (act_return x) f = f x"
  by (simp add: act_bind_def act_return_def fun_eq_iff)

text \<open>
  A Hoare logic for actions: from a world that satisfies the first assertion, a result and the world
  it leaves satisfy the second, and the world an exception leaves satisfies the third.
\<close>

definition valid :: "('s \<Rightarrow> bool) \<Rightarrow> ('s, 'a) eff \<Rightarrow> ('a \<Rightarrow> 's \<Rightarrow> bool) \<Rightarrow> ('s \<Rightarrow> bool) \<Rightarrow> bool" where
  "valid P m Q E \<longleftrightarrow> (\<forall>w. P w \<longrightarrow> (case m w of (Inr x, w') \<Rightarrow> Q x w' | (Inl e, w') \<Rightarrow> E w'))"

lemma validD: "valid P m Q E \<Longrightarrow> P w \<Longrightarrow> m w = (Inr x, w') \<Longrightarrow> Q x w'"
  "valid P m Q E \<Longrightarrow> P w \<Longrightarrow> m w = (Inl e, w') \<Longrightarrow> E w'"
  by (force simp: valid_def)+

lemma valid_returns: "valid P m Q (\<lambda>_. False) \<Longrightarrow> P w \<Longrightarrow> \<exists>x w'. m w = (Inr x, w') \<and> Q x w'"
proof -
  assume m: "valid P m Q (\<lambda>_. False)" "P w"
  obtain r w' where r: "m w = (r, w')" by fastforce
  with m validD(2) [OF m] obtain x where "r = Inr x" by (cases r) auto
  with r validD(1) [OF m] show ?thesis by blast
qed

lemma valid_conseq:
  "valid P m Q E \<Longrightarrow> (\<And>w. P' w \<Longrightarrow> P w) \<Longrightarrow> (\<And>x w. Q x w \<Longrightarrow> Q' x w) \<Longrightarrow> (\<And>w. E w \<Longrightarrow> E' w) \<Longrightarrow>
   valid P' m Q' E'"
  by (fastforce simp: valid_def split: prod.splits sum.splits)

lemma valid_return: "(\<And>w. P w \<Longrightarrow> Q x w) \<Longrightarrow> valid P (act_return x) Q E"
  by (simp add: valid_def act_return_def)

lemma valid_lift:
  "(\<And>x w. P w \<Longrightarrow> r = Inr x \<Longrightarrow> Q x w) \<Longrightarrow> (\<And>w. P w \<Longrightarrow> E w) \<Longrightarrow> valid P (act_lift r) Q E"
  by (simp add: valid_def act_lift_def split: sum.splits)

lemma valid_modify: "(\<And>w. P w \<Longrightarrow> Q () (f w)) \<Longrightarrow> valid P (act_modify f) Q E"
  by (simp add: valid_def act_modify_def)

lemma valid_bind:
  "valid P m R E \<Longrightarrow> (\<And>x. valid (R x) (f x) Q E) \<Longrightarrow> valid P (act_bind m f) Q E"
  by (fastforce simp: valid_def act_bind_def split: prod.splits sum.splits)

lemma valid_then:
  "valid P m (\<lambda>_. R) E \<Longrightarrow> valid R n Q E \<Longrightarrow> valid P (act_then m n) Q E"
  unfolding act_then_def by (rule valid_bind)

lemma valid_lift_bind:
  "(\<And>x. r = Inr x \<Longrightarrow> valid P (f x) Q E) \<Longrightarrow> (\<And>w. P w \<Longrightarrow> E w) \<Longrightarrow> valid P (act_bind (act_lift r) f) Q E"
  by (auto simp: valid_def act_bind_def act_lift_def split: sum.splits)

lemma valid_if:
  "(b \<Longrightarrow> valid P m Q E) \<Longrightarrow> (\<not> b \<Longrightarrow> valid P n Q E) \<Longrightarrow> valid P (if b then m else n) Q E"
  by simp

lemma valid_pure: "(p \<Longrightarrow> valid P m Q E) \<Longrightarrow> valid (\<lambda>w. P w \<and> p) m Q E"
  by (simp add: valid_def)

lemma valid_each:
  assumes "\<And>x. x \<in> set xs \<Longrightarrow> valid P (f x) (\<lambda>_. P) E"
  shows "valid P (act_each f xs) (\<lambda>_. P) E"
  using assms by (induction xs) (auto intro: valid_return valid_then)

lemma valid_finally:
  assumes "valid P m R E" "\<And>x. valid (R x) f (\<lambda>_. Q x) (Q x)" "valid E f (\<lambda>_. E') E'"
  shows "valid P (act_finally m f) Q E'"
  unfolding valid_def
proof (intro allI impI)
  fix w assume P: "P w"
  obtain r w1 where m: "m w = (r, w1)" by fastforce
  obtain s w2 where f: "f w1 = (s, w2)" by fastforce
  show "case act_finally m f w of (Inr x, w') \<Rightarrow> Q x w' | (Inl e, w') \<Rightarrow> E' w'"
  proof (cases r)
    case (Inl e)
    with validD(2) [OF assms(1) P, of e w1] m have "E w1" by simp
    then have "E' w2" using validD [OF assms(3), of w1] f by (cases s) auto
    with Inl m f show ?thesis by (simp add: act_finally_def)
  next
    case (Inr x)
    with validD(1) [OF assms(1) P, of x w1] m have "R x w1" by simp
    then have "Q x w2" using validD [OF assms(2), of x w1] f by (cases s) auto
    with Inr m f show ?thesis by (simp add: act_finally_def)
  qed
qed

lemma valid_ensure:
  assumes "valid P m R E" "\<And>x. valid (R x) f (\<lambda>_. Q x) E'" "valid E f (\<lambda>_. E') E'"
  shows "valid P (act_ensure m f) Q E'"
  unfolding valid_def
proof (intro allI impI)
  fix w assume P: "P w"
  obtain r w1 where m: "m w = (r, w1)" by fastforce
  obtain s w2 where f: "f w1 = (s, w2)" by fastforce
  have "case s of Inl e \<Rightarrow> E' w2 | Inr _ \<Rightarrow> (case r of Inr x \<Rightarrow> Q x w2 | Inl e \<Rightarrow> E' w2)"
    using validD [OF assms(1) P, of _ w1] validD [OF assms(3), of w1] validD [OF assms(2), of _ w1] m f
    by (cases r; cases s) auto
  with m f show "case act_ensure m f w of (Inr x, w') \<Rightarrow> Q x w' | (Inl e, w') \<Rightarrow> E' w'"
    by (auto simp: act_ensure_def split: sum.splits)
qed

lemma valid_catch:
  assumes "valid P m Q E" "\<And>e a. h e = Some a \<Longrightarrow> valid E a Q E"
  shows "valid P (act_catch m h) Q E"
  unfolding valid_def
proof (intro allI impI)
  fix w assume P: "P w"
  obtain r w1 where m: "m w = (r, w1)" by fastforce
  show "case act_catch m h w of (Inr x, w') \<Rightarrow> Q x w' | (Inl e, w') \<Rightarrow> E w'"
  proof (cases r)
    case (Inl e)
    with validD(2) [OF assms(1) P, of e w1] m have E: "E w1" by simp
    show ?thesis
    proof (cases "h e")
      case None
      with E Inl m show ?thesis by (simp add: act_catch_def)
    next
      case (Some a)
      with E Inl m assms(2) [OF Some] show ?thesis by (simp add: act_catch_def valid_def)
    qed
  next
    case (Inr x)
    with validD(1) [OF assms(1) P, of x w1] m show ?thesis by (simp add: act_catch_def)
  qed
qed

text \<open>With handlers that lead to other states than the exceptions they handle.\<close>

lemma valid_catch_weaker:
  assumes "valid P m R E" "\<And>e a. h e = Some a \<Longrightarrow> valid E a Q E'" "\<And>x w. R x w \<Longrightarrow> Q x w" "\<And>w. E w \<Longrightarrow> E' w"
  shows "valid P (act_catch m h) Q E'"
  unfolding valid_def
proof (intro allI impI)
  fix w assume P: "P w"
  obtain r w1 where m: "m w = (r, w1)" by fastforce
  show "case act_catch m h w of (Inr x, w') \<Rightarrow> Q x w' | (Inl e, w') \<Rightarrow> E' w'"
  proof (cases r)
    case (Inl e)
    with validD(2) [OF assms(1) P, of e w1] m have E: "E w1" by simp
    show ?thesis
    proof (cases "h e")
      case None
      with E Inl m assms(4) show ?thesis by (simp add: act_catch_def)
    next
      case (Some a)
      with E Inl m assms(2) [OF Some] show ?thesis by (simp add: act_catch_def valid_def)
    qed
  next
    case (Inr x)
    with validD(1) [OF assms(1) P, of x w1] m assms(3) show ?thesis by (simp add: act_catch_def)
  qed
qed

text \<open>A handler for every exception: what it leaves is what the whole leaves.\<close>

lemma valid_catch_all:
  assumes "valid P m Q R" "\<And>e. \<exists>a. h e = Some a \<and> valid R a Q E"
  shows "valid P (act_catch m h) Q E"
  unfolding valid_def
proof (intro allI impI)
  fix w assume P: "P w"
  obtain r w1 where m: "m w = (r, w1)" by fastforce
  show "case act_catch m h w of (Inr x, w') \<Rightarrow> Q x w' | (Inl e, w') \<Rightarrow> E w'"
  proof (cases r)
    case (Inl e)
    with validD(2) [OF assms(1) P, of e w1] m have R: "R w1" by simp
    obtain a where "h e = Some a" "valid R a Q E" using assms(2) by blast
    with R Inl m show ?thesis by (simp add: act_catch_def valid_def)
  next
    case (Inr x)
    with validD(1) [OF assms(1) P, of x w1] m show ?thesis by (simp add: act_catch_def)
  qed
qed

lemma valid_ex: "(\<And>a. valid (P a) m Q E) \<Longrightarrow> valid (\<lambda>w. \<exists>a. P a w) m Q E"
  unfolding valid_def by (intro allI impI) (erule exE, metis)

section \<open>Parts of the state an action keeps\<close>

definition keeps :: "('s \<Rightarrow> 'v) \<Rightarrow> ('s, 'a) eff \<Rightarrow> bool" where
  "keeps f m \<longleftrightarrow> (\<forall>v. valid (\<lambda>w. f w = v) m (\<lambda>_ w. f w = v) (\<lambda>w. f w = v))"

lemma keepsD: "keeps f m \<Longrightarrow> m w = (r, w') \<Longrightarrow> f w' = f w"
  by (cases r) (auto simp: keeps_def dest: validD)

lemma keepsI: "(\<And>w r w'. m w = (r, w') \<Longrightarrow> f w' = f w) \<Longrightarrow> keeps f m"
  by (auto simp: keeps_def valid_def split: prod.splits sum.splits)

lemma valid_kept:
  assumes "keeps f m" "\<And>w w'. f w' = f w \<Longrightarrow> P w \<Longrightarrow> P w'"
  shows "valid P m (\<lambda>_. P) P"
proof -
  have "case m w of (Inr x, w') \<Rightarrow> P w' | (Inl e, w') \<Rightarrow> P w'" if "P w" for w
    using keepsD [OF assms(1), of w] assms(2) that by (cases "m w"; cases "fst (m w)") auto
  then show ?thesis by (simp add: valid_def)
qed

lemma keeps_bind: "keeps f m \<Longrightarrow> (\<And>x. keeps f (g x)) \<Longrightarrow> keeps f (act_bind m g)"
  unfolding keeps_def by (blast intro: valid_bind)

lemma keeps_then: "keeps f m \<Longrightarrow> keeps f n \<Longrightarrow> keeps f (act_then m n)"
  unfolding act_then_def by (rule keeps_bind)

lemma keeps_if: "(b \<Longrightarrow> keeps f m) \<Longrightarrow> (\<not> b \<Longrightarrow> keeps f n) \<Longrightarrow> keeps f (if b then m else n)"
  by simp

lemma keeps_catch: "keeps f m \<Longrightarrow> (\<And>e a. h e = Some a \<Longrightarrow> keeps f a) \<Longrightarrow> keeps f (act_catch m h)"
  unfolding keeps_def by (blast intro: valid_catch)

lemma keeps_each: "(\<And>x. keeps f (g x)) \<Longrightarrow> keeps f (act_each g xs)"
  unfolding keeps_def by (blast intro: valid_each)

lemma keeps_modify: "(\<And>w. f (g w) = f w) \<Longrightarrow> keeps f (act_modify g)"
  by (rule keepsI) (auto simp: act_modify_def)

lemma keeps_option: "(x = None \<Longrightarrow> keeps f m) \<Longrightarrow> (\<And>y. x = Some y \<Longrightarrow> keeps f (g y)) \<Longrightarrow>
   keeps f (case x of None \<Rightarrow> m | Some y \<Rightarrow> g y)"
  by (cases x) auto

lemma keeps_prod: "(\<And>a b. keeps f (g a b)) \<Longrightarrow> keeps f (case p of (a, b) \<Rightarrow> g a b)"
  by (cases p) auto

lemma keeps_prod_arg: "(\<And>a b. keeps f (g a b c)) \<Longrightarrow> keeps f ((case p of (a, b) \<Rightarrow> g a b) c)"
  by (cases p) auto

lemma keeps_sum: "(\<And>a. keeps f (g a)) \<Longrightarrow> (\<And>b. keeps f (h b)) \<Longrightarrow> keeps f (case s of Inl a \<Rightarrow> g a | Inr b \<Rightarrow> h b)"
  by (cases s) auto

end
