(* ===== verification/Json.thy ===== *)
theory Json
  imports Prelude
begin

text \<open>
  JSON values as \<open>json.loads\<close> builds them, with the Python operations the proxy applies to them:
  \<open>dict.get\<close>, truth value, equality, membership in a frozenset (which raises on unhashable
  values) and the text \<open>json.dumps(\<dots>, separators=(",", ":"))\<close> writes.  The interpreter's side of
  the codec (the parser with its recursion limit, Unicode tables for host names) is the record
  \<open>py_env\<close>, an argument of the operations that use it.
\<close>

section \<open>Values\<close>

text \<open>
  A float is kept as the text \<open>float.__repr__\<close> gives it, which determines the value; the code never
  computes with it.  Objects keep insertion order.
\<close>

datatype json =
    JNull
  | JBool bool
  | JInt int
  | JFloat string
  | JStr string
  | JArr "json list"
  | JObj "(string \<times> json) list"

type_synonym jdict = "json dict"

lemma size_JObj_mem [termination_simp]: "p \<in> set d \<Longrightarrow> size (snd p) < Suc (size_list (size_prod (\<lambda>_. 0) size) d)"
  by (induction d) auto

text \<open>\<open>d.get(k)\<close>: a missing key reads as \<open>None\<close>, like an explicit \<open>null\<close>.\<close>

definition jget :: "jdict \<Rightarrow> string \<Rightarrow> json" where
  "jget d k = (case map_of d k of None \<Rightarrow> JNull | Some v \<Rightarrow> v)"

fun is_obj :: "json \<Rightarrow> bool" where
  "is_obj (JObj d) = True"
| "is_obj _ = False"

fun is_arr :: "json \<Rightarrow> bool" where
  "is_arr (JArr xs) = True"
| "is_arr _ = False"

fun is_str :: "json \<Rightarrow> bool" where
  "is_str (JStr s) = True"
| "is_str _ = False"

text \<open>A value narrowed by \<open>isinstance\<close>.\<close>

fun as_str :: "json \<Rightarrow> string option" where
  "as_str (JStr s) = Some s"
| "as_str _ = None"

fun as_arr :: "json \<Rightarrow> json list option" where
  "as_arr (JArr xs) = Some xs"
| "as_arr _ = None"

fun as_obj :: "json \<Rightarrow> (string \<times> json) list option" where
  "as_obj (JObj d) = Some d"
| "as_obj _ = None"

text \<open>\<open>isinstance(v, str) and v\<close>.\<close>

fun nonempty_str :: "json \<Rightarrow> bool" where
  "nonempty_str (JStr s) = (s \<noteq> [])"
| "nonempty_str _ = False"

text \<open>\<open>bool(v)\<close>.\<close>

fun truthy :: "json \<Rightarrow> bool" where
  "truthy JNull = False"
| "truthy (JBool b) = b"
| "truthy (JInt i) = (i \<noteq> 0)"
| "truthy (JFloat r) = (r \<noteq> ''0.0'' \<and> r \<noteq> ''-0.0'')"
| "truthy (JStr s) = (s \<noteq> [])"
| "truthy (JArr xs) = (xs \<noteq> [])"
| "truthy (JObj d) = (d \<noteq> [])"

text \<open>\<open>v in frozenset(\<dots>)\<close> over strings hashes \<open>v\<close> first: lists and dicts raise \<open>TypeError\<close>.\<close>

fun in_frozenset :: "json \<Rightarrow> string list \<Rightarrow> bool res" where
  "in_frozenset (JStr s) names = Inr (s \<in> set names)"
| "in_frozenset (JArr xs) names = Inl TypeError"
| "in_frozenset (JObj d) names = Inl TypeError"
| "in_frozenset _ names = Inr False"

text \<open>\<open>v in (\<dots>)\<close> over a tuple of strings compares and never raises.\<close>

fun in_tuple :: "json \<Rightarrow> string list \<Rightarrow> bool" where
  "in_tuple (JStr s) names = (s \<in> set names)"
| "in_tuple _ names = False"

text \<open>Dictionaries have one entry per key, at every depth.\<close>

fun json_wf :: "json \<Rightarrow> bool" where
  "json_wf (JArr xs) = (\<forall>x \<in> set xs. json_wf x)"
| "json_wf (JObj d) = (distinct (map fst d) \<and> (\<forall>p \<in> set d. json_wf (snd p)))"
| "json_wf _ = True"

text \<open>
  Python's \<open>==\<close>: dictionaries compare by key, whatever the order; booleans are the integers 0 and 1.
  (No comparison in the modelled code has a number other than a copied one on both sides.)
\<close>

fun json_eq :: "json \<Rightarrow> json \<Rightarrow> bool" where
  "json_eq (JObj a) (JObj b) =
     (length a = length b \<and>
      (\<forall>p \<in> set a. case map_of b (fst p) of None \<Rightarrow> False | Some w \<Rightarrow> json_eq (snd p) w))"
| "json_eq (JArr xs) (JArr ys) = list_all2 json_eq xs ys"
| "json_eq (JBool b) (JInt i) = (i = (if b then 1 else 0))"
| "json_eq (JInt i) (JBool b) = (i = (if b then 1 else 0))"
| "json_eq v w = (v = w)"

section \<open>The text of json.dumps\<close>

definition digit_char :: "nat \<Rightarrow> char" where
  "digit_char n = char_of (if n < 10 then 48 + n else 87 + n)"

fun nat_text :: "nat \<Rightarrow> string" where
  "nat_text n = (if n < 10 then [digit_char n] else nat_text (n div 10) @ [digit_char (n mod 10)])"

declare nat_text.simps [simp del]

definition int_text :: "int \<Rightarrow> string" where
  "int_text i = (if i < 0 then CHR ''-'' # nat_text (nat (- i)) else nat_text (nat i))"

definition hex4 :: "nat \<Rightarrow> string" where
  "hex4 n = [digit_char (n div 4096 mod 16), digit_char (n div 256 mod 16),
             digit_char (n div 16 mod 16), digit_char (n mod 16)]"

text \<open>Code points of a string kept as UTF-8 bytes.\<close>

fun code_points :: "string \<Rightarrow> nat list" where
  "code_points [] = []"
| "code_points (a # s) =
     (let x = of_char a in
      if x < 128 then x # code_points s
      else case s of [] \<Rightarrow> [x] | b # s1 \<Rightarrow>
        if x < 224 then ((x - 192) * 64 + (of_char b - 128)) # code_points s1
        else case s1 of [] \<Rightarrow> [x] | c # s2 \<Rightarrow>
          if x < 240 then ((x - 224) * 4096 + (of_char b - 128) * 64 + (of_char c - 128)) # code_points s2
          else case s2 of [] \<Rightarrow> [x] | d # s3 \<Rightarrow>
            ((x - 240) * 262144 + (of_char b - 128) * 4096 + (of_char c - 128) * 64
              + (of_char d - 128)) # code_points s3)"

definition short_escape :: "nat \<Rightarrow> string option" where
  "short_escape n =
     (if n = 34 then Some [CHR 92, CHR 34] else if n = 92 then Some [CHR 92, CHR 92]
      else if n = 10 then Some [CHR 92, CHR ''n''] else if n = 13 then Some [CHR 92, CHR ''r'']
      else if n = 9 then Some [CHR 92, CHR ''t''] else if n = 12 then Some [CHR 92, CHR ''f'']
      else if n = 8 then Some [CHR 92, CHR ''b''] else None)"

definition escape_unicode :: "nat \<Rightarrow> string" where
  "escape_unicode n =
     (if n < 65536 then [CHR 92, CHR ''u''] @ hex4 n
      else [CHR 92, CHR ''u''] @ hex4 (55296 + (n - 65536) div 1024)
             @ [CHR 92, CHR ''u''] @ hex4 (56320 + (n - 65536) mod 1024))"

definition escape_raw_char :: "char \<Rightarrow> string" where
  "escape_raw_char c =
     (case short_escape (of_char c) of Some e \<Rightarrow> e
      | None \<Rightarrow> if (of_char c :: nat) < 32 then escape_unicode (of_char c) else [c])"

definition escape_ascii_point :: "nat \<Rightarrow> string" where
  "escape_ascii_point n =
     (case short_escape n of Some e \<Rightarrow> e
      | None \<Rightarrow> if 32 \<le> n \<and> n \<le> 126 then [char_of n] else escape_unicode n)"

definition str_text :: "bool \<Rightarrow> string \<Rightarrow> string" where
  "str_text ensure_ascii s =
     [CHR 34] @ (if ensure_ascii then concat (map escape_ascii_point (code_points s))
                 else concat (map escape_raw_char s)) @ [CHR 34]"

fun join_comma :: "string list \<Rightarrow> string" where
  "join_comma [] = []"
| "join_comma [x] = x"
| "join_comma (x # y # ys) = x @ '','' @ join_comma (y # ys)"

text \<open>\<open>json.dumps\<close> has names of its own for the floats that are no numbers.\<close>

definition float_text :: "string \<Rightarrow> string" where
  "float_text r =
     (if r = ''nan'' then ''NaN'' else if r = ''inf'' then ''Infinity'' else if r = ''-inf'' then ''-Infinity'' else r)"

fun json_text :: "bool \<Rightarrow> json \<Rightarrow> string" where
  "json_text ea JNull = ''null''"
| "json_text ea (JBool b) = (if b then ''true'' else ''false'')"
| "json_text ea (JInt i) = int_text i"
| "json_text ea (JFloat r) = float_text r"
| "json_text ea (JStr s) = str_text ea s"
| "json_text ea (JArr xs) = ''['' @ join_comma (map (json_text ea) xs) @ '']''"
| "json_text ea (JObj d) =
     ''{'' @ join_comma (map (\<lambda>p. str_text ea (fst p) @ '':'' @ json_text ea (snd p)) d) @ ''}''"

fun json_depth :: "json \<Rightarrow> nat" where
  "json_depth (JArr xs) = Suc (foldr max (map json_depth xs) 0)"
| "json_depth (JObj d) = Suc (foldr max (map (\<lambda>p. json_depth (snd p)) d) 0)"
| "json_depth _ = 0"

section \<open>The interpreter\<close>

text \<open>
  What the code takes from the interpreter: \<open>json.loads\<close> on bytes and on text (a syntax or encoding
  error is a \<open>ValueError\<close>, a document nested too deeply a \<open>RecursionError\<close>), the nesting up to
  which \<open>json.dumps\<close> encodes, strict \<open>base64.b64decode\<close>, the two checks of \<open>urllib.parse\<close> that
  need Unicode normalization or an IPv6 parser, \<open>str.isalnum\<close> on non-ASCII code points, and the
  hexadecimal SHA-256 digest.
\<close>

record py_env =
  loads :: "bytes \<Rightarrow> json res"
  loads_str :: "string \<Rightarrow> json res"
  dump_depth :: nat
  b64decode :: "string \<Rightarrow> bytes res"
  netloc_nfkc_ok :: "string \<Rightarrow> bool"
  bracketed_host_ok :: "string \<Rightarrow> bool"
  unicode_alnum :: "nat \<Rightarrow> bool"
  sha256_hex :: "bytes \<Rightarrow> string"

definition json_dumps :: "py_env \<Rightarrow> bool \<Rightarrow> json \<Rightarrow> string res" where
  "json_dumps env ensure_ascii v =
     (if json_depth v > dump_depth env then Inl RecursionError else Inr (json_text ensure_ascii v))"

text \<open>\<open>s.encode()\<close> raises on a surrogate, whose UTF-8 form starts \<open>ED A0\<close> to \<open>ED BF\<close>.\<close>

fun has_surrogate :: "string \<Rightarrow> bool" where
  "has_surrogate (a # b # s) = (of_char a = (237 :: nat) \<and> (160 :: nat) \<le> of_char b \<or> has_surrogate (b # s))"
| "has_surrogate _ = False"

definition encode_utf8 :: "string \<Rightarrow> bytes res" where
  "encode_utf8 s = (if has_surrogate s then Inl UnicodeError else Inr s)"

definition dumps_utf8 :: "py_env \<Rightarrow> json \<Rightarrow> bytes res" where
  "dumps_utf8 env v = res_bind (json_dumps env False v) encode_utf8"

text \<open>Decoders whose result is read as a dictionary have one entry per key.\<close>

definition env_wf :: "py_env \<Rightarrow> bool" where
  "env_wf env \<longleftrightarrow> (\<forall>raw v. loads env raw = Inr v \<longrightarrow> json_wf v)"

text \<open>An interpreter for examples: every text decodes to one given document.\<close>

definition sample_env :: "json \<Rightarrow> py_env" where
  "sample_env doc =
     \<lparr>loads = (\<lambda>_. Inr doc), loads_str = (\<lambda>_. Inr doc), dump_depth = 100, b64decode = (\<lambda>s. Inr s),
      netloc_nfkc_ok = (\<lambda>_. True), bracketed_host_ok = (\<lambda>_. True), unicode_alnum = (\<lambda>_. False),
      sha256_hex = (\<lambda>s. s)\<rparr>"

section \<open>Facts\<close>

lemma jget_simps [simp]:
  "jget [] k = JNull"
  "jget ((k', v) # d) k = (if k' = k then v else jget d k)"
  by (simp_all add: jget_def)

lemma jget_update [simp]: "jget (AList.update k v d) k' = (if k' = k then v else jget d k')"
  by (simp add: jget_def)

lemma jget_delete [simp]: "jget (AList.delete k d) k' = (if k' = k then JNull else jget d k')"
  by (simp add: jget_def)

lemma jget_absent: "\<not> has_key d k \<Longrightarrow> jget d k = JNull"
  by (simp add: jget_def has_key_map_of)

lemma jget_present: "jget d k \<noteq> JNull \<Longrightarrow> has_key d k"
  using jget_absent by fastforce

lemma jget_wf: "json_wf (JObj d) \<Longrightarrow> json_wf (jget d k)"
  by (auto simp: jget_def split: option.splits dest!: map_of_SomeD)

lemma json_eq_refl: "json_wf v \<Longrightarrow> json_eq v v"
proof (induction v)
  case (JArr xs)
  then show ?case by (auto intro: list.rel_refl_strong)
next
  case (JObj d)
  have "json_eq v v" if "(k, v) \<in> set d" for k v
    using JObj that by (force intro: JObj.IH [of "(k, v)"])
  with JObj.prems show ?case by auto
qed auto

lemma json_eq_Str [simp]: "json_eq (JStr s) v \<longleftrightarrow> v = JStr s"
  by (cases v) auto

lemma in_frozenset_total: "is_str v \<or> v = JNull \<Longrightarrow> \<exists>b. in_frozenset v names = Inr b"
  by (cases v) auto

lemma in_frozenset_True [simp]: "in_frozenset v names = Inr True \<longleftrightarrow> (\<exists>s. v = JStr s \<and> s \<in> set names)"
  by (cases v) auto

lemma in_tuple_iff [simp]: "in_tuple v names \<longleftrightarrow> (\<exists>s. v = JStr s \<and> s \<in> set names)"
  by (cases v) auto

lemma nonempty_str_iff: "nonempty_str v \<longleftrightarrow> (\<exists>s. v = JStr s \<and> s \<noteq> [])"
  by (cases v) auto

lemma is_str_iff: "is_str v \<longleftrightarrow> (\<exists>s. v = JStr s)"
  by (cases v) auto

lemma is_obj_iff: "is_obj v \<longleftrightarrow> (\<exists>d. v = JObj d)"
  by (cases v) auto

lemma is_arr_iff: "is_arr v \<longleftrightarrow> (\<exists>xs. v = JArr xs)"
  by (cases v) auto

lemma as_str_Some [simp]: "as_str v = Some s \<longleftrightarrow> v = JStr s"
  by (cases v) auto

lemma as_arr_Some [simp]: "as_arr v = Some xs \<longleftrightarrow> v = JArr xs"
  by (cases v) auto

lemma as_obj_Some [simp]: "as_obj v = Some d \<longleftrightarrow> v = JObj d"
  by (cases v) auto

lemma as_str_None: "as_str v = None \<longleftrightarrow> (\<forall>s. v \<noteq> JStr s)"
  by (cases v) auto

lemma as_arr_None: "as_arr v = None \<longleftrightarrow> (\<forall>xs. v \<noteq> JArr xs)"
  by (cases v) auto

lemma as_obj_None: "as_obj v = None \<longleftrightarrow> (\<forall>d. v \<noteq> JObj d)"
  by (cases v) auto

lemmas as_None = as_str_None as_arr_None as_obj_None

lemmas json_kind_iffs = nonempty_str_iff is_str_iff is_obj_iff is_arr_iff

end
