(* ===== verification/Url.thy ===== *)
theory Url
  imports Json
begin

text \<open>
  The part of \<open>urllib.parse\<close> the proxy relies on: \<open>urlsplit\<close> with the derived \<open>hostname\<close>, \<open>port\<close>,
  \<open>username\<close> and \<open>password\<close>, and whitespace of Python strings.  Used by the image check of
  \<open>protocol/replay/content.py\<close>.
\<close>

record split_url =
  url_scheme :: string
  url_netloc :: string
  url_path :: string
  url_query :: string
  url_fragment :: string

definition point_isspace :: "nat \<Rightarrow> bool" where
  "point_isspace n \<longleftrightarrow>
     9 \<le> n \<and> n \<le> 13 \<or> 28 \<le> n \<and> n \<le> 32 \<or> n \<in> {133, 160, 5760, 8232, 8233, 8239, 8287, 12288} \<or>
     8192 \<le> n \<and> n \<le> 8202"

text \<open>\<open>any(character.isspace() for character in s)\<close>.\<close>

definition any_isspace :: "string \<Rightarrow> bool" where
  "any_isspace s \<longleftrightarrow> (\<exists>n \<in> set (code_points s). point_isspace n)"

definition is_alpha :: "char \<Rightarrow> bool" where
  "is_alpha c \<longleftrightarrow> (65 \<le> (of_char c :: nat) \<and> of_char c \<le> (90 :: nat)) \<or> (97 \<le> (of_char c :: nat) \<and> of_char c \<le> (122 :: nat))"

definition is_digit :: "char \<Rightarrow> bool" where
  "is_digit c \<longleftrightarrow> 48 \<le> (of_char c :: nat) \<and> of_char c \<le> (57 :: nat)"

definition scheme_char :: "char \<Rightarrow> bool" where
  "scheme_char c \<longleftrightarrow> is_alpha c \<or> is_digit c \<or> c \<in> {CHR ''+'', CHR ''-'', CHR ''.''}"

definition is_ascii :: "string \<Rightarrow> bool" where
  "is_ascii s \<longleftrightarrow> (\<forall>c \<in> set s. (of_char c :: nat) < 128)"

text \<open>Leading control characters and spaces go, and every tab, carriage return and line feed.\<close>

definition strip_url :: "string \<Rightarrow> string" where
  "strip_url s =
     filter (\<lambda>c. c \<notin> {CHR 9, CHR 10, CHR 13}) (dropWhile (\<lambda>c. (of_char c :: nat) \<le> 32) s)"

definition split_scheme :: "string \<Rightarrow> string \<times> string" where
  "split_scheme s = (case partition_at (CHR '':'') s of (head, found, rest) \<Rightarrow>
     if found \<and> head \<noteq> [] \<and> is_alpha (hd head) \<and> (\<forall>c \<in> set head. scheme_char c)
     then (lower head, rest) else ([], s))"

definition split_netloc :: "string \<Rightarrow> string \<times> string" where
  "split_netloc s =
     (if take 2 s = ''//''
      then (takeWhile (\<lambda>c. c \<notin> {CHR ''/'', CHR ''?'', CHR ''#''}) (drop 2 s),
            dropWhile (\<lambda>c. c \<notin> {CHR ''/'', CHR ''?'', CHR ''#''}) (drop 2 s))
      else ([], s))"

definition bracketed_host :: "string \<Rightarrow> string" where
  "bracketed_host netloc = fst (partition_at (CHR '']'') (snd (snd (partition_at (CHR ''['') netloc))))"

definition netloc_valid :: "py_env \<Rightarrow> string \<Rightarrow> bool" where
  "netloc_valid env netloc \<longleftrightarrow>
     (CHR ''['' \<in> set netloc \<longleftrightarrow> CHR '']'' \<in> set netloc) \<and>
     (CHR ''['' \<in> set netloc \<longrightarrow> bracketed_host_ok env (bracketed_host netloc)) \<and>
     (netloc = [] \<or> is_ascii netloc \<or> netloc_nfkc_ok env netloc)"

definition urlsplit :: "py_env \<Rightarrow> string \<Rightarrow> split_url res" where
  "urlsplit env raw =
     (let (scheme, rest) = split_scheme (strip_url raw);
          (netloc, rest1) = split_netloc rest;
          (rest2, _, fragment) = partition_at (CHR ''#'') rest1;
          (path, _, query) = partition_at (CHR ''?'') rest2
      in if netloc_valid env netloc
         then Inr \<lparr>url_scheme = scheme, url_netloc = netloc, url_path = path, url_query = query,
                   url_fragment = fragment\<rparr>
         else Inl (ValueError ''netloc''))"

text \<open>\<open>netloc.rpartition('@')\<close>: the part before the last \<open>@\<close>, if there is one, and the part after it.\<close>

definition rpartition_at :: "char \<Rightarrow> string \<Rightarrow> string option \<times> string" where
  "rpartition_at c s =
     (case partition_at c (rev s) of (tail, found, front) \<Rightarrow>
        if found then (Some (rev front), rev tail) else (None, s))"

definition url_hostinfo :: "split_url \<Rightarrow> string \<times> string option" where
  "url_hostinfo u =
     (let hostinfo = snd (rpartition_at (CHR ''@'') (url_netloc u));
          (_, bracket, bracketed) = partition_at (CHR ''['') hostinfo;
          (host, port) =
            (if bracket
             then (case partition_at (CHR '']'') bracketed of (h, _, rest) \<Rightarrow>
                     (h, snd (snd (partition_at (CHR '':'') rest))))
             else (case partition_at (CHR '':'') hostinfo of (h, _, p) \<Rightarrow> (h, p)))
      in (host, if port = [] then None else Some port))"

definition url_hostname :: "split_url \<Rightarrow> string option" where
  "url_hostname u =
     (let host = fst (url_hostinfo u) in
      if host = [] then None
      else case partition_at (CHR ''%'') host of (h, found, zone) \<Rightarrow>
        Some (lower h @ (if found then ''%'' else []) @ zone))"

definition nat_of_digits :: "string \<Rightarrow> nat" where
  "nat_of_digits s = foldl (\<lambda>n c. 10 * n + (of_char c - 48)) 0 s"

text \<open>Whether reading \<open>parsed.port\<close> raises.\<close>

definition port_valid :: "split_url \<Rightarrow> bool" where
  "port_valid u =
     (case snd (url_hostinfo u) of
        None \<Rightarrow> True
      | Some p \<Rightarrow> (\<forall>c \<in> set p. is_digit c) \<and> nat_of_digits p \<le> 65535)"

definition url_userinfo :: "split_url \<Rightarrow> string option \<times> string option" where
  "url_userinfo u =
     (case fst (rpartition_at (CHR ''@'') (url_netloc u)) of
        None \<Rightarrow> (None, None)
      | Some info \<Rightarrow> (case partition_at (CHR '':'') info of (name, found, pass) \<Rightarrow>
          (Some name, if found then Some pass else None)))"

end
