(* ===== verification/Cooldown.thy ===== *)
theory Cooldown
  imports Complex_Main Url
begin

text \<open>
  \<open>relay/cooldown.py\<close>: the bounded cache of failures with their expiry, shared by every request of
  the process, and the interpretation of \<open>Retry-After\<close>.  Each operation runs under one lock and is
  one function on the cache; \<open>moment\<close> is the monotonic clock in seconds.
\<close>

type_synonym failures = "rat dict"

definition RATE_LIMIT_FALLBACK_SECONDS :: int where
  "RATE_LIMIT_FALLBACK_SECONDS = 5"

definition RATE_LIMIT_MAX_SECONDS :: int where
  "RATE_LIMIT_MAX_SECONDS = 300"

section \<open>The cache\<close>

definition purge_expired :: "rat \<Rightarrow> failures \<Rightarrow> failures" where
  "purge_expired now st = filter (\<lambda>p. \<not> snd p \<le> now) st"

definition evict_oldest :: "nat \<Rightarrow> failures \<Rightarrow> failures" where
  "evict_oldest capacity st =
     (let oldest = map fst (sort_key snd st)
      in fold AList.delete (take (length oldest - max 1 capacity) oldest) st)"

definition remember_failure :: "string \<Rightarrow> nat \<Rightarrow> int \<Rightarrow> rat \<Rightarrow> failures \<Rightarrow> failures" where
  "remember_failure key capacity cooldown_seconds moment st =
     (let st1 = purge_expired moment st;
          previous = (case map_of st1 key of Some e \<Rightarrow> e | None \<Rightarrow> moment)
      in evict_oldest capacity (AList.update key (max previous (moment + of_int cooldown_seconds)) st1))"

definition remaining :: "string \<Rightarrow> rat \<Rightarrow> failures \<Rightarrow> rat \<times> failures" where
  "remaining key moment st =
     (let st1 = purge_expired moment st
      in (case map_of st1 key of None \<Rightarrow> 0 | Some e \<Rightarrow> max 0 (e - moment), st1))"

definition provider_key :: "string \<Rightarrow> string" where
  "provider_key provider = ''provider:'' @ provider"

definition unavailable_key :: "string \<Rightarrow> string" where
  "unavailable_key provider = ''unavailable:'' @ provider"

section \<open>Retry-After\<close>

text \<open>\<open>int(x)\<close> of a number: towards zero.\<close>

definition py_int :: "rat \<Rightarrow> int" where
  "py_int x = (if x \<ge> 0 then \<lfloor>x\<rfloor> else - \<lfloor>- x\<rfloor>)"

definition strip_points :: "nat list \<Rightarrow> nat list" where
  "strip_points ns = rev (dropWhile point_isspace (rev (dropWhile point_isspace ns)))"

definition decimal_points :: "nat list \<Rightarrow> bool" where
  "decimal_points ns \<longleftrightarrow> ns \<noteq> [] \<and> list_all (\<lambda>n. 48 \<le> n \<and> n \<le> 57) ns"

definition points_value :: "nat list \<Rightarrow> int" where
  "points_value ns = foldl (\<lambda>v n. 10 * v + (int n - 48)) 0 ns"

text \<open>
  \<open>date_delay raw\<close> is the time to the date \<open>parsedate_to_datetime\<close> reads, in seconds, \<open>None\<close> when it
  raises.
\<close>

definition retry_after_seconds :: "(string \<Rightarrow> rat option) \<Rightarrow> string option \<Rightarrow> int" where
  "retry_after_seconds date_delay retry_after =
     (let raw = (case retry_after of Some s \<Rightarrow> s | None \<Rightarrow> []);
          ns = strip_points (code_points raw);
          seconds =
            (if decimal_points ns
             then let significant = dropWhile (\<lambda>n. n = 48) ns
                  in if length significant > 3 then RATE_LIMIT_MAX_SECONDS else points_value significant
             else (case date_delay raw of None \<Rightarrow> 0 | Some d \<Rightarrow> py_int (d + 999 / 1000)))
      in if seconds \<le> 0 then RATE_LIMIT_FALLBACK_SECONDS else min seconds RATE_LIMIT_MAX_SECONDS)"

text \<open>
  Whatever the upstream says, the cooldown it can impose lies between one second and five
  minutes.
\<close>

theorem retry_after_bounded:
  "1 \<le> retry_after_seconds date_delay retry_after \<and> retry_after_seconds date_delay retry_after \<le> 300"
proof -
  define s where "s = (let raw = (case retry_after of Some s \<Rightarrow> s | None \<Rightarrow> []);
          ns = strip_points (code_points raw) in
            if decimal_points ns
             then let significant = dropWhile (\<lambda>n. n = 48) ns
                  in if length significant > 3 then RATE_LIMIT_MAX_SECONDS else points_value significant
             else (case date_delay raw of None \<Rightarrow> 0 | Some d \<Rightarrow> py_int (d + 999 / 1000)))"
  have "retry_after_seconds date_delay retry_after =
      (if s \<le> 0 then RATE_LIMIT_FALLBACK_SECONDS else min s RATE_LIMIT_MAX_SECONDS)"
    by (simp add: retry_after_seconds_def s_def Let_def)
  then show ?thesis
    by (simp add: RATE_LIMIT_FALLBACK_SECONDS_def RATE_LIMIT_MAX_SECONDS_def)
qed

section \<open>Eviction\<close>

lemma fold_delete_filter: "fold AList.delete ks d = filter (\<lambda>p. fst p \<notin> set ks) d"
proof (induction ks arbitrary: d)
  case (Cons k ks)
  have "AList.delete k d = filter (\<lambda>p. fst p \<noteq> k) d"
    by (auto simp: AList.delete_eq intro: filter_cong)
  with Cons show ?case by (auto intro: filter_cong)
qed simp

lemma evict_oldest_eq:
  assumes "distinct_keys st"
  shows "evict_oldest capacity st =
     filter (\<lambda>p. p \<notin> set (take (length st - max 1 capacity) (sort_key snd st))) st"
proof -
  let ?xs = "take (length st - max 1 capacity) (sort_key snd st)"
  have sub: "set ?xs \<subseteq> set st" using set_take_subset by fastforce
  have inj: "fst p \<in> fst ` set ?xs \<longleftrightarrow> p \<in> set ?xs" if "p \<in> set st" for p
    using assms sub that by (auto simp: distinct_map inj_on_def)
  show ?thesis
    unfolding evict_oldest_def Let_def fold_delete_filter
    by (rule filter_cong [OF refl]) (use inj in \<open>simp add: take_map\<close>)
qed

lemma distinct_snd_sort: "distinct_keys st \<Longrightarrow> distinct (sort_key snd st)"
  by (simp add: distinct_map)

lemma length_filter_notin:
  assumes "distinct xs" "set ys \<subseteq> set xs" "distinct ys"
  shows "length (filter (\<lambda>x. x \<notin> set ys) xs) = length xs - length ys"
proof -
  have "set (filter (\<lambda>x. x \<notin> set ys) xs) = set xs - set ys" by auto
  moreover have "distinct (filter (\<lambda>x. x \<notin> set ys) xs)" using assms(1) by simp
  ultimately have "length (filter (\<lambda>x. x \<notin> set ys) xs) = card (set xs - set ys)"
    by (metis distinct_card)
  also have "\<dots> = card (set xs) - card (set ys)" by (rule card_Diff_subset) (use assms(2) in auto)
  finally show ?thesis using assms(1,3) by (simp add: distinct_card)
qed

lemma evict_length:
  assumes "distinct_keys st"
  shows "length (evict_oldest capacity st) = min (length st) (max 1 capacity)"
proof -
  let ?xs = "take (length st - max 1 capacity) (sort_key snd st)"
  have d: "distinct (sort_key snd st)" by (rule distinct_snd_sort [OF assms])
  have "length (evict_oldest capacity st) = length st - length ?xs"
    unfolding evict_oldest_eq [OF assms]
    by (rule length_filter_notin) (use assms d set_take_subset in \<open>auto simp: distinct_map dest: in_set_takeD\<close>)
  then show ?thesis by simp
qed

text \<open>An evicted entry expires no later than any entry that stays.\<close>

lemma evict_order:
  assumes "distinct_keys st" "p \<in> set st" "p \<notin> set (evict_oldest capacity st)"
    and "q \<in> set (evict_oldest capacity st)"
  shows "snd p \<le> snd q"
proof -
  let ?n = "length st - max 1 capacity" and ?s = "sort_key snd st"
  from assms have p: "p \<in> set (take ?n ?s)" and q: "q \<in> set st" "q \<notin> set (take ?n ?s)"
    by (auto simp: evict_oldest_eq)
  from q have "q \<in> set (drop ?n ?s)"
    by (metis Un_iff append_take_drop_id set_append set_sort)
  moreover have "sorted (map snd (take ?n ?s) @ map snd (drop ?n ?s))"
    by (simp flip: map_append)
  ultimately show ?thesis using p by (auto simp: sorted_append)
qed

lemma purge_distinct: "distinct_keys st \<Longrightarrow> distinct_keys (purge_expired now st)"
  by (auto simp: purge_expired_def distinct_map intro: inj_on_subset)

lemma update_distinct: "distinct_keys (st :: failures) \<Longrightarrow> distinct_keys (AList.update k v st)"
  by (rule distinct_update)

lemma evict_distinct: "distinct_keys st \<Longrightarrow> distinct_keys (evict_oldest capacity st)"
  by (auto simp: evict_oldest_eq distinct_map intro: inj_on_subset)

text \<open>The cache's invariant: one entry per key, and no more entries than the capacity.\<close>

definition cache_ok :: "nat \<Rightarrow> failures \<Rightarrow> bool" where
  "cache_ok capacity st \<longleftrightarrow> distinct_keys st \<and> length st \<le> max 1 capacity"

lemma remember_failure_eq:
  obtains v where "v \<ge> moment + of_int cooldown_seconds"
    "remember_failure key capacity cooldown_seconds moment st =
       evict_oldest capacity (AList.update key v (purge_expired moment st))"
proof (rule that)
  let ?p = "case map_of (purge_expired moment st) key of Some e \<Rightarrow> e | None \<Rightarrow> moment"
  show "max ?p (moment + of_int cooldown_seconds) \<ge> moment + of_int cooldown_seconds" by simp
  show "remember_failure key capacity cooldown_seconds moment st =
      evict_oldest capacity (AList.update key (max ?p (moment + of_int cooldown_seconds)) (purge_expired moment st))"
    by (simp only: remember_failure_def Let_def)
qed

lemma update_mem:
  assumes "distinct_keys st" "p \<in> set (AList.update k v st)"
  shows "p = (k, v) \<or> p \<in> set st"
proof -
  have "map_of (AList.update k v st) (fst p) = Some (snd p)"
    using map_of_is_SomeI [OF distinct_update [OF assms(1)], of "fst p" "snd p"] assms(2) by simp
  then show ?thesis by (cases p) (auto split: if_splits dest: map_of_SomeD)
qed

lemma length_update_le: "length (AList.update k v st) \<le> Suc (length st)"
  by (induction st) auto

text \<open>
  Recording a failure keeps the cache within its capacity whatever it held before, and
  leaves only entries that have not expired.
\<close>

theorem remember_failure_bounded:
  assumes "distinct_keys st" "0 < cooldown_seconds"
  shows "cache_ok capacity (remember_failure key capacity cooldown_seconds moment st) \<and>
    (\<forall>p \<in> set (remember_failure key capacity cooldown_seconds moment st). snd p > moment)"
proof -
  obtain v where v: "v \<ge> moment + of_int cooldown_seconds" and
    eq: "remember_failure key capacity cooldown_seconds moment st =
       evict_oldest capacity (AList.update key v (purge_expired moment st))"
    by (rule remember_failure_eq)
  have d1: "distinct_keys (purge_expired moment st)" by (rule purge_distinct [OF assms(1)])
  have d: "distinct_keys (AList.update key v (purge_expired moment st))" by (rule distinct_update [OF d1])
  have "moment < moment + of_int cooldown_seconds" using assms(2) by simp
  with v have "moment < v" by linarith
  then have "snd p > moment" if "p \<in> set (AList.update key v (purge_expired moment st))" for p
    using update_mem [OF d1 that] by (auto simp: purge_expired_def)
  moreover have "set (evict_oldest capacity (AList.update key v (purge_expired moment st)))
      \<subseteq> set (AList.update key v (purge_expired moment st))"
    by (auto simp: evict_oldest_eq [OF d])
  ultimately show ?thesis
    unfolding eq using evict_distinct [OF d] evict_length [OF d] by (auto simp: cache_ok_def)
qed

theorem remember_failure_bounded_witness:
  "cache_ok 1 (remember_failure ''b'' 1 30 10 [(''a'', 20)]) \<and>
   list_all (\<lambda>p. snd p > 10) (remember_failure ''b'' 1 30 10 [(''a'', 20)])"
  using remember_failure_bounded [of "[(''a'', 20)]" 30 1 "''b''" 10] by (simp add: list_all_iff)

lemma evict_room: "length st \<le> max 1 capacity \<Longrightarrow> evict_oldest capacity st = st"
  by (simp add: evict_oldest_def)

lemma purge_keeps:
  assumes "distinct_keys st" "map_of st k = Some e" "now < e"
  shows "map_of (purge_expired now st) k = Some e"
proof (rule map_of_is_SomeI [OF purge_distinct [OF assms(1)]])
  show "(k, e) \<in> set (purge_expired now st)"
    using map_of_SomeD [OF assms(2)] assms(3) by (simp add: purge_expired_def)
qed

text \<open>
  While the cache has room, a recorded failure is in force for at least its cooldown: at
  any later moment the remaining time reaches at least to the end of the cooldown just recorded, so
  recording again never shortens one.
\<close>

theorem remaining_after_remember:
  assumes "distinct_keys st" "length st < max 1 capacity" "later < moment + of_int cooldown_seconds"
  shows "fst (remaining key later (remember_failure key capacity cooldown_seconds moment st)) \<ge>
           moment + of_int cooldown_seconds - later"
proof -
  obtain v where v: "v \<ge> moment + of_int cooldown_seconds" and
    eq: "remember_failure key capacity cooldown_seconds moment st =
       evict_oldest capacity (AList.update key v (purge_expired moment st))"
    by (rule remember_failure_eq)
  let ?st = "AList.update key v (purge_expired moment st)"
  have d: "distinct_keys ?st" by (rule distinct_update [OF purge_distinct [OF assms(1)]])
  have "length ?st \<le> Suc (length (purge_expired moment st))" by (rule length_update_le)
  also have "\<dots> \<le> max 1 capacity"
    using assms(2) length_filter_le [of "\<lambda>p. \<not> snd p \<le> moment" st]
    unfolding purge_expired_def by linarith
  finally have "remember_failure key capacity cooldown_seconds moment st = ?st"
    unfolding eq by (rule evict_room)
  moreover from assms(3) v have "map_of (purge_expired later ?st) key = Some v"
    by (intro purge_keeps [OF d]) auto
  ultimately show ?thesis
    using v by (simp add: remaining_def Let_def)
qed

theorem remaining_after_remember_witness:
  "fst (remaining ''b'' 15 (remember_failure ''b'' 8 30 10 [(''a'', 20)])) \<ge> 10 + of_int 30 - 15"
  by (rule remaining_after_remember) simp_all

end
