(* ===== verification/Items.thy ===== *)
theory Items
  imports Json
begin

text \<open>
  \<open>protocol/replay/items.py\<close>: the classification of Responses input items and the request-local
  owner of tool-call relationships, \<open>ToolRelationships\<close>.  The second half specifies when a
  history of observations is free of issues and shows that the owner reports exactly that.
\<close>

section \<open>Item policies\<close>

datatype projection_strategy =
    MESSAGE | AGENT_MESSAGE | CALL | OUTPUT | TOOL_CATALOG | COMPACTION_TRIGGER
  | DROP_REASONING | DROP_REFERENCE | DROP_SEARCH | DROP_AUXILIARY | DROP_LOCAL_TOOL | SCHEMA_DRIFT

record item_policy =
  projection :: projection_strategy
  paired_output :: "string option"
  argument_field :: "string option"

definition rejection_reason :: "item_policy \<Rightarrow> string" where
  "rejection_reason p = (if projection p = SCHEMA_DRIFT then ''schema_drift'' else '''')"

definition policy :: "projection_strategy \<Rightarrow> string option \<Rightarrow> string option \<Rightarrow> item_policy" where
  "policy s out arg = \<lparr>projection = s, paired_output = out, argument_field = arg\<rparr>"

definition SCHEMA_DRIFT_TYPES :: "string list" where
  "SCHEMA_DRIFT_TYPES =
     [''apply_patch_call'', ''apply_patch_call_output'', ''code_interpreter_call'',
      ''computer_call'', ''computer_call_output'', ''file_search_call'',
      ''local_shell_call_output'', ''mcp_approval_request'', ''mcp_approval_response'',
      ''mcp_call'', ''mcp_list_tools'', ''program'', ''program_output'', ''shell_call'',
      ''shell_call_output'']"

definition ITEM_POLICIES :: "item_policy dict" where
  "ITEM_POLICIES =
     [(''message'', policy MESSAGE None None),
      (''agent_message'', policy AGENT_MESSAGE None None),
      (''additional_tools'', policy TOOL_CATALOG None None),
      (''reasoning'', policy DROP_REASONING None None),
      (''item_reference'', policy DROP_REFERENCE None None),
      (''compaction'', policy DROP_REFERENCE None None),
      (''context_compaction'', policy DROP_REFERENCE None None),
      (''web_search_call'', policy DROP_SEARCH None None),
      (''tool_search_call'', policy DROP_SEARCH (Some ''tool_search_output'') None),
      (''tool_search_output'', policy DROP_SEARCH None None),
      (''image_generation_call'', policy DROP_AUXILIARY None None),
      (''local_shell_call'', policy DROP_LOCAL_TOOL (Some ''function_call_output'') None),
      (''function_call'', policy CALL (Some ''function_call_output'') (Some ''arguments'')),
      (''function_call_output'', policy OUTPUT None None),
      (''custom_tool_call'', policy CALL (Some ''custom_tool_call_output'') (Some ''input'')),
      (''custom_tool_call_output'', policy OUTPUT None None),
      (''compaction_trigger'', policy COMPACTION_TRIGGER None None)]
     @ map (\<lambda>t. (t, policy SCHEMA_DRIFT None None)) SCHEMA_DRIFT_TYPES"

fun classify_item :: "json \<Rightarrow> item_policy option" where
  "classify_item (JStr t) = map_of ITEM_POLICIES t"
| "classify_item _ = None"

fun is_current_turn_control :: "json \<Rightarrow> bool" where
  "is_current_turn_control (JObj item) =
     (case classify_item (jget item ''type'') of
        None \<Rightarrow> False
      | Some p \<Rightarrow> projection p = TOOL_CATALOG \<or> projection p = COMPACTION_TRIGGER)"
| "is_current_turn_control _ = False"

fun item_type_label :: "json \<Rightarrow> string" where
  "item_type_label (JStr t) = (if has_key ITEM_POLICIES t then t else ''unknown'')"
| "item_type_label _ = ''unknown''"

definition item_types :: "string list" where
  "item_types = map fst ITEM_POLICIES"

definition PAIRED_OUTPUTS :: "string list" where
  "PAIRED_OUTPUTS = List.map_filter (\<lambda>p. paired_output (snd p)) ITEM_POLICIES"

definition call_argument_fields :: "string dict" where
  "call_argument_fields =
     List.map_filter (\<lambda>p. map_option (\<lambda>f. (fst p, f)) (argument_field (snd p))) ITEM_POLICIES"

section \<open>Tool relationships\<close>

datatype relationship_issue =
    NoIssue | Missing_call_id | Duplicate_call | Output_before_call
  | Mismatched_output_type | Duplicate_output

fun issue_text :: "relationship_issue \<Rightarrow> string" where
  "issue_text NoIssue = ''''"
| "issue_text Missing_call_id = ''missing_call_id''"
| "issue_text Duplicate_call = ''duplicate_call''"
| "issue_text Output_before_call = ''output_before_call''"
| "issue_text Mismatched_output_type = ''mismatched_output_type''"
| "issue_text Duplicate_output = ''duplicate_output''"

record tool_relationships =
  calls :: "string dict"
  call_names :: "string dict"
  outputs :: "string set"
  output_ids :: "string set"
  delivery_ids :: "string set"
  flags :: "string set"

definition new_relationships :: tool_relationships where
  "new_relationships =
     \<lparr>calls = [], call_names = [], outputs = {}, output_ids = {}, delivery_ids = {}, flags = {}\<rparr>"

definition add_flag :: "string \<Rightarrow> tool_relationships \<Rightarrow> tool_relationships" where
  "add_flag f st = st\<lparr>flags := insert f (flags st)\<rparr>"

text \<open>The guard of \<open>_admit_delivery\<close>; the caller records the delivery identity when it holds.\<close>

definition admits_delivery :: "tool_relationships \<Rightarrow> string \<Rightarrow> json \<Rightarrow> json \<Rightarrow> bool" where
  "admits_delivery st call_id name item_id \<longleftrightarrow>
     map_of (calls st) call_id \<in> {Some ''function_call'', Some ''custom_tool_call''} \<and>
     (case as_str name of Some n \<Rightarrow> map_of (call_names st) call_id = Some n | None \<Rightarrow> False) \<and>
     (case as_str item_id of Some i \<Rightarrow> i \<noteq> [] \<and> i \<notin> output_ids st | None \<Rightarrow> False)"

definition admit_delivery ::
  "tool_relationships \<Rightarrow> string \<Rightarrow> json \<Rightarrow> json \<Rightarrow> bool \<times> tool_relationships" where
  "admit_delivery st call_id name item_id =
     (if admits_delivery st call_id name item_id
      then (True, case as_str item_id of Some i \<Rightarrow> st\<lparr>delivery_ids := insert i (delivery_ids st)\<rparr> | None \<Rightarrow> st)
      else (False, st))"

definition observe_call ::
  "tool_relationships \<Rightarrow> string \<Rightarrow> string \<Rightarrow> json \<Rightarrow> relationship_issue \<times> tool_relationships" where
  "observe_call st item_type call_id name =
     (if has_key (calls st) call_id then (Duplicate_call, add_flag ''duplicate_calls'' st)
      else
        let st1 = st\<lparr>calls := AList.update call_id item_type (calls st)\<rparr>
        in (NoIssue,
            case as_str name of
              Some n \<Rightarrow> if n \<noteq> [] then st1\<lparr>call_names := AList.update call_id n (call_names st1)\<rparr> else st1
            | None \<Rightarrow> st1))"

definition observe_output ::
  "tool_relationships \<Rightarrow> string \<Rightarrow> string \<Rightarrow> json \<Rightarrow> json \<Rightarrow> relationship_issue \<times> tool_relationships" where
  "observe_output st item_type call_id name item_id =
     (let duplicate = (call_id \<in> outputs st);
          st1 = st\<lparr>outputs := insert call_id (outputs st)\<rparr>
      in case map_of (calls st1) call_id of
           None \<Rightarrow> (Output_before_call, add_flag ''outputs_before_calls'' st1)
         | Some call \<Rightarrow>
             if Option.bind (map_of ITEM_POLICIES call) paired_output \<noteq> Some item_type
             then (Mismatched_output_type, add_flag ''mismatched_output_types'' st1)
             else if (case as_str item_id of Some i \<Rightarrow> i \<in> output_ids st1 | None \<Rightarrow> False)
             then (Duplicate_output, add_flag ''duplicate_outputs'' st1)
             else
               let (admitted, st2) =
                     (if duplicate then admit_delivery st1 call_id name item_id else (True, st1))
               in if \<not> admitted then (Duplicate_output, add_flag ''duplicate_outputs'' st2)
                  else
                    let st3 = (case as_str item_id of
                                 Some i \<Rightarrow> if i \<noteq> [] then st2\<lparr>output_ids := insert i (output_ids st2)\<rparr> else st2
                               | None \<Rightarrow> st2)
                    in (NoIssue, add_flag ''matched_pairs'' st3))"

definition observe ::
  "tool_relationships \<Rightarrow> json \<Rightarrow> json \<Rightarrow> json \<Rightarrow> json \<Rightarrow> relationship_issue \<times> tool_relationships" where
  "observe st item_type call_id name item_id =
     (case as_str item_type of
        Some t \<Rightarrow>
          (case map_of ITEM_POLICIES t of
             None \<Rightarrow> (NoIssue, st)
           | Some p \<Rightarrow>
               if paired_output p = None \<and> t \<notin> set PAIRED_OUTPUTS then (NoIssue, st)
               else (case as_str call_id of
                   Some c \<Rightarrow>
                     if c = [] then (Missing_call_id, add_flag ''missing_call_ids'' st)
                     else if paired_output p \<noteq> None then observe_call st t c name
                     else observe_output st t c name item_id
                 | None \<Rightarrow> (Missing_call_id, add_flag ''missing_call_ids'' st)))
      | None \<Rightarrow> (NoIssue, st))"

fun is_delivery :: "tool_relationships \<Rightarrow> json \<Rightarrow> bool" where
  "is_delivery st (JStr i) = (i \<in> delivery_ids st)"
| "is_delivery st _ = False"

fun call_type :: "tool_relationships \<Rightarrow> json \<Rightarrow> string option" where
  "call_type st (JStr c) = map_of (calls st) c"
| "call_type st _ = None"

definition has_pending_call :: "tool_relationships \<Rightarrow> string \<Rightarrow> bool" where
  "has_pending_call st item_type \<longleftrightarrow> (\<exists>p \<in> set (calls st). snd p = item_type \<and> fst p \<notin> outputs st)"

definition diagnostic_flags :: "tool_relationships \<Rightarrow> string set" where
  "diagnostic_flags st =
     flags st
     \<union> (if set (map fst (calls st)) \<subseteq> outputs st then {} else {''unmatched_calls''})
     \<union> (if outputs st \<subseteq> set (map fst (calls st)) then {} else {''unmatched_outputs''})"

section \<open>Specification of a well-formed history\<close>

text \<open>
  An observation is the item's type, call identity, name and item identity.  A history is
  well formed when every call has a fresh nonempty identity, and every output follows the call
  it answers, has the declared kind, repeats no item identity, and, when the call is answered
  already, is a named delivery: a function or custom tool call, the call's own nonempty name, a
  nonempty item identity.
\<close>

type_synonym observation = "json \<times> json \<times> json \<times> json"

definition paired_kind :: "string \<Rightarrow> string option" where
  "paired_kind t = Option.bind (map_of ITEM_POLICIES t) paired_output"

definition call_kind :: "string \<Rightarrow> bool" where
  "call_kind t \<longleftrightarrow> paired_kind t \<noteq> None"

definition output_kind :: "string \<Rightarrow> bool" where
  "output_kind t \<longleftrightarrow> t \<in> set PAIRED_OUTPUTS \<and> paired_kind t = None"

definition declares :: "observation \<Rightarrow> string \<Rightarrow> string \<Rightarrow> bool" where
  "declares ob c k \<longleftrightarrow> call_kind k \<and> fst ob = JStr k \<and> fst (snd ob) = JStr c"

definition names :: "observation \<Rightarrow> string \<Rightarrow> string \<Rightarrow> bool" where
  "names ob c n \<longleftrightarrow> (\<exists>k. declares ob c k) \<and> fst (snd (snd ob)) = JStr n \<and> n \<noteq> []"

definition answers :: "observation \<Rightarrow> string \<Rightarrow> bool" where
  "answers ob c \<longleftrightarrow> (\<exists>t. output_kind t \<and> fst ob = JStr t) \<and> fst (snd ob) = JStr c"

definition carries_id :: "observation \<Rightarrow> string \<Rightarrow> bool" where
  "carries_id ob i \<longleftrightarrow> (\<exists>c. answers ob c) \<and> snd (snd (snd ob)) = JStr i \<and> i \<noteq> []"

definition delivery_of :: "observation list \<Rightarrow> string \<Rightarrow> json \<Rightarrow> json \<Rightarrow> bool" where
  "delivery_of h c name item_id \<longleftrightarrow>
     (\<exists>ob \<in> set h. declares ob c ''function_call'' \<or> declares ob c ''custom_tool_call'') \<and>
     (\<exists>n. name = JStr n \<and> (\<exists>ob \<in> set h. names ob c n)) \<and>
     (\<exists>i. item_id = JStr i \<and> i \<noteq> [])"

definition well_paired :: "observation list \<Rightarrow> observation \<Rightarrow> bool" where
  "well_paired h ob = (case ob of (ty, cid, name, item_id) \<Rightarrow>
     case as_str ty of Some t \<Rightarrow>
       if call_kind t
       then (\<exists>c. cid = JStr c \<and> c \<noteq> [] \<and> (\<forall>ob' \<in> set h. \<forall>k. \<not> declares ob' c k))
       else if output_kind t
       then (\<exists>c. cid = JStr c \<and> c \<noteq> [] \<and>
               (\<exists>ob' \<in> set h. \<exists>k. declares ob' c k \<and> paired_kind k = Some t) \<and>
               (\<forall>i. item_id = JStr i \<longrightarrow> (\<forall>ob' \<in> set h. \<not> carries_id ob' i)) \<and>
               ((\<exists>ob' \<in> set h. answers ob' c) \<longrightarrow> delivery_of h c name item_id))
       else True
     | None \<Rightarrow> True)"

definition well_formed_history :: "observation list \<Rightarrow> bool" where
  "well_formed_history obs \<longleftrightarrow> (\<forall>i < length obs. well_paired (take i obs) (obs ! i))"

definition observe_obs :: "tool_relationships \<Rightarrow> observation \<Rightarrow> relationship_issue \<times> tool_relationships" where
  "observe_obs st ob = (case ob of (ty, cid, name, item_id) \<Rightarrow> observe st ty cid name item_id)"

text \<open>Observing in order until the first issue.\<close>

fun run_until_issue :: "('s \<Rightarrow> 'o \<Rightarrow> relationship_issue \<times> 's) \<Rightarrow> 's \<Rightarrow> 'o list \<Rightarrow> 's option" where
  "run_until_issue step st [] = Some st"
| "run_until_issue step st (ob # obs) =
     (case step st ob of (issue, st') \<Rightarrow>
        if issue = NoIssue then run_until_issue step st' obs else None)"

abbreviation observe_all :: "tool_relationships \<Rightarrow> observation list \<Rightarrow> tool_relationships option" where
  "observe_all \<equiv> run_until_issue observe_obs"

text \<open>The owner's state stands for an issue-free history.\<close>

definition represents :: "tool_relationships \<Rightarrow> observation list \<Rightarrow> bool" where
  "represents st h \<longleftrightarrow>
     (\<forall>c k. map_of (calls st) c = Some k \<longleftrightarrow> (\<exists>ob \<in> set h. declares ob c k)) \<and>
     (\<forall>c n. map_of (call_names st) c = Some n \<longleftrightarrow> (\<exists>ob \<in> set h. names ob c n)) \<and>
     (\<forall>c. c \<in> outputs st \<longleftrightarrow> (\<exists>ob \<in> set h. answers ob c)) \<and>
     (\<forall>i. i \<in> output_ids st \<longleftrightarrow> (\<exists>ob \<in> set h. carries_id ob i))"

lemma represents_new: "represents new_relationships []"
  by (simp add: represents_def new_relationships_def)

lemma call_output_exclusive: "call_kind t \<Longrightarrow> \<not> output_kind t"
  by (simp add: call_kind_def output_kind_def)

lemma PAIRED_OUTPUTS_eq:
  "PAIRED_OUTPUTS = [''tool_search_output'', ''function_call_output'', ''function_call_output'', ''custom_tool_call_output'']"
  by (simp add: PAIRED_OUTPUTS_def ITEM_POLICIES_def policy_def List.map_filter_simps
      SCHEMA_DRIFT_TYPES_def)

lemma paired_outputs_known: "t \<in> set PAIRED_OUTPUTS \<Longrightarrow> map_of ITEM_POLICIES t \<noteq> None"
  unfolding PAIRED_OUTPUTS_eq by (elim set_ConsD [elim_format] disjE; simp add: ITEM_POLICIES_def)

lemma observe_call_kind:
  "call_kind t \<Longrightarrow> observe st (JStr t) cid name item_id =
     (case as_str cid of Some c \<Rightarrow>
        if c = [] then (Missing_call_id, add_flag ''missing_call_ids'' st) else observe_call st t c name
      | None \<Rightarrow> (Missing_call_id, add_flag ''missing_call_ids'' st))"
  by (auto simp: observe_def call_kind_def paired_kind_def split: option.splits
      Option.bind_splits)

lemma observe_output_kind:
  "output_kind t \<Longrightarrow> observe st (JStr t) cid name item_id =
     (case as_str cid of Some c \<Rightarrow>
        if c = [] then (Missing_call_id, add_flag ''missing_call_ids'' st)
        else observe_output st t c name item_id
      | None \<Rightarrow> (Missing_call_id, add_flag ''missing_call_ids'' st))"
  using paired_outputs_known [of t]
  by (auto simp: observe_def output_kind_def paired_kind_def split: option.splits
      Option.bind_splits)

lemma observe_other_kind:
  "\<not> call_kind t \<Longrightarrow> \<not> output_kind t \<Longrightarrow> observe st (JStr t) cid name item_id = (NoIssue, st)"
  by (auto simp: observe_def call_kind_def output_kind_def paired_kind_def
      split: option.splits Option.bind_splits)

lemma observe_non_string:
  "\<not> is_str ty \<Longrightarrow> observe st ty cid name item_id = (NoIssue, st)"
  by (cases ty) (auto simp: observe_def)

lemma admits_delivery_iff:
  assumes "represents st h" "\<forall>i. item_id = JStr i \<longrightarrow> i \<notin> output_ids st"
  shows "admits_delivery st c name item_id \<longleftrightarrow> delivery_of h c name item_id"
  using assms
  by (auto simp: admits_delivery_def delivery_of_def represents_def split: option.splits)

lemma observe_call_issue:
  assumes "represents st h"
  shows "fst (observe_call st t c name) = NoIssue \<longleftrightarrow> (\<forall>ob \<in> set h. \<forall>k. \<not> declares ob c k)"
  using assms by (auto simp: observe_call_def has_key_map_of represents_def Let_def)

lemma observe_output_issue:
  "fst (observe_output st t c name item_id) = NoIssue \<longleftrightarrow>
     (\<exists>k. map_of (calls st) c = Some k \<and> paired_kind k = Some t) \<and>
     (\<forall>i. item_id = JStr i \<longrightarrow> i \<notin> output_ids st) \<and>
     (c \<in> outputs st \<longrightarrow> admits_delivery st c name item_id)"
proof (cases "map_of (calls st) c")
  case None
  then show ?thesis by (simp add: observe_output_def Let_def)
next
  case (Some k)
  show ?thesis
  proof (cases "paired_kind k = Some t \<and> (\<forall>i. item_id = JStr i \<longrightarrow> i \<notin> output_ids st)")
    case True
    with Some show ?thesis
      by (auto simp: observe_output_def Let_def paired_kind_def admit_delivery_def admits_delivery_def
          split: option.splits)
  next
    case False
    with Some show ?thesis
      by (auto simp: observe_output_def Let_def paired_kind_def split: option.splits)
  qed
qed

lemma observe_call_state:
  assumes "fst (observe_call st t c name) = NoIssue"
  shows "calls (snd (observe_call st t c name)) = AList.update c t (calls st)"
    and "map_of (call_names (snd (observe_call st t c name))) =
           (case as_str name of Some n \<Rightarrow> if n \<noteq> [] then (map_of (call_names st))(c \<mapsto> n) else map_of (call_names st)
            | None \<Rightarrow> map_of (call_names st))"
    and "outputs (snd (observe_call st t c name)) = outputs st"
    and "output_ids (snd (observe_call st t c name)) = output_ids st"
  using assms by (auto simp: observe_call_def Let_def fun_eq_iff split: option.splits if_splits)

lemma observe_output_state:
  assumes "fst (observe_output st t c name item_id) = NoIssue"
  shows "calls (snd (observe_output st t c name item_id)) = calls st"
    and "call_names (snd (observe_output st t c name item_id)) = call_names st"
    and "outputs (snd (observe_output st t c name item_id)) = insert c (outputs st)"
    and "output_ids (snd (observe_output st t c name item_id)) =
           output_ids st \<union> {i. item_id = JStr i \<and> i \<noteq> []}"
  using assms
  by (auto simp: observe_output_def Let_def add_flag_def admit_delivery_def
      split: option.splits if_splits option.splits prod.splits)

lemma represents_call:
  assumes "represents st h" "call_kind t" "c \<noteq> []"
    and ok: "fst (observe_call st t c name) = NoIssue"
  shows "represents (snd (observe_call st t c name)) (h @ [(JStr t, JStr c, name, item_id)])"
proof -
  let ?ob = "(JStr t, JStr c, name, item_id)"
  have ob: "declares ?ob c' k \<longleftrightarrow> c' = c \<and> k = t"
    "names ?ob c' n \<longleftrightarrow> c' = c \<and> name = JStr n \<and> n \<noteq> []"
    "\<not> answers ?ob c'" "\<not> carries_id ?ob i" for c' k n i
    using assms(2) call_output_exclusive [of t]
    by (auto simp: declares_def names_def answers_def carries_id_def)
  from assms(1) ok have fresh: "\<forall>ob \<in> set h. \<forall>k. \<not> declares ob c k"
    by (simp add: observe_call_issue)
  then have "\<forall>ob \<in> set h. \<forall>n. \<not> names ob c n"
    by (auto simp: names_def)
  with fresh assms(1) show ?thesis
    unfolding represents_def observe_call_state [OF ok]
    by (auto simp: ob split: option.splits)
qed

lemma represents_output:
  assumes "represents st h" "output_kind t"
    and ok: "fst (observe_output st t c name item_id) = NoIssue"
  shows "represents (snd (observe_output st t c name item_id)) (h @ [(JStr t, JStr c, name, item_id)])"
proof -
  let ?ob = "(JStr t, JStr c, name, item_id)"
  have ob: "\<not> declares ?ob c' k" "\<not> names ?ob c' n" "answers ?ob c' \<longleftrightarrow> c' = c"
    "carries_id ?ob i \<longleftrightarrow> item_id = JStr i \<and> i \<noteq> []" for c' k n i
    using assms(2) call_output_exclusive [of t]
    by (auto simp: declares_def names_def answers_def carries_id_def)
  from assms(1) show ?thesis
    unfolding represents_def observe_output_state [OF ok]
    by (auto simp: ob)
qed

lemma represents_other:
  assumes "represents st h" "\<And>c k. \<not> declares ob c k" "\<And>c. \<not> answers ob c"
  shows "represents st (h @ [ob])"
proof -
  have "\<not> names ob c n" "\<not> carries_id ob i" for c n i
    using assms(2,3) by (simp_all add: names_def carries_id_def)
  with assms show ?thesis by (simp add: represents_def)
qed

text \<open>One observation: no issue is reported exactly when the history stays well formed.\<close>

lemma observe_step:
  assumes "represents st h"
  shows "fst (observe_obs st ob) = NoIssue \<longleftrightarrow> well_paired h ob"
    and "fst (observe_obs st ob) = NoIssue \<Longrightarrow> represents (snd (observe_obs st ob)) (h @ [ob])"
proof -
  obtain ty cid name iid where ob: "ob = (ty, cid, name, iid)" by (cases ob) auto
  have "(fst (observe_obs st ob) = NoIssue \<longleftrightarrow> well_paired h ob) \<and>
        (fst (observe_obs st ob) = NoIssue \<longrightarrow> represents (snd (observe_obs st ob)) (h @ [ob]))"
  proof (cases ty)
    case (JStr t)
    consider "call_kind t" | "output_kind t" | "\<not> call_kind t" "\<not> output_kind t" by blast
    then show ?thesis
    proof cases
      case 1
      then show ?thesis
        using assms observe_call_issue [OF assms] represents_call [OF assms 1]
        by (auto simp: ob JStr observe_obs_def observe_call_kind well_paired_def split: option.splits)
    next
      case 2
      have R: "(\<exists>k. map_of (calls st) c = Some k \<and> paired_kind k = Some t) \<longleftrightarrow>
               (\<exists>ob' \<in> set h. \<exists>k. declares ob' c k \<and> paired_kind k = Some t)"
        "i \<in> output_ids st \<longleftrightarrow> (\<exists>ob' \<in> set h. carries_id ob' i)"
        "c \<in> outputs st \<longleftrightarrow> (\<exists>ob' \<in> set h. answers ob' c)" for c i
        using assms by (auto simp: represents_def)
      have "fst (observe_output st t c name iid) = NoIssue \<longleftrightarrow>
            (\<exists>ob' \<in> set h. \<exists>k. declares ob' c k \<and> paired_kind k = Some t) \<and>
            (\<forall>i. iid = JStr i \<longrightarrow> (\<forall>ob' \<in> set h. \<not> carries_id ob' i)) \<and>
            ((\<exists>ob' \<in> set h. answers ob' c) \<longrightarrow> delivery_of h c name iid)" for c
        unfolding observe_output_issue R using admits_delivery_iff [OF assms, of iid c name]
        by (auto simp: R)
      with 2 call_output_exclusive [of t] show ?thesis
        using represents_output [OF assms 2]
        by (auto simp: ob JStr observe_obs_def observe_output_kind well_paired_def split: option.splits)
    next
      case 3
      with assms show ?thesis
        by (auto simp: ob JStr observe_obs_def observe_other_kind well_paired_def declares_def
            answers_def intro!: represents_other)
    qed
  qed (use assms in \<open>auto simp: ob observe_obs_def observe_non_string well_paired_def declares_def
        answers_def intro!: represents_other\<close>)
  then show "fst (observe_obs st ob) = NoIssue \<longleftrightarrow> well_paired h ob"
    and "fst (observe_obs st ob) = NoIssue \<Longrightarrow> represents (snd (observe_obs st ob)) (h @ [ob])"
    by blast+
qed

section \<open>The owner's contract\<close>

text \<open>
  What a client of a relationship owner relies on: a state represents the history observed so
  far, and a step reports no issue exactly on an acceptable observation.  Whole runs follow.
\<close>

lemma run_until_issue_append:
  "run_until_issue step st (xs @ ys) =
     Option.bind (run_until_issue step st xs) (\<lambda>st'. run_until_issue step st' ys)"
  by (induction xs arbitrary: st) (auto split: prod.splits)

locale issue_owner =
  fixes start :: 's
    and step :: "'s \<Rightarrow> 'o \<Rightarrow> relationship_issue \<times> 's"
    and abs_rel :: "'s \<Rightarrow> 'o list \<Rightarrow> bool"
    and acceptable :: "'o list \<Rightarrow> 'o \<Rightarrow> bool"
  assumes abs_start: "abs_rel start []"
    and step_issue: "abs_rel s h \<Longrightarrow> fst (step s ob) = NoIssue \<longleftrightarrow> acceptable h ob"
    and step_abs: "abs_rel s h \<Longrightarrow> fst (step s ob) = NoIssue \<Longrightarrow> abs_rel (snd (step s ob)) (h @ [ob])"
begin

lemma run_snoc:
  "run_until_issue step start (obs @ [ob]) = Some s' \<longleftrightarrow>
     (\<exists>s. run_until_issue step start obs = Some s \<and> fst (step s ob) = NoIssue \<and> s' = snd (step s ob))"
  by (cases "run_until_issue step start obs")
    (auto simp: run_until_issue_append case_prod_beta split: if_splits)

lemma run_abs: "run_until_issue step start obs = Some s \<Longrightarrow> abs_rel s obs"
proof (induction obs arbitrary: s rule: rev_induct)
  case Nil
  with abs_start show ?case by simp
next
  case (snoc ob obs)
  then show ?case unfolding run_snoc using step_abs by blast
qed

lemma run_accepts:
  "(\<exists>s. run_until_issue step start obs = Some s) \<longleftrightarrow>
     (\<forall>i < length obs. acceptable (take i obs) (obs ! i))"
proof (induction obs rule: rev_induct)
  case Nil
  show ?case by simp
next
  case (snoc ob obs)
  have "(\<exists>s. run_until_issue step start (obs @ [ob]) = Some s) \<longleftrightarrow>
        (\<exists>s. run_until_issue step start obs = Some s) \<and> acceptable obs ob"
    unfolding run_snoc using run_abs step_issue by blast
  with snoc.IH show ?case by (auto simp: nth_append less_Suc_eq)
qed

lemma run_suffix:
  "run_until_issue step start (xs @ ys) = Some s \<Longrightarrow> \<exists>s'. run_until_issue step start xs = Some s'"
  by (auto simp: run_until_issue_append Option.bind_eq_Some_conv)

end

interpretation relationships: issue_owner new_relationships observe_obs represents well_paired
  by unfold_locales (use represents_new observe_step in auto)

text \<open>
  Claim C32.  Over a whole request, the relationship owner reports no issue exactly when the history
  is well formed: fresh call identities, every output after its call and of its declared kind, no
  repeated output identity, later results only as named deliveries.
\<close>

theorem observe_all_iff_well_formed:
  "(\<exists>st. observe_all new_relationships obs = Some st) \<longleftrightarrow> well_formed_history obs"
  unfolding well_formed_history_def by (rule relationships.run_accepts)

section \<open>Invariant\<close>

text \<open>
  Kept by every observation, reported issue or not: one entry per call, every recorded call of a
  kind that has outputs, names only of recorded calls, deliveries among the output identities.
\<close>

definition relationships_inv :: "tool_relationships \<Rightarrow> bool" where
  "relationships_inv st \<longleftrightarrow>
     distinct (map fst (calls st)) \<and> (\<forall>p \<in> set (calls st). call_kind (snd p) \<and> fst p \<noteq> []) \<and>
     (\<forall>c. has_key (call_names st) c \<longrightarrow> has_key (calls st) c) \<and>
     delivery_ids st \<subseteq> output_ids st \<and> [] \<notin> output_ids st"

lemma relationships_inv_new: "relationships_inv new_relationships"
  by (simp add: relationships_inv_def new_relationships_def)

lemma update_append: "\<not> has_key d k \<Longrightarrow> AList.update k v d = d @ [(k, v)]"
  by (induction d) auto

lemma relationships_inv_call:
  assumes "relationships_inv st" "call_kind t" "c \<noteq> []"
  shows "relationships_inv (snd (observe_call st t c name))"
proof (cases "has_key (calls st) c")
  case True
  with assms show ?thesis by (simp add: observe_call_def relationships_inv_def add_flag_def)
next
  case False
  have "distinct (map fst (AList.update c t (calls st)))"
    using assms(1) by (simp add: relationships_inv_def distinct_update)
  moreover have "p \<in> set (AList.update c t (calls st)) \<longleftrightarrow> p = (c, t) \<or> p \<in> set (calls st)" for p
    using False by (auto simp: update_append)
  ultimately show ?thesis using assms False
    by (auto simp: observe_call_def relationships_inv_def Let_def split: option.splits)
qed

lemma relationships_inv_output:
  "relationships_inv st \<Longrightarrow> relationships_inv (snd (observe_output st t c name item_id))"
  by (auto simp: observe_output_def relationships_inv_def Let_def add_flag_def admit_delivery_def
      admits_delivery_def split: option.splits)

lemma relationships_inv_flag: "relationships_inv (add_flag f st) = relationships_inv st"
  by (simp add: relationships_inv_def add_flag_def)

text \<open>Every observation keeps the relationship invariant, whatever it reports.\<close>

theorem observe_keeps_invariant:
  assumes "relationships_inv st"
  shows "relationships_inv (snd (observe st item_type call_id name item_id))"
proof (cases item_type)
  case (JStr t)
  consider "call_kind t" | "output_kind t" | "\<not> call_kind t" "\<not> output_kind t" by blast
  then show ?thesis
    by cases (use assms relationships_inv_call relationships_inv_output in
      \<open>auto simp: JStr observe_call_kind observe_output_kind observe_other_kind relationships_inv_flag
         split: option.splits\<close>)
qed (use assms in \<open>simp_all add: observe_non_string\<close>)

theorem observe_keeps_invariant_witness:
  "relationships_inv (snd (observe new_relationships (JStr ''function_call'') (JStr ''c1'') (JStr ''f'') JNull))"
  by (rule observe_keeps_invariant) (simp add: relationships_inv_def new_relationships_def)

text \<open>A recorded call keeps its kind: no later item takes over its identity.\<close>

lemma observe_call_keeps:
  "map_of (calls st) c = Some k \<Longrightarrow> map_of (calls (snd (observe_call st t c' name))) c = Some k"
  by (auto simp: observe_call_def Let_def add_flag_def has_key_map_of split: option.splits)

lemma observe_output_calls: "calls (snd (observe_output st t c name item_id)) = calls st"
  by (auto simp: observe_output_def admit_delivery_def Let_def add_flag_def split: option.splits)

lemma observe_keeps_call:
  assumes "map_of (calls st) c = Some k"
  shows "map_of (calls (snd (observe st item_type call_id name item_id))) c = Some k"
proof (cases item_type)
  case (JStr t)
  consider "call_kind t" | "output_kind t" | "\<not> call_kind t" "\<not> output_kind t" by blast
  then show ?thesis
    by cases (use assms observe_call_keeps in
      \<open>auto simp: JStr observe_call_kind observe_output_kind observe_other_kind add_flag_def
         observe_output_calls split: option.splits\<close>)
qed (use assms in \<open>simp_all add: observe_non_string\<close>)

lemmas observe_kinds = observe_call_kind observe_output_kind observe_other_kind observe_non_string

section \<open>Example items\<close>

definition sample_items :: "json list" where
  "sample_items =
     [JObj [(''type'', JStr ''message''), (''role'', JStr ''user''), (''content'', JStr ''a'')],
      JObj [(''type'', JStr ''message''), (''role'', JStr ''user''), (''content'', JStr ''b'')]]"

definition sample_request :: json where
  "sample_request = JObj [(''input'', JArr sample_items)]"

abbreviation sample_raw :: bytes where
  "sample_raw \<equiv> replicate 200 (CHR ''x'')"

end
