(* ===== verification/Content.thy ===== *)
theory Content
  imports Url
begin

text \<open>
  \<open>protocol/replay/content.py\<close>: projection of message content to provider-neutral blocks
  (\<open>project_input_content\<close>) and to assistant text (\<open>project_assistant_text\<close>).  A raised
  \<open>ProjectionRejectedError\<close> is the left value \<open>reject reason\<close>.  The lemmas describe the closed
  grammar of what is let through and show that it is a fixed point of the projection.
\<close>

definition OPAQUE_CONTENT_MARKER :: string where
  "OPAQUE_CONTENT_MARKER = ''[opaque provider content omitted: not portable across providers]''"

definition DATA_IMAGE_HEADERS :: "string list" where
  "DATA_IMAGE_HEADERS =
     [''data:image/png;base64'', ''data:image/jpeg;base64'', ''data:image/webp;base64'',
      ''data:image/gif;base64'']"

fun is_replayable_image_url :: "py_env \<Rightarrow> json \<Rightarrow> bool" where
  "is_replayable_image_url env (JStr value) =
     (if value = [] \<or> any_isspace value then False
      else if lower (take 5 value) = ''data:''
      then (case partition_at (CHR '','') value of (header, separator, payload) \<Rightarrow>
              if \<not> separator \<or> lower header \<notin> set DATA_IMAGE_HEADERS then False
              else (case b64decode env payload of Inl _ \<Rightarrow> False | Inr decoded \<Rightarrow> decoded \<noteq> []))
      else (case urlsplit env value of
              Inl _ \<Rightarrow> False
            | Inr parsed \<Rightarrow>
                if url_scheme parsed \<notin> {''http'', ''https''} \<or> url_hostname parsed = None then False
                else port_valid parsed))"
| "is_replayable_image_url env _ = False"

definition text_block_value :: "jdict \<Rightarrow> json \<Rightarrow> string res" where
  "text_block_value typed block_type =
     res_bind
       (if block_type = JStr ''input_text''
        then
          if \<not> keys_within typed [''type'', ''text'', ''prompt_cache_breakpoint'']
          then reject ''invalid_text_block''
          else
            let cache_breakpoint = jget typed ''prompt_cache_breakpoint''
            in if cache_breakpoint \<noteq> JNull
                  \<and> \<not> json_eq cache_breakpoint (JObj [(''mode'', JStr ''explicit'')])
               then reject ''invalid_text_block''
               else Inr ()
        else
          if \<not> keys_within typed [''type'', ''text'', ''annotations'', ''logprobs'']
          then reject ''invalid_text_block''
          else if has_key typed ''annotations'' \<and> \<not> is_arr (jget typed ''annotations'')
          then reject ''invalid_text_block''
          else if has_key typed ''logprobs'' \<and> jget typed ''logprobs'' \<noteq> JNull
                  \<and> \<not> is_arr (jget typed ''logprobs'')
          then reject ''invalid_text_block''
          else Inr ())
       (\<lambda>_. case as_str (jget typed ''text'') of Some text \<Rightarrow> Inr text | None \<Rightarrow> reject ''invalid_text_block'')"

text \<open>Loop state of \<open>project_input_content\<close>.\<close>

record content_state =
  projected :: "json list"
  changed :: bool
  encrypted :: nat
  local_images :: nat

definition input_text_block :: "string \<Rightarrow> json" where
  "input_text_block text = JObj [(''type'', JStr ''input_text''), (''text'', JStr text)]"

definition image_block :: "py_env \<Rightarrow> jdict \<Rightarrow> content_state \<Rightarrow> content_state res" where
  "image_block env typed st =
     (if \<not> keys_within typed [''type'', ''image_url'', ''detail''] then reject ''invalid_image_block''
      else if \<not> is_replayable_image_url env (jget typed ''image_url'')
      then Inr (st\<lparr>local_images := local_images st + 1, changed := True\<rparr>)
      else
        let image = [(''type'', JStr ''input_image''), (''image_url'', jget typed ''image_url'')];
            detail = jget typed ''detail''
        in if detail = JNull then Inr (st\<lparr>projected := projected st @ [JObj image]\<rparr>)
           else if \<not> in_tuple detail [''low'', ''high'', ''auto'', ''original'']
           then reject ''invalid_image_detail''
           else Inr (st\<lparr>projected := projected st @ [JObj (image @ [(''detail'', detail)])]\<rparr>))"

definition input_block ::
  "py_env \<Rightarrow> bool \<Rightarrow> content_state \<Rightarrow> json \<Rightarrow> content_state res" where
  "input_block env allow_images st block =
     (case as_obj block of
        Some typed \<Rightarrow>
          (let block_type = jget typed ''type'' in
           if in_tuple block_type [''input_text'', ''output_text'']
           then res_bind (text_block_value typed block_type)
             (\<lambda>text. Inr (st\<lparr>projected := projected st @ [input_text_block text],
                changed := changed st \<or> \<not> keys_exactly typed [''type'', ''text'']
                           \<or> block_type \<noteq> JStr ''input_text''\<rparr>))
           else if block_type = JStr ''refusal''
           then (if \<not> keys_exactly typed [''type'', ''refusal''] \<or> \<not> is_str (jget typed ''refusal'')
                 then reject ''invalid_refusal_block'' else reject ''invalid_refusal_role'')
           else if block_type = JStr ''encrypted_content''
           then Inr (st\<lparr>encrypted := encrypted st + 1, changed := True\<rparr>)
           else if block_type = JStr ''input_image'' \<and> allow_images then image_block env typed st
           else reject ''unknown_content_type'')
      | None \<Rightarrow> reject ''invalid_content_block'')"

fun is_empty_text_block :: "json \<Rightarrow> bool" where
  "is_empty_text_block (JObj b) =
     (jget b ''type'' = JStr ''input_text'' \<and> jget b ''text'' = JStr [])"
| "is_empty_text_block _ = False"

definition marker_block :: json where
  "marker_block = input_text_block OPAQUE_CONTENT_MARKER"

definition finish_blocks ::
  "bool \<Rightarrow> content_state \<Rightarrow> (json \<times> bool \<times> nat \<times> nat \<times> nat) res" where
  "finish_blocks encrypted_marker st =
     (let only_empty_text = (projected st \<noteq> [] \<and> list_all is_empty_text_block (projected st))
      in if encrypted st > 0 \<and> encrypted_marker \<and> (projected st = [] \<or> only_empty_text)
         then Inr (JArr [marker_block], True, encrypted st, 1, local_images st)
         else if projected st = [] then reject ''empty_portable_content''
         else Inr (JArr (projected st), changed st, encrypted st, 0, local_images st))"

text \<open>\<open>project_input_content\<close>: content, whether it changed, and the three counters.\<close>

definition project_input_content ::
  "py_env \<Rightarrow> json \<Rightarrow> bool \<Rightarrow> bool \<Rightarrow> nat \<Rightarrow> (json \<times> bool \<times> nat \<times> nat \<times> nat) res" where
  "project_input_content env value allow_images encrypted_marker root_ciphertext =
     (case value of
        JStr s \<Rightarrow>
          if s \<noteq> [] then Inr (JStr s, root_ciphertext > 0, root_ciphertext, 0, 0)
          else if root_ciphertext > 0 \<and> encrypted_marker
          then Inr (JArr [marker_block], True, root_ciphertext, 1, 0)
          else reject ''empty_text_content''
      | JArr blocks \<Rightarrow>
          res_bind
            (res_fold (input_block env allow_images)
              \<lparr>projected = [], changed = False, encrypted = root_ciphertext, local_images = 0\<rparr> blocks)
            (finish_blocks encrypted_marker)
      | _ \<Rightarrow>
          if root_ciphertext > 0 \<and> value = JNull \<and> encrypted_marker
          then Inr (JArr [marker_block], True, root_ciphertext, 1, 0)
          else reject ''invalid_content'')"

text \<open>Loop of \<open>project_assistant_text\<close>: text parts, changed, encrypted.\<close>

definition assistant_block ::
  "string list \<times> bool \<times> nat \<Rightarrow> json \<Rightarrow> (string list \<times> bool \<times> nat) res" where
  "assistant_block st block = (case st of (text_parts, chg, enc) \<Rightarrow>
     case as_obj block of
        Some typed \<Rightarrow>
          (let block_type = jget typed ''type'' in
           if in_tuple block_type [''input_text'', ''output_text'']
           then res_bind (text_block_value typed block_type)
             (\<lambda>text. Inr (text_parts @ [text], True, enc))
           else if block_type = JStr ''refusal''
           then (case as_str (jget typed ''refusal'') of
                   Some refusal \<Rightarrow>
                     if \<not> keys_exactly typed [''type'', ''refusal''] then reject ''invalid_refusal_block''
                     else Inr (text_parts @ [refusal], True, enc)
                 | None \<Rightarrow> reject ''invalid_refusal_block'')
           else if block_type = JStr ''encrypted_content'' then Inr (text_parts, True, enc + 1)
           else if block_type = JStr ''input_image'' then reject ''unsupported_assistant_image''
           else reject ''unknown_content_type'')
      | None \<Rightarrow> reject ''invalid_content_block'')"

definition finish_assistant ::
  "bool \<Rightarrow> string list \<times> bool \<times> nat \<Rightarrow> (string \<times> bool \<times> nat \<times> nat) res" where
  "finish_assistant encrypted_marker st = (case st of (text_parts, chg, enc) \<Rightarrow>
     let text = concat text_parts in
     if text = [] \<and> enc > 0 \<and> encrypted_marker then Inr (OPAQUE_CONTENT_MARKER, chg, enc, 1)
     else if text = [] then reject ''empty_portable_content''
     else Inr (text, chg, enc, 0))"

definition project_assistant_text ::
  "json \<Rightarrow> bool \<Rightarrow> nat \<Rightarrow> (string \<times> bool \<times> nat \<times> nat) res" where
  "project_assistant_text value encrypted_marker root_ciphertext =
     (case value of
        JStr s \<Rightarrow>
          if s \<noteq> [] then Inr (s, False, root_ciphertext, 0)
          else if root_ciphertext > 0 \<and> encrypted_marker
          then Inr (OPAQUE_CONTENT_MARKER, True, root_ciphertext, 1)
          else reject ''empty_text_content''
      | JArr blocks \<Rightarrow>
          res_bind (res_fold assistant_block ([], root_ciphertext > 0, root_ciphertext) blocks)
            (finish_assistant encrypted_marker)
      | _ \<Rightarrow>
          if root_ciphertext > 0 \<and> value = JNull \<and> encrypted_marker
          then Inr (OPAQUE_CONTENT_MARKER, True, root_ciphertext, 1)
          else reject ''invalid_content'')"

fun empty_assistant_placeholder :: "json \<Rightarrow> bool" where
  "empty_assistant_placeholder (JArr [JObj typed]) =
     (jget typed ''type'' = JStr ''output_text'' \<and>
      (case text_block_value typed (JStr ''output_text'') of Inl _ \<Rightarrow> False | Inr text \<Rightarrow> text = []))"
| "empty_assistant_placeholder _ = False"

section \<open>The grammar of projected content\<close>

text \<open>A projected block: input text, or an image with a replayable address and a known detail.\<close>

fun portable_block :: "py_env \<Rightarrow> json \<Rightarrow> bool" where
  "portable_block env (JObj b) =
     ((\<exists>t. b = [(''type'', JStr ''input_text''), (''text'', JStr t)]) \<or>
      (\<exists>u. b = [(''type'', JStr ''input_image''), (''image_url'', u)] \<and> is_replayable_image_url env u) \<or>
      (\<exists>u d. b = [(''type'', JStr ''input_image''), (''image_url'', u), (''detail'', JStr d)] \<and>
              is_replayable_image_url env u \<and> d \<in> {''low'', ''high'', ''auto'', ''original''}))"
| "portable_block env _ = False"

fun portable_content :: "py_env \<Rightarrow> json \<Rightarrow> bool" where
  "portable_content env (JStr s) = (s \<noteq> [])"
| "portable_content env (JArr bs) = (bs \<noteq> [] \<and> (\<forall>b \<in> set bs. portable_block env b))"
| "portable_content env _ = False"

lemma OPAQUE_nonempty [simp]: "OPAQUE_CONTENT_MARKER \<noteq> []"
  by (simp add: OPAQUE_CONTENT_MARKER_def)

lemma portable_text_block [simp]: "portable_block env (input_text_block t)"
  by (simp add: input_text_block_def)

lemma input_block_portable:
  assumes "input_block env imgs st block = Inr st'" "\<forall>b \<in> set (projected st). portable_block env b"
  shows "\<forall>b \<in> set (projected st'). portable_block env b"
  using assms
  by (auto simp: input_block_def image_block_def Let_def split: option.splits if_splits)

lemma input_content_portable:
  assumes "project_input_content env value imgs mark root = Inr (content, chg, enc, marks, local)"
  shows "portable_content env content"
proof -
  have "\<forall>b \<in> set (projected st). portable_block env b"
    if "res_fold (input_block env imgs) s0 blocks = Inr st" "projected s0 = []" for s0 st blocks
    by (rule res_fold_invariant [where I = "\<lambda>st. \<forall>b \<in> set (projected st). portable_block env b", OF that(1)])
      (simp add: that(2), rule input_block_portable)
  with assms show ?thesis
    by (auto simp: project_input_content_def finish_blocks_def Let_def marker_block_def
        split: json.splits if_splits)
qed

text \<open>
  Claim C40.  Whatever input content is accepted, the projected content is a nonempty string or a
  nonempty list of portable blocks: no ciphertext, annotations, unknown fields, or unreplayable
  images remain.
\<close>

theorem project_input_content_portable:
  assumes "project_input_content env value imgs mark root = Inr (content, chg, enc, marks, local)"
  shows "portable_content env content"
  by (rule input_content_portable [OF assms])

theorem project_input_content_portable_witness:
  "project_input_content (sample_env JNull)
     (JArr [JObj [(''type'', JStr ''output_text''), (''text'', JStr ''hi''), (''annotations'', JArr [])],
            JObj [(''type'', JStr ''encrypted_content'')]]) True True 0
     = Inr (JArr [input_text_block ''hi''], True, 1, 0, 0) \<and>
   portable_content (sample_env JNull) (JArr [input_text_block ''hi''])"
proof
  show *: "project_input_content (sample_env JNull)
     (JArr [JObj [(''type'', JStr ''output_text''), (''text'', JStr ''hi''), (''annotations'', JArr [])],
            JObj [(''type'', JStr ''encrypted_content'')]]) True True 0
     = Inr (JArr [input_text_block ''hi''], True, 1, 0, 0)"
    by code_simp
  show "portable_content (sample_env JNull) (JArr [input_text_block ''hi''])"
    by (rule project_input_content_portable [OF *])
qed

lemma text_block_value_plain [simp]:
  "text_block_value [(''type'', JStr ''input_text''), (''text'', JStr t)] (JStr ''input_text'') = Inr t"
  by (simp add: text_block_value_def keys_within_def)

lemma input_block_text_fixed:
  "input_block env True st (JObj [(''type'', JStr ''input_text''), (''text'', JStr t)]) =
     Inr (st\<lparr>projected := projected st @ [JObj [(''type'', JStr ''input_text''), (''text'', JStr t)]]\<rparr>)"
  by (simp add: input_block_def input_text_block_def keys_exactly_def)

lemma input_block_image_fixed:
  assumes "is_replayable_image_url env u"
  shows "input_block env True st (JObj [(''type'', JStr ''input_image''), (''image_url'', u)]) =
     Inr (st\<lparr>projected := projected st @ [JObj [(''type'', JStr ''input_image''), (''image_url'', u)]]\<rparr>)"
  using assms by (simp add: input_block_def image_block_def)

lemma input_block_detail_fixed:
  assumes "is_replayable_image_url env u" "d \<in> {''low'', ''high'', ''auto'', ''original''}"
  shows "input_block env True st
       (JObj [(''type'', JStr ''input_image''), (''image_url'', u), (''detail'', JStr d)]) =
     Inr (st\<lparr>projected := projected st @
       [JObj [(''type'', JStr ''input_image''), (''image_url'', u), (''detail'', JStr d)]]\<rparr>)"
  using assms by (simp add: input_block_def image_block_def)

lemma input_block_fixed:
  assumes "portable_block env b"
  shows "input_block env True st b = Inr (st\<lparr>projected := projected st @ [b]\<rparr>)"
proof (cases b)
  case (JObj d)
  from assms have "portable_block env (JObj d)" by (simp only: JObj)
  then show ?thesis
    unfolding portable_block.simps JObj
    by (elim disjE exE conjE) (simp_all only: input_block_text_fixed input_block_image_fixed
        input_block_detail_fixed)
qed (use assms in simp_all)

lemma input_blocks_fixed:
  "\<forall>b \<in> set bs. portable_block env b \<Longrightarrow>
   res_fold (input_block env True) st bs = Inr (st\<lparr>projected := projected st @ bs\<rparr>)"
  by (induction bs arbitrary: st) (auto simp: input_block_fixed)

lemma input_content_fixed:
  assumes "portable_content env content"
  shows "project_input_content env content True mark 0 = Inr (content, False, 0, 0, 0)"
  using assms
  by (cases content)
    (auto simp: project_input_content_def input_blocks_fixed finish_blocks_def)

text \<open>
  Portable content is a fixed point: projecting it again returns it unchanged, with every
  counter zero.
\<close>

theorem project_input_content_fixed:
  assumes "portable_content env content"
  shows "project_input_content env content True mark 0 = Inr (content, False, 0, 0, 0)"
  by (rule input_content_fixed [OF assms])

theorem project_input_content_fixed_witness:
  "project_input_content (sample_env JNull) (JArr [input_text_block ''hi'']) True False 0 =
     Inr (JArr [input_text_block ''hi''], False, 0, 0, 0)"
  by (rule project_input_content_fixed) simp

lemma project_assistant_text_nonempty:
  "project_assistant_text value mark root = Inr (text, chg, enc, marks) \<Longrightarrow> text \<noteq> []"
  by (auto simp: project_assistant_text_def finish_assistant_def Let_def
      split: json.splits if_splits prod.splits)

lemma project_assistant_text_string [simp]:
  "s \<noteq> [] \<Longrightarrow> project_assistant_text (JStr s) mark root = Inr (s, False, root, 0)"
  by (simp add: project_assistant_text_def)

text \<open>The text parts a list of assistant blocks contributes, in order.\<close>

fun block_text :: "json \<Rightarrow> string" where
  "block_text (JObj b) =
     (if jget b ''type'' = JStr ''refusal'' then (case jget b ''refusal'' of JStr s \<Rightarrow> s | _ \<Rightarrow> [])
      else if jget b ''type'' = JStr ''encrypted_content'' then []
      else (case jget b ''text'' of JStr s \<Rightarrow> s | _ \<Rightarrow> []))"
| "block_text _ = []"

fun is_encrypted_block :: "json \<Rightarrow> bool" where
  "is_encrypted_block (JObj b) = (jget b ''type'' = JStr ''encrypted_content'')"
| "is_encrypted_block _ = False"

lemma text_block_value_text: "text_block_value b t = Inr s \<Longrightarrow> jget b ''text'' = JStr s"
  by (auto simp: text_block_value_def split: option.splits)

lemma assistant_block_cases:
  assumes "assistant_block (parts, chg, enc) b = Inr st'"
  obtains (plain) typed t s where "b = JObj typed" "jget typed ''type'' = JStr t"
      "t = ''input_text'' \<or> t = ''output_text''" "text_block_value typed (JStr t) = Inr s"
      "st' = (parts @ [s], True, enc)"
    | (refusal) typed s where "b = JObj typed" "jget typed ''type'' = JStr ''refusal''"
      "jget typed ''refusal'' = JStr s" "st' = (parts @ [s], True, enc)"
    | (encrypted) typed where "b = JObj typed" "jget typed ''type'' = JStr ''encrypted_content''"
      "st' = (parts, True, enc + 1)"
  using assms
  by (auto simp: assistant_block_def Let_def split: if_splits option.splits)

lemma assistant_block_step:
  assumes "assistant_block (parts, chg, enc) b = Inr (parts', chg', enc')"
  shows "concat parts' = concat parts @ block_text b \<and>
         enc' = enc + (if is_encrypted_block b then 1 else 0)"
  using assms
proof (cases rule: assistant_block_cases)
  case (plain typed t s)
  with text_block_value_text [OF plain(4)] show ?thesis by auto
qed auto

lemma assistant_blocks_text:
  "res_fold assistant_block (parts, chg, enc) bs = Inr (parts', chg', enc') \<Longrightarrow>
   concat parts' = concat parts @ concat (map block_text bs) \<and>
   enc' = enc + length (filter is_encrypted_block bs)"
proof (induction bs arbitrary: parts chg enc)
  case Nil
  then show ?case by simp
next
  case (Cons b bs)
  from Cons.prems obtain p1 c1 e1 where
    step: "assistant_block (parts, chg, enc) b = Inr (p1, c1, e1)" and
    rest: "res_fold assistant_block (p1, c1, e1) bs = Inr (parts', chg', enc')"
    by auto
  from Cons.IH [OF rest] assistant_block_step [OF step] show ?case by simp
qed

text \<open>
  Assistant history keeps exactly its readable text: the projected string is the
  concatenation of the text and refusal parts in order, and the encrypted counter is the number of
  ciphertext blocks.  Only when there is no text at all does the omission marker stand in.
\<close>

theorem project_assistant_text_concat:
  assumes "project_assistant_text (JArr blocks) mark root = Inr (text, chg, enc, marks)"
  shows "enc = root + length (filter is_encrypted_block blocks) \<and>
         (if marks = 0 then text = concat (map block_text blocks)
          else text = OPAQUE_CONTENT_MARKER \<and> concat (map block_text blocks) = [] \<and> enc > 0)"
proof -
  from assms obtain st where
    "res_fold assistant_block ([], root > 0, root) blocks = Inr st"
    "finish_assistant mark st = Inr (text, chg, enc, marks)"
    by (auto simp: project_assistant_text_def)
  moreover obtain parts chg' enc' where "st = (parts, chg', enc')" by (cases st)
  moreover from calculation have "enc' = enc"
    by (simp add: finish_assistant_def Let_def split: if_splits)
  ultimately have
    run: "res_fold assistant_block ([], root > 0, root) blocks = Inr (parts, chg', enc)" and
    fin: "finish_assistant mark (parts, chg', enc) = Inr (text, chg, enc, marks)"
    by simp_all
  from assistant_blocks_text [OF run]
  have "concat parts = concat (map block_text blocks)" "enc = root + length (filter is_encrypted_block blocks)"
    by simp_all
  with fin show ?thesis
    by (simp add: finish_assistant_def Let_def del: concat_eq_Nil_conv split: if_splits)
qed

theorem project_assistant_text_concat_witness:
  "(1 :: nat) = 0 + length (filter is_encrypted_block
       [JObj [(''type'', JStr ''refusal''), (''refusal'', JStr ''no'')], JObj [(''type'', JStr ''encrypted_content'')]]) \<and>
   ''no'' = concat (map block_text
       [JObj [(''type'', JStr ''refusal''), (''refusal'', JStr ''no'')], JObj [(''type'', JStr ''encrypted_content'')]])"
proof -
  have "project_assistant_text (JArr [JObj [(''type'', JStr ''refusal''), (''refusal'', JStr ''no'')],
      JObj [(''type'', JStr ''encrypted_content'')]]) True 0 = Inr (''no'', True, 1, 0)"
    by (simp add: project_assistant_text_def assistant_block_def finish_assistant_def text_block_value_def keys_exactly_def)
  from project_assistant_text_concat [OF this] show ?thesis by (simp only: simp_thms if_True)
qed

end
