(* ===== verification/Projection.thy ===== *)
theory Projection
  imports Items Content
begin

text \<open>
  \<open>protocol/replay/projection.py\<close>: the projection of one Responses request onto the
  provider-portable replay grammar, \<open>sanitize_responses_body\<close>.  Every raise is a left value;
  \<open>TypeError\<close> from hashing a list or dict is not caught by the code and stays visible.
\<close>

section \<open>Field vocabularies\<close>

definition EMPTY_TOOL_OUTPUT_MARKER :: string where
  "EMPTY_TOOL_OUTPUT_MARKER = ''[tool returned no textual output]''"

definition PROVIDER_BINDINGS :: "string list" where
  "PROVIDER_BINDINGS = [''previous_response_id'', ''conversation'', ''prompt_cache_key'']"

definition VALID_ROLES :: "string list" where
  "VALID_ROLES = [''user'', ''assistant'', ''developer'', ''system'']"

definition VALID_PHASES :: "string list" where
  "VALID_PHASES = [''commentary'', ''final_answer'']"

definition LOCAL_SHELL_STATUSES :: "string list" where
  "LOCAL_SHELL_STATUSES = [''completed'', ''in_progress'', ''incomplete'']"

definition LOCAL_SHELL_TIMEOUT_MAX :: int where
  "LOCAL_SHELL_TIMEOUT_MAX = 2 ^ 64 - 1"

definition LOCAL_SHELL_ACTION_FIELDS :: "string list" where
  "LOCAL_SHELL_ACTION_FIELDS =
     [''type'', ''command'', ''timeout_ms'', ''working_directory'', ''env'', ''user'']"

abbreviation METADATA_FIELD :: string where
  "METADATA_FIELD \<equiv> ''internal_chat_message_metadata_passthrough''"

definition MESSAGE_FIELDS :: "string list" where
  "MESSAGE_FIELDS =
     [''type'', ''id'', ''status'', ''role'', ''content'', ''phase'', ''name'', METADATA_FIELD]"

definition AGENT_FIELDS :: "string list" where
  "AGENT_FIELDS =
     [''type'', ''id'', ''status'', ''author'', ''recipient'', ''phase'', ''content'',
      ''encrypted_content'', METADATA_FIELD]"

definition CALL_FIELDS :: "string \<Rightarrow> string list" where
  "CALL_FIELDS item_type =
     [''type'', ''id'', ''status'', ''call_id'', ''name'',
      (case map_of call_argument_fields item_type of Some f \<Rightarrow> f | None \<Rightarrow> []),
      ''namespace'', ''caller'', METADATA_FIELD]
     @ (if item_type = ''function_call'' then [''encrypted_function_args''] else [])"

definition OUTPUT_FIELDS :: "string list" where
  "OUTPUT_FIELDS =
     [''type'', ''id'', ''status'', ''call_id'', ''name'', ''output'', ''caller'',
      ''encrypted_content'', METADATA_FIELD]"

definition FUNCTION_OUTPUT_FIELDS :: "string list" where
  "FUNCTION_OUTPUT_FIELDS = OUTPUT_FIELDS @ [''namespace'']"

definition DETACHED_DELIVERY_FIELDS :: "string list" where
  "DETACHED_DELIVERY_FIELDS = [''type'', ''id'', ''name'', ''namespace'', ''output'', METADATA_FIELD]"

definition TOOL_CATALOG_FIELDS :: "string list" where
  "TOOL_CATALOG_FIELDS = [''type'', ''id'', ''role'', ''tools'']"

section \<open>Metrics and results\<close>

text \<open>
  The per-item counters (an entry the source leaves out is 0), the counters over a request's
  input, and \<open>ProjectionMetrics\<close>.
\<close>

record item_metrics =
  im_changed :: nat
  im_item_ids :: nat
  im_encrypted_blocks :: nat
  im_omission_markers :: nat
  im_local_image_items :: nat
  im_empty_tool_outputs :: nat

record input_metrics =
  reasoning_items :: nat
  reference_items :: nat
  search_items :: nat
  item_ids :: nat
  encrypted_blocks :: nat
  omission_markers :: nat
  local_image_items :: nat
  empty_tool_outputs :: nat
  changed_items :: nat

record projection_metrics = input_metrics +
  provider_bindings :: nat
  store_normalized :: bool
  include_trimmed :: bool

definition no_input_metrics :: input_metrics where
  "no_input_metrics =
     \<lparr>reasoning_items = 0, reference_items = 0, search_items = 0, item_ids = 0, encrypted_blocks = 0,
      omission_markers = 0, local_image_items = 0, empty_tool_outputs = 0, changed_items = 0\<rparr>"

definition no_projection_metrics :: projection_metrics where
  "no_projection_metrics =
     \<lparr>reasoning_items = 0, reference_items = 0, search_items = 0, item_ids = 0, encrypted_blocks = 0,
      omission_markers = 0, local_image_items = 0, empty_tool_outputs = 0, changed_items = 0,
      provider_bindings = 0, store_normalized = False, include_trimmed = False\<rparr>"

definition any_metric :: "input_metrics \<Rightarrow> bool" where
  "any_metric m \<longleftrightarrow>
     reasoning_items m > 0 \<or> reference_items m > 0 \<or> search_items m > 0 \<or> item_ids m > 0 \<or>
     encrypted_blocks m > 0 \<or> omission_markers m > 0 \<or> local_image_items m > 0 \<or>
     empty_tool_outputs m > 0 \<or> changed_items m > 0"

record projection_result =
  body :: "bytes option"
  status :: string
  metrics :: projection_metrics
  reason :: "string option"

definition bool_text :: "bool \<Rightarrow> string" where
  "bool_text b = (if b then ''True'' else ''False'')"

definition diagnostic :: "projection_result \<Rightarrow> string" where
  "diagnostic r =
     (if status r = ''rejected''
      then ''rejected '' @ (case reason r of Some s \<Rightarrow> if s = [] then ''unknown'' else s | None \<Rightarrow> ''unknown'')
      else if status r = ''clean'' then ''clean portable_replay''
      else
        let m = metrics r in
        ''projected provider_bindings='' @ nat_text (provider_bindings m)
        @ '' reasoning_items='' @ nat_text (reasoning_items m)
        @ '' reference_items='' @ nat_text (reference_items m)
        @ '' search_items='' @ nat_text (search_items m)
        @ '' item_ids='' @ nat_text (item_ids m)
        @ '' encrypted_blocks='' @ nat_text (encrypted_blocks m)
        @ '' omission_markers='' @ nat_text (omission_markers m)
        @ '' local_image_items='' @ nat_text (local_image_items m)
        @ '' empty_tool_outputs='' @ nat_text (empty_tool_outputs m)
        @ '' store_normalized='' @ bool_text (store_normalized m)
        @ '' include_trimmed='' @ bool_text (include_trimmed m))"

section \<open>Items\<close>

definition unknown_fields :: "jdict \<Rightarrow> string list \<Rightarrow> string \<Rightarrow> unit res" where
  "unknown_fields item allowed why = (if keys_within item allowed then Inr () else reject why)"

fun valid_caller :: "json \<Rightarrow> bool" where
  "valid_caller JNull = True"
| "valid_caller (JObj value) =
     (if jget value ''type'' = JStr ''direct'' then keys_exactly value [''type'']
      else jget value ''type'' = JStr ''program'' \<and> keys_exactly value [''type'', ''caller_id'']
           \<and> nonempty_str (jget value ''caller_id''))"
| "valid_caller _ = False"

definition id_count :: "jdict \<Rightarrow> nat" where
  "id_count item = (if has_key item ''id'' then 1 else 0)"

definition metrics_of :: "bool \<Rightarrow> nat \<Rightarrow> nat \<Rightarrow> nat \<Rightarrow> nat \<Rightarrow> item_metrics" where
  "metrics_of chg ids enc marks local =
     \<lparr>im_changed = (if chg then 1 else 0), im_item_ids = ids, im_encrypted_blocks = enc,
      im_omission_markers = marks, im_local_image_items = local, im_empty_tool_outputs = 0\<rparr>"

definition finish_message ::
  "jdict \<Rightarrow> json \<Rightarrow> bool \<Rightarrow> nat \<Rightarrow> nat \<Rightarrow> nat \<Rightarrow> json option \<times> item_metrics" where
  "finish_message item content chg enc marks local =
     (let phase = jget item ''phase'';
          message = [(''type'', JStr ''message''), (''role'', jget item ''role''), (''content'', content)]
                    @ (if phase \<noteq> JNull then [(''phase'', phase)] else [])
      in (Some (JObj message),
          metrics_of (chg \<or> \<not> json_eq (JObj message) (JObj item)) (id_count item) enc marks local))"

definition project_message :: "py_env \<Rightarrow> jdict \<Rightarrow> (json option \<times> item_metrics) res" where
  "project_message env item =
     res_bind (unknown_fields item MESSAGE_FIELDS ''unknown_message_field'') (\<lambda>_.
     let role = jget item ''role''; phase = jget item ''phase''; content = jget item ''content'' in
     res_bind (in_frozenset role VALID_ROLES) (\<lambda>role_ok.
     if \<not> role_ok then reject ''invalid_message_role'' else
     res_bind (if phase = JNull then Inr True
               else if role \<noteq> JStr ''assistant'' then Inr False
               else in_frozenset phase VALID_PHASES) (\<lambda>phase_ok.
     if \<not> phase_ok then reject ''invalid_message_phase''
     else if role = JStr ''assistant''
     then
       if empty_assistant_placeholder content
       then Inr (None, metrics_of True (id_count item) 0 0 0)
       else res_bind (project_assistant_text content False 0) (\<lambda>(text, chg, enc, marks).
              Inr (finish_message item (JStr text) chg enc marks 0))
     else res_bind (project_input_content env content True False 0) (\<lambda>(value, chg, enc, marks, local).
            Inr (finish_message item value chg enc marks local)))))"

text \<open>The ciphertexts of an agent message, root field first.\<close>

fun block_ciphertexts :: "json list \<Rightarrow> json list res" where
  "block_ciphertexts [] = Inr []"
| "block_ciphertexts (b # bs) =
     (case as_obj b of
        Some block \<Rightarrow>
          if jget block ''type'' = JStr ''encrypted_content''
          then if \<not> keys_exactly block [''type'', ''encrypted_content''] then reject ''invalid_encrypted_content''
               else res_bind (block_ciphertexts bs) (\<lambda>cs. Inr (jget block ''encrypted_content'' # cs))
          else block_ciphertexts bs
      | None \<Rightarrow> block_ciphertexts bs)"

definition agent_ciphertext :: "jdict \<Rightarrow> nat res" where
  "agent_ciphertext item =
     res_bind
       (case as_arr (jget item ''content'') of Some blocks \<Rightarrow> block_ciphertexts blocks | None \<Rightarrow> Inr [])
       (\<lambda>from_blocks.
          let ciphertext = (if has_key item ''encrypted_content'' then [jget item ''encrypted_content''] else [])
                           @ from_blocks
          in if list_all nonempty_str ciphertext then Inr (length ciphertext)
             else reject ''invalid_encrypted_content'')"

definition line_feed :: string where
  "line_feed = [CHR 10]"

definition assistant_message :: "json \<Rightarrow> string \<Rightarrow> json" where
  "assistant_message phase content =
     JObj [(''type'', JStr ''message''), (''role'', JStr ''assistant''), (''phase'', phase),
           (''content'', JStr content)]"

text \<open>\<open>json.dumps\<close> of a header is the text of a flat object of strings, so it cannot raise.\<close>

definition project_agent_message :: "jdict \<Rightarrow> (json option \<times> item_metrics) res" where
  "project_agent_message item =
     res_bind (unknown_fields item AGENT_FIELDS ''unknown_agent_message_field'') (\<lambda>_.
     let author = jget item ''author''; recipient = jget item ''recipient'';
         phase = (if has_key item ''phase'' then jget item ''phase'' else JStr ''commentary'') in
     if \<not> (nonempty_str author \<and> nonempty_str recipient) then reject ''invalid_agent_message'' else
     res_bind (in_frozenset phase VALID_PHASES) (\<lambda>phase_ok.
     if \<not> phase_ok then reject ''invalid_agent_phase'' else
     res_bind (agent_ciphertext item) (\<lambda>ciphertext.
     let root_ciphertext = (if has_key item ''encrypted_content'' then 1 else 0) in
     res_bind (project_assistant_text (jget item ''content'') True root_ciphertext)
       (\<lambda>(content, _, enc, marks).
     if ciphertext > 0
     then
       let native = filter (\<lambda>p. fst p \<noteq> METADATA_FIELD \<and> fst p \<noteq> ''status'') item
       in Inr (Some (JObj native), metrics_of (\<not> json_eq (JObj native) (JObj item)) 0 0 0 0)
     else
       let header = json_text False (JObj [(''type'', JStr ''agent_message''), (''author'', author),
                                           (''recipient'', recipient)])
       in Inr (Some (assistant_message phase (header @ line_feed @ content)),
               metrics_of True (id_count item) enc marks 0)))))"

definition encrypted_args_ok :: "jdict \<Rightarrow> bool" where
  "encrypted_args_ok item \<longleftrightarrow>
     (has_key item ''encrypted_function_args'' \<longrightarrow>
        (case as_arr (jget item ''encrypted_function_args'') of
           Some args \<Rightarrow> list_all nonempty_str args | None \<Rightarrow> False))"

definition projected_call :: "jdict \<Rightarrow> string \<Rightarrow> string \<Rightarrow> jdict" where
  "projected_call item item_type arg_field =
     [(''type'', JStr item_type), (''call_id'', jget item ''call_id''), (''name'', jget item ''name''),
      (arg_field, jget item arg_field)]
     @ (if jget item ''namespace'' \<noteq> JNull then [(''namespace'', jget item ''namespace'')] else [])
     @ (if jget item ''caller'' \<noteq> JNull then [(''caller'', jget item ''caller'')] else [])
     @ (if has_key item ''encrypted_function_args''
        then [(''encrypted_function_args'', jget item ''encrypted_function_args'')] else [])"

definition project_call ::
  "jdict \<Rightarrow> string \<Rightarrow> string \<Rightarrow> tool_relationships \<Rightarrow> (json option \<times> item_metrics \<times> tool_relationships) res" where
  "project_call item item_type arg_field rel =
     res_bind (unknown_fields item (CALL_FIELDS item_type) ''unknown_call_field'') (\<lambda>_.
     case observe rel (JStr item_type) (jget item ''call_id'') (jget item ''name'') JNull of (issue, rel') \<Rightarrow>
     if issue \<noteq> NoIssue then reject ''invalid_call_id''
     else if \<not> nonempty_str (jget item ''name'') \<or> \<not> is_str (jget item arg_field)
     then reject ''invalid_call''
     else if jget item ''namespace'' \<noteq> JNull \<and> \<not> nonempty_str (jget item ''namespace'')
     then reject ''invalid_namespace''
     else if \<not> valid_caller (jget item ''caller'') then reject ''invalid_caller''
     else if \<not> encrypted_args_ok item then reject ''invalid_encrypted_function_args''
     else
       let call = projected_call item item_type arg_field
       in Inr (Some (JObj call), metrics_of (\<not> json_eq (JObj call) (JObj item)) (id_count item) 0 0 0, rel'))"

definition LOCAL_SHELL_CALL_FIELDS :: "string list" where
  "LOCAL_SHELL_CALL_FIELDS = [''type'', ''id'', ''call_id'', ''status'', ''action'', METADATA_FIELD]"

fun valid_timeout :: "json \<Rightarrow> bool" where
  "valid_timeout JNull = True"
| "valid_timeout (JInt i) = (0 \<le> i \<and> i \<le> LOCAL_SHELL_TIMEOUT_MAX)"
| "valid_timeout _ = False"

definition valid_commands :: "json \<Rightarrow> bool" where
  "valid_commands v =
     (case as_arr v of Some commands \<Rightarrow> commands \<noteq> [] \<and> list_all nonempty_str commands | None \<Rightarrow> False)"

definition valid_environment :: "json \<Rightarrow> bool" where
  "valid_environment v =
     (v = JNull \<or> (case as_obj v of Some d \<Rightarrow> list_all (\<lambda>p. is_str (snd p)) d | None \<Rightarrow> False))"

definition drop_local_tool_call ::
  "jdict \<Rightarrow> tool_relationships \<Rightarrow> (item_metrics \<times> tool_relationships) res" where
  "drop_local_tool_call item rel =
     res_bind (unknown_fields item LOCAL_SHELL_CALL_FIELDS ''unknown_local_shell_call_field'') (\<lambda>_.
     case observe rel (JStr ''local_shell_call'') (jget item ''call_id'') JNull JNull of (issue, rel') \<Rightarrow>
     if issue \<noteq> NoIssue then reject ''invalid_call_id'' else
     res_bind (in_frozenset (jget item ''status'') LOCAL_SHELL_STATUSES) (\<lambda>status_ok.
     case as_obj (jget item ''action'') of
       None \<Rightarrow> reject ''invalid_local_shell_call''
     | Some action \<Rightarrow>
         if \<not> status_ok then reject ''invalid_local_shell_call''
         else if \<not> keys_within action LOCAL_SHELL_ACTION_FIELDS \<or> jget action ''type'' \<noteq> JStr ''exec''
         then reject ''invalid_local_shell_call''
         else if \<not> valid_commands (jget action ''command'') then reject ''invalid_local_shell_call''
         else if \<not> valid_timeout (jget action ''timeout_ms'') then reject ''invalid_local_shell_call''
         else if \<not> list_all (\<lambda>f. jget action f = JNull \<or> is_str (jget action f)) [''working_directory'', ''user'']
         then reject ''invalid_local_shell_call''
         else if \<not> valid_environment (jget action ''env'') then reject ''invalid_local_shell_call''
         else Inr (metrics_of True (id_count item) 0 0 0, rel')))"

definition delivery_message :: "jdict \<Rightarrow> string \<Rightarrow> json" where
  "delivery_message header output =
     assistant_message (JStr ''commentary'') (json_text False (JObj header) @ line_feed @ output)"

fun output_rejection :: "relationship_issue \<Rightarrow> string" where
  "output_rejection Missing_call_id = ''orphan_output''"
| "output_rejection Output_before_call = ''orphan_output''"
| "output_rejection Mismatched_output_type = ''mismatched_output''"
| "output_rejection issue = issue_text issue"

text \<open>The content of an output: the empty-output marker, or the projected content.\<close>

definition output_content ::
  "py_env \<Rightarrow> json \<Rightarrow> nat \<Rightarrow> (json \<times> bool \<times> nat \<times> nat \<times> nat) res" where
  "output_content env raw_output root_ciphertext =
     (if raw_output = JStr [] \<and> root_ciphertext = 0
      then Inr (JStr EMPTY_TOOL_OUTPUT_MARKER, True, 0, 0, 0)
      else project_input_content env raw_output True True root_ciphertext)"

definition caller_entry :: "jdict \<Rightarrow> jdict" where
  "caller_entry item = (if jget item ''caller'' \<noteq> JNull then [(''caller'', jget item ''caller'')] else [])"

definition root_ciphertext :: "jdict \<Rightarrow> nat" where
  "root_ciphertext item = (if is_str (jget item ''encrypted_content'') then 1 else 0)"

definition empty_output :: "jdict \<Rightarrow> nat" where
  "empty_output item = (if jget item ''output'' = JStr [] \<and> root_ciphertext item = 0 then 1 else 0)"

text \<open>The projected output, or the attributed delivery message of a later result.\<close>

definition output_value :: "jdict \<Rightarrow> string \<Rightarrow> tool_relationships \<Rightarrow> json \<Rightarrow> json res" where
  "output_value item item_type rel output =
     (if is_delivery rel (jget item ''id'')
      then res_bind (project_assistant_text output False 0) (\<lambda>(text, _, _, _).
             Inr (delivery_message
                   ([(''type'', JStr ''tool_delivery''), (''call_id'', jget item ''call_id''),
                     (''name'', jget item ''name'')] @ caller_entry item) text))
      else Inr (JObj ([(''type'', JStr item_type), (''call_id'', jget item ''call_id''),
                       (''output'', output)] @ caller_entry item)))"

definition project_output ::
  "py_env \<Rightarrow> jdict \<Rightarrow> string \<Rightarrow> tool_relationships \<Rightarrow> (json option \<times> item_metrics \<times> tool_relationships) res" where
  "project_output env item item_type rel =
     res_bind (unknown_fields item
       (if item_type = ''function_call_output'' then FUNCTION_OUTPUT_FIELDS else OUTPUT_FIELDS)
       ''unknown_output_field'') (\<lambda>_.
     case observe rel (JStr item_type) (jget item ''call_id'') (jget item ''name'') (jget item ''id'') of
       (issue, rel') \<Rightarrow>
     if issue \<noteq> NoIssue then reject (output_rejection issue)
     else if \<not> valid_caller (jget item ''caller'') then reject ''invalid_caller''
     else if has_key item ''encrypted_content'' \<and> \<not> is_str (jget item ''encrypted_content'')
     then reject ''invalid_encrypted_content''
     else res_bind (output_content env (jget item ''output'') (root_ciphertext item))
            (\<lambda>(output, chg, enc, marks, local).
          res_bind (output_value item item_type rel' output) (\<lambda>value.
            Inr (Some value,
                 (metrics_of (chg \<or> \<not> json_eq value (JObj item)) (id_count item) enc marks local)
                   \<lparr>im_empty_tool_outputs := empty_output item\<rparr>, rel'))))"

definition project_detached_delivery :: "jdict \<Rightarrow> (json option \<times> item_metrics) res" where
  "project_detached_delivery item =
     res_bind (unknown_fields item DETACHED_DELIVERY_FIELDS ''unknown_detached_delivery_field'') (\<lambda>_.
     if \<not> (nonempty_str (jget item ''id'') \<and> nonempty_str (jget item ''name'')
            \<and> nonempty_str (jget item ''namespace''))
     then reject ''invalid_detached_delivery''
     else if \<not> nonempty_str (jget item ''output'') then reject ''invalid_detached_delivery''
     else res_bind (project_assistant_text (jget item ''output'') False 0) (\<lambda>(output, _, enc, marks).
       Inr (Some (delivery_message
                   [(''type'', JStr ''tool_delivery''), (''name'', jget item ''name''),
                    (''namespace'', jget item ''namespace'')] output),
            metrics_of True 1 enc marks 0)))"

definition project_compaction_trigger :: "jdict \<Rightarrow> (json option \<times> item_metrics) res" where
  "project_compaction_trigger item =
     res_bind (unknown_fields item [''type''] ''unknown_compaction_trigger_field'') (\<lambda>_.
       Inr (Some (JObj [(''type'', JStr ''compaction_trigger'')]), metrics_of False 0 0 0 0))"

definition valid_tools :: "json \<Rightarrow> bool" where
  "valid_tools v =
     (case as_arr v of
        Some tools \<Rightarrow> list_all (\<lambda>t. case as_obj t of Some d \<Rightarrow> d \<noteq> [] | None \<Rightarrow> False) tools
      | None \<Rightarrow> False)"

definition project_tool_catalog :: "jdict \<Rightarrow> (json option \<times> item_metrics) res" where
  "project_tool_catalog item =
     res_bind (unknown_fields item TOOL_CATALOG_FIELDS ''unknown_additional_tools_field'') (\<lambda>_.
     if \<not> nonempty_str (jget item ''role'') \<or> \<not> valid_tools (jget item ''tools'')
        \<or> (has_key item ''id'' \<and> \<not> nonempty_str (jget item ''id''))
     then reject ''invalid_additional_tools''
     else Inr (Some (JObj item), metrics_of False 0 0 0 0))"

section \<open>The input list\<close>

record projection_state =
  relationships :: tool_relationships
  items_out :: "json list"
  totals :: input_metrics

definition add_metrics :: "item_metrics \<Rightarrow> input_metrics \<Rightarrow> input_metrics" where
  "add_metrics im m =
     m\<lparr>item_ids := item_ids m + im_item_ids im,
       encrypted_blocks := encrypted_blocks m + im_encrypted_blocks im,
       omission_markers := omission_markers m + im_omission_markers im,
       local_image_items := local_image_items m + im_local_image_items im,
       empty_tool_outputs := empty_tool_outputs m + im_empty_tool_outputs im,
       changed_items := changed_items m + im_changed im\<rparr>"

definition drop_metrics :: "projection_strategy \<Rightarrow> jdict \<Rightarrow> input_metrics \<Rightarrow> input_metrics" where
  "drop_metrics strategy item m =
     m\<lparr>reasoning_items := reasoning_items m + (if strategy = DROP_REASONING then 1 else 0),
       reference_items := reference_items m + (if strategy = DROP_REFERENCE then 1 else 0),
       search_items := search_items m + (if strategy = DROP_SEARCH then 1 else 0),
       item_ids := item_ids m + id_count item\<rparr>"

text \<open>Append the projected value, if any, and account for it.\<close>

definition record_item ::
  "projection_state \<Rightarrow> json option \<times> item_metrics \<times> tool_relationships \<Rightarrow> projection_state" where
  "record_item st r = (case r of (value, im, rel) \<Rightarrow>
     st\<lparr>relationships := rel,
        items_out := items_out st @ (case value of Some v \<Rightarrow> [v] | None \<Rightarrow> []),
        totals := add_metrics im (totals st)\<rparr>)"

definition without_relationships ::
  "projection_state \<Rightarrow> (json option \<times> item_metrics) res \<Rightarrow> projection_state res" where
  "without_relationships st r =
     res_bind r (\<lambda>(value, im). Inr (record_item st (value, im, relationships st)))"

definition with_relationships ::
  "projection_state \<Rightarrow> (json option \<times> item_metrics \<times> tool_relationships) res \<Rightarrow> projection_state res" where
  "with_relationships st r = res_bind r (\<lambda>x. Inr (record_item st x))"

text \<open>The result of \<open>_project_output\<close> on a local shell output is dropped and counts as a change.\<close>

definition dropped_output ::
  "(json option \<times> item_metrics \<times> tool_relationships) res \<Rightarrow>
   (json option \<times> item_metrics \<times> tool_relationships) res" where
  "dropped_output r = res_bind r (\<lambda>(_, im, rel). Inr (None, im\<lparr>im_changed := 1\<rparr>, rel))"

definition project_item :: "py_env \<Rightarrow> projection_state \<Rightarrow> json \<Rightarrow> projection_state res" where
  "project_item env st raw_item =
     (case as_obj raw_item of
        None \<Rightarrow> reject ''invalid_item''
      | Some item \<Rightarrow>
          let item_type = (if has_key item ''type'' then jget item ''type'' else JStr ''message'') in
          (case as_str item_type of
             None \<Rightarrow> reject ''unknown_item_type''
           | Some kind \<Rightarrow>
          (case map_of ITEM_POLICIES kind of
             None \<Rightarrow> reject ''unknown_item_type''
           | Some p \<Rightarrow>
               if projection p \<in> {DROP_REASONING, DROP_REFERENCE, DROP_SEARCH, DROP_AUXILIARY}
               then Inr (st\<lparr>totals := drop_metrics (projection p) item (totals st)\<rparr>)
               else (case projection p of
                  MESSAGE \<Rightarrow> without_relationships st (project_message env item)
                | AGENT_MESSAGE \<Rightarrow> without_relationships st (project_agent_message item)
                | CALL \<Rightarrow>
                    with_relationships st
                      (project_call item kind (case argument_field p of Some f \<Rightarrow> f | None \<Rightarrow> [])
                        (relationships st))
                | OUTPUT \<Rightarrow>
                    if call_type (relationships st) (jget item ''call_id'') = Some ''local_shell_call''
                    then with_relationships st
                           (dropped_output (project_output env item kind (relationships st)))
                    else if \<not> has_key item ''call_id''
                    then without_relationships st (project_detached_delivery item)
                    else with_relationships st (project_output env item kind (relationships st))
                | TOOL_CATALOG \<Rightarrow> without_relationships st (project_tool_catalog item)
                | COMPACTION_TRIGGER \<Rightarrow> without_relationships st (project_compaction_trigger item)
                | DROP_LOCAL_TOOL \<Rightarrow>
                    res_bind (drop_local_tool_call item (relationships st)) (\<lambda>(im, rel).
                      Inr (record_item st (None, im, rel)))
                | _ \<Rightarrow> reject (rejection_reason p)))))"

definition initial_state :: projection_state where
  "initial_state = \<lparr>relationships = new_relationships, items_out = [], totals = no_input_metrics\<rparr>"

definition project_input :: "py_env \<Rightarrow> json list \<Rightarrow> (json list \<times> input_metrics) res" where
  "project_input env items =
     res_bind (res_fold (project_item env) initial_state items) (\<lambda>st.
       if has_pending_call (relationships st) ''local_shell_call''
       then reject ''incomplete_local_shell_pair''
       else if items_out st = [] \<and> items \<noteq> [] then reject ''empty_portable_input''
       else Inr (items_out st, totals st))"

section \<open>The request\<close>

definition rejected :: "string \<Rightarrow> projection_result" where
  "rejected why = \<lparr>body = None, status = ''rejected'', metrics = no_projection_metrics, reason = Some why\<rparr>"

definition pop_bindings :: "jdict \<Rightarrow> jdict" where
  "pop_bindings d = fold AList.delete PROVIDER_BINDINGS d"

definition count_bindings :: "jdict \<Rightarrow> nat" where
  "count_bindings d = length (filter (has_key d) PROVIDER_BINDINGS)"

abbreviation REASONING_INCLUDE :: json where
  "REASONING_INCLUDE \<equiv> JStr ''reasoning.encrypted_content''"

text \<open>\<open>None\<close> when \<open>include\<close> is not a list of strings; otherwise the candidate and whether it was trimmed.\<close>

definition trim_include :: "jdict \<Rightarrow> (jdict \<times> bool) option" where
  "trim_include candidate =
     (if jget candidate ''include'' = JNull then Some (candidate, False)
      else case as_arr (jget candidate ''include'') of
        None \<Rightarrow> None
      | Some include \<Rightarrow>
          if \<not> list_all is_str include then None
          else let trimmed = filter (\<lambda>v. v \<noteq> REASONING_INCLUDE) include
               in Some (AList.update ''include'' (JArr trimmed) candidate, length trimmed \<noteq> length include))"

definition project_request_input :: "py_env \<Rightarrow> jdict \<Rightarrow> (jdict \<times> input_metrics) res" where
  "project_request_input env candidate =
     (case jget candidate ''input'' of
        JStr s \<Rightarrow> if s = [] then reject ''empty_input'' else Inr (candidate, no_input_metrics)
      | JArr items \<Rightarrow>
          res_bind (project_input env items) (\<lambda>(out, m).
            Inr (AList.update ''input'' (JArr out) candidate, m))
      | _ \<Rightarrow> reject ''invalid_input'')"

definition request_metrics :: "input_metrics \<Rightarrow> nat \<Rightarrow> bool \<Rightarrow> bool \<Rightarrow> projection_metrics" where
  "request_metrics m bindings store_norm trimmed =
     \<lparr>reasoning_items = reasoning_items m, reference_items = reference_items m,
      search_items = search_items m, item_ids = item_ids m, encrypted_blocks = encrypted_blocks m,
      omission_markers = omission_markers m, local_image_items = local_image_items m,
      empty_tool_outputs = empty_tool_outputs m, changed_items = changed_items m,
      provider_bindings = bindings, store_normalized = store_norm, include_trimmed = trimmed\<rparr>"

text \<open>The request once decoded to an object; \<open>raw\<close> is returned as is when nothing changed.\<close>

definition sanitize_payload :: "py_env \<Rightarrow> bytes \<Rightarrow> jdict \<Rightarrow> projection_result res" where
  "sanitize_payload env raw payload =
     (let store_norm = (jget payload ''store'' \<noteq> JBool False);
          stored = AList.update ''store'' (JBool False) payload;
          bindings = count_bindings stored
      in case trim_include (pop_bindings stored) of
           None \<Rightarrow> Inr (rejected ''invalid_include'')
         | Some (candidate, trimmed) \<Rightarrow>
             (case project_request_input env candidate of
                Inl (ProjectionRejected why) \<Rightarrow> Inr (rejected why)
              | Inl RecursionError \<Rightarrow> Inr (rejected ''projection_depth_exceeded'')
              | Inl e \<Rightarrow> Inl e
              | Inr (projected_request, m) \<Rightarrow>
                  if \<not> (store_norm \<or> bindings > 0 \<or> trimmed \<or> any_metric m
                         \<or> \<not> json_eq (JObj projected_request) (JObj payload))
                  then Inr \<lparr>body = Some raw, status = ''clean'', metrics = no_projection_metrics,
                            reason = None\<rparr>
                  else (case dumps_utf8 env (JObj projected_request) of
                          Inl _ \<Rightarrow> Inr (rejected ''serialization_failed'')
                        | Inr encoded \<Rightarrow>
                            Inr \<lparr>body = Some encoded, status = ''projected'',
                                 metrics = request_metrics m bindings store_norm trimmed,
                                 reason = None\<rparr>)))"

definition sanitize_responses_body :: "py_env \<Rightarrow> bytes \<Rightarrow> projection_result res" where
  "sanitize_responses_body env raw =
     (case loads env raw of
        Inl RecursionError \<Rightarrow> Inl RecursionError
      | Inl _ \<Rightarrow> Inr (rejected ''invalid_json'')
      | Inr decoded \<Rightarrow>
          (case as_obj decoded of
             None \<Rightarrow> Inr (rejected ''request_not_object'')
           | Some payload \<Rightarrow> sanitize_payload env raw payload))"

lemma pop_bindings_reads:
  "jget (pop_bindings d) k = (if k \<in> set PROVIDER_BINDINGS then JNull else jget d k)"
  "has_key (pop_bindings d) k \<longleftrightarrow> k \<notin> set PROVIDER_BINDINGS \<and> has_key d k"
  by (auto simp: pop_bindings_def PROVIDER_BINDINGS_def)

end
