(* ===== verification/Telemetry.thy ===== *)
theory Telemetry
  imports Projection "HOL-Library.Char_ord" "HOL-Library.List_Lexorder"
begin

text \<open>
  \<open>relay/telemetry.py\<close>: the process counters, the classes of upstream outcomes and the latest
  failure class.  Times are seconds since the epoch, an argument of the operations that read them.
\<close>

record telemetry_state =
  counters :: "nat dict"
  upstream_classifications :: "nat dict"
  last_failure :: "(string \<times> int) option"

definition COUNTER_NAMES :: "string list" where
  "COUNTER_NAMES =
     [''responses_received'', ''responses_completed'', ''responses_rejected_while_draining'',
      ''drain_leases_expired'', ''provider_rate_limits'', ''provider_rate_limit_cooldown_hits'',
      ''provider_unavailable_cooldown_hits'', ''streams_completed'', ''streams_incomplete'',
      ''streams_failed'', ''streams_pre_content_reconnect_attempts'', ''streams_pre_content_exhausted'',
      ''stream_projection_failures'', ''response_failed_compaction_attempts'',
      ''response_failed_compaction_accepted'', ''response_failed_dialogue_recovery_attempts'',
      ''response_failed_dialogue_recovery_accepted'', ''response_failed_recovery_exhausted'',
      ''input_variant_dialogue_recovery_attempts'', ''input_variant_dialogue_recovery_accepted'',
      ''input_variant_dialogue_recovery_exhausted'', ''encrypted_replayed_reasoning_items_stripped'',
      ''encrypted_replay_content_blocks_stripped'', ''invalid_responses_success_bodies'',
      ''unreplayable_images_stripped'', ''wire_failure_retry_attempts'', ''wire_failure_retry_accepted'',
      ''wire_failure_recovery_exhausted'', ''wire_failure_cooldown_hits'']"

definition new_telemetry :: telemetry_state where
  "new_telemetry =
     \<lparr>counters = map (\<lambda>n. (n, 0)) COUNTER_NAMES, upstream_classifications = [], last_failure = None\<rparr>"

definition tally :: "nat dict \<Rightarrow> string \<Rightarrow> nat" where
  "tally d name = (case map_of d name of Some n \<Rightarrow> n | None \<Rightarrow> 0)"

text \<open>\<open>max(0, amount)\<close>: a negative amount counts nothing.\<close>

definition record_counter :: "string \<Rightarrow> int \<Rightarrow> telemetry_state \<Rightarrow> telemetry_state" where
  "record_counter name amount t =
     t\<lparr>counters := AList.update name (tally (counters t) name + nat amount) (counters t)\<rparr>"

definition record_upstream_classification :: "string \<Rightarrow> telemetry_state \<Rightarrow> telemetry_state" where
  "record_upstream_classification name t =
     t\<lparr>upstream_classifications :=
         AList.update name (tally (upstream_classifications t) name + 1) (upstream_classifications t)\<rparr>"

definition record_failure :: "string \<Rightarrow> int \<Rightarrow> telemetry_state \<Rightarrow> telemetry_state" where
  "record_failure classification at_unix t = t\<lparr>last_failure := Some (classification, at_unix)\<rparr>"

definition record_sanitization :: "projection_metrics \<Rightarrow> telemetry_state \<Rightarrow> telemetry_state" where
  "record_sanitization m =
     record_counter ''unreplayable_images_stripped'' (int (local_image_items m))
     \<circ> record_counter ''encrypted_replay_content_blocks_stripped'' (int (encrypted_blocks m))
     \<circ> record_counter ''encrypted_replayed_reasoning_items_stripped'' (int (reasoning_items m))"

definition counter_dict :: "nat dict \<Rightarrow> json" where
  "counter_dict d = JObj (map (\<lambda>(k, n). (k, JInt (int n))) (sort_key fst d))"

definition optional_str :: "string option \<Rightarrow> json" where
  "optional_str s = (case s of Some x \<Rightarrow> JStr x | None \<Rightarrow> JNull)"

text \<open>\<open>snapshot.update(m)\<close> for each mapping in turn.\<close>

definition dict_update :: "jdict \<Rightarrow> jdict \<Rightarrow> jdict" where
  "dict_update d m = fold (\<lambda>(k, v). AList.update k v) m d"

definition status_snapshot ::
  "string \<Rightarrow> string option \<Rightarrow> string option \<Rightarrow> int \<Rightarrow> jdict \<Rightarrow> jdict \<Rightarrow> telemetry_state \<Rightarrow> jdict" where
  "status_snapshot release payload_sha receipt_sha uptime admission identity t =
     dict_update (dict_update
       [(''release'', JStr release),
        (''serving_payload_sha256'', optional_str payload_sha),
        (''release_receipt_sha256'', optional_str receipt_sha),
        (''uptime_seconds'', JInt (max 0 uptime)),
        (''counters'', counter_dict (counters t)),
        (''upstream_classifications'', counter_dict (upstream_classifications t)),
        (''last_failure'',
           case last_failure t of
             Some (c, at) \<Rightarrow> JObj [(''classification'', JStr c), (''at_unix'', JInt at)]
           | None \<Rightarrow> JNull)] admission) identity"

section \<open>Counters never fall\<close>

lemma tally_update [simp]: "tally (AList.update k v d) k' = (if k' = k then v else tally d k')"
  by (simp add: tally_def)

lemma record_counter_tally [simp]:
  "tally (counters (record_counter name amount t)) n =
     tally (counters t) n + (if n = name then nat amount else 0)"
  by (simp add: record_counter_def)

lemma record_other_counters [simp]:
  "counters (record_upstream_classification c t) = counters t"
  "counters (record_failure c now t) = counters t"
  by (simp_all add: record_upstream_classification_def record_failure_def)

lemma record_counter_classes [simp]:
  "upstream_classifications (record_counter name amount t) = upstream_classifications t"
  "upstream_classifications (record_failure c now t) = upstream_classifications t"
  "tally (upstream_classifications (record_upstream_classification c t)) n =
     tally (upstream_classifications t) n + (if n = c then 1 else 0)"
  by (simp_all add: record_counter_def record_failure_def record_upstream_classification_def)

end
