(* ===== verification/Admission.thy ===== *)
theory Admission
  imports Cooldown Telemetry
begin

text \<open>
  \<open>relay/admission.py\<close>: the gate every request passes, with its counters, and the bounded drain that
  closes it.  Every operation holds one lock, so a run of the process is a sequence of whole
  operations; \<open>moment\<close> is the monotonic clock when the operation reads it, \<open>unix\<close> the wall clock.
\<close>

record admission =
  active_responses :: nat
  active_handlers :: nat
  draining :: bool
  drain_generation :: nat
  drain_deadline :: "rat option"
  request_sequence :: nat

type_synonym gate = "admission \<times> telemetry_state"

definition new_admission :: admission where
  "new_admission =
     \<lparr>active_responses = 0, active_handlers = 0, draining = False, drain_generation = 0,
      drain_deadline = None, request_sequence = 0\<rparr>"

definition MIN_DRAIN_LEASE_SECONDS :: int where
  "MIN_DRAIN_LEASE_SECONDS = 1"

definition MAX_DRAIN_LEASE_SECONDS :: int where
  "MAX_DRAIN_LEASE_SECONDS = 900"

section \<open>Operations\<close>

definition next_request_id :: "admission \<Rightarrow> nat \<times> admission" where
  "next_request_id st =
     (request_sequence st + 1, st\<lparr>request_sequence := request_sequence st + 1\<rparr>)"

text \<open>
  The lease as a JSON value or header text.  \<open>to_int\<close> is the built-in \<open>int\<close> on text and floats; its
  \<open>ValueError\<close> and \<open>TypeError\<close> are suppressed, any other exception is not.
\<close>

definition bounded_drain_lease_seconds :: "(json \<Rightarrow> int res) \<Rightarrow> json \<Rightarrow> int res" where
  "bounded_drain_lease_seconds to_int v =
     (if as_arr v \<noteq> None \<or> as_obj v \<noteq> None \<or> v = JNull then Inr 30
      else (case to_int v of
              Inr n \<Rightarrow> Inr (min MAX_DRAIN_LEASE_SECONDS (max MIN_DRAIN_LEASE_SECONDS n))
            | Inl (ValueError _) \<Rightarrow> Inr 30
            | Inl TypeError \<Rightarrow> Inr 30
            | Inl e \<Rightarrow> Inl e))"

text \<open>\<open>deadline or inf\<close>: no deadline, and a deadline of zero, never pass.\<close>

definition drain_expired :: "rat \<Rightarrow> admission \<Rightarrow> bool" where
  "drain_expired moment st =
     (case drain_deadline st of Some d \<Rightarrow> d \<noteq> 0 \<and> d \<le> moment | None \<Rightarrow> False)"

definition expire_drain :: "rat \<Rightarrow> int \<Rightarrow> gate \<Rightarrow> gate" where
  "expire_drain moment unix g = (case g of (st, tel) \<Rightarrow>
     if drain_expired moment st
     then (st\<lparr>draining := False, drain_deadline := None, drain_generation := drain_generation st + 1\<rparr>,
           record_failure ''drain_lease_expired'' unix (record_counter ''drain_leases_expired'' 1 tel))
     else (st, tel))"

definition drain_lease_remaining :: "rat \<Rightarrow> admission \<Rightarrow> int option" where
  "drain_lease_remaining moment st =
     (case drain_deadline st of
        Some d \<Rightarrow> if draining st then Some (max 0 (py_int (d - moment + 999 / 1000))) else None
      | None \<Rightarrow> None)"

definition lease_json :: "int option \<Rightarrow> json" where
  "lease_json n = (case n of Some i \<Rightarrow> JInt i | None \<Rightarrow> JNull)"

definition set_draining :: "bool \<Rightarrow> int \<Rightarrow> rat \<Rightarrow> int \<Rightarrow> gate \<Rightarrow> jdict \<times> gate" where
  "set_draining enabled lease moment unix g = (case expire_drain moment unix g of (st, tel) \<Rightarrow>
     let st' = st\<lparr>draining := enabled,
                  drain_generation := drain_generation st + (if draining st \<noteq> enabled then 1 else 0),
                  drain_deadline := (if enabled then Some (moment + of_int lease) else None)\<rparr>
     in ([(''draining'', JBool (draining st')),
          (''drain_generation'', JInt (int (drain_generation st'))),
          (''active_responses'', JInt (int (active_responses st'))),
          (''drain_lease_remaining_seconds'', lease_json (drain_lease_remaining moment st'))], st', tel))"

definition snapshot :: "rat \<Rightarrow> int \<Rightarrow> gate \<Rightarrow> jdict \<times> gate" where
  "snapshot moment unix g = (case expire_drain moment unix g of (st, tel) \<Rightarrow>
     ([(''active_responses'', JInt (int (active_responses st))),
       (''draining'', JBool (draining st)),
       (''drain_generation'', JInt (int (drain_generation st))),
       (''drain_lease_remaining_seconds'', lease_json (drain_lease_remaining moment st))], st, tel))"

definition drain_snapshot :: "rat \<Rightarrow> int \<Rightarrow> gate \<Rightarrow> (bool \<times> nat \<times> nat) \<times> gate" where
  "drain_snapshot moment unix g = (case expire_drain moment unix g of (st, tel) \<Rightarrow>
     ((draining st, drain_generation st, active_responses st), st, tel))"

definition begin_handler :: "admission \<Rightarrow> nat \<times> admission" where
  "begin_handler st = (active_handlers st + 1, st\<lparr>active_handlers := active_handlers st + 1\<rparr>)"

definition end_handler :: "admission \<Rightarrow> nat \<times> admission" where
  "end_handler st = (active_handlers st - 1, st\<lparr>active_handlers := active_handlers st - 1\<rparr>)"

definition admit_response :: "rat \<Rightarrow> int \<Rightarrow> gate \<Rightarrow> (string \<times> nat) \<times> gate" where
  "admit_response moment unix g = (case expire_drain moment unix g of (st, tel) \<Rightarrow>
     if draining st then ((''draining'', active_responses st), st, tel)
     else ((''acquired'', active_responses st + 1),
           st\<lparr>active_responses := active_responses st + 1\<rparr>, tel))"

definition release_response :: "admission \<Rightarrow> nat \<times> admission" where
  "release_response st = (active_responses st - 1, st\<lparr>active_responses := active_responses st - 1\<rparr>)"

definition is_loopback_client :: "(string \<Rightarrow> bool option) \<Rightarrow> string \<Rightarrow> bool" where
  "is_loopback_client ip_is_loopback address = (case ip_is_loopback address of Some b \<Rightarrow> b | None \<Rightarrow> False)"

section \<open>The gate as a state machine\<close>

datatype gate_op =
    Next_request | Set_draining bool int | Snapshot | Drain_snapshot
  | Begin_handler | End_handler | Admit | Release

text \<open>A lease reaches \<open>set_draining\<close> bounded.\<close>

fun op_ok :: "gate_op \<Rightarrow> bool" where
  "op_ok (Set_draining b lease) = (MIN_DRAIN_LEASE_SECONDS \<le> lease \<and> lease \<le> MAX_DRAIN_LEASE_SECONDS)"
| "op_ok _ = True"

fun gate_run :: "rat \<Rightarrow> int \<Rightarrow> gate_op \<Rightarrow> gate \<Rightarrow> gate" where
  "gate_run moment unix Next_request (st, tel) = (snd (next_request_id st), tel)"
| "gate_run moment unix (Set_draining b lease) g = snd (set_draining b lease moment unix g)"
| "gate_run moment unix Snapshot g = snd (snapshot moment unix g)"
| "gate_run moment unix Drain_snapshot g = snd (drain_snapshot moment unix g)"
| "gate_run moment unix Begin_handler (st, tel) = (snd (begin_handler st), tel)"
| "gate_run moment unix End_handler (st, tel) = (snd (end_handler st), tel)"
| "gate_run moment unix Admit g = snd (admit_response moment unix g)"
| "gate_run moment unix Release (st, tel) = (snd (release_response st), tel)"

inductive gate_reach :: "rat \<Rightarrow> gate \<Rightarrow> bool" where
  start: "0 \<le> t \<Longrightarrow> gate_reach t (new_admission, tel)"
| step: "gate_reach t g \<Longrightarrow> t \<le> t' \<Longrightarrow> op_ok op \<Longrightarrow> gate_reach t' (gate_run t' unix op g)"

inductive_cases gate_reach_cases: "gate_reach t g"

text \<open>
  The drain latch, its deadline and its generation move together: a drain always has a deadline at
  most fifteen minutes away, and the generation is odd exactly while draining.
\<close>

definition gate_inv :: "rat \<Rightarrow> admission \<Rightarrow> bool" where
  "gate_inv t st \<longleftrightarrow>
     0 \<le> t \<and> (draining st \<longleftrightarrow> drain_deadline st \<noteq> None) \<and> (draining st \<longleftrightarrow> odd (drain_generation st)) \<and>
     (\<forall>d. drain_deadline st = Some d \<longrightarrow> 0 < d \<and> d \<le> t + 900)"

lemmas lease_bounds = MIN_DRAIN_LEASE_SECONDS_def MAX_DRAIN_LEASE_SECONDS_def

lemma gate_inv_mono: "gate_inv t st \<Longrightarrow> t \<le> t' \<Longrightarrow> gate_inv t' st"
  by (fastforce simp: gate_inv_def)

lemma expire_drain_inv:
  "gate_inv t st \<Longrightarrow> gate_inv t (fst (expire_drain t unix (st, tel)))"
  by (auto simp: expire_drain_def drain_expired_def gate_inv_def split: option.splits)

lemma set_draining_inv:
  assumes "gate_inv t st" "1 \<le> lease" "lease \<le> 900"
  shows "gate_inv t (fst (snd (set_draining b lease t unix (st, tel))))"
proof -
  obtain st1 tel1 where e: "expire_drain t unix (st, tel) = (st1, tel1)" by fastforce
  with expire_drain_inv [OF assms(1), of unix tel] have "gate_inv t st1" by simp
  moreover have "(1 :: rat) \<le> of_int lease" "of_int lease \<le> (900 :: rat)"
    using assms(2,3) by (simp_all add: of_int_le_iff [of lease 900, simplified])
  ultimately show ?thesis
    by (auto simp: set_draining_def e gate_inv_def Let_def)
qed

lemma gate_run_inv:
  assumes "gate_inv t (fst g)" "op_ok op"
  shows "gate_inv t (fst (gate_run t unix op g))"
proof -
  obtain st tel where g: "g = (st, tel)" by fastforce
  have e: "gate_inv t (fst (expire_drain t unix (st, tel)))"
    using expire_drain_inv assms(1) g by simp
  have same: "gate_inv t st' = gate_inv t st"
    if "draining st' = draining st" "drain_deadline st' = drain_deadline st"
      "drain_generation st' = drain_generation st" for st st' :: admission
    using that by (simp add: gate_inv_def)
  show ?thesis
  proof (cases op)
    case (Set_draining b lease)
    with assms g set_draining_inv [of t st lease b unix tel] show ?thesis by (simp add: lease_bounds)
  qed (use assms(1) g e in \<open>auto simp: next_request_id_def begin_handler_def end_handler_def
      release_response_def snapshot_def drain_snapshot_def admit_response_def gate_inv_def
      split: prod.splits\<close>)
qed

lemma reachable_inv: "gate_reach t g \<Longrightarrow> gate_inv t (fst g)"
proof (induction rule: gate_reach.induct)
  case (start t tel)
  then show ?case by (simp add: gate_inv_def new_admission_def)
next
  case (step t g t' op unix)
  show ?case by (rule gate_run_inv [OF gate_inv_mono [OF step.IH step.hyps(2)] step.hyps(3)])
qed

text \<open>
  Claim C38.  In every reachable state of the gate a drain has a deadline, the deadline is at most 900
  seconds ahead, and the drain generation is odd exactly while draining, so it changes whenever the
  latch does.
\<close>

theorem gate_drain_invariant:
  assumes "gate_reach t (st, tel)"
  shows "(draining st \<longleftrightarrow> drain_deadline st \<noteq> None) \<and> (draining st \<longleftrightarrow> odd (drain_generation st)) \<and>
    (\<forall>d. drain_deadline st = Some d \<longrightarrow> d \<le> t + 900)"
  using reachable_inv [OF assms] by (auto simp: gate_inv_def)

theorem gate_drain_invariant_witness:
  "\<exists>st tel. gate_reach 5 (st, tel) \<and> draining st \<and> odd (drain_generation st)"
proof -
  have r: "gate_reach 5 (gate_run 5 0 (Set_draining True 30) (new_admission, new_telemetry))"
    by (rule gate_reach.step [OF gate_reach.start [of 0]]) (simp_all add: lease_bounds)
  obtain st tel where g: "gate_run 5 0 (Set_draining True 30) (new_admission, new_telemetry) = (st, tel)" by fastforce
  then have "draining st" by (auto simp: set_draining_def Let_def split: prod.splits)
  with gate_drain_invariant [OF r [unfolded g]] r g show ?thesis by auto
qed

section \<open>Draining closes the gate, for a bounded time\<close>

definition closed_until :: "rat \<Rightarrow> admission \<Rightarrow> bool" where
  "closed_until d st \<longleftrightarrow> draining st \<and> drain_deadline st = Some d"

fun keeps_drain :: "gate_op \<Rightarrow> bool" where
  "keeps_drain (Set_draining b lease) = False"
| "keeps_drain _ = True"

lemma expire_before: "closed_until d st \<Longrightarrow> t < d \<Longrightarrow> expire_drain t unix (st, tel) = (st, tel)"
  by (simp add: closed_until_def expire_drain_def drain_expired_def)

lemma closed_step:
  assumes "closed_until d (fst g)" "t < d" "keeps_drain op"
  shows "closed_until d (fst (gate_run t unix op g)) \<and>
    active_responses (fst (gate_run t unix op g)) \<le> active_responses (fst g)"
proof -
  obtain st tel where g: "g = (st, tel)" by fastforce
  with assms have c: "closed_until d st" by simp
  note e = expire_before [OF c assms(2)]
  show ?thesis
    using c assms(3)
    by (cases op) (simp_all add: g e closed_until_def next_request_id_def begin_handler_def
        end_handler_def release_response_def snapshot_def drain_snapshot_def admit_response_def)
qed

text \<open>Runs of timed operations.\<close>

fun gate_runs :: "(rat \<times> int \<times> gate_op) list \<Rightarrow> gate \<Rightarrow> gate" where
  "gate_runs [] g = g"
| "gate_runs ((t, unix, op) # ops) g = gate_runs ops (gate_run t unix op g)"

text \<open>
  Claim C39.  After a drain request, and until its lease ends, whatever other requests, snapshots and
  releases run, no Responses request is admitted and the number of active ones never grows.
\<close>

theorem drain_closes_admission:
  assumes "\<forall>(t, unix, op) \<in> set ops. t < moment + of_int lease \<and> keeps_drain op"
    and "now < moment + of_int lease"
    and "g0 = snd (set_draining True lease moment unix0 g)"
  shows "fst (fst (admit_response now unix (gate_runs ops g0))) = ''draining'' \<and>
    active_responses (fst (gate_runs ops g0)) \<le> active_responses (fst g0)"
proof -
  let ?d = "moment + of_int lease"
  have "closed_until ?d (fst g0)"
    by (auto simp: assms(3) set_draining_def closed_until_def Let_def split: prod.splits)
  with assms(1) have "closed_until ?d (fst (gate_runs ops g0)) \<and>
      active_responses (fst (gate_runs ops g0)) \<le> active_responses (fst g0)"
  proof (induction ops arbitrary: g0)
    case (Cons x ops)
    obtain t u op where x: "x = (t, u, op)" by (cases x)
    from Cons.prems(1) x have s: "closed_until ?d (fst (gate_run t u op g0)) \<and>
        active_responses (fst (gate_run t u op g0)) \<le> active_responses (fst g0)"
      by (intro closed_step Cons.prems(2)) auto
    with Cons.IH [of "gate_run t u op g0"] Cons.prems(1) show ?case
      by (auto simp: x)
  qed simp
  moreover obtain st tel where "gate_runs ops g0 = (st, tel)" by fastforce
  ultimately show ?thesis
    using expire_before [OF _ assms(2), of st unix tel]
    by (simp add: admit_response_def closed_until_def)
qed

theorem drain_closes_admission_witness:
  "fst (fst (admit_response 3 0 (gate_runs [(1, 0, Admit), (2, 0, Release)]
     (snd (set_draining True 30 0 0 (new_admission, new_telemetry)))))) = ''draining''"
  using drain_closes_admission [of "[(1, 0, Admit), (2, 0, Release)]" 0 30 3
      "snd (set_draining True 30 0 0 (new_admission, new_telemetry))" 0 "(new_admission, new_telemetry)" 0]
  by simp

text \<open>
  A drain cannot be forgotten: in any reachable state, a request that arrives 900 seconds
  later is admitted.
\<close>

theorem drain_lease_ends:
  assumes "gate_reach t g" "t + 900 \<le> now"
  shows "fst (admit_response now unix g) = (''acquired'', active_responses (fst g) + 1)"
proof -
  obtain st tel where g: "g = (st, tel)" by fastforce
  from reachable_inv [OF assms(1)] g have inv: "gate_inv t st" by simp
  show ?thesis
  proof (cases "drain_deadline st")
    case None
    with inv g show ?thesis
      by (simp add: admit_response_def expire_drain_def drain_expired_def gate_inv_def)
  next
    case (Some d)
    with inv assms(2) have "0 < d" "d \<le> now" by (auto simp: gate_inv_def)
    with Some g show ?thesis
      by (simp add: admit_response_def expire_drain_def drain_expired_def)
  qed
qed

theorem drain_lease_ends_witness:
  "fst (admit_response 900 0 (new_admission, new_telemetry)) = (''acquired'', 1)"
  using drain_lease_ends [OF gate_reach.start [of 0 new_telemetry], of 900 0]
  by (simp add: new_admission_def)

end
