(* ===== verification/Response.thy ===== *)
theory Response
  imports Url
begin

text \<open>
  \<open>protocol/response.py\<close>: the local error envelope, the data of one server-sent event, the bounded
  diagnostic of an upstream failure, and the check of a JSON success body.
\<close>

definition JSON_TERMINALS :: "string list" where
  "JSON_TERMINALS = [''completed'', ''incomplete'']"

definition error_payload :: "string \<Rightarrow> string \<Rightarrow> string \<Rightarrow> string option \<Rightarrow> int option \<Rightarrow> bytes" where
  "error_payload message error_type code reason attempts =
     json_text True (JObj [(''error'', JObj
       ([(''message'', JStr message), (''type'', JStr error_type), (''code'', JStr code)]
        @ (case reason of Some r \<Rightarrow> [(''reason'', JStr r)] | None \<Rightarrow> [])
        @ (case attempts of Some n \<Rightarrow> [(''attempts'', JInt n)] | None \<Rightarrow> [])))])"

section \<open>Lines\<close>

text \<open>\<open>bytes.splitlines(keepends=True)\<close> and \<open>bytes.splitlines()\<close>.\<close>

definition glue_char :: "char \<Rightarrow> bytes list \<Rightarrow> bytes list" where
  "glue_char c ls = (case ls of [] \<Rightarrow> [[c]] | l # ls' \<Rightarrow> (c # l) # ls')"

fun splitlines_keep :: "bytes \<Rightarrow> bytes list" where
  "splitlines_keep [] = []"
| "splitlines_keep (c # s) =
     (if c = CHR 10 then [c] # splitlines_keep s
      else if c = CHR 13
      then (if s \<noteq> [] \<and> hd s = CHR 10 then [c, hd s] # splitlines_keep (tl s)
            else [c] # splitlines_keep s)
      else glue_char c (splitlines_keep s))"

definition strip_ending :: "bytes \<Rightarrow> bytes" where
  "strip_ending l =
     (case rev l of
        c # r \<Rightarrow>
          if c = CHR 10 then (case r of d # r' \<Rightarrow> if d = CHR 13 then rev r' else rev r | [] \<Rightarrow> [])
          else if c = CHR 13 then rev r else l
      | [] \<Rightarrow> [])"

definition splitlines :: "bytes \<Rightarrow> bytes list" where
  "splitlines s = map strip_ending (splitlines_keep s)"

fun join_lines :: "bytes list \<Rightarrow> bytes" where
  "join_lines [] = []"
| "join_lines [l] = l"
| "join_lines (l # l' # ls) = l @ [CHR 10] @ join_lines (l' # ls)"

definition removeprefix_space :: "bytes \<Rightarrow> bytes" where
  "removeprefix_space v = (case v of c # r \<Rightarrow> if c = CHR '' '' then r else v | [] \<Rightarrow> [])"

section \<open>Events\<close>

definition data_field :: "bytes \<Rightarrow> bytes option" where
  "data_field line = (case partition_at (CHR '':'') line of (name, _, value) \<Rightarrow>
     if name = ''data'' then Some (removeprefix_space value) else None)"

definition event_data :: "bytes \<Rightarrow> bytes" where
  "event_data raw_event = join_lines (List.map_filter data_field (splitlines raw_event))"

text \<open>\<open>JNull\<close> stands for Python's \<open>None\<close>: no data, the end marker, or a JSON \<open>null\<close>.\<close>

definition sse_event_data :: "py_env \<Rightarrow> bytes \<Rightarrow> json res" where
  "sse_event_data env raw_event =
     (let data = event_data raw_event in
      if data = [] \<or> data = ''[DONE]'' then Inr JNull
      else (case loads env data of
              Inl _ \<Rightarrow> Inl (ValueError ''invalid_responses_event'')
            | Inr v \<Rightarrow> Inr v))"

definition validate_sse_event :: "py_env \<Rightarrow> bytes \<Rightarrow> bytes res" where
  "validate_sse_event env raw_event = res_bind (sse_event_data env raw_event) (\<lambda>_. Inr raw_event)"

definition validate_json_response :: "py_env \<Rightarrow> bytes \<Rightarrow> bytes res" where
  "validate_json_response env raw_response =
     (case loads env raw_response of
        Inl _ \<Rightarrow> Inl (ValueError ''invalid_responses_success_body'')
      | Inr v \<Rightarrow>
          (case as_obj v of
             None \<Rightarrow> Inl (ValueError ''invalid_responses_success_body'')
           | Some payload \<Rightarrow>
               res_bind (in_frozenset (jget payload ''status'') JSON_TERMINALS) (\<lambda>terminal.
                 if terminal then Inr raw_response
                 else Inl (ValueError ''invalid_responses_success_body''))))"

section \<open>Failure diagnostics\<close>

text \<open>
  The regular expression of \<open>failure_diagnostic\<close>, over the code points of the message: under
  \<open>(?i)\<close> a letter also matches its upper case, and \<open>s\<close> and \<open>i\<close> their Unicode variants; \<open>\b\<close> is the
  boundary of a run of word characters.
\<close>

definition point_word :: "py_env \<Rightarrow> nat \<Rightarrow> bool" where
  "point_word env n \<longleftrightarrow>
     48 \<le> n \<and> n \<le> 57 \<or> 65 \<le> n \<and> n \<le> 90 \<or> 97 \<le> n \<and> n \<le> 122 \<or> n = 95 \<or>
     128 \<le> n \<and> unicode_alnum env n"

definition letter_ci :: "char \<Rightarrow> nat \<Rightarrow> bool" where
  "letter_ci c n \<longleftrightarrow>
     n = of_char c \<or> n + 32 = of_char c \<or> c = CHR ''s'' \<and> n = 383 \<or> c = CHR ''i'' \<and> n \<in> {304, 305}"

definition hex_ci :: "nat \<Rightarrow> bool" where
  "hex_ci n \<longleftrightarrow> 48 \<le> n \<and> n \<le> 57 \<or> 65 \<le> n \<and> n \<le> 70 \<or> 97 \<le> n \<and> n \<le> 102"

fun match_prefix :: "(nat \<Rightarrow> bool) list \<Rightarrow> nat list \<Rightarrow> nat list option" where
  "match_prefix [] ns = Some ns"
| "match_prefix (p # ps) [] = None"
| "match_prefix (p # ps) (n # ns) = (if p n then match_prefix ps ns else None)"

definition request_id_words :: "(nat \<Rightarrow> bool) list" where
  "request_id_words =
     map letter_ci ''request'' @ [\<lambda>n. n \<in> {32, 95, 45}] @ map letter_ci ''id'' @ [\<lambda>n. n \<in> {32, 58}]"

definition uuid_points :: "(nat \<Rightarrow> bool) list" where
  "uuid_points =
     replicate 8 hex_ci @ [\<lambda>n. n = 45] @ replicate 4 hex_ci @ [\<lambda>n. n = 45] @ replicate 4 hex_ci
     @ [\<lambda>n. n = 45] @ replicate 4 hex_ci @ [\<lambda>n. n = 45] @ replicate 12 hex_ci"

text \<open>A match at the start of the list: the points of the group.\<close>

definition match_request_id :: "py_env \<Rightarrow> nat list \<Rightarrow> nat list option" where
  "match_request_id env ns =
     (case match_prefix request_id_words ns of
        None \<Rightarrow> None
      | Some rest \<Rightarrow>
          let uuid = dropWhile (\<lambda>n. n \<in> {32, 58}) rest in
          (case match_prefix uuid_points uuid of
             None \<Rightarrow> None
           | Some after \<Rightarrow>
               if after \<noteq> [] \<and> point_word env (hd after) then None else Some (take 36 uuid)))"

fun search_request_id :: "py_env \<Rightarrow> bool \<Rightarrow> nat list \<Rightarrow> nat list option" where
  "search_request_id env after_word [] = None"
| "search_request_id env after_word (n # ns) =
     (case (if after_word then None else match_request_id env (n # ns)) of
        Some uuid \<Rightarrow> Some uuid
      | None \<Rightarrow> search_request_id env (point_word env n) ns)"

definition failure_codes :: "string list" where
  "failure_codes = [''server_error'', ''rate_limit_exceeded'', ''invalid_prompt'']"

definition failure_diagnostic :: "py_env \<Rightarrow> json \<Rightarrow> string \<times> string" where
  "failure_diagnostic env error =
     (case as_obj error of
        None \<Rightarrow> (''unknown'', ''none'')
      | Some d \<Rightarrow>
          (case as_str (jget d ''code'') of
             Some c \<Rightarrow> if c \<in> set failure_codes then c else ''unknown''
           | None \<Rightarrow> ''unknown'',
           case search_request_id env False
                  (take 2048 (code_points (case as_str (jget d ''message'') of Some m \<Rightarrow> m | None \<Rightarrow> []))) of
             Some uuid \<Rightarrow> lower (map char_of uuid)
           | None \<Rightarrow> ''none''))"

section \<open>Facts\<close>

lemma concat_glue [simp]: "concat (glue_char c ls) = c # concat ls"
  by (simp add: glue_char_def split: list.splits)

lemma glue_nonempty: "l \<in> set (glue_char c ls) \<Longrightarrow> l \<noteq> [] \<or> l \<in> set ls"
  by (auto simp: glue_char_def split: list.splits)

lemma concat_splitlines_keep: "concat (splitlines_keep s) = s"
  by (induction s rule: splitlines_keep.induct) (auto, metis list.collapse)

text \<open>The only exception an event can raise is the one its callers expect.\<close>

lemma sse_event_data_error:
  "sse_event_data env raw = Inl e \<Longrightarrow> e = ValueError ''invalid_responses_event''"
  by (auto simp: sse_event_data_def Let_def split: sum.splits if_splits)

lemma match_prefix_all:
  "match_prefix ps ns = Some rest \<Longrightarrow>
     list_all2 (\<lambda>p n. p n) ps (take (length ps) ns) \<and> rest = drop (length ps) ns"
  by (induction ps ns rule: match_prefix.induct) (auto split: if_splits)

definition lower_hex :: "char \<Rightarrow> bool" where
  "lower_hex c \<longleftrightarrow>
     48 \<le> (of_char c :: nat) \<and> of_char c \<le> (57 :: nat) \<or> 97 \<le> (of_char c :: nat) \<and> of_char c \<le> (102 :: nat)"

definition uuid_text :: "string \<Rightarrow> bool" where
  "uuid_text s \<longleftrightarrow> length s = 36 \<and> (\<forall>i < 36. if i \<in> {8, 13, 18, 23} then s ! i = CHR ''-'' else lower_hex (s ! i))"

lemma search_request_id_group:
  "search_request_id env w ns = Some g \<Longrightarrow> list_all2 (\<lambda>p n. p n) uuid_points g"
proof (induction env w ns rule: search_request_id.induct)
  case (2 env w n ns)
  have len: "length uuid_points = 36" by (simp add: uuid_points_def)
  show ?case
  proof (cases "if w then None else match_request_id env (n # ns)")
    case None
    with 2 show ?thesis by simp
  next
    case (Some uuid)
    with 2 have "match_request_id env (n # ns) = Some g" by (simp split: if_splits)
    then show ?thesis
      by (auto simp: match_request_id_def Let_def len split: option.splits if_splits
          dest!: match_prefix_all)
  qed
qed simp

lemma lower_hex_point: "hex_ci n \<Longrightarrow> lower_hex (lower_char (char_of n))"
  by (auto simp: hex_ci_def lower_hex_def lower_char_def)

lemma lower_dash: "lower_char (char_of (45 :: nat)) = CHR ''-''"
  by code_simp

lemma uuid_points_nth:
  "i < 36 \<Longrightarrow> uuid_points ! i = (if i \<in> {8, 13, 18, 23} then (\<lambda>n. n = 45) else hex_ci)"
  unfolding uuid_points_def by (auto simp: nth_append nth_Cons')

text \<open>
  A failure diagnostic is bounded: the class is one of four words, and the request
  identity is \<open>none\<close> or a lower-case UUID.  No upstream prose can pass through it.
\<close>

theorem failure_diagnostic_bounded:
  "fst (failure_diagnostic env error) \<in> set (''unknown'' # failure_codes) \<and>
   (snd (failure_diagnostic env error) = ''none'' \<or> uuid_text (snd (failure_diagnostic env error)))"
proof -
  have "uuid_text (lower (map char_of g))" if "list_all2 (\<lambda>p n. p n) uuid_points g" for g :: "nat list"
  proof -
    from that have len: "length g = 36" by (auto simp: uuid_points_def dest: list_all2_lengthD)
    have "(uuid_points ! i) (g ! i)" if "i < 36" for i
      using list_all2_nthD2 [OF \<open>list_all2 _ _ _\<close>, of i] that len by simp
    then have "if i \<in> {8, 13, 18, 23} then g ! i = 45 else hex_ci (g ! i)" if "i < 36" for i
      using that uuid_points_nth [OF that] by (metis (mono_tags, lifting))
    then show ?thesis
      by (auto simp: uuid_text_def lower_def len lower_hex_point lower_dash)
  qed
  then show ?thesis
    by (auto simp: failure_diagnostic_def dest!: search_request_id_group split: option.splits)
qed

end
