(* ===== verification/Agent_Delivery.thy ===== *)
theory Agent_Delivery
  imports Response
begin

text \<open>
  \<open>protocol/agent_delivery.py\<close>: under the plaintext policy the reserved collaboration namespace of
  a request is aliased before it goes upstream, and the alias is undone in the response once the
  message is known to be readable.  The source edits the decoded tree in place; the model returns
  the edited tree.
\<close>

datatype delivery_mode = Native | Plaintext

definition NATIVE_NAMESPACE :: string where
  "NATIVE_NAMESPACE = ''collaboration''"

definition PLAINTEXT_NAMESPACE :: string where
  "PLAINTEXT_NAMESPACE = ''collaboration_plaintext''"

definition MESSAGE_TOOLS :: "string list" where
  "MESSAGE_TOOLS = [''spawn_agent'', ''send_message'', ''followup_task'']"

definition CALL_TYPES :: "string list" where
  "CALL_TYPES = [''function_call'', ''custom_tool_call'']"

record prepared_request =
  pr_body :: bytes
  pr_active :: bool

abbreviation delivery_error :: "string \<Rightarrow> 'a res" where
  "delivery_error why \<equiv> Inl (ValueError why)"

section \<open>Decoding and encoding\<close>

definition json_object :: "py_env \<Rightarrow> bytes \<Rightarrow> string \<Rightarrow> jdict res" where
  "json_object env raw why =
     (case loads env raw of
        Inl TypeError \<Rightarrow> Inl TypeError
      | Inl _ \<Rightarrow> delivery_error why
      | Inr v \<Rightarrow> (case as_obj v of Some d \<Rightarrow> Inr d | None \<Rightarrow> delivery_error why))"

definition encode :: "py_env \<Rightarrow> json \<Rightarrow> bytes res" where
  "encode env v =
     (case dumps_utf8 env v of
        Inl _ \<Rightarrow> delivery_error ''invalid_agent_delivery_payload''
      | Inr b \<Rightarrow> Inr b)"

section \<open>Selecting the plaintext schema\<close>

fun is_catalog_item :: "json \<Rightarrow> bool" where
  "is_catalog_item (JObj item) = (jget item ''type'' = JStr ''additional_tools'')"
| "is_catalog_item _ = False"

definition item_catalog :: "json \<Rightarrow> json list res" where
  "item_catalog v =
     (case as_obj v of
        Some item \<Rightarrow>
          (case as_arr (jget item ''tools'') of
             Some tools \<Rightarrow> Inr tools
           | None \<Rightarrow> delivery_error ''invalid_agent_delivery_request'')
      | None \<Rightarrow> Inr [])"

definition input_items :: "jdict \<Rightarrow> json list" where
  "input_items payload = (case as_arr (jget payload ''input'') of Some items \<Rightarrow> items | None \<Rightarrow> [])"

definition catalogs :: "jdict \<Rightarrow> json list list res" where
  "catalogs payload =
     res_bind
       (if has_key payload ''tools''
        then (case as_arr (jget payload ''tools'') of
                Some tools \<Rightarrow> Inr [tools]
              | None \<Rightarrow> delivery_error ''invalid_agent_delivery_request'')
        else Inr [])
       (\<lambda>top. res_bind (res_map item_catalog (filter is_catalog_item (input_items payload)))
                (\<lambda>rest. Inr (top @ rest)))"

text \<open>A message tool's schema loses its \<open>encrypted\<close> mark.\<close>

definition plain_message_schema :: "jdict \<Rightarrow> jdict res" where
  "plain_message_schema child =
     (case as_obj (jget child ''parameters'') of
        None \<Rightarrow> delivery_error ''invalid_agent_delivery_request''
      | Some parameters \<Rightarrow>
     (case as_obj (jget parameters ''properties'') of
        None \<Rightarrow> delivery_error ''invalid_agent_delivery_request''
      | Some properties \<Rightarrow>
     (case as_obj (jget properties ''message'') of
        None \<Rightarrow> delivery_error ''invalid_agent_delivery_request''
      | Some message \<Rightarrow>
          if jget message ''type'' \<noteq> JStr ''string''
          then delivery_error ''invalid_agent_delivery_request''
          else Inr (AList.update ''parameters'' (JObj (AList.update ''properties'' (JObj
                 (AList.update ''message'' (JObj (AList.delete ''encrypted'' message)) properties))
                 parameters)) child))))"

definition select_child :: "json \<Rightarrow> json res" where
  "select_child v =
     (case as_obj v of
        None \<Rightarrow> Inr v
      | Some child \<Rightarrow>
          res_bind (in_frozenset (jget child ''name'') MESSAGE_TOOLS) (\<lambda>message_tool.
            if \<not> message_tool then Inr v
            else res_bind (plain_message_schema child) (\<lambda>c. Inr (JObj c))))"

definition select_tool :: "json \<Rightarrow> (json \<times> bool) res" where
  "select_tool v =
     (case as_obj v of
        None \<Rightarrow> Inr (v, False)
      | Some tool \<Rightarrow>
          if jget tool ''type'' \<noteq> JStr ''namespace'' then Inr (v, False)
          else if jget tool ''name'' = JStr PLAINTEXT_NAMESPACE
          then delivery_error ''agent_delivery_namespace_conflict''
          else if jget tool ''name'' \<noteq> JStr NATIVE_NAMESPACE then Inr (v, False)
          else (case as_arr (jget tool ''tools'') of
                  None \<Rightarrow> delivery_error ''invalid_agent_delivery_request''
                | Some children \<Rightarrow>
                    res_bind (res_map select_child children) (\<lambda>children'.
                      Inr (JObj (AList.update ''tools'' (JArr children')
                             (AList.update ''name'' (JStr PLAINTEXT_NAMESPACE) tool)), True))))"

definition select_catalog :: "json list \<Rightarrow> (json list \<times> bool) res" where
  "select_catalog tools =
     res_bind (res_map select_tool tools) (\<lambda>rs. Inr (map fst rs, list_ex snd rs))"

text \<open>The edited catalog put back under \<open>tools\<close>.\<close>

definition select_tools_field :: "jdict \<Rightarrow> (jdict \<times> bool) res" where
  "select_tools_field d =
     (case as_arr (jget d ''tools'') of
        Some tools \<Rightarrow>
          res_bind (select_catalog tools) (\<lambda>(tools', active).
            Inr (AList.update ''tools'' (JArr tools') d, active))
      | None \<Rightarrow> Inr (d, False))"

definition select_catalog_item :: "json \<Rightarrow> (json \<times> bool) res" where
  "select_catalog_item v =
     (case as_obj v of
        Some item \<Rightarrow>
          if is_catalog_item v
          then res_bind (select_tools_field item) (\<lambda>(item', active). Inr (JObj item', active))
          else Inr (v, False)
      | None \<Rightarrow> Inr (v, False))"

definition select_replayed_call :: "jdict \<Rightarrow> (jdict \<times> bool) res" where
  "select_replayed_call item =
     res_bind (in_frozenset (jget item ''type'') CALL_TYPES) (\<lambda>call.
       if \<not> call \<or> jget item ''namespace'' \<noteq> JStr NATIVE_NAMESPACE then Inr (item, False)
       else
         let item1 = AList.update ''namespace'' (JStr PLAINTEXT_NAMESPACE) item
         in Inr (if jget item1 ''encrypted_function_args'' = JArr []
                 then AList.delete ''encrypted_function_args'' item1 else item1, True))"

definition select_replayed_item :: "json \<Rightarrow> (json \<times> bool) res" where
  "select_replayed_item v =
     (case as_obj v of
        Some item \<Rightarrow> res_bind (select_replayed_call item) (\<lambda>(item', active). Inr (JObj item', active))
      | None \<Rightarrow> Inr (v, False))"

definition map_input :: "(json \<Rightarrow> (json \<times> bool) res) \<Rightarrow> jdict \<Rightarrow> (jdict \<times> bool) res" where
  "map_input f payload =
     (case as_arr (jget payload ''input'') of
        Some items \<Rightarrow>
          res_bind (res_map f items) (\<lambda>rs.
            Inr (AList.update ''input'' (JArr (map fst rs)) payload, list_ex snd rs))
      | None \<Rightarrow> Inr (payload, False))"

definition select_tool_choice :: "jdict \<Rightarrow> jdict" where
  "select_tool_choice payload =
     (case as_obj (jget payload ''tool_choice'') of
        Some choice \<Rightarrow>
          if jget choice ''namespace'' = JStr NATIVE_NAMESPACE
          then AList.update ''tool_choice''
                 (JObj (AList.update ''namespace'' (JStr PLAINTEXT_NAMESPACE) choice)) payload
          else payload
      | None \<Rightarrow> payload)"

definition prepare_payload :: "jdict \<Rightarrow> (jdict \<times> bool) res" where
  "prepare_payload payload =
     res_bind (catalogs payload) (\<lambda>_.
     res_bind (select_tools_field payload) (\<lambda>(payload1, a1).
     res_bind (map_input select_catalog_item payload1) (\<lambda>(payload2, a2).
     res_bind (map_input select_replayed_item payload2) (\<lambda>(payload3, a3).
       Inr (payload3, a1 \<or> a2 \<or> a3)))))"

definition prepare_request :: "py_env \<Rightarrow> bytes \<Rightarrow> delivery_mode \<Rightarrow> prepared_request res" where
  "prepare_request env raw mode =
     (if mode = Native then Inr \<lparr>pr_body = raw, pr_active = False\<rparr>
      else
        res_bind (json_object env raw ''invalid_agent_delivery_request'') (\<lambda>payload.
        res_bind (prepare_payload payload) (\<lambda>(payload', active).
          if \<not> active then Inr \<lparr>pr_body = raw, pr_active = False\<rparr>
          else res_bind (encode env (JObj (select_tool_choice payload'))) (\<lambda>b.
                 Inr \<lparr>pr_body = b, pr_active = True\<rparr>))))"

section \<open>Restoring native delivery\<close>

text \<open>\<open>message.lstrip().startswith("gAAAA")\<close>: the start of a Fernet token.\<close>

definition looks_encrypted :: "string \<Rightarrow> bool" where
  "looks_encrypted message \<longleftrightarrow>
     take 5 (dropWhile point_isspace (code_points message)) = map of_char ''gAAAA''"

fun parsed_message :: "json \<Rightarrow> json" where
  "parsed_message (JObj d) = jget d ''message''"
| "parsed_message _ = JNull"

definition plaintext_proved :: "py_env \<Rightarrow> jdict \<Rightarrow> bool res" where
  "plaintext_proved env item =
     (case as_str (jget item ''arguments'') of
        None \<Rightarrow> Inr False
      | Some arguments \<Rightarrow>
          (case loads_str env arguments of
             Inl TypeError \<Rightarrow> Inl TypeError
           | Inl _ \<Rightarrow> Inr False
           | Inr parsed \<Rightarrow>
               Inr (case as_str (parsed_message parsed) of
                      Some m \<Rightarrow>
                        m \<noteq> [] \<and> \<not> looks_encrypted m \<and>
                        (jget item ''encrypted_function_args'' = JNull \<or>
                         jget item ''encrypted_function_args'' = JArr [])
                    | None \<Rightarrow> False)))"

definition restore_item :: "py_env \<Rightarrow> jdict \<Rightarrow> (jdict \<times> bool) res" where
  "restore_item env item =
     res_bind (in_frozenset (jget item ''type'') CALL_TYPES) (\<lambda>call.
     if \<not> call \<or> jget item ''namespace'' \<noteq> JStr PLAINTEXT_NAMESPACE then Inr (item, False) else
     res_bind (in_frozenset (jget item ''name'') MESSAGE_TOOLS) (\<lambda>message_tool.
     res_bind
       (if message_tool \<and> (jget item ''status'' \<noteq> JStr ''in_progress'' \<or> truthy (jget item ''arguments''))
        then res_bind (plaintext_proved env item) (\<lambda>proved.
               if proved then Inr (AList.update ''encrypted_function_args'' (JArr []) item)
               else delivery_error ''agent_delivery_plaintext_unproved'')
        else Inr item)
       (\<lambda>item1. Inr (AList.update ''namespace'' (JStr NATIVE_NAMESPACE) item1, True))))"

definition restore_json :: "py_env \<Rightarrow> json \<Rightarrow> (json \<times> bool) res" where
  "restore_json env v =
     (case as_obj v of
        Some item \<Rightarrow> res_bind (restore_item env item) (\<lambda>(item', chg). Inr (JObj item', chg))
      | None \<Rightarrow> Inr (v, False))"

definition restore_output :: "py_env \<Rightarrow> jdict \<Rightarrow> (jdict \<times> bool) res" where
  "restore_output env terminal =
     (case as_arr (jget terminal ''output'') of
        Some items \<Rightarrow>
          res_bind (res_map (restore_json env) items) (\<lambda>rs.
            Inr (AList.update ''output'' (JArr (map fst rs)) terminal, list_ex snd rs))
      | None \<Rightarrow> Inr (terminal, False))"

definition restore_item_field :: "py_env \<Rightarrow> jdict \<Rightarrow> (jdict \<times> bool) res" where
  "restore_item_field env payload =
     (case as_obj (jget payload ''item'') of
        Some item \<Rightarrow>
          res_bind (restore_item env item) (\<lambda>(item', chg).
            Inr (AList.update ''item'' (JObj item') payload, chg))
      | None \<Rightarrow> Inr (payload, False))"

definition restore_payload :: "py_env \<Rightarrow> jdict \<Rightarrow> (jdict \<times> bool) res" where
  "restore_payload env payload =
     res_bind (restore_item_field env payload) (\<lambda>(payload1, c1).
       case as_obj (jget payload1 ''response'') of
         Some response \<Rightarrow>
           res_bind (restore_output env response) (\<lambda>(response', c2).
             Inr (AList.update ''response'' (JObj response') payload1, c1 \<or> c2))
       | None \<Rightarrow>
           res_bind (restore_output env payload1) (\<lambda>(payload2, c2). Inr (payload2, c1 \<or> c2)))"

definition restore_response :: "py_env \<Rightarrow> bytes \<Rightarrow> bool \<Rightarrow> bytes res" where
  "restore_response env raw active =
     (if \<not> active then Inr raw
      else res_bind (json_object env raw ''invalid_agent_delivery_payload'') (\<lambda>payload.
           res_bind (restore_payload env payload) (\<lambda>(payload', chg).
             if chg then encode env (JObj payload') else Inr raw)))"

text \<open>The first data line carries the new payload, later ones go, all other lines stay.\<close>

definition is_data_line :: "bytes \<Rightarrow> bool" where
  "is_data_line line \<longleftrightarrow> fst (partition_at (CHR '':'') line) = ''data''"

definition line_ending :: "bytes \<Rightarrow> bytes" where
  "line_ending line = (if take 2 (rev line) = [CHR 10, CHR 13] then [CHR 13, CHR 10] else [CHR 10])"

fun replace_data :: "bytes \<Rightarrow> bool \<Rightarrow> bytes list \<Rightarrow> bytes list" where
  "replace_data encoded replaced [] = []"
| "replace_data encoded replaced (line # lines) =
     (if \<not> is_data_line line then line # replace_data encoded replaced lines
      else if \<not> replaced
      then (''data: '' @ encoded @ line_ending line) # replace_data encoded True lines
      else replace_data encoded replaced lines)"

definition restore_event :: "py_env \<Rightarrow> bytes \<Rightarrow> bool \<Rightarrow> bytes res" where
  "restore_event env raw active =
     (if \<not> active then Inr raw
      else res_bind (sse_event_data env raw) (\<lambda>v.
        case as_obj v of
          None \<Rightarrow> Inr raw
        | Some payload \<Rightarrow>
            res_bind (restore_payload env payload) (\<lambda>(payload', chg).
              if \<not> chg then Inr raw
              else if \<not> list_ex is_data_line (splitlines_keep raw) then Inr raw
              else res_bind (encode env (JObj payload')) (\<lambda>encoded.
                     Inr (concat (replace_data encoded False (splitlines_keep raw)))))))"

end
