(* ===== verification/Registry.thy ===== *)
theory Registry
  imports Agent_Delivery "HOL-Library.Char_ord" "HOL-Library.List_Lexorder"
begin

text \<open>
  \<open>providers/registry.py\<close> and the wire policy \<open>providers/policies/dmxapi.py\<close>: the manifest of
  provider routes, the addresses a route may have, and the resolution of a request path.  Importing
  a policy module is the parameter \<open>import_policy\<close>; a parsed manifest is a JSON value.
\<close>

section \<open>Profiles\<close>

record wire_policy =
  wp_name :: string
  EXHAUSTED_CODE :: string
  EXHAUSTED_MESSAGE :: string
  FAILURE_CACHE_CAPACITY :: int
  FAILURE_COOLDOWN_SECONDS :: int
  POLICY_VERSION :: string
  is_retryable_failure :: "int \<Rightarrow> bytes \<Rightarrow> bool res"
  request_fingerprint :: "bytes \<Rightarrow> string"

record profile =
  prof_name :: string
  base_url :: string
  prof_policy :: "wire_policy option"
  agent_message_delivery :: delivery_mode

type_synonym registry = "profile dict"

section \<open>The DMX policy\<close>

definition DMX_VERSION :: string where
  "DMX_VERSION = ''empty-response-retry-v1''"

definition dmx_is_retryable_failure :: "py_env \<Rightarrow> int \<Rightarrow> bytes \<Rightarrow> bool res" where
  "dmx_is_retryable_failure env code payload =
     (if code \<noteq> 477 then Inr False
      else (case loads env payload of
              Inl RecursionError \<Rightarrow> Inl RecursionError
            | Inl _ \<Rightarrow> Inr False
            | Inr document \<Rightarrow> Inr
                (case Option.bind (as_obj document) (\<lambda>d. as_obj (jget d ''error'')) of
                   None \<Rightarrow> False
                 | Some error \<Rightarrow> jget error ''type'' = JStr ''dmx_api_error''
                                 \<and> jget error ''code'' = JStr ''empty_response'')))"

definition dmx_request_fingerprint :: "py_env \<Rightarrow> bytes \<Rightarrow> string" where
  "dmx_request_fingerprint env request = sha256_hex env (DMX_VERSION @ request)"

definition dmxapi :: "py_env \<Rightarrow> wire_policy" where
  "dmxapi env =
     \<lparr>wp_name = ''openai_responses_proxy.providers.policies.dmxapi'',
      EXHAUSTED_CODE = ''dmx_empty_response_exhausted'',
      EXHAUSTED_MESSAGE = ''DMX upstream returned empty responses after bounded retries'',
      FAILURE_CACHE_CAPACITY = 1024, FAILURE_COOLDOWN_SECONDS = 30, POLICY_VERSION = DMX_VERSION,
      is_retryable_failure = dmx_is_retryable_failure env,
      request_fingerprint = dmx_request_fingerprint env\<rparr>"

section \<open>Addresses\<close>

definition slug_char :: "char \<Rightarrow> bool" where
  "slug_char c \<longleftrightarrow> (97 \<le> (of_char c :: nat) \<and> of_char c \<le> (122 :: nat)) \<or> is_digit c \<or> c = CHR ''-''"

text \<open>\<open>_NAME.fullmatch\<close>.\<close>

definition is_slug :: "string \<Rightarrow> bool" where
  "is_slug s \<longleftrightarrow> s \<noteq> [] \<and> 97 \<le> (of_char (hd s) :: nat) \<and> of_char (hd s) \<le> (122 :: nat) \<and> list_all slug_char s"

definition LOOPBACK_HOSTS :: "string list" where
  "LOOPBACK_HOSTS = [''127.0.0.1'', ''localhost'', ''::1'']"

definition rstrip_slash :: "string \<Rightarrow> string" where
  "rstrip_slash s = rev (dropWhile (\<lambda>c. c = CHR ''/'') (rev s))"

text \<open>\<open>urlunsplit\<close> for an address with a network location and no query or fragment.\<close>

definition unsplit_base :: "string \<Rightarrow> string \<Rightarrow> string \<Rightarrow> string" where
  "unsplit_base scheme netloc path =
     scheme @ ''://'' @ netloc @ (if path \<noteq> [] \<and> hd path \<noteq> CHR ''/'' then ''/'' else []) @ path"

definition acceptable_base :: "split_url \<Rightarrow> bool" where
  "acceptable_base u \<longleftrightarrow>
     lower (url_scheme u) \<in> {''http'', ''https''} \<and> url_hostname u \<noteq> None \<and>
     url_userinfo u = (None, None) \<and> url_query u = [] \<and> url_fragment u = [] \<and>
     (lower (url_scheme u) = ''http'' \<longrightarrow> (\<exists>h \<in> set LOOPBACK_HOSTS. url_hostname u = Some h))"

definition normalize_base_url :: "py_env \<Rightarrow> json \<Rightarrow> string res" where
  "normalize_base_url env v =
     (case as_str v of
        None \<Rightarrow> Inl (ValueError ''base_url'')
      | Some s \<Rightarrow>
          if s = [] \<or> any_isspace s then Inl (ValueError ''base_url'')
          else (case urlsplit env s of
                  Inl _ \<Rightarrow> Inl (ValueError ''base_url'')
                | Inr u \<Rightarrow>
                    if \<not> port_valid u \<or> \<not> acceptable_base u then Inl (ValueError ''base_url'')
                    else Inr (unsplit_base (lower (url_scheme u)) (url_netloc u) (rstrip_slash (url_path u)))))"

definition normalize_upstream :: "py_env \<Rightarrow> string \<Rightarrow> string res" where
  "normalize_upstream env value = normalize_base_url env (JStr value)"

section \<open>The manifest\<close>

definition PROFILE_FIELDS :: "string list" where
  "PROFILE_FIELDS = [''base_url'', ''policy'', ''agent_message_delivery'']"

fun delivery_of_json :: "json \<Rightarrow> delivery_mode option" where
  "delivery_of_json (JStr s) =
     (if s = ''native'' then Some Native else if s = ''plaintext'' then Some Plaintext else None)"
| "delivery_of_json _ = None"

definition policy_ok :: "json \<Rightarrow> bool" where
  "policy_ok v \<longleftrightarrow> v = JNull \<or> (case as_str v of Some s \<Rightarrow> is_slug s | None \<Rightarrow> False)"

definition make_profile ::
  "py_env \<Rightarrow> (string \<Rightarrow> wire_policy res) \<Rightarrow> string \<Rightarrow> json \<Rightarrow> profile res" where
  "make_profile env import_policy name raw =
     (if \<not> is_slug name then Inl (ValueError ''provider name'')
      else case as_obj raw of
        None \<Rightarrow> Inl (ValueError ''provider fields'')
      | Some d \<Rightarrow>
          if \<not> keys_within d PROFILE_FIELDS then Inl (ValueError ''provider fields'')
          else if \<not> policy_ok (jget d ''policy'') then Inl (ValueError ''policy'')
          else (case delivery_of_json
                      (if has_key d ''agent_message_delivery'' then jget d ''agent_message_delivery''
                       else JStr ''native'') of
                  None \<Rightarrow> Inl (ValueError ''delivery'')
                | Some mode \<Rightarrow>
                    res_bind (normalize_base_url env (jget d ''base_url'')) (\<lambda>url.
                    res_bind (case as_str (jget d ''policy'') of
                                None \<Rightarrow> Inr None
                              | Some p \<Rightarrow> res_bind (import_policy p) (\<lambda>w. Inr (Some w)))
                      (\<lambda>w. Inr \<lparr>prof_name = name, base_url = url, prof_policy = w,
                                agent_message_delivery = mode\<rparr>))))"

fun make_profiles ::
  "py_env \<Rightarrow> (string \<Rightarrow> wire_policy res) \<Rightarrow> jdict \<Rightarrow> registry \<Rightarrow> registry res" where
  "make_profiles env import_policy [] acc = Inr acc"
| "make_profiles env import_policy ((name, raw) # rest) acc =
     res_bind (make_profile env import_policy name raw) (\<lambda>p.
       make_profiles env import_policy rest (AList.update name p acc))"

fun is_one :: "json \<Rightarrow> bool" where
  "is_one (JInt i) = (i = 1)"
| "is_one (JBool b) = b"
| "is_one (JFloat r) = (r = ''1.0'')"
| "is_one _ = False"

definition load_registry :: "py_env \<Rightarrow> (string \<Rightarrow> wire_policy res) \<Rightarrow> jdict \<Rightarrow> registry res" where
  "load_registry env import_policy document =
     (if \<not> is_one (jget document ''version'') then Inl (ValueError ''version'')
      else case as_obj (jget document ''providers'') of
        None \<Rightarrow> Inl (ValueError ''no providers'')
      | Some raw \<Rightarrow>
          if raw = [] then Inl (ValueError ''no providers'')
          else res_bind (make_profiles env import_policy raw []) (\<lambda>profiles.
                 if has_key document ''default'' then Inl (ValueError ''default route'')
                 else Inr profiles))"

definition with_upstream :: "py_env \<Rightarrow> string \<Rightarrow> registry \<Rightarrow> registry res" where
  "with_upstream env url reg =
     (if url = [] then Inr reg
      else if has_key reg ''upstream'' then Inl (ValueError ''explicit upstream conflicts'')
      else res_bind (normalize_upstream env url) (\<lambda>b.
        Inr (AList.update ''upstream'' \<lparr>prof_name = ''upstream'', base_url = b, prof_policy = None,
                                       agent_message_delivery = Native\<rparr> reg)))"

definition policy_module_names :: "registry \<Rightarrow> string list" where
  "policy_module_names reg =
     sort (remdups (List.map_filter (\<lambda>p. map_option wp_name (prof_policy (snd p))) reg))"

section \<open>Resolution\<close>

text \<open>\<open>quote(path, safe="/-._~") == path\<close>.\<close>

definition unquoted_char :: "char \<Rightarrow> bool" where
  "unquoted_char c \<longleftrightarrow> is_alpha c \<or> is_digit c \<or> c \<in> {CHR ''/'', CHR ''-'', CHR ''.'', CHR ''_'', CHR ''~''}"

definition resolve :: "py_env \<Rightarrow> registry \<Rightarrow> string \<Rightarrow> (profile \<times> string \<times> string) option" where
  "resolve env reg path =
     (case urlsplit env path of
        Inl _ \<Rightarrow> None
      | Inr u \<Rightarrow>
          if url_scheme u \<noteq> [] \<or> url_netloc u \<noteq> [] \<or> url_fragment u \<noteq> [] then None
          else (case split_on (CHR ''/'') (url_path u) of
                  [a, name, v1, resource] \<Rightarrow>
                    if a \<noteq> [] \<or> v1 \<noteq> ''v1'' \<or> resource \<notin> {''models'', ''responses''} then None
                    else (case map_of reg name of
                            None \<Rightarrow> None
                          | Some p \<Rightarrow>
                              if \<not> list_all unquoted_char (url_path u) then None
                              else Some (p, resource, base_url p @ ''/'' @ resource
                                     @ (if url_query u \<noteq> [] then ''?'' @ url_query u else [])))
                | _ \<Rightarrow> None))"

section \<open>Facts\<close>

text \<open>
  A path resolves only as the route name of a registered provider, the version prefix and
  one of the two supported resources, and the upstream address is that provider's own base address
  followed by the resource and the client's query: a request cannot be steered to another host.
\<close>

theorem resolve_sound:
  assumes "resolve env reg path = Some (p, resource, url)"
  shows "resource \<in> {''models'', ''responses''} \<and>
    (\<exists>name u. map_of reg name = Some p \<and> urlsplit env path = Inr u \<and>
       url_path u = ''/'' @ name @ ''/v1/'' @ resource \<and>
       url = base_url p @ ''/'' @ resource @ (if url_query u = [] then [] else ''?'' @ url_query u))"
proof -
  from assms obtain u where u: "urlsplit env path = Inr u"
    by (cases "urlsplit env path") (auto simp: resolve_def)
  have shape: "\<exists>name v1 r. split_on (CHR ''/'') (url_path u) = [[], name, v1, r] \<and> v1 = ''v1'' \<and>
      r = resource \<and> r \<in> {''models'', ''responses''} \<and> map_of reg name = Some p \<and>
      url = base_url p @ ''/'' @ resource @ (if url_query u = [] then [] else ''?'' @ url_query u)"
    using assms unfolding resolve_def u sum.case
    by (auto split: list.splits option.splits if_splits)
  then obtain name where parts: "split_on (CHR ''/'') (url_path u) = [[], name, ''v1'', resource]"
    and rest: "resource \<in> {''models'', ''responses''}" "map_of reg name = Some p"
      "url = base_url p @ ''/'' @ resource @ (if url_query u = [] then [] else ''?'' @ url_query u)"
    by blast
  from join_split_on [of "CHR ''/''" "url_path u"] parts
  have "url_path u = ''/'' @ name @ ''/v1/'' @ resource" by simp
  with u rest show ?thesis by blast
qed

text \<open>The addresses a loaded registry can send to.\<close>

definition safe_base :: "string \<Rightarrow> bool" where
  "safe_base url \<longleftrightarrow> (\<exists>netloc path.
     url = ''https://'' @ netloc @ path \<or>
     url = ''http://'' @ netloc @ path \<and>
       (\<exists>h \<in> set LOOPBACK_HOSTS. \<exists>u. url_netloc u = netloc \<and> url_hostname u = Some h))"

lemma normalize_base_safe:
  assumes "normalize_base_url env v = Inr url"
  shows "safe_base url"
proof -
  from assms obtain s u where "urlsplit env s = Inr u" and ok: "acceptable_base u"
    and url: "url = unsplit_base (lower (url_scheme u)) (url_netloc u) (rstrip_slash (url_path u))"
    by (auto simp: normalize_base_url_def split: option.splits sum.splits if_splits)
  from ok consider "lower (url_scheme u) = ''https''"
    | h where "lower (url_scheme u) = ''http''" "h \<in> set LOOPBACK_HOSTS" "url_hostname u = Some h"
    unfolding acceptable_base_def by blast
  then show ?thesis
  proof cases
    case 1
    then show ?thesis unfolding safe_base_def url unsplit_base_def
      by (intro exI [of _ "url_netloc u"] exI [of _ "(if rstrip_slash (url_path u) \<noteq> []
          \<and> hd (rstrip_slash (url_path u)) \<noteq> CHR ''/'' then ''/'' else []) @ rstrip_slash (url_path u)"]) simp
  next
    case 2
    then show ?thesis unfolding safe_base_def url unsplit_base_def
      by (intro exI [of _ "url_netloc u"] exI [of _ "(if rstrip_slash (url_path u) \<noteq> []
          \<and> hd (rstrip_slash (url_path u)) \<noteq> CHR ''/'' then ''/'' else []) @ rstrip_slash (url_path u)"]) auto
  qed
qed

lemma make_profile_safe:
  assumes "make_profile env imp name raw = Inr p"
  shows "prof_name p = name" "is_slug name" "safe_base (base_url p)"
proof -
  from assms obtain d mode url w where "is_slug name" "normalize_base_url env (jget d ''base_url'') = Inr url"
    and p: "p = \<lparr>prof_name = name, base_url = url, prof_policy = w, agent_message_delivery = mode\<rparr>"
    by (auto simp: make_profile_def split: option.splits if_splits)
  with normalize_base_safe show "prof_name p = name" "is_slug name" "safe_base (base_url p)" by auto
qed

definition registry_ok :: "registry \<Rightarrow> bool" where
  "registry_ok reg \<longleftrightarrow> (\<forall>name p. map_of reg name = Some p \<longrightarrow>
     prof_name p = name \<and> is_slug name \<and> safe_base (base_url p))"

lemma make_profiles_ok:
  "make_profiles env imp raw acc = Inr reg \<Longrightarrow> registry_ok acc \<Longrightarrow> registry_ok reg"
proof (induction env imp raw acc rule: make_profiles.induct)
  case (2 env imp name raw rest acc)
  from 2(2) obtain p where p: "make_profile env imp name raw = Inr p"
    and r: "make_profiles env imp rest (AList.update name p acc) = Inr reg" by auto
  from make_profile_safe [OF p] 2(3) have "registry_ok (AList.update name p acc)"
    by (simp add: registry_ok_def)
  with 2(1) [OF r] show ?case by blast
qed simp

text \<open>
  Every provider of a loaded registry, with or without an explicit upstream, is filed under
  its own name, which is a lower-case slug, and has an \<open>https\<close> address, or an \<open>http\<close> address on the
  loopback interface.
\<close>

theorem load_registry_safe:
  assumes "load_registry env import_policy document = Inr reg" "with_upstream env url reg = Inr reg'"
    and "map_of reg' name = Some p"
  shows "prof_name p = name \<and> is_slug name \<and> safe_base (base_url p)"
proof -
  from assms(1) obtain raw where "make_profiles env import_policy raw [] = Inr reg"
    by (auto simp: load_registry_def split: option.splits if_splits)
  then have "registry_ok reg" by (rule make_profiles_ok) (simp add: registry_ok_def)
  moreover have "is_slug ''upstream''" by (simp add: is_slug_def slug_char_def)
  ultimately have "registry_ok reg'"
    using assms(2) normalize_base_safe
    by (auto simp: with_upstream_def normalize_upstream_def registry_ok_def split: if_splits)
  with assms(3) show ?thesis by (simp add: registry_ok_def)
qed

section \<open>An example registry\<close>

definition sample_profile :: profile where
  "sample_profile = \<lparr>prof_name = ''acme'', base_url = ''https://a.io'', prof_policy = None,
     agent_message_delivery = Native\<rparr>"

definition sample_registry :: registry where
  "sample_registry = [(''acme'', sample_profile)]"

definition sample_manifest :: jdict where
  "sample_manifest =
     [(''version'', JInt 1),
      (''providers'', JObj [(''acme'', JObj [(''base_url'', JStr ''https://a.io'')])])]"

lemma sample_route:
  "resolve (sample_env doc) sample_registry ''/acme/v1/responses'' = Some (sample_profile, ''responses'', ''https://a.io/responses'')"
proof -
  have u: "urlsplit (sample_env doc) ''/acme/v1/responses'' =
      Inr \<lparr>url_scheme = [], url_netloc = [], url_path = ''/acme/v1/responses'', url_query = [], url_fragment = []\<rparr>"
    by (simp add: urlsplit_def strip_url_def split_scheme_def split_netloc_def netloc_valid_def)
  have "list_all unquoted_char ''/acme/v1/responses''"
    by (simp add: unquoted_char_def is_alpha_def is_digit_def)
  then show ?thesis
    by (simp add: resolve_def u sample_registry_def sample_profile_def)
qed

theorem resolve_sound_witness:
  "\<exists>u. urlsplit (sample_env JNull) ''/acme/v1/responses'' = Inr u \<and>
     resolve (sample_env JNull) sample_registry ''/acme/v1/responses'' =
       Some (sample_profile, ''responses'', base_url sample_profile @ ''/'' @ ''responses'' @
         (if url_query u = [] then [] else ''?'' @ url_query u))"
  using resolve_sound [OF sample_route [of JNull]] sample_route [of JNull] by auto

lemma sample_load:
  "load_registry (sample_env JNull) (\<lambda>_. Inl TypeError) sample_manifest = Inr sample_registry"
proof -
  let ?u = "\<lparr>url_scheme = ''https'', url_netloc = ''a.io'', url_path = [], url_query = [], url_fragment = []\<rparr>"
  have "\<not> any_isspace ''https://a.io''" by (simp add: any_isspace_def point_isspace_def)
  moreover have "urlsplit (sample_env JNull) ''https://a.io'' = Inr ?u" by code_simp
  moreover have "port_valid ?u" "acceptable_base ?u" "lower ''https'' = ''https''" by code_simp+
  ultimately have "normalize_base_url (sample_env JNull) (JStr ''https://a.io'') = Inr ''https://a.io''"
    by (simp add: normalize_base_url_def unsplit_base_def rstrip_slash_def)
  moreover have "is_slug ''acme''" by code_simp
  ultimately show ?thesis
    by (simp add: load_registry_def make_profile_def PROFILE_FIELDS_def policy_ok_def sample_manifest_def
        sample_registry_def sample_profile_def)
qed

theorem load_registry_safe_witness:
  "load_registry (sample_env JNull) (\<lambda>_. Inl TypeError) sample_manifest = Inr sample_registry \<and>
   is_slug ''acme'' \<and> safe_base (base_url sample_profile)"
proof -
  have "with_upstream (sample_env JNull) [] sample_registry = Inr sample_registry" by (simp add: with_upstream_def)
  moreover have "map_of sample_registry ''acme'' = Some sample_profile" by (simp add: sample_registry_def)
  ultimately show ?thesis using load_registry_safe [OF sample_load] sample_load by blast
qed

end
