(* ===== verification/Recovery_Execution.thy ===== *)
theory Recovery_Execution
  imports Items Response
begin

text \<open>
  \<open>protocol/recovery/execution.py\<close>: which upstream failures admit a recovery, and the two smaller
  request-local projections, \<open>compact_request\<close> and \<open>recover_dialogue\<close>.  Metrics dictionaries are
  insertion-ordered dictionaries of JSON scalars, as the source has them.
\<close>

definition COMPACTION_RATIO_DENOMINATOR :: nat where
  "COMPACTION_RATIO_DENOMINATOR = 2"

type_synonym recovery = "(bytes \<times> jdict) option"

section \<open>Decoding the request\<close>

fun message_role :: "json \<Rightarrow> json" where
  "message_role (JObj item) = (if jget item ''type'' = JStr ''message'' then jget item ''role'' else JNull)"
| "message_role _ = JNull"

definition is_user_message :: "json \<Rightarrow> bool" where
  "is_user_message item \<longleftrightarrow> message_role item = JStr ''user''"

fun is_agent_message :: "json \<Rightarrow> bool" where
  "is_agent_message (JObj item) = (jget item ''type'' = JStr ''agent_message'')"
| "is_agent_message _ = False"

definition latest_user :: "json list \<Rightarrow> nat option" where
  "latest_user items = List.find (\<lambda>i. is_user_message (items ! i)) (rev [0..<length items])"

definition decode_request :: "py_env \<Rightarrow> bytes \<Rightarrow> nat \<Rightarrow> (jdict \<times> json list \<times> nat) option res" where
  "decode_request env raw minimum_items =
     (case loads env raw of
        Inl RecursionError \<Rightarrow> Inl RecursionError
      | Inl _ \<Rightarrow> Inr None
      | Inr decoded \<Rightarrow> Inr
          (case as_obj decoded of
             None \<Rightarrow> None
           | Some payload \<Rightarrow>
               (case as_arr (jget payload ''input'') of
                  None \<Rightarrow> None
                | Some items \<Rightarrow>
                    if length items < minimum_items then None
                    else if list_ex is_agent_message items then None
                    else map_option (\<lambda>i. (payload, items, i)) (latest_user items))))"

definition bounded_budget :: "bytes \<Rightarrow> int \<Rightarrow> nat option" where
  "bounded_budget raw budget =
     (if budget \<le> 0 then None
      else Some (min (nat budget) (max 1 (length raw div COMPACTION_RATIO_DENOMINATOR))))"

section \<open>Classification of failures\<close>

definition retry_disposition :: "py_env \<Rightarrow> int \<Rightarrow> bytes \<Rightarrow> string res" where
  "retry_disposition env code err_body =
     (if code \<in> {500, 502, 503, 504, 524} then Inr ''full''
      else if code \<noteq> 400 then Inr ''''
      else (case loads env err_body of
              Inl RecursionError \<Rightarrow> Inl RecursionError
            | Inl _ \<Rightarrow> Inr ''''
            | Inr document \<Rightarrow> Inr
                (case Option.bind (as_obj document) (\<lambda>d. as_obj (jget d ''error'')) of
                   None \<Rightarrow> ''''
                 | Some error \<Rightarrow>
                     if jget error ''code'' = JStr ''response_failed'' \<and> nonempty_str (jget error ''type'')
                     then ''full''
                     else if jget error ''code'' = JStr ''invalid_prompt''
                             \<and> jget error ''type'' = JStr ''invalid_request_error''
                             \<and> (case as_str (jget error ''message'') of
                                  Some m \<Rightarrow> starts_with ''Request blocked.'' m | None \<Rightarrow> False)
                     then ''full''
                     else if jget error ''code'' = JStr ''invalid_payload'' then ''once'' else '''')))"

definition exhausted_payload :: "int \<Rightarrow> bytes" where
  "exhausted_payload attempts =
     error_payload ''Upstream rejected bounded Responses recovery; retry the turn''
       ''upstream_unavailable'' ''response_failed_recovery_exhausted'' None (Some attempts)"

section \<open>Pair-safe suffixes\<close>

definition item_observation :: "jdict \<Rightarrow> observation" where
  "item_observation item =
     (jget item ''type'', jget item ''call_id'', jget item ''name'', jget item ''id'')"

definition observations :: "json list \<Rightarrow> observation list" where
  "observations items = List.map_filter (\<lambda>v. map_option item_observation (as_obj v)) items"

definition tool_pair_boundary_is_safe :: "json list \<Rightarrow> nat \<Rightarrow> bool" where
  "tool_pair_boundary_is_safe items start \<longleftrightarrow>
     observe_all new_relationships (observations (drop start items)) \<noteq> None"

section \<open>Compaction\<close>

definition retained_from :: "json list \<Rightarrow> nat \<Rightarrow> json list" where
  "retained_from items start =
     map snd (filter (\<lambda>(i, item). i \<ge> start \<or> is_current_turn_control item) (enumerate 0 items))"

definition recovery_candidate :: "jdict \<Rightarrow> json list \<Rightarrow> jdict" where
  "recovery_candidate payload input =
     AList.delete ''prompt_cache_key''
       (AList.update ''store'' (JBool False) (AList.update ''input'' (JArr input) payload))"

definition compact_metrics :: "bytes \<Rightarrow> nat \<Rightarrow> bytes \<Rightarrow> jdict \<Rightarrow> json list \<Rightarrow> json list \<Rightarrow> jdict" where
  "compact_metrics raw limit compact payload items retained =
     [(''original_bytes'', JInt (int (length raw))),
      (''budget_bytes'', JInt (int limit)),
      (''compact_bytes'', JInt (int (length compact))),
      (''removed_inputs'', JInt (int (length items) - int (length retained))),
      (''retained_inputs'', JInt (int (length retained))),
      (''prompt_cache_key_removed'', JBool (has_key payload ''prompt_cache_key''))]"

fun compact_loop ::
  "py_env \<Rightarrow> bytes \<Rightarrow> nat \<Rightarrow> jdict \<Rightarrow> json list \<Rightarrow> nat list \<Rightarrow> recovery \<Rightarrow> recovery res" where
  "compact_loop env raw limit payload items [] smallest =
     Inr (map_option (\<lambda>(compact, m). (compact, AList.update ''budget_met'' (JBool False) m)) smallest)"
| "compact_loop env raw limit payload items (start # starts) smallest =
     (if \<not> tool_pair_boundary_is_safe items start
      then compact_loop env raw limit payload items starts smallest
      else
        let retained = retained_from items start in
        res_bind (json_dumps env True (JObj (recovery_candidate payload retained))) (\<lambda>compact.
          let m = compact_metrics raw limit compact payload items retained in
          if length compact \<le> limit then Inr (Some (compact, m))
          else compact_loop env raw limit payload items starts
                 (if length compact < length raw
                     \<and> (case smallest of None \<Rightarrow> True | Some (best, _) \<Rightarrow> length compact < length best)
                  then Some (compact, m) else smallest)))"

definition compact_request :: "py_env \<Rightarrow> bytes \<Rightarrow> int \<Rightarrow> recovery res" where
  "compact_request env raw budget =
     res_bind (decode_request env raw 2) (\<lambda>request.
       case (bounded_budget raw budget, request) of
         (Some limit, Some (payload, items, latest)) \<Rightarrow>
           compact_loop env raw limit payload items [1..<latest + 1] None
       | _ \<Rightarrow> Inr None)"

section \<open>The final dialogue\<close>

definition governing_instruction :: "json list \<Rightarrow> nat \<Rightarrow> nat" where
  "governing_instruction items latest =
     (case List.find (\<lambda>i. in_tuple (message_role (items ! i)) [''developer'', ''system''])
             (rev [0..<latest + 1]) of
        Some i \<Rightarrow> i | None \<Rightarrow> latest)"

definition dialogue_indices :: "json list \<Rightarrow> nat \<Rightarrow> nat list" where
  "dialogue_indices items latest =
     filter (\<lambda>i. i = governing_instruction items latest \<or> i = latest \<or> is_current_turn_control (items ! i))
       [0..<length items]"

definition recover_dialogue :: "py_env \<Rightarrow> bytes \<Rightarrow> int \<Rightarrow> recovery res" where
  "recover_dialogue env raw budget =
     res_bind (decode_request env raw 1) (\<lambda>request.
       case (bounded_budget raw budget, request) of
         (Some limit, Some (payload, items, latest)) \<Rightarrow>
           let dialogue = map (\<lambda>i. items ! i) (dialogue_indices items latest) in
           res_bind (json_dumps env True (JObj (recovery_candidate payload dialogue))) (\<lambda>recovery.
             if length recovery > limit \<or> length recovery \<ge> length raw then Inr None
             else Inr (Some (recovery,
               [(''original_bytes'', JInt (int (length raw))),
                (''recovery_bytes'', JInt (int (length recovery))),
                (''budget_bytes'', JInt (int limit)),
                (''retained_messages'',
                   JInt (1 + (if governing_instruction items latest \<noteq> latest then 1 else 0))),
                (''dropped_input_items'', JInt (int (length items) - int (length dialogue))),
                (''prompt_cache_key_removed'', JBool (has_key payload ''prompt_cache_key''))])))
       | _ \<Rightarrow> Inr None)"

section \<open>What a compaction keeps\<close>

lemma find_rev_upt:
  "List.find P (rev [0..<n]) = Some i \<longleftrightarrow> i < n \<and> P i \<and> (\<forall>j. i < j \<and> j < n \<longrightarrow> \<not> P j)"
proof (induction n)
  case (Suc n)
  then show ?case by (auto simp: less_Suc_eq)
qed simp

lemma latest_user_Some:
  "latest_user items = Some i \<longleftrightarrow>
     i < length items \<and> is_user_message (items ! i) \<and>
     (\<forall>j. i < j \<and> j < length items \<longrightarrow> \<not> is_user_message (items ! j))"
  unfolding latest_user_def by (rule find_rev_upt)

lemma enumerate_filter:
  "map snd (filter (\<lambda>(i, x). i \<ge> n + k \<or> P x) (enumerate k xs)) = filter P (take n xs) @ drop n xs"
proof (induction xs arbitrary: n k)
  case (Cons x xs)
  show ?case
  proof (cases n)
    case 0
    have "map snd (filter (\<lambda>(i, x). i \<ge> k \<or> P x) (enumerate j xs)) = xs" if "j \<ge> k" for j
      using that by (induction xs arbitrary: j) auto
    from this [of "Suc k"] 0 show ?thesis by simp
  next
    case (Suc m)
    with Cons.IH [of m "Suc k"] show ?thesis by simp
  qed
qed simp

text \<open>The list comprehension keeps the turn controls of the removed prefix and the whole suffix.\<close>

lemma retained_from_eq:
  "retained_from items start = filter is_current_turn_control (take start items) @ drop start items"
  using enumerate_filter [of start 0 is_current_turn_control items] by (simp add: retained_from_def)

lemma control_kind:
  assumes "is_current_turn_control (JObj item)"
  shows "\<exists>t. jget item ''type'' = JStr t \<and> \<not> call_kind t \<and> \<not> output_kind t"
proof -
  from assms obtain t p where t: "jget item ''type'' = JStr t" "map_of ITEM_POLICIES t = Some p"
    and p: "projection p = TOOL_CATALOG \<or> projection p = COMPACTION_TRIGGER"
    by (cases "jget item ''type''") (auto split: option.splits)
  have "list_all (\<lambda>(t, p). projection p = TOOL_CATALOG \<or> projection p = COMPACTION_TRIGGER \<longrightarrow>
          paired_output p = None \<and> t \<notin> set PAIRED_OUTPUTS) ITEM_POLICIES"
    unfolding PAIRED_OUTPUTS_eq by (simp add: ITEM_POLICIES_def SCHEMA_DRIFT_TYPES_def policy_def)
  with map_of_SomeD [OF t(2)] p have "paired_output p = None" "t \<notin> set PAIRED_OUTPUTS"
    by (auto simp: list_all_iff)
  with t show ?thesis by (auto simp: call_kind_def output_kind_def paired_kind_def)
qed

lemma observe_controls:
  "list_all is_current_turn_control items \<Longrightarrow>
   observe_all st (observations items @ obs) = observe_all st obs"
proof (induction items)
  case (Cons v items)
  then obtain item where v: "v = JObj item" by (cases v) auto
  with Cons.prems control_kind [of item] obtain t where
    "jget item ''type'' = JStr t" "\<not> call_kind t" "\<not> output_kind t" by auto
  with Cons v show ?case
    by (simp add: observations_def List.map_filter_simps item_observation_def observe_obs_def
        observe_other_kind)
qed (simp add: observations_def List.map_filter_simps)

lemma observations_append: "observations (xs @ ys) = observations xs @ observations ys"
  by (simp add: observations_def List.map_filter_def)

text \<open>Retained controls do not disturb the relationships of the suffix.\<close>

lemma retained_safe:
  "observe_all new_relationships (observations (retained_from items start)) \<noteq> None \<longleftrightarrow>
     tool_pair_boundary_is_safe items start"
  unfolding retained_from_eq observations_append tool_pair_boundary_is_safe_def
  by (subst observe_controls) (auto simp: list_all_iff)

lemma safe_well_formed:
  "observe_all new_relationships obs \<noteq> None \<longleftrightarrow> well_formed_history obs"
  unfolding well_formed_history_def relationships.run_accepts [symmetric] by auto

text \<open>The text of an object has at least its two braces.\<close>

lemma json_dumps_obj_length:
  "json_dumps env ea (JObj d) = Inr b \<Longrightarrow> length b \<ge> 2"
  by (auto simp: json_dumps_def split: if_splits)

lemma within_budget_smaller:
  "bounded_budget raw budget = Some limit \<Longrightarrow> length b \<le> limit \<Longrightarrow> length b \<ge> 2 \<Longrightarrow> length b < length raw"
  by (auto simp: bounded_budget_def COMPACTION_RATIO_DENOMINATOR_def split: if_splits)

section \<open>Correctness of the search\<close>

definition compact_at :: "py_env \<Rightarrow> jdict \<Rightarrow> json list \<Rightarrow> nat \<Rightarrow> bytes \<Rightarrow> bool" where
  "compact_at env payload items start b \<longleftrightarrow>
     tool_pair_boundary_is_safe items start \<and>
     json_dumps env True (JObj (recovery_candidate payload (retained_from items start))) = Inr b"

text \<open>What the loop returns: the first safe start within the limit, or else a smallest smaller one.\<close>

lemma compact_loop_sound:
  assumes "compact_loop env raw limit payload items starts smallest = Inr (Some (b, m))"
    and "\<And>b' m'. smallest = Some (b', m') \<Longrightarrow>
           length b' < length raw \<and> (\<exists>s. s \<in> all \<and> compact_at env payload items s b')"
    and "set starts \<subseteq> all"
  shows "(length b \<le> limit \<or> length b < length raw) \<and> (\<exists>s \<in> all. compact_at env payload items s b)"
  using assms
proof (induction env raw limit payload items starts smallest rule: compact_loop.induct)
  case (1 env raw limit payload items smallest)
  then show ?case by (cases smallest) auto
next
  case (2 env raw limit payload items start starts smallest)
  show ?case
  proof (cases "tool_pair_boundary_is_safe items start")
    case False
    show ?thesis by (rule 2(1) [OF False]) (use False 2(3-5) in auto)
  next
    case True
    let ?r = "retained_from items start"
    from True 2(3) obtain c where
      dump: "json_dumps env True (JObj (recovery_candidate payload ?r)) = Inr c"
      by (auto simp: Let_def)
    with True have at: "compact_at env payload items start c" by (simp add: compact_at_def)
    show ?thesis
    proof (cases "length c \<le> limit")
      case fits: True
      with True dump 2(3) have "b = c" by (simp add: Let_def)
      with at fits 2(5) show ?thesis by auto
    next
      case False
      show ?thesis
        by (rule 2(2) [OF _ refl refl False])
          (use True dump False at 2(3,4,5) in \<open>auto simp: Let_def split: if_splits\<close>)
    qed
  qed
qed

lemma decode_request_loads:
  "decode_request env raw n = Inr (Some r) \<Longrightarrow> \<exists>v. loads env raw = Inr v"
  by (cases "loads env raw") (auto simp: decode_request_def split: py_exc.splits)

lemma decode_request_Some:
  assumes "decode_request env raw n = Inr (Some (payload, items, latest))"
  shows "loads env raw = Inr (JObj payload)" "jget payload ''input'' = JArr items"
    "latest_user items = Some latest" "n \<le> length items" "\<forall>v \<in> set items. \<not> is_agent_message v"
proof -
  from decode_request_loads [OF assms] obtain v where v: "loads env raw = Inr v" by blast
  from assms show "loads env raw = Inr (JObj payload)" "jget payload ''input'' = JArr items"
    "latest_user items = Some latest" "n \<le> length items" "\<forall>v \<in> set items. \<not> is_agent_message v"
    unfolding decode_request_def v sum.case by (auto simp: list_ex_iff split: option.splits if_splits)
qed

lemma compact_request_Some:
  assumes "compact_request env raw budget = Inr (Some (b, m))"
  obtains payload items latest limit where
    "decode_request env raw 2 = Inr (Some (payload, items, latest))"
    "bounded_budget raw budget = Some limit"
    "compact_loop env raw limit payload items [1..<latest + 1] None = Inr (Some (b, m))"
  using assms by (auto simp: compact_request_def split: option.splits)

text \<open>Where a compaction comes from.\<close>

lemma compact_request_at:
  assumes "compact_request env raw budget = Inr (Some (b, m))"
  obtains payload items latest s where "decode_request env raw 2 = Inr (Some (payload, items, latest))"
    "1 \<le> s" "s \<le> latest" "compact_at env payload items s b" "length b < length raw"
proof -
  from assms obtain payload items latest limit where
    dec: "decode_request env raw 2 = Inr (Some (payload, items, latest))" and
    lim: "bounded_budget raw budget = Some limit" and
    run: "compact_loop env raw limit payload items [1..<latest + 1] None = Inr (Some (b, m))"
    by (rule compact_request_Some)
  have "(length b \<le> limit \<or> length b < length raw) \<and>
        (\<exists>s \<in> {1..latest}. compact_at env payload items s b)"
    by (rule compact_loop_sound [OF run]) auto
  then obtain s where s: "1 \<le> s" "s \<le> latest" "compact_at env payload items s b"
    and len: "length b \<le> limit \<or> length b < length raw" by auto
  from s(3) have "length b \<ge> 2" by (auto simp: compact_at_def dest: json_dumps_obj_length)
  with len within_budget_smaller [OF lim] have "length b < length raw" by blast
  with dec s show ?thesis by (rule that)
qed

lemma compact_request_smaller:
  "compact_request env raw budget = Inr (Some (b, m)) \<Longrightarrow> length b < length raw"
  by (erule compact_request_at)

lemma recover_dialogue_smaller:
  assumes "recover_dialogue env raw budget = Inr (Some (b, m))"
  shows "length b < length raw"
proof -
  from assms obtain payload items latest limit where
    "decode_request env raw 1 = Inr (Some (payload, items, latest))" "bounded_budget raw budget = Some limit"
    by (auto simp: recover_dialogue_def split: option.splits)
  with assms show ?thesis by (auto simp: recover_dialogue_def Let_def split: if_splits)
qed

section \<open>Claims\<close>

text \<open>
  Claim C35.  A compaction is a strictly smaller request: it re-encodes the original request without
  its prompt cache key, not stored, with the inputs from some boundary after the first item and at
  or before the latest user message, preceded by every earlier turn control; the kept inputs have
  complete, ordered tool relationships.
\<close>

theorem compact_request_sound:
  assumes "compact_request env raw budget = Inr (Some (b, m))"
  shows "length b < length raw \<and>
    (\<exists>payload items latest start. loads env raw = Inr (JObj payload) \<and> jget payload ''input'' = JArr items \<and>
       latest_user items = Some latest \<and> 1 \<le> start \<and> start \<le> latest \<and>
       b = json_text True (JObj (recovery_candidate payload
             (filter is_current_turn_control (take start items) @ drop start items))) \<and>
       well_formed_history (observations (retained_from items start)))"
proof -
  from assms obtain payload items latest s where
    dec: "decode_request env raw 2 = Inr (Some (payload, items, latest))" and
    s: "1 \<le> s" "s \<le> latest" "compact_at env payload items s b" and len: "length b < length raw"
    by (rule compact_request_at)
  from s(3) have dump: "json_dumps env True (JObj (recovery_candidate payload (retained_from items s))) = Inr b"
    and safe: "well_formed_history (observations (retained_from items s))"
    by (simp_all only: compact_at_def retained_safe safe_well_formed [symmetric])
  from dump have "b = json_text True (JObj (recovery_candidate payload (retained_from items s)))"
    by (simp add: json_dumps_def)
  with len show ?thesis
    using decode_request_Some(1-3) [OF dec] s(1,2) safe unfolding retained_from_eq by blast
qed

lemma sample_compact:
  "case compact_request (sample_env sample_request) sample_raw 1000 of
     Inr (Some r) \<Rightarrow> length (fst r) \<le> 100 | _ \<Rightarrow> False"
  by code_simp

theorem compact_request_sound_witness:
  "\<exists>b m. compact_request (sample_env sample_request) sample_raw 1000 = Inr (Some (b, m)) \<and> length b < 200"
proof -
  obtain b m where run: "compact_request (sample_env sample_request) sample_raw 1000 = Inr (Some (b, m))"
    using sample_compact by (auto split: sum.splits option.splits)
  from compact_request_sound [OF run] run show ?thesis by auto
qed

text \<open>The latest user message and every turn control are among the kept inputs.\<close>

lemma retained_latest_user:
  assumes "latest_user items = Some latest" "start \<le> latest"
  shows "items ! latest \<in> set (retained_from items start)"
    and "v \<in> set items \<Longrightarrow> is_current_turn_control v \<Longrightarrow> v \<in> set (retained_from items start)"
proof -
  have "items ! latest = drop start items ! (latest - start)" "latest - start < length (drop start items)"
    using assms by (auto simp: latest_user_Some)
  then show "items ! latest \<in> set (retained_from items start)"
    unfolding retained_from_eq by (metis UnCI nth_mem set_append)
  show "v \<in> set (retained_from items start)" if "v \<in> set items" "is_current_turn_control v"
    using that set_append [of "take start items" "drop start items"] unfolding retained_from_eq by auto
qed

lemma compact_loop_first:
  assumes "compact_loop env raw limit payload items starts smallest = Inr (Some (b, m))"
    and "s \<in> set starts" "compact_at env payload items s c" "length c \<le> limit"
    and "\<And>b' m'. smallest = Some (b', m') \<Longrightarrow> length b' > limit"
  shows "length b \<le> limit"
  using assms
proof (induction env raw limit payload items starts smallest rule: compact_loop.induct)
  case (2 env raw limit payload items start starts smallest)
  show ?case
  proof (cases "tool_pair_boundary_is_safe items start")
    case False
    show ?thesis by (rule 2(1) [OF False]) (use False 2(3-7) in \<open>auto simp: compact_at_def\<close>)
  next
    case True
    let ?r = "retained_from items start"
    from True 2(3) obtain d where
      dump: "json_dumps env True (JObj (recovery_candidate payload ?r)) = Inr d"
      by (auto simp: Let_def)
    show ?thesis
    proof (cases "length d \<le> limit")
      case fits: True
      with True dump 2(3) show ?thesis by (simp add: Let_def)
    next
      case False
      with dump 2(4-6) have s: "s \<in> set starts" by (auto simp: compact_at_def)
      show ?thesis
        by (rule 2(2) [OF _ refl refl False _ s 2(5,6)])
          (use True dump False 2(3,7) in \<open>auto simp: Let_def split: if_splits\<close>)
    qed
  qed
qed simp

text \<open>
  When some pair-safe boundary at or before the latest user message gives a request
  within the budget, the compaction that is returned is within the budget too.
\<close>

theorem compact_request_meets_budget:
  assumes "compact_request env raw budget = Inr (Some (b, m))"
    and "decode_request env raw 2 = Inr (Some (payload, items, latest))"
    and "bounded_budget raw budget = Some limit"
    and "1 \<le> s" "s \<le> latest" "compact_at env payload items s c" "length c \<le> limit"
  shows "length b \<le> limit"
proof -
  from assms(1-3) have "compact_loop env raw limit payload items [1..<latest + 1] None = Inr (Some (b, m))"
    by (simp add: compact_request_def)
  then show ?thesis
    by (rule compact_loop_first [where s = s and c = c]) (use assms(4-7) in auto)
qed

theorem compact_request_meets_budget_witness:
  "\<exists>b m. compact_request (sample_env sample_request) sample_raw 1000 = Inr (Some (b, m)) \<and> length b \<le> 100"
proof -
  let ?env = "sample_env sample_request" and ?payload = "[(''input'', JArr sample_items)]"
  obtain b m where run: "compact_request ?env sample_raw 1000 = Inr (Some (b, m))"
    using sample_compact by (auto split: sum.splits option.splits)
  have d: "decode_request ?env sample_raw 2 = Inr (Some (?payload, sample_items, 1))" by code_simp
  have l: "bounded_budget sample_raw 1000 = Some 100" by code_simp
  have "case json_dumps ?env True (JObj (recovery_candidate ?payload (retained_from sample_items 1))) of
      Inr c \<Rightarrow> length c \<le> 100 \<and> tool_pair_boundary_is_safe sample_items 1 | Inl _ \<Rightarrow> False"
    by code_simp
  then obtain c where c: "compact_at ?env ?payload sample_items 1 c" "length c \<le> 100"
    by (auto simp: compact_at_def split: sum.splits)
  have "length b \<le> 100"
    by (rule compact_request_meets_budget [OF run d l _ _ c]) simp_all
  with run show ?thesis by blast
qed

text \<open>What a message with one of some roles is, said without the functions of the recovery.\<close>

definition message_with :: "string list \<Rightarrow> json \<Rightarrow> bool" where
  "message_with roles item \<longleftrightarrow>
     (\<exists>d r. item = JObj d \<and> jget d ''type'' = JStr ''message'' \<and> jget d ''role'' = JStr r \<and> r \<in> set roles)"

lemma message_with_role: "roles \<noteq> [] \<Longrightarrow> message_with roles item \<longleftrightarrow> in_tuple (message_role item) roles"
  by (cases item) (auto simp: message_with_def)

lemma user_message_role: "is_user_message item \<longleftrightarrow> message_with [''user''] item"
  by (simp add: message_with_role is_user_message_def)

lemma governing_instruction_nearest:
  defines "instruction \<equiv> message_with [''developer'', ''system'']"
  assumes "governing_instruction items latest = start"
  shows "start \<le> latest \<and>
    (if instruction (items ! start) then list_all (\<lambda>i. \<not> instruction (items ! i)) [Suc start..<Suc latest]
     else start = latest \<and> list_all (\<lambda>i. \<not> instruction (items ! i)) [0..<Suc latest])"
proof (cases "List.find (\<lambda>i. instruction (items ! i)) (rev [0..<latest + 1])")
  case None
  with assms(2) have "start = latest" by (simp add: governing_instruction_def instruction_def message_with_role)
  with None show ?thesis by (auto simp: find_None_iff list_all_iff)
next
  case (Some i)
  with assms(2) have "start = i" by (simp add: governing_instruction_def instruction_def message_with_role)
  with Some [unfolded find_rev_upt] show ?thesis by (auto simp: list_all_iff)
qed

text \<open>
  Claim C36.  The final dialogue is strictly smaller than the request, within the budget and at most half
  of the request, and its inputs are, in order, the latest user message, one governing instruction and
  the turn controls; nothing else.  The latest user message is followed by no other, and the governing
  instruction is the message of a developer or of the system before it with no such message in between; where
  no such message precedes the user message, no instruction is kept beside it.
\<close>

theorem recover_dialogue_sound:
  assumes "recover_dialogue env raw budget = Inr (Some (b, m))"
  shows "\<exists>payload items latest start. loads env raw = Inr (JObj payload) \<and> jget payload ''input'' = JArr items \<and>
    latest < length items \<and> message_with [''user''] (items ! latest) \<and>
    list_all (\<lambda>i. \<not> message_with [''user''] (items ! i)) [Suc latest..<length items] \<and>
    start \<le> latest \<and>
    (if message_with [''developer'', ''system''] (items ! start)
     then list_all (\<lambda>i. \<not> message_with [''developer'', ''system''] (items ! i)) [Suc start..<Suc latest]
     else start = latest \<and> list_all (\<lambda>i. \<not> message_with [''developer'', ''system''] (items ! i)) [0..<Suc latest]) \<and>
    b = json_text True (JObj (recovery_candidate payload
          (map ((!) items) (filter (\<lambda>i. i = latest \<or> i = start \<or> is_current_turn_control (items ! i)) [0..<length items])))) \<and>
    int (length b) \<le> budget \<and> length b \<le> max 1 (length raw div 2) \<and> length b < length raw"
proof -
  from assms obtain payload items latest limit where
    dec: "decode_request env raw 1 = Inr (Some (payload, items, latest))" and
    lim: "bounded_budget raw budget = Some limit"
    by (auto simp: recover_dialogue_def split: option.splits)
  define start where "start = governing_instruction items latest"
  let ?d = "recovery_candidate payload (map (\<lambda>i. items ! i) (dialogue_indices items latest))"
  from assms dec lim have dump: "json_dumps env True (JObj ?d) = Inr b"
    and len: "length b \<le> limit" "length b < length raw"
    by (auto simp: recover_dialogue_def Let_def split: if_splits)
  have kept: "dialogue_indices items latest = filter (\<lambda>i. i = latest \<or> i = start \<or> is_current_turn_control (items ! i))
      [0..<length items]"
    unfolding dialogue_indices_def start_def by (rule filter_cong) auto
  from dump have "b = json_text True (JObj ?d)" by (simp add: json_dumps_def)
  note b = this [unfolded kept]
  from lim len(1) have budget: "int (length b) \<le> budget" "length b \<le> max 1 (length raw div 2)"
    by (auto simp: bounded_budget_def COMPACTION_RATIO_DENOMINATOR_def split: if_splits)
  have user: "latest < length items" "message_with [''user''] (items ! latest)"
      "list_all (\<lambda>i. \<not> message_with [''user''] (items ! i)) [Suc latest..<length items]"
    using decode_request_Some(3) [OF dec] by (auto simp: latest_user_Some user_message_role list_all_iff)
  note nearest = governing_instruction_nearest [OF start_def [symmetric]]
  show ?thesis
    by (intro exI [of _ payload] exI [of _ items] exI [of _ latest] exI [of _ start] conjI)
      (rule decode_request_Some(1,2) [OF dec] user nearest [THEN conjunct1] nearest [THEN conjunct2] b budget len(2))+
qed

theorem recover_dialogue_sound_witness:
  "\<exists>b m. recover_dialogue (sample_env sample_request) sample_raw 1000 = Inr (Some (b, m)) \<and> length b < 200"
proof -
  have "case recover_dialogue (sample_env sample_request) sample_raw 1000 of Inr (Some _) \<Rightarrow> True | _ \<Rightarrow> False"
    by code_simp
  then obtain b m where run: "recover_dialogue (sample_env sample_request) sample_raw 1000 = Inr (Some (b, m))"
    by (auto split: sum.splits option.splits)
  from recover_dialogue_sound [OF run] run show ?thesis by auto
qed

end
