(* ===== verification/Recovery_Input.thy ===== *)
theory Recovery_Input
  imports Projection Recovery_Execution "HOL-Library.Char_ord" "HOL-Library.List_Lexorder"
begin

text \<open>
  \<open>protocol/recovery/input.py\<close>: recognition of the one validation error that admits a recovery, the
  content-free diagnostic of a rejected input, and \<open>build_recovery\<close>, the smaller request made of the
  current dialogue and the turn controls.
\<close>

section \<open>Constants and records\<close>

definition ERROR_MESSAGE :: string where
  "ERROR_MESSAGE = ''invalid request body: Invalid '' @ [CHR 39] @ ''input'' @ [CHR 39]
     @ '': value did not match any expected variant''"

definition KNOWN_CONTENT_TYPES :: "string list" where
  "KNOWN_CONTENT_TYPES =
     [''input_text'', ''output_text'', ''input_image'', ''input_file'', ''input_audio'', ''refusal'',
      ''encrypted_content'']"

definition ROLES :: "string list" where
  "ROLES = [''system'', ''developer'', ''user'']"

definition TEXT_CONTENT_TYPES :: "string list" where
  "TEXT_CONTENT_TYPES = [''input_text'', ''output_text'']"

definition BUCKETS :: "string list" where
  "BUCKETS = [''0'', ''1'', ''2-4'', ''5-16'', ''17+'']"

definition DIAGNOSTIC_FLAGS :: "string list" where
  "DIAGNOSTIC_FLAGS =
     [''matched_pairs'', ''unmatched_calls'', ''unmatched_outputs'', ''outputs_before_calls'',
      ''duplicate_calls'', ''duplicate_outputs'', ''missing_call_ids'', ''mismatched_output_types'']"

text \<open>\<open>InputDiagnostic\<close>; its eight relationship flags are a list in the order of \<open>_DIAGNOSTIC_FLAGS\<close>.\<close>

record input_diagnostic =
  input_items_bucket :: string
  diag_item_types :: "string dict"
  diag_content_types :: "string dict"
  diag_flags :: "bool list"
  first_incompatible_reason :: string
  shape_sha256 :: string

record input_recovery_metrics =
  original_bytes :: nat
  recovery_bytes :: nat
  retained_messages :: nat
  dropped_input_items :: int
  provider_bindings_removed :: nat
  reasoning_include_removed :: bool
  prompt_cache_key_removed :: bool

section \<open>The validation error\<close>

text \<open>\<open>None\<close> stands for the sentinel \<open>_INVALID_JSON\<close>.\<close>

definition load_json :: "py_env \<Rightarrow> bytes \<Rightarrow> json option res" where
  "load_json env raw =
     (case loads env raw of
        Inl RecursionError \<Rightarrow> Inl RecursionError
      | Inl _ \<Rightarrow> Inr None
      | Inr v \<Rightarrow> Inr (Some v))"

definition expected_error :: json where
  "expected_error =
     JObj [(''message'', JStr ERROR_MESSAGE), (''type'', JStr ''invalid_request_error''),
           (''param'', JStr ''''), (''code'', JStr ''validation_error'')]"

definition is_exact_validation_error :: "py_env \<Rightarrow> int \<Rightarrow> bytes \<Rightarrow> bool res" where
  "is_exact_validation_error env status_code error_body =
     res_bind (load_json env error_body) (\<lambda>payload.
       let error = (case Option.bind payload as_obj of Some d \<Rightarrow> jget d ''error'' | None \<Rightarrow> JNull)
       in Inr (status_code = 400 \<and> json_eq error expected_error))"

section \<open>Shapes\<close>

text \<open>The nested tuples of labels that \<open>_shape\<close> builds, with their \<open>repr\<close> and their JSON form.\<close>

datatype shape = SStr string | STup "shape list"

fun join_sep :: "string \<Rightarrow> string list \<Rightarrow> string" where
  "join_sep sep [] = []"
| "join_sep sep [x] = x"
| "join_sep sep (x # y # ys) = x @ sep @ join_sep sep (y # ys)"

fun shape_repr :: "shape \<Rightarrow> string" where
  "shape_repr (SStr s) = [CHR 39] @ s @ [CHR 39]"
| "shape_repr (STup xs) =
     ''('' @ join_sep '', '' (map shape_repr xs) @ (if length xs = 1 then '',)'' else '')'')"

fun shape_json :: "shape \<Rightarrow> json" where
  "shape_json (SStr s) = JStr s"
| "shape_json (STup xs) = JArr (map shape_json xs)"

definition presence :: "bool \<Rightarrow> string" where
  "presence b = (if b then ''present'' else ''absent'')"

fun value_kind :: "json \<Rightarrow> string" where
  "value_kind JNull = ''null''"
| "value_kind (JBool b) = ''bool''"
| "value_kind (JStr s) = ''str''"
| "value_kind (JInt i) = ''number''"
| "value_kind (JFloat r) = ''number''"
| "value_kind (JArr xs) = ''list''"
| "value_kind (JObj d) = ''dict''"

definition unknown_label :: "json \<Rightarrow> string" where
  "unknown_label v = (if is_str v then ''unknown'' else value_kind v)"

definition closed_label :: "json \<Rightarrow> string list \<Rightarrow> string" where
  "closed_label v known =
     (case as_str v of Some s \<Rightarrow> if s \<in> set known then s else unknown_label v | None \<Rightarrow> unknown_label v)"

definition size_bucket :: "nat \<Rightarrow> string" where
  "size_bucket n =
     (if n \<le> 0 then ''0'' else if n \<le> 1 then ''1'' else if n \<le> 4 then ''2-4''
      else if n \<le> 16 then ''5-16'' else ''17+'')"

definition bounded_entries :: "shape list \<Rightarrow> shape" where
  "bounded_entries entries =
     (let ordered = sort_key shape_repr (remdups entries)
      in STup [STup (take 32 ordered), SStr (presence (length ordered > 32))])"

definition role_entry :: "json \<Rightarrow> shape" where
  "role_entry v = STup [SStr ''role'', SStr (case as_str v of
     Some s \<Rightarrow> if s \<in> set (ROLES @ [''assistant'']) then s else ''unknown'' | None \<Rightarrow> ''unknown'')]"

definition known_fields :: "jdict \<Rightarrow> nat" where
  "known_fields d = length (filter (has_key d) [''type'', ''role''])"

function shape_of :: "json \<Rightarrow> nat \<Rightarrow> shape" where
  "shape_of v depth =
     (if depth \<ge> 6 then STup [SStr ''truncated'', SStr (value_kind v)]
      else case v of
        JArr xs \<Rightarrow>
          STup [SStr ''list'', SStr (size_bucket (length xs)),
                bounded_entries (map (\<lambda>x. shape_of x (depth + 1)) xs)]
      | JObj d \<Rightarrow>
          STup [SStr ''dict'', SStr (size_bucket (known_fields d)),
                SStr (presence (length d > known_fields d)),
                bounded_entries (map (\<lambda>p.
                  if fst p = ''type''
                  then STup [SStr ''type'', SStr (closed_label (snd p) (item_types @ KNOWN_CONTENT_TYPES))]
                  else if fst p = ''role'' then role_entry (snd p)
                  else STup [SStr ''field'', shape_of (snd p) (depth + 1)]) d)]
      | _ \<Rightarrow> SStr (value_kind v))"
  by pat_completeness auto

termination
  by (relation "measure (\<lambda>(v, depth). 6 - depth)") auto

declare shape_of.simps [simp del]

section \<open>Diagnostics\<close>

record diagnostic_state =
  ds_item_types :: "nat dict"
  ds_content_types :: "nat dict"
  ds_relationships :: tool_relationships

definition count_up :: "string \<Rightarrow> nat dict \<Rightarrow> nat dict" where
  "count_up k d = AList.update k (case map_of d k of Some n \<Rightarrow> n + 1 | None \<Rightarrow> 1) d"

definition observe_block :: "nat dict \<Rightarrow> json \<Rightarrow> nat dict" where
  "observe_block counts block =
     (case as_obj block of
        None \<Rightarrow> count_up (value_kind block) counts
      | Some b \<Rightarrow> count_up (closed_label (jget b ''type'') KNOWN_CONTENT_TYPES) counts)"

definition observe_content :: "json \<Rightarrow> nat dict \<Rightarrow> nat dict" where
  "observe_content content counts =
     (if is_str content then count_up ''string'' counts
      else case as_arr content of Some blocks \<Rightarrow> foldl observe_block counts blocks | None \<Rightarrow> counts)"

definition observe_input :: "diagnostic_state \<Rightarrow> json \<Rightarrow> diagnostic_state" where
  "observe_input st v =
     (case as_obj v of
        None \<Rightarrow> st\<lparr>ds_item_types := count_up (value_kind v) (ds_item_types st)\<rparr>
      | Some item \<Rightarrow>
          st\<lparr>ds_item_types := count_up (closed_label (jget item ''type'') item_types) (ds_item_types st),
             ds_content_types := observe_content (jget item ''content'') (ds_content_types st),
             ds_relationships := snd (observe_obs (ds_relationships st) (item_observation item))\<rparr>)"

definition bucketed_counts :: "nat dict \<Rightarrow> string dict" where
  "bucketed_counts d = map (\<lambda>(k, n). (k, size_bucket n)) d"

definition finish_diagnostic :: "string \<Rightarrow> nat \<Rightarrow> string \<Rightarrow> diagnostic_state \<Rightarrow> input_diagnostic" where
  "finish_diagnostic sha n why st =
     \<lparr>input_items_bucket = size_bucket n,
      diag_item_types = bucketed_counts (ds_item_types st),
      diag_content_types = bucketed_counts (ds_content_types st),
      diag_flags = map (\<lambda>f. f \<in> diagnostic_flags (ds_relationships st)) DIAGNOSTIC_FLAGS,
      first_incompatible_reason = why, shape_sha256 = sha\<rparr>"

definition empty_diagnostic :: "string \<Rightarrow> string \<Rightarrow> input_diagnostic" where
  "empty_diagnostic why sha =
     \<lparr>input_items_bucket = ''0'', diag_item_types = [], diag_content_types = [],
      diag_flags = replicate (length DIAGNOSTIC_FLAGS) False,
      first_incompatible_reason = why, shape_sha256 = sha\<rparr>"

definition new_diagnostic_state :: diagnostic_state where
  "new_diagnostic_state =
     \<lparr>ds_item_types = [], ds_content_types = [], ds_relationships = new_relationships\<rparr>"

definition diagnose :: "py_env \<Rightarrow> bytes \<Rightarrow> input_diagnostic res" where
  "diagnose env raw =
     res_bind (load_json env raw) (\<lambda>loaded.
     res_bind (sanitize_responses_body env raw) (\<lambda>verdict.
     let why = (case reason verdict of Some r \<Rightarrow> r | None \<Rightarrow> '''') in
     case loaded of
       None \<Rightarrow> Inr (empty_diagnostic why ''invalid-json'')
     | Some payload \<Rightarrow>
         res_bind (json_dumps env True (shape_json (shape_of payload 0))) (\<lambda>t.
           let sha = sha256_hex env t in
           case Option.bind (as_obj payload) (\<lambda>d. as_arr (jget d ''input'')) of
             None \<Rightarrow> Inr (empty_diagnostic why sha)
           | Some items \<Rightarrow>
               Inr (finish_diagnostic sha (length items) why
                      (foldl observe_input new_diagnostic_state items)))))"

section \<open>Rendering\<close>

text \<open>\<open>asdict\<close> and \<open>diagnostic_dict\<close> give the same mapping.\<close>

definition str_dict :: "string dict \<Rightarrow> json" where
  "str_dict d = JObj (map (\<lambda>(k, v). (k, JStr v)) d)"

definition diagnostic_dict :: "input_diagnostic \<Rightarrow> jdict" where
  "diagnostic_dict g =
     [(''input_items_bucket'', JStr (input_items_bucket g)),
      (''item_types'', str_dict (diag_item_types g)),
      (''content_types'', str_dict (diag_content_types g))]
     @ map (\<lambda>(f, b). (f, JBool b)) (zip DIAGNOSTIC_FLAGS (diag_flags g))
     @ [(''first_incompatible_reason'', JStr (first_incompatible_reason g)),
        (''shape_sha256'', JStr (shape_sha256 g))]"

definition bucket_counts :: "json \<Rightarrow> string dict" where
  "bucket_counts v =
     (case as_obj v of
        None \<Rightarrow> []
      | Some d \<Rightarrow> List.map_filter (\<lambda>(k, b). case as_str b of
          Some s \<Rightarrow> if s \<in> set BUCKETS then Some (k, s) else None | None \<Rightarrow> None) d)"

definition size_bucket_value :: "json \<Rightarrow> string" where
  "size_bucket_value v = (case as_str v of Some s \<Rightarrow> if s \<in> set BUCKETS then s else ''0'' | None \<Rightarrow> ''0'')"

definition format_counts :: "string dict \<Rightarrow> string" where
  "format_counts d =
     (let rendered = join_sep '','' (map (\<lambda>(k, v). k @ '':'' @ v) (sort_key fst d))
      in if rendered = [] then ''-'' else rendered)"

definition diagnostic_fields :: "jdict \<Rightarrow> string dict" where
  "diagnostic_fields values =
     [(''input_items_bucket'', size_bucket_value (jget values ''input_items_bucket'')),
      (''item_types'', format_counts (bucket_counts (jget values ''item_types''))),
      (''content_types'', format_counts (bucket_counts (jget values ''content_types'')))]
     @ map (\<lambda>f. (f, presence (jget values f = JBool True))) DIAGNOSTIC_FLAGS
     @ [(''first_incompatible_reason'',
           case as_str (jget values ''first_incompatible_reason'') of
             Some r \<Rightarrow> if r = [] then ''-'' else r | None \<Rightarrow> ''-''),
        (''shape_sha256'',
           case as_str (jget values ''shape_sha256'') of Some s \<Rightarrow> s | None \<Rightarrow> ''-'')]"

definition format_diagnostic :: "input_diagnostic \<Rightarrow> string" where
  "format_diagnostic g =
     take 768 (join_sep '' '' (map (\<lambda>(k, v). k @ ''='' @ v) (diagnostic_fields (diagnostic_dict g))))"

section \<open>The recovery request\<close>

definition text_part :: "json \<Rightarrow> json list res" where
  "text_part block =
     (case as_obj block of
        None \<Rightarrow> Inr []
      | Some b \<Rightarrow>
          res_bind (in_frozenset (jget b ''type'') TEXT_CONTENT_TYPES) (\<lambda>is_text.
            if is_text \<and> nonempty_str (jget b ''text'')
            then Inr [JObj [(''type'', JStr ''input_text''), (''text'', jget b ''text'')]]
            else Inr []))"

definition text_content :: "json \<Rightarrow> json option res" where
  "text_content v =
     (case as_str v of
        Some s \<Rightarrow> Inr (if s \<noteq> [] then Some (JStr s) else None)
      | None \<Rightarrow>
          (case as_arr v of
             Some blocks \<Rightarrow>
               res_bind (res_map text_part blocks) (\<lambda>parts.
                 Inr (if concat parts = [] then None else Some (JArr (concat parts))))
           | None \<Rightarrow> Inr None))"

definition latest_role :: "json list \<Rightarrow> string \<Rightarrow> nat option" where
  "latest_role items role = List.find (\<lambda>i. message_role (items ! i) = JStr role) (rev [0..<length items])"

definition current_indices :: "json list \<Rightarrow> nat list" where
  "current_indices items =
     filter (\<lambda>i. list_ex (\<lambda>r. latest_role items r = Some i) ROLES \<or> is_current_turn_control (items ! i))
       [0..<length items]"

definition dialogue_item :: "json \<Rightarrow> json option res" where
  "dialogue_item v =
     (if is_current_turn_control v then Inr (Some v)
      else case as_obj v of
        None \<Rightarrow> Inr None
      | Some item \<Rightarrow>
          if \<not> is_str (jget item ''role'') \<or> \<not> has_key item ''content'' then Inr None
          else res_bind (text_content (jget item ''content'')) (\<lambda>content.
            Inr (map_option (\<lambda>c. JObj [(''type'', JStr ''message''), (''role'', jget item ''role''),
                                      (''content'', c)]) content)))"

text \<open>The loop stops at the first message that has no text.\<close>

fun dialogue_items :: "json list \<Rightarrow> json list option res" where
  "dialogue_items [] = Inr (Some [])"
| "dialogue_items (v # vs) =
     res_bind (dialogue_item v) (\<lambda>r.
       case r of None \<Rightarrow> Inr None
       | Some w \<Rightarrow> res_bind (dialogue_items vs) (\<lambda>ws. Inr (map_option ((#) w) ws)))"

definition current_dialogue :: "json list \<Rightarrow> json list option res" where
  "current_dialogue items =
     (if latest_role items ''user'' = None then Inr None
      else dialogue_items (map ((!) items) (current_indices items)))"

definition remove_reasoning_include :: "jdict \<Rightarrow> jdict \<times> bool" where
  "remove_reasoning_include candidate =
     (case as_arr (jget candidate ''include'') of
        None \<Rightarrow> (candidate, False)
      | Some include \<Rightarrow>
          let filtered = filter (\<lambda>v. v \<noteq> REASONING_INCLUDE) include
          in (AList.update ''include'' (JArr filtered) candidate, length filtered \<noteq> length include))"

fun is_message_item :: "json \<Rightarrow> bool" where
  "is_message_item (JObj item) = (jget item ''type'' = JStr ''message'')"
| "is_message_item _ = False"

definition recovery_from ::
  "py_env \<Rightarrow> bytes \<Rightarrow> int \<Rightarrow> jdict \<Rightarrow> json list \<Rightarrow> json list \<Rightarrow> (bytes \<times> input_recovery_metrics) option" where
  "recovery_from env raw budget payload items dialogue =
     (let stored = AList.update ''store'' (JBool False) (AList.update ''input'' (JArr dialogue) payload);
          removed = count_bindings stored;
          (candidate, include_removed) = remove_reasoning_include (pop_bindings stored)
      in case dumps_utf8 env (JObj candidate) of
           Inl _ \<Rightarrow> None
         | Inr recovery \<Rightarrow>
             let dropped = int (length items) - int (length dialogue) in
             if \<not> (dropped > 0 \<or> removed > 0 \<or> include_removed)
                \<or> int (length recovery) > budget \<or> length recovery \<ge> length raw
             then None
             else Some (recovery,
               \<lparr>original_bytes = length raw, recovery_bytes = length recovery,
                retained_messages = length (filter is_message_item dialogue),
                dropped_input_items = dropped, provider_bindings_removed = removed,
                reasoning_include_removed = include_removed,
                prompt_cache_key_removed = has_key payload ''prompt_cache_key''\<rparr>))"

definition build_recovery :: "py_env \<Rightarrow> bytes \<Rightarrow> int \<Rightarrow> (bytes \<times> input_recovery_metrics) option res" where
  "build_recovery env raw budget =
     (if budget \<le> 0 then Inr None
      else res_bind (load_json env raw) (\<lambda>loaded.
        case Option.bind loaded as_obj of
          None \<Rightarrow> Inr None
        | Some payload \<Rightarrow>
            (case as_arr (jget payload ''input'') of
               None \<Rightarrow> Inr None
             | Some items \<Rightarrow>
                 if items = [] then Inr None
                 else res_bind (current_dialogue items) (\<lambda>dialogue.
                        case dialogue of
                          None \<Rightarrow> Inr None
                        | Some d \<Rightarrow> Inr (recovery_from env raw budget payload items d)))))"

section \<open>The diagnostic carries no content\<close>

fun shape_labels :: "shape \<Rightarrow> string set" where
  "shape_labels (SStr s) = {s}"
| "shape_labels (STup xs) = (\<Union>x \<in> set xs. shape_labels x)"

text \<open>Every word that can occur in a shape: a closed vocabulary, whatever the request says.\<close>

definition SHAPE_WORDS :: "string set" where
  "SHAPE_WORDS =
     {''truncated'', ''list'', ''dict'', ''type'', ''role'', ''field'', ''unknown'', ''assistant'',
      ''present'', ''absent'', ''null'', ''bool'', ''str'', ''number''}
     \<union> set BUCKETS \<union> set ROLES \<union> set item_types \<union> set KNOWN_CONTENT_TYPES"

lemma shape_words:
  "size_bucket n \<in> SHAPE_WORDS" "presence b \<in> SHAPE_WORDS" "value_kind v \<in> SHAPE_WORDS"
proof -
  show "size_bucket n \<in> SHAPE_WORDS" by (simp add: size_bucket_def SHAPE_WORDS_def BUCKETS_def)
  show "presence b \<in> SHAPE_WORDS" by (simp add: presence_def SHAPE_WORDS_def)
  show "value_kind v \<in> SHAPE_WORDS" by (cases v) (simp_all add: SHAPE_WORDS_def)
qed

lemma closed_label_words:
  assumes "set known \<subseteq> SHAPE_WORDS"
  shows "closed_label v known \<in> SHAPE_WORDS"
proof -
  have "unknown_label v \<in> SHAPE_WORDS"
    using shape_words(3) [of v] by (simp add: unknown_label_def, simp add: SHAPE_WORDS_def)
  with assms show ?thesis by (auto simp: closed_label_def split: option.splits)
qed

lemma role_entry_words: "shape_labels (role_entry v) \<subseteq> SHAPE_WORDS"
  by (cases "as_str v") (simp_all add: role_entry_def SHAPE_WORDS_def)

lemma bounded_entries_words:
  "(\<And>e. e \<in> set es \<Longrightarrow> shape_labels e \<subseteq> SHAPE_WORDS) \<Longrightarrow> shape_labels (bounded_entries es) \<subseteq> SHAPE_WORDS"
  using shape_words(2) by (auto simp: bounded_entries_def Let_def dest!: in_set_takeD; blast)

lemma shape_tags:
  "''truncated'' \<in> SHAPE_WORDS" "''list'' \<in> SHAPE_WORDS" "''dict'' \<in> SHAPE_WORDS" "''type'' \<in> SHAPE_WORDS"
  "''field'' \<in> SHAPE_WORDS"
  by (simp_all add: SHAPE_WORDS_def)

lemma known_types_words: "set (item_types @ KNOWN_CONTENT_TYPES) \<subseteq> SHAPE_WORDS"
  by (auto simp: SHAPE_WORDS_def)

text \<open>
  The shape of any request uses only words of a fixed vocabulary: no field name, text or
  identifier of the request can reach the diagnostic digest.
\<close>

theorem shape_of_content_free: "shape_labels (shape_of v depth) \<subseteq> SHAPE_WORDS"
proof (induction v depth rule: shape_of.induct)
  case (1 v depth)
  show ?case
  proof (cases "depth \<ge> 6")
    case True
    then show ?thesis by (simp add: shape_of.simps [of v] shape_tags shape_words)
  next
    case False
    show ?thesis
    proof (cases v)
      case (JArr xs)
      have "shape_labels (bounded_entries (map (\<lambda>x. shape_of x (depth + 1)) xs)) \<subseteq> SHAPE_WORDS"
        by (rule bounded_entries_words) (use 1(1) [OF False JArr] in auto)
      with False JArr show ?thesis
        by (simp add: shape_of.simps [of "JArr xs"] shape_tags shape_words)
    next
      case (JObj d)
      let ?e = "\<lambda>p. if fst p = ''type''
                  then STup [SStr ''type'', SStr (closed_label (snd p) (item_types @ KNOWN_CONTENT_TYPES))]
                  else if fst p = ''role'' then role_entry (snd p)
                  else STup [SStr ''field'', shape_of (snd p) (depth + 1)]"
      have "shape_labels (?e p) \<subseteq> SHAPE_WORDS" if "p \<in> set d" for p
        using 1(2) [OF False JObj that] role_entry_words closed_label_words [OF known_types_words]
        by (simp add: shape_tags)
      then have "shape_labels (bounded_entries (map ?e d)) \<subseteq> SHAPE_WORDS"
        by (intro bounded_entries_words) (simp only: set_map image_iff, blast)
      with False JObj show ?thesis
        by (simp add: shape_of.simps [of "JObj d"] shape_tags shape_words)
    qed (use False shape_words(3) [of v] in \<open>simp_all add: shape_of.simps\<close>)
  qed
qed

section \<open>Claims on recovery\<close>

lemma load_json_Some: "load_json env raw = Inr (Some v) \<longleftrightarrow> loads env raw = Inr v"
  by (cases "loads env raw") (auto simp: load_json_def split: py_exc.splits)

lemma Inr_Option_bind: "Option.bind x f = Some y \<longleftrightarrow> (\<exists>z. x = Some z \<and> f z = Some y)"
  by (cases x) auto

definition recovery_message :: "py_env \<Rightarrow> json \<Rightarrow> bool" where
  "recovery_message env v \<longleftrightarrow>
     (\<exists>role c. v = JObj [(''type'', JStr ''message''), (''role'', JStr role), (''content'', c)]
        \<and> portable_content env c)"

lemma text_content_portable:
  assumes "text_content v = Inr (Some c)"
  shows "portable_content env c"
proof (cases v)
  case (JStr s)
  with assms show ?thesis by (auto simp: text_content_def split: if_splits)
next
  case (JArr blocks)
  with assms obtain parts where parts: "res_map text_part blocks = Inr parts"
    and c: "c = JArr (concat parts)" "concat parts \<noteq> []"
    by (auto simp: text_content_def split: if_splits)
  have part: "portable_block env w" if "text_part b = Inr p" "w \<in> set p" for b p w
    using that by (auto simp: text_part_def nonempty_str_iff split: option.splits if_splits)
  from parts have "\<forall>p \<in> set parts. \<exists>b. text_part b = Inr p"
    by (auto simp: res_map_Inr list_all2_conv_all_nth in_set_conv_nth) blast
  with part c show ?thesis by auto
qed (use assms in \<open>simp_all add: text_content_def\<close>)

lemma dialogue_item_kept:
  assumes "dialogue_item v = Inr (Some w)"
  shows "is_current_turn_control v \<and> w = v \<or> recovery_message env w"
  using assms text_content_portable [of _ _ env]
  by (auto simp: dialogue_item_def recovery_message_def is_str_iff split: option.splits if_splits)

lemma dialogue_items_kept:
  "dialogue_items vs = Inr (Some ws) \<Longrightarrow>
     list_all2 (\<lambda>v w. is_current_turn_control v \<and> w = v \<or> recovery_message env w) vs ws"
proof (induction vs arbitrary: ws)
  case (Cons v vs)
  then obtain w ws' where w: "dialogue_item v = Inr (Some w)" "dialogue_items vs = Inr (Some ws')"
    "ws = w # ws'" by (auto split: option.splits)
  from dialogue_item_kept [OF w(1), of env] Cons.IH [OF w(2)] w(3) show ?case by simp
qed simp

lemma remove_reasoning_include_result:
  assumes "remove_reasoning_include d = (d', removed)"
  shows "k \<noteq> ''include'' \<Longrightarrow> jget d' k = jget d k"
    and "k \<noteq> ''include'' \<Longrightarrow> has_key d' k = has_key d k"
    and "jget d' ''include'' = JArr xs \<Longrightarrow> REASONING_INCLUDE \<notin> set xs"
  using assms by (auto simp: remove_reasoning_include_def Let_def split: option.splits)

lemma recovery_from_Some:
  assumes "recovery_from env raw budget payload items dialogue = Some (b, m)"
  shows "length b < length raw" "int (length b) \<le> budget"
    and "\<exists>candidate removed. b = json_text False (JObj candidate) \<and>
           remove_reasoning_include (pop_bindings (AList.update ''store'' (JBool False)
             (AList.update ''input'' (JArr dialogue) payload))) = (candidate, removed)"
  using assms
  by (auto simp: recovery_from_def Let_def dumps_utf8_def json_dumps_def encode_utf8_def
      split: sum.splits prod.splits if_splits)

text \<open>The request a recovery sends: the candidate's fields.\<close>

definition recovery_fields :: "jdict \<Rightarrow> json list \<Rightarrow> bool" where
  "recovery_fields candidate dialogue \<longleftrightarrow>
     jget candidate ''input'' = JArr dialogue \<and> jget candidate ''store'' = JBool False \<and>
     (\<forall>k \<in> set PROVIDER_BINDINGS. \<not> has_key candidate k) \<and>
     (\<forall>xs. jget candidate ''include'' = JArr xs \<longrightarrow> REASONING_INCLUDE \<notin> set xs)"

lemma build_recovery_Some:
  assumes "build_recovery env raw budget = Inr (Some (b, m))"
  obtains payload items dialogue where "loads env raw = Inr (JObj payload)"
    "jget payload ''input'' = JArr items" "current_dialogue items = Inr (Some dialogue)"
    "recovery_from env raw budget payload items dialogue = Some (b, m)"
proof -
  note def = build_recovery_def
  from assms obtain loaded where l: "load_json env raw = Inr loaded"
    by (auto simp: def split: if_splits)
  with assms obtain payload where p: "Option.bind loaded as_obj = Some payload"
    by (cases "Option.bind loaded as_obj") (auto simp: def split: if_splits)
  with assms l obtain items where i: "as_arr (jget payload ''input'') = Some items"
    by (cases "as_arr (jget payload ''input'')") (auto simp: def split: if_splits)
  from p l have "loads env raw = Inr (JObj payload)"
    by (auto simp: load_json_Some [symmetric] Inr_Option_bind)
  with assms l p i show ?thesis
    by (auto simp: def split: if_splits option.splits intro: that)
qed

lemma build_recovery_smaller:
  "build_recovery env raw budget = Inr (Some (b, m)) \<Longrightarrow> length b < length raw"
  by (erule build_recovery_Some) (rule recovery_from_Some(1))

text \<open>
  Claim C37.  A validation recovery is strictly smaller than the request and within the budget, it
  is not stored, names no provider-side state and asks for no encrypted reasoning, and each of its
  inputs is either an unchanged turn control or a message with portable text.
\<close>

theorem build_recovery_sound:
  assumes "build_recovery env raw budget = Inr (Some (b, m))"
  shows "length b < length raw \<and> int (length b) \<le> budget \<and>
    (\<exists>payload items candidate dialogue. loads env raw = Inr (JObj payload) \<and>
       jget payload ''input'' = JArr items \<and> b = json_text False (JObj candidate) \<and>
       recovery_fields candidate dialogue \<and>
       list_all2 (\<lambda>i w. is_current_turn_control (items ! i) \<and> w = items ! i \<or> recovery_message env w)
         (current_indices items) dialogue)"
proof -
  from assms obtain payload items dialogue where load: "loads env raw = Inr (JObj payload)"
    "jget payload ''input'' = JArr items" and dial: "current_dialogue items = Inr (Some dialogue)"
    and rec: "recovery_from env raw budget payload items dialogue = Some (b, m)"
    by (rule build_recovery_Some)
  from recovery_from_Some(3) [OF rec] obtain candidate removed where
    b: "b = json_text False (JObj candidate)" and
    c: "remove_reasoning_include (pop_bindings (AList.update ''store'' (JBool False)
          (AList.update ''input'' (JArr dialogue) payload))) = (candidate, removed)"
    by blast
  have "recovery_fields candidate dialogue"
    using remove_reasoning_include_result [OF c]
    by (simp add: recovery_fields_def pop_bindings_reads) (simp add: PROVIDER_BINDINGS_def)
  moreover have "list_all2 (\<lambda>i w. is_current_turn_control (items ! i) \<and> w = items ! i \<or> recovery_message env w)
      (current_indices items) dialogue"
    using dial dialogue_items_kept [of "map ((!) items) (current_indices items)" dialogue env]
    by (simp add: current_dialogue_def list.rel_map split: if_splits)
  ultimately show ?thesis
    using recovery_from_Some(1,2) [OF rec] load b by blast
qed

theorem build_recovery_sound_witness:
  "\<exists>b m. build_recovery (sample_env sample_request) sample_raw 1000 = Inr (Some (b, m)) \<and> length b < 200"
proof -
  have "case build_recovery (sample_env sample_request) sample_raw 1000 of Inr (Some _) \<Rightarrow> True | _ \<Rightarrow> False"
    by code_simp
  then obtain b m where run: "build_recovery (sample_env sample_request) sample_raw 1000 = Inr (Some (b, m))"
    by (auto split: sum.splits option.splits)
  from build_recovery_sound [OF run] run show ?thesis by auto
qed

end
