(* ===== verification/Relay_World.thy ===== *)
theory Relay_World
  imports Effects Admission Registry Recovery_Input
begin

text \<open>
  The state the relay code shares and the effects it has: the clocks, the cooldown cache, the
  admission gate, telemetry, the operational log, what the client receives and which requests go
  upstream.  An action returns a result or an exception and the state it leaves, so an effect that
  precedes an exception is kept.  Also \<open>relay/operational_log.py\<close>, the header lookup of
  \<open>relay/contracts.py\<close> and the local responses of \<open>relay/relay.py\<close>.
\<close>

section \<open>Upstream\<close>

type_synonym headers = "(string \<times> string) list"

text \<open>What an exception shows of itself: its class, its \<open>reason\<close>'s class, and two integer attributes.\<close>

record exc_info =
  ex_label :: string
  ex_reason :: "string option"
  ex_errno :: "int option"
  ex_verify_code :: "int option"

datatype read_outcome =
    Chunk bytes
  | Incomplete bytes
  | Read_timeout
  | Read_error string

text \<open>An open response: what its successive reads do and how long each takes; after the last, end of file.\<close>

record upstream_response =
  ur_status :: int
  ur_headers :: headers
  ur_reads :: "(rat \<times> read_outcome) list"

datatype upstream_outcome =
    Opened upstream_response
  | Http_error int headers bytes
  | Transport_error exc_info

text \<open>
  The interpreter, the released settings, and the upstream: its answer to the n-th request of the
  process, with the time it takes.
\<close>

record relay_env =
  py :: py_env
  UPSTREAM_TIMEOUT :: rat
  UPSTREAM_READ_TIMEOUT :: rat
  COMPACTION_BUDGET :: int
  RESPONSE_FAILED_MAX_STAGES :: nat
  http_date_delay :: "string \<Rightarrow> rat option"
  format_1f :: "rat \<Rightarrow> string"
  upstream_at :: "nat \<Rightarrow> bytes \<Rightarrow> rat \<times> upstream_outcome"

section \<open>The world\<close>

datatype sent = Head int headers | Body bytes

record world =
  clock :: rat
  unix_time :: int
  failures_cache :: failures
  gate_state :: admission
  telemetry :: telemetry_state
  logs :: "string list"
  sent_down :: "sent list"
  client_writes :: "nat option"
  close_connection :: bool
  upstream_requests :: "bytes list"

type_synonym 'a act = "(world, 'a) eff"

section \<open>Operational log\<close>

definition safe_path_point :: "nat \<Rightarrow> bool" where
  "safe_path_point n \<longleftrightarrow>
     48 \<le> n \<and> n \<le> 57 \<or> 65 \<le> n \<and> n \<le> 90 \<or> 97 \<le> n \<and> n \<le> 122 \<or> n \<in> {46, 95, 126, 47, 45}"

definition inert_char :: "nat \<Rightarrow> char" where
  "inert_char n = (if safe_path_point n then char_of n else CHR ''_'')"

definition safe_request_path :: "py_env \<Rightarrow> string \<Rightarrow> string" where
  "safe_request_path env v =
     (case urlsplit env v of
        Inl _ \<Rightarrow> ''/invalid-path''
      | Inr u \<Rightarrow>
          if take 1 (url_path u) = ''/''
          then take 192 (map inert_char (code_points (url_path u)))
          else ''/invalid-path'')"

definition safe_exception_context :: "exc_info \<Rightarrow> string" where
  "safe_exception_context e =
     (let prefix = (case ex_reason e of Some _ \<Rightarrow> ''reason_'' | None \<Rightarrow> [])
      in join_sep '' ''
           ([''exception='' @ ex_label e]
            @ (case ex_reason e of Some r \<Rightarrow> [''reason_exception='' @ r] | None \<Rightarrow> [])
            @ (case ex_errno e of Some n \<Rightarrow> [prefix @ ''errno='' @ int_text n] | None \<Rightarrow> [])
            @ (case ex_verify_code e of Some n \<Rightarrow> [prefix @ ''verify_code='' @ int_text n] | None \<Rightarrow> [])))"

definition log_line :: "string \<Rightarrow> unit act" where
  "log_line message = act_modify (\<lambda>w. w\<lparr>logs := logs w @ [message]\<rparr>)"

section \<open>Shared state\<close>

definition count :: "string \<Rightarrow> unit act" where
  "count name = act_modify (\<lambda>w. w\<lparr>telemetry := record_counter name 1 (telemetry w)\<rparr>)"

definition classify :: "string \<Rightarrow> unit act" where
  "classify name = act_modify (\<lambda>w. w\<lparr>telemetry := record_upstream_classification name (telemetry w)\<rparr>)"

definition note_failure :: "string \<Rightarrow> unit act" where
  "note_failure c = act_modify (\<lambda>w. w\<lparr>telemetry := record_failure c (unix_time w) (telemetry w)\<rparr>)"

definition sleep :: "rat \<Rightarrow> unit act" where
  "sleep d = act_modify (\<lambda>w. w\<lparr>clock := clock w + d\<rparr>)"

definition remember :: "string \<Rightarrow> nat \<Rightarrow> int \<Rightarrow> unit act" where
  "remember key capacity seconds =
     act_modify (\<lambda>w. w\<lparr>failures_cache := remember_failure key capacity seconds (clock w) (failures_cache w)\<rparr>)"

definition cooldown_remaining :: "string \<Rightarrow> rat act" where
  "cooldown_remaining key w =
     (case remaining key (clock w) (failures_cache w) of
        (r, st) \<Rightarrow> (Inr r, w\<lparr>failures_cache := st\<rparr>))"

definition admit :: "(string \<times> nat) act" where
  "admit w =
     (case admit_response (clock w) (unix_time w) (gate_state w, telemetry w) of
        (r, st, tel) \<Rightarrow> (Inr r, w\<lparr>gate_state := st, telemetry := tel\<rparr>))"

definition release :: "nat act" where
  "release w = (case release_response (gate_state w) of (n, st) \<Rightarrow> (Inr n, w\<lparr>gate_state := st\<rparr>))"

definition new_request_id :: "nat act" where
  "new_request_id w = (case next_request_id (gate_state w) of (n, st) \<Rightarrow> (Inr n, w\<lparr>gate_state := st\<rparr>))"

section \<open>Local responses\<close>

definition HOP_BY_HOP :: "string list" where
  "HOP_BY_HOP =
     [''connection'', ''keep-alive'', ''proxy-authenticate'', ''proxy-authorization'', ''te'',
      ''trailers'', ''transfer-encoding'', ''upgrade'', ''host'', ''content-length'',
      ''accept-encoding'']"

text \<open>A write to the client; once it has gone, every write raises.\<close>

definition send_down :: "sent \<Rightarrow> unit act" where
  "send_down s w =
     (case client_writes w of
        Some 0 \<Rightarrow> (Inl BrokenPipe, w)
      | n \<Rightarrow> (Inr (), w\<lparr>sent_down := sent_down w @ [s], client_writes := map_option (\<lambda>k. k - 1) n\<rparr>))"

definition length_header :: "bytes \<Rightarrow> string \<times> string" where
  "length_header payload = (''Content-Length'', nat_text (length payload))"

definition send_payload :: "int \<Rightarrow> bytes \<Rightarrow> string option \<Rightarrow> bool \<Rightarrow> unit act" where
  "send_payload code payload retry_after close =
     act_then
       (send_down (Head code
         ([(''Content-Type'', ''application/json'')]
          @ (case retry_after of Some r \<Rightarrow> if r = [] then [] else [(''Retry-After'', r)] | None \<Rightarrow> [])
          @ (if close then [(''Connection'', ''close'')] else [])
          @ [length_header payload])))
       (send_down (Body payload))"

definition send_wire_failure_exhausted :: "wire_policy \<Rightarrow> int \<Rightarrow> unit act" where
  "send_wire_failure_exhausted p attempts =
     send_payload 503
       (error_payload (EXHAUSTED_MESSAGE p) ''upstream_unavailable'' (EXHAUSTED_CODE p) None (Some attempts))
       (Some ''3'') False"

definition end_to_end :: "headers \<Rightarrow> headers" where
  "end_to_end hs = filter (\<lambda>h. lower (fst h) \<notin> set HOP_BY_HOP) hs"

definition relay_error :: "int \<Rightarrow> headers \<Rightarrow> bytes \<Rightarrow> unit act" where
  "relay_error code hs payload =
     act_then (send_down (Head code (end_to_end hs @ [length_header payload]))) (send_down (Body payload))"

definition send_stream_headers :: "upstream_response \<Rightarrow> unit act" where
  "send_stream_headers r =
     send_down (Head (ur_status r) (end_to_end (ur_headers r) @ [(''Transfer-Encoding'', ''chunked'')]))"

text \<open>\<open>header_value\<close> and \<open>headers.get\<close>: the first header of that name, whatever the case.\<close>

definition header_value :: "headers \<Rightarrow> string \<Rightarrow> string option" where
  "header_value hs name = map_option snd (List.find (\<lambda>h. lower (fst h) = lower name) hs)"

section \<open>Facts\<close>

text \<open>What the client and the upstream have seen: the requests sent and the response heads written.\<close>

fun is_head :: "sent \<Rightarrow> bool" where
  "is_head (Head c hs) = True"
| "is_head (Body b) = False"

definition heads :: "world \<Rightarrow> nat" where
  "heads w = length (filter is_head (sent_down w))"

definition traffic :: "bytes list \<Rightarrow> nat \<Rightarrow> world \<Rightarrow> bool" where
  "traffic us h w \<longleftrightarrow> upstream_requests w = us \<and> heads w = h"

definition asked :: "bytes list \<Rightarrow> world \<Rightarrow> bool" where
  "asked us w \<longleftrightarrow> upstream_requests w = us"

text \<open>Actions that neither send nor ask.\<close>

definition quiet :: "'a act \<Rightarrow> bool" where
  "quiet m \<longleftrightarrow> (\<forall>us h. valid (traffic us h) m (\<lambda>_. traffic us h) (traffic us h))"

named_theorems quiet_rules \<open>actions that neither send to the client nor ask the upstream\<close>

lemma quiet_modify:
  "(\<And>w. upstream_requests (f w) = upstream_requests w) \<Longrightarrow> (\<And>w. sent_down (f w) = sent_down w) \<Longrightarrow>
   quiet (act_modify f)"
  by (simp add: quiet_def valid_def act_modify_def traffic_def heads_def)

lemma quiet_basic [quiet_rules]:
  "quiet (log_line s)" "quiet (count n)" "quiet (classify n)" "quiet (note_failure n)" "quiet (sleep d)"
  "quiet (remember k c secs)"
  unfolding log_line_def count_def classify_def note_failure_def sleep_def remember_def
  by (rule quiet_modify; simp)+

lemma quiet_return [quiet_rules]: "quiet (act_return x)"
  by (simp add: quiet_def valid_def act_return_def)

lemma quiet_lift [quiet_rules]: "quiet (act_lift r)"
  by (simp add: quiet_def valid_def act_lift_def split: sum.splits)

lemma quiet_bind [quiet_rules]: "quiet m \<Longrightarrow> (\<And>x. quiet (f x)) \<Longrightarrow> quiet (act_bind m f)"
  unfolding quiet_def by (blast intro: valid_bind)

lemma quiet_then [quiet_rules]: "quiet m \<Longrightarrow> quiet n \<Longrightarrow> quiet (act_then m n)"
  unfolding quiet_def by (blast intro: valid_then)

lemma quiet_gate [quiet_rules]:
  "quiet (cooldown_remaining k)" "quiet admit" "quiet release" "quiet new_request_id"
  by (auto simp: quiet_def valid_def cooldown_remaining_def admit_def release_def new_request_id_def
      traffic_def heads_def split: prod.splits)

lemma quiet_traffic:
  "quiet m \<Longrightarrow> (\<And>x w. traffic us h w \<Longrightarrow> Q x w) \<Longrightarrow> (\<And>w. asked us w \<Longrightarrow> E w) \<Longrightarrow> valid (traffic us h) m Q E"
  unfolding quiet_def by (rule valid_conseq [of "traffic us h" m "\<lambda>_. traffic us h" "traffic us h"])
    (auto simp: traffic_def asked_def)

lemma quiet_then_traffic:
  "quiet m \<Longrightarrow> valid (traffic us h) n Q E \<Longrightarrow> (\<And>w. asked us w \<Longrightarrow> E w) \<Longrightarrow>
   valid (traffic us h) (act_then m n) Q E"
  by (rule valid_then [OF quiet_traffic])

text \<open>A response sent adds one head; an exception may leave it half sent, but asks nothing.\<close>

lemma send_head: "valid (traffic us h) (send_down (Head c hs)) (\<lambda>_. traffic us (h + 1)) (asked us)"
  by (auto simp: valid_def send_down_def traffic_def asked_def heads_def split: option.splits nat.splits)

lemma send_body: "valid (traffic us h) (send_down (Body b)) (\<lambda>_. traffic us h) (asked us)"
  by (auto simp: valid_def send_down_def traffic_def asked_def heads_def split: option.splits nat.splits)

lemma send_payload_traffic:
  "valid (traffic us h) (send_payload c b r cl) (\<lambda>_. traffic us (h + 1)) (asked us)"
  unfolding send_payload_def by (rule valid_then [OF send_head send_body])

lemma relay_error_traffic:
  "valid (traffic us h) (relay_error c hs b) (\<lambda>_. traffic us (h + 1)) (asked us)"
  unfolding relay_error_def by (rule valid_then [OF send_head send_body])

lemma send_wire_failure_traffic:
  "valid (traffic us h) (send_wire_failure_exhausted p n) (\<lambda>_. traffic us (h + 1)) (asked us)"
  unfolding send_wire_failure_exhausted_def by (rule send_payload_traffic)

text \<open>
  A logged request path is bounded and inert: it starts with a slash, has at most 192
  characters and only unreserved ones, so no query, no control character and no caller text enters
  the log.
\<close>

theorem safe_request_path_inert:
  "take 1 (safe_request_path env path) = ''/'' \<and> length (safe_request_path env path) \<le> 192 \<and>
   list_all (\<lambda>c. safe_path_point (of_char c)) (safe_request_path env path)"
proof -
  have "safe_path_point (of_char (inert_char n))" for n
    by (auto simp: inert_char_def safe_path_point_def)
  then have all: "list_all (\<lambda>c. safe_path_point (of_char c)) (take k (map inert_char ns))" for k ns
    by (auto simp: list_all_iff dest!: in_set_takeD)
  have head: "take 1 (take 192 (map inert_char (code_points s))) = ''/''" if "take 1 s = ''/''" for s
  proof -
    from that obtain r where "s = CHR ''/'' # r" by (cases s) auto
    moreover have "char_of (47 :: nat) = CHR ''/''" by code_simp
    ultimately show ?thesis by (simp add: inert_char_def safe_path_point_def)
  qed
  have fixed: "list_all (\<lambda>c. safe_path_point (of_char c)) ''/invalid-path''"
    by (simp add: safe_path_point_def)
  show ?thesis
  proof (cases "\<exists>u. urlsplit env path = Inr u \<and> take 1 (url_path u) = ''/''")
    case True
    then obtain u where u: "urlsplit env path = Inr u" "take 1 (url_path u) = ''/''" by blast
    then have "safe_request_path env path = take 192 (map inert_char (code_points (url_path u)))"
      by (simp add: safe_request_path_def)
    with all head [OF u(2)] show ?thesis by simp
  next
    case False
    then have "safe_request_path env path = ''/invalid-path''"
      by (auto simp: safe_request_path_def split: sum.splits)
    with fixed show ?thesis by simp
  qed
qed

section \<open>An example world\<close>

definition sample_world :: world where
  "sample_world =
     \<lparr>clock = 0, unix_time = 0, failures_cache = [], gate_state = new_admission, telemetry = new_telemetry,
      logs = [], sent_down = [], client_writes = None, close_connection = False, upstream_requests = []\<rparr>"

text \<open>An upstream that answers every request with the same outcome after one second.\<close>

definition sample_relay_env :: "json \<Rightarrow> upstream_outcome \<Rightarrow> relay_env" where
  "sample_relay_env doc answer =
     \<lparr>py = sample_env doc, UPSTREAM_TIMEOUT = 300, UPSTREAM_READ_TIMEOUT = 60, COMPACTION_BUDGET = 1000,
      RESPONSE_FAILED_MAX_STAGES = 2, http_date_delay = (\<lambda>_. None), format_1f = (\<lambda>_. []),
      upstream_at = (\<lambda>_ _. (1, answer))\<rparr>"

definition sample_response :: upstream_response where
  "sample_response = \<lparr>ur_status = 200, ur_headers = [(''Content-Type'', ''text/event-stream'')],
     ur_reads = [(1, Chunk (''x'' @ [CHR 10, CHR 10])), (1, Chunk ''y'')]\<rparr>"

end
