(* ===== verification/Exchange.thy ===== *)
theory Exchange
  imports Relay_World
begin

text \<open>
  \<open>relay/exchange.py\<close>: one request's exchange with the upstream and its bounded recovery state
  machine.  \<open>exchange.log\<close> and the telemetry calls are kept; the texts of the log are those of the
  source.
\<close>

record exchange =
  handler_path :: string
  xmethod :: string
  request_id :: nat
  xbody :: bytes
  xurl :: string
  xheaders :: headers
  is_responses :: bool
  attempt_body :: bytes
  xprofile :: profile
  plaintext_agent_delivery :: bool
  response_failed_stages :: nat
  used_response_failed_compaction :: bool
  compact_metrics_of :: "jdict option"
  used_response_failed_dialogue :: bool
  dialogue_metrics :: "jdict option"
  used_input_variant_dialogue :: bool
  input_variant_metrics :: "input_recovery_metrics option"
  xresponse :: "upstream_response option"

definition MAX_ATTEMPTS :: nat where
  "MAX_ATTEMPTS = 4"

text \<open>\<open>_BACKOFFS\<close>, with the text each delay has in the log.\<close>

definition BACKOFFS :: "(rat \<times> string) list" where
  "BACKOFFS = [(2 / 5, ''0.4''), (1, ''1.0''), (2, ''2.0'')]"

definition RESPONSE_FAILED_DIALOGUE_SLOTS :: nat where
  "RESPONSE_FAILED_DIALOGUE_SLOTS = 1"

definition INPUT_VARIANT_DIALOGUE_SLOTS :: nat where
  "INPUT_VARIANT_DIALOGUE_SLOTS = 1"

definition backoff :: "nat \<Rightarrow> rat \<times> string" where
  "backoff attempt = BACKOFFS ! min attempt (length BACKOFFS - 1)"

section \<open>Operations of an exchange\<close>

definition upstream :: "relay_env \<Rightarrow> exchange \<Rightarrow> upstream_outcome act" where
  "upstream env x w =
     (case upstream_at env (length (upstream_requests w)) (attempt_body x) of
        (d, r) \<Rightarrow> (Inr r, w\<lparr>clock := clock w + d,
                           upstream_requests := upstream_requests w @ [attempt_body x]\<rparr>))"

definition log_exchange :: "relay_env \<Rightarrow> exchange \<Rightarrow> string \<Rightarrow> string \<Rightarrow> unit act" where
  "log_exchange env x event detail =
     log_line (''req='' @ nat_text (request_id x) @ '' event='' @ event @ '' provider=''
       @ prof_name (xprofile x) @ '' '' @ detail @ ''path='' @ safe_request_path (py env) (handler_path x))"

text \<open>\<open>str(v)\<close> of a metric.\<close>

fun metric_text :: "json \<Rightarrow> string" where
  "metric_text (JInt i) = int_text i"
| "metric_text (JBool b) = bool_text b"
| "metric_text _ = []"

definition metric :: "jdict \<Rightarrow> string \<Rightarrow> string" where
  "metric m k = metric_text (jget m k)"

definition accepted_recovery :: "relay_env \<Rightarrow> exchange \<Rightarrow> unit act" where
  "accepted_recovery env x =
     (case (\<not> used_input_variant_dialogue x \<and> used_response_failed_dialogue x, dialogue_metrics x) of
        (True, Some m) \<Rightarrow>
          act_then (count ''response_failed_dialogue_recovery_accepted'')
            (log_exchange env x ''response_failed_dialogue_recovery_accepted''
              (''bytes='' @ metric m ''original_bytes'' @ ''->'' @ metric m ''recovery_bytes''
               @ '' retained_messages='' @ metric m ''retained_messages''
               @ '' dropped_input_items='' @ metric m ''dropped_input_items''
               @ '' pair_safe_stages='' @ nat_text (response_failed_stages x) @ '' ''))
      | _ \<Rightarrow>
          (case (used_response_failed_compaction x, compact_metrics_of x) of
             (True, Some m) \<Rightarrow>
               act_then (count ''response_failed_compaction_accepted'')
                 (log_exchange env x ''response_failed_compact_recovery_accepted''
                   (''bytes='' @ metric m ''original_bytes'' @ ''->'' @ metric m ''compact_bytes''
                    @ '' removed_inputs='' @ metric m ''removed_inputs''
                    @ '' retained_inputs='' @ metric m ''retained_inputs'' @ '' ''))
           | _ \<Rightarrow> act_return ()))"

definition variant_detail :: "input_recovery_metrics \<Rightarrow> string" where
  "variant_detail m =
     '' retained_messages='' @ nat_text (retained_messages m)
     @ '' dropped_input_items='' @ int_text (dropped_input_items m) @ '' ''"

definition input_variant_accepted :: "relay_env \<Rightarrow> exchange \<Rightarrow> unit act" where
  "input_variant_accepted env x =
     (case (used_input_variant_dialogue x, input_variant_metrics x) of
        (True, Some m) \<Rightarrow>
          act_then (count ''input_variant_dialogue_recovery_accepted'')
            (log_exchange env x ''input_variant_dialogue_recovery_accepted''
              (''bytes='' @ nat_text (original_bytes m) @ ''->'' @ nat_text (recovery_bytes m)
               @ variant_detail m))
      | _ \<Rightarrow> act_return ())"

definition input_variant_exhausted :: "relay_env \<Rightarrow> exchange \<Rightarrow> string \<Rightarrow> unit act" where
  "input_variant_exhausted env x detail =
     act_then (count ''input_variant_dialogue_recovery_exhausted'')
    (act_then (note_failure ''input_variant_dialogue_recovery_exhausted'')
       (log_exchange env x ''input_variant_dialogue_recovery_exhausted'' detail))"

section \<open>Classification\<close>

fun contains :: "string \<Rightarrow> string \<Rightarrow> bool" where
  "contains p [] = (p = [])"
| "contains p (c # s) = (starts_with p (c # s) \<or> contains p s)"

definition provider_bound :: "json \<Rightarrow> bool" where
  "provider_bound document =
     (case Option.bind (as_obj document) (\<lambda>d. as_obj (jget d ''error'')) of
        None \<Rightarrow> False
      | Some error \<Rightarrow> jget error ''type'' = JStr ''invalid_request_error''
                      \<and> jget error ''code'' = JStr ''invalid_encrypted_content'')"

definition QUOTED_INVALID_PROMPT :: string where
  "QUOTED_INVALID_PROMPT =
     [CHR 34] @ ''code'' @ [CHR 34, CHR '':'', CHR 34] @ ''invalid_prompt'' @ [CHR 34]"

definition classification :: "py_env \<Rightarrow> int \<Rightarrow> bytes \<Rightarrow> string \<Rightarrow> bool \<Rightarrow> bool \<Rightarrow> string res" where
  "classification env code payload disposition exact wire_failure =
     res_bind
       (if code = 400
        then (case loads env payload of
                Inl RecursionError \<Rightarrow> Inl RecursionError
              | Inl _ \<Rightarrow> Inr False
              | Inr document \<Rightarrow> Inr (provider_bound document))
        else Inr False)
       (\<lambda>bound.
          let blocked = contains QUOTED_INVALID_PROMPT (lower payload) \<and> contains ''request blocked'' (lower payload);
              http = ''http_'' @ int_text code @ (if disposition = [] then [] else ''_'' @ disposition)
          in Inr
            (if bound then ''provider_bound_encrypted_content''
             else if wire_failure then ''wire_policy_failure''
             else if exact \<and> code = 400 \<and> disposition = '''' \<and> \<not> blocked
             then ''input_variant_validation_error''
             else if \<not> exact \<and> code = 400 \<and> disposition = ''full''
             then (if blocked then ''blocked_invalid_prompt'' else ''response_failed'')
             else http))"

section \<open>Recoveries\<close>

definition recover_input_variant :: "relay_env \<Rightarrow> exchange \<Rightarrow> (bool \<times> exchange) act" where
  "recover_input_variant env x =
     act_bind (act_lift (diagnose (py env) (attempt_body x))) (\<lambda>g.
     act_then (log_exchange env x ''input_variant_validation_error'' (format_diagnostic g @ '' ''))
    (act_bind (act_lift (build_recovery (py env) (xbody x) (COMPACTION_BUDGET env))) (\<lambda>r.
       case r of
         None \<Rightarrow> act_return (False, x)
       | Some (recovery, m) \<Rightarrow>
           let x' = x\<lparr>used_input_variant_dialogue := True, input_variant_metrics := Some m,
                      attempt_body := recovery\<rparr> in
           act_then (count ''input_variant_dialogue_recovery_attempts'')
          (act_then (log_exchange env x' ''input_variant_dialogue_recovery''
             (''bytes='' @ nat_text (length (attempt_body x)) @ ''->'' @ nat_text (recovery_bytes m)
              @ variant_detail m
              @ ''cache_key_removed='' @ bool_text (prompt_cache_key_removed m) @ '' ''))
             (act_return (True, x'))))))"

definition adopt_compaction :: "relay_env \<Rightarrow> exchange \<Rightarrow> bytes \<Rightarrow> jdict \<Rightarrow> (bool \<times> exchange) act" where
  "adopt_compaction env x compacted m0 =
     (let stage = response_failed_stages x + 1;
          m = AList.update ''stage'' (JInt (int stage)) m0;
          x' = x\<lparr>response_failed_stages := stage, compact_metrics_of := Some m,
                 used_response_failed_compaction := True, attempt_body := compacted\<rparr>
      in act_then (count ''response_failed_compaction_attempts'')
        (act_then (log_exchange env x' ''response_failed_compact_recovery''
           (''stage='' @ nat_text stage @ ''/'' @ nat_text (RESPONSE_FAILED_MAX_STAGES env)
            @ '' bytes='' @ nat_text (length (attempt_body x)) @ ''->'' @ metric m ''compact_bytes''
            @ '' budget='' @ metric m ''budget_bytes''
            @ '' removed_inputs='' @ metric m ''removed_inputs''
            @ '' retained_inputs='' @ metric m ''retained_inputs''
            @ '' cache_key_removed='' @ metric m ''prompt_cache_key_removed''
            @ '' budget_met='' @ (if has_key m ''budget_met'' then metric m ''budget_met'' else ''True'')
            @ '' ''))
           (act_return (True, x'))))"

definition adopt_dialogue :: "relay_env \<Rightarrow> exchange \<Rightarrow> bytes \<Rightarrow> jdict \<Rightarrow> (bool \<times> exchange) act" where
  "adopt_dialogue env x recovery m =
     (let x' = x\<lparr>used_response_failed_dialogue := True, dialogue_metrics := Some m,
                 attempt_body := recovery\<rparr>
      in act_then (count ''response_failed_dialogue_recovery_attempts'')
        (act_then (log_exchange env x' ''response_failed_dialogue_recovery''
           (''bytes='' @ nat_text (length (attempt_body x)) @ ''->'' @ metric m ''recovery_bytes''
            @ '' retained_messages='' @ metric m ''retained_messages''
            @ '' dropped_input_items='' @ metric m ''dropped_input_items''
            @ '' cache_key_removed='' @ metric m ''prompt_cache_key_removed'' @ '' ''))
           (act_return (True, x'))))"

definition try_dialogue :: "relay_env \<Rightarrow> exchange \<Rightarrow> (bool \<times> exchange) act" where
  "try_dialogue env x =
     (if used_response_failed_dialogue x then act_return (False, x)
      else act_bind (act_lift (recover_dialogue (py env) (xbody x) (COMPACTION_BUDGET env))) (\<lambda>r.
        case r of
          None \<Rightarrow> act_return (False, x)
        | Some (recovery, m) \<Rightarrow> adopt_dialogue env x recovery m))"

definition recover_response_failed ::
  "relay_env \<Rightarrow> exchange \<Rightarrow> int \<Rightarrow> string \<Rightarrow> (bool \<times> exchange) act" where
  "recover_response_failed env x code disposition =
     (if \<not> (is_responses x \<and> code = 400 \<and> disposition = ''full'') then act_return (False, x)
      else if response_failed_stages x < RESPONSE_FAILED_MAX_STAGES env
      then act_bind (act_lift (compact_request (py env) (attempt_body x) (COMPACTION_BUDGET env))) (\<lambda>r.
             case r of
               Some (compacted, m) \<Rightarrow> adopt_compaction env x compacted m
             | None \<Rightarrow> try_dialogue env x)
      else try_dialogue env x)"

definition exhaust_response_failed :: "relay_env \<Rightarrow> exchange \<Rightarrow> unit act" where
  "exhaust_response_failed env x =
     (let attempts = response_failed_stages x + (if used_response_failed_dialogue x then 1 else 0) + 1
      in act_then (count ''response_failed_recovery_exhausted'')
        (act_then (note_failure ''response_failed_recovery_exhausted'')
        (act_then (send_payload 503 (exhausted_payload (int attempts)) (Some ''3'') False)
           (log_exchange env x ''response_failed_recovery_exhausted''
             (''attempts='' @ nat_text attempts
              @ '' pair_safe_stages='' @ nat_text (response_failed_stages x)
              @ '' dialogue_recovery='' @ bool_text (used_response_failed_dialogue x)
              @ '' upstream_status=400 '')))))"

definition reject_wire_failure ::
  "relay_env \<Rightarrow> exchange \<Rightarrow> wire_policy \<Rightarrow> string \<Rightarrow> int \<Rightarrow> string \<Rightarrow> string \<Rightarrow> unit act" where
  "reject_wire_failure env x p fingerprint attempts event detail =
     act_then (count ''wire_failure_recovery_exhausted'')
    (act_then (note_failure ''wire_failure_recovery_exhausted'')
    (act_then (remember fingerprint (nat (FAILURE_CACHE_CAPACITY p)) (FAILURE_COOLDOWN_SECONDS p))
    (act_then (send_wire_failure_exhausted p attempts)
       (log_exchange env x event detail))))"

text \<open>Whether the retry ended the exchange; otherwise the exchange holds the accepted response.\<close>

definition retry_wire_failure :: "relay_env \<Rightarrow> exchange \<Rightarrow> (bool \<times> exchange) act" where
  "retry_wire_failure env x =
     (case prof_policy (xprofile x) of
        None \<Rightarrow> act_return (False, x)
      | Some p \<Rightarrow>
          let fingerprint = request_fingerprint p (xbody x) in
          act_then (count ''wire_failure_retry_attempts'')
         (act_then (log_exchange env x ''wire_failure_retry''
            (''bytes='' @ nat_text (length (attempt_body x)) @ '' policy='' @ POLICY_VERSION p @ '' ''))
         (act_bind (upstream env x) (\<lambda>r.
            case r of
              Http_error code hs payload \<Rightarrow>
                act_then (reject_wire_failure env x p fingerprint 2 ''wire_failure_retry_failed''
                  (''upstream_status='' @ int_text code @ '' attempts=2 ''))
                  (act_return (True, x))
            | Transport_error e \<Rightarrow>
                act_then (reject_wire_failure env x p fingerprint 2 ''wire_failure_retry_failed''
                  (''exception='' @ ex_label e @ '' attempts=2 ''))
                  (act_return (True, x))
            | Opened resp \<Rightarrow>
                act_then (count ''wire_failure_retry_accepted'')
               (act_then (log_exchange env x ''wire_failure_retry_accepted'' '''')
                  (act_return (False, x\<lparr>xresponse := Some resp\<rparr>)))))))"

section \<open>Error handling\<close>

datatype outcome = Retry | Terminal | Accepted

definition rate_limit :: "relay_env \<Rightarrow> exchange \<Rightarrow> headers \<Rightarrow> unit act" where
  "rate_limit env x hs =
     (let seconds = retry_after_seconds (http_date_delay env) (header_value hs ''Retry-After'')
      in act_then (remember (provider_key (prof_name (xprofile x))) 1024 seconds)
        (act_then (count ''provider_rate_limits'')
           (log_exchange env x ''provider_rate_limit'' (''cooldown_seconds='' @ int_text seconds @ '' ''))))"

definition unavailable :: "relay_env \<Rightarrow> exchange \<Rightarrow> headers \<Rightarrow> unit act" where
  "unavailable env x hs =
     (let seconds = retry_after_seconds (http_date_delay env) (header_value hs ''Retry-After'')
      in act_then (remember (unavailable_key (prof_name (xprofile x))) 1024 seconds)
           (log_exchange env x ''provider_unavailable_cooldown_started''
             (''seconds='' @ int_text seconds @ '' '')))"

text \<open>The last part of \<open>_http_error\<close>: the bounded transient retry, the wire retry, or the terminal error.\<close>

definition http_error_tail ::
  "relay_env \<Rightarrow> exchange \<Rightarrow> int \<Rightarrow> headers \<Rightarrow> bytes \<Rightarrow> nat \<Rightarrow> string \<Rightarrow> bool \<Rightarrow> string \<Rightarrow>
   (outcome \<times> exchange) act" where
  "http_error_tail env x code hs payload attempt disposition wire_failure cls =
     (let retry_ceiling = (if disposition = ''once'' then 1 else MAX_ATTEMPTS - 1);
          used = int attempt - int (response_failed_stages x)
      in if disposition \<noteq> '''' \<and> used < int retry_ceiling \<and> code \<notin> {400, 477}
         then let delay = (if disposition = ''once'' then (3, ''3.0'') else backoff attempt) in
              act_then (log_exchange env x ''upstream_retry''
                (''status='' @ int_text code @ '' disposition='' @ disposition @ '' attempt=''
                 @ nat_text (attempt + 1) @ ''/'' @ nat_text retry_ceiling
                 @ '' delay_seconds='' @ snd delay @ '' ''))
             (act_then (sleep (fst delay)) (act_return (Retry, x)))
         else if wire_failure
         then act_bind (retry_wire_failure env x) (\<lambda>(ended, x').
                act_return (if ended then Terminal else Accepted, x'))
         else
           act_then (if code = 503 then unavailable env x hs else act_return ())
          (act_then (relay_error code hs payload)
          (act_then (note_failure cls)
          (act_then (log_exchange env x ''upstream_http_terminal''
             (''status='' @ int_text code @ '' response_bytes='' @ nat_text (length payload)
              @ '' attempts='' @ nat_text (attempt + 1) @ '' ''))
             (act_return (Terminal, x))))))"

text \<open>The middle part: recoveries that replace the body.\<close>

definition http_error_recover ::
  "relay_env \<Rightarrow> exchange \<Rightarrow> int \<Rightarrow> headers \<Rightarrow> bytes \<Rightarrow> nat \<Rightarrow> string \<Rightarrow> string \<Rightarrow> bool \<Rightarrow> bool \<Rightarrow> string \<Rightarrow>
   (outcome \<times> exchange) act" where
  "http_error_recover env x code hs payload attempt portable disposition exact wire_failure cls =
     (if used_input_variant_dialogue x
      then act_then (input_variant_exhausted env x (''upstream_status='' @ int_text code @ '' ''))
          (act_then (relay_error code hs payload) (act_return (Terminal, x)))
      else
        act_bind (if exact then recover_input_variant env x else act_return (False, x)) (\<lambda>(recovered, x1).
        if recovered then act_return (Retry, x1)
        else act_bind (recover_response_failed env x1 code disposition) (\<lambda>(recovered2, x2).
        if recovered2 then act_return (Retry, x2)
        else if is_responses x2 \<and> code = 400 \<and> portable = ''full''
        then act_then (exhaust_response_failed env x2) (act_return (Terminal, x2))
        else http_error_tail env x2 code hs payload attempt disposition wire_failure cls)))"

definition http_error ::
  "relay_env \<Rightarrow> exchange \<Rightarrow> int \<Rightarrow> headers \<Rightarrow> bytes \<Rightarrow> nat \<Rightarrow> (outcome \<times> exchange) act" where
  "http_error env x code hs payload attempt =
     act_bind (act_lift (retry_disposition (py env) code payload)) (\<lambda>portable.
     let rate_limited = (is_responses x \<and> code = 429) in
     act_bind
       (if rate_limited then act_return False
        else case prof_policy (xprofile x) of
               None \<Rightarrow> act_return False
             | Some p \<Rightarrow> act_lift (is_retryable_failure p code payload)) (\<lambda>wire_failure.
     let disposition = (if wire_failure then ''full'' else portable) in
     act_bind (act_lift (is_exact_validation_error (py env) code payload)) (\<lambda>exact.
     act_bind (act_lift (classification (py env) code payload disposition exact wire_failure)) (\<lambda>cls.
     act_then (classify cls)
    (act_then (if rate_limited then rate_limit env x hs else act_return ())
       (http_error_recover env x code hs payload attempt portable disposition exact wire_failure cls))))))"

definition TRANSPORT_ERROR_PAYLOAD :: bytes where
  "TRANSPORT_ERROR_PAYLOAD =
     error_payload ''Upstream transport failed after bounded retries; retry the turn''
       ''upstream_unavailable'' ''upstream_transport_error'' None None"

definition transport_error :: "relay_env \<Rightarrow> exchange \<Rightarrow> exc_info \<Rightarrow> nat \<Rightarrow> outcome act" where
  "transport_error env x e attempt =
     (if used_input_variant_dialogue x
      then act_then (input_variant_exhausted env x (safe_exception_context e @ '' ''))
          (act_then (send_payload 502
             (error_payload ''Upstream input-variant recovery transport failed; retry the turn''
                ''upstream_unavailable'' ''input_variant_recovery_transport_error'' None None) None False)
             (act_return Terminal))
      else if attempt < MAX_ATTEMPTS - 1
      then act_then (log_exchange env x ''upstream_transport_retry''
             (''attempt='' @ nat_text (attempt + 1) @ '' '' @ safe_exception_context e @ '' ''))
          (act_then (sleep (fst (backoff attempt))) (act_return Retry))
      else act_then (note_failure ''upstream_transport_error'')
          (act_then (send_payload 502 TRANSPORT_ERROR_PAYLOAD None False)
          (act_then (log_exchange env x ''upstream_transport_exhausted'' (safe_exception_context e @ '' ''))
             (act_return Terminal))))"

section \<open>The loop\<close>

definition attempt_limit :: "relay_env \<Rightarrow> exchange \<Rightarrow> nat" where
  "attempt_limit env x =
     (if is_responses x
      then MAX_ATTEMPTS + RESPONSE_FAILED_MAX_STAGES env + RESPONSE_FAILED_DIALOGUE_SLOTS
             + INPUT_VARIANT_DIALOGUE_SLOTS
      else 1)"

fun open_loop ::
  "relay_env \<Rightarrow> nat list \<Rightarrow> exchange \<Rightarrow> (upstream_response option \<times> exchange) act" where
  "open_loop env [] x =
     act_then (note_failure ''upstream_transport_error'')
    (act_then (send_payload 502 TRANSPORT_ERROR_PAYLOAD None False)
       (act_return (None, x)))"
| "open_loop env (attempt # attempts) x =
     act_bind (upstream env x) (\<lambda>r.
       case r of
         Http_error code hs payload \<Rightarrow>
           act_bind (http_error env x code hs payload attempt) (\<lambda>(o', x').
             case o' of
               Retry \<Rightarrow> open_loop env attempts x'
             | Accepted \<Rightarrow> act_return (xresponse x', x')
             | Terminal \<Rightarrow> act_return (None, x'))
       | Transport_error e \<Rightarrow>
           act_bind (transport_error env x e attempt) (\<lambda>o'.
             if o' = Retry then open_loop env attempts x else act_return (None, x))
       | Opened resp \<Rightarrow> act_then (accepted_recovery env x) (act_return (Some resp, x)))"

definition open_upstream :: "relay_env \<Rightarrow> exchange \<Rightarrow> (upstream_response option \<times> exchange) act" where
  "open_upstream env x = open_loop env [0..<attempt_limit env x] x"

section \<open>An example exchange\<close>

definition sample_exchange :: exchange where
  "sample_exchange =
     \<lparr>handler_path = ''/acme/v1/responses'', xmethod = ''POST'', request_id = 1, xbody = ''b'', xurl = [],
      xheaders = [], is_responses = True, attempt_body = ''b'', xprofile = sample_profile,
      plaintext_agent_delivery = False, response_failed_stages = 0,
      used_response_failed_compaction = False, compact_metrics_of = None,
      used_response_failed_dialogue = False, dialogue_metrics = None,
      used_input_variant_dialogue = False, input_variant_metrics = None, xresponse = None\<rparr>"

end
