(* ===== verification/Sse.thy ===== *)
theory Sse
  imports Exchange
begin

text \<open>
  \<open>relay/sse.py\<close>: framing of server-sent events, the relay of one upstream stream that withholds
  retry-safe prelude events, and the bounded reconnects before the first byte reaches the client.
  The socket timeout that \<open>_set_read_timeout\<close> arms is not part of the state: what each read does and
  how long it takes is given by the response.
\<close>

definition HELD_TYPES :: "string list" where
  "HELD_TYPES = [''response.created'', ''response.in_progress'']"

definition TERMINALS :: "string list" where
  "TERMINALS = [''response.completed'', ''response.failed'', ''response.incomplete'']"

definition CLEAN_TERMINALS :: "string list" where
  "CLEAN_TERMINALS = [''response.completed'', ''response.incomplete'']"

record stream_result =
  terminal :: "string option"
  events :: nat
  wrote_downstream :: bool
  sr_detail :: string
  sr_error :: "string option"
  failure_code :: string
  upstream_request_id :: string

definition exhausted_stream_payload :: "nat \<Rightarrow> bytes" where
  "exhausted_stream_payload attempts =
     error_payload ''Upstream stream ended before content after bounded reconnects; retry the turn''
       ''upstream_unavailable'' ''stream_pre_content_exhausted'' None (Some (int attempts))"

section \<open>Framing\<close>

fun find_bytes :: "bytes \<Rightarrow> bytes \<Rightarrow> nat option" where
  "find_bytes m [] = (if m = [] then Some 0 else None)"
| "find_bytes m (c # s) =
     (if take (length m) (c # s) = m then Some 0 else map_option Suc (find_bytes m s))"

definition LF2 :: bytes where
  "LF2 = [CHR 10, CHR 10]"

definition CRLF2 :: bytes where
  "CRLF2 = [CHR 13, CHR 10, CHR 13, CHR 10]"

text \<open>The end of the first separator, whichever kind comes first.\<close>

definition event_boundary :: "bytes \<Rightarrow> nat option" where
  "event_boundary buffer =
     (case (find_bytes LF2 buffer, find_bytes CRLF2 buffer) of
        (None, None) \<Rightarrow> None
      | (Some i, None) \<Rightarrow> Some (i + 2)
      | (None, Some j) \<Rightarrow> Some (j + 4)
      | (Some i, Some j) \<Rightarrow> Some (if i \<le> j then i + 2 else j + 4))"

definition pop_event :: "bytes \<Rightarrow> (bytes \<times> bytes) option" where
  "pop_event buffer = map_option (\<lambda>n. (take n buffer, drop n buffer)) (event_boundary buffer)"

text \<open>\<open>b"%X\r\n%s\r\n" % (len(event), event)\<close>.\<close>

fun hex_upper :: "nat \<Rightarrow> string" where
  "hex_upper n =
     (let d = char_of (if n mod 16 < 10 then 48 + n mod 16 else 55 + n mod 16)
      in if n < 16 then [d] else hex_upper (n div 16) @ [d])"

declare hex_upper.simps [simp del]

definition CRLF :: bytes where
  "CRLF = [CHR 13, CHR 10]"

definition chunk_frame :: "bytes \<Rightarrow> bytes" where
  "chunk_frame e = hex_upper (length e) @ CRLF @ e @ CRLF"

definition LAST_CHUNK :: bytes where
  "LAST_CHUNK = ''0'' @ CRLF @ CRLF"

section \<open>One stream\<close>

record stream_state =
  event_count :: nat
  terminal_event :: "string option"
  upstream_detail :: string
  upstream_error :: "string option"
  st_failure_code :: string
  st_request_id :: string
  wrote :: bool
  prelude :: "bytes list"

definition new_stream :: stream_state where
  "new_stream =
     \<lparr>event_count = 0, terminal_event = None, upstream_detail = ''eof'', upstream_error = None,
      st_failure_code = ''unknown'', st_request_id = ''none'', wrote = False, prelude = []\<rparr>"

definition write_chunk :: "bytes \<Rightarrow> unit act" where
  "write_chunk e = send_down (Body (chunk_frame e))"

definition emit :: "unit act \<Rightarrow> stream_state \<Rightarrow> bytes \<Rightarrow> bool \<Rightarrow> stream_state act" where
  "emit on_first_write st data hold =
     (if hold \<and> \<not> wrote st then act_return (st\<lparr>prelude := prelude st @ [data]\<rparr>)
      else
        act_then (if \<not> wrote st then on_first_write else act_return ())
       (act_then (act_each write_chunk (prelude st @ [data]))
          (act_return (st\<lparr>wrote := True, prelude := []\<rparr>))))"

definition event_type_of :: "json \<Rightarrow> string" where
  "event_type_of payload =
     (case Option.bind (as_obj payload) (\<lambda>d. as_str (jget d ''type'')) of Some t \<Rightarrow> t | None \<Rightarrow> '''')"

definition response_body_of :: "json \<Rightarrow> jdict option" where
  "response_body_of payload = Option.bind (as_obj payload) (\<lambda>d. as_obj (jget d ''response''))"

text \<open>The state after the event is classified, and whether it is withheld.\<close>

definition note_event :: "py_env \<Rightarrow> stream_state \<Rightarrow> json \<Rightarrow> stream_state \<times> bool" where
  "note_event env st payload =
     (let event_type = event_type_of payload;
          response_body = response_body_of payload;
          err = (case response_body of Some b \<Rightarrow> jget b ''error'' | None \<Rightarrow> JNull);
          failed = (event_type = ''response.failed'');
          (code, rid) = (if failed then failure_diagnostic env err else (st_failure_code st, st_request_id st));
          retryable = (failed \<and> code = ''server_error''
                       \<and> (case response_body of Some b \<Rightarrow> \<not> truthy (jget b ''output'') | None \<Rightarrow> False))
      in (st\<lparr>event_count := event_count st + 1,
             terminal_event := (if event_type \<in> set TERMINALS then Some event_type else terminal_event st),
             st_failure_code := code, st_request_id := rid\<rparr>,
          payload = JNull \<or> event_type \<in> set HELD_TYPES \<or> retryable))"

definition process_event ::
  "relay_env \<Rightarrow> bool \<Rightarrow> unit act \<Rightarrow> stream_state \<Rightarrow> bytes \<Rightarrow> stream_state act" where
  "process_event env plain on_first_write st raw =
     (case res_bind (restore_event (py env) raw plain) (\<lambda>event.
             res_bind (sse_event_data (py env) event) (\<lambda>payload. Inr (event, payload))) of
        Inl e \<Rightarrow>
          if is_value_error e
          then act_return (st\<lparr>upstream_detail := ''projection_failed'', upstream_error := Some (exc_label e)\<rparr>)
          else act_raise e
      | Inr (event, payload) \<Rightarrow>
          (case note_event (py env) st payload of (st', hold) \<Rightarrow> emit on_first_write st' event hold))"

definition stream_done :: "stream_state \<Rightarrow> bool" where
  "stream_done st \<longleftrightarrow> terminal_event st \<noteq> None \<or> upstream_detail st = ''projection_failed''"

lemma find_bytes_length: "find_bytes m s = Some i \<Longrightarrow> i + length m \<le> length s"
proof (induction m s arbitrary: i rule: find_bytes.induct)
  case (2 m c s)
  show ?case
  proof (cases "take (length m) (c # s) = m")
    case True
    then have "length m \<le> length (c # s)" by (metis length_take min.cobounded1)
    with 2(2) True show ?thesis by simp
  next
    case False
    with 2 show ?thesis by (auto dest: 2(1) [OF False])
  qed
qed (simp split: if_splits)

lemma event_boundary_range: "event_boundary buffer = Some n \<Longrightarrow> 2 \<le> n \<and> n \<le> length buffer"
  by (auto simp: event_boundary_def LF2_def CRLF2_def split: option.splits if_splits
      dest!: find_bytes_length)

lemma pop_event_shorter: "pop_event buffer = Some (e, rest) \<Longrightarrow> length rest < length buffer"
  by (auto simp: pop_event_def dest!: event_boundary_range)

text \<open>The inner loop: events while the buffer holds a complete one and the stream is not done.\<close>

function drain_buffer ::
  "relay_env \<Rightarrow> bool \<Rightarrow> unit act \<Rightarrow> stream_state \<Rightarrow> bytes \<Rightarrow> (stream_state \<times> bytes) act" where
  "drain_buffer env plain on_first_write st buffer =
     (case pop_event buffer of
        None \<Rightarrow> act_return (st, buffer)
      | Some (event, rest) \<Rightarrow>
          act_bind (process_event env plain on_first_write st event) (\<lambda>st'.
            if stream_done st' then act_return (st', [])
            else drain_buffer env plain on_first_write st' rest))"
  by pat_completeness auto

termination
  by (relation "measure (\<lambda>(env, plain, f, st, buffer). length buffer)") (auto dest: pop_event_shorter)

declare drain_buffer.simps [simp del]

definition advance :: "rat \<Rightarrow> unit act" where
  "advance d = act_modify (\<lambda>w. w\<lparr>clock := clock w + d\<rparr>)"

definition past_deadline :: "rat \<Rightarrow> bool act" where
  "past_deadline deadline w = (Inr (deadline - clock w \<le> 0), w)"

fun read_loop ::
  "relay_env \<Rightarrow> bool \<Rightarrow> unit act \<Rightarrow> rat \<Rightarrow> (rat \<times> read_outcome) list \<Rightarrow> stream_state \<Rightarrow> bytes \<Rightarrow>
   (stream_state \<times> bytes) act" where
  "read_loop env plain ofw deadline [] st buffer =
     act_bind (past_deadline deadline) (\<lambda>late.
       act_return (if late then st\<lparr>upstream_detail := ''deadline''\<rparr> else st, buffer))"
| "read_loop env plain ofw deadline ((d, r) # reads) st buffer =
     act_bind (past_deadline deadline) (\<lambda>late.
     if late then act_return (st\<lparr>upstream_detail := ''deadline''\<rparr>, buffer) else
     act_then (advance d)
       (let go = (\<lambda>st1 chunk.
              if chunk = [] then act_return (st1, buffer)
              else act_bind (drain_buffer env plain ofw st1 (buffer @ chunk)) (\<lambda>(st2, buffer2).
                     if stream_done st2 then act_return (st2, buffer2)
                     else read_loop env plain ofw deadline reads st2 buffer2))
        in case r of
             Chunk c \<Rightarrow> go st c
           | Incomplete c \<Rightarrow> go (st\<lparr>upstream_detail := ''incomplete_read''\<rparr>) c
           | Read_timeout \<Rightarrow>
               act_bind (past_deadline deadline) (\<lambda>late2.
                 act_return (st\<lparr>upstream_detail := (if late2 then ''deadline'' else ''timeout''),
                               upstream_error := Some ''TimeoutError''\<rparr>, buffer))
           | Read_error l \<Rightarrow> act_return (st\<lparr>upstream_error := Some l\<rparr>, buffer)))"

text \<open>\<open>terminal_event.rpartition(".")[2]\<close>.\<close>

definition after_last_dot :: "string \<Rightarrow> string" where
  "after_last_dot s = snd (rpartition_at (CHR ''.'') s)"

definition finish_stream :: "stream_state \<Rightarrow> stream_result" where
  "finish_stream st =
     \<lparr>terminal = terminal_event st, events = event_count st, wrote_downstream = wrote st,
      sr_detail = (case terminal_event st of Some t \<Rightarrow> after_last_dot t | None \<Rightarrow> upstream_detail st),
      sr_error = upstream_error st, failure_code = st_failure_code st,
      upstream_request_id = st_request_id st\<rparr>"

definition read_one_stream ::
  "relay_env \<Rightarrow> upstream_response \<Rightarrow> unit act \<Rightarrow> rat \<Rightarrow> bool \<Rightarrow> stream_result act" where
  "read_one_stream env resp on_first_write deadline plain =
     act_bind (read_loop env plain on_first_write deadline (ur_reads resp) new_stream []) (\<lambda>(st, buffer).
     act_bind (if buffer \<noteq> [] then process_event env plain on_first_write st buffer else act_return st) (\<lambda>st'.
       act_return (finish_stream st')))"

section \<open>Reconnects\<close>

record relay_result =
  pre_content_exhausted :: bool
  rr_attempts :: nat
  stream :: stream_result

definition STREAM_BACKOFFS :: "rat list" where
  "STREAM_BACKOFFS = [1, 2, 4, 6, 8]"

definition stream_backoff :: "nat \<Rightarrow> rat" where
  "stream_backoff attempt = STREAM_BACKOFFS ! min attempt (length STREAM_BACKOFFS - 1)"

definition committed :: "stream_result \<Rightarrow> bool" where
  "committed r \<longleftrightarrow> wrote_downstream r \<or> (\<exists>t \<in> set CLEAN_TERMINALS. terminal r = Some t)
                  \<or> sr_detail r = ''projection_failed''"

definition log_request :: "relay_env \<Rightarrow> exchange \<Rightarrow> string \<Rightarrow> unit act" where
  "log_request env x what =
     log_line (''req='' @ nat_text (request_id x) @ '' event='' @ what @ '' path=''
       @ safe_request_path (py env) (handler_path x))"

definition note_failed :: "relay_env \<Rightarrow> exchange \<Rightarrow> stream_result \<Rightarrow> nat \<Rightarrow> unit act" where
  "note_failed env x r attempt =
     (if terminal r = Some ''response.failed''
      then act_then (classify (''sse_'' @ failure_code r))
          (log_request env x (''sse_upstream_failed code='' @ failure_code r
             @ '' upstream_request_id='' @ upstream_request_id r
             @ '' committed='' @ bool_text (wrote_downstream r)
             @ '' attempt='' @ nat_text (attempt + 1)))
      else act_return ())"

definition past_backoff :: "rat \<Rightarrow> rat \<Rightarrow> bool act" where
  "past_backoff delay deadline w = (Inr (clock w + delay \<ge> deadline), w)"

text \<open>
  The attempts: each reads the current response; the reconnect asks upstream again.  The list holds
  the attempts that remain; \<open>reopens\<close> is whether a reopen function is given.
\<close>

fun stream_loop ::
  "relay_env \<Rightarrow> exchange \<Rightarrow> bool \<Rightarrow> unit act \<Rightarrow> rat \<Rightarrow> nat \<Rightarrow> nat list \<Rightarrow> upstream_response \<Rightarrow>
   (stream_result \<times> nat) act" where
  "stream_loop env x plain ofw deadline attempt [] current =
     act_bind (read_one_stream env current ofw deadline plain) (\<lambda>r.
     act_then (note_failed env x r attempt) (act_return (r, attempt)))"
| "stream_loop env x plain ofw deadline attempt (next_attempt # rest) current =
     act_bind (read_one_stream env current ofw deadline plain) (\<lambda>r.
     act_then (note_failed env x r attempt)
       (if committed r then act_return (r, attempt)
        else
          let delay = stream_backoff attempt in
          act_bind (past_backoff delay deadline) (\<lambda>late.
          if late then act_return (r, attempt)
          else
            act_then (count ''streams_pre_content_reconnect_attempts'')
           (act_then (log_request env x (''sse_pre_content_reconnect reason=''
              @ (case terminal r of Some t \<Rightarrow> t | None \<Rightarrow> sr_detail r)
              @ '' events='' @ nat_text (events r)
              @ '' attempt='' @ nat_text (attempt + 1) @ ''/'' @ nat_text (attempt + length (next_attempt # rest))))
           (act_then (sleep delay)
           (act_bind (upstream env x) (\<lambda>o'.
              case o' of
                Opened resp \<Rightarrow> stream_loop env x plain ofw deadline next_attempt rest resp
              | Http_error c hs b \<Rightarrow>
                  act_then (log_request env x (''sse_reconnect_failed exception=HTTPError''))
                    (act_return (r, attempt))
              | Transport_error e \<Rightarrow>
                  act_then (log_request env x (''sse_reconnect_failed exception='' @ ex_label e))
                    (act_return (r, attempt)))))))))"

definition stream_accounting :: "stream_result \<Rightarrow> bool \<Rightarrow> unit act" where
  "stream_accounting r headers_sent =
     (if terminal r = Some ''response.completed''
      then act_then (count ''streams_completed'') (count ''responses_completed'')
      else if terminal r = Some ''response.incomplete''
      then act_then (count ''streams_incomplete'') (note_failure ''stream_response_incomplete'')
      else act_then (count ''streams_failed'')
        (if sr_detail r = ''projection_failed''
         then act_then (count ''stream_projection_failures'') (note_failure ''stream_projection_failed'')
         else if \<not> headers_sent
         then act_then (count ''streams_pre_content_exhausted'') (note_failure ''stream_pre_content_exhausted'')
         else note_failure (''stream_'' @ sr_detail r)))"

definition log_stream_end :: "relay_env \<Rightarrow> exchange \<Rightarrow> stream_result \<Rightarrow> unit act" where
  "log_stream_end env x r =
     (case terminal r of
        Some t \<Rightarrow> log_request env x (''sse_terminal terminal='' @ t @ '' events='' @ nat_text (events r))
      | None \<Rightarrow> log_request env x (''sse_end_without_terminal detail='' @ sr_detail r
          @ '' exception='' @ (case sr_error r of Some e \<Rightarrow> e | None \<Rightarrow> ''none'')
          @ '' events='' @ nat_text (events r)))"

text \<open>\<open>headers_sent\<close> is set exactly when some attempt wrote, and then it is the last one.\<close>

definition stream_deadline :: "relay_env \<Rightarrow> rat act" where
  "stream_deadline env w = (Inr (clock w + UPSTREAM_TIMEOUT env), w)"

definition sse_relay ::
  "relay_env \<Rightarrow> exchange \<Rightarrow> upstream_response \<Rightarrow> bool \<Rightarrow> unit act \<Rightarrow> bool \<Rightarrow> relay_result act" where
  "sse_relay env x resp reopens send_headers plain =
     act_bind (stream_deadline env) (\<lambda>deadline.
     act_bind (stream_loop env x plain send_headers deadline 0 (if reopens then [1..<6] else []) resp)
       (\<lambda>(r, attempt).
          let headers_sent = wrote_downstream r in
          act_then
            (if headers_sent
             then if terminal r \<noteq> None then send_down (Body LAST_CHUNK)
                  else act_modify (\<lambda>w. w\<lparr>close_connection := True\<rparr>)
             else act_return ())
         (act_then (stream_accounting r headers_sent)
         (act_then (log_stream_end env x r)
            (act_return \<lparr>pre_content_exhausted = \<not> headers_sent, rr_attempts = attempt + 1, stream = r\<rparr>)))))"

end
