(* ===== verification/Relay.thy ===== *)
theory Relay
  imports Sse
begin

text \<open>
  \<open>relay/relay.py\<close>: the downstream side of an exchange (an event stream, a plain body, a complete
  JSON response validated before anything is sent), and \<open>relay/responses.py\<close>: admission, cooldown,
  projection and orchestration of one request.
\<close>

section \<open>Downstream relays\<close>

definition MAX_RESPONSES_JSON_BYTES :: nat where
  "MAX_RESPONSES_JSON_BYTES = 8 * 1024 * 1024"

text \<open>Both handlers of a stream: a closed client and any other exception end in a log line.\<close>

definition log_exceptions :: "relay_env \<Rightarrow> exchange \<Rightarrow> unit act \<Rightarrow> unit act" where
  "log_exceptions env x m =
     act_catch m (\<lambda>e. Some
       (if e = BrokenPipe then log_exchange env x ''downstream_client_closed'' ''''
        else log_exchange env x ''stream_handler_exception'' (''exception='' @ exc_label e @ '' '')))"

definition STREAM_PROJECTION_PAYLOAD :: bytes where
  "STREAM_PROJECTION_PAYLOAD =
     error_payload ''Upstream stream could not be projected safely; retry the turn''
       ''upstream_unavailable'' ''stream_projection_failed'' None None"

definition relay_sse :: "relay_env \<Rightarrow> exchange \<Rightarrow> upstream_response \<Rightarrow> unit act" where
  "relay_sse env x resp =
     log_exceptions env x
       (act_bind (sse_relay env x resp (\<not> used_input_variant_dialogue x) (send_stream_headers resp)
                   (plaintext_agent_delivery x)) (\<lambda>result.
        if sr_detail (stream result) = ''projection_failed''
        then act_then (if pre_content_exhausted result
                       then send_payload 503 STREAM_PROJECTION_PAYLOAD (Some ''3'') False else act_return ())
               (log_exchange env x ''sse_projection_failed'' '''')
        else if pre_content_exhausted result
        then act_then (if used_input_variant_dialogue x then input_variant_exhausted env x '''' else act_return ())
            (act_then (send_payload 503 (exhausted_stream_payload (rr_attempts result)) (Some ''3'') False)
               (log_exchange env x ''sse_pre_content_exhausted''
                 (''attempts='' @ nat_text (rr_attempts result) @ '' '')))
        else input_variant_accepted env x))"

text \<open>\<open>_read_chunk\<close>: the bytes and whether the body ended early; a failing read raises.\<close>

fun read_chunk :: "(rat \<times> read_outcome) list \<Rightarrow> ((bytes \<times> bool) \<times> (rat \<times> read_outcome) list) act" where
  "read_chunk [] = act_return (([], False), [])"
| "read_chunk ((d, r) # reads) =
     act_then (advance d)
       (case r of
          Chunk c \<Rightarrow> act_return ((c, False), reads)
        | Incomplete c \<Rightarrow> act_return ((c, True), reads)
        | Read_timeout \<Rightarrow> act_raise (OtherError ''TimeoutError'')
        | Read_error l \<Rightarrow> act_raise (OtherError l))"

fun copy_chunks :: "(rat \<times> read_outcome) list \<Rightarrow> unit act" where
  "copy_chunks [] = act_return ()"
| "copy_chunks ((d, r) # reads) =
     act_bind (read_chunk [(d, r)]) (\<lambda>((chunk, ended), _).
       act_then (if chunk \<noteq> [] then write_chunk chunk else act_return ())
         (if chunk = [] \<or> ended then act_return () else copy_chunks reads))"

definition relay_body :: "relay_env \<Rightarrow> exchange \<Rightarrow> upstream_response \<Rightarrow> unit act" where
  "relay_body env x resp =
     act_then (send_stream_headers resp)
       (log_exceptions env x
         (act_then (copy_chunks (ur_reads resp))
         (act_then (send_down (Body LAST_CHUNK))
         (act_then (if is_responses x then count ''responses_completed'' else act_return ())
            (input_variant_accepted env x)))))"

definition relay_readonly_body :: "upstream_response \<Rightarrow> unit act" where
  "relay_readonly_body resp =
     act_then (send_stream_headers resp)
       (act_catch (act_then (copy_chunks (ur_reads resp)) (send_down (Body LAST_CHUNK)))
         (\<lambda>_. Some (act_return ())))"

definition invalid_responses_success :: "relay_env \<Rightarrow> exchange \<Rightarrow> string \<Rightarrow> unit act" where
  "invalid_responses_success env x why =
     act_then (count ''invalid_responses_success_bodies'')
    (act_then (note_failure ''invalid_responses_success_body'')
    (act_then (send_payload 503
       (error_payload ''Upstream returned an invalid successful Responses body; retry the turn''
          ''upstream_unavailable'' ''invalid_responses_success_body'' (Some why) None) (Some ''3'') False)
       (log_exchange env x ''invalid_responses_success_body'' (''reason='' @ why @ '' ''))))"

text \<open>Reading the whole body: the bytes, or the reason it is refused.\<close>

fun read_all :: "(rat \<times> read_outcome) list \<Rightarrow> bytes \<Rightarrow> (string + bytes) act" where
  "read_all [] acc = act_return (Inr acc)"
| "read_all ((d, r) # reads) acc =
     act_bind (read_chunk [(d, r)]) (\<lambda>((chunk, incomplete), _).
       if chunk \<noteq> [] \<and> length acc + length chunk > MAX_RESPONSES_JSON_BYTES
       then act_return (Inl ''response_too_large'')
       else if incomplete then act_return (Inl ''incomplete_read'')
       else if chunk = [] then act_return (Inr acc)
       else read_all reads (acc @ chunk))"

text \<open>The outcome of the \<open>try\<close> block: a validated payload, or a refusal that has been answered.\<close>

definition validated_json ::
  "relay_env \<Rightarrow> exchange \<Rightarrow> upstream_response \<Rightarrow> bytes option act" where
  "validated_json env x resp =
     act_catch
       (act_bind (read_all (ur_reads resp) []) (\<lambda>r.
          case r of
            Inl why \<Rightarrow> act_then (invalid_responses_success env x why) (act_return None)
          | Inr raw \<Rightarrow>
              act_bind (act_lift (res_bind (validate_json_response (py env) raw) (\<lambda>payload.
                  restore_response (py env) payload (plaintext_agent_delivery x))))
                (\<lambda>payload. act_return (Some payload))))
       (\<lambda>e. Some (act_then (invalid_responses_success env x
          (if is_value_error e then ''invalid_terminal_json'' else exc_label e)) (act_return None)))"

definition relay_responses_json :: "relay_env \<Rightarrow> exchange \<Rightarrow> upstream_response \<Rightarrow> unit act" where
  "relay_responses_json env x resp =
     act_bind (validated_json env x resp) (\<lambda>r.
       case r of
         None \<Rightarrow> act_return ()
       | Some payload \<Rightarrow>
           act_then (send_payload (ur_status resp) payload None False)
          (act_then (count ''responses_completed'') (input_variant_accepted env x)))"

section \<open>Admission of a request\<close>

definition admit_exchange :: "relay_env \<Rightarrow> exchange \<Rightarrow> bool act" where
  "admit_exchange env x =
     (if \<not> is_responses x then act_return True
      else act_bind admit (\<lambda>(verdict, active_now).
        if verdict = ''draining''
        then act_then (count ''responses_rejected_while_draining'')
            (act_then (note_failure ''draining'')
            (act_then (send_payload 503
               (error_payload ''Proxy is draining active Responses; retry the turn shortly''
                  ''server_busy'' ''proxy_draining'' None None) (Some ''1'') False)
            (act_then (log_exchange env x ''responses_rejected_while_draining'' '''')
               (act_return False))))
        else act_then (log_exchange env x ''responses_admitted'' (''active='' @ nat_text active_now @ '' ''))
               (act_return True)))"

definition whole_seconds :: "rat \<Rightarrow> int" where
  "whole_seconds r = max 1 (py_int (r + 999 / 1000))"

definition reject_cooling ::
  "relay_env \<Rightarrow> exchange \<Rightarrow> rat \<Rightarrow> string \<Rightarrow> string \<Rightarrow> int \<Rightarrow> bytes \<Rightarrow> unit act" where
  "reject_cooling env x left counter failure code payload =
     act_then (count counter)
    (act_then (note_failure failure)
    (act_then (send_payload code payload (Some (int_text (whole_seconds left))) False)
       (log_exchange env x failure (''remaining_seconds='' @ int_text (whole_seconds left) @ '' ''))))"

definition wire_cooling :: "relay_env \<Rightarrow> exchange \<Rightarrow> bool act" where
  "wire_cooling env x =
     (case prof_policy (xprofile x) of
        None \<Rightarrow> act_return False
      | Some p \<Rightarrow>
          act_bind (cooldown_remaining (request_fingerprint p (xbody x))) (\<lambda>left.
            if left > 0
            then act_then (count ''wire_failure_cooldown_hits'')
                (act_then (note_failure ''wire_failure_cooldown_hit'')
                (act_then (send_wire_failure_exhausted p 0)
                (act_then (log_exchange env x ''wire_failure_cooldown_hit''
                   (''remaining_seconds='' @ format_1f env left @ '' ''))
                   (act_return True))))
            else act_return False))"

definition cooldown_active :: "relay_env \<Rightarrow> exchange \<Rightarrow> bool act" where
  "cooldown_active env x =
     (if \<not> is_responses x then act_return False
      else act_bind (wire_cooling env x) (\<lambda>wire.
      if wire then act_return True
      else act_bind (cooldown_remaining (unavailable_key (prof_name (xprofile x)))) (\<lambda>left.
      if left > 0
      then act_then (reject_cooling env x left ''provider_unavailable_cooldown_hits''
             ''provider_unavailable_cooldown'' 503
             (error_payload ''provider is temporarily unavailable; retry the turn shortly''
                ''server_busy'' ''provider_unavailable_cooldown'' None None))
             (act_return True)
      else act_bind (cooldown_remaining (provider_key (prof_name (xprofile x)))) (\<lambda>left2.
      if left2 \<le> 0 then act_return False
      else act_then (reject_cooling env x left2 ''provider_rate_limit_cooldown_hits''
             ''provider_rate_limit_cooldown'' 429
             (error_payload ''provider rate limit cooldown is active; retry the turn shortly''
                ''rate_limit_error'' ''provider_rate_limit_cooldown'' None None))
             (act_return True)))))"

section \<open>One request\<close>

record client_request =
  cr_path :: string
  cr_method :: string
  cr_headers :: headers
  cr_body :: bytes

definition log_plain :: "relay_env \<Rightarrow> nat \<Rightarrow> string \<Rightarrow> client_request \<Rightarrow> unit act" where
  "log_plain env rid what q =
     log_line (''req='' @ nat_text rid @ '' event='' @ what @ '' path=''
       @ safe_request_path (py env) (cr_path q))"

definition reject_route :: "relay_env \<Rightarrow> client_request \<Rightarrow> nat \<Rightarrow> string option \<Rightarrow> unit act" where
  "reject_route env q rid rmethod =
     (let code = (case rmethod of None \<Rightarrow> ''provider_route_not_found''
                  | Some _ \<Rightarrow> ''provider_route_method_not_allowed'');
          message = (case rmethod of None \<Rightarrow> ''request path is not a configured provider route''
                     | Some _ \<Rightarrow> ''request method is not supported for the configured provider route'');
          what = (case rmethod of None \<Rightarrow> ''provider_route_rejected''
                  | Some m \<Rightarrow> ''provider_route_method_rejected method='' @ m)
      in act_then (count ''provider_route_rejected'')
        (act_then (note_failure ''provider_route_rejected'')
        (act_then (send_payload 404 (error_payload message ''invalid_request_error'' code None None) None True)
           (log_plain env rid what q))))"

text \<open>\<open>_request_headers\<close>: a dictionary, so a later header of the same name replaces an earlier one.\<close>

definition request_headers :: "headers \<Rightarrow> headers" where
  "request_headers hs =
     AList.update ''Accept-Encoding'' ''identity''
       (fold (\<lambda>(n, v). AList.update n v) (end_to_end hs) [])"

definition relay_catalog ::
  "relay_env \<Rightarrow> client_request \<Rightarrow> nat \<Rightarrow> profile \<Rightarrow> string \<Rightarrow> headers \<Rightarrow> unit act" where
  "relay_catalog env q rid p url hs =
     (\<lambda>w. case upstream_at env (length (upstream_requests w)) [] of
        (d, r) \<Rightarrow>
          (case r of
             Http_error code ehs payload \<Rightarrow>
               act_then (relay_error code ehs payload)
              (act_then (note_failure (''catalog_http_'' @ int_text code))
                 (log_plain env rid (''catalog_http_terminal provider='' @ prof_name p @ '' status=''
                    @ int_text code @ '' response_bytes='' @ nat_text (length payload)) q))
           | Transport_error e \<Rightarrow>
               act_then (note_failure ''catalog_transport_error'')
              (act_then (send_payload 502
                 (error_payload ''Upstream model catalog transport failed; retry discovery shortly''
                    ''upstream_unavailable'' ''catalog_transport_error'' None None) None False)
                 (log_plain env rid (''catalog_transport_error provider='' @ prof_name p @ '' ''
                    @ safe_exception_context e) q))
           | Opened resp \<Rightarrow> relay_readonly_body resp)
          (w\<lparr>clock := clock w + d, upstream_requests := upstream_requests w @ [[]]\<rparr>))"

definition new_exchange ::
  "client_request \<Rightarrow> nat \<Rightarrow> bytes \<Rightarrow> string \<Rightarrow> headers \<Rightarrow> profile \<Rightarrow> bool \<Rightarrow> exchange" where
  "new_exchange q rid b url hs p plain =
     \<lparr>handler_path = cr_path q, xmethod = cr_method q, request_id = rid, xbody = b, xurl = url,
      xheaders = hs, is_responses = True, attempt_body = b, xprofile = p,
      plaintext_agent_delivery = plain, response_failed_stages = 0,
      used_response_failed_compaction = False, compact_metrics_of = None,
      used_response_failed_dialogue = False, dialogue_metrics = None,
      used_input_variant_dialogue = False, input_variant_metrics = None, xresponse = None\<rparr>"

definition is_event_stream :: "upstream_response \<Rightarrow> bool" where
  "is_event_stream resp =
     contains ''text/event-stream''
       (lower (case header_value (ur_headers resp) ''Content-Type'' of Some v \<Rightarrow> v | None \<Rightarrow> []))"

text \<open>The guarded part of \<open>relay\<close>: exchange and relay, with the release in \<open>finally\<close>.\<close>

definition serve :: "relay_env \<Rightarrow> exchange \<Rightarrow> unit act" where
  "serve env x =
     act_finally
       (act_bind (open_upstream env x) (\<lambda>(r, x').
          case r of
            None \<Rightarrow> act_return ()
          | Some resp \<Rightarrow>
              if is_event_stream resp then relay_sse env x' resp else relay_responses_json env x' resp))
       (act_bind release (\<lambda>active_now.
          log_exchange env x ''responses_released'' (''active='' @ nat_text active_now @ '' '')))"

definition relay_exchange :: "relay_env \<Rightarrow> exchange \<Rightarrow> unit act" where
  "relay_exchange env x =
     act_bind (cooldown_active env x) (\<lambda>cooling.
       if cooling then act_return ()
       else act_bind (admit_exchange env x) (\<lambda>admitted.
              if admitted then serve env x else act_return ()))"

definition relay_prepared ::
  "relay_env \<Rightarrow> client_request \<Rightarrow> nat \<Rightarrow> profile \<Rightarrow> string \<Rightarrow> headers \<Rightarrow> string \<Rightarrow> prepared_request \<Rightarrow> unit act" where
  "relay_prepared env q rid p url hs note prepared =
     (let b = pr_body prepared in
      act_then (if length b \<ge> 400000
                then log_plain env rid (''large_request provider='' @ prof_name p @ '' bytes='' @ nat_text (length b)) q
                else act_return ())
     (act_then (log_plain env rid (''request_sanitized provider='' @ prof_name p @ '' method='' @ cr_method q
         @ '' '' @ note) q)
     (act_then (count ''responses_received'')
        (relay_exchange env (new_exchange q rid b url hs p (pr_active prepared))))))"

definition reject_delivery :: "string \<Rightarrow> unit act" where
  "reject_delivery why =
     act_then (send_payload 400
       (error_payload ''Responses delegation does not match the selected delivery policy''
          ''invalid_request_error'' ''agent_delivery_rejected'' (Some why) None) None False)
       (count ''agent_delivery_rejected'')"

text \<open>\<open>str(error)\<close> of a \<open>ValueError\<close>.\<close>

fun exc_text :: "py_exc \<Rightarrow> string" where
  "exc_text (ProjectionRejected r) = r"
| "exc_text (ValueError r) = r"
| "exc_text _ = []"

definition reject_projection :: "relay_env \<Rightarrow> client_request \<Rightarrow> nat \<Rightarrow> profile \<Rightarrow> string \<Rightarrow> unit act" where
  "reject_projection env q rid p why =
     act_then (count ''provider_portable_projection_rejected'')
    (act_then (note_failure ''provider_portable_projection_rejected'')
    (act_then (send_payload 400
       (error_payload ''Responses replay contains an unproved provider-portable structure''
          ''invalid_request_error'' ''provider_portable_projection_rejected'' (Some why) None) None False)
       (log_plain env rid (''provider_portable_projection_rejected provider='' @ prof_name p
          @ '' reason='' @ why) q)))"

definition relay_responses ::
  "relay_env \<Rightarrow> client_request \<Rightarrow> nat \<Rightarrow> profile \<Rightarrow> string \<Rightarrow> headers \<Rightarrow> unit act" where
  "relay_responses env q rid p url hs =
     act_bind (act_lift (sanitize_responses_body (py env) (cr_body q))) (\<lambda>projection.
     act_then (act_modify (\<lambda>w. w\<lparr>telemetry := record_sanitization (metrics projection) (telemetry w)\<rparr>))
       (case body projection of
          None \<Rightarrow>
            reject_projection env q rid p
              (case reason projection of Some r \<Rightarrow> if r = [] then ''unknown'' else r | None \<Rightarrow> ''unknown'')
        | Some b \<Rightarrow>
            (case prepare_request (py env) b (agent_message_delivery p) of
               Inl e \<Rightarrow> if is_value_error e then reject_delivery (exc_text e) else act_raise e
             | Inr prepared \<Rightarrow> relay_prepared env q rid p url hs (diagnostic projection) prepared)))"

definition relay :: "relay_env \<Rightarrow> registry \<Rightarrow> client_request \<Rightarrow> unit act" where
  "relay env providers q =
     act_bind new_request_id (\<lambda>rid.
     case resolve (py env) providers (cr_path q) of
       None \<Rightarrow> reject_route env q rid None
     | Some (p, resource, url) \<Rightarrow>
         if cr_method q = ''POST'' \<and> resource = ''responses''
         then relay_responses env q rid p url (request_headers (cr_headers q))
         else if cr_method q = ''GET'' \<and> resource = ''models''
         then relay_catalog env q rid p url (request_headers (cr_headers q))
         else reject_route env q rid (Some (cr_method q)))"

section \<open>An example request\<close>

definition sample_client :: "string \<Rightarrow> client_request" where
  "sample_client path = \<lparr>cr_path = path, cr_method = ''POST'', cr_headers = [], cr_body = ''b''\<rparr>"

end
