(* ===== verification/Exchange_Facts.thy ===== *)
theory Exchange_Facts
  imports Exchange
begin

text \<open>
  What the upstream state machine guarantees: how many requests one exchange can send, which bodies
  it can send, and that it ends either with an upstream response or with exactly one local one.
\<close>

declare One_nat_def [simp del]

section \<open>Bodies\<close>

definition fits :: "exchange \<Rightarrow> bytes \<Rightarrow> bool" where
  "fits x b \<longleftrightarrow> b = xbody x \<or> length b < length (xbody x)"

definition exch_ok :: "exchange \<Rightarrow> exchange \<Rightarrow> bool" where
  "exch_ok x0 x \<longleftrightarrow>
     xbody x = xbody x0 \<and> xprofile x = xprofile x0 \<and> is_responses x = is_responses x0 \<and>
     plaintext_agent_delivery x = plaintext_agent_delivery x0 \<and> fits x0 (attempt_body x)"

lemma exch_ok_refl: "fits x (attempt_body x) \<Longrightarrow> exch_ok x x"
  by (simp add: exch_ok_def)

lemma exch_ok_trans: "exch_ok x0 x1 \<Longrightarrow> exch_ok x1 x2 \<Longrightarrow> exch_ok x0 x2"
  by (auto simp: exch_ok_def fits_def)

lemma fits_smaller: "fits x b \<Longrightarrow> length c < length b \<Longrightarrow> fits x c"
  by (auto simp: fits_def)

text \<open>At most \<open>n\<close> further requests, all with bodies that fit.\<close>

definition asks :: "exchange \<Rightarrow> nat \<Rightarrow> bytes list \<Rightarrow> world \<Rightarrow> bool" where
  "asks x n us w \<longleftrightarrow>
     (\<exists>bs. upstream_requests w = us @ bs \<and> length bs \<le> n \<and> (\<forall>b \<in> set bs. fits x b))"

lemma asks_none: "asked us w \<Longrightarrow> asks x n us w"
  by (auto simp: asked_def asks_def)

lemma asks_mono: "asks x n us w \<Longrightarrow> n \<le> n' \<Longrightarrow> asks x n' us w"
  by (fastforce simp: asks_def)

lemma asks_ok: "exch_ok x0 x \<Longrightarrow> asks x n us w \<Longrightarrow> asks x0 n us w"
  by (auto simp: asks_def exch_ok_def fits_def)

lemma asks_one: "asks x n (us @ [b]) w \<Longrightarrow> fits x b \<Longrightarrow> asks x (n + 1) us w"
  by (auto simp: asks_def)

lemma traffic_asks: "traffic us h w \<Longrightarrow> asks x n us w \<and> heads w = h"
  by (auto simp: traffic_def asks_def)

lemma upstream_traffic:
  "valid (traffic us h) (upstream env x) (\<lambda>_. traffic (us @ [attempt_body x]) h) E"
  by (auto simp: valid_def upstream_def traffic_def heads_def split: prod.splits)

section \<open>Quiet steps\<close>

lemma quiet_log [quiet_rules]: "quiet (log_exchange env x event detail)"
  unfolding log_exchange_def by (rule quiet_rules)

lemma quiet_if [quiet_rules]: "quiet m \<Longrightarrow> quiet n \<Longrightarrow> quiet (if b then m else n)"
  by simp

lemma quiet_steps [quiet_rules]:
  "quiet (input_variant_exhausted env x d)" "quiet (rate_limit env x hs)" "quiet (unavailable env x hs)"
  unfolding input_variant_exhausted_def rate_limit_def unavailable_def Let_def
  by (intro quiet_rules)+

lemma quiet_accepted [quiet_rules]:
  "quiet (accepted_recovery env x)" "quiet (input_variant_accepted env x)"
  unfolding accepted_recovery_def input_variant_accepted_def
  by (auto split: prod.splits option.splits bool.splits intro!: quiet_rules)

section \<open>Recoveries\<close>

text \<open>A recovery step asks nothing, sends nothing, and leaves a body that fits.\<close>

definition recovers :: "exchange \<Rightarrow> (bool \<times> exchange) act \<Rightarrow> bool" where
  "recovers x m \<longleftrightarrow>
     (\<forall>us h. valid (traffic us h) m (\<lambda>r w. traffic us h w \<and> exch_ok x (snd r)) (asked us))"

lemma traffic_asked: "traffic us h w \<Longrightarrow> asked us w"
  by (simp add: traffic_def asked_def)

lemma recovers_return: "exch_ok x x' \<Longrightarrow> recovers x (act_return (b, x'))"
  by (auto simp: recovers_def intro: valid_return)

lemma recovers_then: "quiet m \<Longrightarrow> recovers x n \<Longrightarrow> recovers x (act_then m n)"
  unfolding recovers_def by (blast intro: quiet_then_traffic)

lemma recovers_lift: "(\<And>y. r = Inr y \<Longrightarrow> recovers x (f y)) \<Longrightarrow> recovers x (act_bind (act_lift r) f)"
  unfolding recovers_def by (blast intro: valid_lift_bind traffic_asked)

lemma recover_input_variant_ok:
  assumes "exch_ok x x"
  shows "recovers x (recover_input_variant env x)"
  unfolding recover_input_variant_def
  by (intro recovers_lift recovers_then quiet_rules)
    (auto simp: Let_def split: option.splits prod.splits intro!: recovers_then recovers_return quiet_rules assms
      dest!: build_recovery_smaller, simp add: exch_ok_def fits_def)

lemma try_dialogue_ok:
  assumes "exch_ok x x"
  shows "recovers x (try_dialogue env x)"
proof -
  have adopt: "recovers x (adopt_dialogue env x b m)" if "length b < length (xbody x)" for b m
    unfolding adopt_dialogue_def Let_def
    by (intro recovers_then recovers_return quiet_rules) (use that in \<open>simp add: exch_ok_def fits_def\<close>)
  show ?thesis
    unfolding try_dialogue_def
    by (auto split: option.splits intro!: recovers_lift recovers_return adopt recover_dialogue_smaller assms)
qed

lemma recover_response_failed_ok:
  assumes "exch_ok x x"
  shows "recovers x (recover_response_failed env x code disposition)"
proof -
  have adopt: "recovers x (adopt_compaction env x b m)" if "length b < length (attempt_body x)" for b m
    unfolding adopt_compaction_def Let_def
    by (intro recovers_then recovers_return quiet_rules)
      (use that assms fits_smaller in \<open>auto simp: exch_ok_def\<close>)
  show ?thesis
    unfolding recover_response_failed_def
    by (auto split: option.splits intro!: recovers_lift recovers_return adopt compact_request_smaller
        try_dialogue_ok assms)
qed

section \<open>Outcomes\<close>

text \<open>
  After a retry nothing has been asked or sent; a terminal outcome has sent one response; an accepted
  one has sent none and holds the upstream's.
\<close>

fun outcome_post :: "exchange \<Rightarrow> bytes list \<Rightarrow> nat \<Rightarrow> outcome \<times> exchange \<Rightarrow> world \<Rightarrow> bool" where
  "outcome_post x us h (Retry, x') w = (traffic us h w \<and> exch_ok x x')"
| "outcome_post x us h (Terminal, x') w = (asks x 1 us w \<and> heads w = h + 1 \<and> exch_ok x x')"
| "outcome_post x us h (Accepted, x') w = (asks x 1 us w \<and> heads w = h \<and> exch_ok x x' \<and> xresponse x' \<noteq> None)"

definition concludes :: "exchange \<Rightarrow> (outcome \<times> exchange) act \<Rightarrow> bool" where
  "concludes x m \<longleftrightarrow> (\<forall>us h. valid (traffic us h) m (outcome_post x us h) (asks x 1 us))"

lemma concludes_quiet: "quiet m \<Longrightarrow> concludes x n \<Longrightarrow> concludes x (act_then m n)"
  unfolding concludes_def by (blast intro: quiet_then_traffic asks_none)

lemma concludes_retry: "exch_ok x x' \<Longrightarrow> concludes x (act_return (Retry, x'))"
  by (auto simp: concludes_def intro: valid_return)

lemma concludes_if:
  "(b \<Longrightarrow> concludes x m) \<Longrightarrow> (\<not> b \<Longrightarrow> concludes x n) \<Longrightarrow> concludes x (if b then m else n)"
  by simp

text \<open>A local response followed by quiet steps is a terminal outcome.\<close>

lemma concludes_sent:
  assumes "\<And>us h. valid (traffic us h) m (\<lambda>_. traffic us (h + 1)) (asked us)"
    and "quiet n" and "exch_ok x x'"
  shows "concludes x (act_then m (act_then n (act_return (Terminal, x'))))"
  unfolding concludes_def
proof (intro allI)
  fix us h
  have "valid (traffic us (h + 1)) (act_then n (act_return (Terminal, x'))) (outcome_post x us h) (asks x 1 us)"
    by (intro quiet_then_traffic assms(2) valid_return) (auto simp: traffic_asks asks_none assms(3))
  then show "valid (traffic us h) (act_then m (act_then n (act_return (Terminal, x')))) (outcome_post x us h) (asks x 1 us)"
    by (intro valid_then [OF valid_conseq [OF assms(1)]]) (auto simp: asks_none)
qed

lemma act_then_return: "act_then (act_return ()) m = m"
  by (simp add: act_then_def)

lemma concludes_sent':
  assumes "\<And>us h. valid (traffic us h) m (\<lambda>_. traffic us (h + 1)) (asked us)" "exch_ok x x'"
  shows "concludes x (act_then m (act_return (Terminal, x')))"
  using concludes_sent [OF assms(1) _ assms(2), of "act_return ()"] by (simp add: act_then_return quiet_return)

lemma concludes_recovers:
  assumes "recovers x m" "\<And>r x'. exch_ok x x' \<Longrightarrow> concludes x (f (r, x'))"
  shows "concludes x (act_bind m f)"
  unfolding concludes_def
proof (intro allI)
  fix us h
  have m: "valid (traffic us h) m (\<lambda>r w. traffic us h w \<and> exch_ok x (snd r)) (asks x 1 us)"
    using assms(1) unfolding recovers_def by (blast intro: valid_conseq asks_none)
  have "valid (\<lambda>w. traffic us h w \<and> exch_ok x (snd r)) (f r) (outcome_post x us h) (asks x 1 us)" for r
    using assms(2) [of "snd r" "fst r"] by (intro valid_pure) (simp add: concludes_def)
  then show "valid (traffic us h) (act_bind m f) (outcome_post x us h) (asks x 1 us)"
    by (rule valid_bind [OF m])
qed

lemma concludes_lift:
  "(\<And>y. r = Inr y \<Longrightarrow> concludes x (f y)) \<Longrightarrow> concludes x (act_bind (act_lift r) f)"
  unfolding concludes_def by (blast intro: valid_lift_bind traffic_asked asks_none)

lemma act_then_assoc: "act_then (act_then m n) k = act_then m (act_then n k)"
  by (auto simp: act_then_def act_bind_def fun_eq_iff split: prod.splits sum.splits)

text \<open>The wire retry asks once more and either ends the exchange or holds a response.\<close>

definition wire_post :: "exchange \<Rightarrow> bytes list \<Rightarrow> nat \<Rightarrow> bool \<times> exchange \<Rightarrow> world \<Rightarrow> bool" where
  "wire_post x us h r w \<longleftrightarrow> asks x 1 us w \<and> exch_ok x (snd r) \<and>
     (if fst r then heads w = h + 1 else heads w = h \<and> xresponse (snd r) \<noteq> None)"

lemma asks_after: "fits x b \<Longrightarrow> asked (us @ [b]) w \<Longrightarrow> asks x 1 us w"
  by (auto simp: asked_def asks_def)

lemma reject_wire_failure_traffic:
  "valid (traffic us h) (reject_wire_failure env x p fp n event detail) (\<lambda>_. traffic us (h + 1)) (asked us)"
  unfolding reject_wire_failure_def
  by (intro quiet_then_traffic valid_then [OF send_wire_failure_traffic] quiet_traffic quiet_rules)

lemma wire_ended:
  assumes "fits x b" "exch_ok x x'" "valid (traffic (us @ [b]) h) m (\<lambda>_. traffic (us @ [b]) (h + 1)) (asked (us @ [b]))"
  shows "valid (traffic (us @ [b]) h) (act_then m (act_return (True, x'))) (wire_post x us h) (asks x 1 us)"
proof (rule valid_then)
  show "valid (traffic (us @ [b]) h) m (\<lambda>_. traffic (us @ [b]) (h + 1)) (asks x 1 us)"
    using assms(3) by (rule valid_conseq) (auto intro: asks_after [OF assms(1)])
  show "valid (traffic (us @ [b]) (h + 1)) (act_return (True, x')) (wire_post x us h) (asks x 1 us)"
    by (rule valid_return) (auto simp: wire_post_def traffic_def asked_def assms(2) intro: asks_after [OF assms(1)])
qed

lemma retry_wire_failure_post:
  assumes "exch_ok x x" "prof_policy (xprofile x) = Some p"
  shows "valid (traffic us h) (retry_wire_failure env x) (wire_post x us h) (asks x 1 us)"
proof -
  let ?us = "us @ [attempt_body x]"
  from assms(1) have fit: "fits x (attempt_body x)" by (simp add: exch_ok_def)
  note after = asks_after [OF fit]
  have opened: "valid (traffic ?us h)
      (act_then (count n) (act_then (log_exchange env x e d) (act_return (False, x\<lparr>xresponse := Some resp\<rparr>))))
      (wire_post x us h) (asks x 1 us)" for n e d resp
    by (intro quiet_then_traffic quiet_rules valid_return after)
      (use assms(1) in \<open>auto simp: wire_post_def traffic_def asked_def exch_ok_def intro: after\<close>)
  show ?thesis
    unfolding retry_wire_failure_def assms(2) option.case Let_def
    by (intro quiet_then_traffic quiet_rules valid_bind [OF upstream_traffic] asks_none)
      (auto split: upstream_outcome.splits
        intro: opened wire_ended [OF fit assms(1)] reject_wire_failure_traffic)
qed

lemma http_error_tail_concludes:
  assumes "exch_ok x x" "wire_failure \<Longrightarrow> prof_policy (xprofile x) \<noteq> None"
  shows "concludes x (http_error_tail env x code hs payload attempt disposition wire_failure cls)"
proof -
  have wire: "concludes x (act_bind (retry_wire_failure env x) (\<lambda>(ended, x').
      act_return (if ended then Terminal else Accepted, x')))" if wire_failure
  proof -
    from assms(2) [OF that] obtain p where p: "prof_policy (xprofile x) = Some p" by auto
    show ?thesis
      unfolding concludes_def
      by (intro allI valid_bind [OF retry_wire_failure_post [OF assms(1) p]])
        (auto simp: wire_post_def split: prod.splits intro!: valid_return)
  qed
  have final: "concludes x (act_then (relay_error code hs payload)
      (act_then (note_failure cls) (act_then (log_exchange env x e d) (act_return (Terminal, x)))))" for e d
    unfolding act_then_assoc [symmetric, of "note_failure cls"]
    by (intro concludes_sent relay_error_traffic quiet_rules assms(1))
  show ?thesis
    unfolding http_error_tail_def Let_def
    by (intro concludes_if)
      (intro concludes_quiet quiet_rules concludes_retry assms(1), rule wire, assumption,
        rule concludes_quiet, intro quiet_rules, rule final)
qed

lemma concludes_ok: "exch_ok x0 x \<Longrightarrow> concludes x m \<Longrightarrow> concludes x0 m"
proof -
  assume ok: "exch_ok x0 x" and c: "concludes x m"
  have "outcome_post x0 us h r w" if "outcome_post x us h r w" for us h r w
  proof -
    obtain o' x' where r: "r = (o', x')" by fastforce
    with that show ?thesis by (cases o') (auto intro: exch_ok_trans [OF ok] asks_ok [OF ok])
  qed
  with c show ?thesis unfolding concludes_def by (blast intro: valid_conseq asks_ok [OF ok])
qed

lemma exch_ok_self: "exch_ok x0 x \<Longrightarrow> exch_ok x x"
  by (auto simp: exch_ok_def fits_def)

lemma http_error_recover_concludes:
  assumes "exch_ok x x" "wire_failure \<Longrightarrow> prof_policy (xprofile x) \<noteq> None"
  shows "concludes x (http_error_recover env x code hs payload attempt portable disposition exact wire_failure cls)"
proof -
  have exhausted: "concludes x (act_then (input_variant_exhausted env x d)
      (act_then (relay_error code hs payload) (act_return (Terminal, x))))" for d
    by (intro concludes_quiet concludes_sent' relay_error_traffic quiet_rules assms(1))
  have failed: "concludes x (act_then (exhaust_response_failed env y) (act_return (Terminal, y)))"
    if "exch_ok x y" for y
    unfolding exhaust_response_failed_def Let_def act_then_assoc
    by (intro concludes_quiet concludes_sent send_payload_traffic quiet_rules that)
  have tail: "concludes x (http_error_tail env y code hs payload attempt disposition wire_failure cls)"
    if "exch_ok x y" for y
    by (rule concludes_ok [OF that http_error_tail_concludes])
      (use exch_ok_self [OF that] assms(2) that in \<open>auto simp: exch_ok_def\<close>)
  have second: "recovers x (recover_response_failed env y code disposition)" if y: "exch_ok x y" for y
    using recover_response_failed_ok [OF exch_ok_self [OF y]] exch_ok_trans [OF y]
    unfolding recovers_def by (blast intro: valid_conseq)
  have first: "recovers x (if exact then recover_input_variant env x else act_return (False, x))"
    using recover_input_variant_ok [OF assms(1)] recovers_return [OF assms(1)] by simp
  show ?thesis
  proof (cases "used_input_variant_dialogue x")
    case True
    then show ?thesis unfolding http_error_recover_def by (simp add: exhausted)
  next
    case False
    show ?thesis
      unfolding http_error_recover_def if_not_P [OF False]
      by (rule concludes_recovers [OF first])
        (auto intro!: concludes_recovers [OF second] concludes_retry failed tail)
  qed
qed

lemma http_error_concludes:
  assumes "exch_ok x x"
  shows "concludes x (http_error env x code hs payload attempt)"
proof -
  have rest: "concludes x (act_bind (act_lift r1) (\<lambda>exact. act_bind (act_lift (r2 exact)) (\<lambda>cls.
      act_then (classify cls) (act_then m
        (http_error_recover env x code hs payload attempt portable disposition exact wire_failure cls)))))"
    if "wire_failure \<Longrightarrow> prof_policy (xprofile x) \<noteq> None" "quiet m" for r1 r2 m portable disposition wire_failure
    by (intro concludes_lift concludes_quiet quiet_rules http_error_recover_concludes assms that)
  have policy: "concludes x (act_bind (if limited then act_return False
        else case prof_policy (xprofile x) of None \<Rightarrow> act_return False
             | Some p \<Rightarrow> act_lift (is_retryable_failure p code payload)) f)"
    if "\<And>wire_failure. (wire_failure \<Longrightarrow> prof_policy (xprofile x) \<noteq> None) \<Longrightarrow> concludes x (f wire_failure)"
    for f limited
    using that by (auto split: option.splits intro!: concludes_lift)
  show ?thesis
    unfolding http_error_def Let_def
    by (intro concludes_lift policy rest quiet_rules)
qed

section \<open>The whole exchange\<close>

lemma transport_error_post:
  "valid (traffic us h) (transport_error env x e attempt)
     (\<lambda>o' w. asked us w \<and> heads w = (if o' = Retry then h else h + 1)) (asked us)"
proof -
  have sent: "valid (traffic us h) (act_then (send_payload c b r cl) (act_then m (act_return Terminal)))
      (\<lambda>o' w. asked us w \<and> heads w = (if o' = Retry then h else h + 1)) (asked us)"
    if "quiet m" for c b r cl m
    by (rule valid_then [OF send_payload_traffic])
      (intro quiet_then_traffic that valid_return, auto simp: traffic_def asked_def)
  from sent [of "act_return ()"] have sent': "valid (traffic us h) (act_then (send_payload c b r cl) (act_return Terminal))
      (\<lambda>o' w. asked us w \<and> heads w = (if o' = Retry then h else h + 1)) (asked us)" for c b r cl
    by (simp add: act_then_return quiet_return)
  show ?thesis
    unfolding transport_error_def
    by (intro valid_if)
      (rule quiet_then_traffic, intro quiet_rules, rule sent', assumption,
        intro quiet_then_traffic quiet_rules valid_return, simp add: traffic_def asked_def, assumption, assumption,
        rule quiet_then_traffic, intro quiet_rules, rule sent, intro quiet_rules, assumption)
qed

definition exchange_post :: "exchange \<Rightarrow> nat \<Rightarrow> bytes list \<Rightarrow> nat \<Rightarrow> upstream_response option \<times> exchange \<Rightarrow> world \<Rightarrow> bool" where
  "exchange_post x n us h r w \<longleftrightarrow> asks x n us w \<and> exch_ok x (snd r) \<and>
     heads w = (if fst r = None then h + 1 else h)"

lemma exchange_post_more:
  assumes "exch_ok x y" "fits x b"
  shows "exchange_post y n (us @ [b]) h r w \<Longrightarrow> exchange_post x (n + 1) us h r w"
    and "asks y n (us @ [b]) w \<Longrightarrow> asks x (n + 1) us w"
  using asks_ok [OF assms(1)] asks_one [OF _ assms(2)] exch_ok_trans [OF assms(1)]
  by (auto simp: exchange_post_def)

lemma open_loop_post:
  "exch_ok x x \<Longrightarrow>
   valid (traffic us h) (open_loop env attempts x) (exchange_post x (length attempts + 1) us h)
     (asks x (length attempts + 1) us)"
proof (induction attempts arbitrary: x us)
  case Nil
  have "valid (traffic us h) (act_then (send_payload 502 TRANSPORT_ERROR_PAYLOAD None False) (act_return (None, x)))
      (exchange_post x (length [] + 1) us h) (asks x (length [] + 1) us)"
    by (rule valid_then [OF valid_conseq [OF send_payload_traffic]], assumption, assumption, erule asks_none)
      (use Nil in \<open>auto simp: exchange_post_def traffic_asks intro!: valid_return\<close>)
  then show ?case
    unfolding open_loop.simps by (rule quiet_then_traffic [rotated]) (auto intro: quiet_rules asks_none)
next
  case (Cons a attempts)
  let ?b = "attempt_body x" and ?n = "length attempts + 1"
  from Cons.prems have fit: "fits x ?b" by (simp add: exch_ok_def)
  let ?Q = "exchange_post x (?n + 1) us h" and ?E = "asks x (?n + 1) us"
  have again: "valid (traffic (us @ [?b]) h) (open_loop env attempts y) ?Q ?E" if y: "exch_ok x y" for y
    using Cons.IH [OF exch_ok_self [OF y]] by (rule valid_conseq) (auto intro: exchange_post_more [OF y fit])
  have one: "?E w" if "asks x 1 (us @ [?b]) w" for w
    by (rule asks_mono [OF asks_one [OF that fit]]) simp
  have http: "valid (traffic (us @ [?b]) h) (act_bind (http_error env x code hs p a) (\<lambda>(o', x').
      case o' of Retry \<Rightarrow> open_loop env attempts x' | Accepted \<Rightarrow> act_return (xresponse x', x')
      | Terminal \<Rightarrow> act_return (None, x'))) ?Q ?E" for code hs p
  proof (rule valid_bind)
    show "valid (traffic (us @ [?b]) h) (http_error env x code hs p a) (outcome_post x (us @ [?b]) h) ?E"
      using http_error_concludes [OF Cons.prems] unfolding concludes_def by (blast intro: valid_conseq one)
    show "valid (outcome_post x (us @ [?b]) h r) (case r of (o', x') \<Rightarrow> (case o' of
        Retry \<Rightarrow> open_loop env attempts x' | Accepted \<Rightarrow> act_return (xresponse x', x')
        | Terminal \<Rightarrow> act_return (None, x'))) ?Q ?E" for r
    proof -
      obtain o' x' where r: "r = (o', x')" by fastforce
      show ?thesis
      proof (cases o')
        case Retry
        have "valid (\<lambda>w. traffic (us @ [?b]) h w \<and> exch_ok x x') (open_loop env attempts x') ?Q ?E"
          by (rule valid_pure) (rule again)
        moreover have "outcome_post x (us @ [?b]) h (Retry, x') = (\<lambda>w. traffic (us @ [?b]) h w \<and> exch_ok x x')"
          by (rule ext) simp
        ultimately show ?thesis using r Retry by simp
      qed (use r one in \<open>auto intro!: valid_return simp: exchange_post_def\<close>)
    qed
  qed
  have transport: "valid (traffic (us @ [?b]) h) (act_bind (transport_error env x e a) (\<lambda>o'.
      if o' = Retry then open_loop env attempts x else act_return (None, x))) ?Q ?E" for e
  proof (rule valid_bind)
    show "valid (traffic (us @ [?b]) h) (transport_error env x e a)
        (\<lambda>o' w. asked (us @ [?b]) w \<and> heads w = (if o' = Retry then h else h + 1)) ?E"
      by (rule valid_conseq [OF transport_error_post]) (auto intro: one asks_none)
    show "valid (\<lambda>w. asked (us @ [?b]) w \<and> heads w = (if o' = Retry then h else h + 1))
        (if o' = Retry then open_loop env attempts x else act_return (None, x)) ?Q ?E" for o'
    proof (cases "o' = Retry")
      case True
      show ?thesis
        unfolding if_P [OF True]
        by (rule valid_conseq [OF again [OF Cons.prems]]) (auto simp: traffic_def asked_def True)
    next
      case False
      with Cons.prems show ?thesis by (auto simp: exchange_post_def intro!: valid_return one [OF asks_none])
    qed
  qed
  have accepted: "valid (traffic (us @ [?b]) h) (act_then (accepted_recovery env x) (act_return (Some resp, x))) ?Q ?E" for resp
    by (intro quiet_then_traffic quiet_rules valid_return)
      (use Cons.prems in \<open>auto simp: exchange_post_def traffic_def
        intro: one [OF asks_none] one [OF asks_none, unfolded asked_def]\<close>)
  have "length (a # attempts) + 1 = ?n + 1" by simp
  then show ?case
    unfolding open_loop.simps
    by (simp only:, intro valid_bind [OF upstream_traffic])
      (simp only: http transport accepted split: upstream_outcome.splits, simp)
qed

text \<open>
  Claim C4.  However the upstream answers, and even when an exception escapes, one exchange asks at
  most one time more than its attempt limit (four attempts, the compaction stages, two dialogue slots,
  and the single wire retry), and every body it sends is the projected request or a strictly smaller
  one.
\<close>

theorem open_upstream_bounded:
  assumes "attempt_body x = xbody x" "open_upstream env x w = (r, w')"
  shows "\<exists>bs. upstream_requests w' = upstream_requests w @ bs \<and> length bs \<le> attempt_limit env x + 1 \<and>
    (\<forall>b \<in> set bs. b = xbody x \<or> length b < length (xbody x))"
proof -
  have "exch_ok x x" using assms(1) by (simp add: exch_ok_def fits_def)
  from open_loop_post [OF this, of "upstream_requests w" "heads w" env "[0..<attempt_limit env x]"]
  have v: "valid (traffic (upstream_requests w) (heads w)) (open_upstream env x)
      (exchange_post x (attempt_limit env x + 1) (upstream_requests w) (heads w))
      (asks x (attempt_limit env x + 1) (upstream_requests w))"
    by (simp add: open_upstream_def)
  have "asks x (attempt_limit env x + 1) (upstream_requests w) w'"
    using validD [OF v, of w] assms(2) by (cases r) (auto simp: traffic_def exchange_post_def)
  then show ?thesis by (simp add: asks_def fits_def)
qed

theorem open_upstream_bounded_witness:
  "\<exists>bs. upstream_requests (snd (open_upstream (sample_relay_env JNull (Http_error 503 [] [])) sample_exchange sample_world)) = bs \<and>
     length bs \<le> attempt_limit (sample_relay_env JNull (Http_error 503 [] [])) sample_exchange + 1"
  using open_upstream_bounded [of sample_exchange "sample_relay_env JNull (Http_error 503 [] [])" sample_world,
      OF _ prod.collapse [symmetric]]
  by (auto simp: sample_exchange_def sample_world_def)

text \<open>
  When no exception escapes, an exchange that opens a response has sent the client nothing,
  and one that does not has sent exactly one response head: the client is never answered twice and
  never left without an answer.
\<close>

theorem open_upstream_answers_once:
  assumes "attempt_body x = xbody x" "open_upstream env x w = (Inr (resp, x'), w')"
  shows "heads w' = heads w + (if resp = None then 1 else 0)"
proof -
  have "exch_ok x x" using assms(1) by (simp add: exch_ok_def fits_def)
  from open_loop_post [OF this, of "upstream_requests w" "heads w" env "[0..<attempt_limit env x]"]
  have v: "valid (traffic (upstream_requests w) (heads w)) (open_upstream env x)
      (exchange_post x (attempt_limit env x + 1) (upstream_requests w) (heads w))
      (asks x (attempt_limit env x + 1) (upstream_requests w))"
    by (simp add: open_upstream_def)
  from validD(1) [OF v _ assms(2)] show ?thesis by (simp add: traffic_def exchange_post_def)
qed

theorem open_upstream_answers_once_witness:
  "\<exists>w. open_upstream (sample_relay_env JNull (Opened sample_response)) sample_exchange sample_world =
     (Inr (Some sample_response, sample_exchange), w) \<and> heads w = heads sample_world"
proof -
  let ?env = "sample_relay_env JNull (Opened sample_response)"
  have "attempt_limit ?env sample_exchange = 8"
    by (simp add: attempt_limit_def sample_exchange_def sample_relay_env_def MAX_ATTEMPTS_def
        RESPONSE_FAILED_DIALOGUE_SLOTS_def INPUT_VARIANT_DIALOGUE_SLOTS_def)
  then have l: "[0..<attempt_limit ?env sample_exchange] = 0 # [Suc 0..<8]"
    using upt_conv_Cons [of 0 8] by simp
  obtain w where run: "open_upstream ?env sample_exchange sample_world = (Inr (Some sample_response, sample_exchange), w)"
    unfolding open_upstream_def l
    by (simp add: upstream_def act_bind_def act_then_def act_return_def accepted_recovery_def sample_relay_env_def
        sample_exchange_def)
  from open_upstream_answers_once [OF _ run] run show ?thesis by (simp add: sample_exchange_def)
qed

end
