(* ===== verification/Relay_Facts.thy ===== *)
theory Relay_Facts
  imports Relay Exchange_Facts "HOL-Library.Sublist"
begin

text \<open>
  Guarantees of the relay as a whole: framing of events, transparency of the stream, the answers a
  client gets, and the balance of the admission gate.
\<close>

declare One_nat_def [simp del]

section \<open>Framing\<close>

lemma find_bytes_append: "find_bytes m s = Some i \<Longrightarrow> find_bytes m (s @ t) = Some i"
proof (induction m s arbitrary: i rule: find_bytes.induct)
  case (2 m c s)
  show ?case
  proof (cases "take (length m) (c # s) = m")
    case True
    then have "length m \<le> length (c # s)" by (metis length_take min.cobounded1)
    then have "take (length m) ((c # s) @ t) = take (length m) (c # s)" by (simp del: append_Cons)
    with True 2(2) show ?thesis by simp
  next
    case False
    with 2(2) obtain j where j: "find_bytes m s = Some j" "i = Suc j" by auto
    from find_bytes_length [OF j(1)] have "length m \<le> length (c # s)" by simp
    then have "take (length m) ((c # s) @ t) \<noteq> m" using False by (simp del: append_Cons)
    with False 2(1) [OF False j(1)] j(2) show ?thesis by simp
  qed
qed (cases t; simp split: if_splits)

text \<open>Where the bytes of a separator are.\<close>

lemma find_bytes_at: "find_bytes m s = Some i \<Longrightarrow> take (length m) (drop i s) = m"
  by (induction m s arbitrary: i rule: find_bytes.induct) (auto split: if_splits)

lemma find_bytes_first: "find_bytes m s = Some i \<Longrightarrow> j < i \<Longrightarrow> take (length m) (drop j s) \<noteq> m"
proof (induction m s arbitrary: i j rule: find_bytes.induct)
  case (2 m c s)
  then show ?case by (cases j) (auto split: if_splits)
qed (simp split: if_splits)

lemma find_bytes_None: "find_bytes m s = None \<Longrightarrow> j \<le> length s \<Longrightarrow> take (length m) (drop j s) \<noteq> m"
proof (induction m s arbitrary: j rule: find_bytes.induct)
  case (2 m c s)
  then show ?case by (cases j) (auto split: if_splits)
qed (auto split: if_splits)

lemma take_drop_nth:
  assumes "take (length m) (drop i s) = m" "k < length m"
  shows "s ! (i + k) = m ! k"
proof -
  have "length (take (length m) (drop i s)) = length m" by (simp only: assms(1))
  then have len: "i + length m \<le> length s" using assms(2) by simp
  have "m ! k = take (length m) (drop i s) ! k" by (simp only: assms(1))
  also have "\<dots> = s ! (i + k)" using len assms(2) by simp
  finally show ?thesis by simp
qed

lemma take_drop_prefix: "i + n \<le> length a \<Longrightarrow> take n (drop i (a @ b)) = take n (drop i a)"
  by simp

text \<open>A separator found in the bytes received so far stays the first one, whatever follows.\<close>

lemma event_boundary_append:
  assumes "event_boundary a = Some n"
  shows "event_boundary (a @ b) = Some n"
proof (cases "find_bytes LF2 a")
  case None
  with assms obtain j where j: "find_bytes CRLF2 a = Some j" "n = j + 4"
    by (auto simp: event_boundary_def split: option.splits)
  have len: "j + 4 \<le> length a" using find_bytes_length [OF j(1)] by (simp add: CRLF2_def)
  have "\<not> i \<le> j" if i: "find_bytes LF2 (a @ b) = Some i" for i
  proof
    assume "i \<le> j"
    with len have "take (length LF2) (drop i (a @ b)) = take (length LF2) (drop i a)"
      by (intro take_drop_prefix) (simp add: LF2_def)
    with find_bytes_at [OF i] find_bytes_None [OF None, of i] len \<open>i \<le> j\<close> show False by simp
  qed
  with find_bytes_append [OF j(1), of b] j(2) show ?thesis
    by (auto simp: event_boundary_def split: option.splits)
next
  case (Some i)
  note lf = find_bytes_append [OF Some, of b]
  show ?thesis
  proof (cases "find_bytes CRLF2 a")
    case (Some j)
    with find_bytes_append [OF Some, of b] lf \<open>find_bytes LF2 a = Some i\<close> assms show ?thesis
      by (simp add: event_boundary_def)
  next
    case None
    have "i \<le> j" if j: "find_bytes CRLF2 (a @ b) = Some j" for j
    proof (rule ccontr)
      assume "\<not> i \<le> j"
      have len: "i + 2 \<le> length a" using find_bytes_length [OF Some] by (simp add: LF2_def)
      note at = find_bytes_at [OF j]
      show False
      proof (cases "j + 4 \<le> length a")
        case True
        then have "take (length CRLF2) (drop j (a @ b)) = take (length CRLF2) (drop j a)"
          by (intro take_drop_prefix) (simp add: CRLF2_def)
        with at find_bytes_None [OF None, of j] True show False by simp
      next
        case False
        with len \<open>\<not> i \<le> j\<close> have "i + 1 = j + 2" by simp
        moreover have "(a @ b) ! (j + 2) = CHR 13"
          using take_drop_nth [OF at, of 2] by (simp add: CRLF2_def)
        moreover have "(a @ b) ! (i + 1) = CHR 10"
          using take_drop_nth [OF find_bytes_at [OF lf], of 1] by (simp add: LF2_def One_nat_def)
        ultimately show False by (simp add: One_nat_def)
      qed
    qed
    with lf None Some assms show ?thesis
      by (auto simp: event_boundary_def split: option.splits)
  qed
qed

text \<open>The complete events of a buffer, and what is left.\<close>

function split_events :: "bytes \<Rightarrow> bytes list \<times> bytes" where
  "split_events buffer =
     (case pop_event buffer of
        None \<Rightarrow> ([], buffer)
      | Some (e, rest) \<Rightarrow> (case split_events rest of (es, r) \<Rightarrow> (e # es, r)))"
  by pat_completeness auto

termination
  by (relation "measure length") (auto dest: pop_event_shorter)

declare split_events.simps [simp del]

lemma pop_event_append: "pop_event a = Some (e, r) \<Longrightarrow> pop_event (a @ b) = Some (e, r @ b)"
  using event_boundary_append [of a _ b] event_boundary_range [of a] by (auto simp: pop_event_def)

lemma pop_event_join: "pop_event a = Some (e, r) \<Longrightarrow> a = e @ r"
  by (auto simp: pop_event_def)

text \<open>
  Claim C33.  Event framing does not depend on how the network cuts the stream: splitting the events
  of two chunks in turn, carrying the remainder over, gives the events of their concatenation; and no
  byte is lost.
\<close>

theorem split_events_chunks:
  "split_events (a @ b) =
     (case split_events a of (es, r) \<Rightarrow> (case split_events (r @ b) of (es', r') \<Rightarrow> (es @ es', r'))) \<and>
   concat (fst (split_events a)) @ snd (split_events a) = a"
proof (induction a rule: split_events.induct)
  case (1 a)
  show ?case
  proof (cases "pop_event a")
    case None
    then show ?thesis by (simp add: split_events.simps [of a] split: prod.splits)
  next
    case (Some p)
    obtain e rest where p: "p = (e, rest)" by fastforce
    note pop = Some [unfolded p]
    obtain es r where s: "split_events rest = (es, r)" by fastforce
    have a: "split_events a = (e # es, r)" by (simp add: split_events.simps [of a] pop s)
    have "split_events (a @ b) = (case split_events (rest @ b) of (xs, y) \<Rightarrow> (e # xs, y))"
      by (simp add: split_events.simps [of "a @ b"] pop_event_append [OF pop])
    with 1 [OF Some p [symmetric]] s a pop_event_join [OF pop] show ?thesis
      by (auto split: prod.splits)
  qed
qed

section \<open>The stream reaches the client unchanged\<close>

definition frames :: "bytes list \<Rightarrow> sent list" where
  "frames es = map (\<lambda>e. Body (chunk_frame e)) es"

fun read_bytes :: "read_outcome \<Rightarrow> bytes" where
  "read_bytes (Chunk c) = c"
| "read_bytes (Incomplete c) = c"
| "read_bytes _ = []"

definition all_bytes :: "(rat \<times> read_outcome) list \<Rightarrow> bytes" where
  "all_bytes reads = concat (map (\<lambda>p. read_bytes (snd p)) reads)"

text \<open>
  An event ends with the first blank line of its bytes; what is left when the stream ends has none.
  What went down is the head and whole events, and at most one last chunk with such a rest, whose
  bytes together are a prefix of the stream.
\<close>

definition whole_event :: "bytes \<Rightarrow> bool" where
  "whole_event e \<longleftrightarrow>
     (suffix LF2 e \<or> suffix CRLF2 e) \<and> \<not> sublist LF2 (butlast e) \<and> \<not> sublist CRLF2 (butlast e)"

definition open_event :: "bytes \<Rightarrow> bool" where
  "open_event e \<longleftrightarrow> \<not> sublist LF2 e \<and> \<not> sublist CRLF2 e"

definition event_chunks :: "bytes list \<Rightarrow> bool" where
  "event_chunks es \<longleftrightarrow>
     (\<exists>events last. es = events @ last \<and> list_all whole_event events \<and> list_all open_event last \<and> length last \<le> 1)"

lemma sublist_take_at:
  assumes "sublist m (take k s)"
  shows "\<exists>i. i + length m \<le> min k (length s) \<and> take (length m) (drop i s) = m"
proof -
  from assms obtain a b where t: "take k s = a @ m @ b" by (auto simp: sublist_def)
  then have s: "s = a @ m @ b @ drop k s" by (metis append.assoc append_take_drop_id)
  have "min (length s) k = length a + length m + length b"
    by (metis t length_take length_append add.assoc)
  then have "length a + length m \<le> min k (length s)" by linarith
  moreover have "take (length m) (drop (length a) s) = m" by (subst s) simp
  ultimately show ?thesis by blast
qed

lemma pop_event_whole:
  assumes "pop_event a = Some (e, r)"
  shows "whole_event e"
proof -
  from assms obtain n where n: "event_boundary a = Some n" and e: "e = take n a"
    by (auto simp: pop_event_def)
  from event_boundary_range [OF n] have len: "2 \<le> n" "n \<le> length a" by simp_all
  have butlast: "butlast e = take (n - 1) a" using len by (simp add: e butlast_take)
  have lf: False if "sublist LF2 (butlast e)" "\<And>i. i + 2 \<le> n - 1 \<Longrightarrow> take (length LF2) (drop i a) \<noteq> LF2"
    using sublist_take_at [of LF2 "n - 1" a] that by (auto simp: butlast LF2_def)
  have crlf: False if "sublist CRLF2 (butlast e)" "\<And>i. i + 4 \<le> n - 1 \<Longrightarrow> take (length CRLF2) (drop i a) \<noteq> CRLF2"
    using sublist_take_at [of CRLF2 "n - 1" a] that by (auto simp: butlast CRLF2_def)
  have ends: "suffix m e" if "take (length m) (drop i a) = m" "n = i + length m" for m i
  proof -
    have "e = take i a @ m" using that(1) by (simp add: e that(2) take_add)
    then show ?thesis by (simp add: suffix_def)
  qed
  consider (line) i where "find_bytes LF2 a = Some i" "n = i + 2"
      "\<And>j. find_bytes CRLF2 a = Some j \<Longrightarrow> i \<le> j"
    | (crlf) j where "find_bytes CRLF2 a = Some j" "n = j + 4" "\<And>i. find_bytes LF2 a = Some i \<Longrightarrow> j < i"
    using n by (auto simp: event_boundary_def split: option.splits if_splits)
  then show ?thesis
  proof cases
    case line
    have "take (length CRLF2) (drop k a) \<noteq> CRLF2" if "k + 4 \<le> n - 1" for k
    proof (cases "find_bytes CRLF2 a")
      case None
      with find_bytes_None [OF None, of k] that len show ?thesis by simp
    next
      case (Some j)
      with line(2) line(3) [OF Some] that show ?thesis by (intro find_bytes_first [OF Some]) simp
    qed
    moreover have "take (length LF2) (drop k a) \<noteq> LF2" if "k + 2 \<le> n - 1" for k
      using line(1,2) that by (intro find_bytes_first) auto
    moreover have "suffix LF2 e"
      using ends [OF find_bytes_at [OF line(1)]] line(2) by (simp add: LF2_def)
    ultimately show ?thesis unfolding whole_event_def using lf crlf by blast
  next
    case crlf': crlf
    have cr: "a ! (j + 2) = CHR 13"
      using take_drop_nth [OF find_bytes_at [OF crlf'(1)], of 2] by (simp add: CRLF2_def)
    have "take (length LF2) (drop k a) \<noteq> LF2" if "k + 2 \<le> n - 1" for k
    proof
      assume at: "take (length LF2) (drop k a) = LF2"
      have "k \<le> length a" using that len by linarith
      with find_bytes_None [of LF2 a k] at obtain i where i: "find_bytes LF2 a = Some i" by blast
      with find_bytes_first [OF i, of k] at have "i \<le> k" by (metis not_le)
      with crlf'(2) crlf'(3) [OF i] that have "k + 1 = j + 2" by simp
      with take_drop_nth [OF at, of 1] cr show False by (simp add: LF2_def One_nat_def)
    qed
    moreover have "take (length CRLF2) (drop k a) \<noteq> CRLF2" if "k + 4 \<le> n - 1" for k
      using crlf'(1,2) that by (intro find_bytes_first) auto
    moreover have "suffix CRLF2 e"
      using ends [OF find_bytes_at [OF crlf'(1)]] crlf'(2) by (simp add: CRLF2_def)
    ultimately show ?thesis unfolding whole_event_def using lf crlf by blast
  qed
qed

lemma pop_event_open: "pop_event a = None \<Longrightarrow> open_event a"
  using sublist_take_at [of LF2 "length a" a] sublist_take_at [of CRLF2 "length a" a]
    find_bytes_None [of LF2 a] find_bytes_None [of CRLF2 a]
  by (auto simp: pop_event_def event_boundary_def open_event_def split: option.splits; metis add_leD1)

lemma open_event_Nil [simp]: "open_event []"
  by (simp add: open_event_def LF2_def CRLF2_def)

lemma event_chunks_whole: "list_all whole_event es \<Longrightarrow> event_chunks es"
  unfolding event_chunks_def by (intro exI [of _ es] exI [of _ "[]"]) simp

lemma event_chunks_last: "list_all whole_event es \<Longrightarrow> whole_event e \<or> open_event e \<Longrightarrow> event_chunks (es @ [e])"
  using event_chunks_whole [of "es @ [e]"] unfolding event_chunks_def
  by (elim disjE) (simp, intro exI [of _ es] exI [of _ "[e]"], simp)

lemma event_chunks_prefix:
  assumes "event_chunks (xs @ ys)"
  shows "event_chunks xs"
proof -
  from assms obtain events last where e: "xs @ ys = events @ last" "list_all whole_event events"
      "list_all open_event last" "length last \<le> 1" by (auto simp: event_chunks_def)
  from e(1) consider us where "xs = events @ us" "last = us @ ys" | us where "events = xs @ us"
    by (auto simp: append_eq_append_conv2)
  then show ?thesis
  proof cases
    case 1 with e show ?thesis unfolding event_chunks_def by (intro exI [of _ events] exI [of _ us]) simp
  next
    case 2 with e(2) show ?thesis by (simp add: event_chunks_whole)
  qed
qed

definition relayed :: "sent list \<Rightarrow> sent \<Rightarrow> bytes \<Rightarrow> world \<Rightarrow> bool" where
  "relayed base head T w \<longleftrightarrow>
     sent_down w = base \<or>
     (\<exists>es rest. sent_down w = base @ head # frames es \<and> T = concat es @ rest \<and> event_chunks es)"

definition stream_inv :: "sent list \<Rightarrow> sent \<Rightarrow> bytes \<Rightarrow> stream_state \<Rightarrow> world \<Rightarrow> bool" where
  "stream_inv base head T st w \<longleftrightarrow>
     (if wrote st
      then prelude st = [] \<and> (\<exists>es. sent_down w = base @ head # frames es \<and> T = concat es \<and> list_all whole_event es)
      else sent_down w = base \<and> T = concat (prelude st) \<and> list_all whole_event (prelude st))"

lemma stream_inv_relayed: "stream_inv base head T st w \<Longrightarrow> relayed base head (T @ rest) w"
  by (auto simp: stream_inv_def relayed_def split: if_splits dest: event_chunks_whole)

lemma relayed_more: "relayed base head T w \<Longrightarrow> relayed base head (T @ rest) w"
  by (auto simp: relayed_def)

lemma send_down_sent:
  "valid (\<lambda>w. sent_down w = S) (send_down s) (\<lambda>_ w. sent_down w = S @ [s]) (\<lambda>w. sent_down w = S)"
  by (auto simp: valid_def send_down_def split: option.splits nat.splits)

lemma write_chunks_sent:
  "valid (\<lambda>w. sent_down w = S) (act_each write_chunk xs) (\<lambda>_ w. sent_down w = S @ frames xs)
     (\<lambda>w. \<exists>k. sent_down w = S @ frames (take k xs))"
proof (induction xs arbitrary: S)
  case Nil
  show ?case by (auto simp: frames_def intro: valid_return)
next
  case (Cons x xs)
  show ?case
    unfolding act_each.simps
  proof (rule valid_then)
    show "valid (\<lambda>w. sent_down w = S) (write_chunk x) (\<lambda>_ w. sent_down w = S @ frames [x])
        (\<lambda>w. \<exists>k. sent_down w = S @ frames (take k (x # xs)))"
      unfolding write_chunk_def
      by (rule valid_conseq [OF send_down_sent]) (auto simp: frames_def intro: exI [of _ 0])
    show "valid (\<lambda>w. sent_down w = S @ frames [x]) (act_each write_chunk xs)
        (\<lambda>_ w. sent_down w = S @ frames (x # xs)) (\<lambda>w. \<exists>k. sent_down w = S @ frames (take k (x # xs)))"
      by (rule valid_conseq [OF Cons.IH [of "S @ frames [x]"]])
        (auto simp: frames_def, metis append_Cons append_Nil list.simps(9) take_Suc_Cons)
  qed
qed

lemma concat_take: "\<exists>rest. concat xs = concat (take k xs) @ rest"
  by (metis append_take_drop_id concat_append)

lemma emit_inv:
  assumes data: "whole_event data \<or> open_event data"
  shows "valid (stream_inv base head T st) (emit (send_down head) st data hold)
     (\<lambda>st' w. relayed base head (T @ data) w \<and>
        (whole_event data \<longrightarrow> stream_inv base head (T @ data) st' w) \<and> upstream_detail st' = upstream_detail st)
     (relayed base head (T @ data))"
proof (cases "hold \<and> \<not> wrote st")
  case True
  then show ?thesis by (auto simp: emit_def stream_inv_def relayed_def intro: valid_return)
next
  case False
  let ?all = "prelude st @ [data]"
  define going where "going w es \<longleftrightarrow> sent_down w = base @ head # frames es \<and> T = concat es @ concat (prelude st) \<and>
    list_all whole_event (es @ prelude st)" for w :: world and es
  have first: "valid (stream_inv base head T st) (if \<not> wrote st then send_down head else act_return ())
      (\<lambda>_ w. \<exists>es. going w es) (relayed base head (T @ data))"
  proof (cases "wrote st")
    case True
    then show ?thesis by (auto simp: stream_inv_def going_def intro!: valid_return)
  next
    case False
    have "valid (\<lambda>w. sent_down w = base \<and> (T = concat (prelude st) \<and> list_all whole_event (prelude st))) (send_down head)
        (\<lambda>_ w. \<exists>es. going w es) (relayed base head (T @ data))"
      by (rule valid_pure, rule valid_conseq [OF send_down_sent])
        (auto simp: relayed_def frames_def going_def intro!: exI [of _ "[]"])
    moreover have "stream_inv base head T st =
        (\<lambda>w. sent_down w = base \<and> (T = concat (prelude st) \<and> list_all whole_event (prelude st)))"
      using False by (auto simp: stream_inv_def fun_eq_iff)
    ultimately show ?thesis using False by simp
  qed
  have chunks: "valid (\<lambda>w. \<exists>es. going w es) (act_each write_chunk ?all)
      (\<lambda>_ w. \<exists>es. sent_down w = base @ head # frames (es @ [data]) \<and> T = concat es \<and> list_all whole_event es)
      (relayed base head (T @ data))"
    unfolding valid_def
  proof (intro allI impI)
    fix w :: world assume "\<exists>es. going w es"
    then obtain es where es: "sent_down w = base @ head # frames es" "T = concat es @ concat (prelude st)"
      "list_all whole_event (es @ prelude st)" by (auto simp: going_def)
    have fr: "frames (xs @ ys) = frames xs @ frames ys" for xs ys by (simp add: frames_def)
    have ev: "event_chunks (es @ ?all)" using event_chunks_last [OF es(3) data] by simp
    show "case act_each write_chunk ?all w of
        (Inr x, w') \<Rightarrow> \<exists>es. sent_down w' = base @ head # frames (es @ [data]) \<and> T = concat es \<and> list_all whole_event es
      | (Inl e, w') \<Rightarrow> relayed base head (T @ data) w'"
    proof (cases "act_each write_chunk ?all w")
      case (Pair r w')
      show ?thesis
      proof (cases r)
        case (Inl e)
        from validD(2) [OF write_chunks_sent refl Pair [unfolded Inl]] obtain k where
          k: "sent_down w' = sent_down w @ frames (take k ?all)" by blast
        have "event_chunks (es @ take k ?all)"
          using ev event_chunks_prefix [of "es @ take k ?all" "drop k ?all"] by (simp only: append.assoc append_take_drop_id)
        moreover obtain rest where "concat ?all = concat (take k ?all) @ rest" using concat_take by blast
        then have "T @ data = concat (es @ take k ?all) @ rest" using es(2) by simp
        moreover from k es(1) have "sent_down w' = base @ head # frames (es @ take k ?all)" by (simp add: fr)
        ultimately show ?thesis unfolding relayed_def Pair Inl prod.case sum.case by blast
      next
        case (Inr u)
        from validD(1) [OF write_chunks_sent refl Pair [unfolded Inr]]
        have "sent_down w' = base @ head # frames ((es @ prelude st) @ [data])" using es(1) by (simp add: fr)
        moreover have "T = concat (es @ prelude st)" using es(2) by simp
        ultimately show ?thesis using es(3) unfolding Pair Inr prod.case sum.case by blast
      qed
    qed
  qed
  have sent: "relayed base head (T @ data) w \<and> (whole_event data \<longrightarrow> stream_inv base head (T @ data) st' w)"
    if "sent_down w = base @ head # frames (es @ [data])" "T = concat es" "list_all whole_event es"
      "wrote st'" "prelude st' = []" for w es st'
  proof
    have "T @ data = concat (es @ [data]) @ []" using that(2) by simp
    with that(1) event_chunks_last [OF that(3) data] show "relayed base head (T @ data) w"
      unfolding relayed_def by blast
    show "whole_event data \<longrightarrow> stream_inv base head (T @ data) st' w"
      using that unfolding stream_inv_def by (auto intro!: exI [of _ "es @ [data]"])
  qed
  show ?thesis
    unfolding emit_def if_not_P [OF False]
    by (rule valid_then [OF first], rule valid_then [OF chunks], rule valid_return)
      (elim exE conjE, drule (2) sent [where st' = "st\<lparr>wrote := True, prelude := []\<rparr>"], simp_all)
qed

lemma restore_event_native [simp]: "restore_event env raw False = Inr raw"
  by (simp add: restore_event_def)

lemma note_event_keeps:
  "note_event env st payload = (st', hold) \<Longrightarrow>
     wrote st' = wrote st \<and> prelude st' = prelude st \<and> upstream_detail st' = upstream_detail st"
  by (auto simp: note_event_def Let_def split: prod.splits)

lemma process_event_inv:
  assumes "whole_event raw \<or> open_event raw"
  shows "valid (stream_inv base head T st) (process_event env False (send_down head) st raw)
     (\<lambda>st' w. relayed base head (T @ raw) w \<and>
        (whole_event raw \<longrightarrow> stream_inv base head (T @ raw) st' w \<or>
           stream_inv base head T st' w \<and> upstream_detail st' = ''projection_failed''))
     (relayed base head (T @ raw))"
proof (cases "sse_event_data (py env) raw")
  case (Inl e)
  then have "is_value_error e" using sse_event_data_error by fastforce
  with Inl show ?thesis
    by (auto simp: process_event_def intro!: valid_return stream_inv_relayed) (auto simp: stream_inv_def)
next
  case (Inr payload)
  obtain st' hold where n: "note_event (py env) st payload = (st', hold)" by fastforce
  from note_event_keeps [OF n] have same: "stream_inv base head T st = stream_inv base head T st'"
    by (simp add: stream_inv_def fun_eq_iff)
  have "process_event env False (send_down head) st raw = emit (send_down head) st' raw hold"
    using Inr n by (simp add: process_event_def)
  then show ?thesis
    unfolding same by (auto intro: valid_conseq [OF emit_inv [OF assms]])
qed

lemma relayed_prefix: "relayed base head T w \<Longrightarrow> T' = T @ rest \<Longrightarrow> relayed base head T' w"
  by (simp add: relayed_more)

lemma drain_buffer_inv:
  "valid (stream_inv base head T st) (drain_buffer env False (send_down head) st buffer)
     (\<lambda>(st', buffer') w. \<exists>T' rest. stream_inv base head T' st' w \<and> T @ buffer = T' @ buffer' @ rest \<and>
        (stream_done st' \<or> rest = []) \<and> open_event buffer')
     (relayed base head (T @ buffer))"
proof (induction env "False" "send_down head" st buffer arbitrary: T rule: drain_buffer.induct)
  case (1 env st buffer)
  show ?case
  proof (cases "pop_event buffer")
    case None
    then show ?thesis
      by (auto simp: drain_buffer.simps [of _ _ _ _ buffer] pop_event_open intro!: valid_return)
  next
    case (Some p)
    obtain e rest where p: "p = (e, rest)" by fastforce
    note pop = Some [unfolded p]
    from pop_event_join [OF pop] have b: "buffer = e @ rest" .
    let ?Q = "\<lambda>(st', buffer') w. \<exists>T' rest. stream_inv base head T' st' w \<and> T @ buffer = T' @ buffer' @ rest \<and>
        (stream_done st' \<or> rest = []) \<and> open_event buffer'"
    have "valid (stream_inv base head T st) (act_bind (process_event env False (send_down head) st e) (\<lambda>st'.
        if stream_done st' then act_return (st', []) else drain_buffer env False (send_down head) st' rest))
        ?Q (relayed base head (T @ buffer))"
    proof (rule valid_bind)
      show "valid (stream_inv base head T st) (process_event env False (send_down head) st e)
         (\<lambda>st' w. stream_inv base head (T @ e) st' w \<or>
            stream_inv base head T st' w \<and> upstream_detail st' = ''projection_failed'')
         (relayed base head (T @ buffer))"
        using pop_event_whole [OF pop]
        by (intro valid_conseq [OF process_event_inv]) (auto simp: b intro: relayed_prefix)
      show "valid (\<lambda>w. stream_inv base head (T @ e) st' w \<or>
            stream_inv base head T st' w \<and> upstream_detail st' = ''projection_failed'')
         (if stream_done st' then act_return (st', []) else drain_buffer env False (send_down head) st' rest)
         ?Q (relayed base head (T @ buffer))" for st'
      proof (cases "stream_done st'")
        case True
        then show ?thesis by (auto simp: b intro!: valid_return)
      next
        case False
        then have "upstream_detail st' \<noteq> ''projection_failed''" by (simp add: stream_done_def)
        with 1 [OF Some p [symmetric] False, of "T @ e"] False show ?thesis
          by (simp add: b)
      qed
    qed
    then show ?thesis by (simp add: drain_buffer.simps [of _ _ _ _ buffer] pop)
  qed
qed

lemma stream_inv_upd [simp]:
  "stream_inv base head T (st\<lparr>upstream_detail := d\<rparr>) = stream_inv base head T st"
  "stream_inv base head T (st\<lparr>upstream_error := e\<rparr>) = stream_inv base head T st"
  by (simp_all add: stream_inv_def fun_eq_iff)

lemma advance_inv: "valid (stream_inv base head T st) (advance d) (\<lambda>_. stream_inv base head T st) E"
  unfolding advance_def by (rule valid_modify) (simp add: stream_inv_def)

lemma past_deadline_any: "valid P (past_deadline d) (\<lambda>_. P) E"
  by (simp add: valid_def past_deadline_def)

definition loop_post :: "sent list \<Rightarrow> sent \<Rightarrow> bytes \<Rightarrow> stream_state \<times> bytes \<Rightarrow> world \<Rightarrow> bool" where
  "loop_post base head T r w \<longleftrightarrow>
     (\<exists>T' rest. stream_inv base head T' (fst r) w \<and> T = T' @ snd r @ rest \<and> open_event (snd r))"

lemma loop_post_stop:
  "valid (stream_inv base head T st) (act_return (st', buffer)) (loop_post base head (T @ buffer @ rest)) E"
  if "stream_inv base head T st' = stream_inv base head T st" "open_event buffer"
  unfolding loop_post_def
  by (rule valid_return, rule exI [of _ T], rule exI [of _ rest]) (simp add: that)

lemma read_loop_inv:
  assumes "open_event buffer"
  shows "valid (stream_inv base head T st) (read_loop env False (send_down head) dl reads st buffer)
     (loop_post base head (T @ buffer @ all_bytes reads)) (relayed base head (T @ buffer @ all_bytes reads))"
  using assms
proof (induction reads arbitrary: T st buffer)
  case Nil
  show ?case
    unfolding read_loop.simps
    by (rule valid_bind [OF past_deadline_any]) (rule loop_post_stop, simp, rule Nil)
next
  case (Cons p reads)
  obtain d r where p: "p = (d, r)" by fastforce
  let ?all = "T @ buffer @ all_bytes (p # reads)"
  let ?Q = "loop_post base head ?all" and ?E = "relayed base head ?all"
  have all: "?all = T @ buffer @ read_bytes r @ all_bytes reads" by (simp add: all_bytes_def p)
  have go: "valid (stream_inv base head T st') (if chunk = [] then act_return (st', buffer)
      else act_bind (drain_buffer env False (send_down head) st' (buffer @ chunk)) (\<lambda>(st2, buffer2).
        if stream_done st2 then act_return (st2, buffer2)
        else read_loop env False (send_down head) dl reads st2 buffer2)) ?Q ?E"
    if c: "chunk = read_bytes r" for chunk st'
  proof (rule valid_if)
    show "valid (stream_inv base head T st') (act_return (st', buffer)) ?Q ?E"
      by (rule loop_post_stop) (simp, rule Cons.prems)
    show "valid (stream_inv base head T st') (act_bind (drain_buffer env False (send_down head) st' (buffer @ chunk))
        (\<lambda>(st2, buffer2). if stream_done st2 then act_return (st2, buffer2)
          else read_loop env False (send_down head) dl reads st2 buffer2)) ?Q ?E"
    proof (rule valid_bind)
      show "valid (stream_inv base head T st') (drain_buffer env False (send_down head) st' (buffer @ chunk))
         (\<lambda>(st2, buffer2) w. \<exists>T' rest. stream_inv base head T' st2 w \<and> T @ buffer @ chunk = T' @ buffer2 @ rest \<and>
            (stream_done st2 \<or> rest = []) \<and> open_event buffer2) ?E"
        by (rule valid_conseq [OF drain_buffer_inv]) (auto simp: all c intro: relayed_prefix)
      show "valid (case x of (st2, buffer2) \<Rightarrow> (\<lambda>w. \<exists>T' rest. stream_inv base head T' st2 w \<and>
            T @ buffer @ chunk = T' @ buffer2 @ rest \<and> (stream_done st2 \<or> rest = []) \<and> open_event buffer2))
         (case x of (st2, buffer2) \<Rightarrow> if stream_done st2 then act_return (st2, buffer2)
            else read_loop env False (send_down head) dl reads st2 buffer2) ?Q ?E" for x
      proof -
        obtain st2 buffer2 where x: "x = (st2, buffer2)" by fastforce
        have "valid (\<lambda>w. stream_inv base head T' st2 w \<and> (T @ buffer @ chunk = T' @ buffer2 @ rest \<and> (stream_done st2 \<or> rest = []) \<and> open_event buffer2))
           (if stream_done st2 then act_return (st2, buffer2)
            else read_loop env False (send_down head) dl reads st2 buffer2) ?Q ?E" for T' rest
        proof (rule valid_pure, rule valid_if)
          assume eq: "T @ buffer @ chunk = T' @ buffer2 @ rest \<and> (stream_done st2 \<or> rest = []) \<and> open_event buffer2"
          then have total: "?all = T' @ buffer2 @ rest @ all_bytes reads" by (metis all append_assoc c)
          then show "valid (stream_inv base head T' st2) (act_return (st2, buffer2)) ?Q ?E"
            using eq by (simp only: total) (rule loop_post_stop; simp)
          assume "\<not> stream_done st2"
          with eq have "rest = []" by simp
          with total have total': "?all = T' @ buffer2 @ all_bytes reads" by simp
          show "valid (stream_inv base head T' st2) (read_loop env False (send_down head) dl reads st2 buffer2) ?Q ?E"
            unfolding total' using eq by (intro Cons.IH) simp
        qed
        then show ?thesis unfolding x prod.case by (intro valid_ex)
      qed
    qed
  qed
  have stop: "valid (stream_inv base head T st) (act_return (st', buffer)) ?Q ?E"
    if "stream_inv base head T st' = stream_inv base head T st" for st'
    by (rule loop_post_stop [OF that Cons.prems])
  have body: "valid (stream_inv base head T st)
      (let go = (\<lambda>st1 chunk.
              if chunk = [] then act_return (st1, buffer)
              else act_bind (drain_buffer env False (send_down head) st1 (buffer @ chunk)) (\<lambda>(st2, buffer2).
                     if stream_done st2 then act_return (st2, buffer2)
                     else read_loop env False (send_down head) dl reads st2 buffer2))
        in case r of
             Chunk c \<Rightarrow> go st c
           | Incomplete c \<Rightarrow> go (st\<lparr>upstream_detail := ''incomplete_read''\<rparr>) c
           | Read_timeout \<Rightarrow>
               act_bind (past_deadline dl) (\<lambda>late2.
                 act_return (st\<lparr>upstream_detail := (if late2 then ''deadline'' else ''timeout''),
                               upstream_error := Some ''TimeoutError''\<rparr>, buffer))
           | Read_error l \<Rightarrow> act_return (st\<lparr>upstream_error := Some l\<rparr>, buffer)) ?Q ?E"
    unfolding Let_def
    by (cases r) (use go [of _ st] go [of _ "st\<lparr>upstream_detail := ''incomplete_read''\<rparr>"] in
      \<open>auto intro!: stop valid_bind [OF past_deadline_any]\<close>)
  have "valid (stream_inv base head T st) (read_loop env False (send_down head) dl ((d, r) # reads) st buffer) ?Q ?E"
    unfolding read_loop.simps
    by (rule valid_bind [OF past_deadline_any], rule valid_if)
      (rule stop, simp, rule valid_then [OF advance_inv], rule body)
  then show ?case unfolding p .
qed

text \<open>
  Claim C5.  A stream is relayed byte for byte: under native delivery, whatever the upstream does and
  even when the client leaves, what the client has received is nothing, or one head followed by chunks
  whose bytes are a prefix of the bytes the upstream sent.  Every chunk frames exactly one event: it
  ends with the first blank line in it.  Only the last chunk can be a rest without
  a blank line, which a stream leaves that ended, failed or ran out of time within an event.
\<close>

theorem stream_relayed_unchanged:
  assumes "read_one_stream env resp (send_stream_headers resp) deadline False w = (r, w')"
  shows "sent_down w' = sent_down w \<or>
    (\<exists>es last rest hs.
       sent_down w' = sent_down w @ Head (ur_status resp) hs # map (\<lambda>e. Body (chunk_frame e)) (es @ last) \<and>
       all_bytes (ur_reads resp) = concat (es @ last) @ rest \<and>
       list_all whole_event es \<and> list_all open_event last \<and> length last \<le> 1)"
proof -
  define head where "head = Head (ur_status resp) (end_to_end (ur_headers resp) @ [(''Transfer-Encoding'', ''chunked'')])"
  let ?base = "sent_down w" and ?all = "all_bytes (ur_reads resp)"
  have loop: "valid (stream_inv ?base head [] new_stream)
      (read_loop env False (send_down head) deadline (ur_reads resp) new_stream [])
      (loop_post ?base head ?all) (relayed ?base head ?all)"
    using read_loop_inv [of "[]" ?base head "[]" new_stream env deadline "ur_reads resp"] by simp
  have last: "valid (stream_inv ?base head T' st) (if buffer \<noteq> [] then process_event env False (send_down head) st buffer
      else act_return st) (\<lambda>_. relayed ?base head ?all) (relayed ?base head ?all)"
    if "?all = T' @ buffer @ rest \<and> open_event buffer" for T' st buffer rest
  proof (rule valid_if)
    show "valid (stream_inv ?base head T' st) (process_event env False (send_down head) st buffer)
        (\<lambda>_. relayed ?base head ?all) (relayed ?base head ?all)"
      using that by (intro valid_conseq [OF process_event_inv]) (auto intro: relayed_prefix)
  qed (auto simp: that intro!: valid_return stream_inv_relayed)
  have fin: "valid (loop_post ?base head ?all x) (case x of (st, buffer) \<Rightarrow>
      act_bind (if buffer \<noteq> [] then process_event env False (send_down head) st buffer else act_return st)
        (\<lambda>st'. act_return (finish_stream st'))) (\<lambda>_. relayed ?base head ?all) (relayed ?base head ?all)" for x
  proof -
    have "valid (\<lambda>w. stream_inv ?base head T' (fst x) w \<and> (?all = T' @ snd x @ rest \<and> open_event (snd x)))
        (act_bind (if snd x \<noteq> [] then process_event env False (send_down head) (fst x) (snd x) else act_return (fst x))
        (\<lambda>st'. act_return (finish_stream st'))) (\<lambda>_. relayed ?base head ?all) (relayed ?base head ?all)" for T' rest
      by (rule valid_pure, rule valid_bind [OF last], assumption) (auto intro: valid_return)
    then show ?thesis unfolding loop_post_def case_prod_beta by (intro valid_ex)
  qed
  have v: "valid (stream_inv ?base head [] new_stream) (read_one_stream env resp (send_stream_headers resp) deadline False)
      (\<lambda>_. relayed ?base head ?all) (relayed ?base head ?all)"
    unfolding read_one_stream_def send_stream_headers_def head_def [symmetric]
    by (rule valid_bind [OF loop fin])
  have "stream_inv ?base head [] new_stream w" by (simp add: stream_inv_def new_stream_def)
  from validD [OF v this] assms have "relayed ?base head ?all w'" by (cases r) auto
  then show ?thesis unfolding relayed_def head_def frames_def event_chunks_def by (elim disjE exE conjE) blast+
qed

theorem stream_relayed_unchanged_witness:
  "all_bytes (ur_reads sample_response) = ''x'' @ LF2 @ ''y'' \<and>
   (sent_down (snd (read_one_stream (sample_relay_env JNull (Opened sample_response)) sample_response
       (send_stream_headers sample_response) 9 False sample_world)) = [] \<or>
    (\<exists>es last rest hs. sent_down (snd (read_one_stream (sample_relay_env JNull (Opened sample_response)) sample_response
       (send_stream_headers sample_response) 9 False sample_world))
       = Head 200 hs # map (\<lambda>e. Body (chunk_frame e)) (es @ last) \<and>
       all_bytes (ur_reads sample_response) = concat (es @ last) @ rest \<and>
       list_all whole_event es \<and> list_all open_event last \<and> length last \<le> 1))"
  using stream_relayed_unchanged [OF prod.collapse [symmetric], of "sample_relay_env JNull (Opened sample_response)"
      sample_response 9 sample_world]
  by (simp add: sample_world_def sample_response_def all_bytes_def LF2_def)

end
