(* ===== verification/Relay_Guarantees.thy ===== *)
theory Relay_Guarantees
  imports Relay_Facts
begin

text \<open>
  What one request leaves behind: the parts of the state that the relay never touches, the balance of
  the admission gate, and the number of answers the client gets.
\<close>

declare One_nat_def [simp del]

section \<open>Parts of the state the relay keeps\<close>

lemma keeps_simple: "keeps f (act_return x)" "keeps f (act_raise e)" "keeps f (act_lift r)"
  "keeps f (past_deadline d)" "keeps f (past_backoff d dl)" "keeps f (stream_deadline env)"
  by (rule keepsI; simp add: act_return_def act_raise_def act_lift_def past_deadline_def past_backoff_def
      stream_deadline_def)+

lemma keeps_outcome:
  "(\<And>r. keeps f (g r)) \<Longrightarrow> (\<And>c hs b. keeps f (h c hs b)) \<Longrightarrow> (\<And>e. keeps f (k e)) \<Longrightarrow>
   keeps f (case o' of Opened r \<Rightarrow> g r | Http_error c hs b \<Rightarrow> h c hs b | Transport_error e \<Rightarrow> k e)"
  by (cases o') auto

lemmas keeps_rules =
  keeps_simple keeps_bind keeps_then keeps_if keeps_catch keeps_each keeps_option keeps_prod keeps_prod_arg
  keeps_sum
  keeps_outcome

text \<open>
  A view of the state that no step changes except a request upstream: it does not see the clocks,
  telemetry, the log, the cooldown cache, or the bytes sent.
\<close>

locale bystander =
  fixes f :: "world \<Rightarrow> 'v"
  assumes obs_clock: "f (w\<lparr>clock := c\<rparr>) = f w"
    and obs_telemetry: "f (w\<lparr>telemetry := t\<rparr>) = f w"
    and obs_logs: "f (w\<lparr>logs := l\<rparr>) = f w"
    and obs_cache: "f (w\<lparr>failures_cache := c'\<rparr>) = f w"
    and obs_close: "f (w\<lparr>close_connection := b\<rparr>) = f w"
    and obs_send: "f (w\<lparr>sent_down := s, client_writes := map_option (\<lambda>k. k - 1) (client_writes w)\<rparr>) = f w"
begin

lemma obs_basic:
  "keeps f (log_line s)" "keeps f (count n)" "keeps f (classify n)" "keeps f (note_failure n)"
  "keeps f (sleep d)" "keeps f (remember k c secs)" "keeps f (advance d)"
  unfolding log_line_def count_def classify_def note_failure_def sleep_def remember_def advance_def
  by (rule keeps_modify; simp add: obs_clock obs_telemetry obs_logs obs_cache)+

lemma obs_send_down: "keeps f (send_down s)"
proof (rule keepsI)
  fix w r w' assume "send_down s w = (r, w')"
  then consider "w' = w"
    | "w' = w\<lparr>sent_down := sent_down w @ [s], client_writes := map_option (\<lambda>k. k - 1) (client_writes w)\<rparr>"
    by (auto simp: send_down_def split: option.splits nat.splits)
  then show "f w' = f w" by cases (simp_all only: obs_send)
qed

lemma obs_cooldown: "keeps f (cooldown_remaining k)"
  by (rule keepsI) (auto simp: cooldown_remaining_def obs_cache split: prod.splits)

lemma obs_log: "keeps f (log_exchange env x e d)" "keeps f (log_request env x s)" "keeps f (log_plain env n s q)"
  unfolding log_exchange_def log_request_def log_plain_def by (rule obs_basic)+

lemma obs_payload:
  "keeps f (send_payload c b r cl)" "keeps f (relay_error c hs b)" "keeps f (send_wire_failure_exhausted p n)"
  "keeps f (send_stream_headers resp)" "keeps f (write_chunk e)"
  unfolding send_payload_def relay_error_def send_wire_failure_exhausted_def send_stream_headers_def write_chunk_def
  by (intro keeps_then obs_send_down)+

lemmas local_rules = keeps_rules obs_basic obs_send_down obs_cooldown obs_log obs_payload

lemma obs_local_steps:
  "keeps f (accepted_recovery env x)" "keeps f (input_variant_accepted env x)"
  "keeps f (input_variant_exhausted env x d)" "keeps f (recover_input_variant env x)"
  "keeps f (adopt_compaction env x b m)" "keeps f (adopt_dialogue env x b m)"
  "keeps f (exhaust_response_failed env x)" "keeps f (reject_wire_failure env x p fp k e d)"
  "keeps f (rate_limit env x hs)" "keeps f (unavailable env x hs)" "keeps f (transport_error env x ei n)"
  unfolding accepted_recovery_def input_variant_accepted_def input_variant_exhausted_def
    recover_input_variant_def adopt_compaction_def adopt_dialogue_def exhaust_response_failed_def
    reject_wire_failure_def rate_limit_def unavailable_def transport_error_def Let_def
  by (auto split: option.splits prod.splits bool.splits intro!: local_rules)

lemma obs_emit: "keeps f g \<Longrightarrow> keeps f (emit g st data hold)"
  unfolding emit_def by (intro local_rules)

lemma obs_process: "keeps f g \<Longrightarrow> keeps f (process_event env plain g st raw)"
  unfolding process_event_def by (intro local_rules obs_emit)

lemma obs_drain: "keeps f g \<Longrightarrow> keeps f (drain_buffer env plain g st buffer)"
proof (induction env plain g st buffer rule: drain_buffer.induct)
  case (1 env plain g st buffer)
  show ?case
    unfolding drain_buffer.simps [of _ _ _ _ buffer]
    by (auto split: option.splits intro!: local_rules obs_process 1)
qed

lemma obs_read_loop: "keeps f g \<Longrightarrow> keeps f (read_loop env plain g dl reads st buffer)"
proof (induction reads arbitrary: st buffer)
  case Nil
  show ?case unfolding read_loop.simps by (intro local_rules)
next
  case (Cons p reads)
  obtain d r where p: "p = (d, r)" by fastforce
  show ?case
    unfolding p read_loop.simps Let_def
    by (cases r) (auto intro!: local_rules obs_drain Cons)
qed

lemma obs_read_one: "keeps f g \<Longrightarrow> keeps f (read_one_stream env resp g dl plain)"
  unfolding read_one_stream_def by (intro local_rules obs_read_loop obs_process)

lemma obs_note_failed: "keeps f (note_failed env x r n)"
  unfolding note_failed_def by (intro local_rules)

lemma obs_log_exceptions: "keeps f m \<Longrightarrow> keeps f (log_exceptions env x m)"
  unfolding log_exceptions_def by (intro keeps_catch) (auto intro: obs_log)

lemma obs_read_all: "keeps f (read_all reads acc)"
proof (induction reads arbitrary: acc)
  case Nil
  show ?case unfolding read_all.simps by (intro local_rules)
next
  case (Cons p reads)
  obtain d r where p: "p = (d, r)" by fastforce
  have "keeps f (read_chunk [(d, r)])" by (cases r) (auto intro!: local_rules)
  then show ?case unfolding p read_all.simps by (intro local_rules Cons)
qed

lemma obs_relay_json: "keeps f (relay_responses_json env x resp)"
proof -
  have inv: "keeps f (invalid_responses_success env x why)" for why
    unfolding invalid_responses_success_def by (intro local_rules)
  then have "keeps f (validated_json env x resp)"
    unfolding validated_json_def
    by (auto split: sum.splits intro!: local_rules obs_read_all)
  then show ?thesis
    unfolding relay_responses_json_def by (intro local_rules obs_local_steps)
qed

lemma obs_cooldown_active: "keeps f (cooldown_active env x)"
  unfolding cooldown_active_def wire_cooling_def reject_cooling_def by (intro local_rules)

lemma obs_read_chunk: "keeps f (read_chunk [(d, r)])"
  by (cases r) (auto intro!: local_rules)

lemma obs_copy_chunks: "keeps f (copy_chunks reads)"
proof (induction reads)
  case Nil
  show ?case unfolding copy_chunks.simps by (intro local_rules)
next
  case (Cons p reads)
  obtain d r where p: "p = (d, r)" by fastforce
  show ?case unfolding p copy_chunks.simps by (intro local_rules obs_read_chunk Cons)
qed

end

text \<open>A view that does not see the requests upstream either: the whole exchange keeps it.\<close>

locale observer = bystander +
  assumes obs_upstream: "f (w\<lparr>upstream_requests := us\<rparr>) = f w"
begin

lemma obs_ask: "keeps f (upstream env x)"
proof (rule keepsI)
  fix w r w' assume "upstream env x w = (r, w')"
  then obtain d where "w' = w\<lparr>clock := clock w + d, upstream_requests := upstream_requests w @ [attempt_body x]\<rparr>"
    by (auto simp: upstream_def split: prod.splits)
  then show "f w' = f w" by (simp only: obs_clock obs_upstream)
qed

lemmas obs_rules = local_rules obs_ask

lemma obs_try_dialogue: "keeps f (try_dialogue env x)"
  unfolding try_dialogue_def by (auto split: option.splits intro!: obs_rules obs_local_steps)

lemma obs_recover: "keeps f (recover_response_failed env x code d)"
  unfolding recover_response_failed_def
  by (auto split: option.splits intro!: obs_rules obs_local_steps obs_try_dialogue)

lemma obs_wire: "keeps f (retry_wire_failure env x)"
  unfolding retry_wire_failure_def Let_def
  by (intro obs_rules obs_local_steps)

lemma obs_tail: "keeps f (http_error_tail env x code hs b n d wire cls)"
  unfolding http_error_tail_def Let_def
  by (intro obs_rules obs_local_steps obs_wire)

lemma obs_http_error: "keeps f (http_error env x code hs b n)"
  unfolding http_error_def http_error_recover_def Let_def
  by (intro obs_rules obs_local_steps obs_recover obs_tail)

lemma obs_open_loop: "keeps f (open_loop env attempts x)"
proof (induction attempts arbitrary: x)
  case Nil
  show ?case unfolding open_loop.simps by (intro obs_rules)
next
  case (Cons a attempts)
  have "keeps f (case o' of Retry \<Rightarrow> open_loop env attempts y | Accepted \<Rightarrow> act_return (xresponse y, y)
      | Terminal \<Rightarrow> act_return (None, y))" for o' y
    using Cons by (cases o') (auto intro: keeps_simple)
  then show ?case
    unfolding open_loop.simps
    by (intro obs_rules obs_http_error obs_local_steps Cons)
qed

lemma obs_open_upstream: "keeps f (open_upstream env x)"
  unfolding open_upstream_def by (rule obs_open_loop)

lemma obs_stream_loop: "keeps f g \<Longrightarrow> keeps f (stream_loop env x plain g dl n rest cur)"
proof (induction rest arbitrary: n cur)
  case Nil
  then show ?case unfolding stream_loop.simps by (intro obs_rules obs_read_one obs_note_failed)
next
  case (Cons a rest)
  then show ?case
    unfolding stream_loop.simps Let_def by (intro obs_rules obs_read_one obs_note_failed Cons)
qed

lemma obs_sse_relay: "keeps f g \<Longrightarrow> keeps f (sse_relay env x resp reopens g plain)"
  unfolding sse_relay_def stream_accounting_def log_stream_end_def Let_def
  by (intro obs_rules obs_stream_loop keeps_modify obs_close)

lemma obs_relay_sse: "keeps f (relay_sse env x resp)"
  unfolding relay_sse_def by (intro obs_rules obs_log_exceptions obs_sse_relay obs_local_steps)

text \<open>Everything between admission and release.\<close>

lemma obs_exchange:
  "keeps f (act_bind (open_upstream env x) (\<lambda>(r, x').
      case r of None \<Rightarrow> act_return ()
      | Some resp \<Rightarrow> if is_event_stream resp then relay_sse env x' resp else relay_responses_json env x' resp))"
  by (intro obs_rules obs_open_upstream obs_relay_sse obs_relay_json)

lemma obs_catalog: "keeps f (relay_catalog env q n p url hs)"
proof (rule keepsI)
  fix w r w' assume run: "relay_catalog env q n p url hs w = (r, w')"
  obtain d o' where o': "upstream_at env (length (upstream_requests w)) [] = (d, o')" by fastforce
  let ?w = "w\<lparr>clock := clock w + d, upstream_requests := upstream_requests w @ [[]]\<rparr>"
  have "keeps f (relay_readonly_body resp)" for resp
    unfolding relay_readonly_body_def by (auto intro!: obs_rules obs_copy_chunks)
  then have "f w' = f ?w"
    using run unfolding relay_catalog_def o' prod.case
    by (cases o') (auto intro!: obs_rules elim!: keepsD [rotated])
  then show "f w' = f w" by (simp only: obs_clock obs_upstream)
qed

end

abbreviation active_of :: "world \<Rightarrow> nat" where
  "active_of w \<equiv> active_responses (gate_state w)"

interpretation active_observer: observer active_of
  by unfold_locales simp_all

interpretation presence_observer: observer "\<lambda>w. client_writes w = None"
  by unfold_locales simp_all

interpretation asked_bystander: bystander upstream_requests
  by unfold_locales simp_all

section \<open>The gate is balanced\<close>

lemma expire_drain_active: "active_responses (fst (expire_drain t u g)) = active_responses (fst g)"
  by (auto simp: expire_drain_def split: prod.splits)

lemma admit_active:
  "valid (\<lambda>w. active_of w = a) admit
     (\<lambda>(verdict, n) w. active_of w = (if verdict = ''draining'' then a else a + 1)) E"
proof -
  have "active_responses st = active_responses (gate_state w)"
    if "expire_drain (clock w) (unix_time w) (gate_state w, telemetry w) = (st, tel)" for w st tel
    using expire_drain_active [of "clock w" "unix_time w" "(gate_state w, telemetry w)"] that by simp
  then show ?thesis
    by (auto simp: valid_def admit_def admit_response_def split: prod.splits)
qed

lemma release_active: "valid (\<lambda>w. active_of w = a + 1) release (\<lambda>_ w. active_of w = a) E"
  by (auto simp: valid_def release_def release_response_def)

lemma new_request_id_active: "keeps active_of new_request_id"
  by (rule keepsI) (auto simp: new_request_id_def next_request_id_def)

lemma keeps_valid: "keeps f m \<Longrightarrow> valid (\<lambda>w. f w = v) m (\<lambda>_ w. f w = v) (\<lambda>w. f w = v)"
  by (simp add: keeps_def)

lemma serve_active:
  "valid (\<lambda>w. active_of w = a + 1) (serve env x) (\<lambda>_ w. active_of w = a) (\<lambda>w. active_of w = a)"
proof -
  have "valid (\<lambda>w. active_of w = a + 1)
      (act_bind release (\<lambda>n. log_exchange env x ''responses_released'' (''active='' @ nat_text n @ '' '')))
      (\<lambda>_ w. active_of w = a) (\<lambda>w. active_of w = a)"
    by (rule valid_bind [OF release_active])
      (auto intro: keeps_valid active_observer.obs_log)
  then show ?thesis
    unfolding serve_def by (intro valid_finally [OF keeps_valid] active_observer.obs_exchange)
qed

lemma admit_exchange_active:
  assumes "is_responses x"
  shows "valid (\<lambda>w. active_of w = a) (admit_exchange env x)
     (\<lambda>admitted w. active_of w = (if admitted then a + 1 else a)) (\<lambda>w. active_of w = a)"
proof -
  have "valid (\<lambda>w. active_of w = a) (act_then m (act_then n (act_then k (act_then l (act_return False)))))
      (\<lambda>admitted w. active_of w = (if admitted then a + 1 else a)) (\<lambda>w. active_of w = a)"
    if "keeps active_of m" "keeps active_of n" "keeps active_of k" "keeps active_of l"
    for m n k l :: "unit act"
    by (intro valid_then [OF keeps_valid] that valid_return) simp
  note refused = this [OF active_observer.obs_basic(2,4) active_observer.obs_payload(1) active_observer.obs_log(1)]
  have granted: "valid (\<lambda>w. active_of w = a + 1) (act_then m (act_return True))
      (\<lambda>admitted w. active_of w = (if admitted then a + 1 else a)) (\<lambda>w. active_of w = a)"
    if "m = log_exchange env x s t" for m s t
    unfolding that log_exchange_def log_line_def
    by (intro valid_then [OF valid_modify] valid_return) auto
  show ?thesis
    unfolding admit_exchange_def if_not_P [OF assms [THEN not_not [THEN iffD2]]]
    by (rule valid_bind [OF admit_active])
      (auto intro!: refused granted)
qed

lemma relay_exchange_active: "is_responses x \<Longrightarrow> keeps active_of (relay_exchange env x)"
  unfolding keeps_def relay_exchange_def
  by (intro allI valid_bind [OF keeps_valid [OF active_observer.obs_cooldown_active]] valid_if
      valid_return valid_bind [OF admit_exchange_active])
    (auto intro: valid_conseq [OF serve_active])

lemma local_answers_active:
  "keeps active_of (reject_route env q n m)" "keeps active_of (reject_projection env q n p s)"
  "keeps active_of (reject_delivery s)"
  unfolding reject_route_def reject_projection_def reject_delivery_def Let_def
  by (intro active_observer.obs_rules)+

lemma relay_active: "keeps active_of (relay env providers q)"
proof -
  have prepared: "keeps active_of (relay_prepared env q n p url hs s pr)" for n p url hs s pr
    unfolding relay_prepared_def Let_def
    by (intro active_observer.obs_rules relay_exchange_active) (simp add: new_exchange_def)
  have responses: "keeps active_of (relay_responses env q n p url hs)" for n p url hs
    unfolding relay_responses_def
    by (intro active_observer.obs_rules keeps_modify local_answers_active prepared) simp
  show ?thesis
    unfolding relay_def
    by (intro active_observer.obs_rules new_request_id_active local_answers_active responses
        active_observer.obs_catalog)
qed

text \<open>
  Claim C3.  The admission gate is balanced: whatever the upstream and the client do, and also when an
  exception leaves the handler, a request that was admitted is released exactly once and one that was
  not admitted releases nothing, so the count of active Responses is what it was before.
\<close>

theorem relay_releases_admission:
  assumes "relay env providers q w = (r, w')"
  shows "active_responses (gate_state w') = active_responses (gate_state w)"
  using keepsD [OF relay_active assms] .

theorem relay_releases_admission_witness:
  "active_responses (gate_state (snd (relay (sample_relay_env (JObj []) (Http_error 500 [] [])) sample_registry
     (sample_client ''/acme/v1/responses'') sample_world))) = 0"
  using relay_releases_admission [OF prod.collapse [symmetric],
      of "sample_relay_env (JObj []) (Http_error 500 [] [])" sample_registry "sample_client ''/acme/v1/responses''" sample_world]
  by (simp add: sample_world_def new_admission_def)

end
