(* ===== verification/Relay_Answers.thy ===== *)
theory Relay_Answers
  imports Relay_Guarantees
begin

text \<open>
  How often the client is answered.  The exceptions of a stream end in a log line, so these proofs also
  show that none of them occurs while the client is present and delivery is native.
\<close>

declare One_nat_def [simp del]

section \<open>Actions that do not answer\<close>

definition calm :: "nat \<Rightarrow> world \<Rightarrow> bool" where
  "calm h w \<longleftrightarrow> client_writes w = None \<and> heads w = h"

definition never :: "world \<Rightarrow> bool" where
  "never w \<longleftrightarrow> False"

definition mild :: "'a act \<Rightarrow> bool" where
  "mild m \<longleftrightarrow> (\<forall>h. valid (calm h) m (\<lambda>_. calm h) never)"

named_theorems mild_rules \<open>actions that return and send no response head to a client that is present\<close>

lemma never_raises: "valid P m Q never \<Longrightarrow> valid P m Q E"
  by (erule valid_conseq) (simp_all add: never_def)

lemma never_returns: "valid P m Q never \<Longrightarrow> P w \<Longrightarrow> \<exists>x w'. m w = (Inr x, w') \<and> Q x w'"
  by (cases "m w", cases "fst (m w)") (auto simp: valid_def never_def)

lemma mild_modify:
  "(\<And>w. client_writes (f w) = client_writes w) \<Longrightarrow> (\<And>w. sent_down (f w) = sent_down w) \<Longrightarrow> mild (act_modify f)"
  by (simp add: mild_def valid_def act_modify_def calm_def heads_def)

lemma mild_basic [mild_rules]:
  "mild (log_line s)" "mild (count n)" "mild (classify n)" "mild (note_failure n)" "mild (sleep d)"
  "mild (remember k c secs)" "mild (advance d)"
  unfolding log_line_def count_def classify_def note_failure_def sleep_def remember_def advance_def
  by (rule mild_modify; simp)+

lemma mild_return [mild_rules]: "mild (act_return x)"
  by (simp add: mild_def valid_def act_return_def)

lemma mild_bind [mild_rules]: "mild m \<Longrightarrow> (\<And>x. mild (f x)) \<Longrightarrow> mild (act_bind m f)"
  unfolding mild_def by (blast intro: valid_bind)

lemma mild_then [mild_rules]: "mild m \<Longrightarrow> mild n \<Longrightarrow> mild (act_then m n)"
  unfolding mild_def by (blast intro: valid_then)

lemma mild_if [mild_rules]: "(b \<Longrightarrow> mild m) \<Longrightarrow> (\<not> b \<Longrightarrow> mild n) \<Longrightarrow> mild (if b then m else n)"
  by simp

lemma mild_body [mild_rules]: "mild (send_down (Body b))" "mild (write_chunk e)"
  by (auto simp: mild_def valid_def write_chunk_def send_down_def calm_def heads_def)

lemma mild_each [mild_rules]: "(\<And>x. mild (f x)) \<Longrightarrow> mild (act_each f xs)"
  unfolding mild_def by (blast intro: valid_each)

lemma mild_time [mild_rules]: "mild (past_deadline d)" "mild (past_backoff b d)" "mild (stream_deadline env)"
  by (auto simp: mild_def valid_def past_deadline_def past_backoff_def stream_deadline_def)

lemma mild_upstream [mild_rules]: "mild (upstream env x)"
  by (auto simp: mild_def valid_def upstream_def calm_def heads_def split: prod.splits)

lemma mild_gate [mild_rules]: "mild (cooldown_remaining k)" "mild admit" "mild release" "mild new_request_id"
  by (auto simp: mild_def valid_def cooldown_remaining_def admit_def release_def new_request_id_def
      calm_def heads_def split: prod.splits)

lemma mild_log [mild_rules]:
  "mild (log_exchange env x e d)" "mild (log_request env x s)" "mild (log_plain env n s q)"
  unfolding log_exchange_def log_request_def log_plain_def by (rule mild_basic)+

lemma mild_accepted [mild_rules]: "mild (input_variant_accepted env x)" "mild (input_variant_exhausted env x d)"
  unfolding input_variant_accepted_def input_variant_exhausted_def
  by (auto split: option.splits bool.splits intro!: mild_rules)

lemma mild_valid: "mild m \<Longrightarrow> valid (calm h) m (\<lambda>_. calm h) never"
  by (simp add: mild_def)

lemma mild_first:
  "mild m \<Longrightarrow> valid (calm h) n Q E \<Longrightarrow> (\<And>w. never w \<Longrightarrow> E w) \<Longrightarrow> valid (calm h) (act_then m n) Q E"
  by (rule valid_then [OF valid_conseq [OF mild_valid]])

lemma mild_last: "valid P m (\<lambda>_. calm h) never \<Longrightarrow> mild n \<Longrightarrow> valid P (act_then m n) (\<lambda>_. calm h) never"
  by (rule valid_then [OF _ mild_valid])

section \<open>Local responses answer once\<close>

definition answers :: "unit act \<Rightarrow> bool" where
  "answers m \<longleftrightarrow> (\<forall>h. valid (calm h) m (\<lambda>_. calm (h + 1)) never)"

named_theorems answer_rules \<open>actions that send exactly one response head to a client that is present\<close>

lemma answers_head: "answers (send_down (Head c hs))"
  by (auto simp: answers_def valid_def send_down_def calm_def heads_def)

lemma answers_then [answer_rules]: "answers m \<Longrightarrow> mild n \<Longrightarrow> answers (act_then m n)"
  unfolding answers_def by (blast intro: mild_last)

lemma answers_after [answer_rules]: "mild m \<Longrightarrow> answers n \<Longrightarrow> answers (act_then m n)"
  unfolding answers_def by (blast intro: valid_then mild_valid)

lemma answers_if [answer_rules]: "(b \<Longrightarrow> answers m) \<Longrightarrow> (\<not> b \<Longrightarrow> answers n) \<Longrightarrow> answers (if b then m else n)"
  by simp

lemma answers_payload [answer_rules]:
  "answers (send_payload c b r cl)" "answers (relay_error c hs b)" "answers (send_wire_failure_exhausted p n)"
  unfolding send_wire_failure_exhausted_def send_payload_def relay_error_def
  by (intro answers_then answers_head mild_body)+

lemma answers_valid: "answers m \<Longrightarrow> valid (calm h) m (\<lambda>_. calm (h + 1)) never"
  by (simp add: answers_def)

lemma answers_reject [answer_rules]:
  "answers (reject_route env q n m)" "answers (reject_projection env q n p s)" "answers (reject_delivery s)"
  "answers (reject_cooling env x r c f k b)" "answers (invalid_responses_success env x s)"
  unfolding reject_route_def reject_projection_def reject_delivery_def reject_cooling_def
    invalid_responses_success_def Let_def
  by (intro answer_rules mild_rules)+

section \<open>A stream answers at most once\<close>

text \<open>The head has been sent exactly when the stream has written.\<close>

definition begun :: "nat \<Rightarrow> bool \<Rightarrow> world \<Rightarrow> bool" where
  "begun h b = calm (if b then h + 1 else h)"

lemma begun_mild: "mild m \<Longrightarrow> valid (begun h b) m (\<lambda>_. begun h b) never"
  by (simp add: begun_def mild_def)

lemma emit_begun:
  assumes "answers g"
  shows "valid (begun h (wrote st)) (emit g st data hold) (\<lambda>st'. begun h (wrote st')) never"
proof (cases "hold \<and> \<not> wrote st")
  case True
  then show ?thesis by (simp add: emit_def valid_return)
next
  case False
  have first: "valid (begun h (wrote st)) (if \<not> wrote st then g else act_return ()) (\<lambda>_. begun h True) never"
    using answers_valid [OF assms, of h] by (auto simp: begun_def intro: valid_return)
  show ?thesis
    unfolding emit_def if_not_P [OF False]
    by (rule valid_then [OF first], rule valid_then [OF begun_mild])
      (auto intro: mild_rules intro!: valid_return)
qed

lemma process_event_begun:
  assumes "answers g"
  shows "valid (begun h (wrote st)) (process_event env False g st raw) (\<lambda>st'. begun h (wrote st')) never"
proof (cases "sse_event_data (py env) raw")
  case (Inl e)
  then have "is_value_error e" using sse_event_data_error by fastforce
  with Inl show ?thesis by (auto simp: process_event_def intro!: valid_return)
next
  case (Inr payload)
  obtain st' hold where n: "note_event (py env) st payload = (st', hold)" by fastforce
  have "process_event env False g st raw = emit g st' raw hold" using Inr n by (simp add: process_event_def)
  moreover have "wrote st = wrote st'" using note_event_keeps [OF n] by simp
  ultimately show ?thesis using emit_begun [OF assms] by simp
qed

lemma drain_buffer_begun:
  assumes "answers g"
  shows "valid (begun h (wrote st)) (drain_buffer env False g st buffer) (\<lambda>(st', _). begun h (wrote st')) never"
  using assms
proof (induction env "False" g st buffer rule: drain_buffer.induct)
  case (1 env g st buffer)
  show ?case
  proof (cases "pop_event buffer")
    case None
    then show ?thesis by (auto simp: drain_buffer.simps [of _ _ _ _ buffer] intro!: valid_return)
  next
    case (Some p)
    obtain e rest where p: "p = (e, rest)" by fastforce
    have "valid (begun h (wrote st)) (act_bind (process_event env False g st e) (\<lambda>st'.
        if stream_done st' then act_return (st', []) else drain_buffer env False g st' rest))
        (\<lambda>(st', _). begun h (wrote st')) never"
      by (rule valid_bind [OF process_event_begun [OF 1(2)]], rule valid_if)
        (simp add: valid_return, rule 1(1) [OF Some p [symmetric] _ 1(2)])
    then show ?thesis by (simp add: drain_buffer.simps [of _ _ _ _ buffer] Some p)
  qed
qed

lemma read_loop_begun:
  assumes "answers g"
  shows "valid (begun h (wrote st)) (read_loop env False g dl reads st buffer) (\<lambda>(st', _). begun h (wrote st')) never"
proof (induction reads arbitrary: st buffer)
  case Nil
  show ?case
    unfolding read_loop.simps
    by (rule valid_bind [OF begun_mild]) (auto intro: mild_rules intro!: valid_return)
next
  case (Cons p reads)
  obtain d r where p: "p = (d, r)" by fastforce
  have go: "valid (begun h (wrote st1)) (if chunk = [] then act_return (st1, buffer)
      else act_bind (drain_buffer env False g st1 (buffer @ chunk)) (\<lambda>(st2, buffer2).
        if stream_done st2 then act_return (st2, buffer2) else read_loop env False g dl reads st2 buffer2))
      (\<lambda>(st', _). begun h (wrote st')) never" for st1 chunk
    by (intro valid_if valid_bind [OF drain_buffer_begun [OF assms]])
      (auto intro: Cons.IH intro!: valid_return)
  have stop: "valid (begun h (wrote st)) (act_return (st', buffer)) (\<lambda>(st', _). begun h (wrote st')) never"
    if "wrote st' = wrote st" for st'
    by (simp add: valid_return that)
  show ?case
    unfolding p read_loop.simps Let_def
    by (intro valid_bind [OF begun_mild] valid_if valid_then [OF begun_mild] stop mild_rules)
      (use go [of st] go [of "st\<lparr>upstream_detail := ''incomplete_read''\<rparr>"] in
        \<open>auto split: read_outcome.splits intro!: stop valid_bind [OF begun_mild] mild_rules\<close>)
qed

lemma read_one_stream_begun:
  assumes "answers g"
  shows "valid (calm h) (read_one_stream env resp g dl False) (\<lambda>r. begun h (wrote_downstream r)) never"
proof -
  have "valid (begun h (wrote new_stream)) (read_one_stream env resp g dl False)
      (\<lambda>r. begun h (wrote_downstream r)) never"
    unfolding read_one_stream_def
  proof (rule valid_bind [OF read_loop_begun [OF assms]])
    fix p :: "stream_state \<times> bytes"
    obtain st buffer where p: "p = (st, buffer)" by fastforce
    have "valid (begun h (wrote st)) (if buffer \<noteq> [] then process_event env False g st buffer else act_return st)
        (\<lambda>st'. begun h (wrote st')) never"
      by (intro valid_if process_event_begun assms) (simp add: valid_return)
    then show "valid (case p of (st', _) \<Rightarrow> begun h (wrote st')) (case p of (st, buffer) \<Rightarrow>
        act_bind (if buffer \<noteq> [] then process_event env False g st buffer else act_return st)
          (\<lambda>st'. act_return (finish_stream st'))) (\<lambda>r. begun h (wrote_downstream r)) never"
      unfolding p prod.case by (rule valid_bind) (simp add: valid_return finish_stream_def)
  qed
  then show ?thesis by (simp add: new_stream_def begun_def)
qed

lemma note_failed_mild [mild_rules]: "mild (note_failed env x r n)"
  unfolding note_failed_def by (intro mild_rules)

text \<open>A reconnect happens only while nothing has been written, so a head is sent at most once in all attempts.\<close>

lemma stream_loop_begun:
  assumes "answers g"
  shows "valid (calm h) (stream_loop env x False g dl n rest cur) (\<lambda>(r, _). begun h (wrote_downstream r)) never"
proof (induction rest arbitrary: n cur)
  case Nil
  show ?case
    unfolding stream_loop.simps
    by (rule valid_bind [OF read_one_stream_begun [OF assms]], rule valid_then [OF begun_mild])
      (auto intro: mild_rules intro!: valid_return)
next
  case (Cons a rest)
  have stop: "valid (begun h (wrote_downstream r)) (act_return (r, n)) (\<lambda>(r, _). begun h (wrote_downstream r)) never" for r
    by (simp add: valid_return)
  have again: "valid (begun h (wrote_downstream r)) (act_bind (upstream env x) (\<lambda>o'.
      case o' of Opened resp \<Rightarrow> stream_loop env x False g dl a rest resp
      | Http_error c hs b \<Rightarrow> act_then (log_request env x s) (act_return (r, n))
      | Transport_error e \<Rightarrow> act_then (log_request env x (t e)) (act_return (r, n))))
      (\<lambda>(r, _). begun h (wrote_downstream r)) never" if "\<not> committed r" for r s t
  proof -
    have "begun h (wrote_downstream r) = calm h" using that by (simp add: committed_def begun_def)
    with stop [of r] show ?thesis
      by (intro valid_bind [OF begun_mild [OF mild_upstream]])
        (auto split: upstream_outcome.splits intro!: mild_first mild_rules Cons.IH)
  qed
  show ?case
    unfolding stream_loop.simps Let_def
    by (rule valid_bind [OF read_one_stream_begun [OF assms]])
      (intro valid_then [OF begun_mild] valid_bind [OF begun_mild] valid_if stop again mild_rules)
qed

lemma sse_relay_begun:
  assumes "answers g"
  shows "valid (calm h) (sse_relay env x resp reopens g False) (\<lambda>r. begun h (\<not> pre_content_exhausted r)) never"
proof -
  have accounting: "mild (stream_accounting r b)" "mild (log_stream_end env x r)" for r b
    unfolding stream_accounting_def log_stream_end_def
    by (intro mild_rules, auto split: option.splits intro!: mild_rules)
  have closing: "mild (act_modify (\<lambda>w. w\<lparr>close_connection := True\<rparr>))" by (rule mild_modify) simp_all
  have fin: "valid (begun h (wrote_downstream r))
      (act_then (if wrote_downstream r then if terminal r \<noteq> None then send_down (Body LAST_CHUNK)
           else act_modify (\<lambda>w. w\<lparr>close_connection := True\<rparr>) else act_return ())
         (act_then (stream_accounting r (wrote_downstream r))
         (act_then (log_stream_end env x r)
            (act_return \<lparr>pre_content_exhausted = \<not> wrote_downstream r, rr_attempts = n + 1, stream = r\<rparr>))))
      (\<lambda>r. begun h (\<not> pre_content_exhausted r)) never" for r n
    by (intro valid_then [OF begun_mild] mild_rules accounting closing) (simp add: valid_return)
  show ?thesis
    unfolding sse_relay_def Let_def
    by (intro valid_bind [OF mild_valid] mild_rules valid_bind [OF stream_loop_begun [OF assms]])
      (auto intro: fin)
qed

section \<open>The request is answered once\<close>

lemma begun_answers:
  "(\<not> b \<Longrightarrow> answers m) \<Longrightarrow> (b \<Longrightarrow> mild m) \<Longrightarrow> valid (begun h b) m (\<lambda>_. calm (h + 1)) never"
  by (cases b) (simp_all add: begun_def answers_def mild_def)

lemma relay_sse_answers:
  assumes "\<not> plaintext_agent_delivery x"
  shows "answers (relay_sse env x resp)"
  unfolding answers_def
proof
  fix h
  have send: "answers (send_stream_headers resp)" unfolding send_stream_headers_def by (rule answers_head)
  let ?tail = "\<lambda>result. if sr_detail (stream result) = ''projection_failed''
        then act_then (if pre_content_exhausted result
                       then send_payload 503 STREAM_PROJECTION_PAYLOAD (Some ''3'') False else act_return ())
               (log_exchange env x ''sse_projection_failed'' '''')
        else if pre_content_exhausted result
        then act_then (if used_input_variant_dialogue x then input_variant_exhausted env x '''' else act_return ())
            (act_then (send_payload 503 (exhausted_stream_payload (rr_attempts result)) (Some ''3'') False)
               (log_exchange env x ''sse_pre_content_exhausted''
                 (''attempts='' @ nat_text (rr_attempts result) @ '' '')))
        else input_variant_accepted env x"
  have "answers (?tail r)" if "pre_content_exhausted r" for r
    unfolding if_P [OF that]
    by (intro answers_if) (intro answers_then answers_after answers_payload mild_rules)+
  moreover have "mild (?tail r)" if "\<not> pre_content_exhausted r" for r
    unfolding if_not_P [OF that] by (intro mild_rules)
  ultimately have "valid (begun h (\<not> pre_content_exhausted r)) (?tail r) (\<lambda>_. calm (h + 1)) never" for r
    by (rule begun_answers [of "\<not> pre_content_exhausted r"]) (erule not_not [THEN iffD1], assumption)
  then have "valid (calm h) (act_bind (sse_relay env x resp (\<not> used_input_variant_dialogue x)
      (send_stream_headers resp) (plaintext_agent_delivery x)) ?tail) (\<lambda>_. calm (h + 1)) never"
    using assms sse_relay_begun [OF send] by (simp only: simp_thms) (rule valid_bind)
  then show "valid (calm h) (relay_sse env x resp) (\<lambda>_. calm (h + 1)) never"
    unfolding relay_sse_def log_exceptions_def
    by (rule valid_catch) (simp add: valid_def never_def)
qed

lemma read_chunk_calm: "valid (calm h) (read_chunk [(d, r)]) (\<lambda>_. calm h) (calm h)"
proof -
  have adv: "valid (calm h) (advance d) (\<lambda>_. calm h) (calm h)"
    by (rule valid_conseq [OF mild_valid [OF mild_basic(7)]]) (auto simp: never_def)
  show ?thesis
    unfolding read_chunk.simps
    by (rule valid_then [OF adv]) (auto split: read_outcome.splits simp: valid_def act_return_def act_raise_def)
qed

lemma read_all_calm: "valid (calm h) (read_all reads acc) (\<lambda>_. calm h) (calm h)"
proof (induction reads arbitrary: acc)
  case Nil
  show ?case by (simp add: valid_return)
next
  case (Cons p reads)
  obtain d r where p: "p = (d, r)" by fastforce
  show ?case
    unfolding p read_all.simps
    by (rule valid_bind [OF read_chunk_calm]) (auto intro!: valid_return Cons.IH)
qed

lemma validated_json_calm:
  "valid (calm h) (validated_json env x resp) (\<lambda>r. calm (if r = None then h + 1 else h)) never"
proof -
  have invalid: "valid (calm h) (act_then (invalid_responses_success env x why) (act_return None))
      (\<lambda>r. calm (if r = None then h + 1 else h)) never" for why
    by (rule valid_then [OF answers_valid]) (auto intro: answer_rules intro!: valid_return)
  have body: "valid (calm h) (act_bind (read_all (ur_reads resp) []) (\<lambda>r.
          case r of
            Inl why \<Rightarrow> act_then (invalid_responses_success env x why) (act_return None)
          | Inr raw \<Rightarrow>
              act_bind (act_lift (res_bind (validate_json_response (py env) raw) (\<lambda>payload.
                  restore_response (py env) payload (plaintext_agent_delivery x))))
                (\<lambda>payload. act_return (Some payload))))
      (\<lambda>r. calm (if r = None then h + 1 else h)) (calm h)"
    by (rule valid_bind [OF read_all_calm])
      (auto split: sum.splits intro!: valid_lift_bind valid_return intro: valid_conseq [OF invalid]
        simp: never_def)
  show ?thesis
    unfolding validated_json_def
    by (rule valid_catch_all [OF body]) (auto intro: invalid)
qed

lemma relay_json_answers: "answers (relay_responses_json env x resp)"
  unfolding answers_def relay_responses_json_def
proof (intro allI valid_bind [OF validated_json_calm])
  fix h and r :: "bytes option"
  have "answers (act_then (send_payload (ur_status resp) b None False)
      (act_then (count ''responses_completed'') (input_variant_accepted env x)))" for b
    by (intro answer_rules mild_rules)
  then show "valid (calm (if r = None then h + 1 else h)) (case r of None \<Rightarrow> act_return ()
      | Some b \<Rightarrow> act_then (send_payload (ur_status resp) b None False)
          (act_then (count ''responses_completed'') (input_variant_accepted env x))) (\<lambda>_. calm (h + 1)) never"
    by (cases r) (auto simp: answers_def intro: valid_return)
qed

text \<open>The upstream exchange: an exception may escape it, a return has answered unless a response is open.\<close>

lemma open_upstream_calm:
  assumes "attempt_body x = xbody x"
  shows "valid (calm h) (open_upstream env x)
     (\<lambda>(r, x') w. calm (if r = None then h + 1 else h) w \<and>
        plaintext_agent_delivery x' = plaintext_agent_delivery x) (\<lambda>_. True)"
proof -
  have "exch_ok x x" using assms by (simp add: exch_ok_def fits_def)
  note post = open_loop_post [OF this, of "upstream_requests w" "heads w" env "[0..<attempt_limit env x]" for w,
      folded open_upstream_def]
  have "calm (if r = None then h + 1 else h) w' \<and> plaintext_agent_delivery x' = plaintext_agent_delivery x"
    if "calm h w" "open_upstream env x w = (Inr (r, x'), w')" for w r x' w'
  proof -
    from validD(1) [OF post _ that(2), of w] have "exchange_post x (length [0..<attempt_limit env x] + 1)
        (upstream_requests w) (heads w) (r, x') w'" by (simp add: traffic_def)
    moreover have "client_writes w' = None"
      using keepsD [OF presence_observer.obs_open_upstream that(2)] that(1) by (simp add: calm_def)
    ultimately show ?thesis using that(1) by (simp add: exchange_post_def exch_ok_def calm_def)
  qed
  then show ?thesis by (fastforce simp: valid_def split: prod.splits sum.splits)
qed

definition verdict_calm :: "nat \<Rightarrow> bool \<Rightarrow> world \<Rightarrow> bool" where
  "verdict_calm h answered = calm (if answered then h + 1 else h)"

lemma answered_return:
  "answers m \<Longrightarrow> valid (calm h) (act_then m (act_return True)) (verdict_calm h) never"
  by (rule valid_then [OF answers_valid]) (auto simp: verdict_calm_def intro!: valid_return)

lemma unanswered_return: "valid (calm h) (act_return False) (verdict_calm h) never"
  by (simp add: verdict_calm_def valid_return)

lemma wire_cooling_calm: "valid (calm h) (wire_cooling env x) (verdict_calm h) never"
proof (cases "prof_policy (xprofile x)")
  case None
  then show ?thesis by (simp add: wire_cooling_def unanswered_return)
next
  case (Some p)
  have sent: "valid (calm h) (act_then (send_wire_failure_exhausted p 0) (act_then (log_exchange env x e d)
      (act_return True))) (verdict_calm h) never" for e d
    by (rule valid_then [OF answers_valid [OF answers_payload(3)]], rule valid_then [OF mild_valid [OF mild_log(1)]])
      (simp add: verdict_calm_def valid_return)
  show ?thesis
    unfolding wire_cooling_def Some option.case
    by (intro valid_bind [OF mild_valid] valid_if valid_then [OF mild_valid] sent unanswered_return mild_rules)
qed

lemma cooldown_active_calm: "valid (calm h) (cooldown_active env x) (verdict_calm h) never"
proof -
  have later: "valid (verdict_calm h b) (if b then act_return True else m) (verdict_calm h) never"
    if "valid (calm h) m (verdict_calm h) never" for b m
    using that by (cases b) (simp_all add: verdict_calm_def valid_return)
  show ?thesis
    unfolding cooldown_active_def
    by (intro valid_if unanswered_return valid_bind [OF wire_cooling_calm] later valid_bind [OF mild_valid]
        answered_return answers_reject mild_rules)
qed

lemma admit_exchange_calm:
  "valid (calm h) (admit_exchange env x) (\<lambda>admitted. verdict_calm h (\<not> admitted)) never"
proof -
  have refused: "valid (calm h) (act_then (send_payload c b r cl) (act_then (log_exchange env x e d)
      (act_return False))) (\<lambda>admitted. verdict_calm h (\<not> admitted)) never" for c b r cl e d
    by (rule valid_then [OF answers_valid [OF answers_payload(1)]], rule valid_then [OF mild_valid [OF mild_log(1)]])
      (simp add: verdict_calm_def valid_return)
  have granted: "valid (calm h) (act_return True) (\<lambda>admitted. verdict_calm h (\<not> admitted)) never"
    by (simp add: verdict_calm_def valid_return)
  have decide: "valid (calm h) (case p of (verdict, active_now) \<Rightarrow>
        if verdict = ''draining''
        then act_then (count ''responses_rejected_while_draining'')
            (act_then (note_failure ''draining'')
            (act_then (send_payload 503 b (Some ''1'') False)
            (act_then (log_exchange env x ''responses_rejected_while_draining'' '''')
               (act_return False))))
        else act_then (log_exchange env x ''responses_admitted'' (''active='' @ nat_text active_now @ '' ''))
               (act_return True)) (\<lambda>admitted. verdict_calm h (\<not> admitted)) never" for p b
    by (cases p, simp only: prod.case, intro valid_if valid_then [OF mild_valid] refused granted mild_rules)
  show ?thesis
    unfolding admit_exchange_def
    by (intro valid_if granted valid_bind [OF mild_valid [OF mild_gate(2)]] decide)
qed

abbreviation served :: "nat \<Rightarrow> unit act \<Rightarrow> bool" where
  "served h m \<equiv> valid (calm h) m (\<lambda>_. calm (h + 1)) (\<lambda>_. True)"

lemma served_answers: "answers m \<Longrightarrow> served h m"
  by (rule valid_conseq [OF answers_valid]) simp_all

lemma served_after: "mild m \<Longrightarrow> served h n \<Longrightarrow> served h (act_then m n)"
  by (rule mild_first) simp_all

lemma serve_served:
  assumes "attempt_body x = xbody x" "\<not> plaintext_agent_delivery x"
  shows "served h (serve env x)"
proof -
  have relayed: "valid (\<lambda>w. calm (if r = None then h + 1 else h) w \<and>
        plaintext_agent_delivery x' = plaintext_agent_delivery x)
      (case r of None \<Rightarrow> act_return () | Some resp \<Rightarrow>
         if is_event_stream resp then relay_sse env x' resp else relay_responses_json env x' resp)
      (\<lambda>_. calm (h + 1)) (\<lambda>_. True)" for r x'
    by (rule valid_pure, cases r)
      (auto intro: valid_return intro!: served_answers relay_sse_answers relay_json_answers simp: assms(2))
  have release: "valid (calm (h + 1)) (act_bind release (\<lambda>n. log_exchange env x e (f n)))
      (\<lambda>_. calm (h + 1)) (calm (h + 1))" for e f
    by (rule valid_conseq [OF mild_valid]) (auto intro: mild_rules simp: never_def)
  show ?thesis
    unfolding serve_def
  proof (rule valid_finally)
    show "valid (calm h) (act_bind (open_upstream env x) (\<lambda>(r, x'). case r of None \<Rightarrow> act_return ()
        | Some resp \<Rightarrow> if is_event_stream resp then relay_sse env x' resp else relay_responses_json env x' resp))
        (\<lambda>_. calm (h + 1)) (\<lambda>_. True)"
      by (rule valid_bind [OF open_upstream_calm [OF assms(1)]]) (auto intro: relayed)
  qed (rule release, simp add: valid_def split: prod.splits sum.splits)
qed

lemma relay_exchange_served:
  assumes "attempt_body x = xbody x" "\<not> plaintext_agent_delivery x"
  shows "served h (relay_exchange env x)"
proof -
  have go: "valid (verdict_calm h (\<not> b)) (if b then serve env x else act_return ()) (\<lambda>_. calm (h + 1)) (\<lambda>_. True)" for b
    using serve_served [OF assms] by (cases b) (simp_all add: verdict_calm_def valid_return)
  have "served h (act_bind (admit_exchange env x) (\<lambda>admitted. if admitted then serve env x else act_return ()))"
    by (rule valid_bind [OF never_raises [OF admit_exchange_calm] go])
  then have "valid (verdict_calm h b) (if b then act_return () else
      act_bind (admit_exchange env x) (\<lambda>admitted. if admitted then serve env x else act_return ()))
      (\<lambda>_. calm (h + 1)) (\<lambda>_. True)" for b
    by (cases b) (simp_all add: verdict_calm_def valid_return)
  then show ?thesis
    unfolding relay_exchange_def by (intro valid_bind [OF never_raises [OF cooldown_active_calm]])
qed

lemma copy_chunks_calm: "valid (calm h) (copy_chunks reads) (\<lambda>_. calm h) (calm h)"
proof (induction reads)
  case Nil
  show ?case by (simp add: valid_return)
next
  case (Cons p reads)
  obtain d r where p: "p = (d, r)" by fastforce
  have put: "valid (calm h) (if c \<noteq> [] then write_chunk c else act_return ()) (\<lambda>_. calm h) (calm h)" for c
    by (rule valid_conseq [OF mild_valid]) (auto intro: mild_rules simp: never_def)
  show ?case
    unfolding p copy_chunks.simps
    by (rule valid_bind [OF read_chunk_calm])
      (auto intro!: valid_then [OF put [simplified]] valid_return Cons.IH)
qed

lemma readonly_answers: "answers (relay_readonly_body resp)"
  unfolding answers_def
proof
  fix h
  have "valid (calm (h + 1)) (act_then (copy_chunks (ur_reads resp)) (send_down (Body LAST_CHUNK)))
      (\<lambda>_. calm (h + 1)) (calm (h + 1))"
    by (rule valid_then [OF copy_chunks_calm], rule valid_conseq [OF mild_valid [OF mild_body(1)]])
      (auto simp: never_def)
  then have "valid (calm (h + 1)) (act_catch (act_then (copy_chunks (ur_reads resp)) (send_down (Body LAST_CHUNK)))
      (\<lambda>_. Some (act_return ()))) (\<lambda>_. calm (h + 1)) never"
    by (rule valid_catch_all) (auto intro: valid_return)
  then show "valid (calm h) (relay_readonly_body resp) (\<lambda>_. calm (h + 1)) never"
    unfolding relay_readonly_body_def send_stream_headers_def
    by (rule valid_then [OF answers_valid [OF answers_head]])
qed

lemma catalog_answers: "answers (relay_catalog env q n p url hs)"
  unfolding answers_def valid_def
proof (intro allI impI)
  fix h and w :: world assume w: "calm h w"
  obtain d o' where o': "upstream_at env (length (upstream_requests w)) [] = (d, o')" by fastforce
  let ?w = "w\<lparr>clock := clock w + d, upstream_requests := upstream_requests w @ [[]]\<rparr>"
  let ?m = "case o' of
      Http_error code ehs payload \<Rightarrow>
        act_then (relay_error code ehs payload)
       (act_then (note_failure (''catalog_http_'' @ int_text code))
          (log_plain env n (''catalog_http_terminal provider='' @ prof_name p @ '' status=''
             @ int_text code @ '' response_bytes='' @ nat_text (length payload)) q))
    | Transport_error e \<Rightarrow>
        act_then (note_failure ''catalog_transport_error'')
       (act_then (send_payload 502
          (error_payload ''Upstream model catalog transport failed; retry discovery shortly''
             ''upstream_unavailable'' ''catalog_transport_error'' None None) None False)
          (log_plain env n (''catalog_transport_error provider='' @ prof_name p @ '' ''
             @ safe_exception_context e) q))
    | Opened resp \<Rightarrow> relay_readonly_body resp"
  have http: "answers (act_then (relay_error c hs b) (act_then (note_failure s) (log_plain env n t q)))" for c hs b s t
    by (intro answers_then answers_payload mild_rules)
  have transport: "answers (act_then (note_failure s) (act_then (send_payload c b r cl) (log_plain env n t q)))"
    for c b r cl s t
    by (intro answers_after answers_then answers_payload mild_rules)
  have "answers ?m"
    by (cases o') (simp_all only: upstream_outcome.case http transport readonly_answers)
  then have "valid (calm h) ?m (\<lambda>_. calm (h + 1)) never" by (simp only: answers_def)
  moreover have "calm h ?w" using w by (simp add: calm_def heads_def)
  moreover have "relay_catalog env q n p url hs w = ?m ?w"
    unfolding relay_catalog_def o' prod.case ..
  ultimately show "case relay_catalog env q n p url hs w of (Inr x, w') \<Rightarrow> calm (h + 1) w' | (Inl e, w') \<Rightarrow> never w'"
    unfolding valid_def by simp
qed

section \<open>The guarantees of a whole request\<close>

lemma relay_served:
  assumes "\<And>p resource url. resolve (py env) providers (cr_path q) = Some (p, resource, url) \<Longrightarrow>
    agent_message_delivery p = Native"
  shows "served h (relay env providers q)"
proof -
  have responses: "served h (relay_responses env q n p url hs)" if "agent_message_delivery p = Native" for n p url hs
  proof -
    have tel: "mild (act_modify (\<lambda>w. w\<lparr>telemetry := record_sanitization m (telemetry w)\<rparr>))" for m
      by (rule mild_modify) simp_all
    have "served h (relay_prepared env q n p url hs s \<lparr>pr_body = b, pr_active = False\<rparr>)" for s b
      unfolding relay_prepared_def Let_def
      by (intro served_after mild_rules relay_exchange_served) (simp_all add: new_exchange_def)
    then show ?thesis
      unfolding relay_responses_def prepare_request_def that if_P [OF refl] sum.case
      by (intro valid_lift_bind served_after tel)
        (auto split: option.splits intro!: served_answers answers_reject)
  qed
  have "served h (case resolve (py env) providers (cr_path q) of
       None \<Rightarrow> reject_route env q rid None
     | Some (p, resource, url) \<Rightarrow>
         if cr_method q = ''POST'' \<and> resource = ''responses''
         then relay_responses env q rid p url (request_headers (cr_headers q))
         else if cr_method q = ''GET'' \<and> resource = ''models''
         then relay_catalog env q rid p url (request_headers (cr_headers q))
         else reject_route env q rid (Some (cr_method q)))" for rid
  proof (cases "resolve (py env) providers (cr_path q)")
    case None
    then show ?thesis by (simp add: served_answers answers_reject)
  next
    case (Some t)
    obtain p resource url where t: "t = (p, resource, url)" by (cases t)
    note native = assms [OF Some [unfolded t]]
    show ?thesis
      unfolding Some t option.case prod.case
      by (intro valid_if responses [OF native] served_answers answers_reject(1) catalog_answers)
  qed
  then show ?thesis
    unfolding relay_def by (rule valid_bind [OF never_raises [OF mild_valid [OF mild_gate(4)]]])
qed

text \<open>
  Claim C2.  A client that stays connected is answered exactly once: under native delivery, whatever
  the route, the admission gate, the cooldowns and the upstream do, a request whose handler returns has
  sent exactly one response head.
\<close>

theorem relay_answers_once:
  assumes "client_writes w = None"
    and "\<And>p resource url. resolve (py env) providers (cr_path q) = Some (p, resource, url) \<Longrightarrow>
      agent_message_delivery p = Native"
    and "relay env providers q w = (Inr (), w')"
  shows "heads w' = heads w + 1"
  using validD(1) [OF relay_served [OF assms(2), where h = "heads w"] _ assms(3)] assms(1)
  by (simp add: calm_def)

lemma sample_rejected:
  "sanitize_responses_body (sample_env JNull) b = Inr (rejected ''request_not_object'')"
  by (simp add: sanitize_responses_body_def sample_env_def)

theorem relay_answers_once_witness:
  "\<exists>w'. relay (sample_relay_env JNull (Http_error 500 [] [])) sample_registry
       (sample_client ''/acme/v1/responses'') sample_world = (Inr (), w') \<and> heads w' = heads sample_world + 1"
proof -
  let ?env = "sample_relay_env JNull (Http_error 500 [] [])" and ?q = "sample_client ''/acme/v1/responses''"
  have "resolve (py ?env) sample_registry (cr_path ?q) = Some (sample_profile, ''responses'', ''https://a.io/responses'')"
    by (simp add: sample_relay_env_def sample_client_def sample_route)
  moreover have "\<exists>w'. relay ?env sample_registry ?q sample_world = (Inr (), w')"
    using calculation
    by (simp add: relay_def act_bind_def new_request_id_def next_request_id_def relay_responses_def act_lift_def
        act_then_def act_modify_def sample_relay_env_def sample_client_def sample_rejected rejected_def
        reject_projection_def count_def note_failure_def send_payload_def send_down_def log_plain_def log_line_def
        sample_world_def)
  ultimately show ?thesis
    using relay_answers_once [of sample_world ?env sample_registry ?q]
    by (auto simp: sample_profile_def sample_world_def)
qed

subsection \<open>Refusals reach no provider\<close>

lemma clock_kept:
  "keeps clock (log_exchange env x e d)" "keeps clock (count n)" "keeps clock (note_failure n)"
  "keeps clock (send_payload c b r cl)" "keeps clock (send_wire_failure_exhausted p k)"
  "keeps clock (cooldown_remaining key)"
proof -
  have down: "keeps clock (send_down s)" for s
    by (rule keepsI) (auto simp: send_down_def split: option.splits nat.splits)
  show "keeps clock (send_payload c b r cl)" "keeps clock (send_wire_failure_exhausted p k)"
    unfolding send_wire_failure_exhausted_def send_payload_def by (intro keeps_then down)+
  show "keeps clock (cooldown_remaining key)"
    by (rule keepsI) (auto simp: cooldown_remaining_def split: prod.splits)
qed (auto simp: log_exchange_def log_line_def count_def note_failure_def intro!: keeps_modify)

lemma cooldown_clock: "keeps clock (cooldown_active env x)"
  unfolding cooldown_active_def wire_cooling_def reject_cooling_def by (intro keeps_rules clock_kept)

interpretation gate_bystander: bystander gate_state
  by unfold_locales simp_all

lemma reject_projection_sends:
  assumes "client_writes w = None"
  shows "\<exists>w'. reject_projection env q n p s w = (Inr (), w') \<and> upstream_requests w' = upstream_requests w \<and>
    (\<exists>hs b. sent_down w' = sent_down w @ [Head 400 hs, Body b])"
  using assms
  by (simp add: reject_projection_def act_then_def act_bind_def count_def note_failure_def act_modify_def
      send_payload_def send_down_def log_plain_def log_line_def)

text \<open>
  Claim C34.  A replay that the projection rejects never leaves the proxy: the client that sent it gets
  one local response with status 400, and no provider is asked.
\<close>

theorem rejected_projection_stays_local:
  assumes "resolve (py env) providers (cr_path q) = Some (p, ''responses'', url)" "cr_method q = ''POST''"
    and "sanitize_responses_body (py env) (cr_body q) = Inr pr" "body pr = None"
    and "client_writes w = None"
  shows "\<exists>w' hs b. relay env providers q w = (Inr (), w') \<and> upstream_requests w' = upstream_requests w \<and>
    sent_down w' = sent_down w @ [Head 400 hs, Body b]"
proof -
  define why where "why = (case reason pr of Some r \<Rightarrow> if r = [] then ''unknown'' else r | None \<Rightarrow> ''unknown'')"
  obtain n g where id: "next_request_id (gate_state w) = (n, g)" by fastforce
  let ?w = "w\<lparr>gate_state := g, telemetry := record_sanitization (metrics pr) (telemetry w)\<rparr>"
  have "relay env providers q w = reject_projection env q n p why ?w"
    using assms(1-4) by (simp add: relay_def relay_responses_def act_bind_def new_request_id_def id act_lift_def
        act_then_def act_modify_def why_def)
  with reject_projection_sends [of ?w env q n p why] assms(5) show ?thesis by auto
qed

theorem rejected_projection_stays_local_witness:
  "\<exists>w' hs b. relay (sample_relay_env JNull (Http_error 500 [] [])) sample_registry
       (sample_client ''/acme/v1/responses'') sample_world = (Inr (), w') \<and>
     upstream_requests w' = upstream_requests sample_world \<and>
     sent_down w' = sent_down sample_world @ [Head 400 hs, Body b]"
  by (rule rejected_projection_stays_local [where pr = "rejected ''request_not_object''"])
    (simp_all add: sample_relay_env_def sample_client_def sample_route sample_rejected rejected_def sample_world_def)

text \<open>
  While the proxy drains, a Responses exchange reaches no provider: it returns, the gate
  stays as it was, and the client has its one answer.
\<close>

theorem draining_exchange_stays_local:
  assumes "is_responses x" "draining (gate_state w)" "\<not> drain_expired (clock w) (gate_state w)"
    and "client_writes w = None"
  shows "\<exists>w'. relay_exchange env x w = (Inr (), w') \<and> upstream_requests w' = upstream_requests w \<and>
    gate_state w' = gate_state w \<and> heads w' = heads w + 1"
proof -
  obtain b w1 where c: "cooldown_active env x w = (Inr b, w1)" "verdict_calm (heads w) b w1"
    using never_returns [OF cooldown_active_calm [of "heads w" env x], of w] assms(4) by (auto simp: calm_def)
  note same = keepsD [OF cooldown_clock c(1)] keepsD [OF gate_bystander.obs_cooldown_active c(1)] keepsD [OF asked_bystander.obs_cooldown_active c(1)]
  show ?thesis
  proof (cases b)
    case True
    with c same show ?thesis by (auto simp: relay_exchange_def act_bind_def act_return_def verdict_calm_def calm_def)
  next
    case False
    with c have calm: "calm (heads w) w1" by (simp add: verdict_calm_def)
    have "expire_drain (clock w1) (unix_time w1) (gate_state w1, telemetry w1) = (gate_state w1, telemetry w1)"
      using assms(3) same(1,2) by (simp add: expire_drain_def)
    then have a: "admit w1 = (Inr (''draining'', active_responses (gate_state w1)), w1)"
      using assms(2) same(2) by (simp add: admit_def admit_response_def)
    then obtain w2 where w2: "admit_exchange env x w1 = (Inr False, w2)" "gate_state w2 = gate_state w1"
        "upstream_requests w2 = upstream_requests w1"
      using assms(1) calm
      by (simp add: admit_exchange_def act_bind_def act_then_def count_def note_failure_def act_modify_def
          send_payload_def send_down_def log_exchange_def log_line_def act_return_def calm_def)
    have "verdict_calm (heads w) True w2"
      using validD(1) [OF admit_exchange_calm calm w2(1)] by simp
    with False c(1) w2 same show ?thesis
      by (auto simp: relay_exchange_def act_bind_def act_return_def verdict_calm_def calm_def)
  qed
qed

theorem draining_exchange_stays_local_witness:
  "\<exists>w'. relay_exchange (sample_relay_env JNull (Http_error 500 [] [])) sample_exchange
       (sample_world\<lparr>gate_state := fst (snd (set_draining True 30 0 0 (new_admission, new_telemetry)))\<rparr>) = (Inr (), w') \<and>
     upstream_requests w' = []"
proof -
  let ?w = "sample_world\<lparr>gate_state := fst (snd (set_draining True 30 0 0 (new_admission, new_telemetry)))\<rparr>"
  have "draining (gate_state ?w)" "\<not> drain_expired (clock ?w) (gate_state ?w)" "client_writes ?w = None"
    by (simp_all add: set_draining_def Let_def expire_drain_def drain_expired_def new_admission_def sample_world_def)
  from draining_exchange_stays_local [of sample_exchange, OF _ this] show ?thesis
    by (auto simp: sample_exchange_def sample_world_def)
qed

end
