(* ===== verification/Projection_Facts.thy ===== *)
theory Projection_Facts
  imports Projection
begin

text \<open>
  What the request projection guarantees: the closed grammar of the items it lets through, the
  request fields it fixes, which exceptions can escape, and that a projected request is a fixed
  point of the projection.
\<close>

section \<open>Dispatch by item kind\<close>

lemma policy_lookup:
  "map_of ITEM_POLICIES ''message'' = Some (policy MESSAGE None None)"
  "map_of ITEM_POLICIES ''agent_message'' = Some (policy AGENT_MESSAGE None None)"
  "map_of ITEM_POLICIES ''additional_tools'' = Some (policy TOOL_CATALOG None None)"
  "map_of ITEM_POLICIES ''function_call'' =
     Some (policy CALL (Some ''function_call_output'') (Some ''arguments''))"
  "map_of ITEM_POLICIES ''custom_tool_call'' =
     Some (policy CALL (Some ''custom_tool_call_output'') (Some ''input''))"
  "map_of ITEM_POLICIES ''function_call_output'' = Some (policy OUTPUT None None)"
  "map_of ITEM_POLICIES ''custom_tool_call_output'' = Some (policy OUTPUT None None)"
  "map_of ITEM_POLICIES ''local_shell_call'' = Some (policy DROP_LOCAL_TOOL (Some ''function_call_output'') None)"
  "map_of ITEM_POLICIES ''compaction_trigger'' = Some (policy COMPACTION_TRIGGER None None)"
  by (simp_all add: ITEM_POLICIES_def)

lemma policy_sel [simp]:
  "projection (policy s out arg) = s"
  "paired_output (policy s out arg) = out"
  "argument_field (policy s out arg) = arg"
  by (simp_all add: policy_def)

text \<open>The strategy of a known kind determines the kind, up to its few kinds.\<close>

definition kind_matches :: "string \<Rightarrow> item_policy \<Rightarrow> bool" where
  "kind_matches kind p =
     (case projection p of
        MESSAGE \<Rightarrow> kind = ''message''
      | AGENT_MESSAGE \<Rightarrow> kind = ''agent_message''
      | TOOL_CATALOG \<Rightarrow> kind = ''additional_tools''
      | COMPACTION_TRIGGER \<Rightarrow> kind = ''compaction_trigger''
      | DROP_LOCAL_TOOL \<Rightarrow> kind = ''local_shell_call''
      | OUTPUT \<Rightarrow> kind = ''function_call_output'' \<or> kind = ''custom_tool_call_output''
      | CALL \<Rightarrow> kind = ''function_call'' \<and> argument_field p = Some ''arguments'' \<or>
                kind = ''custom_tool_call'' \<and> argument_field p = Some ''input''
      | _ \<Rightarrow> True)"

lemma policies_match: "list_all (\<lambda>q. kind_matches (fst q) (snd q)) ITEM_POLICIES"
  by (simp add: ITEM_POLICIES_def SCHEMA_DRIFT_TYPES_def kind_matches_def)

lemma ITEM_POLICIES_cases:
  assumes "map_of ITEM_POLICIES kind = Some p"
  shows "kind_matches kind p"
  using map_of_SomeD [OF assms] policies_match by (auto simp: list_all_iff)

lemma kinds [simp]:
  "call_kind ''function_call''" "call_kind ''custom_tool_call''" "call_kind ''local_shell_call''"
  "output_kind ''function_call_output''" "output_kind ''custom_tool_call_output''"
  by (simp_all add: call_kind_def output_kind_def paired_kind_def policy_lookup PAIRED_OUTPUTS_eq)

lemma paired_kinds [simp]:
  "paired_kind ''function_call'' = Some ''function_call_output''"
  "paired_kind ''custom_tool_call'' = Some ''custom_tool_call_output''"
  "paired_kind ''local_shell_call'' = Some ''function_call_output''"
  by (simp_all add: paired_kind_def policy_lookup)

lemma call_argument_fields_eq:
  "call_argument_fields = [(''function_call'', ''arguments''), (''custom_tool_call'', ''input'')]"
  by (simp add: call_argument_fields_def ITEM_POLICIES_def policy_def SCHEMA_DRIFT_TYPES_def
      List.map_filter_simps)

text \<open>How one step of the loop acts on an item of a known kind.\<close>

definition item_kind :: "jdict \<Rightarrow> json" where
  "item_kind item = (if has_key item ''type'' then jget item ''type'' else JStr ''message'')"

lemma project_item_kinds:
  "item_kind item = JStr ''message'' \<Longrightarrow>
     project_item env st (JObj item) = without_relationships st (project_message env item)"
  "item_kind item = JStr ''agent_message'' \<Longrightarrow>
     project_item env st (JObj item) = without_relationships st (project_agent_message item)"
  "item_kind item = JStr ''additional_tools'' \<Longrightarrow>
     project_item env st (JObj item) = without_relationships st (project_tool_catalog item)"
  "item_kind item = JStr ''compaction_trigger'' \<Longrightarrow>
     project_item env st (JObj item) = without_relationships st (project_compaction_trigger item)"
  "item_kind item = JStr ''function_call'' \<Longrightarrow>
     project_item env st (JObj item) =
       with_relationships st (project_call item ''function_call'' ''arguments'' (relationships st))"
  "item_kind item = JStr ''custom_tool_call'' \<Longrightarrow>
     project_item env st (JObj item) =
       with_relationships st (project_call item ''custom_tool_call'' ''input'' (relationships st))"
  "kind = ''function_call_output'' \<or> kind = ''custom_tool_call_output'' \<Longrightarrow> item_kind item = JStr kind \<Longrightarrow>
     project_item env st (JObj item) =
       (if call_type (relationships st) (jget item ''call_id'') = Some ''local_shell_call''
        then with_relationships st (dropped_output (project_output env item kind (relationships st)))
        else if \<not> has_key item ''call_id''
        then without_relationships st (project_detached_delivery item)
        else with_relationships st (project_output env item kind (relationships st)))"
  unfolding item_kind_def [symmetric] project_item_def
  by (auto simp: policy_lookup item_kind_def [symmetric] Let_def)

text \<open>Every accepted item takes one of these steps.\<close>

lemma project_item_cases:
  assumes "project_item env st raw = Inr st'"
  obtains (drop) item k where "raw = JObj item" "st' = st\<lparr>totals := drop_metrics k item (totals st)\<rparr>"
    | (message) item v im where "raw = JObj item" "project_message env item = Inr (v, im)"
      "st' = record_item st (v, im, relationships st)"
    | (agent) item v im where "raw = JObj item" "item_kind item = JStr ''agent_message''"
      "project_agent_message item = Inr (v, im)" "st' = record_item st (v, im, relationships st)"
    | (catalog) item v im where "raw = JObj item" "item_kind item = JStr ''additional_tools''"
      "project_tool_catalog item = Inr (v, im)" "st' = record_item st (v, im, relationships st)"
    | (trigger) item v im where "raw = JObj item"
      "project_compaction_trigger item = Inr (v, im)" "st' = record_item st (v, im, relationships st)"
    | (detached) item v im where "raw = JObj item"
      "project_detached_delivery item = Inr (v, im)" "st' = record_item st (v, im, relationships st)"
    | (call) item kind arg v im rel where "raw = JObj item"
      "kind = ''function_call'' \<and> arg = ''arguments'' \<or> kind = ''custom_tool_call'' \<and> arg = ''input''"
      "project_call item kind arg (relationships st) = Inr (v, im, rel)" "st' = record_item st (v, im, rel)"
    | (local_call) item im rel where "raw = JObj item"
      "drop_local_tool_call item (relationships st) = Inr (im, rel)" "st' = record_item st (None, im, rel)"
    | (local_output) item kind v im rel where "raw = JObj item"
      "kind = ''function_call_output'' \<or> kind = ''custom_tool_call_output''"
      "call_type (relationships st) (jget item ''call_id'') = Some ''local_shell_call''"
      "project_output env item kind (relationships st) = Inr (v, im, rel)"
      "st' = record_item st (None, im\<lparr>im_changed := 1\<rparr>, rel)"
    | (tool_output) item kind v im rel where "raw = JObj item"
      "kind = ''function_call_output'' \<or> kind = ''custom_tool_call_output''"
      "call_type (relationships st) (jget item ''call_id'') \<noteq> Some ''local_shell_call''"
      "project_output env item kind (relationships st) = Inr (v, im, rel)" "st' = record_item st (v, im, rel)"
proof -
  from assms obtain item kind p where raw: "raw = JObj item" and kind: "item_kind item = JStr kind"
    and p: "map_of ITEM_POLICIES kind = Some p"
    by (auto simp: project_item_def Let_def item_kind_def split: option.splits)
  have match: "kind_matches kind p" by (rule ITEM_POLICIES_cases [OF p])
  show ?thesis
  proof (cases "projection p")
    case MESSAGE
    with match kind assms raw show ?thesis
      by (auto simp: kind_matches_def project_item_kinds without_relationships_def intro: message)
  next
    case AGENT_MESSAGE
    with match kind assms raw show ?thesis
      by (auto simp: kind_matches_def project_item_kinds without_relationships_def intro: agent)
  next
    case CALL
    with match kind assms raw show ?thesis
      by (auto simp: kind_matches_def project_item_kinds with_relationships_def intro: call)
  next
    case OUTPUT
    with match have k: "kind = ''function_call_output'' \<or> kind = ''custom_tool_call_output''"
      by (simp add: kind_matches_def)
    from assms show ?thesis
      unfolding raw project_item_kinds(7) [OF k kind]
      by (auto simp: with_relationships_def without_relationships_def dropped_output_def
          split: if_splits intro: local_output [OF raw k] detached [OF raw] tool_output [OF raw k])
  next
    case TOOL_CATALOG
    with match kind assms raw show ?thesis
      by (auto simp: kind_matches_def project_item_kinds without_relationships_def intro: catalog)
  next
    case COMPACTION_TRIGGER
    with match kind assms raw show ?thesis
      by (auto simp: kind_matches_def project_item_kinds without_relationships_def intro: trigger)
  next
    case DROP_LOCAL_TOOL
    with p assms raw kind show ?thesis
      by (auto simp: project_item_def item_kind_def [symmetric] Let_def intro: local_call)
  qed (use p assms raw kind in \<open>auto simp: project_item_def item_kind_def [symmetric] Let_def intro: drop\<close>)
qed

section \<open>The grammar of projected items\<close>

text \<open>Fields an agent message keeps on the wire, and the fields of every other replayed item.\<close>

definition AGENT_WIRE_FIELDS :: "string list" where
  "AGENT_WIRE_FIELDS =
     [''type'', ''id'', ''author'', ''recipient'', ''phase'', ''content'', ''encrypted_content'']"

definition WIRE_FIELDS :: "string list" where
  "WIRE_FIELDS =
     [''type'', ''role'', ''content'', ''phase'', ''call_id'', ''name'', ''arguments'', ''input'',
      ''namespace'', ''caller'', ''encrypted_function_args'', ''output'']"

inductive portable_item :: "py_env \<Rightarrow> json \<Rightarrow> bool" for env where
  message: "role \<in> {''user'', ''developer'', ''system''} \<Longrightarrow> portable_content env c \<Longrightarrow>
    portable_item env (JObj [(''type'', JStr ''message''), (''role'', JStr role), (''content'', c)])"
| assistant: "s \<noteq> [] \<Longrightarrow> ph = [] \<or> (\<exists>p \<in> set VALID_PHASES. ph = [(''phase'', JStr p)]) \<Longrightarrow>
    portable_item env (JObj ([(''type'', JStr ''message''), (''role'', JStr ''assistant''),
                              (''content'', JStr s)] @ ph))"
| delivery: "s \<noteq> [] \<Longrightarrow> p \<in> set VALID_PHASES \<Longrightarrow> portable_item env (assistant_message (JStr p) s)"
| agent: "jget d ''type'' = JStr ''agent_message'' \<Longrightarrow> keys_within d AGENT_WIRE_FIELDS \<Longrightarrow>
    portable_item env (JObj d)"
| call: "kind = ''function_call'' \<and> arg = ''arguments'' \<or> kind = ''custom_tool_call'' \<and> arg = ''input'' \<Longrightarrow>
    nonempty_str (jget item ''call_id'') \<Longrightarrow> nonempty_str (jget item ''name'') \<Longrightarrow>
    is_str (jget item arg) \<Longrightarrow> valid_caller (jget item ''caller'') \<Longrightarrow>
    jget item ''namespace'' = JNull \<or> nonempty_str (jget item ''namespace'') \<Longrightarrow>
    encrypted_args_ok item \<Longrightarrow>
    portable_item env (JObj (projected_call item kind arg))"
| tool_output: "kind = ''function_call_output'' \<or> kind = ''custom_tool_call_output'' \<Longrightarrow>
    nonempty_str c \<Longrightarrow> portable_content env out \<Longrightarrow>
    cl = [] \<or> (\<exists>v. valid_caller v \<and> v \<noteq> JNull \<and> cl = [(''caller'', v)]) \<Longrightarrow>
    portable_item env (JObj ([(''type'', JStr kind), (''call_id'', c), (''output'', out)] @ cl))"
| trigger: "portable_item env (JObj [(''type'', JStr ''compaction_trigger'')])"
| catalog: "jget d ''type'' = JStr ''additional_tools'' \<Longrightarrow> keys_within d TOOL_CATALOG_FIELDS \<Longrightarrow>
    nonempty_str (jget d ''role'') \<Longrightarrow> valid_tools (jget d ''tools'') \<Longrightarrow>
    portable_item env (JObj d)"

lemma unknown_fields_Inr [simp]: "unknown_fields d fs why = Inr u \<longleftrightarrow> keys_within d fs"
  by (simp add: unknown_fields_def)

lemma project_message_portable:
  assumes "project_message env item = Inr (Some v, im)"
  shows "portable_item env v"
proof (cases "jget item ''role'' = JStr ''assistant''")
  case True
  with assms obtain t chg enc marks where
    tx: "project_assistant_text (jget item ''content'') False 0 = Inr (t, chg, enc, marks)" and
    v: "(Some v, im) = finish_message item (JStr t) chg enc marks 0" and
    phase: "jget item ''phase'' = JNull \<or> (\<exists>p \<in> set VALID_PHASES. jget item ''phase'' = JStr p)"
    by (auto simp: project_message_def Let_def split: if_splits)
  from project_assistant_text_nonempty [OF tx] have "t \<noteq> []" .
  with True v phase show ?thesis
    by (auto simp: finish_message_def Let_def intro: portable_item.assistant [where ph = "[]", simplified]
        portable_item.assistant [where ph = "[(''phase'', JStr p)]" for p, simplified])
next
  case False
  with assms obtain role val chg enc marks loc where
    role: "jget item ''role'' = JStr role" "role \<in> set VALID_ROLES" and
    c: "project_input_content env (jget item ''content'') True False 0 = Inr (val, chg, enc, marks, loc)" and
    v: "(Some v, im) = finish_message item val chg enc marks loc" and
    phase: "jget item ''phase'' = JNull"
    by (auto simp: project_message_def Let_def split: if_splits)
  from role False have "role \<in> {''user'', ''developer'', ''system''}" by (auto simp: VALID_ROLES_def)
  from portable_item.message [OF this input_content_portable [OF c]] role(1) v phase
  show ?thesis by (simp add: finish_message_def Let_def)
qed

lemma project_agent_message_portable:
  assumes "project_agent_message item = Inr (Some v, im)" "item_kind item = JStr ''agent_message''"
  shows "portable_item env v"
proof -
  let ?native = "filter (\<lambda>p. fst p \<noteq> METADATA_FIELD \<and> fst p \<noteq> ''status'') item"
  from assms(1) have keys: "keys_within item AGENT_FIELDS"
    by (simp add: project_agent_message_def)
  have type: "jget ?native ''type'' = JStr ''agent_message''"
    using assms(2) by (induction item) (auto simp: item_kind_def split: if_splits)
  have native: "keys_within ?native AGENT_WIRE_FIELDS"
    using keys by (induction item) (auto simp: AGENT_FIELDS_def AGENT_WIRE_FIELDS_def)
  from assms(1) consider "v = JObj ?native"
    | phase s where "v = assistant_message (JStr phase) s" "phase \<in> set VALID_PHASES" "s \<noteq> []"
    by (auto simp: project_agent_message_def Let_def line_feed_def split: if_splits)
  then show ?thesis
    by cases (auto intro: portable_item.agent [OF type native] portable_item.delivery)
qed

text \<open>What an accepted call and an accepted output establish.\<close>

lemma observe_ok_call_id:
  "call_kind t \<or> output_kind t \<Longrightarrow> fst (observe rel (JStr t) cid name iid) = NoIssue \<Longrightarrow> nonempty_str cid"
  by (auto simp: observe_call_kind observe_output_kind nonempty_str_iff split: option.splits if_splits)

lemma project_call_accepts:
  assumes "project_call item kind arg rel = Inr (v, im, rel')"
  shows "v = Some (JObj (projected_call item kind arg))"
    and "im = metrics_of (\<not> json_eq (JObj (projected_call item kind arg)) (JObj item)) (id_count item) 0 0 0"
    and "observe rel (JStr kind) (jget item ''call_id'') (jget item ''name'') JNull = (NoIssue, rel')"
    and "keys_within item (CALL_FIELDS kind)" "nonempty_str (jget item ''name'')" "is_str (jget item arg)"
    and "jget item ''namespace'' = JNull \<or> nonempty_str (jget item ''namespace'')"
    and "valid_caller (jget item ''caller'')" "encrypted_args_ok item"
  using assms by (auto simp: project_call_def Let_def split: prod.splits if_splits)

lemma project_call_portable:
  assumes "project_call item kind arg rel = Inr (Some v, im, rel')"
    and "kind = ''function_call'' \<and> arg = ''arguments'' \<or> kind = ''custom_tool_call'' \<and> arg = ''input''"
  shows "portable_item env v"
proof -
  note call = project_call_accepts [OF assms(1)]
  from call(3) assms(2) have "nonempty_str (jget item ''call_id'')"
    by (intro observe_ok_call_id [of kind rel _ "jget item ''name''" JNull]) auto
  with call assms(2) show ?thesis
    by (auto intro: portable_item.call)
qed

lemma output_content_portable:
  "output_content env raw root = Inr (out, chg, enc, marks, loc) \<Longrightarrow> portable_content env out"
  by (auto simp: output_content_def EMPTY_TOOL_OUTPUT_MARKER_def split: if_splits
      dest: input_content_portable)

lemma project_output_accepts:
  assumes "project_output env item kind rel = Inr (v, im, rel')"
  obtains out chg enc marks loc w where
    "observe rel (JStr kind) (jget item ''call_id'') (jget item ''name'') (jget item ''id'') = (NoIssue, rel')"
    "valid_caller (jget item ''caller'')"
    "output_content env (jget item ''output'') (root_ciphertext item) = Inr (out, chg, enc, marks, loc)"
    "output_value item kind rel' out = Inr w" "v = Some w"
  using assms by (auto simp: project_output_def split: prod.splits if_splits)

lemma output_value_cases:
  assumes "output_value item kind rel out = Inr w"
  obtains (plain) "\<not> is_delivery rel (jget item ''id'')"
      "w = JObj ([(''type'', JStr kind), (''call_id'', jget item ''call_id''), (''output'', out)]
                 @ caller_entry item)"
    | (delivered) header t where "is_delivery rel (jget item ''id'')" "t \<noteq> []" "w = delivery_message header t"
proof (cases "is_delivery rel (jget item ''id'')")
  case True
  with assms obtain t c e m where t: "project_assistant_text out False 0 = Inr (t, c, e, m)"
    and w: "w = delivery_message ([(''type'', JStr ''tool_delivery''), (''call_id'', jget item ''call_id''),
                     (''name'', jget item ''name'')] @ caller_entry item) t"
    by (auto simp: output_value_def)
  show ?thesis by (rule delivered [OF True project_assistant_text_nonempty [OF t] w])
next
  case False
  with assms show ?thesis by (auto simp: output_value_def intro: plain)
qed

lemma caller_entry_shape:
  "valid_caller (jget item ''caller'') \<Longrightarrow>
     caller_entry item = [] \<or> (\<exists>v. valid_caller v \<and> v \<noteq> JNull \<and> caller_entry item = [(''caller'', v)])"
  by (simp add: caller_entry_def)

lemma delivery_message_portable: "t \<noteq> [] \<Longrightarrow> portable_item env (delivery_message header t)"
  unfolding delivery_message_def by (rule portable_item.delivery) (simp_all add: VALID_PHASES_def)

lemma project_output_portable:
  assumes "project_output env item kind rel = Inr (Some v, im, rel')"
    and kind: "kind = ''function_call_output'' \<or> kind = ''custom_tool_call_output''"
  shows "portable_item env v"
proof -
  from assms(1) obtain out chg enc marks loc where
    ob: "observe rel (JStr kind) (jget item ''call_id'') (jget item ''name'') (jget item ''id'') = (NoIssue, rel')"
    and caller: "valid_caller (jget item ''caller'')"
    and out: "output_content env (jget item ''output'') (root_ciphertext item) = Inr (out, chg, enc, marks, loc)"
    and v: "output_value item kind rel' out = Inr v"
    by (cases rule: project_output_accepts) auto
  from ob kind have cid: "nonempty_str (jget item ''call_id'')"
    by (intro observe_ok_call_id [of kind rel _ "jget item ''name''" "jget item ''id''"]) auto
  from v show ?thesis
    by (cases rule: output_value_cases)
      (use portable_item.tool_output [OF kind cid output_content_portable [OF out]
         caller_entry_shape [OF caller]] delivery_message_portable in auto)
qed

lemma project_detached_portable:
  "project_detached_delivery item = Inr (Some v, im) \<Longrightarrow> portable_item env v"
  by (auto simp: project_detached_delivery_def split: if_splits
      intro!: delivery_message_portable dest: project_assistant_text_nonempty)

lemma project_tool_catalog_portable:
  "project_tool_catalog item = Inr (Some v, im) \<Longrightarrow> item_kind item = JStr ''additional_tools'' \<Longrightarrow>
     portable_item env v"
  by (auto simp: project_tool_catalog_def item_kind_def split: if_splits intro!: portable_item.catalog)

lemma project_item_portable:
  assumes "project_item env st raw = Inr st'" "\<forall>v \<in> set (items_out st). portable_item env v"
  shows "\<forall>v \<in> set (items_out st'). portable_item env v"
  using assms(1)
proof (cases rule: project_item_cases)
  case (message item v im)
  with assms(2) project_message_portable show ?thesis
    by (auto simp: record_item_def split: option.splits)
next
  case (agent item v im)
  with assms(2) project_agent_message_portable show ?thesis
    by (auto simp: record_item_def split: option.splits)
next
  case (catalog item v im)
  with assms(2) project_tool_catalog_portable show ?thesis
    by (auto simp: record_item_def split: option.splits)
next
  case (trigger item v im)
  with assms(2) show ?thesis
    by (auto simp: record_item_def project_compaction_trigger_def intro: portable_item.trigger)
next
  case (detached item v im)
  with assms(2) project_detached_portable show ?thesis
    by (auto simp: record_item_def split: option.splits)
next
  case (call item kind arg v im rel)
  with assms(2) project_call_portable [of item kind arg "relationships st"] show ?thesis
    by (auto simp: record_item_def split: option.splits)
next
  case (tool_output item kind v im rel)
  with assms(2) project_output_portable [of env item kind "relationships st"] show ?thesis
    by (auto simp: record_item_def split: option.splits)
qed (use assms(2) in \<open>auto simp: record_item_def\<close>)

lemma project_input_portable:
  assumes "project_input env items = Inr (out, m)"
  shows "\<forall>v \<in> set out. portable_item env v"
proof -
  from assms obtain st where run: "res_fold (project_item env) initial_state items = Inr st"
    and out: "out = items_out st"
    by (auto simp: project_input_def split: if_splits)
  show ?thesis
    unfolding out
    by (rule res_fold_invariant [where I = "\<lambda>st. \<forall>v \<in> set (items_out st). portable_item env v", OF run])
      (simp add: initial_state_def, rule project_item_portable)
qed

text \<open>
  A request that names no state of the provider: nothing is stored, no earlier response, conversation or
  cache is referred to, no opaque reasoning is asked for, and the input is text or portable items.
\<close>

definition portable_request :: "py_env \<Rightarrow> jdict \<Rightarrow> bool" where
  "portable_request env d \<longleftrightarrow> jget d ''store'' = JBool False \<and> (\<forall>k \<in> set PROVIDER_BINDINGS. \<not> has_key d k) \<and>
     (\<forall>xs. jget d ''include'' = JArr xs \<longrightarrow> REASONING_INCLUDE \<notin> set xs) \<and>
     (nonempty_str (jget d ''input'') \<or> (\<exists>items. jget d ''input'' = JArr items \<and> (\<forall>v \<in> set items. portable_item env v)))"

lemma trim_include_sound:
  assumes "trim_include c = Some (d, b)"
  shows "(\<forall>xs. jget d ''include'' = JArr xs \<longrightarrow> REASONING_INCLUDE \<notin> set xs) \<and>
    (\<forall>k. k \<noteq> ''include'' \<longrightarrow> jget d k = jget c k) \<and> (\<forall>k. has_key d k \<longrightarrow> k = ''include'' \<or> has_key c k)"
  using assms by (auto simp: trim_include_def Let_def split: if_splits option.splits)

lemma project_request_input_sound:
  assumes "project_request_input env c = Inr (d, m)"
  shows "(nonempty_str (jget d ''input'') \<or> (\<exists>items. jget d ''input'' = JArr items \<and> (\<forall>v \<in> set items. portable_item env v))) \<and>
    (\<forall>k. k \<noteq> ''input'' \<longrightarrow> jget d k = jget c k) \<and> (\<forall>k. has_key d k \<longrightarrow> k = ''input'' \<or> has_key c k)"
  using assms project_input_portable by (auto simp: project_request_input_def split: json.splits if_splits)

lemma projected_request_portable:
  assumes "trim_include (pop_bindings (AList.update ''store'' (JBool False) payload)) = Some (c, b)"
    and "project_request_input env c = Inr (d, m)"
  shows "portable_request env d"
proof -
  note c = trim_include_sound [OF assms(1)] and d = project_request_input_sound [OF assms(2)]
  have "jget d ''store'' = JBool False"
    using c d by (simp add: pop_bindings_reads PROVIDER_BINDINGS_def)
  moreover have "\<not> has_key d k" if "k \<in> set PROVIDER_BINDINGS" for k
    using c d that by (auto simp: pop_bindings_reads PROVIDER_BINDINGS_def)
  ultimately show ?thesis using c d unfolding portable_request_def by auto
qed

text \<open>
  Claim C1.  Every body the projection lets through is portable: it is the text of a request that refers to no
  provider state, stores nothing, asks for no opaque reasoning, and whose input is text or items of the
  closed portable grammar.  The client's own bytes are passed on only when that request equals the one
  they decode to.
\<close>

theorem sanitized_body_portable:
  assumes "sanitize_responses_body env raw = Inr r" "body r = Some b"
  shows "\<exists>payload d. loads env raw = Inr (JObj payload) \<and> portable_request env d \<and>
    (status r = ''clean'' \<and> b = raw \<and> json_eq (JObj d) (JObj payload) \<or>
     status r = ''projected'' \<and> dumps_utf8 env (JObj d) = Inr b)"
proof -
  from assms obtain payload where p: "loads env raw = Inr (JObj payload)" "sanitize_payload env raw payload = Inr r"
    by (auto simp: sanitize_responses_body_def rejected_def split: sum.splits py_exc.splits option.splits elim!: as_obj.elims)
  from p(2) assms(2) obtain c t d m where c: "trim_include (pop_bindings (AList.update ''store'' (JBool False) payload)) = Some (c, t)"
    and d: "project_request_input env c = Inr (d, m)"
    and r: "status r = ''clean'' \<and> b = raw \<and> json_eq (JObj d) (JObj payload) \<or> status r = ''projected'' \<and> dumps_utf8 env (JObj d) = Inr b"
    by (auto simp: sanitize_payload_def rejected_def Let_def split: option.splits sum.splits py_exc.splits if_splits)
  from projected_request_portable [OF c d] p(1) r show ?thesis by blast
qed

theorem sanitized_body_portable_witness:
  "\<exists>r b payload d. sanitize_responses_body (sample_env sample_request) [] = Inr r \<and> body r = Some b \<and>
     loads (sample_env sample_request) [] = Inr (JObj payload) \<and> portable_request (sample_env sample_request) d"
proof -
  have "(case sanitize_responses_body (sample_env sample_request) [] of Inr r \<Rightarrow> body r \<noteq> None | Inl _ \<Rightarrow> False)" by code_simp
  then obtain r b where "sanitize_responses_body (sample_env sample_request) [] = Inr r" "body r = Some b"
    by (auto split: sum.splits)
  with sanitized_body_portable [OF this] show ?thesis by blast
qed

end
