(* ===== verification/Digest.thy ===== *)
theory Digest
  imports Json "HOL-Library.Char_ord" "HOL-Library.List_Lexorder" "HOL-Library.Multiset"
begin

text \<open>
  \<open>json_value.py\<close> and \<open>service/digest.py\<close>: validation and freezing of JSON values, the canonical JSON
  text of release state, and the aggregate identity of a map from file paths to SHA-256 digests.  The
  lemmas show that canonical text does not depend on the order of entries and that the bytes hashed
  for an aggregate determine the map.
\<close>

section \<open>Validated and frozen values\<close>

text \<open>\<open>is_json_value\<close>; a float is given by its text, and \<open>math.isfinite\<close> refuses three of them.\<close>

fun is_json_value :: "json \<Rightarrow> bool" where
  "is_json_value (JFloat r) = (r \<notin> {''inf'', ''-inf'', ''nan''})"
| "is_json_value (JArr xs) = (\<forall>x \<in> set xs. is_json_value x)"
| "is_json_value (JObj d) = (\<forall>p \<in> set d. is_json_value (snd p))"
| "is_json_value _ = True"

definition is_json_object :: "json \<Rightarrow> bool" where
  "is_json_object v \<longleftrightarrow> is_obj v \<and> is_json_value v"

text \<open>Frozen values: read-only mappings and tuples.\<close>

datatype frozen =
    Frozen_scalar json
  | Frozen_tuple "frozen list"
  | Frozen_map "(string \<times> frozen) list"

fun freeze :: "json \<Rightarrow> frozen" where
  "freeze (JArr xs) = Frozen_tuple (map freeze xs)"
| "freeze (JObj d) = Frozen_map (map (\<lambda>p. (fst p, freeze (snd p))) d)"
| "freeze v = Frozen_scalar v"

definition freeze_object :: "json \<Rightarrow> frozen res" where
  "freeze_object v = (if is_json_object v then Inr (freeze v) else Inl TypeError)"

lemma size_Frozen_mem [termination_simp]:
  "p \<in> set d \<Longrightarrow> size (snd p) < Suc (size_list (size_prod (\<lambda>_. 0) size) (d :: (string \<times> frozen) list))"
  by (induction d) auto

fun thaw_value :: "frozen \<Rightarrow> json" where
  "thaw_value (Frozen_scalar v) = v"
| "thaw_value (Frozen_tuple xs) = JArr (map thaw_value xs)"
| "thaw_value (Frozen_map d) = JObj (map (\<lambda>p. (fst p, thaw_value (snd p))) d)"

section \<open>Canonical JSON\<close>

text \<open>
  \<open>sort_keys=True\<close> sorts the entries of every object by key.  Python compares text by code points, which
  is the order of the UTF-8 bytes.
\<close>

fun sort_json :: "json \<Rightarrow> json" where
  "sort_json (JArr xs) = JArr (map sort_json xs)"
| "sort_json (JObj d) = JObj (sort_key fst (map (\<lambda>p. (fst p, sort_json (snd p))) d))"
| "sort_json v = v"

definition canonical_json :: "py_env \<Rightarrow> json \<Rightarrow> bytes res" where
  "canonical_json env v =
     (if \<not> is_json_object v then Inl (ValueError ''canonical JSON requires a finite object with string keys'')
      else res_bind (json_dumps env False (sort_json v)) (\<lambda>s. encode_utf8 (s @ [CHR 10])))"

section \<open>Digests\<close>

definition lower_hex_digit :: "char \<Rightarrow> bool" where
  "lower_hex_digit c \<longleftrightarrow> c \<in> set ''0123456789abcdef''"

definition is_sha256 :: "string \<Rightarrow> bool" where
  "is_sha256 s \<longleftrightarrow> length s = 64 \<and> list_all lower_hex_digit s"

definition hex_value :: "char \<Rightarrow> nat" where
  "hex_value c = (if (of_char c :: nat) < 97 then of_char c - 48 else of_char c - 87)"

text \<open>\<open>bytes.fromhex\<close> on an even number of lower-case digits.\<close>

fun fromhex :: "string \<Rightarrow> bytes" where
  "fromhex (a # b # s) = char_of (16 * hex_value a + hex_value b) # fromhex s"
| "fromhex _ = []"

text \<open>\<open>n.to_bytes(8, "big")\<close>, which raises when eight bytes are not enough.\<close>

fun big_endian :: "nat \<Rightarrow> nat \<Rightarrow> bytes" where
  "big_endian 0 n = []"
| "big_endian (Suc k) n = big_endian k (n div 256) @ [char_of (n mod 256)]"

definition to_bytes8 :: "nat \<Rightarrow> bytes res" where
  "to_bytes8 n = (if n < 256 ^ 8 then Inr (big_endian 8 n) else Inl (OtherError ''OverflowError''))"

text \<open>What one entry adds to the hash.\<close>

definition entry_bytes :: "string \<Rightarrow> string \<Rightarrow> bytes res" where
  "entry_bytes relative digest =
     (if relative = [] \<or> \<not> is_sha256 digest then Inl (ValueError (''invalid serving payload digest: '' @ relative))
      else res_bind (encode_utf8 relative) (\<lambda>path.
           res_bind (to_bytes8 (length path)) (\<lambda>n.
           res_bind (to_bytes8 (length (fromhex digest))) (\<lambda>k.
             Inr (n @ path @ k @ fromhex digest)))))"

definition aggregate_bytes :: "string dict \<Rightarrow> bytes res" where
  "aggregate_bytes file_digests =
     res_bind (res_map (\<lambda>p. entry_bytes (fst p) (snd p)) (sort_key fst file_digests)) (\<lambda>es. Inr (concat es))"

definition aggregate_file_digests_sha256 :: "py_env \<Rightarrow> string dict \<Rightarrow> string res" where
  "aggregate_file_digests_sha256 env file_digests =
     res_bind (aggregate_bytes file_digests) (\<lambda>b. Inr (sha256_hex env b))"

section \<open>Freezing and thawing\<close>

lemma thaw_freeze: "thaw_value (freeze v) = v"
proof (induction v)
  case (JArr xs)
  then show ?case by (simp add: map_idI)
next
  case (JObj d)
  have "thaw_value (freeze (snd p)) = snd p" if "p \<in> set d" for p
    using JObj that by (cases p) force
  then show ?case by (simp add: map_idI)
qed simp_all

text \<open>
  Freezing loses nothing: thawing what \<open>freeze_object\<close> made of a value gives that value back,
  entries in order; and it accepts exactly the finite objects.
\<close>

theorem freeze_thaw: "(case freeze_object v of Inr f \<Rightarrow> is_json_object v \<and> thaw_value f = v
    | Inl e \<Rightarrow> e = TypeError \<and> (is_obj v = False \<or> is_json_value v = False))"
  by (auto simp: freeze_object_def thaw_freeze is_json_object_def)

section \<open>Canonical text ignores the order of entries\<close>

inductive reordered :: "json \<Rightarrow> json \<Rightarrow> bool" where
  same: "reordered v v"
| items: "list_all2 reordered xs ys \<Longrightarrow> reordered (JArr xs) (JArr ys)"
| entries: "list_all2 (rel_prod (=) reordered) d d' \<Longrightarrow> mset d' = mset d'' \<Longrightarrow> distinct_keys d \<Longrightarrow>
    reordered (JObj d) (JObj d'')"

lemma sort_key_mset:
  assumes "mset xs = mset ys" "distinct (map fst xs)"
  shows "sort_key fst xs = sort_key fst ys"
  by (rule sort_key_inj_key_eq) (use assms in \<open>auto simp: distinct_map\<close>)

lemma sort_json_reordered: "reordered v w \<Longrightarrow> sort_json v = sort_json w"
proof (induction rule: reordered.induct)
  case (items xs ys)
  then show ?case by (auto simp: list_all2_conv_all_nth intro: nth_equalityI)
next
  case (entries d d' d'')
  let ?f = "\<lambda>p. (fst p, sort_json (snd p))"
  have same: "map ?f d = map ?f d'"
    using entries(1) by (auto simp: list_all2_conv_all_nth rel_prod_conv case_prod_beta intro!: nth_equalityI)
  have "distinct (map fst (map ?f d'))"
    using entries(3) unfolding same [symmetric] by (simp add: comp_def)
  moreover have "mset (map ?f d') = mset (map ?f d'')" using entries(2) by simp
  ultimately show ?case by (simp add: same sort_key_mset)
qed simp

lemma is_json_value_reordered: "reordered v w \<Longrightarrow> is_json_value v = is_json_value w"
proof (induction rule: reordered.induct)
  case (items xs ys)
  then show ?case by (auto simp: list_all2_conv_all_nth all_set_conv_all_nth)
next
  case (entries d d' d'')
  have "(\<forall>p \<in> set d. is_json_value (snd p)) = (\<forall>p \<in> set d'. is_json_value (snd p))"
    using entries(1) by (auto simp: list_all2_conv_all_nth all_set_conv_all_nth rel_prod_conv case_prod_beta)
  moreover have "set d' = set d''" using entries(2) by (rule mset_eq_setD)
  ultimately show ?case by simp
qed simp

text \<open>
  Canonical JSON depends on the mapping only: values whose objects have the same entries in
  any order, at every depth, have the same canonical text, so equal release state has equal bytes.
\<close>

theorem canonical_json_order:
  assumes "reordered v w"
  shows "canonical_json env v = canonical_json env w"
proof -
  have "is_obj v = is_obj w" using assms by cases auto
  then show ?thesis
    using sort_json_reordered [OF assms] is_json_value_reordered [OF assms]
    by (simp add: canonical_json_def is_json_object_def)
qed

theorem canonical_json_order_witness:
  "canonical_json (sample_env JNull) (JObj [(''b'', JInt 1), (''a'', JNull)]) =
     canonical_json (sample_env JNull) (JObj [(''a'', JNull), (''b'', JInt 1)])"
proof (rule canonical_json_order)
  show "reordered (JObj [(''b'', JInt 1), (''a'', JNull)]) (JObj [(''a'', JNull), (''b'', JInt 1)])"
    by (rule reordered.entries [where d' = "[(''b'', JInt 1), (''a'', JNull)]"])
      (auto intro: reordered.same)
qed

section \<open>The hashed bytes determine the map\<close>

lemma length_big_endian [simp]: "length (big_endian k n) = k"
  by (induction k arbitrary: n) auto

lemma big_endian_inj: "big_endian k n = big_endian k m \<Longrightarrow> n < 256 ^ k \<Longrightarrow> m < 256 ^ k \<Longrightarrow> n = m"
proof (induction k arbitrary: n m)
  case (Suc k)
  from Suc.prems(1) have p: "big_endian k (n div 256) = big_endian k (m div 256)"
    and c: "(char_of (n mod 256) :: char) = char_of (m mod 256)" by auto
  have "n div 256 < 256 ^ k" "m div 256 < 256 ^ k"
    using Suc.prems(2,3) by (auto simp: less_mult_imp_div_less mult.commute)
  from Suc.IH [OF p this] have "n div 256 = m div 256" .
  moreover have "n mod 256 = m mod 256"
    using arg_cong [OF c, of "of_char :: char \<Rightarrow> nat"] by simp
  ultimately show ?case by (metis div_mult_mod_eq)
qed simp

lemma hex_digits:
  assumes "lower_hex_digit c"
  shows "hex_value c < 16" "\<And>d. lower_hex_digit d \<Longrightarrow> hex_value c = hex_value d \<Longrightarrow> c = d"
proof -
  have all: "list_all (\<lambda>c. hex_value c < 16 \<and> list_all (\<lambda>d. hex_value c = hex_value d \<longrightarrow> c = d) ''0123456789abcdef'')
      ''0123456789abcdef''"
    by (simp add: hex_value_def)
  with assms show "hex_value c < 16" by (simp only: lower_hex_digit_def list_all_iff)
  show "c = d" if "lower_hex_digit d" "hex_value c = hex_value d" for d
    using all assms that by (simp only: lower_hex_digit_def list_all_iff)
qed

lemma sixteens_inj: "16 * m + i = 16 * n + j \<Longrightarrow> i < 16 \<Longrightarrow> j < 16 \<Longrightarrow> m = n \<and> i = j" for m n i j :: nat
  using linorder_neqE_nat [of m n] by fastforce

lemma hex_pair_inj:
  assumes "lower_hex_digit a" "lower_hex_digit b" "lower_hex_digit a'" "lower_hex_digit b'"
    and "(char_of (16 * hex_value a + hex_value b) :: char) = char_of (16 * hex_value a' + hex_value b')"
  shows "a = a' \<and> b = b'"
proof -
  note lt = assms(1-4) [THEN hex_digits(1)]
  have "(16 * hex_value a + hex_value b) mod 256 = (16 * hex_value a' + hex_value b') mod 256"
    using arg_cong [OF assms(5), of "of_char :: char \<Rightarrow> nat"] by (simp only: of_char_of)
  moreover have "16 * hex_value a + hex_value b < 256" "16 * hex_value a' + hex_value b' < 256"
    using lt by linarith+
  ultimately have "16 * hex_value a + hex_value b = 16 * hex_value a' + hex_value b'"
    by (simp only: mod_less)
  then have "hex_value a = hex_value a' \<and> hex_value b = hex_value b'" using lt(2,4) by (rule sixteens_inj)
  with assms(1-4) hex_digits(2) show ?thesis by blast
qed

lemma fromhex_inj:
  "length s = length t \<Longrightarrow> even (length s) \<Longrightarrow> list_all lower_hex_digit s \<Longrightarrow> list_all lower_hex_digit t \<Longrightarrow>
   fromhex s = fromhex t \<Longrightarrow> s = t"
proof (induction s arbitrary: t rule: fromhex.induct)
  case (1 a b s)
  then obtain a' b' t' where t: "t = a' # b' # t'" by (metis length_Suc_conv)
  from "1.prems" t have "a = a' \<and> b = b'" by (intro hex_pair_inj) simp_all
  moreover from "1.prems" t have "s = t'" by (intro "1.IH") simp_all
  ultimately show ?case using t by simp
qed auto

lemma length_fromhex: "even (length s) \<Longrightarrow> length (fromhex s) = length s div 2"
  by (induction s rule: fromhex.induct) auto

lemma entry_bytes_Inr:
  "entry_bytes r d = Inr e \<longleftrightarrow> r \<noteq> [] \<and> is_sha256 d \<and> \<not> has_surrogate r \<and> length r < 256 ^ 8 \<and>
     e = big_endian 8 (length r) @ r @ big_endian 8 32 @ fromhex d"
  by (auto simp: entry_bytes_def encode_utf8_def to_bytes8_def is_sha256_def length_fromhex)

lemma entry_bytes_inj:
  assumes "entry_bytes r d = Inr e" "entry_bytes r' d' = Inr e'" "e @ x = e' @ x'"
  shows "r = r' \<and> d = d' \<and> x = x'"
proof -
  note e = assms(1) [unfolded entry_bytes_Inr] and e' = assms(2) [unfolded entry_bytes_Inr]
  from e e' assms(3) have all: "big_endian 8 (length r) @ (r @ big_endian 8 32 @ fromhex d @ x) =
      big_endian 8 (length r') @ (r' @ big_endian 8 32 @ fromhex d' @ x')" by simp
  then have "big_endian 8 (length r) = big_endian 8 (length r')" by (simp add: append_eq_append_conv)
  with e e' have len: "length r = length r'" using big_endian_inj by blast
  with all have "r = r' \<and> fromhex d @ x = fromhex d' @ x'"
    by (simp add: append_eq_append_conv)
  moreover have "length (fromhex d) = length (fromhex d')"
    using e e' by (simp add: is_sha256_def length_fromhex)
  ultimately have "r = r'" "fromhex d = fromhex d'" "x = x'" by (simp_all add: append_eq_append_conv)
  with e e' fromhex_inj [of d d'] show ?thesis by (simp add: is_sha256_def)
qed

lemma concat_entries_inj:
  "list_all2 (\<lambda>p e. entry_bytes (fst p) (snd p) = Inr e) xs es \<Longrightarrow>
   list_all2 (\<lambda>p e. entry_bytes (fst p) (snd p) = Inr e) ys fs \<Longrightarrow> concat es = concat fs \<Longrightarrow> xs = ys"
proof (induction xs arbitrary: es ys fs)
  case Nil
  have "ys = []"
  proof (cases ys)
    case (Cons y ys')
    with Nil(2) obtain f fs' where f: "fs = f # fs'" "entry_bytes (fst y) (snd y) = Inr f"
      by (auto simp: list_all2_Cons1)
    then have "f \<noteq> []" by (auto simp: entry_bytes_Inr)
    with f Nil(1,3) show ?thesis by simp
  qed
  then show ?case by simp
next
  case (Cons x xs)
  from Cons.prems(1) obtain e es' where e: "es = e # es'" "entry_bytes (fst x) (snd x) = Inr e"
    "list_all2 (\<lambda>p e. entry_bytes (fst p) (snd p) = Inr e) xs es'" by (auto simp: list_all2_Cons1)
  have "e \<noteq> []" using e(2) by (auto simp: entry_bytes_Inr)
  with Cons.prems(2,3) e(1) obtain y ys' f fs' where f: "ys = y # ys'" "fs = f # fs'"
    "entry_bytes (fst y) (snd y) = Inr f" "list_all2 (\<lambda>p e. entry_bytes (fst p) (snd p) = Inr e) ys' fs'"
    by (cases ys) (auto simp: list_all2_Cons1)
  from entry_bytes_inj [OF e(2) f(3), of "concat es'" "concat fs'"] Cons.prems(3) e(1) f(2)
  have "fst x = fst y \<and> snd x = snd y \<and> concat es' = concat fs'" by simp
  with Cons.IH [OF e(3) f(4)] f(1) show ?case by (simp add: prod_eq_iff)
qed

text \<open>
  The bytes hashed for a payload determine it: when two digest maps are accepted and hash the
  same bytes, they list the same files with the same digests, since every path and digest is preceded
  by its length.  So two payloads with one aggregate identity differ only by a collision of SHA-256.
\<close>

theorem aggregate_bytes_injective:
  assumes "aggregate_bytes xs = Inr b" "aggregate_bytes ys = Inr b"
  shows "mset xs = mset ys"
proof -
  from assms obtain es fs where
    "res_map (\<lambda>p. entry_bytes (fst p) (snd p)) (sort_key fst xs) = Inr es"
    "res_map (\<lambda>p. entry_bytes (fst p) (snd p)) (sort_key fst ys) = Inr fs" "concat es = concat fs"
    by (auto simp: aggregate_bytes_def)
  then have "sort_key fst xs = sort_key fst ys"
    unfolding res_map_Inr by (rule concat_entries_inj)
  then show ?thesis by (metis mset_sort)
qed

theorem aggregate_bytes_injective_witness:
  "\<exists>b. aggregate_bytes [(''a'', replicate 64 (CHR ''0''))] = Inr b \<and>
     mset [(''a'', replicate 64 (CHR ''0''))] = mset [(''a'', replicate 64 (CHR ''0''))]"
proof -
  have "is_sha256 (replicate 64 (CHR ''0''))"
    by (simp add: is_sha256_def list_all_iff lower_hex_digit_def)
  then obtain e where "entry_bytes ''a'' (replicate 64 (CHR ''0'')) = Inr e"
    by (simp add: entry_bytes_Inr)
  then have "aggregate_bytes [(''a'', replicate 64 (CHR ''0''))] = Inr e"
    by (simp add: aggregate_bytes_def)
  from aggregate_bytes_injective [OF this this] this show ?thesis by blast
qed

end
