(* ===== verification/Handoff_Protocol.thy ===== *)
theory Handoff_Protocol
  imports Complex_Main Effects Digest
begin

text \<open>
  \<open>service/handoff/protocol.py\<close>: the framing of control messages, the control channel between a listener
  process and the replacement it launched, the transfer of the listening socket and the health probe.
  The state of one process is the record \<open>proc\<close>; what happened in it, in order, is its trace.
\<close>

section \<open>Session and process state\<close>

datatype handoff_state =
    Idle | Preparing | Ready | Committing | Serving | Finalizing | Finalized | Aborting | Rolled_back

datatype handoff_outcome = Outcome_finalized | Outcome_rolled_back | Outcome_abort_unconfirmed

text \<open>
  \<open>_HANDOFF_SESSION\<close>.  \<open>ses_outcome_ready\<close> is whether the event is set; an absent \<open>timeout_seconds\<close> and
  an absent \<open>expected\<close> are \<open>None\<close>.
\<close>

record session =
  ses_state :: handoff_state
  ses_transaction_id :: json
  ses_child_pid :: "int option"
  ses_outcome :: "handoff_outcome option"
  ses_outcome_ready :: bool
  ses_lease_seconds :: rat
  ses_drain_deadline :: "rat option"
  ses_timeout_seconds :: "rat option"
  ses_expected :: "jdict option"

text \<open>
  What a launched process does, as its launcher sees it: what the n-th receive finds, given what was
  sent so far (how long until the next line is there, and the line or the failure of the read), which
  writes fail, what the n-th \<open>poll\<close> sees, and what the n-th signal and wait end with.
\<close>

datatype stop_outcome = Exits | Stop_os_error | Stop_times_out | Stop_raises py_exc

record child_behaviour =
  receives :: "nat \<Rightarrow> bytes list \<Rightarrow> rat \<times> bytes res"
  write_fails :: "nat \<Rightarrow> py_exc option"
  polls :: "nat \<Rightarrow> bool"
  stops :: "nat \<Rightarrow> stop_outcome"

text \<open>\<open>HandoffChild\<close>; \<open>returncode_seen\<close> is whether the process object knows that the process ended.\<close>

record handoff_child =
  behaviour :: child_behaviour
  runtime_pid :: "int option"
  received :: nat
  reader_stopped :: bool
  sent_bytes :: "bytes list"
  write_attempts :: nat
  polled :: nat
  stop_attempts :: nat
  returncode_seen :: bool

datatype listener = Listener_fd int | Listener_share bytes

datatype proc_event =
    Entered handoff_state
  | Launched string
  | To_child json
  | From_child json
  | Exit_seen
  | Stop_accepting
  | Serve
  | Close_listener
  | To_parent json
  | From_parent json
  | Healthy json
  | Logged string

record proc =
  proc_clock :: rat
  proc_session :: session
  proc_child :: "handoff_child option"
  proc_launches :: nat
  proc_shutdowns :: nat
  proc_reads :: nat
  proc_writes :: nat
  proc_probes :: nat
  proc_trace :: "proc_event list"

type_synonym 'a proc_act = "(proc, 'a) eff"

definition trace_event :: "proc_event \<Rightarrow> unit proc_act" where
  "trace_event e = act_modify (\<lambda>w. w\<lparr>proc_trace := proc_trace w @ [e]\<rparr>)"

definition on_session :: "(session \<Rightarrow> session) \<Rightarrow> unit proc_act" where
  "on_session f = act_modify (\<lambda>w. w\<lparr>proc_session := f (proc_session w)\<rparr>)"

definition get_session :: "(session \<Rightarrow> 'a) \<Rightarrow> 'a proc_act" where
  "get_session f w = (Inr (f (proc_session w)), w)"

definition pass_time :: "rat \<Rightarrow> unit proc_act" where
  "pass_time d = act_modify (\<lambda>w. w\<lparr>proc_clock := proc_clock w + d\<rparr>)"

text \<open>
  What a process takes from the operating system: launching a replacement, the descriptor and the
  sharing of the listening socket, reconstructing one, its own control pipes, health answers.
\<close>

record handoff_env =
  hpy :: py_env
  float_as_int :: "string \<Rightarrow> int option"
  windows :: bool
  b64encode :: "bytes \<Rightarrow> string"
  listener_fileno :: int
  listener_share :: "(int \<Rightarrow> bytes res) option"
  launch :: "nat \<Rightarrow> string \<Rightarrow> child_behaviour res"
  shutdown_fails :: "nat \<Rightarrow> py_exc option"
  fromshare :: "(bytes \<Rightarrow> unit res) option"
  socket_of_fd :: "int \<Rightarrow> unit res"
  parent_line :: "nat \<Rightarrow> bytes res"
  parent_write_fails :: "nat \<Rightarrow> py_exc option"
  health_answer :: "nat \<Rightarrow> rat \<Rightarrow> rat \<times> bytes res"

section \<open>Errors and equality\<close>

definition HandoffError :: py_exc where
  "HandoffError = OtherError ''HandoffError''"

definition HandoffConflictError :: py_exc where
  "HandoffConflictError = OtherError ''HandoffConflictError''"

definition is_handoff_error :: "py_exc \<Rightarrow> bool" where
  "is_handoff_error e \<longleftrightarrow> e = HandoffError \<or> e = HandoffConflictError"

definition is_os_error :: "py_exc \<Rightarrow> bool" where
  "is_os_error e \<longleftrightarrow> e = BrokenPipe \<or> e = OtherError ''OSError''"

text \<open>
  Python's \<open>==\<close> on decoded messages: numbers by value (\<open>float_as_int\<close> gives the integer a float
  equals), dictionaries by key.
\<close>

fun number_value :: "(string \<Rightarrow> int option) \<Rightarrow> json \<Rightarrow> int option" where
  "number_value fi (JBool b) = Some (if b then 1 else 0)"
| "number_value fi (JInt i) = Some i"
| "number_value fi (JFloat r) = fi r"
| "number_value fi _ = None"

definition scalar_eq :: "(string \<Rightarrow> int option) \<Rightarrow> json \<Rightarrow> json \<Rightarrow> bool" where
  "scalar_eq fi v w =
     (case (number_value fi v, number_value fi w) of
        (Some i, Some j) \<Rightarrow> i = j
      | (None, None) \<Rightarrow> v = w \<and> v \<noteq> JFloat ''nan''
      | _ \<Rightarrow> False)"

fun py_eq :: "(string \<Rightarrow> int option) \<Rightarrow> json \<Rightarrow> json \<Rightarrow> bool" where
  "py_eq fi (JObj a) (JObj b) =
     (length a = length b \<and>
      (\<forall>p \<in> set a. case map_of b (fst p) of None \<Rightarrow> False | Some w \<Rightarrow> py_eq fi (snd p) w))"
| "py_eq fi (JArr xs) (JArr ys) = list_all2 (py_eq fi) xs ys"
| "py_eq fi v w = scalar_eq fi v w"

section \<open>Control messages\<close>

definition HANDOFF_PROTOCOL_VERSION :: int where
  "HANDOFF_PROTOCOL_VERSION = 2"

definition HANDOFF_CONTROL_MAX_BYTES :: nat where
  "HANDOFF_CONTROL_MAX_BYTES = 32 * 1024"

definition HANDOFF_CHILD_EXIT_TIMEOUT_SECONDS :: rat where
  "HANDOFF_CHILD_EXIT_TIMEOUT_SECONDS = 5"

definition encode_control_message :: "py_env \<Rightarrow> json \<Rightarrow> bytes res" where
  "encode_control_message env m =
     res_bind (json_dumps env True (sort_json m)) (\<lambda>s.
       let encoded = s @ [CHR 10]
       in if length encoded > HANDOFF_CONTROL_MAX_BYTES then Inl HandoffError else Inr encoded)"

definition decode_control_message :: "py_env \<Rightarrow> py_exc \<Rightarrow> bytes \<Rightarrow> jdict res" where
  "decode_control_message env closed_error line =
     (if line = [] then Inl closed_error
      else if length line > HANDOFF_CONTROL_MAX_BYTES \<or> last line \<noteq> CHR 10 then Inl HandoffError
      else (case loads env line of
              Inl e \<Rightarrow> Inl (if is_value_error e then HandoffError else e)
            | Inr (JObj d) \<Rightarrow> Inr d
            | Inr _ \<Rightarrow> Inl HandoffError))"

section \<open>The launcher's side of the channel\<close>

text \<open>The child that the running handoff owns; without one these operations have no receiver.\<close>

definition with_child :: "(handoff_child \<Rightarrow> 'a proc_act) \<Rightarrow> 'a proc_act" where
  "with_child f w = (case proc_child w of Some c \<Rightarrow> f c w | None \<Rightarrow> (Inl HandoffError, w))"

definition on_child :: "(handoff_child \<Rightarrow> handoff_child) \<Rightarrow> unit proc_act" where
  "on_child f = act_modify (\<lambda>w. w\<lparr>proc_child := map_option f (proc_child w)\<rparr>)"

definition child_runtime_pid :: "int proc_act" where
  "child_runtime_pid =
     with_child (\<lambda>c. act_lift (case runtime_pid c of Some p \<Rightarrow> Inr p | None \<Rightarrow> Inl HandoffError))"

definition send_message :: "handoff_env \<Rightarrow> json \<Rightarrow> unit proc_act" where
  "send_message env m =
     act_bind (act_lift (encode_control_message (hpy env) m)) (\<lambda>encoded.
     with_child (\<lambda>c.
       act_then (on_child (\<lambda>c. c\<lparr>write_attempts := write_attempts c + 1\<rparr>))
         (case write_fails (behaviour c) (write_attempts c) of
            Some e \<Rightarrow> act_raise (if is_os_error e \<or> is_value_error e then HandoffError else e)
          | None \<Rightarrow> act_then (on_child (\<lambda>c. c\<lparr>sent_bytes := sent_bytes c @ [encoded]\<rparr>)) (trace_event (To_child m)))))"

text \<open>
  \<open>recv_message\<close> with the thread that reads the pipe.  The thread ends with its first failure: a failed
  read, a closed pipe or an undecodable line reaches the receiver as one error, after which nothing
  arrives; an exception it does not catch ends it without a word.
\<close>

definition read_event :: "py_env \<Rightarrow> bytes res \<Rightarrow> jdict res" where
  "read_event env line = res_bind line (decode_control_message env HandoffError)"

definition reported :: "py_exc \<Rightarrow> bool" where
  "reported e \<longleftrightarrow> is_handoff_error e \<or> is_os_error e \<or> is_value_error e"

definition recv_message :: "handoff_env \<Rightarrow> rat \<Rightarrow> jdict proc_act" where
  "recv_message env timeout =
     with_child (\<lambda>c.
       let limit = max (1 / 100) timeout;
           timed_out = act_then (pass_time limit) (act_raise HandoffError);
           stop_reader = on_child (\<lambda>c. c\<lparr>reader_stopped := True\<rparr>)
       in if reader_stopped c then timed_out
          else (case receives (behaviour c) (received c) (sent_bytes c) of (delay, line) \<Rightarrow>
            act_then (on_child (\<lambda>c. c\<lparr>received := received c + 1\<rparr>))
              (if delay > limit then timed_out
               else (case read_event (hpy env) line of
                       Inr d \<Rightarrow> act_then (pass_time (max 0 delay)) (act_then (trace_event (From_child (JObj d))) (act_return d))
                     | Inl e \<Rightarrow>
                         act_then stop_reader
                           (if reported e then act_then (pass_time (max 0 delay)) (act_raise HandoffError)
                            else timed_out)))))"

fun runtime_pid_of :: "json \<Rightarrow> int option" where
  "runtime_pid_of (JInt i) = (if i \<le> 0 then None else Some i)"
| "runtime_pid_of _ = None"

definition await_runtime :: "handoff_env \<Rightarrow> rat \<Rightarrow> int proc_act" where
  "await_runtime env timeout =
     act_bind (recv_message env timeout) (\<lambda>m.
       if \<not> keys_exactly m [''type'', ''pid''] \<or> jget m ''type'' \<noteq> JStr ''started'' then act_raise HandoffError
       else (case runtime_pid_of (jget m ''pid'') of
               None \<Rightarrow> act_raise HandoffError
             | Some pid \<Rightarrow> act_then (on_child (\<lambda>c. c\<lparr>runtime_pid := Some pid\<rparr>)) (act_return pid)))"

text \<open>The process object learns that the process ended.\<close>

definition see_exit :: "bool proc_act" where
  "see_exit =
     act_then (on_child (\<lambda>c. c\<lparr>returncode_seen := True\<rparr>)) (act_then (trace_event Exit_seen) (act_return True))"

definition poll :: "bool proc_act" where
  "poll =
     with_child (\<lambda>c.
       if returncode_seen c then act_return True
       else act_then (on_child (\<lambda>c. c\<lparr>polled := polled c + 1\<rparr>))
         (if polls (behaviour c) (polled c) then see_exit else act_return False))"

text \<open>\<open>terminate\<close> or \<open>kill\<close>, then \<open>wait\<close> for at most the timeout.\<close>

fun after_signal :: "rat \<Rightarrow> stop_outcome \<Rightarrow> bool proc_act" where
  "after_signal timeout Exits = see_exit"
| "after_signal timeout Stop_os_error = poll"
| "after_signal timeout Stop_times_out = act_then (pass_time (max (1 / 100) timeout)) poll"
| "after_signal timeout (Stop_raises e) = act_raise e"

definition stop_bounded :: "rat \<Rightarrow> bool proc_act" where
  "stop_bounded timeout =
     act_bind poll (\<lambda>ended.
       if ended then act_return True
       else with_child (\<lambda>c.
         act_then (on_child (\<lambda>c. c\<lparr>stop_attempts := stop_attempts c + 1\<rparr>))
           (after_signal timeout (stops (behaviour c) (stop_attempts c)))))"

definition terminate_bounded :: "rat \<Rightarrow> bool proc_act" where
  "terminate_bounded timeout = stop_bounded timeout"

definition kill_bounded :: "rat \<Rightarrow> bool proc_act" where
  "kill_bounded timeout = stop_bounded timeout"

section \<open>Launching a replacement\<close>

definition IDENTITY_FIELDS :: "string list" where
  "IDENTITY_FIELDS =
     [''transaction_id'', ''release'', ''serving_payload_sha256'', ''release_receipt_sha256'', ''manifest_sha256'']"

text \<open>\<open>d[k]\<close> raises on a missing key.\<close>

definition jitem :: "jdict \<Rightarrow> string \<Rightarrow> json res" where
  "jitem d k = (case map_of d k of Some v \<Rightarrow> Inr v | None \<Rightarrow> Inl (OtherError ''KeyError''))"

definition identity_entries :: "jdict \<Rightarrow> jdict res" where
  "identity_entries d = res_map (\<lambda>k. res_bind (jitem d k) (\<lambda>v. Inr (k, v))) IDENTITY_FIELDS"

definition prepare_message :: "jdict \<Rightarrow> jdict res" where
  "prepare_message expected =
     res_bind (identity_entries expected) (\<lambda>entries.
       Inr ([(''type'', JStr ''prepare''), (''protocol_version'', JInt HANDOFF_PROTOCOL_VERSION)] @ entries))"

text \<open>How the listening socket travels: its share for the runtime's process, or its inherited descriptor.\<close>

definition listener_entry :: "handoff_env \<Rightarrow> int \<Rightarrow> (string \<times> json) res" where
  "listener_entry env pid =
     (if windows env
      then (case listener_share env of
              None \<Rightarrow> Inl HandoffError
            | Some share \<Rightarrow>
                (case share pid of
                   Inl e \<Rightarrow> Inl HandoffError
                 | Inr shared \<Rightarrow> Inr (''listener_share_b64'', JStr (b64encode env shared))))
      else Inr (''listener_fd'', JInt (listener_fileno env)))"

definition new_child :: "child_behaviour \<Rightarrow> handoff_child" where
  "new_child b =
     \<lparr>behaviour = b, runtime_pid = None, received = 0, reader_stopped = False, sent_bytes = [], write_attempts = 0,
      polled = 0, stop_attempts = 0, returncode_seen = False\<rparr>"

definition open_child :: "handoff_env \<Rightarrow> string \<Rightarrow> unit proc_act" where
  "open_child env executable w =
     (case launch env (proc_launches w) executable of
        Inl e \<Rightarrow> (Inl e, w\<lparr>proc_launches := proc_launches w + 1\<rparr>)
      | Inr b \<Rightarrow>
          (Inr (), w\<lparr>proc_launches := proc_launches w + 1, proc_child := Some (new_child b),
                     proc_trace := proc_trace w @ [Launched executable]\<rparr>))"

definition spawn_child :: "handoff_env \<Rightarrow> jdict \<Rightarrow> string \<Rightarrow> rat \<Rightarrow> unit proc_act" where
  "spawn_child env expected executable startup_timeout =
     act_then (open_child env executable)
     (act_bind (act_lift (prepare_message expected)) (\<lambda>m.
       act_catch
         (act_bind (await_runtime env startup_timeout) (\<lambda>pid.
          act_bind (act_lift (listener_entry env pid)) (\<lambda>entry.
            send_message env (JObj (m @ [entry])))))
         (\<lambda>e. Some
           (act_bind (terminate_bounded HANDOFF_CHILD_EXIT_TIMEOUT_SECONDS) (\<lambda>stopped.
            if stopped then act_raise e
            else act_then (kill_bounded HANDOFF_CHILD_EXIT_TIMEOUT_SECONDS) (act_raise e))))))"

section \<open>The replacement's side\<close>

fun int_like :: "json \<Rightarrow> int option" where
  "int_like (JInt i) = Some i"
| "int_like (JBool b) = Some (if b then 1 else 0)"
| "int_like _ = None"

definition listener_from_prepare :: "handoff_env \<Rightarrow> jdict \<Rightarrow> listener res" where
  "listener_from_prepare env m =
     (if has_key m ''listener_share_b64''
      then (case jget m ''listener_share_b64'' of
              JStr encoded \<Rightarrow>
                if length (code_points encoded) > HANDOFF_CONTROL_MAX_BYTES then Inl HandoffError
                else (case b64decode (hpy env) encoded of
                        Inl e \<Rightarrow> Inl HandoffError
                      | Inr shared \<Rightarrow>
                          (case fromshare env of
                             None \<Rightarrow> Inl HandoffError
                           | Some f \<Rightarrow>
                               (case f shared of Inl e \<Rightarrow> Inl HandoffError | Inr _ \<Rightarrow> Inr (Listener_share shared))))
            | _ \<Rightarrow> Inl HandoffError)
      else (case int_like (jget m ''listener_fd'') of
              None \<Rightarrow> Inl HandoffError
            | Some fd \<Rightarrow>
                if fd < 0 then Inl HandoffError
                else res_bind (socket_of_fd env fd) (\<lambda>_. Inr (Listener_fd fd))))"

definition read_health :: "handoff_env \<Rightarrow> rat \<Rightarrow> jdict proc_act" where
  "read_health env timeout w =
     (case health_answer env (proc_probes w) (max (1 / 10) timeout) of (delay, answer) \<Rightarrow>
        (res_bind answer (\<lambda>payload.
           if length payload > HANDOFF_CONTROL_MAX_BYTES then Inl HandoffError
           else (case loads (hpy env) payload of
                   Inl e \<Rightarrow> Inl (if is_value_error e then HandoffError else e)
                 | Inr (JObj d) \<Rightarrow> Inr d
                 | Inr _ \<Rightarrow> Inl HandoffError)),
         w\<lparr>proc_probes := proc_probes w + 1, proc_clock := proc_clock w + max 0 delay\<rparr>))"

definition health_matches :: "handoff_env \<Rightarrow> jdict \<Rightarrow> jdict \<Rightarrow> bool" where
  "health_matches env expected health =
     list_all (\<lambda>p. py_eq (float_as_int env) (jget health (fst p)) (snd p)) expected"

text \<open>
  The loop of \<open>probe_health\<close>: every round sleeps for a twentieth of a second or until the deadline.
\<close>

lemma read_health_clock: "read_health env timeout w = (r, w1) \<Longrightarrow> proc_clock w \<le> proc_clock w1"
  by (auto simp: read_health_def split: prod.splits)

lemma twentieth_closer:
  assumes "0 < d - (a :: rat)" "a \<le> b"
  shows "nat \<lceil>20 * (d - (b + min (1 / 20) (d - a)))\<rceil> < nat \<lceil>20 * (d - a)\<rceil>"
proof -
  have pos: "1 \<le> \<lceil>20 * (d - a)\<rceil>" using assms(1) by simp
  have "\<lceil>20 * (d - (b + min (1 / 20) (d - a)))\<rceil> \<le> max 0 (\<lceil>20 * (d - a)\<rceil> - 1)"
  proof (cases "1 / 20 \<le> d - a")
    case True
    with assms(2) have "20 * (d - (b + min (1 / 20) (d - a))) \<le> 20 * (d - a) - 1" by simp
    then have "\<lceil>20 * (d - (b + min (1 / 20) (d - a)))\<rceil> \<le> \<lceil>20 * (d - a) - 1\<rceil>" by (rule ceiling_mono)
    then show ?thesis by simp
  next
    case False
    with assms(2) have "20 * (d - (b + min (1 / 20) (d - a))) \<le> 0" by simp
    then have "\<lceil>20 * (d - (b + min (1 / 20) (d - a)))\<rceil> \<le> 0" by (simp only: ceiling_le_zero)
    then show ?thesis by (rule max.coboundedI1)
  qed
  with pos show ?thesis by linarith
qed

lemma proc_clock_updated: "proc_clock (w\<lparr>proc_clock := c\<rparr>) = c"
  by simp

function probe_loop :: "handoff_env \<Rightarrow> jdict \<Rightarrow> rat \<Rightarrow> jdict proc_act" where
  "probe_loop env expected deadline w =
     (let remaining = deadline - proc_clock w
      in if remaining \<le> 0 then (Inl HandoffError, w)
         else (case read_health env (min remaining 1) w of (r, w1) \<Rightarrow>
           let again = probe_loop env expected deadline
                         (w1\<lparr>proc_clock := proc_clock w1 + min (1 / 20) remaining\<rparr>)
           in (case r of
                 Inr health \<Rightarrow>
                   if health_matches env expected health
                   then (Inr health, w1\<lparr>proc_trace := proc_trace w1 @ [Healthy (JObj health)]\<rparr>)
                   else again
               | Inl e \<Rightarrow> again)))"
  by pat_completeness auto

termination
proof (relation "measure (\<lambda>(env, expected, deadline, w). nat \<lceil>20 * (deadline - proc_clock w)\<rceil>)", simp)
  fix env expected deadline w remaining r w1
  assume "remaining = deadline - proc_clock w" "\<not> remaining \<le> 0"
    and "(r, w1) = read_health env (min remaining 1) w"
  then have "nat \<lceil>20 * (deadline - (proc_clock w1 + min (1 / 20) (deadline - proc_clock w)))\<rceil>
      < nat \<lceil>20 * (deadline - proc_clock w)\<rceil>"
    by (intro twentieth_closer read_health_clock [of env "min remaining 1" w r]) auto
  with \<open>remaining = _\<close> show "((env, expected, deadline, w1\<lparr>proc_clock := proc_clock w1 + min (1 / 20) remaining\<rparr>),
      env, expected, deadline, w) \<in> measure (\<lambda>(env, expected, deadline, w). nat \<lceil>20 * (deadline - proc_clock w)\<rceil>)"
    by (simp only: in_measure case_prod_conv proc_clock_updated)
qed

definition probe_health :: "handoff_env \<Rightarrow> rat \<Rightarrow> jdict \<Rightarrow> jdict proc_act" where
  "probe_health env timeout expected w =
     probe_loop env expected (proc_clock w + max (1 / 10) timeout) w"

definition read_control_message :: "handoff_env \<Rightarrow> jdict proc_act" where
  "read_control_message env w =
     (case res_bind (parent_line env (proc_reads w)) (decode_control_message (hpy env) (OtherError ''EOFError'')) of
        Inl e \<Rightarrow> (Inl e, w\<lparr>proc_reads := proc_reads w + 1\<rparr>)
      | Inr d \<Rightarrow> (Inr d, w\<lparr>proc_reads := proc_reads w + 1, proc_trace := proc_trace w @ [From_parent (JObj d)]\<rparr>))"

definition write_control_message :: "handoff_env \<Rightarrow> json \<Rightarrow> unit proc_act" where
  "write_control_message env m =
     act_bind (act_lift (encode_control_message (hpy env) m)) (\<lambda>encoded w.
       case parent_write_fails env (proc_writes w) of
         Some e \<Rightarrow> (Inl e, w\<lparr>proc_writes := proc_writes w + 1\<rparr>)
       | None \<Rightarrow> (Inr (), w\<lparr>proc_writes := proc_writes w + 1, proc_trace := proc_trace w @ [To_parent m]\<rparr>))"

end
