(* ===== verification/Handoff.thy ===== *)
theory Handoff
  imports Handoff_Protocol
begin

text \<open>
  \<open>service/handoff/transaction.py\<close>: the rolling handoff of the listening socket to a replacement process.
  The old process prepares a replacement, stops accepting, and commits or rolls back; the replacement
  serves only after COMMIT.  Each operation runs to its end; what other threads do while an operation
  of the serving thread blocks is an argument of that operation.
\<close>

section \<open>Context\<close>

text \<open>
  The functions a process supplies: the identity it loaded, the identity committed on disk (the
  \<open>handoff()\<close> fields), the executable of the selected generation, the counts of its admission gate at
  a time, and the construction of a server on a listener, given by the address it reports.
\<close>

record handoff_context =
  own_pid :: int
  successor_executable :: "string res"
  release_version :: string
  serving_payload_sha256 :: "string option"
  release_receipt_sha256 :: "string option"
  payload_manifest_sha256 :: "string option"
  committed_payload :: "jdict option res"
  draining_at :: "rat \<Rightarrow> bool"
  active_responses_at :: "rat \<Rightarrow> nat"
  active_handlers_at :: "rat \<Rightarrow> nat"
  server_factory :: "listener \<Rightarrow> json list res"
  close_fails :: "py_exc option"

definition opt_str :: "string option \<Rightarrow> json" where
  "opt_str s = (case s of Some t \<Rightarrow> JStr t | None \<Rightarrow> JNull)"

section \<open>The session\<close>

definition HANDOFF_READY_TIMEOUT_SECONDS :: rat where
  "HANDOFF_READY_TIMEOUT_SECONDS = 30"

definition HANDOFF_DEFAULT_LEASE_SECONDS :: rat where
  "HANDOFF_DEFAULT_LEASE_SECONDS = 30"

fun HANDOFF_TRANSITIONS :: "handoff_state \<Rightarrow> handoff_state list" where
  "HANDOFF_TRANSITIONS Idle = [Preparing]"
| "HANDOFF_TRANSITIONS Preparing = [Ready, Aborting]"
| "HANDOFF_TRANSITIONS Ready = [Committing, Aborting]"
| "HANDOFF_TRANSITIONS Committing = [Serving, Aborting]"
| "HANDOFF_TRANSITIONS Serving = [Finalizing, Aborting]"
| "HANDOFF_TRANSITIONS Finalizing = [Finalized, Aborting]"
| "HANDOFF_TRANSITIONS Finalized = [Idle]"
| "HANDOFF_TRANSITIONS Aborting = [Rolled_back]"
| "HANDOFF_TRANSITIONS Rolled_back = [Idle]"

definition validate_transition :: "handoff_state \<Rightarrow> handoff_state \<Rightarrow> bool" where
  "validate_transition current_state target_state \<longleftrightarrow> target_state \<in> set (HANDOFF_TRANSITIONS current_state)"

definition idle_session :: session where
  "idle_session =
     \<lparr>ses_state = Idle, ses_transaction_id = JNull, ses_child_pid = None, ses_outcome = None,
      ses_outcome_ready = False, ses_lease_seconds = HANDOFF_DEFAULT_LEASE_SECONDS, ses_drain_deadline = None,
      ses_timeout_seconds = None, ses_expected = None\<rparr>"

definition enter :: "handoff_state \<Rightarrow> unit proc_act" where
  "enter s = act_then (on_session (\<lambda>x. x\<lparr>ses_state := s\<rparr>)) (trace_event (Entered s))"

definition reset_session_to_idle :: "unit proc_act" where
  "reset_session_to_idle = act_then (on_session (\<lambda>_. idle_session)) (trace_event (Entered Idle))"

definition transition :: "handoff_state \<Rightarrow> unit proc_act" where
  "transition target_state =
     act_bind (get_session ses_state) (\<lambda>current.
       if \<not> validate_transition current target_state then act_raise HandoffError else enter target_state)"

definition IDENTITY_HANDOFF_FIELDS :: "string list" where
  "IDENTITY_HANDOFF_FIELDS = [''release'', ''serving_payload_sha256'', ''release_receipt_sha256'', ''manifest_sha256'']"

definition disk_payload_matches_expected :: "handoff_env \<Rightarrow> jdict \<Rightarrow> handoff_context \<Rightarrow> bool res" where
  "disk_payload_matches_expected env expected ctx =
     res_bind (committed_payload ctx) (\<lambda>committed.
       Inr (case committed of
              None \<Rightarrow> False
            | Some c \<Rightarrow>
                py_eq (float_as_int env) (JObj (map (\<lambda>p. (fst p, jget expected (fst p))) c)) (JObj c)))"

fun state_text :: "handoff_state \<Rightarrow> string" where
  "state_text Idle = ''idle''"
| "state_text Preparing = ''preparing''"
| "state_text Ready = ''ready''"
| "state_text Committing = ''committing''"
| "state_text Serving = ''serving''"
| "state_text Finalizing = ''finalizing''"
| "state_text Finalized = ''finalized''"
| "state_text Aborting = ''aborting''"
| "state_text Rolled_back = ''rolled_back''"

definition runtime_identity :: "handoff_context \<Rightarrow> jdict proc_act" where
  "runtime_identity ctx w =
     (Inr [(''pid'', JInt (own_pid ctx)),
           (''handoff_protocol_version'', JInt HANDOFF_PROTOCOL_VERSION),
           (''handoff_capabilities'', JArr [JStr ''selected-generation-handoff'', JStr ''admission-preserving-handoff'']),
           (''handoff_transaction_id'', ses_transaction_id (proc_session w)),
           (''handoff_state'', JStr (state_text (ses_state (proc_session w)))),
           (''payload_manifest_sha256'', opt_str (payload_manifest_sha256 ctx)),
           (''accepting'', JBool (\<not> draining_at ctx (proc_clock w))),
           (''active_handlers'', JInt (int (active_handlers_at ctx (proc_clock w))))], w)"

section \<open>Messages of a phase\<close>

definition control_message :: "string \<Rightarrow> jdict \<Rightarrow> bool \<Rightarrow> json res" where
  "control_message message_type expected include_identity =
     res_bind (jitem expected ''pid'') (\<lambda>pid.
     res_bind (jitem expected ''transaction_id'') (\<lambda>transaction.
       let message = [(''type'', JStr message_type), (''pid'', pid), (''transaction_id'', transaction)]
       in if \<not> include_identity then Inr (JObj message)
          else res_bind (jitem expected ''release'') (\<lambda>release.
               res_bind (jitem expected ''serving_payload_sha256'') (\<lambda>payload.
               res_bind (jitem expected ''release_receipt_sha256'') (\<lambda>receipt.
               res_bind (jitem expected ''manifest_sha256'') (\<lambda>manifest.
                 Inr (JObj (message @
                   [(''protocol_version'', JInt HANDOFF_PROTOCOL_VERSION), (''release'', release),
                    (''serving_payload_sha256'', payload), (''release_receipt_sha256'', receipt),
                    (''manifest_sha256'', manifest)]))))))))"

definition expected_serving_health :: "jdict \<Rightarrow> jdict res" where
  "expected_serving_health expected =
     res_bind (jitem expected ''pid'') (\<lambda>pid.
     res_bind (jitem expected ''transaction_id'') (\<lambda>transaction.
     res_bind (jitem expected ''release'') (\<lambda>release.
     res_bind (jitem expected ''serving_payload_sha256'') (\<lambda>payload.
     res_bind (jitem expected ''release_receipt_sha256'') (\<lambda>receipt.
     res_bind (jitem expected ''manifest_sha256'') (\<lambda>manifest.
       Inr [(''pid'', pid), (''handoff_protocol_version'', JInt HANDOFF_PROTOCOL_VERSION),
            (''handoff_transaction_id'', transaction), (''release'', release), (''serving_payload_sha256'', payload),
            (''release_receipt_sha256'', receipt), (''payload_manifest_sha256'', manifest),
            (''handoff_state'', JStr ''serving''), (''accepting'', JBool True), (''draining'', JBool False)]))))))"

definition expect_child_phase :: "handoff_env \<Rightarrow> jdict \<Rightarrow> string \<Rightarrow> rat \<Rightarrow> unit proc_act" where
  "expect_child_phase env expected phase timeout =
     act_bind (act_lift (control_message phase expected (phase = ''ready''))) (\<lambda>message.
     act_bind (recv_message env timeout) (\<lambda>answer.
       if \<not> py_eq (float_as_int env) (JObj answer) message then act_raise HandoffError else act_return ()))"

section \<open>Aborting\<close>

definition ignore_failure :: "'a proc_act \<Rightarrow> unit proc_act" where
  "ignore_failure m = act_catch (act_then m (act_return ())) (\<lambda>_. Some (act_return ()))"

text \<open>The two bounded stops in order; a stop that raises counts as not stopped.\<close>

definition stop_child :: "bool proc_act" where
  "stop_child =
     act_bind (act_catch (terminate_bounded HANDOFF_CHILD_EXIT_TIMEOUT_SECONDS) (\<lambda>_. Some (act_return False))) (\<lambda>stopped.
       if stopped then act_return True
       else act_catch (kill_bounded HANDOFF_CHILD_EXIT_TIMEOUT_SECONDS) (\<lambda>_. Some (act_return False)))"

definition abort :: "handoff_env \<Rightarrow> unit proc_act" where
  "abort env =
     act_bind (get_session ses_state) (\<lambda>state.
     act_then (if state \<notin> {Rolled_back, Idle} then enter Aborting else act_return ())
     (act_then (ignore_failure (send_message env (JObj [(''type'', JStr ''abort'')])))
     (act_bind stop_child (\<lambda>stopped.
       if \<not> stopped then act_raise HandoffError
       else if state \<notin> {Rolled_back, Idle} then enter Rolled_back
       else act_return ()))))"

text \<open>The \<open>finally\<close> block runs also when \<open>abort\<close> raises.\<close>

definition clear_preparation :: "bool \<Rightarrow> unit proc_act" where
  "clear_preparation no_child =
     act_bind (get_session ses_state) (\<lambda>state.
     act_then (if no_child \<or> state = Rolled_back then enter Idle else act_return ())
              (on_session (\<lambda>x. x\<lparr>ses_transaction_id := JNull, ses_child_pid := None\<rparr>)))"

definition reset_preparation :: "handoff_env \<Rightarrow> bool \<Rightarrow> unit proc_act" where
  "reset_preparation env no_child =
     act_finally (if no_child then act_return () else abort env) (clear_preparation no_child)"

section \<open>Preparing\<close>

record prepared_handoff =
  prep_expected :: jdict
  prep_timeout :: rat
  prep_lease :: rat

definition complete_identity :: "jdict \<Rightarrow> bool" where
  "complete_identity expected \<longleftrightarrow> list_all (\<lambda>k. nonempty_str (jget expected k)) IDENTITY_FIELDS"

definition begin_preparation :: "jdict \<Rightarrow> rat \<Rightarrow> rat \<Rightarrow> unit proc_act" where
  "begin_preparation expected timeout lease =
     act_bind (get_session ses_state) (\<lambda>state.
     act_then (if state = Finalized then reset_session_to_idle else act_return ())
     (act_bind (get_session ses_state) (\<lambda>state.
       if state \<noteq> Idle then act_raise HandoffConflictError
       else act_then (transition Preparing)
              (on_session (\<lambda>x. x\<lparr>ses_transaction_id := jget expected ''transaction_id'', ses_child_pid := None,
                 ses_outcome := None, ses_outcome_ready := False, ses_lease_seconds := lease,
                 ses_timeout_seconds := Some timeout\<rparr>)))))"

text \<open>\<open>except Exception\<close>: undo, then re-raise a handoff error and wrap any other.\<close>

definition fail_preparation :: "handoff_env \<Rightarrow> bool \<Rightarrow> py_exc \<Rightarrow> 'a proc_act" where
  "fail_preparation env no_child e =
     act_then (reset_preparation env no_child) (act_raise (if is_handoff_error e then e else HandoffError))"

definition await_ready :: "handoff_env \<Rightarrow> jdict \<Rightarrow> rat \<Rightarrow> rat \<Rightarrow> prepared_handoff proc_act" where
  "await_ready env expected timeout lease =
     act_bind child_runtime_pid (\<lambda>pid.
     act_then (expect_child_phase env (AList.update ''pid'' (JInt pid) expected) ''ready'' timeout)
     (act_then (on_session (\<lambda>x. x\<lparr>ses_child_pid := Some pid, ses_expected := Some expected\<rparr>))
     (act_then (transition Ready)
       (act_return \<lparr>prep_expected = expected, prep_timeout = timeout, prep_lease = lease\<rparr>))))"

definition prepare :: "handoff_env \<Rightarrow> handoff_context \<Rightarrow> jdict \<Rightarrow> rat \<Rightarrow> rat \<Rightarrow> prepared_handoff proc_act" where
  "prepare env ctx expected timeout lease =
     (if \<not> complete_identity expected then act_raise HandoffError
      else act_then (begin_preparation expected timeout lease)
        (act_bind
          (act_catch
            (act_bind (act_lift (successor_executable ctx)) (\<lambda>executable.
              spawn_child env expected executable timeout))
            (\<lambda>e. Some (fail_preparation env True e)))
          (\<lambda>_. act_catch (await_ready env expected timeout lease)
                 (\<lambda>e. Some (fail_preparation env False e)))))"

section \<open>Committing\<close>

definition set_outcome :: "handoff_outcome \<Rightarrow> unit proc_act" where
  "set_outcome result = on_session (\<lambda>x. x\<lparr>ses_outcome := Some result, ses_outcome_ready := True\<rparr>)"

text \<open>\<open>server.shutdown()\<close>: the accept loop ends, unless the call raises.\<close>

definition server_shutdown :: "handoff_env \<Rightarrow> unit proc_act" where
  "server_shutdown env w =
     (let w' = w\<lparr>proc_shutdowns := proc_shutdowns w + 1\<rparr>
      in case shutdown_fails env (proc_shutdowns w) of
           Some e \<Rightarrow> (Inl e, w')
         | None \<Rightarrow> (Inr (), w'\<lparr>proc_trace := proc_trace w @ [Stop_accepting]\<rparr>))"

text \<open>The phases of the \<open>try\<close> block; a failure is returned with the phase and whether accepting stopped.\<close>

definition tagged :: "'b \<Rightarrow> 'a proc_act \<Rightarrow> (py_exc \<times> 'b + 'a) proc_act" where
  "tagged p m w = (case m w of (Inl e, w') \<Rightarrow> (Inr (Inl (e, p)), w') | (Inr x, w') \<Rightarrow> (Inr (Inr x), w'))"

definition tagged_bind :: "(py_exc \<times> 'b + 'a) proc_act \<Rightarrow> ('a \<Rightarrow> (py_exc \<times> 'b + 'c) proc_act) \<Rightarrow> (py_exc \<times> 'b + 'c) proc_act" where
  "tagged_bind m f = act_bind m (\<lambda>r. case r of Inl x \<Rightarrow> act_return (Inl x) | Inr y \<Rightarrow> f y)"

definition stop_phase :: "handoff_env \<Rightarrow> rat \<Rightarrow> unit proc_act" where
  "stop_phase env lease =
     act_then (transition Committing)
     (act_then (\<lambda>w. (Inr (), w\<lparr>proc_session := (proc_session w)\<lparr>ses_drain_deadline := Some (proc_clock w + lease)\<rparr>\<rparr>))
       (server_shutdown env))"

definition serving_phase :: "handoff_env \<Rightarrow> jdict \<Rightarrow> rat \<Rightarrow> unit proc_act" where
  "serving_phase env expected timeout =
     act_then (send_message env (JObj [(''type'', JStr ''commit'')]))
     (act_then (expect_child_phase env expected ''serving'' timeout)
       (transition Serving))"

definition finalize_phase :: "handoff_env \<Rightarrow> jdict \<Rightarrow> rat \<Rightarrow> unit proc_act" where
  "finalize_phase env expected timeout =
     act_then (transition Finalizing)
     (act_then (send_message env (JObj [(''type'', JStr ''finalize'')]))
     (act_then (expect_child_phase env expected ''finalized'' timeout)
     (act_then (transition Finalized)
       (set_outcome Outcome_finalized))))"

definition commit_phases :: "handoff_env \<Rightarrow> jdict \<Rightarrow> rat \<Rightarrow> rat \<Rightarrow> (py_exc \<times> string \<times> bool + unit) proc_act" where
  "commit_phases env expected timeout lease =
     tagged_bind (tagged (''shutdown'', False) (stop_phase env lease)) (\<lambda>_.
     tagged_bind (tagged (''serving'', True) (serving_phase env expected timeout)) (\<lambda>_.
       tagged (''finalize'', True) (finalize_phase env expected timeout)))"

definition roll_back :: "handoff_env \<Rightarrow> py_exc \<Rightarrow> string \<Rightarrow> bool \<Rightarrow> handoff_outcome proc_act" where
  "roll_back env e phase accept_stopped =
     act_then (trace_event (Logged (''event=handoff_commit_failed phase='' @ phase @ '' exception='' @ exc_label e)))
     (act_bind (act_catch (act_then (abort env) (act_return Outcome_rolled_back))
                          (\<lambda>_. Some (act_return Outcome_abort_unconfirmed))) (\<lambda>result.
      act_then (set_outcome result)
      (act_then (if \<not> accept_stopped then ignore_failure (server_shutdown env) else act_return ())
        (act_return result))))"

definition commit :: "handoff_env \<Rightarrow> prepared_handoff \<Rightarrow> handoff_outcome proc_act" where
  "commit env prep =
     act_bind child_runtime_pid (\<lambda>pid.
     act_bind (commit_phases env (AList.update ''pid'' (JInt pid) (prep_expected prep)) (prep_timeout prep) (prep_lease prep))
       (\<lambda>r. case r of
              Inr _ \<Rightarrow> act_return Outcome_finalized
            | Inl (e, phase, accept_stopped) \<Rightarrow> roll_back env e phase accept_stopped))"

section \<open>The serving thread\<close>

text \<open>
  \<open>serve_forever\<close> returns when the accept loop is stopped; \<open>serving\<close> is what the other threads do until
  then, and \<open>waiting t\<close> what they do while this one waits for the outcome, at most \<open>t\<close> seconds.
\<close>

definition serve_forever :: "unit proc_act \<Rightarrow> unit proc_act" where
  "serve_forever serving = act_then (trace_event Serve) serving"

definition serve_until_stopped :: "unit proc_act \<Rightarrow> bool \<Rightarrow> unit proc_act" where
  "serve_until_stopped serving initial_thread = (if initial_thread then serving else serve_forever serving)"

definition wait_for_handoff_outcome ::
    "handoff_context \<Rightarrow> (rat \<Rightarrow> unit proc_act) \<Rightarrow> (handoff_outcome option \<times> rat option) proc_act" where
  "wait_for_handoff_outcome ctx waiting w =
     (let s = proc_session w;
          timeout = (case ses_timeout_seconds s of Some t \<Rightarrow> t | None \<Rightarrow> 1)
      in if ses_outcome s = None \<and> ses_state s = Idle \<and> \<not> draining_at ctx (proc_clock w) then (Inr (None, None), w)
         else act_then
           (if \<not> ses_outcome_ready s then waiting (max 1 (timeout * 3 + HANDOFF_CHILD_EXIT_TIMEOUT_SECONDS))
            else act_return ())
           (get_session (\<lambda>s. (ses_outcome s, ses_drain_deadline s))) w)"

definition active_at :: "handoff_context \<Rightarrow> rat \<Rightarrow> nat" where
  "active_at ctx moment = max (active_responses_at ctx moment) (active_handlers_at ctx moment)"

text \<open>The wait for the last requests: it looks every twentieth of a second until the lease ends.\<close>

function drain_wait :: "handoff_context \<Rightarrow> rat \<Rightarrow> rat \<Rightarrow> rat" where
  "drain_wait ctx deadline moment =
     (if active_at ctx moment > 0 \<and> moment < deadline then drain_wait ctx deadline (moment + 1 / 20) else moment)"
  by pat_completeness auto

termination
proof (relation "measure (\<lambda>(ctx, deadline, moment). nat \<lceil>20 * (deadline - moment)\<rceil>)", simp)
  fix ctx and deadline moment :: rat
  assume "active_at ctx moment > 0 \<and> moment < deadline"
  then have "1 \<le> \<lceil>20 * (deadline - moment)\<rceil>" by simp
  moreover have "\<lceil>20 * (deadline - (moment + 1 / 20))\<rceil> = \<lceil>20 * (deadline - moment)\<rceil> - 1"
    by (simp add: algebra_simps flip: ceiling_diff_one)
  ultimately show "((ctx, deadline, moment + 1 / 20), ctx, deadline, moment)
      \<in> measure (\<lambda>(ctx, deadline, moment). nat \<lceil>20 * (deadline - moment)\<rceil>)"
    by (simp only: in_measure case_prod_conv)
qed

definition finish_old_listener :: "handoff_context \<Rightarrow> rat option \<Rightarrow> unit proc_act" where
  "finish_old_listener ctx deadline w =
     (let limit = (case deadline of Some d \<Rightarrow> d | None \<Rightarrow> proc_clock w);
          stop = drain_wait ctx limit (proc_clock w);
          w' = w\<lparr>proc_clock := stop\<rparr>
      in if active_at ctx stop > 0
         then trace_event (Logged (''event=handoff_old_drain_expired remaining_active='' @ nat_text (active_at ctx stop))) w'
         else (Inr (), w'))"

text \<open>The loop ends when a wait gives another outcome than a rollback; \<open>None\<close> after \<open>rounds\<close> resumptions.\<close>

fun resume_loop ::
    "nat \<Rightarrow> handoff_context \<Rightarrow> unit proc_act \<Rightarrow> (rat \<Rightarrow> unit proc_act) \<Rightarrow>
     (handoff_outcome option \<times> rat option) option proc_act" where
  "resume_loop 0 ctx serving waiting = act_return None"
| "resume_loop (Suc rounds) ctx serving waiting =
     act_bind (wait_for_handoff_outcome ctx waiting) (\<lambda>(result, deadline).
       if result \<noteq> Some Outcome_rolled_back then act_return (Some (result, deadline))
       else act_then reset_session_to_idle
              (act_then (serve_forever serving) (resume_loop rounds ctx serving waiting)))"

definition end_serving :: "handoff_context \<Rightarrow> handoff_outcome option \<Rightarrow> rat option \<Rightarrow> unit proc_act" where
  "end_serving ctx result deadline =
     (if result = Some Outcome_finalized then finish_old_listener ctx deadline
      else if result = Some Outcome_abort_unconfirmed
      then trace_event (Logged ''event=handoff_abort_unconfirmed action=old_listener_exit'')
      else if result \<noteq> None
      then trace_event (Logged ''event=handoff_outcome_unconfirmed action=old_listener_exit'')
      else act_return ())"

definition serve_with_resume ::
    "nat \<Rightarrow> handoff_context \<Rightarrow> unit proc_act \<Rightarrow> (rat \<Rightarrow> unit proc_act) \<Rightarrow> bool \<Rightarrow> unit option proc_act" where
  "serve_with_resume rounds ctx serving waiting initial_thread =
     act_then (serve_until_stopped serving initial_thread)
     (act_bind (resume_loop rounds ctx serving waiting) (\<lambda>r.
        case r of
          None \<Rightarrow> act_return None
        | Some (result, deadline) \<Rightarrow> act_then (end_serving ctx result deadline) (act_return (Some ()))))"

section \<open>The replacement\<close>

definition listener_field :: "jdict \<Rightarrow> string" where
  "listener_field m = (if has_key m ''listener_share_b64'' then ''listener_share_b64'' else ''listener_fd'')"

text \<open>The entry of the listener is compared with itself; the message must have it.\<close>

definition valid_prepare :: "handoff_env \<Rightarrow> handoff_context \<Rightarrow> jdict \<Rightarrow> bool" where
  "valid_prepare env ctx m =
     (nonempty_str (jget m ''transaction_id'') \<and> has_key m (listener_field m) \<and>
      py_eq (float_as_int env) (JObj (AList.delete (listener_field m) m))
        (JObj [(''type'', JStr ''prepare''), (''protocol_version'', JInt HANDOFF_PROTOCOL_VERSION),
               (''release'', JStr (release_version ctx)),
               (''serving_payload_sha256'', opt_str (serving_payload_sha256 ctx)),
               (''release_receipt_sha256'', opt_str (release_receipt_sha256 ctx)),
               (''manifest_sha256'', opt_str (payload_manifest_sha256 ctx)),
               (''transaction_id'', jget m ''transaction_id'')]))"

definition write_phase :: "handoff_env \<Rightarrow> string \<Rightarrow> jdict \<Rightarrow> unit proc_act" where
  "write_phase env phase expected =
     act_bind (act_lift (control_message phase expected (phase = ''ready''))) (write_control_message env)"

definition child_prepare :: "handoff_env \<Rightarrow> handoff_context \<Rightarrow> (jdict \<times> json list) proc_act" where
  "child_prepare env ctx =
     act_then (write_control_message env (JObj [(''type'', JStr ''started''), (''pid'', JInt (own_pid ctx))]))
     (act_bind (read_control_message env) (\<lambda>m.
       if \<not> valid_prepare env ctx m then act_raise HandoffError
       else act_then (transition Preparing)
            (act_bind (act_lift (identity_entries m)) (\<lambda>entries.
             act_then (on_session (\<lambda>x. x\<lparr>ses_transaction_id := jget m ''transaction_id'',
                         ses_child_pid := Some (own_pid ctx), ses_expected := Some entries\<rparr>))
             (act_bind (act_lift (listener_from_prepare env m)) (\<lambda>listener.
              act_bind (act_lift (server_factory ctx listener)) (\<lambda>address. act_return (m, address))))))))"

definition expect_command :: "handoff_env \<Rightarrow> string \<Rightarrow> unit proc_act" where
  "expect_command env name =
     act_bind (read_control_message env) (\<lambda>command.
       if \<not> py_eq (float_as_int env) (JObj command) (JObj [(''type'', JStr name)]) then act_raise HandoffError
       else act_return ())"

definition child_commit :: "handoff_env \<Rightarrow> jdict \<Rightarrow> unit proc_act" where
  "child_commit env expected =
     act_then (transition Ready)
     (act_then (write_phase env ''ready'' expected)
     (act_then (expect_command env ''commit'')
     (act_then (transition Committing) (transition Serving))))"

definition health_port :: "json list \<Rightarrow> int res" where
  "health_port address =
     (if length address \<le> 1 then Inl HandoffError
      else (case int_like (address ! 1) of
              Some p \<Rightarrow> if 1 \<le> p \<and> p \<le> 65535 then Inr p else Inl HandoffError
            | None \<Rightarrow> Inl HandoffError))"

definition child_serve ::
    "handoff_env \<Rightarrow> handoff_context \<Rightarrow> jdict \<Rightarrow> json list \<Rightarrow> nat \<Rightarrow> unit proc_act \<Rightarrow> (rat \<Rightarrow> unit proc_act) \<Rightarrow>
     unit option proc_act" where
  "child_serve env ctx expected address rounds serving waiting =
     act_bind (act_lift (health_port address)) (\<lambda>_.
     act_bind (act_lift (expected_serving_health expected)) (\<lambda>health.
     act_bind (probe_health env HANDOFF_READY_TIMEOUT_SECONDS health) (\<lambda>_.
     act_then (write_phase env ''serving'' expected)
     (act_then (expect_command env ''finalize'')
     (act_then (transition Finalizing)
     (act_then (transition Finalized)
     (act_then (write_phase env ''finalized'' expected)
       (serve_with_resume rounds ctx serving waiting True))))))))"

text \<open>How far the replacement came when an exception left the \<open>try\<close> block decides what it undoes.\<close>

datatype child_progress = No_server | Server_made | Serving_started

definition close_server :: "handoff_context \<Rightarrow> unit proc_act" where
  "close_server ctx = (case close_fails ctx of Some e \<Rightarrow> act_raise e | None \<Rightarrow> trace_event Close_listener)"

definition child_cleanup :: "handoff_env \<Rightarrow> handoff_context \<Rightarrow> child_progress \<Rightarrow> unit proc_act" where
  "child_cleanup env ctx progress =
     (case progress of
        No_server \<Rightarrow> act_return ()
      | Server_made \<Rightarrow> ignore_failure (close_server ctx)
      | Serving_started \<Rightarrow> act_then (ignore_failure (server_shutdown env)) (ignore_failure (close_server ctx)))"

definition child_phases ::
    "handoff_env \<Rightarrow> handoff_context \<Rightarrow> nat \<Rightarrow> unit proc_act \<Rightarrow> (rat \<Rightarrow> unit proc_act) \<Rightarrow>
     (py_exc \<times> child_progress + unit option) proc_act" where
  "child_phases env ctx rounds serving waiting =
     tagged_bind (tagged No_server (child_prepare env ctx)) (\<lambda>(m, address).
     let expected = AList.update ''pid'' (JInt (own_pid ctx)) m
     in tagged_bind (tagged Server_made (child_commit env expected)) (\<lambda>_.
        act_then (trace_event Serve)
          (tagged Serving_started (child_serve env ctx expected address rounds serving waiting))))"

definition child_end :: "handoff_env \<Rightarrow> handoff_context \<Rightarrow> py_exc \<times> child_progress + unit option \<Rightarrow> int option proc_act" where
  "child_end env ctx r =
     (case r of
        Inl (e, progress) \<Rightarrow> act_then (child_cleanup env ctx progress) (act_return (Some 1))
      | Inr None \<Rightarrow> act_return None
      | Inr (Some _) \<Rightarrow> act_return (Some 0))"

definition run_child ::
    "handoff_env \<Rightarrow> handoff_context \<Rightarrow> nat \<Rightarrow> unit proc_act \<Rightarrow> (rat \<Rightarrow> unit proc_act) \<Rightarrow> int option proc_act" where
  "run_child env ctx rounds serving waiting =
     act_bind (child_phases env ctx rounds serving waiting) (child_end env ctx)"

section \<open>Examples\<close>

text \<open>One transaction, the messages of both sides as one-letter lines, and a decoder for these.\<close>

definition sample_expected :: jdict where
  "sample_expected =
     [(''transaction_id'', JStr ''t''), (''release'', JStr ''1''), (''serving_payload_sha256'', JStr ''a''),
      (''release_receipt_sha256'', JStr ''b''), (''manifest_sha256'', JStr ''c'')]"

definition sample_phase :: "string \<Rightarrow> json" where
  "sample_phase phase = JObj [(''type'', JStr phase), (''pid'', JInt 7), (''transaction_id'', JStr ''t'')]"

definition sample_health :: jdict where
  "sample_health =
     [(''pid'', JInt 7), (''handoff_protocol_version'', JInt 2), (''handoff_transaction_id'', JStr ''t''),
      (''release'', JStr ''1''), (''serving_payload_sha256'', JStr ''a''), (''release_receipt_sha256'', JStr ''b''),
      (''payload_manifest_sha256'', JStr ''c''), (''handoff_state'', JStr ''serving''), (''accepting'', JBool True),
      (''draining'', JBool False)]"

definition sample_loads :: "bytes \<Rightarrow> json res" where
  "sample_loads raw =
     (if raw = ''S'' @ [CHR 10] then Inr (JObj [(''type'', JStr ''started''), (''pid'', JInt 7)])
      else if raw = ''R'' @ [CHR 10] then
        Inr (JObj [(''type'', JStr ''ready''), (''pid'', JInt 7), (''transaction_id'', JStr ''t''), (''protocol_version'', JInt 2),
                   (''release'', JStr ''1''), (''serving_payload_sha256'', JStr ''a''),
                   (''release_receipt_sha256'', JStr ''b''), (''manifest_sha256'', JStr ''c'')])
      else if raw = ''V'' @ [CHR 10] then Inr (sample_phase ''serving'')
      else if raw = ''F'' @ [CHR 10] then Inr (sample_phase ''finalized'')
      else if raw = ''P'' @ [CHR 10] then
        Inr (JObj ([(''type'', JStr ''prepare''), (''protocol_version'', JInt 2)] @ sample_expected @ [(''listener_fd'', JInt 3)]))
      else if raw = ''C'' @ [CHR 10] then Inr (JObj [(''type'', JStr ''commit'')])
      else if raw = ''Z'' @ [CHR 10] then Inr (JObj [(''type'', JStr ''finalize'')])
      else Inr (JObj sample_health))"

definition sample_child :: child_behaviour where
  "sample_child =
     \<lparr>receives = (\<lambda>n _. (0, Inr [if n = 0 then CHR ''S'' else if n = 1 then CHR ''R'' else if n = 2 then CHR ''V'' else CHR ''F'', CHR 10])),
      write_fails = (\<lambda>_. None), polls = (\<lambda>_. False), stops = (\<lambda>_. Exits)\<rparr>"

definition sample_handoff_env :: handoff_env where
  "sample_handoff_env =
     \<lparr>hpy = (sample_env JNull)\<lparr>loads := sample_loads\<rparr>, float_as_int = (\<lambda>_. None), windows = False, b64encode = (\<lambda>b. b),
      listener_fileno = 3, listener_share = None, launch = (\<lambda>_ _. Inr sample_child), shutdown_fails = (\<lambda>_. None),
      fromshare = None, socket_of_fd = (\<lambda>_. Inr ()),
      parent_line = (\<lambda>n. Inr [if n = 0 then CHR ''P'' else if n = 1 then CHR ''C'' else CHR ''Z'', CHR 10]),
      parent_write_fails = (\<lambda>_. None), health_answer = (\<lambda>_ _. (0, Inr ''H''))\<rparr>"

definition sample_context :: handoff_context where
  "sample_context =
     \<lparr>own_pid = 7, successor_executable = Inr ''/bin/proxy'', release_version = ''1'', serving_payload_sha256 = Some ''a'',
      release_receipt_sha256 = Some ''b'', payload_manifest_sha256 = Some ''c'', committed_payload = Inr (Some sample_expected),
      draining_at = (\<lambda>_. False), active_responses_at = (\<lambda>_. 0), active_handlers_at = (\<lambda>_. 0),
      server_factory = (\<lambda>_. Inr [JStr ''127.0.0.1'', JInt 8792]), close_fails = None\<rparr>"

definition sample_proc :: proc where
  "sample_proc =
     \<lparr>proc_clock = 0, proc_session = idle_session, proc_child = None, proc_launches = 0, proc_shutdowns = 0, proc_reads = 0,
      proc_writes = 0, proc_probes = 0, proc_trace = []\<rparr>"

text \<open>The same process with a prepared replacement.\<close>

definition sample_ready :: proc where
  "sample_ready =
     sample_proc\<lparr>proc_session := idle_session\<lparr>ses_state := Ready\<rparr>,
       proc_child := Some ((new_child sample_child)\<lparr>runtime_pid := Some 7, received := 2\<rparr>)\<rparr>"

definition sample_prepared :: prepared_handoff where
  "sample_prepared = \<lparr>prep_expected = sample_expected, prep_timeout = 30, prep_lease = 30\<rparr>"

end
