(* ===== verification/Handoff_Facts.thy ===== *)
theory Handoff_Facts
  imports Handoff
begin

text \<open>
  What the rolling handoff guarantees: the exact course of a finalized and of a rolled back commit, the
  state a preparation leaves, that states change along the transition table, when the replacement
  serves, and that the old listener either resumes, drains within its lease or leaves.
\<close>

declare probe_loop.simps [simp del] drain_wait.simps [simp del]

section \<open>Runs of the operations\<close>

lemma get_session_run [returns]: "get_session f w = (Inr y, w') \<longleftrightarrow> y = f (proc_session w) \<and> w' = w"
  by (auto simp: get_session_def)

lemma with_child_run [returns]:
  "with_child f w = (Inr y, w') \<longleftrightarrow> (\<exists>c. proc_child w = Some c \<and> f c w = (Inr y, w'))"
  by (simp add: with_child_def split: option.splits)

lemma trace_event_run [returns]:
  "trace_event e w = (Inr y, w') \<longleftrightarrow> w' = w\<lparr>proc_trace := proc_trace w @ [e]\<rparr>"
  by (simp add: trace_event_def returns)

lemma on_session_run [returns]:
  "on_session f w = (Inr y, w') \<longleftrightarrow> w' = w\<lparr>proc_session := f (proc_session w)\<rparr>"
  by (simp add: on_session_def returns)

lemma on_child_run [returns]:
  "on_child f w = (Inr y, w') \<longleftrightarrow> w' = w\<lparr>proc_child := map_option f (proc_child w)\<rparr>"
  by (simp add: on_child_def returns)

lemma pass_time_run [returns]: "pass_time d w = (Inr y, w') \<longleftrightarrow> w' = w\<lparr>proc_clock := proc_clock w + d\<rparr>"
  by (simp add: pass_time_def returns)

lemma enter_run [returns]:
  "enter s w = (Inr y, w') \<longleftrightarrow>
     w' = w\<lparr>proc_session := (proc_session w)\<lparr>ses_state := s\<rparr>, proc_trace := proc_trace w @ [Entered s]\<rparr>"
  by (simp add: enter_def returns)

lemma transition_run [returns]:
  "transition s w = (Inr y, w') \<longleftrightarrow> validate_transition (ses_state (proc_session w)) s \<and>
     w' = w\<lparr>proc_session := (proc_session w)\<lparr>ses_state := s\<rparr>, proc_trace := proc_trace w @ [Entered s]\<rparr>"
  by (auto simp: transition_def returns)

lemma child_runtime_pid_run [returns]:
  "child_runtime_pid w = (Inr y, w') \<longleftrightarrow> (\<exists>c. proc_child w = Some c \<and> runtime_pid c = Some y) \<and> w' = w"
  by (auto simp: child_runtime_pid_def returns split: option.splits)

lemma bind_child_pid: "proc_child w = Some c \<Longrightarrow> runtime_pid c = Some pid \<Longrightarrow> act_bind child_runtime_pid f w = f pid w"
  by (simp add: act_bind_def child_runtime_pid_def with_child_def act_lift_def)

text \<open>What a process did between two states, in order.\<close>

definition did :: "proc \<Rightarrow> proc_event list \<Rightarrow> proc \<Rightarrow> bool" where
  "did w es w' \<longleftrightarrow> proc_trace w' = proc_trace w @ es"

lemma did_trans: "did w es w1 \<Longrightarrow> did w1 fs w' \<Longrightarrow> did w (es @ fs) w'"
  by (simp add: did_def)

text \<open>The messages of the channel leave the session alone.\<close>

lemma send_message_run:
  assumes "send_message env m w = (Inr y, w')"
  shows "did w [To_child m] w' \<and> proc_session w' = proc_session w \<and> (\<exists>c c'. proc_child w = Some c \<and> proc_child w' = Some c' \<and>
     runtime_pid c' = runtime_pid c)"
  using assms by (auto simp: send_message_def returns did_def split: option.splits)

lemma recv_message_run:
  assumes "recv_message env timeout w = (Inr d, w')"
  shows "did w [From_child (JObj d)] w' \<and> proc_session w' = proc_session w \<and> (\<exists>c c'. proc_child w = Some c \<and> proc_child w' = Some c' \<and>
     runtime_pid c' = runtime_pid c)"
  using assms by (auto simp: recv_message_def returns did_def Let_def split: option.splits if_splits prod.splits sum.splits)

lemma expect_child_phase_run:
  assumes "expect_child_phase env expected phase timeout w = (Inr y, w')"
  shows "\<exists>d message. did w [From_child (JObj d)] w' \<and> proc_session w' = proc_session w \<and>
     control_message phase expected (phase = ''ready'') = Inr message \<and> py_eq (float_as_int env) (JObj d) message"
  using assms by (fastforce simp: expect_child_phase_def returns split: if_splits dest: recv_message_run)

section \<open>A finalized commit\<close>

definition command :: "string \<Rightarrow> json" where
  "command name = JObj [(''type'', JStr name)]"

lemma stop_phase_run:
  assumes "stop_phase env lease w = (Inr y, w')"
  shows "did w [Entered Committing, Stop_accepting] w' \<and> ses_state (proc_session w') = Committing \<and>
     ses_drain_deadline (proc_session w') = Some (proc_clock w + lease)"
  using assms by (auto simp: stop_phase_def returns server_shutdown_def did_def Let_def split: option.splits)

lemma serving_phase_run:
  assumes "serving_phase env expected timeout w = (Inr y, w')"
  shows "\<exists>d message. did w [To_child (command ''commit''), From_child (JObj d), Entered Serving] w' \<and>
     ses_drain_deadline (proc_session w') = ses_drain_deadline (proc_session w) \<and>
     control_message ''serving'' expected False = Inr message \<and> py_eq (float_as_int env) (JObj d) message"
  using assms unfolding serving_phase_def command_def [symmetric]
  by (force simp: returns did_def dest!: send_message_run expect_child_phase_run)

lemma finalize_phase_run:
  assumes "finalize_phase env expected timeout w = (Inr y, w')"
  shows "\<exists>d message. did w [Entered Finalizing, To_child (command ''finalize''), From_child (JObj d), Entered Finalized] w' \<and>
     ses_drain_deadline (proc_session w') = ses_drain_deadline (proc_session w) \<and>
     ses_state (proc_session w') = Finalized \<and> ses_outcome (proc_session w') = Some Outcome_finalized \<and> ses_outcome_ready (proc_session w') \<and>
     control_message ''finalized'' expected False = Inr message \<and> py_eq (float_as_int env) (JObj d) message"
  using assms unfolding finalize_phase_def command_def [symmetric]
  by (force simp: returns did_def set_outcome_def dest!: send_message_run expect_child_phase_run)

section \<open>Parts of the process an operation keeps\<close>

text \<open>The session and the states the process went through.\<close>

fun entered :: "proc_event list \<Rightarrow> handoff_state list" where
  "entered [] = []"
| "entered (Entered s # es) = s # entered es"
| "entered (_ # es) = entered es"

lemma entered_append [simp]: "entered (es @ fs) = entered es @ entered fs"
  by (induction es rule: entered.induct) auto

definition course :: "proc \<Rightarrow> session \<times> handoff_state list" where
  "course w = (proc_session w, entered (proc_trace w))"

text \<open>
  What the traffic with a child does not touch: the session and every other event.
\<close>

fun channel_event :: "proc_event \<Rightarrow> bool" where
  "channel_event (To_child m) = True"
| "channel_event (From_child m) = True"
| "channel_event (Launched x) = True"
| "channel_event Exit_seen = True"
| "channel_event _ = False"

definition essence :: "proc \<Rightarrow> session \<times> proc_event list" where
  "essence w = (proc_session w, filter (\<lambda>e. \<not> channel_event e) (proc_trace w))"

named_theorems channel_keeps \<open>operations that only talk to the child\<close>
named_theorems course_keeps \<open>operations that keep the session and enter no state\<close>

lemma keeps_with_child: "(\<And>c. keeps f (g c)) \<Longrightarrow> keeps f (with_child g)"
  by (rule keepsI) (auto simp: with_child_def split: option.splits dest: keepsD)

lemma keeps_unit: "keeps f (act_return x)" "keeps f (act_raise e)" "keeps f (act_lift r)"
  by (auto intro!: keepsI simp: act_return_def act_raise_def act_lift_def)

lemma keeps_ignore: "keeps f m \<Longrightarrow> keeps f (ignore_failure m)"
  unfolding ignore_failure_def by (auto intro: keeps_catch keeps_then keeps_unit)

lemma keeps_essence_basic [channel_keeps]:
  "keeps essence (on_child g)" "keeps essence (pass_time d)" "keeps essence (trace_event (To_child m))"
  "keeps essence (trace_event (From_child m))" "keeps essence (trace_event Exit_seen)"
  unfolding on_child_def trace_event_def pass_time_def by (rule keeps_modify; simp add: essence_def)+

lemmas keeps_intros = keeps_bind keeps_then keeps_if keeps_with_child keeps_unit keeps_catch keeps_option keeps_sum keeps_prod

lemma keeps_essence_send [channel_keeps]: "keeps essence (send_message env m)"
  unfolding send_message_def by (intro keeps_intros channel_keeps)

lemma keeps_essence_recv [channel_keeps]: "keeps essence (recv_message env timeout)"
  unfolding recv_message_def Let_def by (intro keeps_intros channel_keeps)

lemma keeps_essence_await [channel_keeps]: "keeps essence (await_runtime env timeout)"
  unfolding await_runtime_def by (intro keeps_intros channel_keeps)

lemma keeps_essence_pid [channel_keeps]: "keeps essence child_runtime_pid"
  unfolding child_runtime_pid_def by (intro keeps_intros)

lemma keeps_essence_expect [channel_keeps]: "keeps essence (expect_child_phase env expected phase timeout)"
  unfolding expect_child_phase_def by (intro keeps_intros channel_keeps)

lemma keeps_essence_poll [channel_keeps]: "keeps essence poll" "keeps essence see_exit"
  unfolding poll_def see_exit_def by (intro keeps_intros channel_keeps)+

lemma keeps_essence_after [channel_keeps]: "keeps essence (after_signal timeout s)"
  by (cases s) (simp_all add: keeps_then keeps_unit channel_keeps)

lemma keeps_essence_stop [channel_keeps]:
  "keeps essence (stop_bounded timeout)" "keeps essence (terminate_bounded timeout)" "keeps essence (kill_bounded timeout)"
  unfolding terminate_bounded_def kill_bounded_def stop_bounded_def by (intro keeps_intros channel_keeps)+

lemma keeps_essence_stop_child [channel_keeps]: "keeps essence stop_child"
  unfolding stop_child_def by (intro keeps_intros channel_keeps) (auto intro: keeps_unit)

lemma keeps_essence_open [channel_keeps]: "keeps essence (open_child env executable)"
  by (rule keepsI) (auto simp: open_child_def essence_def split: sum.splits)

lemma keeps_essence_spawn [channel_keeps]: "keeps essence (spawn_child env expected executable timeout)"
  unfolding spawn_child_def by (intro keeps_intros channel_keeps) (auto intro!: keeps_intros channel_keeps)

lemma entered_filter: "entered (filter (\<lambda>e. \<not> channel_event e) es) = entered es"
  by (induction es rule: entered.induct) auto

lemma keeps_course [course_keeps]: "keeps essence m \<Longrightarrow> keeps course m"
  by (rule keepsI, drule (1) keepsD) (metis course_def essence_def entered_filter prod.inject)

lemma keeps_course_basic [course_keeps]:
  "keeps course (trace_event (Logged s))" "keeps course (trace_event Serve)" "keeps course (trace_event Close_listener)"
  unfolding trace_event_def by (rule keeps_modify; simp add: course_def)+

lemma keeps_course_shutdown [course_keeps]: "keeps course (server_shutdown env)"
  by (rule keepsI) (auto simp: server_shutdown_def Let_def course_def split: option.splits)

lemma course_session: "course w' = course w \<Longrightarrow> proc_session w' = proc_session w"
  by (simp add: course_def)

lemma keeps_child_basic:
  "keeps proc_child (trace_event e)" "keeps proc_child (on_session g)" "keeps proc_child (server_shutdown env)"
  unfolding trace_event_def on_session_def
  by (rule keeps_modify; simp)+ (rule keepsI, auto simp: server_shutdown_def Let_def split: option.splits)

section \<open>Confirmed exits\<close>

text \<open>The launcher knows that the process ended.\<close>

definition exited :: "proc \<Rightarrow> bool" where
  "exited w \<longleftrightarrow> (\<exists>c. proc_child w = Some c \<and> returncode_seen c)"

lemma valid_with_child:
  "(\<And>c. valid (\<lambda>w. P w \<and> proc_child w = Some c) (f c) Q E) \<Longrightarrow> (\<And>w. P w \<Longrightarrow> E w) \<Longrightarrow> valid P (with_child f) Q E"
  by (auto simp: valid_def with_child_def split: option.splits)

abbreviation tells_exit :: "bool proc_act \<Rightarrow> bool" where
  "tells_exit m \<equiv> valid (\<lambda>w. proc_child w \<noteq> None) m (\<lambda>b w. (b \<longrightarrow> exited w) \<and> proc_child w \<noteq> None) (\<lambda>_. True)"

lemma has_child_valid:
  "valid (\<lambda>w. proc_child w \<noteq> None) (on_child f) (\<lambda>_ w. proc_child w \<noteq> None) (\<lambda>_. True)"
  "valid (\<lambda>w. proc_child w \<noteq> None) (pass_time d) (\<lambda>_ w. proc_child w \<noteq> None) (\<lambda>_. True)"
  unfolding on_child_def pass_time_def by (rule valid_modify; simp)+

lemma see_exit_tells: "tells_exit see_exit"
  by (auto simp: see_exit_def valid_def exited_def act_then_def act_bind_def on_child_def trace_event_def act_modify_def
      act_return_def)

lemma with_child_tells: "(\<And>c. returncode_seen c \<Longrightarrow> f c = act_return True) \<Longrightarrow> (\<And>c. \<not> returncode_seen c \<Longrightarrow> tells_exit (f c)) \<Longrightarrow> tells_exit (with_child f)"
proof (rule valid_with_child, goal_cases)
  case (1 c)
  show ?case
  proof (cases "returncode_seen c")
    case True
    with 1(1) show ?thesis by (auto simp: exited_def intro: valid_return)
  next
    case False
    then show ?thesis by (rule valid_conseq [OF 1(2)]) auto
  qed
qed simp

lemma poll_tells: "tells_exit poll"
  unfolding poll_def
  by (rule with_child_tells)
    (auto intro!: valid_then [OF has_child_valid(1)] see_exit_tells valid_return simp del: not_None_eq)

lemma after_signal_tells: "tells_exit (after_signal timeout s)"
  by (cases s)
    (simp_all add: see_exit_tells poll_tells valid_then [OF has_child_valid(2)] del: not_None_eq, simp add: valid_def act_raise_def)

lemma stop_bounded_tells: "tells_exit (stop_bounded timeout)"
  unfolding stop_bounded_def
proof (rule valid_bind [OF poll_tells], rule valid_if)
  fix b
  have "tells_exit (with_child (\<lambda>c. act_then (on_child (\<lambda>c. c\<lparr>stop_attempts := stop_attempts c + 1\<rparr>))
      (after_signal timeout (stops (behaviour c) (stop_attempts c)))))"
    by (rule valid_with_child, rule valid_then [OF valid_conseq [OF has_child_valid(1)] after_signal_tells]) auto
  then show "valid (\<lambda>w. (b \<longrightarrow> exited w) \<and> proc_child w \<noteq> None) (with_child (\<lambda>c.
      act_then (on_child (\<lambda>c. c\<lparr>stop_attempts := stop_attempts c + 1\<rparr>)) (after_signal timeout (stops (behaviour c) (stop_attempts c)))))
      (\<lambda>b w. (b \<longrightarrow> exited w) \<and> proc_child w \<noteq> None) (\<lambda>_. True)"
    by (rule valid_conseq) auto
qed (auto intro: valid_return)

lemma stop_bounded_run: "stop_bounded timeout w = (Inr True, w') \<Longrightarrow> exited w'"
  using validD(1) [OF stop_bounded_tells, where x = True and w = w and w' = w']
  by (cases "proc_child w") (auto simp: stop_bounded_def poll_def returns)

lemma caught_run: "act_catch m (\<lambda>_. Some (act_return False)) w = (Inr True, w') \<Longrightarrow> m w = (Inr True, w')"
  by (auto simp: act_catch_def act_return_def split: prod.splits sum.splits)

lemma stop_child_run: "stop_child w = (Inr True, w') \<Longrightarrow> exited w'"
  by (auto simp: stop_child_def returns terminate_bounded_def kill_bounded_def split: if_splits
      dest!: caught_run intro: stop_bounded_run)

lemma abort_run:
  assumes "abort env w = (Inr y, w')"
  shows "exited w' \<and> ses_outcome (proc_session w') = ses_outcome (proc_session w) \<and>
    ses_state (proc_session w') =
      (if ses_state (proc_session w) \<in> {Rolled_back, Idle} then ses_state (proc_session w) else Rolled_back)"
proof -
  let ?s = "ses_state (proc_session w)"
  from assms obtain w1 w2 w3 where
    1: "(if ?s \<notin> {Rolled_back, Idle} then enter Aborting else act_return ()) w = (Inr (), w1)" and
    2: "ignore_failure (send_message env (JObj [(''type'', JStr ''abort'')])) w1 = (Inr (), w2)" and
    3: "stop_child w2 = (Inr True, w3)" and
    4: "(if ?s \<notin> {Rolled_back, Idle} then enter Rolled_back else act_return ()) w3 = (Inr (), w')"
    by (auto simp: abort_def returns split: if_splits)
  have "proc_session w3 = proc_session w1"
    using keepsD [OF keeps_essence_stop_child 3] keepsD [OF keeps_ignore [OF keeps_essence_send] 2]
    by (simp add: essence_def)
  with stop_child_run [OF 3] 1 4 show ?thesis by (auto simp: returns exited_def split: if_splits)
qed

section \<open>Commits\<close>

lemma tagged_run [returns]: "tagged p m w = (Inr (Inr x), w') \<longleftrightarrow> m w = (Inr x, w')"
  by (auto simp: tagged_def split: prod.splits sum.splits)

lemma tagged_bind_run [returns]:
  "tagged_bind m f w = (Inr (Inr y), w') \<longleftrightarrow> (\<exists>x w1. m w = (Inr (Inr x), w1) \<and> f x w1 = (Inr (Inr y), w'))"
  by (auto simp: tagged_bind_def act_bind_def act_return_def split: prod.splits sum.splits)

definition settled :: "handoff_outcome \<Rightarrow> proc \<Rightarrow> bool" where
  "settled result w \<longleftrightarrow> ses_outcome (proc_session w) = Some result \<and> ses_outcome_ready (proc_session w)"

lemma valid_tagged: "valid P m (\<lambda>x. Q (Inr x)) E \<Longrightarrow> (\<And>e w. E w \<Longrightarrow> Q (Inl (e, p)) w) \<Longrightarrow> valid P (tagged p m) Q (\<lambda>_. False)"
  by (fastforce simp: valid_def tagged_def split: prod.splits sum.splits)

lemma valid_tagged_bind:
  "valid P m R (\<lambda>_. False) \<Longrightarrow> (\<And>y. valid (R (Inr y)) (f y) Q (\<lambda>_. False)) \<Longrightarrow> (\<And>x w. R (Inl x) w \<Longrightarrow> Q (Inl x) w) \<Longrightarrow>
   valid P (tagged_bind m f) Q (\<lambda>_. False)"
  unfolding tagged_bind_def by (rule valid_bind) (auto split: sum.splits intro: valid_return)


section \<open>Legal courses\<close>

fun legal_path :: "(handoff_state \<Rightarrow> handoff_state \<Rightarrow> bool) \<Rightarrow> handoff_state \<Rightarrow> handoff_state list \<Rightarrow> bool" where
  "legal_path R s [] = True"
| "legal_path R s (x # xs) = (R s x \<and> legal_path R x xs)"

lemma legal_path_snoc: "legal_path R s (xs @ [x]) \<longleftrightarrow> legal_path R s xs \<and> R (last (s # xs)) x"
  by (induction xs arbitrary: s) auto

text \<open>
  The process went from \<open>s0\<close>, where it had entered \<open>ss\<close>, along \<open>R\<close>, and is in one of \<open>states\<close>.
\<close>

definition orderly ::
    "(handoff_state \<Rightarrow> handoff_state \<Rightarrow> bool) \<Rightarrow> handoff_state \<Rightarrow> handoff_state list \<Rightarrow> handoff_state set \<Rightarrow> proc \<Rightarrow> bool" where
  "orderly R s0 ss states w \<longleftrightarrow> (\<exists>xs. entered (proc_trace w) = ss @ xs \<and> legal_path R s0 xs \<and>
     ses_state (proc_session w) = last (s0 # xs) \<and> ses_state (proc_session w) \<in> states)"

lemma orderly_states: "orderly R s0 ss A w \<Longrightarrow> A \<subseteq> B \<Longrightarrow> orderly R s0 ss B w"
  unfolding orderly_def by blast

lemma orderly_course: "course w' = course w \<Longrightarrow> orderly R s0 ss A w' \<longleftrightarrow> orderly R s0 ss A w"
  unfolding orderly_def course_def by simp

lemma orderly_session:
  "ses_state s = ses_state (proc_session w) \<Longrightarrow> orderly R s0 ss A (w\<lparr>proc_session := s\<rparr>) \<longleftrightarrow> orderly R s0 ss A w"
  unfolding orderly_def by simp

lemma valid_course: "keeps course m \<Longrightarrow> valid (orderly R s0 ss A) m (\<lambda>_. orderly R s0 ss A) (orderly R s0 ss A)"
  by (erule valid_kept) (simp add: orderly_def course_def)

lemma valid_enter:
  assumes "\<And>a. a \<in> A \<Longrightarrow> R a s"
  shows "valid (orderly R s0 ss A) (enter s) (\<lambda>_. orderly R s0 ss {s}) E"
  unfolding valid_def
proof (intro allI impI)
  fix w assume "orderly R s0 ss A w"
  then obtain xs where xs: "entered (proc_trace w) = ss @ xs" "legal_path R s0 xs" "last (s0 # xs) \<in> A"
    unfolding orderly_def by metis
  with assms have "legal_path R s0 (xs @ [s])" by (simp add: legal_path_snoc)
  with xs(1) have "orderly R s0 ss {s}
      (w\<lparr>proc_session := (proc_session w)\<lparr>ses_state := s\<rparr>, proc_trace := proc_trace w @ [Entered s]\<rparr>)"
    unfolding orderly_def by (intro exI [of _ "xs @ [s]"]) simp
  then show "case enter s w of (Inr x, w') \<Rightarrow> orderly R s0 ss {s} w' | (Inl e, w') \<Rightarrow> E w'"
    by (simp add: enter_def act_then_def act_bind_def on_session_def trace_event_def act_modify_def)
qed

lemma valid_transition:
  assumes "\<And>a. a \<in> A \<Longrightarrow> validate_transition a s" "\<And>a. a \<in> A \<Longrightarrow> R a s"
  shows "valid (orderly R s0 ss A) (transition s) (\<lambda>_. orderly R s0 ss {s}) E"
proof -
  have "valid (orderly R s0 ss A) (enter s) (\<lambda>_. orderly R s0 ss {s}) E" by (rule valid_enter) (rule assms)
  moreover have "transition s w = enter s w" if "orderly R s0 ss A w" for w
  proof -
    have "ses_state (proc_session w) \<in> A" using that unfolding orderly_def by blast
    then show ?thesis using assms(1) by (simp add: transition_def act_bind_def get_session_def)
  qed
  ultimately show ?thesis by (simp add: valid_def)
qed

lemma valid_on_session:
  assumes "\<And>x. ses_state (f x) = ses_state x"
  shows "valid (orderly R s0 ss A) (on_session f) (\<lambda>_. orderly R s0 ss A) E"
  using assms by (simp add: valid_def on_session_def act_modify_def orderly_def)

lemma valid_orderly_mono:
  "valid (orderly R s0 ss A) m (\<lambda>_. orderly R s0 ss B) (orderly R s0 ss C) \<Longrightarrow> B \<subseteq> B' \<Longrightarrow> C \<subseteq> C' \<Longrightarrow> A' \<subseteq> A \<Longrightarrow>
   valid (orderly R s0 ss A') m (\<lambda>_. orderly R s0 ss B') (orderly R s0 ss C')"
  by (erule valid_conseq) (auto intro: orderly_states)

text \<open>The phases of a commit, an abort and a rollback along the transition table.\<close>

abbreviation on_course :: "handoff_state \<Rightarrow> handoff_state list \<Rightarrow> handoff_state set \<Rightarrow> proc \<Rightarrow> bool" where
  "on_course \<equiv> orderly validate_transition"

lemma stop_phase_course:
  "valid (on_course s0 ss {Ready}) (stop_phase env lease) (\<lambda>_. on_course s0 ss {Committing}) (on_course s0 ss {Committing})"
  unfolding stop_phase_def
proof (rule valid_then [OF valid_transition valid_then [OF _ valid_course [OF keeps_course_shutdown]]])
  show "valid (on_course s0 ss {Committing})
     (\<lambda>w. (Inr (), w\<lparr>proc_session := proc_session w\<lparr>ses_drain_deadline := Some (proc_clock w + lease)\<rparr>\<rparr>))
     (\<lambda>_. on_course s0 ss {Committing}) (on_course s0 ss {Committing})"
    by (simp add: valid_def orderly_def)
qed (auto simp: validate_transition_def)

lemma serving_phase_course:
  "valid (on_course s0 ss {Committing}) (serving_phase env expected timeout) (\<lambda>_. on_course s0 ss {Serving})
     (on_course s0 ss {Committing})"
  unfolding serving_phase_def
  by (intro valid_then [OF valid_course] valid_transition course_keeps channel_keeps) (auto simp: validate_transition_def)

lemma finalize_phase_course:
  "valid (on_course s0 ss {Serving}) (finalize_phase env expected timeout) (\<lambda>_. on_course s0 ss {Finalized})
     (on_course s0 ss {Finalizing})"
  unfolding finalize_phase_def set_outcome_def
  by (intro valid_then [OF valid_transition] valid_then [OF valid_course] valid_on_session course_keeps channel_keeps)
    (auto simp: validate_transition_def)

lemma valid_tagged_course:
  assumes "valid (orderly R s0 ss A) m (\<lambda>_. orderly R s0 ss B) (orderly R s0 ss C)" "C \<subseteq> F"
  shows "valid (orderly R s0 ss A) (tagged p m) (\<lambda>r. orderly R s0 ss (case r of Inr _ \<Rightarrow> B | Inl _ \<Rightarrow> F)) (\<lambda>_. False)"
  by (rule valid_tagged [where E = "orderly R s0 ss C"]) (use assms in \<open>auto elim: orderly_states\<close>)

lemma valid_tagged_course_bind:
  assumes "valid (orderly R s0 ss A) (tagged p m) (\<lambda>r. orderly R s0 ss (case r of Inr _ \<Rightarrow> B | Inl _ \<Rightarrow> F)) (\<lambda>_. False)"
    and "\<And>y. valid (orderly R s0 ss B) (f y) (\<lambda>r. orderly R s0 ss (case r of Inr _ \<Rightarrow> G | Inl _ \<Rightarrow> F)) (\<lambda>_. False)"
  shows "valid (orderly R s0 ss A) (tagged_bind (tagged p m) f)
    (\<lambda>r. orderly R s0 ss (case r of Inr _ \<Rightarrow> G | Inl _ \<Rightarrow> F)) (\<lambda>_. False)"
  by (rule valid_tagged_bind [OF assms(1)]) (use assms(2) in auto)

lemma commit_phases_course:
  "valid (on_course s0 ss {Ready}) (commit_phases env expected timeout lease)
     (\<lambda>r. on_course s0 ss (case r of Inr _ \<Rightarrow> {Finalized} | Inl _ \<Rightarrow> {Committing, Serving, Finalizing})) (\<lambda>_. False)"
  unfolding commit_phases_def
  by (rule valid_tagged_course_bind [OF valid_tagged_course [OF stop_phase_course]] |
      rule valid_tagged_course_bind [OF valid_tagged_course [OF serving_phase_course]] |
      rule valid_tagged_course [OF finalize_phase_course] | simp)+

lemma abort_course:
  assumes "A \<subseteq> {Preparing, Ready, Committing, Serving, Finalizing}" and R: "\<And>a b. validate_transition a b \<Longrightarrow> R a b"
  shows "valid (orderly R s0 ss A) (abort env) (\<lambda>_. orderly R s0 ss {Rolled_back}) (orderly R s0 ss {Aborting})"
proof -
  have "valid (orderly R s0 ss A)
      (act_then (enter Aborting)
      (act_then (ignore_failure (send_message env (JObj [(''type'', JStr ''abort'')])))
      (act_bind stop_child (\<lambda>stopped. if \<not> stopped then act_raise HandoffError else enter Rolled_back))))
      (\<lambda>_. orderly R s0 ss {Rolled_back}) (orderly R s0 ss {Aborting})"
    by (intro valid_then [OF valid_enter] valid_then [OF valid_course] valid_bind [OF valid_course] valid_if keeps_ignore
        course_keeps channel_keeps valid_enter)
      (use assms(1) in \<open>auto intro!: R simp: validate_transition_def valid_def [of _ "act_raise _"] act_raise_def\<close>)
  moreover have "abort env w = act_then (enter Aborting)
      (act_then (ignore_failure (send_message env (JObj [(''type'', JStr ''abort'')])))
      (act_bind stop_child (\<lambda>stopped. if \<not> stopped then act_raise HandoffError else enter Rolled_back))) w"
    if "orderly R s0 ss A w" for w
  proof -
    have "ses_state (proc_session w) \<in> A" using that unfolding orderly_def by blast
    then have "ses_state (proc_session w) \<notin> {Rolled_back, Idle}" using assms(1) by auto
    then show ?thesis by (simp add: abort_def act_bind_def [of "get_session _"] get_session_def)
  qed
  ultimately show ?thesis by (simp add: valid_def)
qed

fun final_state :: "handoff_outcome \<Rightarrow> handoff_state" where
  "final_state Outcome_finalized = Finalized"
| "final_state Outcome_rolled_back = Rolled_back"
| "final_state Outcome_abort_unconfirmed = Aborting"

lemma valid_and:
  "valid P m Q E \<Longrightarrow> valid P' m Q' E' \<Longrightarrow>
   valid (\<lambda>w. P w \<and> P' w) m (\<lambda>x w. Q x w \<and> Q' x w) (\<lambda>w. E w \<and> E' w)"
  by (fastforce simp: valid_def split: prod.splits sum.splits)

lemma abort_exits: "valid (\<lambda>_. True) (abort env) (\<lambda>_. exited) (\<lambda>_. True)"
  using abort_run by (fastforce simp: valid_def split: prod.splits sum.splits)

lemma keeps_exited: "keeps proc_child m \<Longrightarrow> valid exited m (\<lambda>_. exited) exited"
  by (erule valid_kept) (simp add: exited_def)

text \<open>How a failed commit ends: the state that belongs to the outcome, and no rollback without an exit.\<close>

definition ended :: "handoff_state \<Rightarrow> handoff_state list \<Rightarrow> handoff_outcome \<Rightarrow> proc \<Rightarrow> bool" where
  "ended s0 ss result w \<longleftrightarrow> on_course s0 ss {final_state result} w \<and> result \<noteq> Outcome_finalized \<and>
     (result = Outcome_rolled_back \<longrightarrow> exited w)"

lemma ended_kept: "course w' = course w \<Longrightarrow> proc_child w' = proc_child w \<Longrightarrow> ended s0 ss result w \<Longrightarrow> ended s0 ss result w'"
  using orderly_course [of w' w] by (simp add: ended_def exited_def)

lemma abort_ends:
  assumes "A \<subseteq> {Preparing, Ready, Committing, Serving, Finalizing}"
  shows "valid (on_course s0 ss A)
    (act_catch (act_then (abort env) (act_return Outcome_rolled_back)) (\<lambda>_. Some (act_return Outcome_abort_unconfirmed)))
    (ended s0 ss) (\<lambda>_. False)"
proof (rule valid_catch_all [where R = "on_course s0 ss {Aborting}"])
  show "valid (on_course s0 ss A) (act_then (abort env) (act_return Outcome_rolled_back)) (ended s0 ss) (on_course s0 ss {Aborting})"
    using valid_and [OF abort_course [OF assms, of validate_transition s0 ss env] abort_exits]
    by (intro valid_then [where R = "\<lambda>w. on_course s0 ss {Rolled_back} w \<and> exited w"])
      (auto simp: ended_def intro: valid_return)
qed (auto simp: ended_def intro: valid_return)

lemma ignored_shutdown_keeps:
  "valid (\<lambda>w. ended s0 ss result w \<and> settled result w) (ignore_failure (server_shutdown env))
     (\<lambda>_ w. ended s0 ss result w \<and> settled result w) (\<lambda>_. False)"
proof -
  have "ended s0 ss result (snd (server_shutdown env w)) \<and> settled result (snd (server_shutdown env w))"
    if "ended s0 ss result w \<and> settled result w" for w
    using that by (auto simp: server_shutdown_def Let_def settled_def course_def split: option.splits intro: ended_kept [of _ w])
  then show ?thesis
    by (fastforce simp: valid_def ignore_failure_def act_catch_def act_return_def act_then_def act_bind_def split: prod.splits sum.splits)
qed

lemma roll_back_settles:
  assumes "A \<subseteq> {Preparing, Ready, Committing, Serving, Finalizing}"
  shows "valid (on_course s0 ss A) (roll_back env e phase stopped)
    (\<lambda>result w. ended s0 ss result w \<and> settled result w) (\<lambda>_. False)"
proof -
  have "valid (ended s0 ss result) (set_outcome result) (\<lambda>_ w. ended s0 ss result w \<and> settled result w) (\<lambda>_. False)" for result
    by (auto simp: set_outcome_def on_session_def settled_def ended_def orderly_session exited_def intro!: valid_modify)
  then have tail: "valid (ended s0 ss result) (act_then (set_outcome result)
      (act_then (if \<not> stopped then ignore_failure (server_shutdown env) else act_return ()) (act_return result)))
      (\<lambda>result w. ended s0 ss result w \<and> settled result w) (\<lambda>_. False)" for result
    by (intro valid_then [where R = "\<lambda>w. ended s0 ss result w \<and> settled result w"] valid_if valid_return ignored_shutdown_keeps)
      auto
  have log: "valid (on_course s0 ss A) (trace_event (Logged m)) (\<lambda>_. on_course s0 ss A) (\<lambda>_. False)" for m
    unfolding trace_event_def by (rule valid_modify) (auto intro: orderly_course [THEN iffD2] simp: course_def)
  show ?thesis
    unfolding roll_back_def by (rule valid_then [OF log valid_bind [OF abort_ends [OF assms] tail]])
qed

lemma finalize_settles: "valid (\<lambda>_. True) (finalize_phase env expected timeout) (\<lambda>_. settled Outcome_finalized) (\<lambda>_. True)"
  using finalize_phase_run by (fastforce simp: valid_def settled_def split: prod.splits sum.splits)

lemma commit_phases_settles:
  "valid (\<lambda>_. True) (commit_phases env expected timeout lease) (\<lambda>r w. r = Inr () \<longrightarrow> settled Outcome_finalized w) (\<lambda>_. True)"
  using finalize_phase_run unfolding commit_phases_def
  by (fastforce simp: valid_def returns settled_def split: prod.splits sum.splits)

text \<open>
  Claim C6.  A commit of a prepared handoff always ends with one of its three outcomes, published for the
  serving thread, and never with an exception: the states it enters follow the transition table from
  READY to the state that belongs to the outcome, and a rollback is reported only when the exit of the
  replacement was seen.
\<close>

theorem commit_settles:
  assumes "ses_state (proc_session w) = Ready" "proc_child w = Some c" "runtime_pid c = Some pid"
  shows "\<exists>result w' xs. commit env prep w = (Inr result, w') \<and>
    ses_outcome (proc_session w') = Some result \<and> ses_outcome_ready (proc_session w') \<and>
    entered (proc_trace w') = entered (proc_trace w) @ xs \<and> legal_path validate_transition Ready xs \<and>
    ses_state (proc_session w') = final_state result \<and> (result = Outcome_rolled_back \<longrightarrow> exited w')"
proof -
  let ?ss = "entered (proc_trace w)" and ?p = "commit_phases env (AList.update ''pid'' (JInt pid) (prep_expected prep)) (prep_timeout prep) (prep_lease prep)"
  let ?Q = "\<lambda>result w. on_course Ready ?ss {final_state result} w \<and> settled result w \<and> (result = Outcome_rolled_back \<longrightarrow> exited w)"
  have start: "on_course Ready ?ss {Ready} w" using assms(1) unfolding orderly_def by (intro exI [of _ "[]"]) simp
  let ?R = "\<lambda>r w. on_course Ready ?ss (case r of Inr _ \<Rightarrow> {Finalized} | Inl _ \<Rightarrow> {Committing, Serving, Finalizing}) w \<and>
    (r = Inr () \<longrightarrow> settled Outcome_finalized w)"
  let ?c = "\<lambda>r. case r of Inr _ \<Rightarrow> act_return Outcome_finalized
    | Inl (e, phase, accept_stopped) \<Rightarrow> roll_back env e phase accept_stopped"
  have "valid (on_course Ready ?ss {Ready}) ?p ?R (\<lambda>_. False)"
    by (rule valid_conseq [OF valid_and [OF commit_phases_course commit_phases_settles]]) simp_all
  moreover have "valid (?R r) (?c r) ?Q (\<lambda>_. False)" for r
  proof (cases r)
    case (Inl x)
    obtain e phase st where "x = (e, phase, st)" by (cases x)
    with Inl show ?thesis
      by simp (rule valid_conseq [OF roll_back_settles [of "{Committing, Serving, Finalizing}"]], auto simp: ended_def)
  qed (auto intro: valid_return)
  ultimately have "valid (on_course Ready ?ss {Ready}) (act_bind ?p ?c) ?Q (\<lambda>_. False)" by (rule valid_bind)
  from valid_returns [OF this start] obtain result w' where r: "act_bind ?p ?c w = (Inr result, w')" "?Q result w'" by blast
  have "commit env prep w = (Inr result, w')"
    using r(1) by (simp add: commit_def bind_child_pid [OF assms(2,3)])
  with r(2) show ?thesis unfolding orderly_def settled_def by blast
qed

text \<open>
  Claim C7.  A commit is finalized only in one way: the accept loop stops, COMMIT is sent, the
  replacement answers with its exact SERVING identity, FINALIZE is sent, and it answers with its exact
  FINALIZED identity; nothing else happens in between.
\<close>

theorem commit_finalized:
  assumes "commit env prep w = (Inr Outcome_finalized, w')"
  shows "\<exists>c pid d1 m1 d2 m2. proc_child w = Some c \<and> runtime_pid c = Some pid \<and>
    proc_trace w' = proc_trace w @
      [Entered Committing, Stop_accepting, To_child (command ''commit''), From_child (JObj d1), Entered Serving,
       Entered Finalizing, To_child (command ''finalize''), From_child (JObj d2), Entered Finalized] \<and>
    control_message ''serving'' (AList.update ''pid'' (JInt pid) (prep_expected prep)) False = Inr m1 \<and>
    py_eq (float_as_int env) (JObj d1) m1 \<and>
    control_message ''finalized'' (AList.update ''pid'' (JInt pid) (prep_expected prep)) False = Inr m2 \<and>
    py_eq (float_as_int env) (JObj d2) m2 \<and>
    ses_state (proc_session w') = Finalized \<and> ses_outcome (proc_session w') = Some Outcome_finalized \<and>
    ses_drain_deadline (proc_session w') = Some (proc_clock w + prep_lease prep)"
proof -
  have never: "roll_back env e phase b w1 \<noteq> (Inr Outcome_finalized, w')" for e phase b w1
    by (auto simp: roll_back_def returns act_catch_def act_return_def split: prod.splits sum.splits)
  from assms obtain c pid where pid: "proc_child w = Some c" "runtime_pid c = Some pid"
    by (auto simp: commit_def returns)
  let ?e = "AList.update ''pid'' (JInt pid) (prep_expected prep)"
  from assms obtain r w1 where r: "commit_phases env ?e (prep_timeout prep) (prep_lease prep) w = (Inr r, w1)"
    "(case r of Inr _ \<Rightarrow> act_return Outcome_finalized
      | Inl (e, phase, accept_stopped) \<Rightarrow> roll_back env e phase accept_stopped) w1 = (Inr Outcome_finalized, w')"
    by (auto simp: commit_def bind_child_pid [OF pid] act_bind_run)
  then have "commit_phases env ?e (prep_timeout prep) (prep_lease prep) w = (Inr (Inr ()), w')"
    using never by (cases r) (auto simp: returns)
  then obtain w1 w2 where "stop_phase env (prep_lease prep) w = (Inr (), w1)"
    "serving_phase env ?e (prep_timeout prep) w1 = (Inr (), w2)" "finalize_phase env ?e (prep_timeout prep) w2 = (Inr (), w')"
    by (auto simp: commit_phases_def returns)
  from stop_phase_run [OF this(1)] serving_phase_run [OF this(2)] finalize_phase_run [OF this(3)] pid
  show ?thesis by (auto simp: did_def)
qed


section \<open>The serving thread after a commit\<close>

lemma roll_back_run:
  assumes "roll_back env e phase b w = (Inr result, w')"
  shows "settled result w' \<and> (result = Outcome_rolled_back \<longrightarrow> exited w')"
proof -
  from assms obtain w1 w2 w3 where
    1: "act_catch (act_then (abort env) (act_return Outcome_rolled_back)) (\<lambda>_. Some (act_return Outcome_abort_unconfirmed)) w1
      = (Inr result, w2)" and
    2: "set_outcome result w2 = (Inr (), w3)" and
    3: "(if \<not> b then ignore_failure (server_shutdown env) else act_return ()) w3 = (Inr (), w')"
    by (auto simp: roll_back_def returns)
  have "proc_session w' = proc_session w3 \<and> proc_child w' = proc_child w3"
    using 3 keepsD [OF keeps_ignore [OF keeps_course_shutdown], of env w3 "Inr ()" w']
      keepsD [OF keeps_ignore [OF keeps_child_basic(3)], of env w3 "Inr ()" w']
    by (auto simp: returns course_def split: if_splits)
  moreover have "result = Outcome_rolled_back \<longrightarrow> exited w2"
    using 1 abort_run by (fastforce simp: act_catch_def act_return_def act_then_def act_bind_def split: prod.splits sum.splits)
  ultimately show ?thesis using 2 by (auto simp: set_outcome_def returns settled_def exited_def)
qed

lemma wait_settled:
  "ses_outcome (proc_session w) = Some result \<Longrightarrow> ses_outcome_ready (proc_session w) \<Longrightarrow>
   wait_for_handoff_outcome ctx waiting w = (Inr (Some result, ses_drain_deadline (proc_session w)), w)"
  by (simp add: wait_for_handoff_outcome_def Let_def act_then_eq [OF act_return_def] get_session_def)

lemma reset_run:
  "reset_session_to_idle w = (Inr (), w\<lparr>proc_session := idle_session, proc_trace := proc_trace w @ [Entered Idle]\<rparr>)"
  by (simp add: reset_session_to_idle_def returns)

text \<open>
  A rollback is resumed: when a commit reports one, the exit of the replacement was seen, and the
  serving thread, which waits for the outcome, makes the session idle and serves on the listener again.
\<close>

theorem rollback_resumes:
  assumes "commit env prep w = (Inr Outcome_rolled_back, w')"
  shows "exited w' \<and>
    resume_loop (Suc n) ctx serving waiting w' =
      act_then (serve_forever serving) (resume_loop n ctx serving waiting)
        (w'\<lparr>proc_session := idle_session, proc_trace := proc_trace w' @ [Entered Idle]\<rparr>)"
proof -
  from assms obtain r w1 where "(case r of Inr (_ :: unit) \<Rightarrow> act_return Outcome_finalized
      | Inl (e, phase, accept_stopped) \<Rightarrow> roll_back env e phase accept_stopped) w1 = (Inr Outcome_rolled_back, w')"
    by (auto simp: commit_def act_bind_run)
  then obtain e phase b where "roll_back env e phase b w1 = (Inr Outcome_rolled_back, w')"
    by (cases r) (auto simp: returns)
  from roll_back_run [OF this] show ?thesis
    by (simp add: settled_def act_bind_eq [OF wait_settled] act_then_eq [OF reset_run])
qed

lemma drain_wait_bounds:
  "moment \<le> drain_wait ctx deadline moment \<and> drain_wait ctx deadline moment \<le> max moment (deadline + 1 / 20) \<and>
   (active_at ctx (drain_wait ctx deadline moment) = 0 \<or> deadline \<le> drain_wait ctx deadline moment)"
proof (induction ctx deadline moment rule: drain_wait.induct)
  case (1 ctx deadline moment)
  show ?case
  proof (cases "active_at ctx moment > 0 \<and> moment < deadline")
    case True
    with 1 show ?thesis by (subst (1 2 3 4) drain_wait.simps) auto
  next
    case False
    then have "drain_wait ctx deadline moment = moment" by (subst drain_wait.simps) (simp only: if_False)
    with False show ?thesis by auto
  qed
qed

text \<open>The looks of the wait: at each of them but the last something is active and the lease is not over.\<close>

lemma drain_wait_looks:
  "\<exists>k. drain_wait ctx deadline moment = moment + of_nat k / 20 \<and>
     list_all (\<lambda>j. active_at ctx (moment + of_nat j / 20) > 0 \<and> moment + of_nat j / 20 < deadline) [0..<k]"
proof (induction ctx deadline moment rule: drain_wait.induct)
  case (1 ctx deadline moment)
  show ?case
  proof (cases "active_at ctx moment > 0 \<and> moment < deadline")
    case True
    then have step: "drain_wait ctx deadline moment = drain_wait ctx deadline (moment + 1 / 20)"
      by (subst drain_wait.simps) simp
    from 1 [OF True] obtain k where k: "drain_wait ctx deadline (moment + 1 / 20) = moment + 1 / 20 + of_nat k / 20"
      "list_all (\<lambda>j. active_at ctx (moment + 1 / 20 + of_nat j / 20) > 0 \<and> moment + 1 / 20 + of_nat j / 20 < deadline) [0..<k]"
      by blast
    have later: "moment + 1 / 20 + of_nat j / 20 = moment + of_nat (Suc j) / 20" for j
      by (simp add: add_divide_distrib)
    have "active_at ctx (moment + of_nat j / 20) > 0 \<and> moment + of_nat j / 20 < deadline" if "j < Suc k" for j
      using that True k(2) by (cases j) (simp_all only: later list_all_iff, auto)
    with step k(1) show ?thesis
      by (intro exI [of _ "Suc k"]) (simp only: later list_all_iff set_upt, simp)
  next
    case False
    then have "drain_wait ctx deadline moment = moment" by (subst drain_wait.simps) (simp only: if_False)
    then show ?thesis by (intro exI [of _ 0]) simp
  qed
qed

text \<open>
  Claim C31.  After a finalized handoff the old listener ends, and it waits no longer than it must.  It
  looks every twentieth of a second and ends at the first look at which no request is active or the
  lease is over.  So it ends at most a twentieth of a second after the lease, and, whichever moment
  \<open>t\<close> of the wait is taken, at most a twentieth of a second after \<open>t\<close> unless a request is active
  at \<open>t\<close> or later within the lease.  It says so in the log exactly when requests are left.
\<close>

theorem old_listener_ends:
  "\<exists>w' k. finish_old_listener ctx (Some deadline) w = (Inr (), w') \<and>
     proc_clock w' = proc_clock w + of_nat k / 20 \<and>
     list_all (\<lambda>j. active_at ctx (proc_clock w + of_nat j / 20) > 0 \<and> proc_clock w + of_nat j / 20 < deadline) [0..<k] \<and>
     proc_clock w' \<le> max (proc_clock w) (deadline + 1 / 20) \<and>
     (proc_clock w' \<le> t + 1 / 20 \<or> t < proc_clock w \<or> (\<exists>s \<ge> t. s < deadline \<and> active_at ctx s > 0)) \<and>
     (active_at ctx (proc_clock w') = 0 \<and> proc_trace w' = proc_trace w \<or>
      active_at ctx (proc_clock w') > 0 \<and> deadline \<le> proc_clock w' \<and>
        proc_trace w' = proc_trace w @
          [Logged (''event=handoff_old_drain_expired remaining_active='' @ nat_text (active_at ctx (proc_clock w')))])"
proof -
  let ?stop = "drain_wait ctx deadline (proc_clock w)"
  obtain k where k: "?stop = proc_clock w + of_nat k / 20"
    "list_all (\<lambda>j. active_at ctx (proc_clock w + of_nat j / 20) > 0 \<and> proc_clock w + of_nat j / 20 < deadline) [0..<k]"
    using drain_wait_looks by blast
  have prompt: "?stop \<le> t + 1 / 20 \<or> t < proc_clock w \<or> (\<exists>s \<ge> t. s < deadline \<and> active_at ctx s > 0)"
  proof (cases k)
    case 0
    with k(1) show ?thesis by auto
  next
    case (Suc j)
    let ?s = "proc_clock w + of_nat j / 20"
    from k(2) Suc have "active_at ctx ?s > 0" "?s < deadline" by (simp_all add: list_all_iff)
    moreover have "?stop = ?s + 1 / 20" by (simp add: k(1) Suc add_divide_distrib)
    ultimately show ?thesis by (metis add_le_cancel_right nle_le)
  qed
  define w1 where "w1 = w\<lparr>proc_clock := ?stop\<rparr>"
  define w' where "w' = (if active_at ctx ?stop > 0 then w1\<lparr>proc_trace := proc_trace w1 @
    [Logged (''event=handoff_old_drain_expired remaining_active='' @ nat_text (active_at ctx ?stop))]\<rparr> else w1)"
  have "finish_old_listener ctx (Some deadline) w = (Inr (), w')"
    by (simp add: finish_old_listener_def Let_def trace_event_def act_modify_def w'_def w1_def)
  moreover have "proc_clock w' = ?stop" by (simp add: w'_def w1_def)
  ultimately show ?thesis
    using k prompt drain_wait_bounds [of "proc_clock w" ctx deadline]
    by (intro exI [of _ w'] exI [of _ k]) (auto simp: w'_def w1_def)
qed


section \<open>A replacement that answers in time\<close>

lemma encode_command:
  assumes "dump_depth env \<ge> 1" "name \<in> {''commit'', ''finalize'', ''abort''}"
  shows "\<exists>b. encode_control_message env (command name) = Inr b"
  using assms by (auto simp: encode_control_message_def command_def json_dumps_def HANDOFF_CONTROL_MAX_BYTES_def
      str_text_def escape_ascii_point_def short_escape_def)


text \<open>The child is alive, its next answer is the one that \<open>phase\<close> asks for, and it comes in time.\<close>

definition answers_phase :: "handoff_env \<Rightarrow> handoff_child \<Rightarrow> nat \<Rightarrow> jdict \<Rightarrow> string \<Rightarrow> rat \<Rightarrow> bool" where
  "answers_phase env c n expected phase timeout \<longleftrightarrow>
     (\<exists>delay line d m. receives (behaviour c) n = (\<lambda>_. (delay, line)) \<and> delay \<le> max (1 / 100) timeout \<and>
        read_event (hpy env) line = Inr d \<and> control_message phase expected (phase = ''ready'') = Inr m \<and>
        py_eq (float_as_int env) (JObj d) m)"

text \<open>A child whose pipe works, in a session state, after \<open>n\<close> answers.\<close>

definition talking :: "child_behaviour \<Rightarrow> handoff_state \<Rightarrow> nat \<Rightarrow> proc \<Rightarrow> bool" where
  "talking b s n w \<longleftrightarrow> ses_state (proc_session w) = s \<and>
     (\<exists>c. proc_child w = Some c \<and> behaviour c = b \<and> received c = n \<and> \<not> reader_stopped c)"

lemma send_command_talks:
  assumes "talking b s n w" "write_fails b = (\<lambda>_. None)" "dump_depth (hpy env) \<ge> 1" "name \<in> {''commit'', ''finalize'', ''abort''}"
  shows "\<exists>w'. send_message env (JObj [(''type'', JStr name)]) w = (Inr (), w') \<and> talking b s n w'"
proof -
  from encode_command [OF assms(3,4)] obtain bytes where "encode_control_message (hpy env) (JObj [(''type'', JStr name)]) = Inr bytes"
    unfolding command_def by blast
  with assms(1,2) show ?thesis by (auto simp: talking_def send_message_def returns)
qed

lemma expect_phase_talks:
  assumes "talking b s n w" "answers_phase env c n expected phase timeout" "behaviour c = b"
  shows "\<exists>w'. expect_child_phase env expected phase timeout w = (Inr (), w') \<and> talking b s (Suc n) w'"
proof -
  from assms(2) obtain delay line d m where a: "receives b n = (\<lambda>_. (delay, line))" "delay \<le> max (1 / 100) timeout"
    "read_event (hpy env) line = Inr d" "control_message phase expected (phase = ''ready'') = Inr m"
    "py_eq (float_as_int env) (JObj d) m" unfolding answers_phase_def assms(3) by blast
  from assms(1) obtain c' where c': "ses_state (proc_session w) = s" "proc_child w = Some c'" "behaviour c' = b" "received c' = n"
    "\<not> reader_stopped c'" unfolding talking_def by blast
  have "\<exists>w'. recv_message env timeout w = (Inr d, w') \<and> talking b s (Suc n) w'"
    using a(1-3) c' by (simp add: recv_message_def returns Let_def talking_def not_less le_max_iff_disj)
  with a(4,5) show ?thesis by (auto simp: expect_child_phase_def returns)
qed

lemma transition_talks:
  "talking b s n w \<Longrightarrow> validate_transition s s' \<Longrightarrow> \<exists>w'. transition s' w = (Inr (), w') \<and> talking b s' n w'"
  by (auto simp: talking_def returns)

text \<open>A command, its answer and the next state.\<close>

lemma exchange_talks:
  assumes "talking b s n w" "write_fails b = (\<lambda>_. None)" "1 \<le> dump_depth (hpy env)" "name \<in> {''commit'', ''finalize'', ''abort''}"
    and "answers_phase env c n expected phase timeout" "behaviour c = b" "validate_transition s s'"
  shows "\<exists>w1 w2 w3. send_message env (JObj [(''type'', JStr name)]) w = (Inr (), w1) \<and>
    expect_child_phase env expected phase timeout w1 = (Inr (), w2) \<and> transition s' w2 = (Inr (), w3) \<and> talking b s' (Suc n) w3"
proof -
  obtain w1 where w1: "send_message env (JObj [(''type'', JStr name)]) w = (Inr (), w1)" "talking b s n w1"
    using send_command_talks [OF assms(1-4)] by blast
  obtain w2 where w2: "expect_child_phase env expected phase timeout w1 = (Inr (), w2)" "talking b s (Suc n) w2"
    using expect_phase_talks [OF w1(2) assms(5,6)] by blast
  from transition_talks [OF w2(2) assms(7)] w1(1) w2(1) show ?thesis by blast
qed

lemma commit_run_completes:
  assumes "ses_state (proc_session w) = Ready" "proc_child w = Some c" "runtime_pid c = Some pid" "\<not> reader_stopped c"
    and "write_fails (behaviour c) = (\<lambda>_. None)" "shutdown_fails env = (\<lambda>_. None)" "1 \<le> dump_depth (hpy env)"
    and "answers_phase env c (received c) (AList.update ''pid'' (JInt pid) (prep_expected prep)) ''serving'' (prep_timeout prep)"
    and "answers_phase env c (Suc (received c)) (AList.update ''pid'' (JInt pid) (prep_expected prep)) ''finalized'' (prep_timeout prep)"
  shows "\<exists>w'. commit env prep w = (Inr Outcome_finalized, w')"
proof -
  let ?e = "AList.update ''pid'' (JInt pid) (prep_expected prep)" and ?b = "behaviour c" and ?n = "received c"
  have "\<exists>w1. stop_phase env (prep_lease prep) w = (Inr (), w1) \<and> talking ?b Committing ?n w1"
    using assms(1-6) by (simp add: stop_phase_def returns server_shutdown_def Let_def talking_def validate_transition_def)
  then obtain w1 where w1: "stop_phase env (prep_lease prep) w = (Inr (), w1)" "talking ?b Committing ?n w1" by blast
  obtain x y w2 where w2: "send_message env (JObj [(''type'', JStr ''commit'')]) w1 = (Inr (), x)"
    "expect_child_phase env ?e ''serving'' (prep_timeout prep) x = (Inr (), y)" "transition Serving y = (Inr (), w2)"
    "talking ?b Serving (Suc ?n) w2"
    using exchange_talks [OF w1(2) assms(5,7) _ assms(8) refl, of "''commit''" Serving] by (auto simp: validate_transition_def)
  obtain w3 where w3: "transition Finalizing w2 = (Inr (), w3)" "talking ?b Finalizing (Suc ?n) w3"
    using transition_talks [OF w2(4), of Finalizing] by (auto simp: validate_transition_def)
  obtain u v w4 where w4: "send_message env (JObj [(''type'', JStr ''finalize'')]) w3 = (Inr (), u)"
    "expect_child_phase env ?e ''finalized'' (prep_timeout prep) u = (Inr (), v)" "transition Finalized v = (Inr (), w4)"
    using exchange_talks [OF w3(2) assms(5,7) _ assms(9) refl, of "''finalize''" Finalized] by (auto simp: validate_transition_def)
  have "serving_phase env ?e (prep_timeout prep) w1 = (Inr (), w2)"
    by (simp add: serving_phase_def act_then_run w2)
  moreover obtain w5 where "finalize_phase env ?e (prep_timeout prep) w2 = (Inr (), w5)"
    by (simp add: finalize_phase_def act_then_run w3(1) w4 set_outcome_def on_session_run)
  ultimately have "commit_phases env ?e (prep_timeout prep) (prep_lease prep) w = (Inr (Inr ()), w5)"
    using w1(1) by (auto simp: commit_phases_def tagged_bind_run tagged_run)
  then show ?thesis
    using assms(2,3) by (auto simp: commit_def bind_child_pid act_bind_eq act_return_def)
qed


text \<open>
  Claim C30.  A prepared handoff succeeds with a replacement that does its part: when the accept loop can be
  stopped, the control pipe works and the replacement answers SERVING and FINALIZED with its
  identity in time, the commit is finalized.
\<close>

theorem commit_completes:
  assumes "ses_state (proc_session w) = Ready" "proc_child w = Some c" "runtime_pid c = Some pid" "\<not> reader_stopped c"
    and "write_fails (behaviour c) = (\<lambda>_. None)" "shutdown_fails env = (\<lambda>_. None)" "1 \<le> dump_depth (hpy env)"
    and "answers_phase env c (received c) (AList.update ''pid'' (JInt pid) (prep_expected prep)) ''serving'' (prep_timeout prep)"
    and "answers_phase env c (Suc (received c)) (AList.update ''pid'' (JInt pid) (prep_expected prep)) ''finalized'' (prep_timeout prep)"
  shows "\<exists>w'. commit env prep w = (Inr Outcome_finalized, w')"
  by (rule commit_run_completes [OF assms])

section \<open>Witnesses\<close>

lemmas sample_defs = sample_ready_def sample_proc_def sample_prepared_def sample_handoff_env_def sample_child_def new_child_def
  sample_expected_def idle_session_def

lemma sample_answersI:
  assumes "receives sample_child n = (\<lambda>_. (0, Inr [x, CHR 10]))" "sample_loads [x, CHR 10] = Inr (sample_phase phase)"
    and "phase \<noteq> ''ready''"
  shows "answers_phase sample_handoff_env (the (proc_child sample_ready)) n (AList.update ''pid'' (JInt 7) sample_expected) phase 30"
  unfolding answers_phase_def
  by (intro exI [of _ 0] exI [of _ "Inr [x, CHR 10]"]
      exI [of _ "[(''type'', JStr phase), (''pid'', JInt 7), (''transaction_id'', JStr ''t'')]"] exI [of _ "sample_phase phase"])
    (use assms in \<open>simp add: sample_defs sample_phase_def read_event_def decode_control_message_def
      HANDOFF_CONTROL_MAX_BYTES_def control_message_def jitem_def scalar_eq_def\<close>)

theorem commit_completes_witness:
  "\<exists>w'. commit sample_handoff_env sample_prepared sample_ready = (Inr Outcome_finalized, w')"
  by (rule commit_completes [where c = "the (proc_child sample_ready)" and pid = 7])
    (use sample_answersI [of 2 "CHR ''V''" "''serving''"] sample_answersI [of 3 "CHR ''F''" "''finalized''"]
      in \<open>simp_all add: sample_defs sample_env_def sample_loads_def\<close>)


lemma sample_finalized: "\<exists>w'. commit sample_handoff_env sample_prepared sample_ready = (Inr Outcome_finalized, w')"
  by (rule commit_run_completes [where c = "the (proc_child sample_ready)" and pid = 7])
    (use sample_answersI [of 2 "CHR ''V''" "''serving''"] sample_answersI [of 3 "CHR ''F''" "''finalized''"]
      in \<open>simp_all add: sample_defs sample_env_def sample_loads_def\<close>)

theorem commit_finalized_witness:
  "\<exists>w' d1 d2. commit sample_handoff_env sample_prepared sample_ready = (Inr Outcome_finalized, w') \<and>
    proc_trace w' = proc_trace sample_ready @
      [Entered Committing, Stop_accepting, To_child (command ''commit''), From_child (JObj d1), Entered Serving,
       Entered Finalizing, To_child (command ''finalize''), From_child (JObj d2), Entered Finalized]"
  using sample_finalized commit_finalized [of sample_handoff_env sample_prepared sample_ready] by blast

theorem commit_settles_witness:
  "\<exists>result w'. commit sample_handoff_env sample_prepared sample_ready = (Inr result, w') \<and>
    ses_outcome (proc_session w') = Some result \<and> ses_state (proc_session w') = final_state result"
  using commit_settles [of sample_ready "the (proc_child sample_ready)" 7 sample_handoff_env sample_prepared]
  by (auto simp: sample_defs)

text \<open>An accept loop that cannot be stopped: the commit rolls back.\<close>

definition stuck_env :: handoff_env where
  "stuck_env = sample_handoff_env\<lparr>shutdown_fails := (\<lambda>_. Some TypeError)\<rparr>"

lemma sample_rolled_back: "\<exists>w'. commit stuck_env sample_prepared sample_ready = (Inr Outcome_rolled_back, w')"
proof -
  obtain bytes where "encode_control_message (hpy stuck_env) (JObj [(''type'', JStr ''abort'')]) = Inr bytes"
    using encode_command [of "hpy stuck_env" "''abort''"]
    by (auto simp: command_def stuck_env_def sample_handoff_env_def sample_env_def)
  then show ?thesis
    by (simp add: commit_def commit_phases_def stop_phase_def roll_back_def abort_def stop_child_def terminate_bounded_def
        stop_bounded_def poll_def see_exit_def send_message_def with_child_def on_child_def on_session_def get_session_def
        trace_event_def enter_def transition_def validate_transition_def child_runtime_pid_def server_shutdown_def ignore_failure_def
        set_outcome_def tagged_def tagged_bind_def act_bind_def act_then_def act_return_def act_lift_def act_modify_def
        act_catch_def act_raise_def Let_def stuck_env_def sample_defs)
qed

theorem rollback_resumes_witness:
  "\<exists>w'. commit stuck_env sample_prepared sample_ready = (Inr Outcome_rolled_back, w') \<and> exited w' \<and>
    resume_loop 1 sample_context (act_return ()) (\<lambda>_. act_return ()) w' =
      act_then (serve_forever (act_return ())) (resume_loop 0 sample_context (act_return ()) (\<lambda>_. act_return ()))
        (w'\<lparr>proc_session := idle_session, proc_trace := proc_trace w' @ [Entered Idle]\<rparr>)"
  using sample_rolled_back rollback_resumes [of stuck_env sample_prepared sample_ready _ 0] unfolding One_nat_def by blast

end
