(* ===== verification/Handoff_Prepare.thy ===== *)
theory Handoff_Prepare
  imports Handoff_Facts
begin

text \<open>
  The two ends of a handoff: what a preparation leaves in the old process, whether it succeeds or not,
  the order in which a replacement acts, and that both processes build the same messages.
\<close>

section \<open>Preparations\<close>

text \<open>A preparation whose replacement never started goes straight back to idle.\<close>

definition prepare_step :: "handoff_state \<Rightarrow> handoff_state \<Rightarrow> bool" where
  "prepare_step s s' \<longleftrightarrow> validate_transition s s' \<or> s = Preparing \<and> s' = Idle"

definition cleared :: "proc \<Rightarrow> bool" where
  "cleared w \<longleftrightarrow> ses_transaction_id (proc_session w) = JNull \<and> ses_child_pid (proc_session w) = None"

abbreviation preparing :: "handoff_state \<Rightarrow> handoff_state list \<Rightarrow> handoff_state set \<Rightarrow> proc \<Rightarrow> bool" where
  "preparing \<equiv> orderly prepare_step"

definition undone :: "handoff_state \<Rightarrow> handoff_state list \<Rightarrow> proc \<Rightarrow> bool" where
  "undone s0 ss w \<longleftrightarrow> preparing s0 ss {Idle, Aborting} w \<and> cleared w"

lemma clear_session_valid:
  assumes "A \<subseteq> {Idle, Aborting}"
  shows "valid (preparing s0 ss A) (on_session (\<lambda>x. x\<lparr>ses_transaction_id := JNull, ses_child_pid := None\<rparr>)) (\<lambda>_. undone s0 ss) E"
  unfolding on_session_def
  by (rule valid_modify) (use assms in \<open>auto simp: undone_def cleared_def orderly_session elim: orderly_states\<close>)

lemma clear_preparation_undoes:
  assumes "A = {Preparing} \<and> no_child \<or> A = {Rolled_back} \<or> A = {Aborting} \<and> \<not> no_child"
  shows "valid (preparing s0 ss A) (clear_preparation no_child) (\<lambda>_. undone s0 ss) (undone s0 ss)"
proof -
  let ?clear = "on_session (\<lambda>x. x\<lparr>ses_transaction_id := JNull, ses_child_pid := None\<rparr>)"
  have idle: "valid (preparing s0 ss A) (act_then (enter Idle) ?clear) (\<lambda>_. undone s0 ss) (undone s0 ss)"
    if "A \<noteq> {Aborting}"
    by (rule valid_then [OF valid_enter clear_session_valid])
      (use assms that in \<open>auto simp: prepare_step_def validate_transition_def\<close>)
  have stay: "valid (preparing s0 ss A) (act_then (act_return ()) ?clear) (\<lambda>_. undone s0 ss) (undone s0 ss)" if "A = {Aborting}"
    by (rule valid_then [OF valid_return clear_session_valid]) (use that in auto)
  have "clear_preparation no_child w = act_then (if A \<noteq> {Aborting} then enter Idle else act_return ()) ?clear w"
    if "preparing s0 ss A w" for w
  proof -
    have "ses_state (proc_session w) \<in> A" using that unfolding orderly_def by blast
    then show ?thesis using assms
      by (auto simp: clear_preparation_def act_bind_eq [where m = "get_session ses_state", OF get_session_def])
  qed
  with idle stay show ?thesis by (cases "A = {Aborting}") (simp_all add: valid_def)
qed

lemma reset_preparation_undoes:
  "valid (preparing s0 ss {Preparing}) (reset_preparation env no_child) (\<lambda>_. undone s0 ss) (undone s0 ss)"
proof (cases no_child)
  case True
  then show ?thesis
    unfolding reset_preparation_def
    by (intro valid_finally [where R = "\<lambda>_. preparing s0 ss {Preparing}" and E = "preparing s0 ss {Preparing}"]
        clear_preparation_undoes) (auto intro: valid_return)
next
  case False
  have "valid (preparing s0 ss {Preparing}) (abort env) (\<lambda>_. preparing s0 ss {Rolled_back}) (preparing s0 ss {Aborting})"
    by (rule abort_course) (auto simp: prepare_step_def)
  then show ?thesis
    using False unfolding reset_preparation_def
    by (intro valid_finally [where R = "\<lambda>_. preparing s0 ss {Rolled_back}" and E = "preparing s0 ss {Aborting}"]
        clear_preparation_undoes) auto
qed

lemma fail_preparation_undoes:
  "valid (preparing s0 ss {Preparing}) (fail_preparation env no_child e) Q (undone s0 ss)"
  unfolding fail_preparation_def
  by (rule valid_then [OF reset_preparation_undoes]) (simp add: valid_def act_raise_def)

lemma await_ready_course:
  "valid (preparing s0 ss {Preparing}) (await_ready env expected timeout lease) (\<lambda>_. preparing s0 ss {Ready})
     (preparing s0 ss {Preparing})"
  unfolding await_ready_def
  by (intro valid_bind [OF valid_course] valid_then [OF valid_course] valid_then [OF valid_on_session]
      valid_then [OF valid_transition] valid_return course_keeps channel_keeps)
    (auto simp: prepare_step_def validate_transition_def)

text \<open>Only handoff errors leave a preparation.\<close>

definition raises :: "(py_exc \<Rightarrow> bool) \<Rightarrow> 'a proc_act \<Rightarrow> bool" where
  "raises P m \<longleftrightarrow> (\<forall>w e w'. m w = (Inl e, w') \<longrightarrow> P e)"

lemma raisesD: "raises P m \<Longrightarrow> m w = (Inl e, w') \<Longrightarrow> P e"
  by (auto simp: raises_def)

lemma raises_bind: "raises P m \<Longrightarrow> (\<And>x. raises P (f x)) \<Longrightarrow> raises P (act_bind m f)"
  by (fastforce simp: raises_def act_bind_def split: prod.splits sum.splits)

lemma child_raises_then: "raises P m \<Longrightarrow> raises P n \<Longrightarrow> raises P (act_then m n)"
  unfolding act_then_def by (rule raises_bind)

lemma raises_catch: "(\<And>e. \<exists>a. h e = Some a \<and> raises P a) \<Longrightarrow> raises P (act_catch m h)"
  unfolding raises_def
proof (intro allI impI)
  fix w e w'
  assume h: "\<And>e. \<exists>a. h e = Some a \<and> (\<forall>w e w'. a w = (Inl e, w') \<longrightarrow> P e)" and "act_catch m h w = (Inl e, w')"
  then obtain e1 w1 where "(case h e1 of Some a \<Rightarrow> a w1 | None \<Rightarrow> (Inl e1, w1)) = (Inl e, w')"
    by (auto simp: act_catch_def split: prod.splits sum.splits)
  moreover obtain a where "h e1 = Some a" "\<forall>w e w'. a w = (Inl e, w') \<longrightarrow> P e" using h by blast
  ultimately show "P e" by (simp, blast)
qed

lemma child_raises_basic:
  "raises P (act_return x)" "P e \<Longrightarrow> raises P (act_raise e)" "raises P (act_modify f)" "raises P (get_session g)"
  "raises P (on_session k)" "raises P (enter s)" "raises P (trace_event ev)" "raises P reset_session_to_idle"
  by (auto simp: raises_def act_return_def act_raise_def act_modify_def get_session_def on_session_def enter_def trace_event_def
      act_then_def act_bind_def reset_run)

lemma raises_if: "(b \<Longrightarrow> raises P m) \<Longrightarrow> (\<not> b \<Longrightarrow> raises P n) \<Longrightarrow> raises P (if b then m else n)"
  by simp

lemmas raises_intros = raises_bind child_raises_then raises_if child_raises_basic raises_catch

lemma raises_finally: "raises P m \<Longrightarrow> raises P (act_finally m f)"
  by (auto simp: raises_def act_finally_def split: prod.splits)

lemma abort_raises: "raises is_handoff_error (abort env)"
  unfolding abort_def ignore_failure_def stop_child_def
  by (intro raises_intros) (auto simp: is_handoff_error_def intro: raises_intros)

lemma fail_preparation_raises: "raises is_handoff_error (fail_preparation env no_child e)"
  unfolding fail_preparation_def reset_preparation_def
  by (intro child_raises_then raises_finally raises_if child_raises_basic abort_raises) (simp add: is_handoff_error_def)

text \<open>Preparing from an idle or finalized session, and against a running handoff.\<close>

lemma begin_preparation_run:
  assumes "ses_state (proc_session w) \<in> {Idle, Finalized}"
  shows "\<exists>w1. begin_preparation expected timeout lease w = (Inr (), w1) \<and>
    preparing (ses_state (proc_session w)) (entered (proc_trace w)) {Preparing} w1"
proof (cases "ses_state (proc_session w) = Idle")
  case True
  then show ?thesis
    unfolding orderly_def
    by (auto simp: begin_preparation_def returns validate_transition_def prepare_step_def intro: exI [of _ "[Preparing]"])
next
  case False
  with assms have "ses_state (proc_session w) = Finalized" by simp
  then show ?thesis
    unfolding orderly_def
    by (auto simp: begin_preparation_def returns reset_run validate_transition_def prepare_step_def idle_session_def
        intro: exI [of _ "[Idle, Preparing]"])
qed

lemma begin_preparation_conflict:
  "ses_state (proc_session w) \<notin> {Idle, Finalized} \<Longrightarrow> begin_preparation expected timeout lease w = (Inl HandoffConflictError, w)"
  by (simp add: begin_preparation_def act_bind_def act_then_def get_session_def act_return_def act_raise_def)

text \<open>A prepared handoff: the replacement's runtime is known and the session is ready.\<close>

definition is_prepared :: "proc \<Rightarrow> bool" where
  "is_prepared w \<longleftrightarrow> ses_state (proc_session w) = Ready \<and>
     (\<exists>c pid. proc_child w = Some c \<and> runtime_pid c = Some pid \<and> ses_child_pid (proc_session w) = Some pid)"

lemma expect_child_phase_pid:
  assumes "expect_child_phase env expected phase timeout w = (Inr y, w')" "proc_child w = Some c"
  shows "\<exists>c'. proc_child w' = Some c' \<and> runtime_pid c' = runtime_pid c"
  using assms by (fastforce simp: expect_child_phase_def returns split: if_splits dest: recv_message_run)

lemma await_ready_run:
  assumes "await_ready env expected timeout lease w = (Inr p, w')"
  shows "p = \<lparr>prep_expected = expected, prep_timeout = timeout, prep_lease = lease\<rparr> \<and> is_prepared w'"
proof -
  from assms obtain c pid w1 where "proc_child w = Some c" "runtime_pid c = Some pid"
    and e: "expect_child_phase env (AList.update ''pid'' (JInt pid) expected) ''ready'' timeout w = (Inr (), w1)"
    and w': "p = \<lparr>prep_expected = expected, prep_timeout = timeout, prep_lease = lease\<rparr>" "ses_state (proc_session w') = Ready"
      "proc_child w' = proc_child w1" "ses_child_pid (proc_session w') = Some pid"
    by (auto simp: await_ready_def returns)
  with expect_child_phase_pid [OF e] show ?thesis by (auto simp: is_prepared_def)
qed


text \<open>The two attempts after a preparation began.\<close>

definition attempts :: "handoff_env \<Rightarrow> handoff_context \<Rightarrow> jdict \<Rightarrow> rat \<Rightarrow> rat \<Rightarrow> prepared_handoff proc_act" where
  "attempts env ctx expected timeout lease =
     act_bind
       (act_catch
         (act_bind (act_lift (successor_executable ctx)) (\<lambda>executable. spawn_child env expected executable timeout))
         (\<lambda>e. Some (fail_preparation env True e)))
       (\<lambda>_. act_catch (await_ready env expected timeout lease) (\<lambda>e. Some (fail_preparation env False e)))"

lemma attempts_course:
  "valid (preparing s0 ss {Preparing}) (attempts env ctx expected timeout lease) (\<lambda>_. preparing s0 ss {Ready}) (undone s0 ss)"
  unfolding attempts_def
proof (rule valid_bind)
  show "valid (preparing s0 ss {Preparing})
      (act_catch (act_bind (act_lift (successor_executable ctx)) (\<lambda>executable. spawn_child env expected executable timeout))
         (\<lambda>e. Some (fail_preparation env True e))) (\<lambda>_. preparing s0 ss {Preparing}) (undone s0 ss)"
    by (rule valid_catch_all [OF valid_course])
      (auto intro!: fail_preparation_undoes keeps_intros course_keeps channel_keeps)
  show "valid (preparing s0 ss {Preparing})
      (act_catch (await_ready env expected timeout lease) (\<lambda>e. Some (fail_preparation env False e)))
      (\<lambda>_. preparing s0 ss {Ready}) (undone s0 ss)"
    by (rule valid_catch_all [OF await_ready_course]) (auto intro: fail_preparation_undoes)
qed

lemma attempts_run:
  assumes "attempts env ctx expected timeout lease w = (Inr p, w')"
  shows "p = \<lparr>prep_expected = expected, prep_timeout = timeout, prep_lease = lease\<rparr> \<and> is_prepared w'"
proof -
  have never: "fail_preparation env b e w1 \<noteq> (Inr p, w')" for b e w1
    by (auto simp: fail_preparation_def returns)
  from assms obtain w1 where "act_catch (await_ready env expected timeout lease) (\<lambda>e. Some (fail_preparation env False e)) w1 = (Inr p, w')"
    by (auto simp: attempts_def returns)
  with never have "await_ready env expected timeout lease w1 = (Inr p, w')" by (auto dest: act_catch_run)
  then show ?thesis by (rule await_ready_run)
qed

lemma prepare_attempts:
  assumes "complete_identity expected" "begin_preparation expected timeout lease w = (Inr (), w1)"
  shows "prepare env ctx expected timeout lease w = attempts env ctx expected timeout lease w1"
  using assms by (simp add: prepare_def attempts_def act_then_def act_bind_def [of "begin_preparation _ _ _"])

lemma prepare_run:
  assumes "prepare env ctx expected timeout lease w = (Inr p, w')"
  shows "p = \<lparr>prep_expected = expected, prep_timeout = timeout, prep_lease = lease\<rparr> \<and> is_prepared w'"
proof -
  from assms have c: "complete_identity expected" by (auto simp: prepare_def returns split: if_splits)
  with assms obtain w1 where "begin_preparation expected timeout lease w = (Inr (), w1)"
    by (auto simp: prepare_def act_then_run)
  with prepare_attempts [OF c this] assms show ?thesis by (simp add: attempts_run)
qed

text \<open>
  Claim C9.  A preparation either leaves a ready session whose replacement is known, or it raises a handoff
  error.  Then it changed nothing (the identity is incomplete, or a handoff is running), or its session is
  back to idle without a transaction, or it stays aborting, which refuses further handoffs.  The states
  entered follow the transition table, except that a preparation without a replacement goes straight back
  to idle.
\<close>

theorem prepare_result:
  "case prepare env ctx expected timeout lease w of
     (Inr p, w') \<Rightarrow>
       p = \<lparr>prep_expected = expected, prep_timeout = timeout, prep_lease = lease\<rparr> \<and> is_prepared w' \<and>
       orderly prepare_step (ses_state (proc_session w)) (entered (proc_trace w)) {Ready} w'
   | (Inl e, w') \<Rightarrow>
       is_handoff_error e \<and>
       (w' = w \<or>
        ses_state (proc_session w) \<in> {Idle, Finalized} \<and> cleared w' \<and>
        orderly prepare_step (ses_state (proc_session w)) (entered (proc_trace w)) {Idle, Aborting} w')"
proof (cases "complete_identity expected \<and> ses_state (proc_session w) \<in> {Idle, Finalized}")
  case True
  let ?s = "ses_state (proc_session w)" and ?ss = "entered (proc_trace w)"
  from True begin_preparation_run obtain w1 where w1: "begin_preparation expected timeout lease w = (Inr (), w1)"
    "preparing ?s ?ss {Preparing} w1" by blast
  obtain r w' where r: "attempts env ctx expected timeout lease w1 = (r, w')" by fastforce
  have p: "prepare env ctx expected timeout lease w = (r, w')"
    using prepare_attempts [OF _ w1(1)] True r by simp
  show ?thesis
  proof (cases r)
    case (Inl e)
    have "raises is_handoff_error (attempts env ctx expected timeout lease)"
      unfolding attempts_def by (intro raises_bind raises_catch) (auto intro: fail_preparation_raises)
    with r Inl have "is_handoff_error e" by (auto dest: raisesD)
    moreover have "undone ?s ?ss w'" using validD(2) [OF attempts_course w1(2)] r Inl by simp
    ultimately show ?thesis using p Inl True by (simp add: undone_def)
  next
    case (Inr x)
    with r attempts_run validD(1) [OF attempts_course w1(2)] show ?thesis by (simp add: p)
  qed
next
  case False
  then show ?thesis
    using begin_preparation_conflict [of w expected timeout lease]
    by (auto simp: prepare_def act_raise_def is_handoff_error_def act_then_def act_bind_def [of "begin_preparation _ _ _"])
qed


section \<open>The replacement\<close>

text \<open>What an action adds to the trace.\<close>

definition emits :: "(proc_event \<Rightarrow> bool) \<Rightarrow> 'a proc_act \<Rightarrow> bool" where
  "emits P m \<longleftrightarrow> (\<forall>w r w'. m w = (r, w') \<longrightarrow> (\<exists>es. proc_trace w' = proc_trace w @ es \<and> list_all P es))"

lemma child_emitsD: "emits P m \<Longrightarrow> m w = (r, w') \<Longrightarrow> \<exists>es. proc_trace w' = proc_trace w @ es \<and> list_all P es"
  by (simp add: emits_def)

lemma emits_silent: "keeps proc_trace m \<Longrightarrow> emits P m"
  by (auto simp: emits_def dest: keepsD)

lemma child_emits_bind:
  assumes "emits P m" "\<And>x. emits P (f x)"
  shows "emits P (act_bind m f)"
  unfolding emits_def
proof (intro allI impI)
  fix w r w' assume bind: "act_bind m f w = (r, w')"
  obtain r1 w1 where m: "m w = (r1, w1)" by fastforce
  from child_emitsD [OF assms(1) m] obtain es where es: "proc_trace w1 = proc_trace w @ es" "list_all P es" by blast
  show "\<exists>es. proc_trace w' = proc_trace w @ es \<and> list_all P es"
  proof (cases r1)
    case (Inl e)
    with bind m es show ?thesis by (auto simp: act_bind_def)
  next
    case (Inr x)
    with bind m have "f x w1 = (r, w')" by (simp add: act_bind_def)
    from child_emitsD [OF assms(2) this] es show ?thesis by (metis append_assoc list_all_append)
  qed
qed

lemma child_emits_then: "emits P m \<Longrightarrow> emits P n \<Longrightarrow> emits P (act_then m n)"
  unfolding act_then_def by (rule child_emits_bind)

lemma child_emits_if: "(b \<Longrightarrow> emits P m) \<Longrightarrow> (\<not> b \<Longrightarrow> emits P n) \<Longrightarrow> emits P (if b then m else n)"
  by simp

lemma child_emits_basic:
  "emits P (act_return x)" "emits P (act_raise e)" "emits P (act_lift r)" "emits P (get_session g)" "emits P (on_session k)"
  by (auto intro!: emits_silent keepsI simp: act_return_def act_raise_def act_lift_def get_session_def on_session_def act_modify_def)

lemma emits_enter: "P (Entered s) \<Longrightarrow> emits P (enter s)"
  by (auto simp: emits_def enter_def act_then_def act_bind_def on_session_def trace_event_def act_modify_def)

lemma emits_transition: "P (Entered s) \<Longrightarrow> emits P (transition s)"
  unfolding transition_def by (intro child_emits_bind child_emits_if child_emits_basic emits_enter)

lemma emits_read: "(\<And>d. P (From_parent (JObj d))) \<Longrightarrow> emits P (read_control_message env)"
  by (auto simp: emits_def read_control_message_def split: sum.splits)

lemma emits_write: "P (To_parent m) \<Longrightarrow> emits P (write_control_message env m)"
  unfolding write_control_message_def
  by (rule child_emits_bind, rule child_emits_basic) (auto simp: emits_def split: option.splits)

lemmas emits_intros = child_emits_bind child_emits_then child_emits_if child_emits_basic emits_transition emits_read emits_write

lemma emits_child_prepare: "emits (\<lambda>e. e \<noteq> Serve) (child_prepare env ctx)"
  unfolding child_prepare_def by (intro emits_intros) auto

lemma emits_child_commit: "emits (\<lambda>e. e \<noteq> Serve) (child_commit env expected)"
  unfolding child_commit_def write_phase_def expect_command_def by (intro emits_intros) auto


lemma read_control_message_run:
  "read_control_message env w = (Inr d, w') \<Longrightarrow> did w [From_parent (JObj d)] w'"
  by (auto simp: read_control_message_def did_def split: sum.splits)

lemma write_control_message_run:
  "write_control_message env m w = (Inr y, w') \<Longrightarrow> did w [To_parent m] w'"
  by (auto simp: write_control_message_def returns did_def split: option.splits)

lemma expect_command_run:
  "expect_command env name w = (Inr y, w') \<Longrightarrow>
   \<exists>k. did w [From_parent (JObj k)] w' \<and> py_eq (float_as_int env) (JObj k) (command name)"
  by (auto simp: expect_command_def returns command_def split: if_splits dest: read_control_message_run)

lemma write_phase_run:
  "write_phase env phase expected w = (Inr y, w') \<Longrightarrow>
   \<exists>m. did w [To_parent m] w' \<and> control_message phase expected (phase = ''ready'') = Inr m"
  by (auto simp: write_phase_def returns dest: write_control_message_run)

lemma child_prepare_run:
  assumes "child_prepare env ctx w = (Inr (m, address), w')"
  shows "did w [To_parent (JObj [(''type'', JStr ''started''), (''pid'', JInt (own_pid ctx))]), From_parent (JObj m), Entered Preparing] w' \<and>
    valid_prepare env ctx m"
  using assms by (auto simp: child_prepare_def returns did_def split: if_splits
      dest!: write_control_message_run read_control_message_run)

lemma child_commit_run:
  assumes "child_commit env expected w = (Inr y, w')"
  shows "\<exists>ready k. did w [Entered Ready, To_parent ready, From_parent (JObj k), Entered Committing, Entered Serving] w' \<and>
    control_message ''ready'' expected True = Inr ready \<and> py_eq (float_as_int env) (JObj k) (command ''commit'')"
  using assms by (fastforce simp: child_commit_def returns did_def dest!: write_phase_run expect_command_run)

lemma probe_loop_run:
  "probe_loop env expected deadline w = (Inr h, w') \<Longrightarrow> did w [Healthy (JObj h)] w' \<and> health_matches env expected h"
proof (induction env expected deadline w rule: probe_loop.induct)
  case (1 env expected deadline w)
  obtain r w1 where r: "read_health env (min (deadline - proc_clock w) 1) w = (r, w1)" by fastforce
  then have t: "proc_trace w1 = proc_trace w" by (auto simp: read_health_def split: prod.splits)
  let ?again = "probe_loop env expected deadline (w1\<lparr>proc_clock := proc_clock w1 + min (1 / 20) (deadline - proc_clock w)\<rparr>)"
  have step: "did w [Healthy (JObj h)] w' \<and> health_matches env expected h" if "\<not> deadline \<le> proc_clock w" "?again = (Inr h, w')"
    using "1.IH" [OF refl _ r [symmetric] that(2)] that(1) t by (simp add: did_def)
  from "1.prems" r t have "\<not> deadline \<le> proc_clock w \<and> (?again = (Inr h, w') \<or>
      health_matches env expected h \<and> w' = w1\<lparr>proc_trace := proc_trace w1 @ [Healthy (JObj h)]\<rparr>)"
    by (subst (asm) probe_loop.simps) (auto simp: Let_def split: if_splits sum.splits)
  with step t show ?case by (auto simp: did_def)
qed

text \<open>The three ways a run of the replacement goes on after its first two parts.\<close>

lemma run_child_unprepared:
  "child_prepare env ctx w = (Inl e, w1) \<Longrightarrow> run_child env ctx rounds serving waiting w = (Inr (Some 1), w1)"
  by (simp add: run_child_def child_phases_def tagged_bind_def tagged_def act_bind_def act_return_def child_end_def
      child_cleanup_def act_then_def)

lemma close_after_failure:
  "\<exists>w3. child_cleanup env ctx Server_made w = (Inr (), w3) \<and>
     (proc_trace w3 = proc_trace w \<or> proc_trace w3 = proc_trace w @ [Close_listener])"
  by (cases "close_fails ctx") (simp_all add: child_cleanup_def ignore_failure_def close_server_def act_catch_def act_then_def
      act_bind_def act_raise_def act_return_def trace_event_def act_modify_def)

lemma run_child_uncommitted:
  assumes "child_prepare env ctx w = (Inr (m, address), w1)"
    and "child_commit env (AList.update ''pid'' (JInt (own_pid ctx)) m) w1 = (Inl e, w2)"
    and "child_cleanup env ctx Server_made w2 = (Inr (), w3)"
  shows "run_child env ctx rounds serving waiting w = (Inr (Some 1), w3)"
  using assms by (simp add: run_child_def child_phases_def tagged_bind_def tagged_def act_bind_def act_return_def child_end_def
      act_then_def Let_def)

lemma run_child_committed:
  assumes "child_prepare env ctx w = (Inr (m, address), w1)"
    and "child_commit env (AList.update ''pid'' (JInt (own_pid ctx)) m) w1 = (Inr y, w2)"
  shows "run_child env ctx rounds serving waiting w =
    act_bind (tagged Serving_started
      (child_serve env ctx (AList.update ''pid'' (JInt (own_pid ctx)) m) address rounds serving waiting)) (child_end env ctx)
      (w2\<lparr>proc_trace := proc_trace w2 @ [Serve]\<rparr>)"
  using assms by (simp add: run_child_def child_phases_def tagged_bind_def tagged_def [of _ "child_prepare _ _"]
      tagged_def [of _ "child_commit _ _"] act_bind_def act_then_def trace_event_def act_modify_def Let_def)

text \<open>
  Claim C8.  A replacement serves only after COMMIT.  A run of it either fails before that, with exit code 1
  and without having served, or it comes to serve in exactly one way: it announced itself, got a
  PREPARE message with its own loaded identity, answered READY with that identity, and got COMMIT.
\<close>

theorem replacement_serves_after_commit:
  "(\<exists>es w'. run_child env ctx rounds serving waiting w = (Inr (Some 1), w') \<and> proc_trace w' = proc_trace w @ es \<and> Serve \<notin> set es) \<or>
   (\<exists>m address ready k w1.
      run_child env ctx rounds serving waiting w =
        act_bind (tagged Serving_started
          (child_serve env ctx (AList.update ''pid'' (JInt (own_pid ctx)) m) address rounds serving waiting)) (child_end env ctx) w1 \<and>
      proc_trace w1 = proc_trace w @
        [To_parent (JObj [(''type'', JStr ''started''), (''pid'', JInt (own_pid ctx))]), From_parent (JObj m), Entered Preparing,
         Entered Ready, To_parent ready, From_parent (JObj k), Entered Committing, Entered Serving, Serve] \<and>
      valid_prepare env ctx m \<and>
      control_message ''ready'' (AList.update ''pid'' (JInt (own_pid ctx)) m) True = Inr ready \<and>
      py_eq (float_as_int env) (JObj k) (command ''commit''))"
proof (cases "child_prepare env ctx w")
  case (Pair r1 w1)
  note p = child_emitsD [OF emits_child_prepare Pair]
  show ?thesis
  proof (cases r1)
    case (Inl e)
    with Pair p show ?thesis by (auto simp: run_child_unprepared list_all_iff)
  next
    case (Inr ma)
    then obtain m address where prep: "child_prepare env ctx w = (Inr (m, address), w1)" using Pair by (cases ma) auto
    let ?e = "AList.update ''pid'' (JInt (own_pid ctx)) m"
    obtain r2 w2 where c: "child_commit env ?e w1 = (r2, w2)" by fastforce
    show ?thesis
    proof (cases r2)
      case (Inl e)
      obtain w3 where w3: "child_cleanup env ctx Server_made w2 = (Inr (), w3)"
        "proc_trace w3 = proc_trace w2 \<or> proc_trace w3 = proc_trace w2 @ [Close_listener]"
        using close_after_failure by blast
      have "run_child env ctx rounds serving waiting w = (Inr (Some 1), w3)"
        using run_child_uncommitted [OF prep _ w3(1)] c Inl by blast
      with p child_emitsD [OF emits_child_commit c] w3(2) show ?thesis by (auto simp: list_all_iff)
    next
      case (Inr y)
      then obtain ready k where "did w1 [Entered Ready, To_parent ready, From_parent (JObj k), Entered Committing, Entered Serving] w2"
        "control_message ''ready'' ?e True = Inr ready" "py_eq (float_as_int env) (JObj k) (command ''commit'')"
        using child_commit_run c by blast
      with child_prepare_run [OF prep] run_child_committed [OF prep c [unfolded Inr]] show ?thesis
        by (intro disjI2 exI [of _ m] exI [of _ address] exI [of _ ready] exI [of _ k]
            exI [of _ "w2\<lparr>proc_trace := proc_trace w2 @ [Serve]\<rparr>"]) (simp add: did_def)
    qed
  qed
qed


text \<open>
  A replacement that serves goes on only when the listener, asked over the network, answers with
  its exact serving identity: it reports SERVING after that, waits for FINALIZE, reports
  FINALIZED, and then serves like any other listener.
\<close>

theorem replacement_finalizes:
  assumes "child_serve env ctx expected address rounds serving waiting w = (Inr r, w')"
  shows "\<exists>health h m1 k m2 w1.
    proc_trace w1 = proc_trace w @
      [Healthy (JObj h), To_parent m1, From_parent (JObj k), Entered Finalizing, Entered Finalized, To_parent m2] \<and>
    expected_serving_health expected = Inr health \<and> health_matches env health h \<and>
    control_message ''serving'' expected False = Inr m1 \<and> py_eq (float_as_int env) (JObj k) (command ''finalize'') \<and>
    control_message ''finalized'' expected False = Inr m2 \<and>
    serve_with_resume rounds ctx serving waiting True w1 = (Inr r, w')"
proof -
  from assms obtain health h w1 w2 w3 w4 w5 w6 where
    h: "expected_serving_health expected = Inr health" "probe_health env HANDOFF_READY_TIMEOUT_SECONDS health w = (Inr h, w1)" and
    w2: "write_phase env ''serving'' expected w1 = (Inr (), w2)" and w3: "expect_command env ''finalize'' w2 = (Inr (), w3)" and
    w5: "transition Finalizing w3 = (Inr (), w4)" "transition Finalized w4 = (Inr (), w5)" and
    w6: "write_phase env ''finalized'' expected w5 = (Inr (), w6)" and
    s: "serve_with_resume rounds ctx serving waiting True w6 = (Inr r, w')"
    by (auto simp: child_serve_def act_bind_run act_then_run act_lift_run)
  from write_phase_run [OF w2] obtain m1 where m1: "did w1 [To_parent m1] w2" "control_message ''serving'' expected False = Inr m1" by auto
  from expect_command_run [OF w3] obtain k where k: "did w2 [From_parent (JObj k)] w3" "py_eq (float_as_int env) (JObj k) (command ''finalize'')" by blast
  from write_phase_run [OF w6] obtain m2 where m2: "did w5 [To_parent m2] w6" "control_message ''finalized'' expected False = Inr m2" by auto
  have "did w [Healthy (JObj h)] w1 \<and> health_matches env health h" using probe_loop_run [OF h(2) [unfolded probe_health_def]] .
  moreover have "did w3 [Entered Finalizing, Entered Finalized] w5" using w5 by (auto simp: transition_run did_def)
  ultimately show ?thesis using h(1) m1 k m2 s
    by (intro exI [of _ health] exI [of _ h] exI [of _ m1] exI [of _ k] exI [of _ m2] exI [of _ w6]) (simp add: did_def)
qed


section \<open>Both ends agree\<close>

lemma jitem_update: "jitem (AList.update k v d) k' = (if k' = k then Inr v else jitem d k')"
  by (simp add: jitem_def update_conv')

lemma prepare_message_Inr:
  "prepare_message expected = Inr m \<longleftrightarrow> (\<exists>t r p c f. jitem expected ''transaction_id'' = Inr t \<and> jitem expected ''release'' = Inr r \<and>
     jitem expected ''serving_payload_sha256'' = Inr p \<and> jitem expected ''release_receipt_sha256'' = Inr c \<and>
     jitem expected ''manifest_sha256'' = Inr f \<and>
     m = [(''type'', JStr ''prepare''), (''protocol_version'', JInt 2), (''transaction_id'', t), (''release'', r),
          (''serving_payload_sha256'', p), (''release_receipt_sha256'', c), (''manifest_sha256'', f)])"
  by (auto simp: prepare_message_def identity_entries_def IDENTITY_FIELDS_def HANDOFF_PROTOCOL_VERSION_def res_bind_Inr)

text \<open>
  Old process and replacement agree: from the PREPARE message the replacement builds, for every
  phase, the very message that the old process expects, and it accepts the PREPARE message exactly
  when the requested identity is the one it loaded.
\<close>

theorem handshake_agrees:
  assumes "prepare_message expected = Inr m" "listener_entry env pid = Inr entry"
  shows "control_message phase (AList.update ''pid'' v (m @ [entry])) ident = control_message phase (AList.update ''pid'' v expected) ident \<and>
    (valid_prepare env ctx (m @ [entry]) \<longleftrightarrow>
      nonempty_str (jget expected ''transaction_id'') \<and>
      py_eq (float_as_int env) (jget expected ''release'') (JStr (release_version ctx)) \<and>
      py_eq (float_as_int env) (jget expected ''serving_payload_sha256'') (opt_str (serving_payload_sha256 ctx)) \<and>
      py_eq (float_as_int env) (jget expected ''release_receipt_sha256'') (opt_str (release_receipt_sha256 ctx)) \<and>
      py_eq (float_as_int env) (jget expected ''manifest_sha256'') (opt_str (payload_manifest_sha256 ctx)))"
proof -
  have entry: "fst entry = ''listener_fd'' \<or> fst entry = ''listener_share_b64''"
    using assms(2) by (auto simp: listener_entry_def split: if_splits option.splits sum.splits)
  from assms(1) obtain t r p c f where e: "jitem expected ''transaction_id'' = Inr t" "jitem expected ''release'' = Inr r"
    "jitem expected ''serving_payload_sha256'' = Inr p" "jitem expected ''release_receipt_sha256'' = Inr c"
    "jitem expected ''manifest_sha256'' = Inr f"
    and m: "m = [(''type'', JStr ''prepare''), (''protocol_version'', JInt 2), (''transaction_id'', t), (''release'', r),
          (''serving_payload_sha256'', p), (''release_receipt_sha256'', c), (''manifest_sha256'', f)]"
    unfolding prepare_message_Inr by blast
  have "jitem (m @ [entry]) ''transaction_id'' = Inr t" "jitem (m @ [entry]) ''release'' = Inr r"
    "jitem (m @ [entry]) ''serving_payload_sha256'' = Inr p" "jitem (m @ [entry]) ''release_receipt_sha256'' = Inr c"
    "jitem (m @ [entry]) ''manifest_sha256'' = Inr f" by (simp_all add: m jitem_def)
  with e have same: "control_message phase (AList.update ''pid'' v (m @ [entry])) ident = control_message phase (AList.update ''pid'' v expected) ident"
    by (simp add: control_message_def jitem_update Let_def)
  have x: "jget expected ''transaction_id'' = t" "jget expected ''release'' = r" "jget expected ''serving_payload_sha256'' = p"
    "jget expected ''release_receipt_sha256'' = c" "jget expected ''manifest_sha256'' = f"
    using e by (auto simp: jitem_def jget_def split: option.splits)
  obtain k l where kl: "entry = (k, l)" by (cases entry)
  have "valid_prepare env ctx (m @ [entry]) \<longleftrightarrow> nonempty_str t \<and> py_eq (float_as_int env) r (JStr (release_version ctx)) \<and>
      py_eq (float_as_int env) p (opt_str (serving_payload_sha256 ctx)) \<and>
      py_eq (float_as_int env) c (opt_str (release_receipt_sha256 ctx)) \<and>
      py_eq (float_as_int env) f (opt_str (payload_manifest_sha256 ctx))"
  proof (cases "nonempty_str t")
    case True
    then obtain s where "t = JStr s" by (cases t) auto
    then show ?thesis
      using entry True kl m by (elim disjE)
        (simp_all add: valid_prepare_def listener_field_def has_key_def HANDOFF_PROTOCOL_VERSION_def scalar_eq_def conj_ac)
  qed (simp add: valid_prepare_def m)
  with same show ?thesis unfolding x by blast
qed


section \<open>Witnesses\<close>

theorem handshake_agrees_witness:
  "\<exists>m. prepare_message sample_expected = Inr m \<and> valid_prepare sample_handoff_env sample_context (m @ [(''listener_fd'', JInt 3)]) \<and>
    control_message ''ready'' (AList.update ''pid'' (JInt 7) (m @ [(''listener_fd'', JInt 3)])) True =
      control_message ''ready'' (AList.update ''pid'' (JInt 7) sample_expected) True"
proof -
  obtain m where m: "prepare_message sample_expected = Inr m"
    by (simp add: prepare_message_def identity_entries_def IDENTITY_FIELDS_def jitem_def sample_expected_def)
  have "listener_entry sample_handoff_env 7 = Inr (''listener_fd'', JInt 3)"
    by (simp add: listener_entry_def sample_handoff_env_def)
  from handshake_agrees [OF m this, of "''ready''" "JInt 7" True sample_context] m show ?thesis
    by (simp add: sample_expected_def sample_handoff_env_def sample_context_def opt_str_def scalar_eq_def)
qed

definition sample_serving :: proc where
  "sample_serving = sample_proc\<lparr>proc_session := idle_session\<lparr>ses_state := Serving\<rparr>, proc_reads := 2\<rparr>"

lemma sample_write:
  assumes "phase \<in> {''serving'', ''finalized''}" "proc_trace w = T"
  shows "write_phase sample_handoff_env phase (AList.update ''pid'' (JInt 7) sample_expected) w =
    (Inr (), w\<lparr>proc_writes := proc_writes w + 1, proc_trace := T @ [To_parent (sample_phase phase)]\<rparr>)"
  using assms by (auto simp: write_phase_def control_message_def jitem_def sample_expected_def sample_phase_def write_control_message_def
      encode_control_message_def json_dumps_def HANDOFF_CONTROL_MAX_BYTES_def str_text_def escape_ascii_point_def
      short_escape_def int_text_def nat_text.simps digit_char_def sample_handoff_env_def sample_env_def act_bind_def act_lift_def)


lemma sample_probe:
  assumes "proc_session w = idle_session\<lparr>ses_state := Serving\<rparr>"
  shows "probe_health sample_handoff_env 30 sample_health w =
    (Inr sample_health, w\<lparr>proc_probes := proc_probes w + 1, proc_trace := proc_trace w @ [Healthy (JObj sample_health)]\<rparr>)"
  by (simp add: probe_health_def probe_loop.simps [of _ _ _ w] read_health_def sample_handoff_env_def sample_loads_def Let_def
      health_matches_def sample_health_def HANDOFF_CONTROL_MAX_BYTES_def scalar_eq_def sample_env_def)

lemma sample_child_serve:
  "\<exists>w'. child_serve sample_handoff_env sample_context (AList.update ''pid'' (JInt 7) sample_expected) [JStr ''127.0.0.1'', JInt 8792] 1
     (act_return ()) (\<lambda>_. act_return ()) sample_serving = (Inr (Some ()), w')"
proof -
  have "expected_serving_health (AList.update ''pid'' (JInt 7) sample_expected) = Inr sample_health"
    by (simp add: expected_serving_health_def jitem_def sample_expected_def sample_health_def HANDOFF_PROTOCOL_VERSION_def)
  then show ?thesis
    unfolding One_nat_def
    by (simp add: child_serve_def returns health_port_def HANDOFF_READY_TIMEOUT_SECONDS_def sample_probe sample_write
        expect_command_def read_control_message_def sample_serving_def sample_proc_def serve_with_resume_def
        serve_until_stopped_def wait_for_handoff_outcome_def end_serving_def validate_transition_def idle_session_def
        sample_context_def Let_def decode_control_message_def HANDOFF_CONTROL_MAX_BYTES_def sample_loads_def scalar_eq_def
        sample_handoff_env_def [THEN arg_cong, of parent_line] sample_handoff_env_def [THEN arg_cong, of float_as_int]
        sample_handoff_env_def [THEN arg_cong, of hpy])
qed

theorem replacement_finalizes_witness:
  "\<exists>w' w1 r h m1 k m2. child_serve sample_handoff_env sample_context (AList.update ''pid'' (JInt 7) sample_expected)
       [JStr ''127.0.0.1'', JInt 8792] 1 (act_return ()) (\<lambda>_. act_return ()) sample_serving = (Inr r, w') \<and>
     proc_trace w1 = proc_trace sample_serving @
       [Healthy (JObj h), To_parent m1, From_parent (JObj k), Entered Finalizing, Entered Finalized, To_parent m2] \<and>
     serve_with_resume 1 sample_context (act_return ()) (\<lambda>_. act_return ()) True w1 = (Inr r, w')"
proof -
  from sample_child_serve obtain w' where run: "child_serve sample_handoff_env sample_context
      (AList.update ''pid'' (JInt 7) sample_expected) [JStr ''127.0.0.1'', JInt 8792] 1
      (act_return ()) (\<lambda>_. act_return ()) sample_serving = (Inr (Some ()), w')" by blast
  from replacement_finalizes [OF run] run show ?thesis by blast
qed

end
