(* ===== verification/Service.thy ===== *)
theory Service
  imports Relay_Answers Handoff_Prepare
begin

text \<open>
  \<open>service/control.py\<close>, the request routing of \<open>service/server.py\<close> and the composition of
  \<open>service/entrypoint.py\<close>: one listener process as the relay's state beside the handoff's, the loopback
  control surface (health, drain, handoff) and the dispatch of a request to control or relay.
\<close>

section \<open>One process\<close>

type_synonym service = "world \<times> proc"

type_synonym 'a service_act = "(service, 'a) eff"

text \<open>Both parts read one monotonic clock.\<close>

definition on_relay :: "'a act \<Rightarrow> 'a service_act" where
  "on_relay m s = (case m (fst s) of (r, w) \<Rightarrow> (r, (w, (snd s)\<lparr>proc_clock := clock w\<rparr>)))"

definition on_process :: "'a proc_act \<Rightarrow> 'a service_act" where
  "on_process m s = (case m (snd s) of (r, p) \<Rightarrow> (r, ((fst s)\<lparr>clock := proc_clock p\<rparr>, p)))"

datatype float_value = Finite rat | Positive_infinity | Negative_infinity | Not_a_number

text \<open>
  What the process composes: relay and handoff, the identity it loaded, its providers, and of the
  interpreter \<open>int()\<close>, \<open>float()\<close>, \<open>ipaddress\<close> and the error page of \<open>http.server\<close>.
\<close>

record service_env =
  relay_part :: relay_env
  handoff_part :: handoff_env
  identity_part :: handoff_context
  providers :: registry
  to_int :: "json \<Rightarrow> int res"
  to_float :: "json \<Rightarrow> float_value res"
  ip_is_loopback :: "string \<Rightarrow> bool option"
  error_page :: "int \<Rightarrow> string \<Rightarrow> bytes"
  process_start :: int

text \<open>\<open>_handoff_context()\<close>: the gate's counts as they are now.\<close>

definition current_context :: "service_env \<Rightarrow> world \<Rightarrow> handoff_context" where
  "current_context env w =
     (identity_part env)\<lparr>draining_at := (\<lambda>_. draining (gate_state w)),
       active_responses_at := (\<lambda>_. active_responses (gate_state w)),
       active_handlers_at := (\<lambda>_. active_handlers (gate_state w))\<rparr>"

section \<open>Control responses\<close>

definition close_after :: "unit act" where
  "close_after = act_modify (\<lambda>w. w\<lparr>close_connection := True\<rparr>)"

definition write_json :: "py_env \<Rightarrow> int \<Rightarrow> jdict \<Rightarrow> bool \<Rightarrow> unit act" where
  "write_json env code payload close =
     act_bind (act_lift (json_dumps env True (JObj payload))) (\<lambda>raw.
     act_then (if close then close_after else act_return ())
     (act_then
       (send_down (Head code
         ([(''Content-Type'', ''application/json''), (''Cache-Control'', ''no-store'')]
          @ (if close then [(''Connection'', ''close'')] else []) @ [length_header raw])))
       (send_down (Body raw))))"

text \<open>\<open>handler.send_error\<close> closes the connection.\<close>

definition send_error :: "service_env \<Rightarrow> int \<Rightarrow> string \<Rightarrow> unit act" where
  "send_error env code message =
     (let page = error_page env code message
      in act_then close_after
         (act_then
           (send_down (Head code
             [(''Connection'', ''close''), (''Content-Type'', ''text/html;charset=utf-8''), length_header page]))
           (send_down (Body page))))"

text \<open>\<open>runtime_status\<close>: the gate's snapshot, which may end an expired drain, and the process identity.\<close>

definition take_snapshot :: "jdict act" where
  "take_snapshot w =
     (case snapshot (clock w) (unix_time w) (gate_state w, telemetry w) of
        (d, st, tel) \<Rightarrow> (Inr d, w\<lparr>gate_state := st, telemetry := tel\<rparr>))"

definition get_world :: "(world \<Rightarrow> 'a) \<Rightarrow> 'a service_act" where
  "get_world g s = (Inr (g (fst s)), s)"

definition with_context :: "service_env \<Rightarrow> (handoff_context \<Rightarrow> 'a service_act) \<Rightarrow> 'a service_act" where
  "with_context env f s = f (current_context env (fst s)) s"

definition runtime_status :: "service_env \<Rightarrow> jdict service_act" where
  "runtime_status env =
     act_bind (on_relay take_snapshot) (\<lambda>gate.
     act_bind (with_context env (\<lambda>ctx. on_process (runtime_identity ctx))) (\<lambda>identity.
       get_world (\<lambda>w. status_snapshot (release_version (identity_part env)) (serving_payload_sha256 (identity_part env))
         (release_receipt_sha256 (identity_part env)) (unix_time w - process_start env) gate identity (telemetry w))))"

definition send_status :: "service_env \<Rightarrow> unit service_act" where
  "send_status env =
     act_bind (runtime_status env) (\<lambda>report. on_relay (write_json (py (relay_part env)) 200 report False))"

section \<open>Drain control\<close>

record control_request =
  ctl_address :: string
  ctl_headers :: headers
  ctl_body :: bytes

definition lease_header :: "control_request \<Rightarrow> json" where
  "lease_header q =
     (case header_value (ctl_headers q) ''X-OpenAI-Responses-Proxy-Drain-Lease-Seconds'' of
        Some s \<Rightarrow> JStr s
      | None \<Rightarrow> JNull)"

definition toggle_drain :: "service_env \<Rightarrow> bool \<Rightarrow> json \<Rightarrow> jdict act" where
  "toggle_drain env enabled lease w =
     (case (if enabled then bounded_drain_lease_seconds (to_int env) lease else Inr 30) of
        Inl e \<Rightarrow> (Inl e, w)
      | Inr seconds \<Rightarrow>
          (case set_draining enabled seconds (clock w) (unix_time w) (gate_state w, telemetry w) of
             (d, st, tel) \<Rightarrow> (Inr d, w\<lparr>gate_state := st, telemetry := tel\<rparr>)))"

definition set_drain :: "service_env \<Rightarrow> control_request \<Rightarrow> bool \<Rightarrow> unit act" where
  "set_drain env q enabled =
     (if \<not> is_loopback_client (ip_is_loopback env) (ctl_address q)
      then send_error env 403 ''drain control is available only from loopback''
      else act_bind (toggle_drain env enabled (if enabled then lease_header q else JNull)) (\<lambda>payload.
             write_json (py (relay_part env)) 200 payload True))"

section \<open>Handoff control\<close>

definition HANDOFF_REQUEST_FIELDS :: "string list" where
  "HANDOFF_REQUEST_FIELDS = IDENTITY_FIELDS @ [''timeout_seconds'', ''lease_seconds'']"

definition requested_identity :: "jdict \<Rightarrow> jdict" where
  "requested_identity request = map (\<lambda>k. (k, jget request k)) IDENTITY_FIELDS"

text \<open>\<open>min(120.0, max(0.1, v))\<close>; a comparison with NaN is false.\<close>

fun bounded_timeout :: "float_value \<Rightarrow> rat" where
  "bounded_timeout (Finite r) = min 120 (max (1 / 10) r)"
| "bounded_timeout Positive_infinity = 120"
| "bounded_timeout Negative_infinity = 1 / 10"
| "bounded_timeout Not_a_number = 1 / 10"

definition request_timeout :: "service_env \<Rightarrow> jdict \<Rightarrow> rat res" where
  "request_timeout env request =
     (case map_of request ''timeout_seconds'' of
        None \<Rightarrow> Inr 30
      | Some v \<Rightarrow> res_bind (to_float env v) (\<lambda>f. Inr (bounded_timeout f)))"

text \<open>The request as far as it is answered before a preparation starts: an error response or the request.\<close>

definition handoff_request :: "service_env \<Rightarrow> control_request \<Rightarrow> (int \<times> string + jdict) res" where
  "handoff_request env q =
     (if \<not> is_loopback_client (ip_is_loopback env) (ctl_address q)
      then Inr (Inl (403, ''handoff control is available only from loopback''))
      else (case to_int env (JStr (case header_value (ctl_headers q) ''Content-Length'' of Some s \<Rightarrow> s | None \<Rightarrow> ''0'')) of
              Inl e \<Rightarrow> if e = TypeError \<or> is_value_error e then Inr (Inl (400, ''invalid handoff content length'')) else Inl e
            | Inr n \<Rightarrow>
                if n \<le> 0 \<or> n > int HANDOFF_CONTROL_MAX_BYTES
                then Inr (Inl (413, ''handoff request exceeds the control limit''))
                else if int (length (take (nat n) (ctl_body q))) \<noteq> n then Inr (Inl (400, ''incomplete handoff request''))
                else (case loads (py (relay_part env)) (take (nat n) (ctl_body q)) of
                        Inl e \<Rightarrow> if is_value_error e then Inr (Inl (400, ''invalid handoff JSON'')) else Inl e
                      | Inr (JObj request) \<Rightarrow>
                          if \<not> keys_within request HANDOFF_REQUEST_FIELDS
                          then Inr (Inl (400, ''handoff request contains unknown fields''))
                          else Inr (Inr request)
                      | Inr _ \<Rightarrow> Inr (Inl (400, ''handoff request must be an object'')))))"

definition prepare_failed :: "service_env \<Rightarrow> py_exc \<Rightarrow> unit act" where
  "prepare_failed env e =
     (if e = HandoffConflictError
      then write_json (py (relay_part env)) 409 [(''ok'', JBool False), (''error'', JStr ''handoff_in_progress'')] False
      else write_json (py (relay_part env)) 503 [(''ok'', JBool False), (''error'', JStr ''handoff_prepare_failed'')] False)"

definition ready_response :: "service_env \<Rightarrow> jdict \<Rightarrow> int \<Rightarrow> unit act" where
  "ready_response env request pid =
     act_catch
       (write_json (py (relay_part env)) 202
         [(''ok'', JBool True), (''state'', JStr ''ready''), (''protocol_version'', JInt HANDOFF_PROTOCOL_VERSION),
          (''child_pid'', JInt pid), (''transaction_id'', jget request ''transaction_id'')] False)
       (\<lambda>e. if e = BrokenPipe then Some (act_return ()) else None)"

text \<open>
  \<open>prepare_handoff\<close>; what it returns is the preparation that the commit thread it starts will commit.
\<close>

definition try_prepare :: "service_env \<Rightarrow> handoff_context \<Rightarrow> jdict \<Rightarrow> prepared_handoff proc_act" where
  "try_prepare env ctx request =
     act_bind (act_lift (request_timeout env request)) (\<lambda>timeout.
     act_bind (act_lift (bounded_drain_lease_seconds (to_int env) (jget request ''lease_seconds''))) (\<lambda>lease.
       prepare (handoff_part env) ctx (requested_identity request) timeout (of_int lease)))"

definition answer_handoff :: "service_env \<Rightarrow> jdict \<Rightarrow> handoff_context \<Rightarrow> prepared_handoff option service_act" where
  "answer_handoff env request ctx =
     act_bind (act_lift (disk_payload_matches_expected (handoff_part env) (requested_identity request) ctx)) (\<lambda>matches.
       if \<not> matches
       then act_then (on_relay (send_error env 409 ''handoff request does not match the current disk payload''))
              (act_return None)
       else act_bind
         (act_catch (act_bind (on_process (try_prepare env ctx request)) (\<lambda>p. act_return (Inr p)))
            (\<lambda>e. if is_handoff_error e then Some (act_return (Inl e)) else None))
         (\<lambda>r. case r of
                Inl e \<Rightarrow> act_then (on_relay (prepare_failed env e)) (act_return None)
              | Inr p \<Rightarrow>
                  act_bind (on_process child_runtime_pid) (\<lambda>pid.
                  act_then (on_relay (ready_response env request pid)) (act_return (Some p)))))"

definition prepare_handoff :: "service_env \<Rightarrow> control_request \<Rightarrow> prepared_handoff option service_act" where
  "prepare_handoff env q =
     act_bind (act_lift (handoff_request env q)) (\<lambda>answer.
       case answer of
         Inl (code, message) \<Rightarrow> act_then (on_relay (send_error env code message)) (act_return None)
       | Inr request \<Rightarrow> with_context env (answer_handoff env request))"

section \<open>Routing\<close>

record http_request =
  hr_method :: string
  hr_path :: string
  hr_address :: string
  hr_headers :: headers
  hr_body :: bytes

definition control_of :: "http_request \<Rightarrow> control_request" where
  "control_of q = \<lparr>ctl_address = hr_address q, ctl_headers = hr_headers q, ctl_body = hr_body q\<rparr>"

definition client_of :: "http_request \<Rightarrow> client_request" where
  "client_of q = \<lparr>cr_path = hr_path q, cr_method = hr_method q, cr_headers = hr_headers q, cr_body = hr_body q\<rparr>"

definition relay_request :: "service_env \<Rightarrow> http_request \<Rightarrow> prepared_handoff option service_act" where
  "relay_request env q = act_then (on_relay (relay (relay_part env) (providers env) (client_of q))) (act_return None)"

definition do_POST :: "service_env \<Rightarrow> http_request \<Rightarrow> prepared_handoff option service_act" where
  "do_POST env q =
     (if hr_path q = ''/control/drain''
      then act_then (on_relay (set_drain env (control_of q) True)) (act_return None)
      else if hr_path q = ''/control/handoff'' then prepare_handoff env (control_of q)
      else relay_request env q)"

definition do_GET :: "service_env \<Rightarrow> http_request \<Rightarrow> prepared_handoff option service_act" where
  "do_GET env q =
     (if hr_path q = ''/healthz'' then act_then (send_status env) (act_return None) else relay_request env q)"

definition do_DELETE :: "service_env \<Rightarrow> http_request \<Rightarrow> prepared_handoff option service_act" where
  "do_DELETE env q =
     (if hr_path q = ''/control/drain''
      then act_then (on_relay (set_drain env (control_of q) False)) (act_return None)
      else relay_request env q)"

text \<open>\<open>http.server\<close> calls \<open>do_<method>\<close>; it answers 501 itself for a method without one.\<close>

definition dispatch :: "service_env \<Rightarrow> http_request \<Rightarrow> prepared_handoff option service_act" where
  "dispatch env q =
     (if hr_method q = ''POST'' then do_POST env q
      else if hr_method q = ''GET'' then do_GET env q
      else if hr_method q = ''DELETE'' then do_DELETE env q
      else if hr_method q = ''PATCH'' \<or> hr_method q = ''PUT'' then relay_request env q
      else act_then (on_relay (send_error env 501 (''Unsupported method ('' @ hr_method q @ '')''))) (act_return None))"

definition count_handler :: "(admission \<Rightarrow> nat \<times> admission) \<Rightarrow> unit act" where
  "count_handler f = act_modify (\<lambda>w. w\<lparr>gate_state := snd (f (gate_state w))\<rparr>)"

text \<open>\<open>process_request_thread\<close>, with what \<open>handle_error\<close> does to an exception that leaves the handler.\<close>

definition handle_error :: "py_exc \<Rightarrow> unit act" where
  "handle_error e =
     (if e = BrokenPipe then log_line (''client_closed_mid_request exception='' @ exc_label e) else act_return ())"

definition process_request :: "service_env \<Rightarrow> http_request \<Rightarrow> prepared_handoff option service_act" where
  "process_request env q =
     act_then (on_relay (count_handler begin_handler))
       (act_finally
         (act_catch (dispatch env q) (\<lambda>e. Some (act_then (on_relay (handle_error e)) (act_return None))))
         (on_relay (count_handler end_handler)))"

end
