(* ===== verification/Service_Facts.thy ===== *)
theory Service_Facts
  imports Service
begin

text \<open>
  What the composed process guarantees for one request, whatever relay and control do with it: it
  returns and leaves the count of handlers as it was; a remote client controls nothing; a drain
  request closes admission for a bounded time; a handoff request is answered once.
\<close>

section \<open>The count of handlers\<close>

abbreviation handlers_of :: "world \<Rightarrow> nat" where
  "handlers_of w \<equiv> active_handlers (gate_state w)"

interpretation handler_observer: observer handlers_of
  by unfold_locales simp_all

lemma expire_drain_handlers: "active_handlers (fst (expire_drain t u g)) = active_handlers (fst g)"
  by (auto simp: expire_drain_def split: prod.splits)

lemma keeps_finally: "keeps f m \<Longrightarrow> keeps f g \<Longrightarrow> keeps f (act_finally m g)"
  by (rule keepsI) (auto simp: act_finally_def split: prod.splits dest!: keepsD [of f m] intro: keepsD [OF _ prod.collapse [symmetric], THEN trans])

lemma gate_handlers:
  "keeps handlers_of admit" "keeps handlers_of release" "keeps handlers_of new_request_id" "keeps handlers_of take_snapshot"
  "keeps handlers_of (toggle_drain env b l)"
proof -
  have x: "active_handlers st = active_handlers (gate_state w)"
    if "expire_drain (clock w) (unix_time w) (gate_state w, telemetry w) = (st, tel)" for w st tel
    using expire_drain_handlers [of "clock w" "unix_time w" "(gate_state w, telemetry w)"] that by simp
  show "keeps handlers_of admit"
    by (rule keepsI) (auto simp: admit_def admit_response_def x split: prod.splits if_splits)
  show "keeps handlers_of release" "keeps handlers_of new_request_id"
    by (rule keepsI, auto simp: release_def release_response_def new_request_id_def next_request_id_def)+
  show "keeps handlers_of take_snapshot"
    by (rule keepsI) (auto simp: take_snapshot_def snapshot_def x split: prod.splits)
  show "keeps handlers_of (toggle_drain env b l)"
    by (rule keepsI) (auto simp: toggle_drain_def set_draining_def x Let_def split: prod.splits sum.splits if_splits)
qed

lemma serve_handlers: "keeps handlers_of (serve env x)"
  unfolding serve_def
  by (intro keeps_finally handler_observer.obs_exchange keeps_bind gate_handlers handler_observer.obs_rules)

lemma admit_exchange_handlers: "keeps handlers_of (admit_exchange env x)"
  unfolding admit_exchange_def by (intro handler_observer.obs_rules gate_handlers)

lemma relay_exchange_handlers: "keeps handlers_of (relay_exchange env x)"
  unfolding relay_exchange_def
  by (intro handler_observer.obs_rules handler_observer.obs_cooldown_active admit_exchange_handlers serve_handlers)

lemma local_answers_handlers:
  "keeps handlers_of (reject_route env q n m)" "keeps handlers_of (reject_projection env q n p s)" "keeps handlers_of (reject_delivery s)"
  unfolding reject_route_def reject_projection_def reject_delivery_def Let_def by (intro handler_observer.obs_rules)+

lemma relay_handlers: "keeps handlers_of (relay env ps q)"
proof -
  have prepared: "keeps handlers_of (relay_prepared env q n p url hs s pr)" for n p url hs s pr
    unfolding relay_prepared_def Let_def by (intro handler_observer.obs_rules relay_exchange_handlers)
  have responses: "keeps handlers_of (relay_responses env q n p url hs)" for n p url hs
    unfolding relay_responses_def
    by (intro handler_observer.obs_rules keeps_modify local_answers_handlers prepared) simp
  show ?thesis
    unfolding relay_def
    by (intro handler_observer.obs_rules gate_handlers local_answers_handlers responses handler_observer.obs_catalog)
qed


section \<open>Requests in the composed process\<close>

lemma keeps_on_relay: "keeps f m \<Longrightarrow> keeps (\<lambda>s. f (fst s)) (on_relay m)"
  by (rule keepsI) (auto simp: on_relay_def split: prod.splits dest: keepsD)

lemma keeps_on_process: "(\<And>w c. f (w\<lparr>clock := c\<rparr>) = f w) \<Longrightarrow> keeps (\<lambda>s. f (fst s)) (on_process m)"
  by (rule keepsI) (auto simp: on_process_def split: prod.splits)

lemma keeps_context: "(\<And>ctx. keeps f (m ctx)) \<Longrightarrow> keeps f (with_context env m)"
  by (rule keepsI) (auto simp: with_context_def dest: keepsD)

lemma keeps_get_world: "keeps f (get_world g)"
  by (rule keepsI) (simp add: get_world_def)

lemmas keeps_service = keeps_bind keeps_then keeps_if keeps_sum keeps_prod keeps_unit keeps_on_relay keeps_on_process keeps_context
  keeps_get_world

text \<open>Answers of the control surface, for any view that does not see them.\<close>

context bystander
begin

lemma obs_close_after: "keeps f close_after"
  unfolding close_after_def by (rule keeps_modify) (rule obs_close)

lemma obs_write_json: "keeps f (write_json env code payload close)"
  unfolding write_json_def by (intro local_rules obs_close_after)

lemma obs_send_error: "keeps f (send_error env code message)"
  unfolding send_error_def Let_def by (intro local_rules obs_close_after)

lemma obs_control_answers: "keeps f (prepare_failed env e)" "keeps f (ready_response env request pid)" "keeps f (handle_error e')"
proof -
  show "keeps f (prepare_failed env e)" unfolding prepare_failed_def by (intro keeps_if obs_write_json)
  show "keeps f (ready_response env request pid)"
    unfolding ready_response_def by (rule keeps_catch [OF obs_write_json]) (auto split: if_splits intro: keeps_unit)
  show "keeps f (handle_error e')" unfolding handle_error_def by (intro keeps_if obs_basic keeps_unit)
qed

lemma obs_prepare_handoff: "keeps (\<lambda>s. f (fst s)) (prepare_handoff env q)"
proof -
  have "keeps (\<lambda>s. f (fst s)) (answer_handoff env request ctx)" for request ctx
    unfolding answer_handoff_def
    by (intro keeps_service keeps_catch obs_clock obs_control_answers obs_send_error)
      (auto split: if_splits intro: keeps_unit)
  then show ?thesis
    unfolding prepare_handoff_def by (intro keeps_service obs_send_error)
qed

end


lemma gate_active:
  "keeps active_of take_snapshot" "keeps active_of (toggle_drain env b l)"
proof -
  have x: "active_responses st = active_responses (gate_state w)"
    if "expire_drain (clock w) (unix_time w) (gate_state w, telemetry w) = (st, tel)" for w st tel
    using expire_drain_active [of "clock w" "unix_time w" "(gate_state w, telemetry w)"] that by simp
  show "keeps active_of take_snapshot"
    by (rule keepsI) (auto simp: take_snapshot_def snapshot_def x split: prod.splits)
  show "keeps active_of (toggle_drain env b l)"
    by (rule keepsI) (auto simp: toggle_drain_def set_draining_def x Let_def split: prod.splits sum.splits if_splits)
qed

lemma gate_asked: "keeps upstream_requests take_snapshot" "keeps upstream_requests (toggle_drain env b l)"
  by (rule keepsI, auto simp: take_snapshot_def toggle_drain_def split: prod.splits sum.splits if_splits)+

text \<open>A view that the gate's own operations and the relay keep is kept by every request.\<close>

locale request_view = bystander f for f :: "world \<Rightarrow> 'v" +
  assumes view_snapshot: "keeps f take_snapshot"
    and view_toggle: "keeps f (toggle_drain env b l)"
begin

lemma view_set_drain: "keeps f (set_drain env q enabled)"
  unfolding set_drain_def by (intro keeps_if keeps_bind obs_send_error obs_write_json view_toggle)

lemma view_send_status: "keeps (\<lambda>s. f (fst s)) (send_status env)"
  unfolding send_status_def runtime_status_def
  by (intro keeps_service obs_clock view_snapshot obs_write_json)

lemma view_dispatch:
  assumes "keeps f (relay (relay_part env) (providers env) (client_of q))"
  shows "keeps (\<lambda>s. f (fst s)) (dispatch env q)"
  unfolding dispatch_def do_POST_def do_GET_def do_DELETE_def relay_request_def
  by (intro keeps_service assms obs_prepare_handoff view_set_drain view_send_status obs_send_error)

end

interpretation handlers_view: request_view handlers_of
  by unfold_locales (rule gate_handlers)+

interpretation active_view: request_view active_of
  by unfold_locales (rule gate_active)+

interpretation asked_view: request_view upstream_requests
  by unfold_locales (rule gate_asked)+

text \<open>
  Claim C29.  Every request ends and leaves the counts of the gate as they were: whatever relay, control,
  upstream and client do, the connection thread returns, with as many active handlers and active
  Responses as before.
\<close>

theorem request_balances:
  "\<exists>r w' p'. process_request env q (w, p) = (Inr r, (w', p')) \<and>
     active_handlers (gate_state w') = active_handlers (gate_state w) \<and>
     active_responses (gate_state w') = active_responses (gate_state w)"
proof -
  let ?c = "act_catch (dispatch env q) (\<lambda>e. Some (act_then (on_relay (handle_error e)) (act_return None)))"
  let ?w = "w\<lparr>gate_state := snd (begin_handler (gate_state w))\<rparr>" and ?p = "p\<lparr>proc_clock := clock w\<rparr>"
  have kept: "keeps (\<lambda>s. handlers_of (fst s)) ?c" "keeps (\<lambda>s. active_of (fst s)) ?c"
    by (intro keeps_catch handlers_view.view_dispatch active_view.view_dispatch relay_handlers relay_active;
        auto intro!: keeps_service handler_observer.obs_control_answers active_observer.obs_control_answers)+
  obtain r w1 p1 where c: "?c (?w, ?p) = (r, (w1, p1))" by (metis prod.collapse)
  have "\<exists>x. r = Inr x"
    using c by (auto simp: act_catch_def act_then_def act_bind_def on_relay_def handle_error_def log_line_def act_modify_def
        act_return_def split: prod.splits sum.splits if_splits)
  then obtain x where x: "r = Inr x" by blast
  have "process_request env q (w, p) =
      (Inr x, (w1\<lparr>gate_state := snd (end_handler (gate_state w1))\<rparr>, p1\<lparr>proc_clock := clock w1\<rparr>))"
    using c x by (simp add: process_request_def act_then_def act_bind_def act_finally_def on_relay_def count_handler_def act_modify_def)
  then show ?thesis
    using keepsD [OF kept(1) c] keepsD [OF kept(2) c] by (simp add: begin_handler_def end_handler_def)
qed

text \<open>
  Control requests are answered locally: health, drain and handoff requests reach no provider.
\<close>

theorem control_stays_local:
  assumes "dispatch env q s = (r, s')"
    and "(hr_method q, hr_path q) \<in> {(''POST'', ''/control/drain''), (''POST'', ''/control/handoff''), (''GET'', ''/healthz''),
      (''DELETE'', ''/control/drain'')}"
  shows "upstream_requests (fst s') = upstream_requests (fst s)"
proof -
  have "keeps (\<lambda>s. upstream_requests (fst s)) (dispatch env q)"
    using assms(2)
    by (auto simp: dispatch_def do_POST_def do_GET_def do_DELETE_def
        intro!: keeps_service asked_bystander.obs_prepare_handoff asked_view.view_set_drain asked_view.view_send_status)
  from keepsD [OF this assms(1)] show ?thesis .
qed


section \<open>Who may control\<close>

lemma bind_lift_Inr: "act_bind (act_lift (Inr x)) f = f x"
  by (simp add: act_bind_def act_lift_def fun_eq_iff)

lemma send_down_connected:
  "client_writes w = None \<Longrightarrow> send_down s w = (Inr (), w\<lparr>sent_down := sent_down w @ [s], client_writes := None\<rparr>)"
  by (simp add: send_down_def)

lemma send_error_run:
  assumes "client_writes w = None"
  shows "\<exists>hs b. send_error env code message w = (Inr (), w\<lparr>close_connection := True, sent_down := sent_down w @ [Head code hs, Body b], client_writes := None\<rparr>)"
  using assms
  by (simp add: send_error_def Let_def act_then_def act_bind_def close_after_def act_modify_def send_down_connected) blast

text \<open>
  Only the local machine controls the proxy: a drain or handoff request from another address gets
  one response, 403, and changes neither the gate nor the handoff.
\<close>

theorem remote_control_refused:
  assumes "client_writes w = None" "\<not> is_loopback_client (ip_is_loopback env) (hr_address q)"
    and "(hr_method q, hr_path q) \<in> {(''POST'', ''/control/drain''), (''POST'', ''/control/handoff''), (''DELETE'', ''/control/drain'')}"
  shows "\<exists>w' p' hs b. dispatch env q (w, p) = (Inr None, (w', p')) \<and> sent_down w' = sent_down w @ [Head 403 hs, Body b] \<and>
    gate_state w' = gate_state w \<and> proc_session p' = proc_session p \<and> proc_child p' = proc_child p \<and> proc_trace p' = proc_trace p"
proof -
  obtain message where "dispatch env q = act_then (on_relay (send_error env 403 message)) (act_return None)"
    using assms(2,3) by (auto simp: dispatch_def do_POST_def do_DELETE_def set_drain_def prepare_handoff_def handoff_request_def
        control_of_def bind_lift_Inr)
  moreover obtain hs b where "send_error env 403 message w =
      (Inr (), w\<lparr>close_connection := True, sent_down := sent_down w @ [Head 403 hs, Body b], client_writes := None\<rparr>)"
    using send_error_run [OF assms(1)] by blast
  ultimately show ?thesis by (simp add: act_then_def act_bind_def on_relay_def act_return_def)
qed

text \<open>
  A drain request from the local machine closes admission for a bounded time: afterwards the gate
  drains, its lease ends between one second and fifteen minutes from now, and the client got one answer, 200.
\<close>

theorem drain_request_closes:
  assumes "client_writes w = None" "is_loopback_client (ip_is_loopback env) (hr_address q)"
    and "hr_method q = ''POST''" "hr_path q = ''/control/drain''" "dispatch env q (w, p) = (Inr r, (w', p'))"
  shows "draining (gate_state w') \<and>
    (\<exists>d. drain_deadline (gate_state w') = Some d \<and> clock w + 1 \<le> d \<and> d \<le> clock w + 900) \<and>
    (\<exists>hs b. sent_down w' = sent_down w @ [Head 200 hs, Body b])"
proof -
  from assms(2-5) obtain payload w1 where
    toggle: "toggle_drain env True (lease_header (control_of q)) w = (Inr payload, w1)" and
    out: "write_json (py (relay_part env)) 200 payload True w1 = (Inr (), w')"
    by (auto simp: dispatch_def do_POST_def set_drain_def control_of_def act_then_def act_bind_def on_relay_def
        act_return_def split: prod.splits sum.splits)
  from toggle obtain n where n: "bounded_drain_lease_seconds (to_int env) (lease_header (control_of q)) = Inr n"
    and w1: "draining (gate_state w1)" "drain_deadline (gate_state w1) = Some (clock w + of_int n)" "sent_down w1 = sent_down w"
      "client_writes w1 = None"
    using assms(1) by (auto simp: toggle_drain_def set_draining_def Let_def split: sum.splits prod.splits)
  have "1 \<le> n \<and> n \<le> 900"
    using n by (auto simp: bounded_drain_lease_seconds_def MIN_DRAIN_LEASE_SECONDS_def MAX_DRAIN_LEASE_SECONDS_def
        split: if_splits sum.splits py_exc.splits)
  moreover have "gate_state w' = gate_state w1 \<and> (\<exists>hs b. sent_down w' = sent_down w1 @ [Head 200 hs, Body b])"
    using out w1(4) by (auto simp: write_json_def returns close_after_def send_down_connected)
  ultimately show ?thesis using w1 by auto
qed


section \<open>Handoff requests\<close>

lemma handoff_request_codes: "handoff_request env q = Inr (Inl (c, m)) \<Longrightarrow> c \<in> {400, 403, 413}"
  by (auto simp: handoff_request_def Let_def split: if_splits sum.splits json.splits)

text \<open>The client got one response more.\<close>

definition answered :: "world \<Rightarrow> int \<Rightarrow> world \<Rightarrow> bool" where
  "answered w code w' \<longleftrightarrow> (\<exists>hs b. sent_down w' = sent_down w @ [Head code hs, Body b])"

lemma write_json_run:
  assumes "write_json env code payload close w = (Inr (), w')" "client_writes w = None"
  shows "answered w code w'"
  using assms by (auto simp: write_json_def returns close_after_def send_down_connected answered_def split: if_splits)

lemma prepare_failed_run:
  assumes "prepare_failed env e w = (Inr (), w')" "client_writes w = None"
  shows "answered w 409 w' \<or> answered w 503 w'"
  using assms write_json_run by (auto simp: prepare_failed_def split: if_splits)

lemma write_json_never_breaks:
  assumes "client_writes w = None"
  shows "write_json env code payload close w \<noteq> (Inl BrokenPipe, w')"
  using assms
  by (auto simp: write_json_def act_bind_def act_then_def act_lift_def close_after_def act_modify_def act_return_def json_dumps_def
      send_down_connected split: if_splits)

lemma ready_response_run:
  assumes "ready_response env request pid w = (Inr (), w')" "client_writes w = None"
  shows "answered w 202 w'"
  using act_catch_run [OF assms(1) [unfolded ready_response_def]] write_json_run [OF _ assms(2)] write_json_never_breaks [OF assms(2)]
  by (auto split: if_splits)

lemma answer_handoff_run:
  assumes "answer_handoff env request ctx (w, p) = (Inr r, (w', p'))" "client_writes w = None"
  shows "case r of None \<Rightarrow> answered w 409 w' \<or> answered w 503 w' | Some prep \<Rightarrow> answered w 202 w' \<and> is_prepared p'"
proof -
  from assms(1) obtain matches where matches:
    "disk_payload_matches_expected (handoff_part env) (requested_identity request) ctx = Inr matches"
    by (auto simp: answer_handoff_def returns)
  show ?thesis
  proof (cases matches)
    case False
    with assms matches obtain message where "on_relay (send_error env 409 message) (w, p) = (Inr (), (w', p'))" "r = None"
      by (auto simp: answer_handoff_def returns)
    with send_error_run [OF assms(2), of env 409 message] show ?thesis by (auto simp: on_relay_def answered_def)
  next
    case True
    obtain a p1 where a: "try_prepare env ctx request p = (a, p1)" by fastforce
    let ?w = "w\<lparr>clock := proc_clock p1\<rparr>"
    show ?thesis
    proof (cases a)
      case (Inl e)
      with assms matches True a obtain p2 where "prepare_failed env e ?w = (Inr (), w')" "r = None"
        by (auto simp: answer_handoff_def bind_lift_Inr act_bind_def act_catch_def on_process_def on_relay_def act_then_def
            act_return_def split: if_splits prod.splits sum.splits)
      with prepare_failed_run assms(2) show ?thesis by (fastforce simp: answered_def)
    next
      case (Inr prep)
      with a have "is_prepared p1" by (auto simp: try_prepare_def returns dest: prepare_run)
      then obtain c pid where "proc_child p1 = Some c" "runtime_pid c = Some pid" by (auto simp: is_prepared_def)
      then have "child_runtime_pid p1 = (Inr pid, p1)" by (auto simp: child_runtime_pid_run)
      with assms matches True a Inr have "ready_response env request pid ?w = (Inr (), w')" "r = Some prep"
          "p' = p1\<lparr>proc_clock := clock w'\<rparr>"
        by (auto simp: answer_handoff_def bind_lift_Inr act_bind_def act_catch_def on_process_def on_relay_def act_then_def
            act_return_def split: prod.splits sum.splits)
      with ready_response_run assms(2) \<open>is_prepared p1\<close> show ?thesis by (fastforce simp: answered_def is_prepared_def)
    qed
  qed
qed

text \<open>
  A handoff request that returns was answered exactly once: with 202 when a replacement is ready,
  whose commit then starts, and otherwise with an error that starts nothing.
\<close>

theorem handoff_answered_once:
  assumes "client_writes w = None" "prepare_handoff env q (w, p) = (Inr r, (w', p'))"
  shows "\<exists>code hs b. sent_down w' = sent_down w @ [Head code hs, Body b] \<and>
    (case r of None \<Rightarrow> code \<in> {400, 403, 409, 413, 503} | Some prep \<Rightarrow> code = 202 \<and> is_prepared p')"
proof -
  from assms(2) obtain answer where answer: "handoff_request env q = Inr answer" by (auto simp: prepare_handoff_def returns)
  show ?thesis
  proof (cases answer)
    case (Inl cm)
    obtain c m where cm: "cm = (c, m)" by (cases cm)
    with assms answer Inl have "on_relay (send_error env c m) (w, p) = (Inr (), (w', p'))" "r = None"
      by (auto simp: prepare_handoff_def returns)
    with send_error_run [OF assms(1), of env c m] handoff_request_codes [of env q c m] answer Inl cm show ?thesis
      by (auto simp: on_relay_def)
  next
    case (Inr request)
    with assms answer have "answer_handoff env request (current_context env w) (w, p) = (Inr r, (w', p'))"
      by (auto simp: prepare_handoff_def returns with_context_def)
    from answer_handoff_run [OF this assms(1)] show ?thesis
      by (auto simp: answered_def split: option.splits)
  qed
qed


text \<open>
  A handoff request whose \<open>timeout_seconds\<close> is null, which \<open>float()\<close> refuses, is not answered at all.
\<close>

lemma null_timeout_unanswered:
  assumes "handoff_request env q = Inr (Inr request)" "map_of request ''timeout_seconds'' = Some JNull" "to_float env JNull = Inl TypeError"
    and "disk_payload_matches_expected (handoff_part env) (requested_identity request) (current_context env w) = Inr True"
  shows "\<exists>w' p'. prepare_handoff env q (w, p) = (Inl TypeError, (w', p')) \<and> sent_down w' = sent_down w"
  using assms by (simp add: prepare_handoff_def bind_lift_Inr with_context_def answer_handoff_def try_prepare_def request_timeout_def
      on_process_def act_catch_def act_bind_def act_lift_def is_handoff_error_def HandoffError_def HandoffConflictError_def)

section \<open>Witnesses\<close>

definition sample_service :: "bool \<Rightarrow> service_env" where
  "sample_service local =
     \<lparr>relay_part = sample_relay_env (JObj []) (Http_error 500 [] []), handoff_part = sample_handoff_env,
      identity_part = sample_context, providers = sample_registry, to_int = (\<lambda>_. Inr 0), to_float = (\<lambda>_. Inr Not_a_number),
      ip_is_loopback = (\<lambda>_. Some local), error_page = (\<lambda>_ m. m), process_start = 0\<rparr>"

definition sample_http :: "string \<Rightarrow> string \<Rightarrow> http_request" where
  "sample_http method path =
     \<lparr>hr_method = method, hr_path = path, hr_address = ''a'', hr_headers = [], hr_body = []\<rparr>"

theorem control_stays_local_witness:
  "upstream_requests (fst (snd (dispatch (sample_service True) (sample_http ''GET'' ''/healthz'') (sample_world, sample_proc)))) =
     upstream_requests sample_world"
  using control_stays_local [OF prod.collapse [symmetric], of "sample_http ''GET'' ''/healthz''" "sample_service True" "(sample_world, sample_proc)"]
  by (simp add: sample_http_def)

theorem remote_control_refused_witness:
  "\<exists>w' p' hs b. dispatch (sample_service False) (sample_http ''POST'' ''/control/handoff'') (sample_world, sample_proc) = (Inr None, (w', p')) \<and>
     sent_down w' = sent_down sample_world @ [Head 403 hs, Body b]"
  using remote_control_refused [of sample_world "sample_service False" "sample_http ''POST'' ''/control/handoff''" sample_proc]
  by (auto simp: sample_http_def sample_service_def sample_world_def is_loopback_client_def)

theorem drain_request_closes_witness:
  "\<exists>r w' p'. dispatch (sample_service True) (sample_http ''POST'' ''/control/drain'') (sample_world, sample_proc) = (Inr r, (w', p')) \<and>
     draining (gate_state w')"
proof -
  have "\<exists>r w' p'. dispatch (sample_service True) (sample_http ''POST'' ''/control/drain'') (sample_world, sample_proc) = (Inr r, (w', p'))"
    by (simp add: dispatch_def do_POST_def set_drain_def sample_http_def sample_service_def control_of_def is_loopback_client_def
        toggle_drain_def lease_header_def header_value_def bounded_drain_lease_seconds_def set_draining_def write_json_def json_dumps_def
        sample_relay_env_def sample_env_def act_then_def act_bind_def act_lift_def act_return_def close_after_def act_modify_def
        on_relay_def send_down_def sample_world_def expire_drain_def drain_expired_def new_admission_def Let_def lease_json_def
        drain_lease_remaining_def split: prod.splits option.splits)
  then show ?thesis
    using drain_request_closes [of sample_world "sample_service True" "sample_http ''POST'' ''/control/drain''" sample_proc]
    by (auto simp: sample_http_def sample_service_def sample_world_def is_loopback_client_def)
qed

theorem handoff_answered_once_witness:
  "\<exists>w' p' code hs b. prepare_handoff (sample_service True) (control_of (sample_http ''POST'' ''/control/handoff'')) (sample_world, sample_proc)
       = (Inr None, (w', p')) \<and> sent_down w' = sent_down sample_world @ [Head code hs, Body b] \<and> code \<in> {400, 403, 409, 413, 503}"
proof -
  have "\<exists>w' p'. prepare_handoff (sample_service True) (control_of (sample_http ''POST'' ''/control/handoff'')) (sample_world, sample_proc)
      = (Inr None, (w', p'))"
  proof -
    have "handoff_request (sample_service True) (control_of (sample_http ''POST'' ''/control/handoff'')) =
        Inr (Inl (413, ''handoff request exceeds the control limit''))"
      by (simp add: handoff_request_def sample_service_def sample_http_def control_of_def is_loopback_client_def)
    moreover obtain w1 where "send_error (sample_service True) 413 ''handoff request exceeds the control limit'' sample_world = (Inr (), w1)"
      using send_error_run [of sample_world "sample_service True" 413 "''handoff request exceeds the control limit''"]
      by (auto simp: sample_world_def)
    ultimately show ?thesis by (simp add: prepare_handoff_def bind_lift_Inr act_then_def act_bind_def on_relay_def act_return_def)
  qed
  then show ?thesis
    using handoff_answered_once [of sample_world "sample_service True" "control_of (sample_http ''POST'' ''/control/handoff'')" sample_proc]
    by (fastforce simp: sample_world_def)
qed

end
