(* ===== verification/Disk.thy ===== *)
theory Disk
  imports Effects "HOL-Library.Char_ord" "HOL-Library.List_Lexorder" "HOL-Library.Sublist"
begin

text \<open>
  The file system as the lifecycle uses it through \<open>pathlib\<close>, \<open>os\<close> and \<open>shutil\<close>: a tree of folders, files
  and symbolic links named by absolute paths, resolved the way the kernel does (links at every
  component, \<open>..\<close>, at most forty links), and the system calls on it, each of which may also fail.
  A file carries an inode number, new for every file created.  Permission bits, ownership,
  timestamps and the effect of \<open>fsync\<close> are not represented.  The lemmas say which nodes a call
  leaves alone, for paths whose ancestors are folders.
\<close>

section \<open>Paths\<close>

type_synonym path = "string list"

text \<open>\<open>Path(s)\<close> of an absolute text, its last part and its text.\<close>

definition path_of :: "string \<Rightarrow> path" where
  "path_of s = filter (\<lambda>c. c \<noteq> [] \<and> c \<noteq> ''.'') (split_on (CHR ''/'') s)"

definition path_text :: "path \<Rightarrow> string" where
  "path_text p = CHR ''/'' # join_on (CHR ''/'') p"

definition is_absolute :: "string \<Rightarrow> bool" where
  "is_absolute s \<longleftrightarrow> starts_with ''/'' s"

definition path_name :: "path \<Rightarrow> string" where
  "path_name p = (if p = [] then [] else last p)"

section \<open>Nodes\<close>

datatype node =
    Folder
  | Regular nat bytes
  | Symlink nat string

type_synonym nodes = "(path \<times> node) list"

definition lookup :: "nodes \<Rightarrow> path \<Rightarrow> node option" where
  "lookup fs p = (if p = [] then Some Folder else map_of fs p)"

definition MAX_LINKS :: nat where
  "MAX_LINKS = 40"

text \<open>
  The place a path leads to, every link followed; a missing last component leads to the place where it
  would be.  With \<open>lenient\<close> a missing component ends nothing, as in \<open>resolve(strict=False)\<close>.
\<close>

function walk :: "bool \<Rightarrow> nodes \<Rightarrow> nat \<Rightarrow> path \<Rightarrow> path \<Rightarrow> path option" where
  "walk lenient fs n pre [] = Some pre"
| "walk lenient fs n pre (c # cs) =
     (if c = ''..'' then walk lenient fs n (butlast pre) cs
      else (case lookup fs (pre @ [c]) of
              Some Folder \<Rightarrow> walk lenient fs n (pre @ [c]) cs
            | Some (Symlink i t) \<Rightarrow>
                (case n of
                   0 \<Rightarrow> None
                 | Suc m \<Rightarrow> walk lenient fs m (if is_absolute t then [] else pre) (path_of t @ cs))
            | _ \<Rightarrow> if cs = [] \<or> lenient then walk lenient fs n (pre @ [c]) cs else None))"
  by pat_completeness auto
termination
  by (relation "measures [\<lambda>(l, fs, n, pre, cs). n, \<lambda>(l, fs, n, pre, cs). length cs]") auto

declare walk.simps(2) [simp del]

definition real_path :: "nodes \<Rightarrow> path \<Rightarrow> path option" where
  "real_path fs p = walk False fs MAX_LINKS [] p"

text \<open>\<open>p.resolve(strict=False)\<close>; a loop of links leaves the path as it is.\<close>

definition resolved :: "nodes \<Rightarrow> path \<Rightarrow> path" where
  "resolved fs p = (case walk True fs MAX_LINKS [] p of Some q \<Rightarrow> q | None \<Rightarrow> p)"

text \<open>The place of the name itself: its parent is followed, the last component is not.\<close>

definition entry :: "nodes \<Rightarrow> path \<Rightarrow> path option" where
  "entry fs p =
     (if p = [] \<or> last p = ''..'' then real_path fs p
      else case real_path fs (butlast p) of
             Some d \<Rightarrow> if lookup fs d = Some Folder then Some (d @ [last p]) else None
           | None \<Rightarrow> None)"

definition stat :: "nodes \<Rightarrow> path \<Rightarrow> node option" where
  "stat fs p = Option.bind (real_path fs p) (lookup fs)"

definition lstat :: "nodes \<Rightarrow> path \<Rightarrow> node option" where
  "lstat fs p = Option.bind (entry fs p) (lookup fs)"

fun regular_node :: "node option \<Rightarrow> bool" where
  "regular_node (Some (Regular i c)) = True"
| "regular_node _ = False"

fun symlink_node :: "node option \<Rightarrow> bool" where
  "symlink_node (Some (Symlink i t)) = True"
| "symlink_node _ = False"

definition exists_at :: "nodes \<Rightarrow> path \<Rightarrow> bool" where
  "exists_at fs p \<longleftrightarrow> stat fs p \<noteq> None"

definition is_dir :: "nodes \<Rightarrow> path \<Rightarrow> bool" where
  "is_dir fs p \<longleftrightarrow> stat fs p = Some Folder"

definition is_file :: "nodes \<Rightarrow> path \<Rightarrow> bool" where
  "is_file fs p \<longleftrightarrow> regular_node (stat fs p)"

definition is_symlink :: "nodes \<Rightarrow> path \<Rightarrow> bool" where
  "is_symlink fs p \<longleftrightarrow> symlink_node (lstat fs p)"

text \<open>\<open>os.path.lexists\<close>, and \<open>p.exists() or p.is_symlink()\<close>.\<close>

definition lexists :: "nodes \<Rightarrow> path \<Rightarrow> bool" where
  "lexists fs p \<longleftrightarrow> lstat fs p \<noteq> None"

definition present :: "nodes \<Rightarrow> path \<Rightarrow> bool" where
  "present fs p \<longleftrightarrow> exists_at fs p \<or> is_symlink fs p"

definition children :: "nodes \<Rightarrow> path \<Rightarrow> path list" where
  "children fs d = filter (\<lambda>q. q \<noteq> [] \<and> butlast q = d) (map fst fs)"

section \<open>System calls\<close>

text \<open>
  A call takes its fate from \<open>faults\<close>: the calls beyond the list do not fail of themselves.  The files and
  links created so far number the next inode, the identifiers drawn number the next one.
\<close>

record disk =
  nodes :: nodes
  faults :: "bool list"
  inodes :: nat
  identifiers :: nat

type_synonym 'a io = "(disk, 'a) eff"

abbreviation OSError :: py_exc where
  "OSError \<equiv> OtherError ''OSError''"

definition os_call :: "unit io" where
  "os_call w = (case faults w of [] \<Rightarrow> (Inr (), w)
     | f # fs \<Rightarrow> (if f then Inl OSError else Inr (), w\<lparr>faults := fs\<rparr>))"

definition with_fs :: "(nodes \<Rightarrow> 'a io) \<Rightarrow> 'a io" where
  "with_fs f w = f (nodes w) w"

definition put_node :: "path \<Rightarrow> node \<Rightarrow> unit io" where
  "put_node p n = act_modify (\<lambda>w. w\<lparr>nodes := AList.update p n (nodes w)\<rparr>)"

definition drop_node :: "path \<Rightarrow> unit io" where
  "drop_node p = act_modify (\<lambda>w. w\<lparr>nodes := AList.delete p (nodes w)\<rparr>)"

definition new_inode :: "nat io" where
  "new_inode w = (Inr (Suc (inodes w)), w\<lparr>inodes := Suc (inodes w)\<rparr>)"

definition new_identifier :: "nat io" where
  "new_identifier w = (Inr (identifiers w), w\<lparr>identifiers := Suc (identifiers w)\<rparr>)"

text \<open>A call on the place of a name, which the parent folder must be there for.\<close>

definition at_entry :: "path \<Rightarrow> (nodes \<Rightarrow> path \<Rightarrow> 'a io) \<Rightarrow> 'a io" where
  "at_entry p f =
     act_then os_call (with_fs (\<lambda>fs. case entry fs p of None \<Rightarrow> act_raise OSError | Some e \<Rightarrow> f fs e))"

definition mkdir :: "path \<Rightarrow> unit io" where
  "mkdir p = at_entry p (\<lambda>fs e. if lookup fs e \<noteq> None then act_raise OSError else put_node e Folder)"

text \<open>\<open>mkdir(parents=True, exist_ok=True)\<close>.\<close>

definition mkdir_parents :: "path \<Rightarrow> unit io" where
  "mkdir_parents p =
     act_each (\<lambda>q. with_fs (\<lambda>fs. if is_dir fs q then act_return () else mkdir q)) (tl (prefixes p))"

definition unlink :: "bool \<Rightarrow> path \<Rightarrow> unit io" where
  "unlink missing_ok p = at_entry p (\<lambda>fs e.
     case lookup fs e of
       None \<Rightarrow> if missing_ok then act_return () else act_raise OSError
     | Some Folder \<Rightarrow> act_raise OSError
     | Some _ \<Rightarrow> drop_node e)"

definition rmdir :: "path \<Rightarrow> unit io" where
  "rmdir p = at_entry p (\<lambda>fs e.
     if e \<noteq> [] \<and> lookup fs e = Some Folder \<and> children fs e = [] then drop_node e else act_raise OSError)"

text \<open>\<open>os.replace\<close> of a file or link.\<close>

definition replace :: "path \<Rightarrow> path \<Rightarrow> unit io" where
  "replace a b = at_entry a (\<lambda>fs e.
     case (lookup fs e, entry fs b) of
       (Some n, Some t) \<Rightarrow>
         if n = Folder \<or> lookup fs t = Some Folder then act_raise OSError
         else act_then (drop_node e) (put_node t n)
     | _ \<Rightarrow> act_raise OSError)"

text \<open>\<open>os.open(p, O_CREAT | O_EXCL | O_WRONLY)\<close>, then the bytes written to it.\<close>

definition open_exclusive :: "path \<Rightarrow> unit io" where
  "open_exclusive p = at_entry p (\<lambda>fs e.
     if lookup fs e \<noteq> None then act_raise OSError
     else act_bind new_inode (\<lambda>i. put_node e (Regular i [])))"

definition write_content :: "path \<Rightarrow> bytes \<Rightarrow> unit io" where
  "write_content p content = at_entry p (\<lambda>fs e.
     case lookup fs e of Some (Regular i c) \<Rightarrow> put_node e (Regular i content) | _ \<Rightarrow> act_raise OSError)"

definition symlink :: "path \<Rightarrow> path \<Rightarrow> unit io" where
  "symlink target p = at_entry p (\<lambda>fs e.
     if lookup fs e \<noteq> None then act_raise OSError
     else act_bind new_inode (\<lambda>i. put_node e (Symlink i (path_text target))))"

definition hard_link :: "path \<Rightarrow> path \<Rightarrow> unit io" where
  "hard_link target p = at_entry p (\<lambda>fs e.
     case stat fs target of
       Some (Regular i c) \<Rightarrow> if lookup fs e \<noteq> None then act_raise OSError else put_node e (Regular i c)
     | _ \<Rightarrow> act_raise OSError)"

definition read_bytes :: "path \<Rightarrow> bytes io" where
  "read_bytes p =
     act_then os_call (with_fs (\<lambda>fs. case stat fs p of
       Some (Regular i c) \<Rightarrow> act_return c | _ \<Rightarrow> act_raise OSError))"

text \<open>\<open>p.resolve(strict=True)\<close>.\<close>

definition resolve_strict :: "path \<Rightarrow> path io" where
  "resolve_strict p =
     act_then os_call (with_fs (\<lambda>fs. case real_path fs p of
       Some q \<Rightarrow> if lookup fs q = None then act_raise OSError else act_return q
     | None \<Rightarrow> act_raise OSError))"

text \<open>\<open>p.iterdir()\<close>, as the entries below \<open>p\<close>.\<close>

definition iterdir :: "path \<Rightarrow> path list io" where
  "iterdir p =
     act_then os_call (with_fs (\<lambda>fs. case real_path fs p of
       Some d \<Rightarrow> if lookup fs d = Some Folder then act_return (map (\<lambda>q. p @ [last q]) (children fs d))
                 else act_raise OSError
     | None \<Rightarrow> act_raise OSError))"

text \<open>
  \<open>shutil.rmtree\<close>: everything below the folder, an entry before the folder it is in, then the folder.
  Sorted paths have a folder before its content and the content of a folder together, so the reverse
  is an order in which the recursive removal may visit them.
\<close>

definition below :: "nodes \<Rightarrow> path \<Rightarrow> path list" where
  "below fs d = filter (\<lambda>q. strict_prefix d q) (map fst fs)"

definition remove_place :: "path \<Rightarrow> unit io" where
  "remove_place e =
     act_then os_call (with_fs (\<lambda>fs. case lookup fs e of
       None \<Rightarrow> act_raise OSError
     | Some Folder \<Rightarrow> if e \<noteq> [] \<and> children fs e = [] then drop_node e else act_raise OSError
     | Some _ \<Rightarrow> drop_node e))"

definition rmtree :: "path \<Rightarrow> unit io" where
  "rmtree p =
     with_fs (\<lambda>fs. case entry fs p of
       Some e \<Rightarrow>
         if lookup fs e = Some Folder
         then act_each remove_place (rev (sort (below fs e)) @ [e])
         else act_raise OSError
     | None \<Rightarrow> act_raise OSError)"

end
