(* ===== verification/Inventory.thy ===== *)
theory Inventory
  imports Disk Digest
begin

text \<open>
  The names of an installation: \<open>product_identity.py\<close>, \<open>service/inventory.py\<close>, the paths of
  \<open>runtime/config.py\<close> and the \<open>RuntimeContext\<close> of \<open>lifecycle/context.py\<close>, on a POSIX host.
\<close>

section \<open>Names\<close>

definition PRODUCT_SLUG :: string where
  "PRODUCT_SLUG = ''openai-responses-proxy''"

definition public_executable_name :: "bool \<Rightarrow> string" where
  "public_executable_name windows = (if windows then PRODUCT_SLUG @ ''.exe'' else PRODUCT_SLUG)"

definition MANIFEST_FILENAME :: string where
  "MANIFEST_FILENAME = ''payload-manifest.json''"

definition RELEASE_RECEIPT_FILENAME :: string where
  "RELEASE_RECEIPT_FILENAME = ''release-asset-receipt.json''"

definition INSTALLED_RELEASE_STATE_FILENAME :: string where
  "INSTALLED_RELEASE_STATE_FILENAME = ''release-install-state.json''"

definition RUNTIME_CONFIG_FILENAME :: string where
  "RUNTIME_CONFIG_FILENAME = ''runtime-config.json''"

definition PROVIDER_MANIFEST :: string where
  "PROVIDER_MANIFEST = ''providers.toml''"

definition executable_name :: "bool \<Rightarrow> string" where
  "executable_name windows = ''bin/'' @ public_executable_name windows"

definition required_runtime_files :: "bool \<Rightarrow> string list" where
  "required_runtime_files windows = [executable_name windows, PROVIDER_MANIFEST]"

definition is_runtime_file :: "string \<Rightarrow> bool \<Rightarrow> bool" where
  "is_runtime_file relative windows \<longleftrightarrow>
     relative \<in> {PROVIDER_MANIFEST, executable_name windows} \<or> starts_with ''bin/'' relative"

text \<open>The exact file set of a bundle for one platform, as the three validations test it.\<close>

definition runtime_file_set :: "bool \<Rightarrow> string list \<Rightarrow> bool" where
  "runtime_file_set windows paths \<longleftrightarrow>
     list_all (\<lambda>f. f \<in> set paths) (required_runtime_files windows)
     \<and> list_all (\<lambda>f. is_runtime_file f windows) paths"

definition validated_serving_payload_sha256 :: "py_env \<Rightarrow> string dict \<Rightarrow> string res" where
  "validated_serving_payload_sha256 env file_digests =
     (if \<not> runtime_file_set (executable_name True \<in> set (map fst file_digests)) (map fst file_digests)
      then Inl (ValueError ''serving payload files do not match the declared inventory'')
      else aggregate_file_digests_sha256 env file_digests)"

section \<open>Paths as text\<close>

text \<open>\<open>posixpath.join\<close> and \<open>posixpath.dirname\<close>.\<close>

definition join_text :: "string \<Rightarrow> string \<Rightarrow> string" where
  "join_text a b =
     (if is_absolute b then b else if a = [] \<or> last a = CHR ''/'' then a @ b else a @ ''/'' @ b)"

definition dirname :: "string \<Rightarrow> string" where
  "dirname s =
     (let before = rev (dropWhile (\<lambda>c. c \<noteq> CHR ''/'') (rev s))
      in if list_all (\<lambda>c. c = CHR ''/'') before then before
         else rev (dropWhile (\<lambda>c. c = CHR ''/'') (rev before)))"

definition installed_executable :: "string \<Rightarrow> bool \<Rightarrow> string" where
  "installed_executable root windows =
     foldl join_text root (split_on (CHR ''/'') (executable_name windows))"

section \<open>One installed projection\<close>

text \<open>\<open>RuntimeContext\<close>; a float setting is given by its text.\<close>

record runtime_context =
  install_dir :: string
  executable :: string
  command :: string
  log_dir :: string
  user_home :: string
  port :: int
  proxy_log_max_bytes :: int
  proxy_log_backup_count :: int
  watchdog_log_max_bytes :: int
  watchdog_log_backup_count :: int
  upstream_timeout :: string
  upstream_read_timeout :: string
  watchdog_interval :: string
  watchdog_max_backoff :: string
  response_failed_compaction_budget :: int
  response_failed_max_stages :: int
  upstream_base_url :: string

definition payload_dir :: "runtime_context \<Rightarrow> string" where
  "payload_dir ctx = dirname (dirname (executable ctx))"

definition install_path :: "runtime_context \<Rightarrow> path" where
  "install_path ctx = path_of (install_dir ctx)"

definition payload_path :: "runtime_context \<Rightarrow> path" where
  "payload_path ctx = path_of (payload_dir ctx)"

definition executable_path :: "runtime_context \<Rightarrow> path" where
  "executable_path ctx = path_of (executable ctx)"

definition command_path :: "runtime_context \<Rightarrow> path" where
  "command_path ctx = path_of (command ctx)"

end
