(* ===== verification/Owned_Files.thy ===== *)
theory Owned_Files
  imports Inventory
begin

text \<open>
  \<open>lifecycle/owned_files.py\<close>: canonical relative paths, reading JSON documents of the installation, and
  the atomic write every durable file of the lifecycle goes through.
\<close>

section \<open>The surroundings\<close>

text \<open>
  What the lifecycle takes from the interpreter and the host: the codec and SHA-256, the text of
  \<open>os.getpid()\<close>, the hexadecimal text of each \<open>uuid.uuid4()\<close> drawn, the device number of the file system, and
  whether the installed executable starts in prewarm mode.
\<close>

record lifecycle_env =
  lpy :: py_env
  pid_text :: string
  uuid_hex :: "nat \<Rightarrow> string"
  st_dev :: int
  prewarm_ok :: "path \<Rightarrow> nodes \<Rightarrow> bool"

abbreviation install_error :: "string \<Rightarrow> py_exc" where
  "install_error \<equiv> InstallError Install_failed"

fun is_install_error :: "py_exc \<Rightarrow> bool" where
  "is_install_error (InstallError c m) = True"
| "is_install_error _ = False"

text \<open>\<open>except (\<dots>) as exc: raise \<dots> from exc\<close>.\<close>

definition raising :: "(py_exc \<Rightarrow> bool) \<Rightarrow> py_exc \<Rightarrow> 'a io \<Rightarrow> 'a io" where
  "raising caught e m = act_catch m (\<lambda>x. if caught x then Some (act_raise e) else None)"

definition is_os_failure :: "py_exc \<Rightarrow> bool" where
  "is_os_failure e \<longleftrightarrow> e = OSError"

definition is_read_failure :: "py_exc \<Rightarrow> bool" where
  "is_read_failure e \<longleftrightarrow> is_os_failure e \<or> is_value_error e"

definition fail_if :: "bool \<Rightarrow> py_exc \<Rightarrow> unit io" where
  "fail_if b e = (if b then act_raise e else act_return ())"

section \<open>Relative paths\<close>

text \<open>\<open>PurePosixPath(s).as_posix()\<close>.\<close>

definition posix_text :: "string \<Rightarrow> string" where
  "posix_text s =
     (if starts_with ''///'' s \<or> is_absolute s \<and> \<not> starts_with ''//'' s then ''/''
      else if is_absolute s then ''//'' else if path_of s = [] then ''.'' else [])
     @ join_on (CHR ''/'') (path_of s)"

text \<open>
  \<open>PureWindowsPath(s).drive\<close> of a text without a double slash and without a backslash: its second character
  is a colon.
\<close>

definition has_drive :: "string \<Rightarrow> bool" where
  "has_drive s \<longleftrightarrow> (case code_points s of a # b # rest \<Rightarrow> b = 58 | _ \<Rightarrow> False)"

definition canonical_relative :: "string \<Rightarrow> string \<Rightarrow> string res" where
  "canonical_relative relative label =
     (if relative = [] then Inl (install_error (label @ '' path must be a non-empty string''))
      else if is_absolute relative \<or> has_drive relative \<or> starts_with ''//'' relative
              \<or> posix_text relative \<noteq> relative \<or> last relative = CHR ''/''
              \<or> CHR 92 \<in> set relative
              \<or> list_ex (\<lambda>part. part \<in> {[], ''.'', ''..''}) (split_on (CHR ''/'') relative)
      then Inl (install_error (label @ '' path is not canonical''))
      else Inr relative)"

text \<open>\<open>path(root, relative)\<close>.\<close>

definition owned_path :: "path \<Rightarrow> string \<Rightarrow> path" where
  "owned_path root relative = root @ path_of relative"

definition declared_files :: "jdict \<Rightarrow> string list res" where
  "declared_files manifest =
     (case jget manifest ''files'' of
        JObj files \<Rightarrow>
          if files = [] then Inl (install_error ''installed payload manifest file set is invalid'')
          else res_map (\<lambda>p. canonical_relative (fst p) ''installed payload'') files
      | _ \<Rightarrow> Inl (install_error ''installed payload manifest file set is invalid''))"

definition OWNED_PAYLOAD_METADATA :: "string list" where
  "OWNED_PAYLOAD_METADATA = [MANIFEST_FILENAME, RELEASE_RECEIPT_FILENAME, RUNTIME_CONFIG_FILENAME]"

section \<open>Files below a root\<close>

fun folders_between :: "nodes \<Rightarrow> string \<Rightarrow> path \<Rightarrow> path \<Rightarrow> unit res" where
  "folders_between fs label current [] = Inr ()"
| "folders_between fs label current (part # parts) =
     (if parts = [] then Inr ()
      else (case lstat fs (current @ [part]) of
              None \<Rightarrow> Inl (install_error (label @ '' file is unavailable''))
            | Some Folder \<Rightarrow> folders_between fs label (current @ [part]) parts
            | Some (Symlink i t) \<Rightarrow> Inl (install_error (label @ '' path has a symlink ancestor''))
            | Some (Regular i c) \<Rightarrow> Inl (install_error (label @ '' path ancestor is not a directory''))))"

definition regular_file :: "path \<Rightarrow> string \<Rightarrow> string \<Rightarrow> path io" where
  "regular_file root relative label =
     act_bind (act_lift (canonical_relative relative label)) (\<lambda>rel. with_fs (\<lambda>fs.
       let target = owned_path root rel in
       if is_symlink fs root \<or> \<not> is_dir fs root
       then act_raise (install_error (label @ '' root is not a real directory''))
       else act_then (act_lift (folders_between fs label root (path_of rel)))
         (case lstat fs target of
            None \<Rightarrow> act_raise (install_error (label @ '' file is unavailable''))
          | Some (Symlink i t) \<Rightarrow> act_raise (install_error (label @ '' path is a symlink''))
          | Some Folder \<Rightarrow> act_raise (install_error (label @ '' path is not a regular file''))
          | Some (Regular i c) \<Rightarrow> act_return target)))"

definition sha256_file :: "lifecycle_env \<Rightarrow> path \<Rightarrow> string io" where
  "sha256_file env p = act_bind (read_bytes p) (\<lambda>content. act_return (sha256_hex (lpy env) content))"

section \<open>Atomic writes\<close>

text \<open>One folder on the way from the root to the target, created when it is missing.\<close>

definition require_folder :: "path \<Rightarrow> unit io" where
  "require_folder current =
     act_then (with_fs (\<lambda>fs. if lstat fs current = None then mkdir current else act_return ()))
       (with_fs (\<lambda>fs.
          case lstat fs current of
            Some Folder \<Rightarrow> act_return ()
          | Some (Symlink i t) \<Rightarrow> act_raise (install_error ''owned path has a symlink ancestor'')
          | Some (Regular i c) \<Rightarrow> act_raise (install_error ''owned path ancestor is not a directory'')
          | None \<Rightarrow> act_raise OSError))"

text \<open>The strict prefixes of the target that are longer than the root.\<close>

definition folders_below :: "path \<Rightarrow> path \<Rightarrow> path list" where
  "folders_below root target =
     filter (\<lambda>q. length root < length q \<and> length q < length target) (prefixes target)"

definition real_parent :: "path \<Rightarrow> path \<Rightarrow> unit io" where
  "real_parent target root =
     act_then (with_fs (\<lambda>fs. fail_if (is_symlink fs root) (install_error ''installed payload root is a symlink'')))
    (act_then (mkdir_parents root)
    (act_then (with_fs (\<lambda>fs. fail_if (is_symlink fs root \<or> \<not> is_dir fs root)
                               (install_error ''installed payload root is not a real directory'')))
    (act_then (fail_if (\<not> prefix root target) (install_error ''owned path escapes its root''))
       (act_each require_folder (folders_below root target)))))"

definition replaceable :: "string \<Rightarrow> path \<Rightarrow> unit io" where
  "replaceable message target =
     with_fs (\<lambda>fs. fail_if (is_symlink fs target \<or> exists_at fs target \<and> \<not> is_file fs target) (install_error message))"

definition temporary_name :: "lifecycle_env \<Rightarrow> path \<Rightarrow> nat \<Rightarrow> path" where
  "temporary_name env target n =
     butlast target @ [''.'' @ path_name target @ ''.tmp-'' @ pid_text env @ ''-'' @ uuid_hex env n]"

definition write_bytes :: "lifecycle_env \<Rightarrow> path \<Rightarrow> bytes \<Rightarrow> path option \<Rightarrow> unit io" where
  "write_bytes env target content given_root =
     (let root = (case given_root of Some r \<Rightarrow> r | None \<Rightarrow> butlast target) in
      act_then (real_parent target root)
     (act_then (replaceable ''owned path is not a regular file'' target)
     (act_bind new_identifier (\<lambda>n.
      let temporary = temporary_name env target n in
      act_then (open_exclusive temporary)
        (act_ensure
          (act_then (write_content temporary content)
          (act_then (real_parent target root)
          (act_then (replaceable ''owned path changed type'' target)
             (replace temporary target))))
          (unlink True temporary))))))"

section \<open>Reading documents\<close>

definition decoded :: "lifecycle_env \<Rightarrow> path \<Rightarrow> string \<Rightarrow> (bytes \<times> json) io" where
  "decoded env target label =
     raising is_read_failure (install_error (label @ '' is unavailable or invalid''))
       (act_bind (read_bytes target) (\<lambda>content.
        act_bind (act_lift (loads (lpy env) content)) (\<lambda>v. act_return (content, v))))"

definition read_json_object :: "lifecycle_env \<Rightarrow> path \<Rightarrow> string \<Rightarrow> jdict io" where
  "read_json_object env target label =
     act_bind (decoded env target label) (\<lambda>(content, v).
       case v of
         JObj d \<Rightarrow> if is_json_object v then act_return d
                   else act_raise (install_error (label @ '' is not a JSON object with finite values and string keys''))
       | _ \<Rightarrow> act_raise (install_error (label @ '' is not a JSON object with finite values and string keys'')))"

definition read_canonical_json :: "lifecycle_env \<Rightarrow> path \<Rightarrow> string \<Rightarrow> jdict io" where
  "read_canonical_json env target label =
     act_bind (decoded env target label) (\<lambda>(content, v).
       case v of
         JObj d \<Rightarrow>
           if is_json_object v
           then act_bind (act_lift (canonical_json (lpy env) v)) (\<lambda>text'.
                  if text' \<noteq> content then act_raise (install_error (label @ '' is not canonical JSON''))
                  else act_return d)
           else act_raise (install_error (label @ '' is not canonical JSON''))
       | _ \<Rightarrow> act_raise (install_error (label @ '' is not canonical JSON'')))"

definition current_inventory :: "lifecycle_env \<Rightarrow> path \<Rightarrow> string list io" where
  "current_inventory env root =
     act_bind (read_json_object env (root @ [MANIFEST_FILENAME]) ''installed payload manifest'') (\<lambda>manifest.
     act_bind (act_lift (declared_files manifest)) (\<lambda>files. act_return (files @ OWNED_PAYLOAD_METADATA)))"

end
