(* ===== verification/Payload_Identity.thy ===== *)
theory Payload_Identity
  imports Owned_Files
begin

text \<open>
  \<open>service/identity.py\<close>: the identity of a payload read from its manifest, its receipt and the digests of
  its files, and the selector that names the active generation and its predecessor.
\<close>

record loaded_payload =
  lp_release :: string
  lp_serving_sha256 :: string
  lp_receipt_sha256 :: string
  lp_manifest_sha256 :: string
  lp_root :: path

record payload_selection =
  active :: string
  predecessor :: "string option"

definition PAYLOAD_SELECTOR_FILENAME :: string where
  "PAYLOAD_SELECTOR_FILENAME = ''payload-selection.json''"

definition PAYLOAD_SELECTOR_SCHEMA :: int where
  "PAYLOAD_SELECTOR_SCHEMA = 1"

definition PAYLOAD_GENERATIONS_DIRNAME :: string where
  "PAYLOAD_GENERATIONS_DIRNAME = ''generations''"

text \<open>\<open>v == n\<close> for a whole number: \<open>True\<close> is 1 and a float may be whole.\<close>

fun equals_number :: "json \<Rightarrow> int \<Rightarrow> bool" where
  "equals_number (JInt i) n = (i = n)"
| "equals_number (JBool b) n = (n = (if b then 1 else 0))"
| "equals_number (JFloat r) n = (r = int_text n @ ''.0'' \<or> n = 0 \<and> r = ''-0.0'')"
| "equals_number _ n = False"

definition handoff_fields :: "loaded_payload \<Rightarrow> jdict" where
  "handoff_fields p =
     [(''release'', JStr (lp_release p)), (''serving_payload_sha256'', JStr (lp_serving_sha256 p)),
      (''release_receipt_sha256'', JStr (lp_receipt_sha256 p)), (''manifest_sha256'', JStr (lp_manifest_sha256 p))]"

definition RUNTIME_PAYLOAD_FIELDS :: "string dict" where
  "RUNTIME_PAYLOAD_FIELDS =
     [(''release'', ''release''), (''serving_payload_sha256'', ''serving_payload_sha256''),
      (''release_receipt_sha256'', ''release_receipt_sha256''), (''payload_manifest_sha256'', ''manifest_sha256'')]"

definition runtime_payload_matches :: "jdict \<Rightarrow> jdict \<Rightarrow> bool" where
  "runtime_payload_matches runtime expected \<longleftrightarrow>
     list_all (\<lambda>(r, e). json_eq (jget runtime r) (jget expected e)) RUNTIME_PAYLOAD_FIELDS"

section \<open>The selector\<close>

definition is_generation_name :: "string \<Rightarrow> bool" where
  "is_generation_name s \<longleftrightarrow> length s = 32 \<and> list_all lower_hex_digit s"

definition require_payload_generation_name :: "json \<Rightarrow> string res" where
  "require_payload_generation_name v =
     (case v of
        JStr s \<Rightarrow> if is_generation_name s then Inr s else Inl (ValueError ''payload generation identity is invalid'')
      | _ \<Rightarrow> Inl (ValueError ''payload generation identity is invalid''))"

abbreviation selector_invalid :: py_exc where
  "selector_invalid \<equiv> ValueError ''payload generation selector is invalid''"

definition selection_fields :: "jdict \<Rightarrow> payload_selection res" where
  "selection_fields d =
     res_bind (require_payload_generation_name (jget d ''active'')) (\<lambda>a.
     res_bind (case jget d ''predecessor'' of JNull \<Rightarrow> Inr None
               | v \<Rightarrow> res_bind (require_payload_generation_name v) (\<lambda>p. Inr (Some p))) (\<lambda>p.
       if p = Some a then Inl selector_invalid else Inr \<lparr>active = a, predecessor = p\<rparr>))"

definition read_payload_selection :: "lifecycle_env \<Rightarrow> path \<Rightarrow> payload_selection io" where
  "read_payload_selection env selector =
     with_fs (\<lambda>fs.
       if is_symlink fs selector \<or> \<not> is_file fs selector then act_raise selector_invalid
       else act_bind (raising is_read_failure selector_invalid
                       (act_bind (read_bytes selector) (\<lambda>content.
                        act_bind (act_lift (loads (lpy env) content)) (\<lambda>v. act_return (content, v)))))
         (\<lambda>(content, v).
            case v of
              JObj d \<Rightarrow>
                if \<not> keys_exactly d [''schema_version'', ''active'', ''predecessor'']
                   \<or> \<not> equals_number (jget d ''schema_version'') PAYLOAD_SELECTOR_SCHEMA
                then act_raise selector_invalid
                else act_bind (act_lift (canonical_json (lpy env) v)) (\<lambda>canonical.
                       if canonical \<noteq> content then act_raise selector_invalid
                       else act_lift (selection_fields d))
            | _ \<Rightarrow> act_raise selector_invalid))"

section \<open>Payloads on disk\<close>

text \<open>\<open>executable.resolve(strict=True)\<close> and its grandparent, which is the payload root.\<close>

definition runtime_root :: "path \<Rightarrow> (path \<times> bool) io" where
  "runtime_root exe =
     act_then os_call (with_fs (\<lambda>fs.
       case real_path fs exe of
         None \<Rightarrow> act_raise OSError
       | Some p \<Rightarrow>
           if lookup fs p = None then act_raise OSError
           else if length p < 2 then act_raise (OtherError ''IndexError'')
           else let root = butlast (butlast p) in
                if p = root @ path_of (executable_name False) then act_return (root, False)
                else if p = root @ path_of (executable_name True) then act_return (root, True)
                else act_raise (ValueError ''executable is outside the installed runtime identity'')))"

definition read_manifest :: "lifecycle_env \<Rightarrow> path \<Rightarrow> jdict io" where
  "read_manifest env p =
     act_bind (read_bytes p) (\<lambda>content.
     act_bind (act_lift (loads (lpy env) content)) (\<lambda>v.
       case v of JObj d \<Rightarrow> act_return d | _ \<Rightarrow> act_raise TypeError))"

definition digest_mapping :: "jdict \<Rightarrow> string \<Rightarrow> string dict res" where
  "digest_mapping manifest field =
     (case jget manifest field of
        JObj d \<Rightarrow> res_map (\<lambda>(p, v). case v of JStr s \<Rightarrow> Inr (p, s)
                            | _ \<Rightarrow> Inl (ValueError ''installed manifest mapping is invalid'')) d
      | _ \<Rightarrow> Inl (ValueError ''installed manifest mapping is invalid''))"

fun digests_match :: "lifecycle_env \<Rightarrow> path \<Rightarrow> string dict \<Rightarrow> bool io" where
  "digests_match env root [] = act_return True"
| "digests_match env root ((relative, expected) # files) =
     act_bind (sha256_file env (owned_path root relative)) (\<lambda>actual.
       if actual \<noteq> expected then act_return False else digests_match env root files)"

definition verify_runtime_files :: "lifecycle_env \<Rightarrow> path \<Rightarrow> string dict \<Rightarrow> bool \<Rightarrow> string io" where
  "verify_runtime_files env root expected windows =
     (if \<not> runtime_file_set windows (map fst expected)
      then act_raise (ValueError ''installed inventory does not match the executable platform'')
      else act_bind (act_lift (validated_serving_payload_sha256 (lpy env) expected)) (\<lambda>aggregate.
           act_bind (digests_match env root expected) (\<lambda>ok.
             if ok then act_return aggregate else act_raise (ValueError ''installed payload digest mismatch''))))"

definition payload_identity :: "lifecycle_env \<Rightarrow> path \<Rightarrow> jdict \<Rightarrow> string \<Rightarrow> bool \<Rightarrow> loaded_payload io" where
  "payload_identity env root manifest aggregate require_receipt_file =
     (let bad = act_raise (ValueError ''installed successor identity mismatch'') in
      case (jget manifest ''release'', jget manifest ''release_receipt_sha256'') of
        (JStr release, JStr receipt) \<Rightarrow>
          if release = [] \<or> jget manifest ''serving_payload_sha256'' \<noteq> JStr aggregate \<or> \<not> is_sha256 receipt then bad
          else act_bind (if require_receipt_file
                         then act_bind (sha256_file env (root @ [RELEASE_RECEIPT_FILENAME])) (\<lambda>h. act_return (h = receipt))
                         else act_return True) (\<lambda>ok.
                 if \<not> ok then bad
                 else act_bind (sha256_file env (root @ [MANIFEST_FILENAME])) (\<lambda>h.
                        act_return \<lparr>lp_release = release, lp_serving_sha256 = aggregate, lp_receipt_sha256 = receipt,
                                   lp_manifest_sha256 = h, lp_root = root\<rparr>))
      | _ \<Rightarrow> bad)"

text \<open>The exceptions both readers turn into \<open>None\<close>.\<close>

definition is_payload_failure :: "py_exc \<Rightarrow> bool" where
  "is_payload_failure e \<longleftrightarrow> is_read_failure e \<or> e = TypeError \<or> e = OtherError ''IndexError''"

definition or_none :: "'a io \<Rightarrow> 'a option io" where
  "or_none m = act_catch (act_bind m (\<lambda>x. act_return (Some x)))
                 (\<lambda>e. if is_payload_failure e then Some (act_return None) else None)"

definition freeze_loaded_payload :: "lifecycle_env \<Rightarrow> path \<Rightarrow> loaded_payload option io" where
  "freeze_loaded_payload env exe =
     or_none (act_bind (runtime_root exe) (\<lambda>(root, windows).
              act_bind (read_manifest env (root @ [MANIFEST_FILENAME])) (\<lambda>manifest.
              act_bind (act_lift (digest_mapping manifest ''serving_files'')) (\<lambda>serving.
              act_bind (verify_runtime_files env root serving windows) (\<lambda>aggregate.
                payload_identity env root manifest aggregate False)))))"

definition committed_payload :: "lifecycle_env \<Rightarrow> path \<Rightarrow> loaded_payload option io" where
  "committed_payload env exe =
     or_none (act_bind (runtime_root exe) (\<lambda>(root, windows).
              act_bind (read_manifest env (root @ [MANIFEST_FILENAME])) (\<lambda>manifest.
                if \<not> equals_number (jget manifest ''schema_version'') 2
                then act_raise (ValueError ''installed manifest schema mismatch'')
                else act_bind (act_lift (digest_mapping manifest ''files'')) (\<lambda>files.
                     act_bind (act_lift (digest_mapping manifest ''serving_files'')) (\<lambda>_.
                       if \<not> json_eq (jget manifest ''serving_files'') (jget manifest ''files'') then act_raise (ValueError ''serving digest mismatch'')
                       else act_bind (verify_runtime_files env root files windows) (\<lambda>aggregate.
                              payload_identity env root manifest aggregate True))))))"

definition selected_payload_executable :: "lifecycle_env \<Rightarrow> path \<Rightarrow> path io" where
  "selected_payload_executable env exe =
     act_bind (freeze_loaded_payload env exe) (\<lambda>loaded.
       case loaded of
         None \<Rightarrow> act_raise (ValueError ''loaded payload identity is unavailable'')
       | Some p \<Rightarrow>
           let control_root = (if path_name (butlast (lp_root p)) = PAYLOAD_GENERATIONS_DIRNAME
                               then butlast (butlast (lp_root p)) else lp_root p) in
           act_bind (read_payload_selection env (control_root @ [PAYLOAD_SELECTOR_FILENAME])) (\<lambda>selected.
             let candidate = control_root @ [PAYLOAD_GENERATIONS_DIRNAME, active selected, ''bin'', path_name exe] in
             with_fs (\<lambda>fs.
               if \<not> is_file fs candidate \<or> is_symlink fs candidate
               then act_raise (ValueError ''selected payload executable is unavailable'')
               else (case real_path fs candidate of
                       None \<Rightarrow> act_raise OSError
                     | Some place \<Rightarrow>
                         act_bind (committed_payload env place) (\<lambda>identity.
                           case identity of
                             Some i \<Rightarrow>
                               if lp_root i = butlast (butlast candidate) then act_return place
                               else act_raise (ValueError ''selected payload identity is invalid'')
                           | None \<Rightarrow> act_raise (ValueError ''selected payload identity is invalid''))))))"

end
