(* ===== verification/Journal.thy ===== *)
theory Journal
  imports Payload_Identity
begin

text \<open>
  \<open>lifecycle/state.py\<close>: the transaction journal beside the installation, the record of the installed
  release, and the order of release versions.
\<close>

section \<open>Versions\<close>

definition decimal_digit :: "char \<Rightarrow> bool" where
  "decimal_digit c \<longleftrightarrow> c \<in> set ''0123456789''"

text \<open>\<open>0|[1-9][0-9]*\<close>, and three of them separated by dots.\<close>

definition version_part :: "string \<Rightarrow> bool" where
  "version_part s \<longleftrightarrow> s \<noteq> [] \<and> list_all decimal_digit s \<and> (s = ''0'' \<or> hd s \<noteq> CHR ''0'')"

definition strict_version :: "string \<Rightarrow> bool" where
  "strict_version s \<longleftrightarrow>
     (case split_on (CHR ''.'') s of [a, b, c] \<Rightarrow> version_part a \<and> version_part b \<and> version_part c | _ \<Rightarrow> False)"

definition decimal_value :: "string \<Rightarrow> nat" where
  "decimal_value s = foldl (\<lambda>n c. 10 * n + (of_char c - 48)) 0 s"

text \<open>\<open>int(s)\<close> refuses more than 4300 digits.\<close>

definition MAX_STR_DIGITS :: nat where
  "MAX_STR_DIGITS = 4300"

definition decimal_int :: "string \<Rightarrow> nat res" where
  "decimal_int s =
     (if length s > MAX_STR_DIGITS then Inl (ValueError ''Exceeds the limit for integer string conversion'')
      else Inr (decimal_value s))"

definition version_key :: "string \<Rightarrow> (nat \<times> nat \<times> nat) res" where
  "version_key s =
     (if \<not> strict_version s then Inl (InstallError Install_failed ''installed release state version is invalid'')
      else (case split_on (CHR ''.'') s of
              [a, b, c] \<Rightarrow>
                res_bind (decimal_int a) (\<lambda>x. res_bind (decimal_int b) (\<lambda>y. res_bind (decimal_int c) (\<lambda>z.
                  Inr (x, y, z))))
            | _ \<Rightarrow> Inl (ValueError ''not enough values to unpack'')))"

text \<open>Tuples compare component by component.\<close>

fun key_less :: "nat \<times> nat \<times> nat \<Rightarrow> nat \<times> nat \<times> nat \<Rightarrow> bool" where
  "key_less (a, b, c) (a', b', c') \<longleftrightarrow> a < a' \<or> a = a' \<and> (b < b' \<or> b = b' \<and> c < c')"

definition compare_versions :: "string \<Rightarrow> string \<Rightarrow> int res" where
  "compare_versions left right =
     res_bind (version_key left) (\<lambda>l. res_bind (version_key right) (\<lambda>r.
       Inr ((if key_less r l then 1 else 0) - (if key_less l r then 1 else 0))))"

section \<open>Places\<close>

definition transaction_root :: "runtime_context \<Rightarrow> path" where
  "transaction_root ctx = path_of (install_dir ctx @ ''.transaction'')"

definition installed_path :: "runtime_context \<Rightarrow> path" where
  "installed_path ctx = install_path ctx @ [INSTALLED_RELEASE_STATE_FILENAME]"

definition journal_path :: "runtime_context \<Rightarrow> path" where
  "journal_path ctx = path_of (path_text (transaction_root ctx) @ ''.json'')"

section \<open>The journal\<close>

definition TRANSACTION_JOURNAL_SCHEMA :: int where
  "TRANSACTION_JOURNAL_SCHEMA = 5"

definition INSTALLED_RELEASE_STATE_SCHEMA :: int where
  "INSTALLED_RELEASE_STATE_SCHEMA = 1"

definition TERMINAL_STATES :: "string list" where
  "TERMINAL_STATES = [''closed'', ''rolled_back'', ''finalized'', ''purged'']"

definition OPEN_STATES :: "string list" where
  "OPEN_STATES = [''prepared'', ''materialized'', ''activated'', ''recovery_required'']"

definition REQUIRED_FIELDS :: "string list" where
  "REQUIRED_FIELDS = [''schema_version'', ''state'', ''transaction_id'', ''version'', ''receipt_sha256'', ''fresh'']"

definition OPTIONAL_FIELDS :: "string list" where
  "OPTIONAL_FIELDS = [''previous_generation'', ''previous_predecessor'', ''phase'', ''reason'', ''files'']"

fun is_bool :: "json \<Rightarrow> bool" where
  "is_bool (JBool b) = True"
| "is_bool _ = False"

definition text_satisfies :: "(string \<Rightarrow> bool) \<Rightarrow> json \<Rightarrow> bool" where
  "text_satisfies P v \<longleftrightarrow> (case v of JStr s \<Rightarrow> P s | _ \<Rightarrow> False)"

abbreviation fields_invalid :: py_exc where
  "fields_invalid \<equiv> InstallError Install_failed ''payload transaction journal fields are invalid''"

text \<open>
  The field conditions, in the order of the code: the two memberships in a set hash the value, which
  raises for a list or an object.
\<close>

definition check_journal_fields :: "jdict \<Rightarrow> unit res" where
  "check_journal_fields journal =
     (let generation_ok = (\<lambda>v. v = JNull \<or> text_satisfies is_generation_name v);
          previous = jget journal ''previous_generation'';
          pred = jget journal ''previous_predecessor'';
          reason = jget journal ''reason'';
          recovery = (jget journal ''state'' = JStr ''recovery_required'')
      in if \<not> list_all (has_key journal) REQUIRED_FIELDS \<or> \<not> keys_within journal (REQUIRED_FIELDS @ OPTIONAL_FIELDS)
         then Inl fields_invalid
         else res_bind (in_frozenset (jget journal ''state'') (OPEN_STATES @ TERMINAL_STATES)) (\<lambda>known.
           if \<not> known
              \<or> \<not> text_satisfies is_generation_name (jget journal ''transaction_id'')
              \<or> \<not> text_satisfies strict_version (jget journal ''version'')
              \<or> \<not> text_satisfies is_sha256 (jget journal ''receipt_sha256'')
              \<or> \<not> is_bool (jget journal ''fresh'')
              \<or> \<not> generation_ok previous \<or> \<not> generation_ok pred
              \<or> pred \<noteq> JNull \<and> previous = JNull
              \<or> reason \<noteq> JNull \<and> \<not> nonempty_str reason
              \<or> recovery \<noteq> (reason \<noteq> JNull)
           then Inl fields_invalid
           else res_bind (in_frozenset (jget journal ''phase'') [''materialized'', ''activated'']) (\<lambda>phased.
             if recovery \<noteq> phased \<or> \<not> recovery \<and> jget journal ''phase'' \<noteq> JNull
             then Inl fields_invalid else Inr ())))"

definition removal_member :: "string \<Rightarrow> string res" where
  "removal_member relative =
     (let parts = split_on (CHR ''/'') relative
      in if hd parts = PAYLOAD_GENERATIONS_DIRNAME
         then (if length parts < 3 \<or> \<not> is_generation_name (parts ! 1)
               then Inl (InstallError Install_failed ''payload removal generation is invalid'')
               else Inr (join_on (CHR ''/'') (tl (tl parts))))
         else Inr relative)"

definition removal_file :: "string \<times> json \<Rightarrow> (string \<times> string) res" where
  "removal_file named =
     res_bind (canonical_relative (fst named) ''payload removal'') (\<lambda>relative.
     res_bind (removal_member relative) (\<lambda>member.
       let bad = Inl (InstallError Install_failed ''payload removal file identity is invalid'') in
       case snd named of
         JStr expected \<Rightarrow>
           if member \<notin> set OWNED_PAYLOAD_METADATA
              \<and> relative \<notin> {INSTALLED_RELEASE_STATE_FILENAME, PAYLOAD_SELECTOR_FILENAME}
              \<and> \<not> is_runtime_file member False \<and> \<not> is_runtime_file member True
              \<or> \<not> is_sha256 expected
           then bad else Inr (relative, expected)
       | _ \<Rightarrow> bad))"

definition removal_files :: "jdict \<Rightarrow> string dict res" where
  "removal_files journal =
     (case jget journal ''files'' of
        JObj files \<Rightarrow>
          if files = [] then Inl (InstallError Install_failed ''payload removal inventory is invalid'')
          else res_map removal_file files
      | _ \<Rightarrow> Inl (InstallError Install_failed ''payload removal inventory is invalid''))"

definition in_state :: "jdict \<Rightarrow> string list \<Rightarrow> bool" where
  "in_state journal states \<longleftrightarrow> in_tuple (jget journal ''state'') states"

text \<open>The document once read, against the transaction directory beside it.\<close>

definition check_journal :: "bool \<Rightarrow> jdict \<Rightarrow> unit res" where
  "check_journal root_exists journal =
     (if \<not> equals_number (jget journal ''schema_version'') TRANSACTION_JOURNAL_SCHEMA
      then Inl (InstallError Install_failed ''payload transaction journal schema is unsupported'')
      else res_bind (check_journal_fields journal) (\<lambda>_.
           res_bind (if in_state journal [''purged'']
                     then (if root_exists
                           then Inl (InstallError Install_failed ''payload removal has an unexpected transaction directory'')
                           else res_bind (removal_files journal) (\<lambda>_. Inr ()))
                     else if has_key journal ''files'' then Inl fields_invalid else Inr ()) (\<lambda>_.
             if \<not> root_exists \<and> \<not> in_state journal TERMINAL_STATES
             then Inl (InstallError Install_failed ''payload transaction root is not a directory'')
             else Inr ())))"

definition read_journal :: "lifecycle_env \<Rightarrow> runtime_context \<Rightarrow> jdict io" where
  "read_journal env ctx =
     (let root = transaction_root ctx; journal_file = journal_path ctx; bad = (\<lambda>m. install_error (''payload transaction '' @ m)) in
      act_then (with_fs (\<lambda>fs.
         if is_symlink fs root then act_raise (bad ''root is a symbolic link'')
         else if exists_at fs root \<and> \<not> is_dir fs root then act_raise (bad ''root is not a directory'')
         else if is_symlink fs journal_file then act_raise (bad ''journal is a symbolic link'')
         else if \<not> exists_at fs journal_file then act_raise (bad ''journal is missing'')
         else if \<not> is_file fs journal_file then act_raise (bad ''journal is not a regular file'')
         else act_return ()))
     (act_bind (raising is_os_failure (bad ''journal could not be read'') (read_bytes journal_file)) (\<lambda>content.
      act_bind (raising is_value_error (bad ''journal is malformed JSON'') (act_lift (loads (lpy env) content))) (\<lambda>v.
        case v of
          JObj journal \<Rightarrow>
            if \<not> is_json_object v then act_raise fields_invalid
            else act_bind (act_lift (canonical_json (lpy env) v)) (\<lambda>canonical.
                   if canonical \<noteq> content then act_raise (bad ''journal is not canonical JSON'')
                   else with_fs (\<lambda>fs.
                          act_then (act_lift (check_journal (exists_at fs root) journal)) (act_return journal)))
        | _ \<Rightarrow> act_raise fields_invalid))))"

definition STATUS_FIELDS :: "string list" where
  "STATUS_FIELDS =
     [''transaction_id'', ''version'', ''receipt_sha256'', ''state'', ''fresh'', ''previous_generation'',
      ''previous_predecessor'', ''phase'']"

fun error_text :: "py_exc \<Rightarrow> string" where
  "error_text (InstallError c m) = m"
| "error_text _ = []"

definition status :: "lifecycle_env \<Rightarrow> runtime_context \<Rightarrow> jdict option io" where
  "status env ctx =
     with_fs (\<lambda>fs.
       if \<not> present fs (transaction_root ctx) \<and> \<not> present fs (journal_path ctx) then act_return None
       else act_catch
              (act_bind (read_journal env ctx) (\<lambda>journal.
                 act_return (Some (map (\<lambda>k. (k, jget journal k)) (filter (has_key journal) STATUS_FIELDS)))))
              (\<lambda>e. if is_install_error e
                   then Some (act_return (Some [(''state'', JStr ''invalid''), (''detail'', JStr (error_text e))]))
                   else None))"

section \<open>Writing the journal\<close>

definition optional_field :: "string \<Rightarrow> string option \<Rightarrow> jdict" where
  "optional_field k v = (case v of None \<Rightarrow> [] | Some s \<Rightarrow> [(k, JStr s)])"

text \<open>The fields of a transaction that every journal of it records.\<close>

record journal_facts =
  jf_transaction :: string
  jf_version :: string
  jf_receipt :: string
  jf_fresh :: bool
  jf_generation :: "string option"
  jf_predecessor :: "string option"

definition journal_document :: "journal_facts \<Rightarrow> string \<Rightarrow> string option \<Rightarrow> string option \<Rightarrow> jdict" where
  "journal_document f state phase reason =
     [(''schema_version'', JInt TRANSACTION_JOURNAL_SCHEMA), (''transaction_id'', JStr (jf_transaction f)),
      (''version'', JStr (jf_version f)), (''receipt_sha256'', JStr (jf_receipt f)), (''state'', JStr state),
      (''fresh'', JBool (jf_fresh f))]
     @ optional_field ''reason'' reason @ optional_field ''previous_generation'' (jf_generation f)
     @ optional_field ''previous_predecessor'' (jf_predecessor f) @ optional_field ''phase'' phase"

definition store_journal :: "lifecycle_env \<Rightarrow> runtime_context \<Rightarrow> jdict \<Rightarrow> unit io" where
  "store_journal env ctx journal =
     act_bind (act_lift (canonical_json (lpy env) (JObj journal))) (\<lambda>content.
       write_bytes env (journal_path ctx) content None)"

definition write_journal ::
    "lifecycle_env \<Rightarrow> runtime_context \<Rightarrow> journal_facts \<Rightarrow> string \<Rightarrow> string option \<Rightarrow> string option \<Rightarrow> unit io" where
  "write_journal env ctx f state phase reason = store_journal env ctx (journal_document f state phase reason)"

section \<open>The installed release\<close>

definition require_version :: "jdict \<Rightarrow> string res" where
  "require_version d =
     (case jget d ''version'' of
        JStr s \<Rightarrow> if strict_version s then Inr s
                  else Inl (InstallError Install_failed ''installed release state version is invalid'')
      | _ \<Rightarrow> Inl (InstallError Install_failed ''installed release state version is invalid''))"

definition require_command :: "jdict \<Rightarrow> string res" where
  "require_command d =
     (case jget d ''command'' of
        JStr s \<Rightarrow> if s \<noteq> [] \<and> is_absolute s then Inr s
                  else Inl (InstallError Install_failed ''installed release state command path is invalid'')
      | _ \<Rightarrow> Inl (InstallError Install_failed ''installed release state command path is invalid''))"

definition read_installed :: "lifecycle_env \<Rightarrow> runtime_context \<Rightarrow> jdict option io" where
  "read_installed env ctx =
     (let p = installed_path ctx in
      with_fs (\<lambda>fs.
        if \<not> present fs p then act_return None
        else if is_symlink fs p \<or> \<not> is_file fs p then act_raise (install_error ''installed release state is invalid'')
        else act_bind (read_canonical_json env p ''installed release state'') (\<lambda>d.
          if \<not> equals_number (jget d ''schema_version'') INSTALLED_RELEASE_STATE_SCHEMA
          then act_raise (install_error ''installed release state schema is unsupported'')
          else if \<not> nonempty_str (jget d ''transaction_id'') \<or> \<not> text_satisfies is_sha256 (jget d ''receipt_sha256'')
                  \<or> \<not> is_obj (jget d ''runtime'')
          then act_raise (install_error ''installed release state is invalid'')
          else act_bind (act_lift (require_version d)) (\<lambda>_.
               act_bind (act_lift (require_command d)) (\<lambda>_. act_return (Some d))))))"

end
