(* ===== verification/Generation.thy ===== *)
theory Generation
  imports Journal
begin

text \<open>
  \<open>lifecycle/generation.py\<close> and \<open>lifecycle/rollback.py\<close>: immutable payload generations below one control
  root, the selector that names the active one and its predecessor, and their removal.
\<close>

section \<open>Places\<close>

definition generations_root :: "runtime_context \<Rightarrow> path" where
  "generations_root ctx = install_path ctx @ [PAYLOAD_GENERATIONS_DIRNAME]"

definition require_name :: "string \<Rightarrow> unit res" where
  "require_name generation =
     (if is_generation_name generation then Inr ()
      else Inl (InstallError Install_failed ''payload generation identity is invalid''))"

definition generation_path :: "runtime_context \<Rightarrow> string \<Rightarrow> path res" where
  "generation_path ctx generation =
     res_bind (require_name generation) (\<lambda>_. Inr (generations_root ctx @ [generation]))"

definition selector_path :: "runtime_context \<Rightarrow> path" where
  "selector_path ctx = install_path ctx @ [PAYLOAD_SELECTOR_FILENAME]"

definition ends_with :: "string \<Rightarrow> string \<Rightarrow> bool" where
  "ends_with suff s \<longleftrightarrow> starts_with (rev suff) (rev s)"

text \<open>Whether the generations of an installation hold the Windows executable.\<close>

definition windows_layout :: "nodes \<Rightarrow> runtime_context \<Rightarrow> bool" where
  "windows_layout fs ctx \<longleftrightarrow>
     (let exe = executable_path ctx;
          stable = install_path ctx @ path_of (executable_name False);
          stable_windows = install_path ctx @ path_of (executable_name True)
      in ends_with ''.exe'' (lower (path_name exe)) \<or> exe = stable_windows
         \<or> exe \<noteq> stable \<and> exists_at fs stable_windows \<and> \<not> exists_at fs stable)"

definition generation_context :: "runtime_context \<Rightarrow> string \<Rightarrow> runtime_context io" where
  "generation_context ctx generation =
     act_bind (act_lift (generation_path ctx generation)) (\<lambda>root. with_fs (\<lambda>fs.
       act_return (ctx\<lparr>executable := installed_executable (path_text root) (windows_layout fs ctx)\<rparr>)))"

section \<open>Reading the selection\<close>

definition real_generation :: "runtime_context \<Rightarrow> string \<Rightarrow> string \<Rightarrow> unit io" where
  "real_generation ctx message generation =
     act_bind (act_lift (generation_path ctx generation)) (\<lambda>p. with_fs (\<lambda>fs.
       fail_if (is_symlink fs p \<or> \<not> is_dir fs p) (install_error message)))"

definition named_generations :: "payload_selection \<Rightarrow> string list" where
  "named_generations s = active s # (case predecessor s of None \<Rightarrow> [] | Some p \<Rightarrow> [p])"

definition read_selection :: "lifecycle_env \<Rightarrow> runtime_context \<Rightarrow> payload_selection option io" where
  "read_selection env ctx =
     (let selector = selector_path ctx; bad = install_error ''payload generation selector is invalid'' in
      with_fs (\<lambda>fs.
        if \<not> present fs selector then act_return None
        else if is_symlink fs selector \<or> \<not> is_file fs selector then act_raise bad
        else act_bind (raising is_value_error bad (read_payload_selection env selector)) (\<lambda>selection.
               act_then (act_each (real_generation ctx ''selected payload generation is unavailable or invalid'')
                           (named_generations selection))
                 (act_return (Some selection)))))"

definition selected_context :: "lifecycle_env \<Rightarrow> runtime_context \<Rightarrow> runtime_context io" where
  "selected_context env ctx =
     act_bind (read_selection env ctx) (\<lambda>selection.
       case selection of Some s \<Rightarrow> generation_context ctx (active s) | None \<Rightarrow> act_return ctx)"

definition identified :: "lifecycle_env \<Rightarrow> runtime_context \<Rightarrow> string \<Rightarrow> (runtime_context \<times> nat \<times> nat \<times> nat) io" where
  "identified env ctx generation =
     act_bind (generation_context ctx generation) (\<lambda>candidate.
     act_bind (committed_payload env (executable_path candidate)) (\<lambda>payload.
       case payload of
         None \<Rightarrow> act_raise (install_error ''selected control-plane generation identity is invalid'')
       | Some p \<Rightarrow> act_bind (act_lift (version_key (lp_release p))) (\<lambda>key. act_return (candidate, key))))"

text \<open>The newest of the selected generations, the active one of two alike.\<close>

definition control_context :: "lifecycle_env \<Rightarrow> runtime_context \<Rightarrow> runtime_context io" where
  "control_context env ctx =
     act_bind (read_selection env ctx) (\<lambda>selection.
       case selection of
         None \<Rightarrow> act_return ctx
       | Some s \<Rightarrow>
           act_bind (identified env ctx (active s)) (\<lambda>(a, ka).
             case predecessor s of
               None \<Rightarrow> act_return a
             | Some p \<Rightarrow> act_bind (identified env ctx p) (\<lambda>(b, kb).
                           act_return (if key_less ka kb then b else a))))"

fun contexts_of :: "runtime_context \<Rightarrow> path list \<Rightarrow> runtime_context list io" where
  "contexts_of ctx [] = act_return []"
| "contexts_of ctx (e # es) =
     act_then (act_lift (require_name (path_name e)))
       (act_then (with_fs (\<lambda>fs. fail_if (is_symlink fs e \<or> \<not> is_dir fs e) (install_error ''payload generation store is invalid'')))
         (act_bind (generation_context ctx (path_name e)) (\<lambda>c.
          act_bind (contexts_of ctx es) (\<lambda>cs. act_return (c # cs)))))"

definition owned_contexts :: "runtime_context \<Rightarrow> runtime_context list io" where
  "owned_contexts ctx =
     (let generations = generations_root ctx in
      with_fs (\<lambda>fs.
        if \<not> present fs generations then act_return []
        else if is_symlink fs generations \<or> \<not> is_dir fs generations
        then act_raise (install_error ''payload generation store is unavailable or invalid'')
        else act_bind (raising is_os_failure (install_error ''payload generation store is unreadable'')
                        (iterdir generations)) (\<lambda>entries.
               contexts_of ctx (sort_key path_name entries))))"

section \<open>Changing the selection\<close>

definition require_generation :: "lifecycle_env \<Rightarrow> runtime_context \<Rightarrow> string \<Rightarrow> string \<Rightarrow> unit io" where
  "require_generation env ctx generation role =
     act_then (real_generation ctx (role @ '' payload generation is unavailable or invalid'') generation)
       (act_bind (generation_context ctx generation) (\<lambda>projected.
        act_bind (committed_payload env (executable_path projected)) (\<lambda>payload.
          fail_if (payload = None) (install_error (role @ '' payload generation identity is invalid'')))))"

definition selection_json :: "payload_selection \<Rightarrow> jdict" where
  "selection_json s =
     [(''schema_version'', JInt PAYLOAD_SELECTOR_SCHEMA), (''active'', JStr (active s)),
      (''predecessor'', case predecessor s of None \<Rightarrow> JNull | Some p \<Rightarrow> JStr p)]"

definition select_generation :: "lifecycle_env \<Rightarrow> runtime_context \<Rightarrow> payload_selection \<Rightarrow> unit io" where
  "select_generation env ctx s =
     act_then (require_generation env ctx (active s) ''active'')
    (act_then (case predecessor s of
                 None \<Rightarrow> act_return ()
               | Some p \<Rightarrow>
                   act_then (require_generation env ctx p ''predecessor'')
                     (fail_if (p = active s) (install_error ''payload generation selector is invalid'')))
    (act_bind (act_lift (canonical_json (lpy env) (JObj (selection_json s)))) (\<lambda>content.
       write_bytes env (selector_path ctx) content (Some (install_path ctx)))))"

definition clear_selection :: "runtime_context \<Rightarrow> unit io" where
  "clear_selection ctx =
     act_then (with_fs (\<lambda>fs. fail_if (is_symlink fs (selector_path ctx))
                               (install_error ''payload generation selector is a symbolic link'')))
       (raising is_os_failure (install_error ''payload generation selector removal failed'')
          (unlink True (selector_path ctx)))"

definition selects :: "payload_selection option \<Rightarrow> string \<Rightarrow> bool" where
  "selects selection generation \<longleftrightarrow>
     (case selection of None \<Rightarrow> False | Some s \<Rightarrow> generation \<in> set (named_generations s))"

definition drop_empty_store :: "runtime_context \<Rightarrow> unit io" where
  "drop_empty_store ctx =
     (let generations = generations_root ctx in
      raising is_os_failure (install_error ''empty payload generation store removal failed'')
        (with_fs (\<lambda>fs.
           if is_dir fs generations
           then act_bind (iterdir generations) (\<lambda>entries.
                  if entries = [] then rmdir generations else act_return ())
           else act_return ())))"

text \<open>The removal of a generation, against the selection that was read.\<close>

definition remove_unselected :: "runtime_context \<Rightarrow> string \<Rightarrow> payload_selection option \<Rightarrow> unit io" where
  "remove_unselected ctx generation selection =
     act_then (fail_if (selects selection generation) (install_error ''selected payload generation cannot be removed''))
    (act_bind (act_lift (generation_path ctx generation)) (\<lambda>target.
     act_then (with_fs (\<lambda>fs.
                 if is_symlink fs target then act_raise (install_error ''payload generation is a symbolic link'')
                 else if exists_at fs target
                 then (if \<not> is_dir fs target then act_raise (install_error ''payload generation is invalid'')
                       else raising is_os_failure (install_error ''payload generation removal failed'') (rmtree target))
                 else act_return ()))
       (drop_empty_store ctx)))"

definition remove_generation :: "lifecycle_env \<Rightarrow> runtime_context \<Rightarrow> string \<Rightarrow> unit io" where
  "remove_generation env ctx generation = act_bind (read_selection env ctx) (remove_unselected ctx generation)"

definition prune_entry :: "payload_selection \<Rightarrow> path \<Rightarrow> unit io" where
  "prune_entry selection e =
     with_fs (\<lambda>fs.
       if is_symlink fs e \<or> \<not> is_dir fs e then act_raise (install_error ''payload generation store is invalid'')
       else if path_name e \<in> set (named_generations selection) then act_return ()
       else rmtree e)"

definition prune :: "runtime_context \<Rightarrow> payload_selection \<Rightarrow> unit io" where
  "prune ctx selection =
     (let generations = generations_root ctx in
      act_then (with_fs (\<lambda>fs. fail_if (is_symlink fs generations \<or> \<not> is_dir fs generations)
                  (install_error ''payload generation store is unavailable or invalid'')))
        (raising is_os_failure (install_error ''payload generation cleanup failed'')
          (act_bind (iterdir generations) (\<lambda>entries. act_each (prune_entry selection) entries))))"

section \<open>The retained predecessor\<close>

record retained_rollback =
  rr_root :: path
  rr_predecessor :: loaded_payload
  rr_successor :: loaded_payload

definition require_closed_generation_store :: "runtime_context \<Rightarrow> payload_selection option \<Rightarrow> unit io" where
  "require_closed_generation_store ctx selection =
     (let root = generations_root ctx in
      with_fs (\<lambda>fs.
        case selection of
          None \<Rightarrow> fail_if (present fs root) (install_error ''payload generation store exists without a durable selector'')
        | Some s \<Rightarrow>
            if is_symlink fs root \<or> \<not> is_dir fs root
            then act_raise (install_error ''payload generation store is unavailable or invalid'')
            else act_bind (raising is_os_failure (install_error ''payload generation store is unreadable'') (iterdir root)) (\<lambda>entries.
                   fail_if (set (map path_name entries) \<noteq> set (named_generations s)
                            \<or> list_ex (\<lambda>e. is_symlink fs e \<or> \<not> is_dir fs e) entries)
                     (install_error ''payload generation store is not closed over its selector''))))"

definition load_selected :: "lifecycle_env \<Rightarrow> runtime_context \<Rightarrow> payload_selection \<Rightarrow> string \<Rightarrow> retained_rollback io" where
  "load_selected env ctx s pred =
     act_bind (generation_context ctx (active s)) (\<lambda>active_ctx.
     act_bind (generation_context ctx pred) (\<lambda>predecessor_ctx.
     act_bind (committed_payload env (executable_path active_ctx)) (\<lambda>successor.
     act_bind (committed_payload env (executable_path predecessor_ctx)) (\<lambda>prior.
     act_bind (read_installed env ctx) (\<lambda>installed.
       case (successor, prior, installed) of
         (None, _, _) \<Rightarrow> act_raise (install_error ''retained rollback successor generation identity is invalid'')
       | (_, None, _) \<Rightarrow> act_raise (install_error ''retained rollback predecessor generation identity is invalid'')
       | (_, _, None) \<Rightarrow> act_raise (install_error ''retained rollback installed binding is invalid'')
       | (Some x, Some y, Some d) \<Rightarrow>
           if jget d ''transaction_id'' \<noteq> JStr (active s) \<or> jget d ''version'' \<noteq> JStr (lp_release x)
              \<or> jget d ''receipt_sha256'' \<noteq> JStr (lp_receipt_sha256 x) \<or> jget d ''command'' \<noteq> JStr (command ctx)
           then act_raise (install_error ''retained rollback installed binding is invalid'')
           else act_return \<lparr>rr_root = payload_path predecessor_ctx, rr_predecessor = y, rr_successor = x\<rparr>)))))"

definition load_retained_or_none :: "lifecycle_env \<Rightarrow> runtime_context \<Rightarrow> retained_rollback option io" where
  "load_retained_or_none env ctx =
     act_bind (read_selection env ctx) (\<lambda>selection.
     act_then (require_closed_generation_store ctx selection)
       (case selection of
          None \<Rightarrow> act_return None
        | Some s \<Rightarrow> (case predecessor s of
                       None \<Rightarrow> act_return None
                     | Some p \<Rightarrow> act_bind (load_selected env ctx s p) (\<lambda>r. act_return (Some r)))))"

definition load_retained :: "lifecycle_env \<Rightarrow> runtime_context \<Rightarrow> retained_rollback io" where
  "load_retained env ctx =
     act_bind (load_retained_or_none env ctx) (\<lambda>r.
       case r of
         None \<Rightarrow> act_raise (install_error ''retained rollback predecessor is unavailable'')
       | Some x \<Rightarrow> act_return x)"

definition remove_retained :: "lifecycle_env \<Rightarrow> runtime_context \<Rightarrow> unit io" where
  "remove_retained env ctx =
     act_bind (read_selection env ctx) (\<lambda>selection.
     act_then (require_closed_generation_store ctx selection)
       (case selection of
          None \<Rightarrow> act_return ()
        | Some s \<Rightarrow> (case predecessor s of
                       None \<Rightarrow> act_return ()
                     | Some p \<Rightarrow>
                         act_then (select_generation env ctx \<lparr>active = active s, predecessor = None\<rparr>)
                           (prune ctx \<lparr>active = active s, predecessor = None\<rparr>))))"

text \<open>The state of the retained predecessor, the two releases when it is available, and what is wrong when it is not valid.\<close>

record retained_evidence =
  re_state :: string
  re_from :: "string option"
  re_to :: "string option"
  re_detail :: "string option"

definition retained_status :: "lifecycle_env \<Rightarrow> runtime_context \<Rightarrow> retained_evidence io" where
  "retained_status env ctx =
     act_catch
       (act_bind (load_retained_or_none env ctx) (\<lambda>r.
          act_return (case r of
            None \<Rightarrow> \<lparr>re_state = ''unavailable'', re_from = None, re_to = None, re_detail = None\<rparr>
          | Some x \<Rightarrow> \<lparr>re_state = ''available'', re_from = Some (lp_release (rr_successor x)),
                       re_to = Some (lp_release (rr_predecessor x)), re_detail = None\<rparr>)))
       (\<lambda>e. if is_install_error e
            then Some (act_return \<lparr>re_state = ''invalid'', re_from = None, re_to = None, re_detail = Some (error_text e)\<rparr>) else None)"

end
