(* ===== verification/Payload.thy ===== *)
theory Payload
  imports Registry Generation
begin

text \<open>
  \<open>lifecycle/projection.py\<close>, \<open>lifecycle/candidate.py\<close> and the writing side of \<open>lifecycle/runtime_spec.py\<close>: the
  manifest of a payload, its verification and removal, and the materialization of a candidate.
\<close>

section \<open>The manifest\<close>

definition PAYLOAD_MANIFEST_SCHEMA_VERSION :: int where
  "PAYLOAD_MANIFEST_SCHEMA_VERSION = 2"

definition payload_manifest_path :: "runtime_context \<Rightarrow> path" where
  "payload_manifest_path ctx = payload_path ctx @ [MANIFEST_FILENAME]"

definition manifest_serving_payload_sha256 :: "lifecycle_env \<Rightarrow> string dict \<Rightarrow> string res" where
  "manifest_serving_payload_sha256 env file_digests =
     (case validated_serving_payload_sha256 (lpy env) file_digests of
        Inl (ValueError m) \<Rightarrow> Inl (install_error m)
      | r \<Rightarrow> r)"

definition digest_object :: "string dict \<Rightarrow> json" where
  "digest_object ds = JObj (map (\<lambda>p. (fst p, JStr (snd p))) ds)"

definition manifest_for_digests :: "lifecycle_env \<Rightarrow> string \<Rightarrow> string dict \<Rightarrow> string \<Rightarrow> jdict res" where
  "manifest_for_digests env version file_digests receipt_sha256 =
     res_bind (manifest_serving_payload_sha256 env file_digests) (\<lambda>aggregate.
       Inr [(''schema_version'', JInt PAYLOAD_MANIFEST_SCHEMA_VERSION), (''release'', JStr version),
            (''files'', digest_object file_digests), (''serving_files'', digest_object file_digests),
            (''serving_payload_sha256'', JStr aggregate), (''release_receipt_sha256'', JStr receipt_sha256)])"

text \<open>\<open>json.dumps(v, indent=2)\<close> at one depth of nesting.\<close>

definition new_line :: "nat \<Rightarrow> string" where
  "new_line n = CHR 10 # replicate (2 * n) (CHR '' '')"

definition wrapped :: "nat \<Rightarrow> string \<Rightarrow> string \<Rightarrow> string list \<Rightarrow> string" where
  "wrapped n left right parts =
     (if parts = [] then left @ right
      else left @ new_line (Suc n) @ concat (map (\<lambda>s. s @ '','' @ new_line (Suc n)) (butlast parts))
           @ last parts @ new_line n @ right)"

fun pretty_text :: "nat \<Rightarrow> json \<Rightarrow> string" where
  "pretty_text n (JArr xs) = wrapped n ''['' '']'' (map (pretty_text (Suc n)) xs)"
| "pretty_text n (JObj d) =
     wrapped n ''{'' ''}'' (map (\<lambda>p. json_text True (JStr (fst p)) @ '': '' @ pretty_text (Suc n) (snd p)) d)"
| "pretty_text n v = json_text True v"

definition manifest_bytes :: "jdict \<Rightarrow> bytes" where
  "manifest_bytes manifest = pretty_text 0 (sort_json (JObj manifest)) @ [CHR 10]"

section \<open>Verification\<close>

definition unless :: "bool \<Rightarrow> string \<Rightarrow> (bool \<times> string) io \<Rightarrow> (bool \<times> string) io" where
  "unless bad message m = (if bad then act_return (False, message) else m)"

definition json_digests :: "(string \<times> json) list \<Rightarrow> string dict" where
  "json_digests d = List.map_filter (\<lambda>(k, v). map_option (Pair k) (as_str v)) d"

text \<open>Every listed file has its digest; the first that has not is reported.\<close>

fun files_verified :: "lifecycle_env \<Rightarrow> path \<Rightarrow> (string \<times> json) list \<Rightarrow> string option io" where
  "files_verified env root [] = act_return None"
| "files_verified env root ((relative, expected) # files) =
     (case expected of
        JStr d \<Rightarrow>
          if length d \<noteq> 64 then act_return (Some (''invalid digest: '' @ relative))
          else act_catch
                 (act_bind (sha256_file env (root @ path_of relative)) (\<lambda>actual.
                    if actual \<noteq> d then act_return (Some (''hash mismatch: '' @ relative))
                    else files_verified env root files))
                 (\<lambda>e. if is_os_failure e
                      then Some (act_return (Some (''installed payload file is unavailable: '' @ relative))) else None)
      | _ \<Rightarrow> act_return (Some (''invalid digest: '' @ relative)))"

definition receipt_verified :: "lifecycle_env \<Rightarrow> path \<Rightarrow> json \<Rightarrow> string \<Rightarrow> (bool \<times> string) io" where
  "receipt_verified env root receipt message =
     (case receipt of
        JNull \<Rightarrow> act_return (True, message)
      | JStr d \<Rightarrow>
          if length d \<noteq> 64 then act_return (False, ''release receipt digest is invalid'')
          else act_catch
                 (act_bind (sha256_file env (root @ [RELEASE_RECEIPT_FILENAME])) (\<lambda>actual.
                    act_return (if actual \<noteq> d then (False, ''release receipt digest mismatch'') else (True, message))))
                 (\<lambda>e. if is_os_failure e then Some (act_return (False, ''installed release receipt is unavailable'')) else None)
      | _ \<Rightarrow> act_return (False, ''release receipt digest is invalid''))"

definition same_names :: "(string \<times> json) list \<Rightarrow> (string \<times> json) list \<Rightarrow> bool" where
  "same_names a b \<longleftrightarrow> sort (map fst a) = sort (map fst b)"

definition verify_manifest :: "lifecycle_env \<Rightarrow> path \<Rightarrow> jdict \<Rightarrow> (bool \<times> string) io" where
  "verify_manifest env root manifest =
     (case (jget manifest ''release'', jget manifest ''files'', jget manifest ''serving_files'',
            jget manifest ''serving_payload_sha256'') of
        (JStr release, JObj files, JObj serving, JStr aggregate) \<Rightarrow>
          unless (release = [] \<or> files = [] \<or> serving = []) ''manifest is incomplete''
            (case declared_files manifest of
               Inl e \<Rightarrow> act_return (False, error_text e)
             | Inr expected \<Rightarrow>
                 unless (\<not> runtime_file_set (executable_name True \<in> set expected) expected) ''manifest file set mismatch''
                (unless (\<not> same_names serving files) ''manifest serving file set mismatch''
                (act_bind (files_verified env root files) (\<lambda>failure.
                   case failure of
                     Some m \<Rightarrow> act_return (False, m)
                   | None \<Rightarrow>
                       (case find (\<lambda>(k, v). jget files k \<noteq> v) serving of
                          Some (k, v) \<Rightarrow> act_return (False, ''serving digest mismatch: '' @ k)
                        | None \<Rightarrow>
                            (case manifest_serving_payload_sha256 env (json_digests serving) of
                               Inl (InstallError c m) \<Rightarrow> act_return (False, m)
                             | Inl e \<Rightarrow> act_raise e
                             | Inr actual \<Rightarrow>
                                 unless (aggregate \<noteq> actual) ''serving payload aggregate mismatch''
                                   (receipt_verified env root (jget manifest ''release_receipt_sha256'')
                                      (''release '' @ release @ ''; '' @ nat_text (length files) @ '' files verified''))))))))
      | _ \<Rightarrow> act_return (False, ''manifest is incomplete''))"

text \<open>
  \<open>verify_payload_manifest\<close>: a document that is not UTF-8 raises \<open>UnicodeDecodeError\<close>, which the clause for
  unreadable manifests does not name.
\<close>

definition verify_payload_manifest :: "lifecycle_env \<Rightarrow> runtime_context \<Rightarrow> (bool \<times> string) io" where
  "verify_payload_manifest env ctx =
     act_bind (act_catch (act_bind (read_bytes (payload_manifest_path ctx)) (\<lambda>content.
                          act_bind (act_lift (loads (lpy env) content)) (\<lambda>v. act_return (Some v))))
                 (\<lambda>e. if is_read_failure e \<and> e \<noteq> UnicodeError then Some (act_return None) else None)) (\<lambda>doc.
       case doc of
         None \<Rightarrow> act_return (False, ''installed payload manifest is unavailable'')
       | Some (JObj manifest) \<Rightarrow>
           unless (\<not> equals_number (jget manifest ''schema_version'') PAYLOAD_MANIFEST_SCHEMA_VERSION)
             ''manifest schema is unsupported'' (verify_manifest env (payload_path ctx) manifest)
       | Some _ \<Rightarrow> act_return (False, ''manifest schema is unsupported''))"

section \<open>Removal\<close>

fun file_digests :: "lifecycle_env \<Rightarrow> path \<Rightarrow> string list \<Rightarrow> string dict io" where
  "file_digests env root [] = act_return []"
| "file_digests env root (relative # files) =
     act_bind (regular_file root relative ''installed payload purge'') (\<lambda>target.
     act_bind (sha256_file env target) (\<lambda>d.
     act_bind (file_digests env root files) (\<lambda>ds. act_return ((relative, d) # ds))))"

definition owned_payload_files :: "lifecycle_env \<Rightarrow> runtime_context \<Rightarrow> string dict io" where
  "owned_payload_files env ctx =
     (let manifest_path = payload_manifest_path ctx in
      act_then (with_fs (\<lambda>fs.
         if is_symlink fs manifest_path then act_raise (install_error ''installed payload manifest is a symlink'')
         else fail_if (\<not> exists_at fs manifest_path) (install_error ''installed payload manifest is required'')))
     (act_bind (verify_payload_manifest env ctx) (\<lambda>(ok, detail).
      act_then (fail_if (\<not> ok) (install_error (''installed payload integrity check failed: '' @ detail)))
     (act_bind (read_json_object env manifest_path ''installed payload manifest'') (\<lambda>manifest.
      act_bind (act_lift (declared_files manifest)) (\<lambda>files.
        file_digests env (payload_path ctx) (sort (remdups (files @ OWNED_PAYLOAD_METADATA)))))))))"

text \<open>The listed files that are still there, each with the bytes the inventory records.\<close>

fun purge_remaining :: "lifecycle_env \<Rightarrow> path \<Rightarrow> string dict \<Rightarrow> string list io" where
  "purge_remaining env root [] = act_return []"
| "purge_remaining env root ((relative, expected) # files) =
     act_bind (act_lift (canonical_relative relative ''payload purge'')) (\<lambda>rel. with_fs (\<lambda>fs.
       if \<not> present fs (owned_path root rel) then purge_remaining env root files
       else act_bind (regular_file root relative ''installed payload purge'') (\<lambda>target.
            act_bind (sha256_file env target) (\<lambda>actual.
              if actual \<noteq> expected
              then act_raise (install_error (''installed payload purge identity changed: '' @ relative))
              else act_bind (purge_remaining env root files) (\<lambda>rest. act_return (relative # rest))))))"

definition removal_order :: "string list \<Rightarrow> string list" where
  "removal_order files = rev (sort_key (\<lambda>f. length (path_of f)) (rev (sort files)))"

definition owned_directories :: "string list \<Rightarrow> path list" where
  "owned_directories files =
     rev (sort_key length (remdups (concat (map (\<lambda>f. filter (\<lambda>q. q \<noteq> [] \<and> q \<noteq> path_of f) (prefixes (path_of f))) files))))"

definition remove_empty_directory :: "path \<Rightarrow> path \<Rightarrow> unit io" where
  "remove_empty_directory root relative =
     (let directory = root @ relative in
      with_fs (\<lambda>fs.
        if is_symlink fs directory \<or> \<not> exists_at fs directory then act_return ()
        else if \<not> is_dir fs directory
        then act_raise (install_error (''installed payload directory changed type: '' @ join_on (CHR ''/'') relative))
        else act_catch (rmdir directory) (\<lambda>e. if is_os_failure e then Some (act_return ()) else None)))"

definition remaining_paths :: "path \<Rightarrow> string list io" where
  "remaining_paths root =
     with_fs (\<lambda>fs.
       if \<not> exists_at fs root then act_return []
       else if is_symlink fs root \<or> \<not> is_dir fs root
       then act_raise (install_error ''installed payload root is not a real directory'')
       else (case entry fs root of
               None \<Rightarrow> act_raise (install_error ''installed payload residue inventory failed'')
             | Some place \<Rightarrow>
                 let remaining = sort (map (\<lambda>q. join_on (CHR ''/'') (drop (length place) q)) (below fs place))
                 in if remaining = []
                    then act_then (raising is_os_failure (install_error ''empty installed payload root removal failed'') (rmdir root))
                           (act_return [])
                    else act_return remaining))"

definition purge_owned_files :: "lifecycle_env \<Rightarrow> path \<Rightarrow> string dict \<Rightarrow> string list io" where
  "purge_owned_files env root files =
     act_then (with_fs (\<lambda>fs. fail_if (is_symlink fs root \<or> exists_at fs root \<and> \<not> is_dir fs root)
                 (install_error ''installed payload root is not a real directory'')))
    (act_bind (purge_remaining env root files) (\<lambda>remaining.
     act_then (act_each (\<lambda>relative. raising is_os_failure (install_error (''installed payload purge failed: '' @ relative))
                                     (unlink False (owned_path root relative)))
                 (removal_order remaining))
    (act_then (act_each (remove_empty_directory root) (owned_directories (map fst files)))
    (act_then (with_fs (\<lambda>fs. fail_if (list_ex (\<lambda>p. present fs (owned_path root (fst p))) files)
                 (install_error ''installed payload remains after purge'')))
       (remaining_paths root)))))"

section \<open>A candidate\<close>

record artifact_file =
  af_path :: string
  af_mode :: string
  af_blob_oid :: string
  af_content :: bytes
  af_sha256 :: string

definition manifest_for :: "lifecycle_env \<Rightarrow> string \<Rightarrow> artifact_file list \<Rightarrow> string \<Rightarrow> jdict res" where
  "manifest_for env version blobs receipt_sha256 =
     manifest_for_digests env version
       (foldl (\<lambda>d b. AList.update (af_path b) (af_sha256 b) d) [] blobs) receipt_sha256"

definition validate_blob :: "lifecycle_env \<Rightarrow> artifact_file \<Rightarrow> unit res" where
  "validate_blob env b =
     (if af_mode b \<notin> {''100644'', ''100755''} then Inl (install_error (''released payload mode is invalid: '' @ af_path b))
      else if sha256_hex (lpy env) (af_content b) \<noteq> af_sha256 b
      then Inl (install_error (''released payload digest mismatch: '' @ af_path b))
      else Inr ())"

definition validate_candidate :: "lifecycle_env \<Rightarrow> artifact_file list \<Rightarrow> string \<Rightarrow> string \<Rightarrow> jdict \<Rightarrow> unit res" where
  "validate_candidate env blobs version receipt_sha256 receipt =
     (let paths = map af_path blobs in
      if \<not> strict_version version then Inl (install_error ''released payload version is invalid'')
      else if length receipt_sha256 \<noteq> 64 then Inl (install_error ''released payload receipt digest is invalid'')
      else if jget receipt ''version'' \<noteq> JStr version then Inl (install_error ''released payload receipt version mismatch'')
      else if \<not> distinct paths \<or> \<not> runtime_file_set (executable_name True \<in> set paths) paths
      then Inl (install_error ''released payload file set mismatch'')
      else res_bind (res_map (validate_blob env) blobs) (\<lambda>_.
           res_bind (manifest_for env version blobs receipt_sha256) (\<lambda>manifest.
             if jget receipt ''serving_files'' \<noteq> JArr (map JStr paths)
             then Inl (install_error ''released payload serving file set mismatch'')
             else if jget receipt ''serving_payload_sha256'' \<noteq> jget manifest ''serving_payload_sha256''
             then Inl (install_error ''released payload serving identity mismatch'')
             else Inr ())))"

definition reject_unowned_collisions :: "runtime_context \<Rightarrow> string list \<Rightarrow> string list \<Rightarrow> unit io" where
  "reject_unowned_collisions ctx previous_owned candidate_paths =
     with_fs (\<lambda>fs.
       case find (\<lambda>relative. relative \<notin> set previous_owned \<and> present fs (owned_path (payload_path ctx) relative))
              (candidate_paths @ OWNED_PAYLOAD_METADATA) of
         Some relative \<Rightarrow> act_raise (install_error (''candidate unowned collision: '' @ relative))
       | None \<Rightarrow> act_return ())"

definition write_blob :: "lifecycle_env \<Rightarrow> path \<Rightarrow> artifact_file \<Rightarrow> unit io" where
  "write_blob env root b =
     (let target = owned_path root (af_path b) in
      act_then (write_bytes env target (af_content b) (Some root))
        (act_bind (sha256_file env target) (\<lambda>actual.
           fail_if (actual \<noteq> af_sha256 b) (install_error (''installed payload digest mismatch: '' @ af_path b)))))"

definition write_projection ::
    "lifecycle_env \<Rightarrow> runtime_context \<Rightarrow> artifact_file list \<Rightarrow> string \<Rightarrow> jdict \<Rightarrow> string \<Rightarrow> unit io" where
  "write_projection env ctx blobs version receipt receipt_sha256 =
     (let root = payload_path ctx in
      act_then (act_each (write_blob env root) blobs)
     (act_bind (act_lift (manifest_for env version blobs receipt_sha256)) (\<lambda>manifest.
      act_then (write_bytes env (root @ [MANIFEST_FILENAME]) (manifest_bytes manifest) (Some root))
     (act_bind (act_lift (canonical_json (lpy env) (JObj receipt))) (\<lambda>content.
        write_bytes env (root @ [RELEASE_RECEIPT_FILENAME]) content (Some root))))))"

definition prewarm :: "lifecycle_env \<Rightarrow> runtime_context \<Rightarrow> unit io" where
  "prewarm env ctx =
     with_fs (\<lambda>fs. fail_if (\<not> prewarm_ok env (executable_path ctx) fs) (install_error ''native bundle prewarm failed''))"

text \<open>\<open>runtime_spec.write\<close>.\<close>

definition runtime_document :: "runtime_context \<Rightarrow> jdict" where
  "runtime_document ctx =
     [(''schema_version'', JInt 1), (''install_dir'', JStr (install_dir ctx)), (''log_dir'', JStr (log_dir ctx)),
      (''port'', JInt (port ctx)), (''proxy_log_max_bytes'', JInt (proxy_log_max_bytes ctx)),
      (''proxy_log_backup_count'', JInt (proxy_log_backup_count ctx)),
      (''watchdog_log_max_bytes'', JInt (watchdog_log_max_bytes ctx)),
      (''watchdog_log_backup_count'', JInt (watchdog_log_backup_count ctx)),
      (''upstream_timeout'', JFloat (upstream_timeout ctx)),
      (''upstream_read_timeout'', JFloat (upstream_read_timeout ctx)),
      (''watchdog_interval'', JFloat (watchdog_interval ctx)),
      (''watchdog_max_backoff'', JFloat (watchdog_max_backoff ctx)),
      (''response_failed_compaction_budget'', JInt (response_failed_compaction_budget ctx)),
      (''response_failed_max_stages'', JInt (response_failed_max_stages ctx))]"

definition write_runtime_spec :: "lifecycle_env \<Rightarrow> runtime_context \<Rightarrow> unit io" where
  "write_runtime_spec env ctx =
     (let root = payload_path ctx in
      act_bind (if upstream_base_url ctx = [] then act_return []
                else act_bind (act_lift (normalize_upstream (lpy env) (upstream_base_url ctx))) (\<lambda>u.
                       act_return [(''upstream_base_url'', JStr u)])) (\<lambda>upstream.
      act_bind (act_lift (canonical_json (lpy env) (JObj (runtime_document ctx @ upstream)))) (\<lambda>content.
        write_bytes env (root @ [RUNTIME_CONFIG_FILENAME]) content (Some root))))"

end
