(* ===== verification/Command.thy ===== *)
theory Command
  imports Owned_Files Payload_Identity
begin

text \<open>
  \<open>lifecycle/command.py\<close>: the user's command as a link to the installed executable, what owns it, and the
  operations that expose, detach, restore and remove it.
\<close>

record command_snapshot =
  sn_state :: string
  sn_path :: string
  sn_target :: string
  sn_kind :: string
  sn_device :: int
  sn_inode :: int

text \<open>\<open>windows_launcher\<close>: every percent sign of the target is doubled.\<close>

definition windows_launcher :: "path \<Rightarrow> bytes" where
  "windows_launcher target =
     ''@echo off'' @ [CHR 13, CHR 10, CHR 64, CHR 34]
     @ concat (map (\<lambda>c. if c = CHR ''%'' then ''%%'' else [c]) (path_text target))
     @ [CHR 34] @ '' %*'' @ [CHR 13, CHR 10]"

text \<open>\<open>path.suffix.casefold() == ".cmd"\<close>.\<close>

definition is_launcher_path :: "path \<Rightarrow> bool" where
  "is_launcher_path p \<longleftrightarrow>
     (let s = lower (path_name p); n = length s in n > 4 \<and> drop (n - 4) s = ''.cmd'')"

fun node_inode :: "node option \<Rightarrow> int" where
  "node_inode (Some (Regular i c)) = int i"
| "node_inode (Some (Symlink i t)) = int i"
| "node_inode _ = 0"

text \<open>\<open>_classify\<close>: the state of the command path and the kind of link that owns it.\<close>

definition classify_command :: "nodes \<Rightarrow> path \<Rightarrow> path \<Rightarrow> string \<times> string" where
  "classify_command fs cmd target =
     (if \<not> lexists fs cmd then (''absent'', [])
      else if is_symlink fs cmd
      then (if resolved fs cmd = resolved fs target then (''owned'', ''symlink'') else (''foreign'', []))
      else (case stat fs cmd of
              Some (Regular i c) \<Rightarrow>
                if is_launcher_path cmd \<and> c = windows_launcher target then (''owned'', ''launcher'')
                else if is_file fs target \<and> node_inode (stat fs target) = int i then (''owned'', ''hardlink'')
                else (''foreign'', [])
            | _ \<Rightarrow> (''foreign'', [])))"

definition matches_snapshot :: "lifecycle_env \<Rightarrow> nodes \<Rightarrow> path \<Rightarrow> command_snapshot \<Rightarrow> bool" where
  "matches_snapshot env fs cmd s \<longleftrightarrow>
     sn_state s = ''owned'' \<and> path_of (sn_path s) = cmd \<and> lexists fs cmd
     \<and> st_dev env = sn_device s \<and> node_inode (lstat fs cmd) = sn_inode s
     \<and> classify_command fs cmd (path_of (sn_target s)) = (''owned'', sn_kind s)"

abbreviation occupied :: py_exc where
  "occupied \<equiv> install_error ''command path is occupied by another owner''"

abbreviation changed_owner :: py_exc where
  "changed_owner \<equiv> install_error ''command path changed ownership''"

abbreviation removal_failed :: py_exc where
  "removal_failed \<equiv> install_error ''native command removal failed''"

definition snapshot_command :: "lifecycle_env \<Rightarrow> path \<Rightarrow> path \<Rightarrow> command_snapshot io" where
  "snapshot_command env cmd target =
     with_fs (\<lambda>fs.
       case classify_command fs cmd target of (state, kind) \<Rightarrow>
         if state = ''foreign'' then act_raise occupied
         else if state = ''absent''
         then act_return \<lparr>sn_state = ''absent'', sn_path = path_text cmd, sn_target = path_text target,
                          sn_kind = [], sn_device = 0, sn_inode = 0\<rparr>
         else act_return \<lparr>sn_state = ''owned'', sn_path = path_text cmd, sn_target = path_text target,
                          sn_kind = kind, sn_device = st_dev env, sn_inode = node_inode (lstat fs cmd)\<rparr>)"

definition SNAPSHOT_FILENAME :: string where
  "SNAPSHOT_FILENAME = ''command.json''"

definition SNAPSHOT_SCHEMA :: int where
  "SNAPSHOT_SCHEMA = 2"

definition snapshot_json :: "command_snapshot \<Rightarrow> jdict" where
  "snapshot_json s =
     [(''schema_version'', JInt SNAPSHOT_SCHEMA), (''state'', JStr (sn_state s)), (''path'', JStr (sn_path s)),
      (''target'', JStr (sn_target s)), (''kind'', JStr (sn_kind s)), (''device'', JInt (sn_device s)),
      (''inode'', JInt (sn_inode s))]"

definition write_snapshot :: "lifecycle_env \<Rightarrow> path \<Rightarrow> command_snapshot \<Rightarrow> unit io" where
  "write_snapshot env root s =
     act_bind (act_lift (canonical_json (lpy env) (JObj (snapshot_json s)))) (\<lambda>content.
       write_bytes env (root @ [SNAPSHOT_FILENAME]) content None)"

definition absolute_text :: "string \<Rightarrow> bool" where
  "absolute_text s \<longleftrightarrow> s \<noteq> [] \<and> is_absolute s"

definition snapshot_of :: "jdict \<Rightarrow> command_snapshot res" where
  "snapshot_of d =
     (let bad = Inl (InstallError Install_failed ''command snapshot is invalid'') in
      if \<not> equals_number (jget d ''schema_version'') SNAPSHOT_SCHEMA then bad
      else (case (jget d ''state'', jget d ''path'', jget d ''target'', jget d ''kind'', jget d ''device'', jget d ''inode'') of
              (JStr state, JStr p, JStr target, JStr kind, JInt device, JInt inode) \<Rightarrow>
                if state \<notin> {''absent'', ''owned''} \<or> \<not> absolute_text p \<or> \<not> absolute_text target
                   \<or> kind \<notin> {[], ''symlink'', ''hardlink'', ''launcher''}
                   \<or> state = ''absent'' \<and> (kind \<noteq> [] \<or> device \<noteq> 0 \<or> inode \<noteq> 0)
                   \<or> state = ''owned'' \<and> (kind = [] \<or> device = 0 \<or> inode = 0)
                then bad
                else Inr \<lparr>sn_state = state, sn_path = p, sn_target = target, sn_kind = kind,
                          sn_device = device, sn_inode = inode\<rparr>
            | _ \<Rightarrow> bad))"

definition read_snapshot :: "lifecycle_env \<Rightarrow> path \<Rightarrow> command_snapshot io" where
  "read_snapshot env root =
     act_bind (read_canonical_json env (root @ [SNAPSHOT_FILENAME]) ''command snapshot'') (\<lambda>d. act_lift (snapshot_of d))"

section \<open>Changing the command\<close>

definition remove_snapshot :: "lifecycle_env \<Rightarrow> path \<Rightarrow> command_snapshot \<Rightarrow> unit io" where
  "remove_snapshot env cmd s =
     with_fs (\<lambda>fs.
       if \<not> matches_snapshot env fs cmd s then act_raise changed_owner
       else raising is_os_failure removal_failed (unlink False cmd))"

text \<open>\<open>temporary.write_bytes(\<dots>)\<close>, for a name that is new.\<close>

definition write_new :: "path \<Rightarrow> bytes \<Rightarrow> unit io" where
  "write_new p content = act_then (open_exclusive p) (write_content p content)"

definition restore_snapshot :: "lifecycle_env \<Rightarrow> path \<Rightarrow> path \<Rightarrow> command_snapshot \<Rightarrow> unit io" where
  "restore_snapshot env cmd target s =
     act_then (mkdir_parents (butlast cmd))
       (act_bind new_identifier (\<lambda>n.
        let temporary = temporary_name env cmd n in
        act_ensure
          (raising is_os_failure (install_error ''native command restoration failed'')
            (act_then
               (if sn_kind s = ''launcher'' then write_new temporary (windows_launcher target)
                else if sn_kind s = ''hardlink'' then hard_link target temporary
                else if sn_kind s = ''symlink'' then symlink target temporary
                else act_raise (install_error ''command snapshot kind is invalid''))
               (replace temporary cmd)))
          (unlink True temporary)))"

text \<open>Whether the snapshot records another path than the command's own.\<close>

definition moved :: "path \<Rightarrow> command_snapshot option \<Rightarrow> command_snapshot option" where
  "moved cmd previous =
     (case previous of
        Some s \<Rightarrow> if path_of (sn_path s) \<noteq> cmd \<and> sn_state s = ''owned'' then Some s else None
      | None \<Rightarrow> None)"

definition expose :: "lifecycle_env \<Rightarrow> path \<Rightarrow> path \<Rightarrow> command_snapshot option \<Rightarrow> unit io" where
  "expose env cmd target previous =
     act_then (mkdir_parents (butlast cmd))
       (act_bind new_identifier (\<lambda>n.
        let temporary = temporary_name env cmd n in
        act_ensure
          (act_catch
            (act_then (if is_launcher_path cmd then write_new temporary (windows_launcher target)
                       else symlink target temporary)
                      (replace temporary cmd))
            (\<lambda>e. if is_os_failure e
                 then Some (act_then (case moved cmd previous of
                                        Some s \<Rightarrow> restore_snapshot env (path_of (sn_path s)) (path_of (sn_target s)) s
                                      | None \<Rightarrow> act_return ())
                             (act_raise (install_error ''native command projection failed'')))
                 else None))
          (unlink True temporary)))"

definition project :: "lifecycle_env \<Rightarrow> path \<Rightarrow> path \<Rightarrow> command_snapshot option \<Rightarrow> unit io" where
  "project env cmd target previous =
     act_then (with_fs (\<lambda>fs. fail_if (is_symlink fs target \<or> \<not> is_file fs target)
                (install_error ''installed command target is not a regular file'')))
    (act_then (case moved cmd previous of
                 Some s \<Rightarrow> remove_snapshot env (path_of (sn_path s)) s
               | None \<Rightarrow> act_return ())
    (with_fs (\<lambda>fs.
       let state = fst (classify_command fs cmd target) in
       if state = ''owned'' then act_return ()
       else if state = ''foreign'' \<and> \<not> (case previous of Some s \<Rightarrow> matches_snapshot env fs cmd s | None \<Rightarrow> False)
       then act_raise occupied
       else act_then (expose env cmd target previous)
              (with_fs (\<lambda>fs'. fail_if (fst (classify_command fs' cmd target) \<noteq> ''owned'')
                 (install_error ''native command projection ownership is unproved''))))))"

definition detach :: "lifecycle_env \<Rightarrow> path \<Rightarrow> path \<Rightarrow> command_snapshot \<Rightarrow> unit io" where
  "detach env cmd target previous =
     with_fs (\<lambda>fs.
       let state = fst (classify_command fs cmd target) in
       if state = ''absent'' then act_return ()
       else if state = ''foreign'' \<and> \<not> matches_snapshot env fs cmd previous then act_raise changed_owner
       else raising is_os_failure removal_failed (unlink False cmd))"

definition restore :: "lifecycle_env \<Rightarrow> path \<Rightarrow> path \<Rightarrow> command_snapshot \<Rightarrow> unit io" where
  "restore env cmd target previous =
     (let previous_path = path_of (sn_path previous) in
      with_fs (\<lambda>fs.
        if sn_state previous = ''owned'' \<and> matches_snapshot env fs previous_path previous then act_return ()
        else
          let state = fst (classify_command fs cmd target) in
          if state = ''foreign'' then act_raise changed_owner
          else act_then (if state = ''owned'' then unlink False cmd else act_return ())
                 (if sn_state previous = ''owned''
                  then restore_snapshot env previous_path (path_of (sn_target previous)) previous
                  else act_return ())))"

definition remove_command :: "path \<Rightarrow> path \<Rightarrow> bool io" where
  "remove_command cmd target =
     with_fs (\<lambda>fs.
       let state = fst (classify_command fs cmd target) in
       if state = ''absent'' then act_return False
       else if state = ''foreign'' then act_raise changed_owner
       else act_then (raising is_os_failure removal_failed (unlink False cmd)) (act_return True))"

definition command_state :: "nodes \<Rightarrow> path \<Rightarrow> path \<Rightarrow> jdict" where
  "command_state fs cmd target =
     (case classify_command fs cmd target of (state, kind) \<Rightarrow>
        [(''state'', JStr state), (''kind'', if kind = [] then JNull else JStr kind), (''path'', JStr (path_text cmd))])"

end
