(* ===== verification/Transaction.thy ===== *)
theory Transaction
  imports Payload Command
begin

text \<open>
  \<open>lifecycle/transaction.py\<close>: one payload transaction as a journaled sequence of durable effects, from
  its preparation to its terminal journal and cleanup, the recovery of one that was interrupted, and the
  removal of an installation.
\<close>

section \<open>The journal's fields\<close>

definition field_text :: "jdict \<Rightarrow> string \<Rightarrow> string" where
  "field_text journal k = (case jget journal k of JStr s \<Rightarrow> s | _ \<Rightarrow> ''None'')"

definition field_option :: "jdict \<Rightarrow> string \<Rightarrow> string option" where
  "field_option journal k = as_str (jget journal k)"

definition recovery_state :: "string \<Rightarrow> py_exc" where
  "recovery_state m = InstallError Recovery_state m"

text \<open>\<open>except errors.InstallError as exc: raise errors.RecoveryStateError(str(exc))\<close>.\<close>

definition as_recovery_state :: "'a io \<Rightarrow> 'a io" where
  "as_recovery_state m =
     act_catch m (\<lambda>e. if is_install_error e then Some (act_raise (recovery_state (error_text e))) else None)"

definition rollback_root :: "runtime_context \<Rightarrow> path" where
  "rollback_root ctx = transaction_root ctx @ [''rollback'']"

definition prior_selection :: "jdict \<Rightarrow> payload_selection option" where
  "prior_selection journal =
     (case field_option journal ''previous_generation'' of
        None \<Rightarrow> None
      | Some g \<Rightarrow> Some \<lparr>active = g, predecessor = field_option journal ''previous_predecessor''\<rparr>)"

definition reuses_retained_generation :: "jdict \<Rightarrow> bool" where
  "reuses_retained_generation journal \<longleftrightarrow> jget journal ''transaction_id'' = jget journal ''previous_predecessor''"

definition journal_facts_of :: "jdict \<Rightarrow> journal_facts" where
  "journal_facts_of journal =
     \<lparr>jf_transaction = field_text journal ''transaction_id'', jf_version = field_text journal ''version'',
      jf_receipt = field_text journal ''receipt_sha256'', jf_fresh = truthy (jget journal ''fresh''),
      jf_generation = field_option journal ''previous_generation'',
      jf_predecessor = field_option journal ''previous_predecessor''\<rparr>"

section \<open>Closing a transaction\<close>

definition remove_transaction_root :: "runtime_context \<Rightarrow> unit io" where
  "remove_transaction_root ctx =
     (let root = transaction_root ctx in
      with_fs (\<lambda>fs.
        if \<not> exists_at fs root then act_return ()
        else act_then (raising is_os_failure (install_error ''payload transaction cleanup failed'') (rmtree root))
               (with_fs (\<lambda>fs'. fail_if (exists_at fs' root)
                  (install_error ''payload transaction cleanup did not remove the transaction'')))))"

definition comma_list :: "string list \<Rightarrow> string" where
  "comma_list xs = (if xs = [] then [] else foldl (\<lambda>a b. a @ '', '' @ b) (hd xs) (tl xs))"

definition purge_files :: "lifecycle_env \<Rightarrow> runtime_context \<Rightarrow> jdict \<Rightarrow> unit io" where
  "purge_files env ctx journal =
     act_bind (act_lift (removal_files journal)) (\<lambda>files.
     act_then (case map_of files PAYLOAD_SELECTOR_FILENAME of
                 Some d \<Rightarrow> act_then (purge_owned_files env (install_path ctx) [(PAYLOAD_SELECTOR_FILENAME, d)]) (act_return ())
               | None \<Rightarrow> act_return ())
       (act_bind (purge_owned_files env (install_path ctx) files) (\<lambda>remaining.
          fail_if (remaining \<noteq> []) (install_error (''unknown install content remains: '' @ comma_list remaining)))))"

definition prune_finalized :: "lifecycle_env \<Rightarrow> runtime_context \<Rightarrow> jdict \<Rightarrow> unit io" where
  "prune_finalized env ctx journal =
     act_bind (read_selection env ctx) (\<lambda>selection.
       case selection of
         None \<Rightarrow> act_raise (recovery_state ''finalized transaction selection changed'')
       | Some s \<Rightarrow>
           if JStr (active s) \<noteq> jget journal ''transaction_id''
           then act_raise (recovery_state ''finalized transaction selection changed'')
           else prune ctx s)"

definition remove_candidate :: "lifecycle_env \<Rightarrow> runtime_context \<Rightarrow> jdict \<Rightarrow> unit io" where
  "remove_candidate env ctx journal =
     act_then (if reuses_retained_generation journal then act_return ()
               else remove_generation env ctx (field_text journal ''transaction_id''))
       (with_fs (\<lambda>fs.
          if jget journal ''fresh'' = JBool True \<and> is_dir fs (install_path ctx)
          then act_bind (iterdir (install_path ctx)) (\<lambda>entries.
                 if entries = [] then rmdir (install_path ctx) else act_return ())
          else act_return ()))"

definition dispose :: "lifecycle_env \<Rightarrow> runtime_context \<Rightarrow> jdict \<Rightarrow> unit io" where
  "dispose env ctx journal =
     (let state = jget journal ''state'' in
      if state = JStr ''purged'' then purge_files env ctx journal
      else if state = JStr ''finalized'' then prune_finalized env ctx journal
      else if state = JStr ''rolled_back'' then remove_candidate env ctx journal
      else if state = JStr ''closed'' then act_return ()
      else act_raise (recovery_state ''payload transaction is not terminal''))"

definition unlink_journal :: "runtime_context \<Rightarrow> unit io" where
  "unlink_journal ctx =
     raising is_os_failure (install_error ''payload transaction cleanup failed'') (unlink False (journal_path ctx))"

definition finish_cleanup :: "lifecycle_env \<Rightarrow> runtime_context \<Rightarrow> jdict \<Rightarrow> jdict io" where
  "finish_cleanup env ctx journal =
     act_then (dispose env ctx journal)
    (act_then (remove_transaction_root ctx)
    (act_then (unlink_journal ctx)
       (act_return [(''transaction_id'', jget journal ''transaction_id''), (''version'', jget journal ''version''),
                    (''state'', jget journal ''state'')])))"

text \<open>\<open>terminal = {\<dots> if key not in {"phase", "reason"}}\<close> with its state.\<close>

definition terminal_journal :: "jdict \<Rightarrow> string \<Rightarrow> jdict" where
  "terminal_journal journal outcome =
     AList.update ''state'' (JStr outcome) (filter (\<lambda>p. fst p \<notin> {''phase'', ''reason''}) journal)"

definition complete_transaction :: "lifecycle_env \<Rightarrow> runtime_context \<Rightarrow> jdict \<Rightarrow> string \<Rightarrow> jdict io" where
  "complete_transaction env ctx journal outcome =
     act_then (store_journal env ctx (terminal_journal journal outcome))
       (finish_cleanup env ctx (terminal_journal journal outcome))"

definition close_prepared :: "lifecycle_env \<Rightarrow> runtime_context \<Rightarrow> jdict \<Rightarrow> jdict io" where
  "close_prepared env ctx journal =
     act_bind (iterdir (transaction_root ctx)) (\<lambda>entries.
       if entries \<noteq> [] then act_raise (recovery_state ''prepared transaction contains unowned content'')
       else complete_transaction env ctx journal ''closed'')"

section \<open>Finalizing\<close>

definition retention_of :: "runtime_context \<Rightarrow> jdict \<Rightarrow> payload_selection io" where
  "retention_of ctx journal =
     (let current = field_text journal ''transaction_id'' in
      case field_option journal ''previous_generation'' of
        None \<Rightarrow> act_return \<lparr>active = current, predecessor = None\<rparr>
      | Some previous \<Rightarrow>
          if jget journal ''fresh'' = JBool True then act_return \<lparr>active = current, predecessor = None\<rparr>
          else act_bind (act_lift (generation_path ctx previous)) (\<lambda>p. with_fs (\<lambda>fs.
                 if \<not> is_dir fs p then act_raise (install_error ''predecessor payload generation is unavailable'')
                 else act_return \<lparr>active = current, predecessor = Some previous\<rparr>)))"

definition select_retention :: "lifecycle_env \<Rightarrow> runtime_context \<Rightarrow> jdict \<Rightarrow> payload_selection io" where
  "select_retention env ctx journal =
     act_catch
       (act_bind (retention_of ctx journal) (\<lambda>s. act_then (select_generation env ctx s) (act_return s)))
       (\<lambda>e. if is_install_error e
            then Some (act_then (write_journal env ctx (journal_facts_of journal) ''recovery_required''
                                   (Some ''activated'') (Some ''finalization failed''))
                         (act_raise e))
            else None)"

definition close_finalized ::
    "lifecycle_env \<Rightarrow> runtime_context \<Rightarrow> jdict \<Rightarrow> (runtime_context \<Rightarrow> unit io) option \<Rightarrow> jdict io" where
  "close_finalized env ctx journal bind_terminal =
     act_bind (select_retention env ctx journal) (\<lambda>_.
     act_then (case bind_terminal of
                 None \<Rightarrow> act_return ()
               | Some bind \<Rightarrow> act_bind (control_context env ctx) bind)
       (complete_transaction env ctx journal ''finalized''))"

definition installed_document :: "runtime_context \<Rightarrow> jdict \<Rightarrow> jdict \<Rightarrow> jdict" where
  "installed_document ctx journal runtime =
     [(''schema_version'', JInt INSTALLED_RELEASE_STATE_SCHEMA), (''version'', jget journal ''version''),
      (''receipt_sha256'', jget journal ''receipt_sha256''), (''transaction_id'', jget journal ''transaction_id''),
      (''command'', JStr (command ctx)), (''runtime'', JObj runtime)]"

definition finalize_installation ::
    "lifecycle_env \<Rightarrow> runtime_context \<Rightarrow> jdict \<Rightarrow> jdict \<Rightarrow> (runtime_context \<Rightarrow> unit io) option \<Rightarrow> jdict io" where
  "finalize_installation env ctx journal runtime bind_terminal =
     act_bind (act_lift (canonical_json (lpy env) (JObj (installed_document ctx journal runtime)))) (\<lambda>content.
     act_then (write_bytes env (installed_path ctx) content None)
       (close_finalized env ctx journal bind_terminal))"

section \<open>Restoring the prior generation\<close>

definition restore_prior_projection ::
    "lifecycle_env \<Rightarrow> runtime_context \<Rightarrow> jdict \<Rightarrow> payload_selection option \<Rightarrow> unit io" where
  "restore_prior_projection env ctx journal previous =
     act_bind (read_selection env ctx) (\<lambda>selection.
     let candidate = field_text journal ''transaction_id'';
         selected_candidate = Some \<lparr>active = candidate, predecessor = map_option active previous\<rparr> in
     if selection \<notin> {previous, selected_candidate}
     then act_raise (recovery_state ''payload transaction selection changed'')
     else act_bind (read_snapshot env (rollback_root ctx)) (\<lambda>taken.
          act_then (if selection \<noteq> previous
                    then act_bind (generation_context ctx candidate) (\<lambda>c.
                         act_then (detach env (command_path ctx) (executable_path c) taken)
                           (case previous of
                              None \<Rightarrow> clear_selection ctx
                            | Some s \<Rightarrow> select_generation env ctx s))
                    else act_return ())
            (act_bind (control_context env ctx) (\<lambda>c.
               restore env (command_path ctx) (executable_path c) taken))))"

definition runtime_matches_projection :: "jdict option \<Rightarrow> loaded_payload \<Rightarrow> bool res" where
  "runtime_matches_projection runtime p =
     (case runtime of
        None \<Rightarrow> Inr False
      | Some r \<Rightarrow>
          if runtime_payload_matches r (handoff_fields p) \<and> jget r ''accepting'' = JBool True
             \<and> jget r ''draining'' = JBool False
          then in_frozenset (jget r ''handoff_state'') [''idle'', ''serving'', ''finalized'']
          else Inr False)"

definition restore_prior_generation ::
    "lifecycle_env \<Rightarrow> runtime_context \<Rightarrow> jdict \<Rightarrow> jdict option \<Rightarrow> (runtime_context \<Rightarrow> unit io) \<Rightarrow> jdict io" where
  "restore_prior_generation env ctx journal runtime bind_terminal =
     (let unavailable = act_raise (recovery_state ''payload recovery prior selected generation is unavailable'');
          mismatch = act_raise (recovery_state ''payload recovery runtime does not match the prior selected generation'')
      in case prior_selection journal of
           None \<Rightarrow> unavailable
         | Some previous \<Rightarrow>
             act_bind (act_lift (generation_path ctx (active previous))) (\<lambda>p. with_fs (\<lambda>fs.
               if \<not> is_dir fs p then unavailable
               else act_bind (generation_context ctx (active previous)) (\<lambda>previous_ctx.
                    act_bind (committed_payload env (executable_path previous_ctx)) (\<lambda>before.
                      case before of
                        None \<Rightarrow> mismatch
                      | Some b \<Rightarrow>
                          act_bind (act_lift (runtime_matches_projection runtime b)) (\<lambda>ok.
                            if \<not> ok then mismatch
                            else act_then (restore_prior_projection env ctx journal (Some previous))
                                (act_then (act_bind (control_context env ctx) bind_terminal)
                                   (complete_transaction env ctx journal ''rolled_back''))))))))"

definition require_unchanged_prior_terminal ::
    "lifecycle_env \<Rightarrow> runtime_context \<Rightarrow> string \<Rightarrow> jdict option \<Rightarrow> unit io" where
  "require_unchanged_prior_terminal env ctx generation runtime =
     act_bind (generation_context ctx generation) (\<lambda>prior_ctx.
     act_bind (committed_payload env (executable_path prior_ctx)) (\<lambda>prior.
       case prior of
         None \<Rightarrow> act_raise (recovery_state ''payload recovery prior selected generation identity is invalid'')
       | Some p \<Rightarrow>
           act_bind (as_recovery_state
                      (act_bind (read_installed env ctx) (\<lambda>installed.
                         case installed of
                           None \<Rightarrow> act_return None
                         | Some d \<Rightarrow> act_bind (act_lift (require_command d)) (\<lambda>c. act_return (Some (d, c)))))) (\<lambda>installed.
             case installed of
               None \<Rightarrow> act_raise (recovery_state ''payload recovery installed state does not match the prior selected generation'')
             | Some (d, installed_command) \<Rightarrow>
                 if jget d ''transaction_id'' \<noteq> JStr generation \<or> jget d ''version'' \<noteq> JStr (lp_release p)
                    \<or> jget d ''receipt_sha256'' \<noteq> JStr (lp_receipt_sha256 p)
                 then act_raise (recovery_state ''payload recovery installed state does not match the prior selected generation'')
                 else with_fs (\<lambda>fs.
                   if installed_command \<noteq> command ctx
                      \<or> fst (classify_command fs (path_of installed_command) (executable_path prior_ctx)) \<noteq> ''owned''
                   then act_raise (recovery_state ''payload recovery command does not match the prior selected generation'')
                   else act_bind (act_lift (runtime_matches_projection runtime p)) (\<lambda>ok.
                          fail_if (\<not> ok)
                            (recovery_state ''payload recovery runtime does not match the prior selected generation''))))))"

definition rollback_materialized ::
    "lifecycle_env \<Rightarrow> runtime_context \<Rightarrow> jdict \<Rightarrow> jdict option \<Rightarrow> (runtime_context \<Rightarrow> unit io) \<Rightarrow> jdict io" where
  "rollback_materialized env ctx journal runtime bind_terminal =
     (let previous = prior_selection journal in
      act_bind (read_selection env ctx) (\<lambda>selection. with_fs (\<lambda>fs.
        if reuses_retained_generation journal
        then (if selection = previous \<and> \<not> exists_at fs (rollback_root ctx)
              then (case previous of
                      None \<Rightarrow> act_raise (OtherError ''AssertionError'')
                    | Some s \<Rightarrow> act_then (require_unchanged_prior_terminal env ctx (active s) runtime)
                                  (complete_transaction env ctx journal ''rolled_back''))
              else restore_prior_generation env ctx journal runtime bind_terminal)
        else act_then (restore_prior_projection env ctx journal previous)
            (act_then (if previous \<noteq> None then act_bind (control_context env ctx) bind_terminal else act_return ())
               (complete_transaction env ctx journal ''rolled_back'')))))"

section \<open>Recovery\<close>

definition transaction_candidate :: "lifecycle_env \<Rightarrow> runtime_context \<Rightarrow> jdict \<Rightarrow> loaded_payload io" where
  "transaction_candidate env ctx journal =
     act_bind (generation_context ctx (field_text journal ''transaction_id'')) (\<lambda>c.
     act_bind (committed_payload env (executable_path c)) (\<lambda>candidate.
       case candidate of
         None \<Rightarrow> act_raise (recovery_state ''payload recovery candidate projection identity is invalid'')
       | Some p \<Rightarrow>
           if JStr (lp_release p) \<noteq> jget journal ''version'' \<or> JStr (lp_receipt_sha256 p) \<noteq> jget journal ''receipt_sha256''
           then act_raise (recovery_state ''payload recovery candidate does not match the transaction'')
           else act_return p))"

definition installed_matches_transaction :: "jdict \<Rightarrow> jdict \<Rightarrow> loaded_payload \<Rightarrow> string \<Rightarrow> bool" where
  "installed_matches_transaction installed journal p cmd \<longleftrightarrow>
     jget installed ''transaction_id'' = jget journal ''transaction_id''
     \<and> jget installed ''version'' = JStr (lp_release p)
     \<and> jget installed ''receipt_sha256'' = JStr (lp_receipt_sha256 p)
     \<and> jget installed ''command'' = JStr cmd"

text \<open>A materialized candidate that already serves is selected and its command exposed first.\<close>

definition adopt_candidate :: "lifecycle_env \<Rightarrow> runtime_context \<Rightarrow> jdict \<Rightarrow> unit io" where
  "adopt_candidate env ctx journal =
     act_bind (case field_option journal ''previous_generation'' of
                 None \<Rightarrow> act_return None
               | Some g \<Rightarrow> act_bind (act_lift (generation_path ctx g)) (\<lambda>p. with_fs (\<lambda>fs.
                             act_return (if is_dir fs p then Some g else None)))) (\<lambda>previous.
     act_then (select_generation env ctx \<lparr>active = field_text journal ''transaction_id'', predecessor = previous\<rparr>)
       (act_bind (control_context env ctx) (\<lambda>c.
        act_bind (read_snapshot env (rollback_root ctx)) (\<lambda>taken.
          project env (command_path ctx) (executable_path c) (Some taken)))))"

definition recover_mutated ::
    "lifecycle_env \<Rightarrow> runtime_context \<Rightarrow> jdict \<Rightarrow> jdict option \<Rightarrow> (runtime_context \<Rightarrow> unit io) \<Rightarrow> jdict io" where
  "recover_mutated env ctx journal runtime bind_terminal =
     (let phase = (if truthy (jget journal ''phase'') then field_text journal ''phase'' else field_text journal ''state'') in
      if phase = ''prepared'' then close_prepared env ctx journal
      else
        act_bind (transaction_candidate env ctx journal) (\<lambda>candidate.
        act_bind (if phase = ''materialized'' then act_lift (runtime_matches_projection runtime candidate)
                  else act_return True) (\<lambda>proven.
          if \<not> proven then rollback_materialized env ctx journal runtime bind_terminal
          else
            act_bind (read_installed env ctx) (\<lambda>installed.
              if (case installed of None \<Rightarrow> False
                  | Some d \<Rightarrow> installed_matches_transaction d journal candidate (command ctx))
              then close_finalized env ctx journal (Some bind_terminal)
              else act_bind (act_lift (runtime_matches_projection runtime candidate)) (\<lambda>serving.
                if serving
                then act_then (if phase = ''materialized'' then adopt_candidate env ctx journal else act_return ())
                       (finalize_installation env ctx journal (case runtime of Some r \<Rightarrow> r | None \<Rightarrow> []) (Some bind_terminal))
                else if jget journal ''fresh'' = JBool True
                then (if runtime \<noteq> None
                      then act_raise (install_error ''payload recovery runtime does not match the candidate projection'')
                      else rollback_materialized env ctx journal runtime bind_terminal)
                else restore_prior_generation env ctx journal runtime bind_terminal)))))"

definition recover ::
    "lifecycle_env \<Rightarrow> runtime_context \<Rightarrow> jdict option \<Rightarrow> (runtime_context \<Rightarrow> unit io) \<Rightarrow> jdict io" where
  "recover env ctx runtime bind_terminal =
     act_bind (status env ctx) (\<lambda>current.
       if current = None then act_return [(''state'', JStr ''not_required'')]
       else act_bind (as_recovery_state (read_journal env ctx)) (\<lambda>journal.
              if in_state journal TERMINAL_STATES then finish_cleanup env ctx journal
              else recover_mutated env ctx journal runtime bind_terminal))"

section \<open>A transaction in progress\<close>

record payload_transaction =
  tx_ctx :: runtime_context
  tx_blobs :: "artifact_file list"
  tx_version :: string
  tx_receipt_sha256 :: string
  tx_receipt :: jdict
  tx_id :: string
  tx_fresh :: bool
  tx_state :: string
  tx_candidate_ctx :: runtime_context
  tx_reuse :: bool
  tx_retained :: "loaded_payload option"
  tx_previous_generation :: "string option"
  tx_previous_selection :: "payload_selection option"

text \<open>\<open>_previous_predecessor\<close>.\<close>

definition tx_predecessor :: "payload_transaction \<Rightarrow> string option" where
  "tx_predecessor t = Option.bind (tx_previous_selection t) predecessor"

definition tx_facts :: "payload_transaction \<Rightarrow> journal_facts" where
  "tx_facts t =
     \<lparr>jf_transaction = tx_id t, jf_version = tx_version t, jf_receipt = tx_receipt_sha256 t, jf_fresh = tx_fresh t,
      jf_generation = tx_previous_generation t, jf_predecessor = tx_predecessor t\<rparr>"

text \<open>The methods act on the disk and on the object, whose state an exception does not undo.\<close>

type_synonym 'a tx_act = "(disk \<times> payload_transaction, 'a) eff"

definition on_disk :: "'a io \<Rightarrow> 'a tx_act" where
  "on_disk m = (\<lambda>(w, t). case m w of (r, w') \<Rightarrow> (r, (w', t)))"

definition with_tx :: "(payload_transaction \<Rightarrow> 'a tx_act) \<Rightarrow> 'a tx_act" where
  "with_tx f = (\<lambda>(w, t). f t (w, t))"

definition set_state :: "string \<Rightarrow> unit tx_act" where
  "set_state s = act_modify (\<lambda>(w, t). (w, t\<lparr>tx_state := s\<rparr>))"

definition expected_identity :: "lifecycle_env \<Rightarrow> payload_transaction \<Rightarrow> jdict res" where
  "expected_identity env t =
     (case tx_retained t of
        Some p \<Rightarrow> Inr ((''transaction_id'', JStr (tx_id t)) # handoff_fields p)
      | None \<Rightarrow>
          res_bind (manifest_for env (tx_version t) (tx_blobs t) (tx_receipt_sha256 t)) (\<lambda>manifest.
            Inr [(''transaction_id'', JStr (tx_id t)), (''release'', JStr (tx_version t)),
                 (''manifest_sha256'', JStr (sha256_hex (lpy env) (manifest_bytes manifest))),
                 (''serving_payload_sha256'', jget manifest ''serving_payload_sha256''),
                 (''release_receipt_sha256'', JStr (tx_receipt_sha256 t))]))"

definition owned_journal :: "lifecycle_env \<Rightarrow> bool \<Rightarrow> payload_transaction \<Rightarrow> jdict io" where
  "owned_journal env for_rollback t =
     act_bind (read_journal env (tx_ctx t)) (\<lambda>journal.
       if jget journal ''transaction_id'' \<noteq> JStr (tx_id t)
       then act_raise (install_error ''payload transaction no longer owns the current journal'')
       else if in_state journal TERMINAL_STATES \<and> \<not> (for_rollback \<and> in_state journal [''closed'', ''rolled_back''])
       then act_raise (install_error ''payload transaction is terminal; complete recovery'')
       else act_return journal)"

definition write_tx_journal :: "lifecycle_env \<Rightarrow> string option \<Rightarrow> string option \<Rightarrow> unit tx_act" where
  "write_tx_journal env phase reason =
     with_tx (\<lambda>t. on_disk (write_journal env (tx_ctx t) (tx_facts t) (tx_state t) phase reason))"

definition rollback_transaction :: "lifecycle_env \<Rightarrow> unit tx_act" where
  "rollback_transaction env =
     with_tx (\<lambda>t.
       if tx_state t = ''rolled_back'' then act_return ()
       else if tx_state t \<notin> {''prepared'', ''materialized'', ''activated''}
       then act_raise (install_error (''payload transaction in '' @ tx_state t @ '' state cannot be rolled back''))
       else act_bind (on_disk (owned_journal env True t)) (\<lambda>journal.
            act_then
              (if in_state journal [''closed'', ''rolled_back'']
               then act_then (on_disk (finish_cleanup env (tx_ctx t) journal)) (act_return ())
               else act_then
                      (on_disk (with_fs (\<lambda>fs.
                         if exists_at fs (rollback_root (tx_ctx t))
                         then restore_prior_projection env (tx_ctx t) journal (tx_previous_selection t)
                         else act_return ())))
                      (act_then (on_disk (complete_transaction env (tx_ctx t) journal ''rolled_back'')) (act_return ())))
              (set_state ''rolled_back'')))"

definition rollback_if_prepared :: "lifecycle_env \<Rightarrow> bool tx_act" where
  "rollback_if_prepared env =
     with_tx (\<lambda>t. if tx_state t \<noteq> ''prepared'' then act_return False
                  else act_then (rollback_transaction env) (act_return True))"

text \<open>\<open>except BaseException: h; raise\<close>.\<close>

definition on_failure :: "('s, unit) eff \<Rightarrow> ('s, 'a) eff \<Rightarrow> ('s, 'a) eff" where
  "on_failure h m = act_catch m (\<lambda>e. Some (act_then h (act_raise e)))"

text \<open>Before any payload byte is written: the snapshot of the command; a retained generation is then complete.\<close>

definition prepare_materialization :: "lifecycle_env \<Rightarrow> bool tx_act" where
  "prepare_materialization env =
     with_tx (\<lambda>t.
       act_then (on_disk (if tx_reuse t
                          then act_bind (committed_payload env (executable_path (tx_candidate_ctx t))) (\<lambda>p.
                                 fail_if (p \<noteq> tx_retained t)
                                   (install_error ''retained rollback predecessor changed before materialization''))
                          else act_return ()))
      (act_then (on_disk (act_bind (control_context env (tx_ctx t)) (\<lambda>c.
                          act_bind (snapshot_command env (command_path (tx_ctx t)) (executable_path c)) (\<lambda>s.
                            write_snapshot env (rollback_root (tx_ctx t)) s))))
         (if tx_reuse t
          then act_then (on_disk (prewarm env (tx_candidate_ctx t)))
              (act_then (set_state ''materialized'') (act_then (write_tx_journal env None None) (act_return True)))
          else act_then (on_disk (reject_unowned_collisions (tx_candidate_ctx t) [] (map af_path (tx_blobs t))))
                 (act_return False))))"

definition materialize :: "lifecycle_env \<Rightarrow> unit tx_act" where
  "materialize env =
     with_tx (\<lambda>t.
       act_then (on_disk (write_projection env (tx_candidate_ctx t) (tx_blobs t) (tx_version t) (tx_receipt t)
                            (tx_receipt_sha256 t)))
      (act_then (on_disk (write_runtime_spec env (tx_candidate_ctx t)))
      (act_bind (on_disk (verify_payload_manifest env (tx_candidate_ctx t))) (\<lambda>(ok, detail).
       act_then (if ok then act_return ()
                 else act_raise (install_error (''committed payload integrity check failed: '' @ detail)))
      (act_then (on_disk (prewarm env (tx_candidate_ctx t)))
      (act_then (set_state ''materialized'') (write_tx_journal env None None)))))))"

definition close_unmutated :: "lifecycle_env \<Rightarrow> unit tx_act" where
  "close_unmutated env =
     with_tx (\<lambda>t.
       act_then (on_disk (act_bind (owned_journal env False t) (\<lambda>journal.
                   complete_transaction env (tx_ctx t) journal ''closed'')))
         (set_state ''rolled_back''))"

definition undo_mutation :: "lifecycle_env \<Rightarrow> unit tx_act" where
  "undo_mutation env =
     act_catch (rollback_transaction env)
       (\<lambda>e. if is_install_error e
            then Some (act_raise (install_error ''payload commit failed and rollback failed'')) else None)"

definition commit_projection :: "lifecycle_env \<Rightarrow> unit tx_act" where
  "commit_projection env =
     with_tx (\<lambda>t.
       if tx_state t \<noteq> ''prepared'' then act_raise (install_error ''payload transaction is not prepared'')
       else act_then (on_disk (act_then (owned_journal env False t) (mkdir (rollback_root (tx_ctx t)))))
              (act_bind (on_failure (close_unmutated env) (prepare_materialization env)) (\<lambda>complete.
                 if complete then act_return () else on_failure (undo_mutation env) (materialize env))))"

definition activate :: "lifecycle_env \<Rightarrow> unit tx_act" where
  "activate env =
     with_tx (\<lambda>t.
       if tx_state t \<noteq> ''materialized'' then act_raise (install_error ''payload transaction is not materialized'')
       else act_then (on_disk
              (act_then (owned_journal env False t)
              (act_bind (read_snapshot env (rollback_root (tx_ctx t))) (\<lambda>taken.
               act_then (select_generation env (tx_ctx t)
                           \<lparr>active = tx_id t, predecessor = map_option active (tx_previous_selection t)\<rparr>)
                 (act_bind (control_context env (tx_ctx t)) (\<lambda>c.
                    project env (command_path (tx_ctx t)) (executable_path c) (Some taken)))))))
            (act_then (set_state ''activated'') (write_tx_journal env None None)))"

definition finalize :: "lifecycle_env \<Rightarrow> jdict \<Rightarrow> unit tx_act" where
  "finalize env runtime =
     with_tx (\<lambda>t.
       if tx_state t \<noteq> ''activated'' then act_raise (install_error ''payload transaction is not activated'')
       else act_bind (on_disk (owned_journal env False t)) (\<lambda>journal.
            act_then (on_failure (set_state ''recovery_required'')
                        (on_disk (finalize_installation env (tx_ctx t) journal runtime None)))
              (set_state ''finalized'')))"

definition preserve_for_recovery :: "lifecycle_env \<Rightarrow> string \<Rightarrow> unit tx_act" where
  "preserve_for_recovery env reason =
     with_tx (\<lambda>t.
       if tx_state t \<notin> {''materialized'', ''activated''}
       then act_raise (install_error ''only a materialized transaction can require recovery'')
       else act_then (on_disk (owned_journal env False t))
           (act_then (set_state ''recovery_required'') (write_tx_journal env (Some (tx_state t)) (Some reason))))"

section \<open>Beginning\<close>

definition empty_or_absent_control_root :: "path \<Rightarrow> bool io" where
  "empty_or_absent_control_root root =
     with_fs (\<lambda>fs.
       if \<not> present fs root then act_return True
       else if is_symlink fs root \<or> \<not> is_dir fs root then act_return False
       else act_bind (raising is_os_failure (install_error ''installed payload root is unreadable'') (iterdir root)) (\<lambda>entries.
              act_return (entries = [])))"

definition claim_transaction_root :: "lifecycle_env \<Rightarrow> runtime_context \<Rightarrow> unit io" where
  "claim_transaction_root env ctx =
     act_bind (status env ctx) (\<lambda>current.
       case current of
         Some d \<Rightarrow>
           if jget d ''state'' \<noteq> JStr ''invalid''
           then act_raise (InstallError Recovery_required ''complete payload recovery before installing'')
           else act_raise (recovery_state ''payload transaction evidence is invalid; preserve it for diagnosis'')
       | None \<Rightarrow>
           act_then (mkdir_parents (butlast (transaction_root ctx))) (mkdir (transaction_root ctx)))"

text \<open>The constructor: the candidate's context and the selection it will succeed.\<close>

definition new_transaction ::
    "lifecycle_env \<Rightarrow> runtime_context \<Rightarrow> artifact_file list \<Rightarrow> jdict \<Rightarrow> loaded_payload option \<Rightarrow> journal_facts \<Rightarrow>
     payload_transaction io" where
  "new_transaction env ctx blobs receipt retained f =
     act_bind (generation_context ctx (jf_transaction f)) (\<lambda>candidate_ctx.
     act_bind (read_selection env ctx) (\<lambda>selection.
     act_then (fail_if (retained \<noteq> None \<and> Option.bind selection predecessor \<noteq> Some (jf_transaction f))
                 (install_error ''retained rollback selection changed before transition''))
       (act_return \<lparr>tx_ctx = ctx, tx_blobs = blobs, tx_version = jf_version f, tx_receipt_sha256 = jf_receipt f,
                    tx_receipt = receipt, tx_id = jf_transaction f, tx_fresh = jf_fresh f, tx_state = ''prepared'',
                    tx_candidate_ctx = candidate_ctx, tx_reuse = (retained \<noteq> None), tx_retained = retained,
                    tx_previous_generation = jf_generation f, tx_previous_selection = selection\<rparr>)))"

definition require_upgrade :: "lifecycle_env \<Rightarrow> runtime_context \<Rightarrow> payload_selection option \<Rightarrow> string \<Rightarrow> unit io" where
  "require_upgrade env ctx selection version =
     act_then (fail_if (selection = None)
                (install_error ''upgrade requires a selected payload generation; uninstall the existing payload explicitly before reinstalling''))
    (act_bind (control_context env ctx) (\<lambda>c.
     act_bind (committed_payload env (executable_path c)) (\<lambda>control.
       case control of
         None \<Rightarrow> act_raise (install_error ''installed control-plane identity is invalid'')
       | Some p \<Rightarrow>
           act_bind (act_lift (compare_versions version (lp_release p))) (\<lambda>order.
             if order < 0 then act_raise (install_error ''released payload downgrade is refused'')
             else fail_if (order = 0) (install_error ''released payload replay is refused'')))))"

text \<open>
  \<open>begin_transaction\<close>; \<open>claimed\<close> is what \<open>artifact.claim\<close> gave for the admitted artifact.
\<close>

definition begin_transaction ::
    "lifecycle_env \<Rightarrow> runtime_context \<Rightarrow> (artifact_file list \<times> string \<times> string \<times> jdict) res \<Rightarrow> payload_transaction io" where
  "begin_transaction env ctx claimed =
     act_bind (act_lift claimed) (\<lambda>(blobs, version, receipt_sha256, receipt).
     act_then (act_lift (validate_candidate env blobs version receipt_sha256 receipt))
    (act_bind (read_installed env ctx) (\<lambda>previous.
     act_bind (read_selection env ctx) (\<lambda>selection.
     act_then (if previous \<noteq> None then require_upgrade env ctx selection version else act_return ())
    (act_bind (if previous = None then empty_or_absent_control_root (install_path ctx) else act_return False) (\<lambda>fresh.
     act_then (fail_if (previous = None \<and> selection = None \<and> \<not> fresh)
                 (install_error ''installed payload root contains unverified content; remove it explicitly before installing''))
    (act_then (claim_transaction_root env ctx)
    (act_bind new_identifier (\<lambda>n.
     let f = \<lparr>jf_transaction = uuid_hex env n, jf_version = version, jf_receipt = receipt_sha256, jf_fresh = fresh,
              jf_generation = map_option active selection, jf_predecessor = Option.bind selection predecessor\<rparr> in
     act_then (write_journal env ctx f ''prepared'' None None)
       (new_transaction env ctx blobs receipt None f))))))))))"

definition begin_rollback_transaction ::
    "lifecycle_env \<Rightarrow> runtime_context \<Rightarrow> retained_rollback \<Rightarrow> payload_transaction io" where
  "begin_rollback_transaction env ctx retained =
     (let target = rr_predecessor retained in
      act_bind (read_installed env ctx) (\<lambda>previous.
      act_then (case previous of
                  None \<Rightarrow> act_raise (install_error ''retained rollback successor changed before transition'')
                | Some d \<Rightarrow> act_bind (act_lift (require_version d)) (\<lambda>v.
                              fail_if (v \<noteq> lp_release (rr_successor retained))
                                (install_error ''retained rollback successor changed before transition'')))
     (act_bind (read_selection env ctx) (\<lambda>selection.
        case selection of
          None \<Rightarrow> act_raise (install_error ''retained rollback selection changed before transition'')
        | Some s \<Rightarrow>
            (case predecessor s of
               None \<Rightarrow> act_raise (install_error ''retained rollback selection changed before transition'')
             | Some p \<Rightarrow>
                 act_bind (generation_context ctx p) (\<lambda>c.
                 act_then (fail_if (payload_path c \<noteq> rr_root retained)
                             (install_error ''retained rollback predecessor changed before transition''))
                (act_then (claim_transaction_root env ctx)
                   (let f = \<lparr>jf_transaction = p, jf_version = lp_release target, jf_receipt = lp_receipt_sha256 target,
                             jf_fresh = False, jf_generation = Some (active s), jf_predecessor = Some p\<rparr> in
                    act_then (write_journal env ctx f ''prepared'' None None)
                      (new_transaction env ctx [] [] (Some target) f)))))))))"

section \<open>Removing the installation\<close>

definition relative_text :: "path \<Rightarrow> path \<Rightarrow> string res" where
  "relative_text root p =
     (if prefix root p then Inr (join_on (CHR ''/'') (drop (length root) p))
      else Inl (ValueError ''path is not in the subpath''))"

fun owned_inventory :: "lifecycle_env \<Rightarrow> path \<Rightarrow> runtime_context list \<Rightarrow> jdict \<Rightarrow> jdict io" where
  "owned_inventory env root [] files = act_return files"
| "owned_inventory env root (selected # contexts) files =
     act_bind (owned_payload_files env selected) (\<lambda>owned.
     act_bind (act_lift (res_map (\<lambda>(relative, d). res_bind (relative_text root (owned_path (payload_path selected) relative))
                                    (\<lambda>name. Inr (name, JStr d))) owned)) (\<lambda>entries.
       owned_inventory env root contexts (foldl (\<lambda>m (k, v). AList.update k v m) files entries)))"

fun control_inventory :: "lifecycle_env \<Rightarrow> path \<Rightarrow> path list \<Rightarrow> jdict \<Rightarrow> jdict io" where
  "control_inventory env root [] files = act_return files"
| "control_inventory env root (target # targets) files =
     with_fs (\<lambda>fs.
       if present fs target
       then act_bind (act_lift (relative_text root target)) (\<lambda>relative.
            act_bind (regular_file root relative ''payload removal'') (\<lambda>place.
            act_bind (sha256_file env place) (\<lambda>d.
              control_inventory env root targets (AList.update relative (JStr d) files))))
       else control_inventory env root targets files)"

definition installed_release :: "lifecycle_env \<Rightarrow> runtime_context \<Rightarrow> (json \<times> json) io" where
  "installed_release env ctx =
     act_bind (read_installed env ctx) (\<lambda>installed.
       case installed of
         Some d \<Rightarrow> act_bind (act_lift (require_version d)) (\<lambda>v. act_return (JStr v, jget d ''receipt_sha256''))
       | None \<Rightarrow>
           act_bind (read_json_object env (payload_manifest_path ctx) ''installed payload manifest'') (\<lambda>manifest.
             if has_key manifest ''release'' \<and> has_key manifest ''release_receipt_sha256''
             then act_return (jget manifest ''release'', jget manifest ''release_receipt_sha256'')
             else act_raise (OtherError ''KeyError'')))"

definition purge :: "lifecycle_env \<Rightarrow> runtime_context \<Rightarrow> jdict io" where
  "purge env ctx =
     (let root = install_path ctx in
      act_bind (status env ctx) (\<lambda>current.
      act_then (fail_if (current \<noteq> None) (InstallError Recovery_required ''complete payload recovery before uninstalling''))
     (act_bind (owned_contexts ctx) (\<lambda>owned.
      act_bind (owned_inventory env root (if owned = [] then [ctx] else owned) []) (\<lambda>files.
      act_bind (installed_release env ctx) (\<lambda>(version, receipt).
      act_bind (control_inventory env root [selector_path ctx, installed_path ctx] files) (\<lambda>all_files.
      act_bind new_identifier (\<lambda>n.
      let journal = [(''schema_version'', JInt TRANSACTION_JOURNAL_SCHEMA), (''transaction_id'', JStr (uuid_hex env n)),
                     (''version'', version), (''receipt_sha256'', receipt), (''fresh'', JBool False),
                     (''state'', JStr ''purged''), (''files'', JObj all_files)] in
      act_then (act_lift (removal_files journal))
     (act_then (store_journal env ctx journal)
        (finish_cleanup env ctx journal))))))))))"

end
