(* ===== verification/Host.thy ===== *)
theory Host
  imports Complex_Main Transaction
begin

text \<open>
  The host of an installation as a controller sees it: files, a clock, and everything that happens in other
  processes.  What \<open>psutil\<close> shows, how the loopback endpoints answer and what the native service manager
  does are given by the environment for each look, and differ from look to look; what the controller
  does to the host is recorded as a sequence of calls.  Services and their definition files are outside
  the installation, so these calls leave its files alone.
\<close>

section \<open>What is seen\<close>

text \<open>A \<open>psutil\<close> exception; \<open>Argv_denied\<close> is the \<open>SystemError\<close> that stands for a denied argument list on macOS.\<close>

datatype ps_error = No_such_process | Timeout_expired | Ps_error | Argv_denied

text \<open>The answers of one \<open>psutil.Process\<close>; an answer of the wrong type is \<open>None\<close>.\<close>

record ps_process =
  ps_create_time :: "ps_error + rat option"
  ps_status :: "ps_error + string option"
  ps_is_running :: "ps_error + bool option"
  ps_cmdline :: "ps_error + string list option"
  ps_exe :: "ps_error + string option"

text \<open>A connection as \<open>net_connections\<close> reports it: whether it listens, and on which port.\<close>

type_synonym connection = "bool \<times> int option"

datatype http_reply =
    Http_reply int bytes
  | Http_error int
  | Http_unavailable

datatype service_op = Service_install | Service_uninstall

datatype host_call =
    Signal int
  | Control string string "(string \<times> string) list" bytes
  | Supervise service_op runtime_context

text \<open>
  The loops over all processes give what they see before they end; the flag is whether they end with an
  exception.  A call that waits also says how long it took.  \<open>format_g\<close> is the \<open>:g\<close> format of seconds in messages.
\<close>

record host_env =
  life :: lifecycle_env
  current_dir :: path
  ps_at :: "nat \<Rightarrow> int \<Rightarrow> ps_error + ps_process"
  ps_all :: "nat \<Rightarrow> (int \<times> ps_process) list \<times> bool"
  ps_connections :: "nat \<Rightarrow> (int \<times> connection list) list \<times> bool"
  ps_terminate :: "nat \<Rightarrow> int \<Rightarrow> ps_error option"
  ps_wait :: "nat \<Rightarrow> int \<Rightarrow> rat \<Rightarrow> rat \<times> ps_error option"
  http_at :: "nat \<Rightarrow> string \<Rightarrow> string \<Rightarrow> bytes \<Rightarrow> rat \<times> http_reply"
  service_done :: "nat \<Rightarrow> service_op \<Rightarrow> runtime_context \<Rightarrow> unit res"
  service_configured :: "nat \<Rightarrow> runtime_context \<Rightarrow> string option res"
  service_status :: "nat \<Rightarrow> runtime_context \<Rightarrow> string res"
  format_g :: "rat \<Rightarrow> string"

text \<open>
  \<open>h_called_at\<close> records no state of the program: it says how many looks had been taken when each of
  \<open>h_calls\<close> was made, so that a statement can place a call between two looks.
\<close>

record host =
  h_disk :: disk
  h_clock :: rat
  h_looks :: nat
  h_calls :: "host_call list"
  h_called_at :: "nat list"

type_synonym 'a host_act = "(host, 'a) eff"

section \<open>Looking and acting\<close>

definition on_files :: "'a io \<Rightarrow> 'a host_act" where
  "on_files m w = (case m (h_disk w) of (r, d) \<Rightarrow> (r, w\<lparr>h_disk := d\<rparr>))"

definition look :: "(nat \<Rightarrow> 'a) \<Rightarrow> 'a host_act" where
  "look f w = (Inr (f (h_looks w)), w\<lparr>h_looks := Suc (h_looks w)\<rparr>)"

definition called :: "host_call \<Rightarrow> unit host_act" where
  "called c = act_modify (\<lambda>w. w\<lparr>h_calls := h_calls w @ [c], h_called_at := h_called_at w @ [h_looks w]\<rparr>)"

text \<open>Time passes, never backwards.\<close>

definition elapse :: "rat \<Rightarrow> unit host_act" where
  "elapse t = act_modify (\<lambda>w. w\<lparr>h_clock := h_clock w + max 0 t\<rparr>)"

definition monotonic :: "rat host_act" where
  "monotonic w = (Inr (h_clock w), w)"

text \<open>
  \<open>while time.monotonic() < deadline: \<dots>; time.sleep(pause)\<close>, ending early with a result.  Every round takes at
  least the pause, so the rounds that fit before the deadline are enough.
\<close>

primrec poll_rounds :: "nat \<Rightarrow> rat \<Rightarrow> rat \<Rightarrow> 'a option host_act \<Rightarrow> 'a option host_act" where
  "poll_rounds 0 pause deadline m = act_return None"
| "poll_rounds (Suc n) pause deadline m =
     act_bind monotonic (\<lambda>now.
       if now < deadline
       then act_bind m (\<lambda>r. case r of
              Some x \<Rightarrow> act_return (Some x)
            | None \<Rightarrow> act_then (elapse pause) (poll_rounds n pause deadline m))
       else act_return None)"

definition rounds :: "rat \<Rightarrow> rat \<Rightarrow> nat" where
  "rounds pause remaining = nat \<lceil>remaining / pause\<rceil>"

definition poll_until :: "rat \<Rightarrow> 'a option host_act \<Rightarrow> 'a option host_act" where
  "poll_until deadline m =
     act_bind monotonic (\<lambda>now. poll_rounds (rounds (1 / 10) (deadline - now)) (1 / 10) deadline m)"

section \<open>Paths of other processes\<close>

text \<open>\<open>os.path.abspath\<close> removes \<open>..\<close> without looking at the disk.\<close>

fun lexical :: "path \<Rightarrow> path \<Rightarrow> path" where
  "lexical acc [] = acc"
| "lexical acc (c # cs) = lexical (if c = ''..'' then butlast acc else acc @ [c]) cs"

text \<open>\<open>os.path.normcase(os.path.realpath(os.path.abspath(s)))\<close>.\<close>

definition normalized_path :: "host_env \<Rightarrow> nodes \<Rightarrow> string \<Rightarrow> path" where
  "normalized_path env fs s =
     resolved fs (lexical [] (if is_absolute s then path_of s else current_dir env @ path_of s))"

section \<open>Polling\<close>

lemma elapse_run: "elapse t w = (Inr (), w\<lparr>h_clock := h_clock w + max 0 t\<rparr>)"
  by (simp add: elapse_def act_modify_def)

lemma monotonic_run: "monotonic w = (Inr (h_clock w), w)"
  by (simp add: monotonic_def)

text \<open>
  The rounds are enough: with more of them polling does the same, for a body that does not turn the clock
  back.
\<close>

lemma rounds_step:
  fixes d c c' pause :: rat
  assumes "0 < pause" "c < d" "c \<le> c'"
  shows "rounds pause (d - (c' + pause)) < rounds pause (d - c)"
proof -
  have "(d - (c' + pause)) / pause \<le> (d - c) / pause - 1"
    using assms by (simp add: field_simps)
  then have "\<lceil>(d - (c' + pause)) / pause\<rceil> \<le> \<lceil>(d - c) / pause\<rceil> - 1"
    using ceiling_mono [of _ "(d - c) / pause - 1"] by simp
  moreover have "0 < (d - c) / pause" using assms by simp
  then have "0 < \<lceil>(d - c) / pause\<rceil>" by simp
  ultimately show ?thesis by (simp add: rounds_def)
qed

lemma poll_enough:
  assumes "0 < pause" "\<And>w r w'. m w = (r, w') \<Longrightarrow> h_clock w \<le> h_clock w'"
    and "rounds pause (deadline - h_clock w) \<le> n" "rounds pause (deadline - h_clock w) \<le> k"
  shows "poll_rounds n pause deadline m w = poll_rounds k pause deadline m w"
  using assms(3,4)
proof (induction n arbitrary: k w)
  case 0
  then have "\<not> h_clock w < deadline" using rounds_step [OF assms(1) _ order_refl, of "h_clock w" deadline] by auto
  then show ?case by (cases k) (simp_all add: act_bind_def monotonic_run act_return_def)
next
  case (Suc n)
  show ?case
  proof (cases "h_clock w < deadline")
    case True
    have "rounds pause (deadline - h_clock w) \<noteq> 0" using rounds_step [OF assms(1) True order_refl] by auto
    then obtain j where k: "k = Suc j" using Suc.prems(2) by (cases k) auto
    have "poll_rounds n pause deadline m w2 = poll_rounds j pause deadline m w2"
      if "m w = (r, w1)" "w2 = w1\<lparr>h_clock := h_clock w1 + max 0 pause\<rparr>" for r w1 w2
    proof -
      have "rounds pause (deadline - h_clock w2) < rounds pause (deadline - h_clock w)"
        using rounds_step [OF assms(1) True assms(2) [OF that(1)]] that(2) assms(1) by simp
      with Suc.prems k show ?thesis by (intro Suc.IH) linarith+
    qed
    with True k show ?thesis
      by (auto simp: act_bind_def act_then_def monotonic_run elapse_run split: prod.splits sum.splits option.splits)
  next
    case False
    then show ?thesis by (cases k) (simp_all add: act_bind_def monotonic_run act_return_def)
  qed
qed

end
