(* ===== verification/Process.thy ===== *)
theory Process
  imports Host
begin

text \<open>
  \<open>lifecycle/supervision/process.py\<close> and the native runtime of \<open>lifecycle/supervision/native_service.py\<close>: finding
  and ending the processes of an installation.  A process is bound to its executable and role by its
  arguments, or by its role and the executable the kernel reports, and to its generation by its
  creation time.  The lemmas show that no other process is ever signalled.
\<close>

section \<open>Roles\<close>

definition LISTENER_MODE :: string where
  "LISTENER_MODE = ''--internal-listener''"

definition WATCHDOG_MODE :: string where
  "WATCHDOG_MODE = ''--internal-watchdog''"

definition HANDOFF_CHILD_MODE :: string where
  "HANDOFF_CHILD_MODE = ''--internal-handoff-child''"

definition PREWARM_MODE :: string where
  "PREWARM_MODE = ''--internal-prewarm''"

definition RUNTIME_ROLES :: "string list" where
  "RUNTIME_ROLES = [LISTENER_MODE, HANDOFF_CHILD_MODE, WATCHDOG_MODE, PREWARM_MODE]"

definition LISTENER_ROLES :: "string list" where
  "LISTENER_ROLES = [LISTENER_MODE, HANDOFF_CHILD_MODE]"

record owned_process =
  op_pid :: int
  op_executable :: path
  op_created_at :: rat

section \<open>One look at a process\<close>

text \<open>A value of the wrong type is a \<open>TypeError\<close>, caught wherever an error of \<open>psutil\<close> is.\<close>

definition narrowed :: "ps_error + 'a option \<Rightarrow> ps_error + 'a" where
  "narrowed r = (case r of Inl e \<Rightarrow> Inl e | Inr None \<Rightarrow> Inl Ps_error | Inr (Some x) \<Rightarrow> Inr x)"

definition argv_of :: "ps_process \<Rightarrow> ps_error + string list" where
  "argv_of c = (case ps_cmdline c of Inl Argv_denied \<Rightarrow> Inl Ps_error | r \<Rightarrow> narrowed r)"

definition file_tree :: "nodes host_act" where
  "file_tree w = (Inr (nodes (h_disk w)), w)"

definition process_argv :: "host_env \<Rightarrow> int \<Rightarrow> string list host_act" where
  "process_argv env pid =
     act_bind (look (\<lambda>n. ps_at env n pid)) (\<lambda>p. act_return
       (case p of Inl _ \<Rightarrow> [] | Inr c \<Rightarrow> (case argv_of c of Inl _ \<Rightarrow> [] | Inr argv \<Rightarrow> argv)))"

definition has_role :: "string list option \<Rightarrow> string list \<Rightarrow> bool" where
  "has_role roles argv \<longleftrightarrow> (case roles of None \<Rightarrow> True | Some rs \<Rightarrow> list_ex (\<lambda>r. r \<in> set (tl argv)) rs)"

definition argv_names_executable :: "host_env \<Rightarrow> nodes \<Rightarrow> string list \<Rightarrow> string \<Rightarrow> string list option \<Rightarrow> bool" where
  "argv_names_executable env fs argv expected roles \<longleftrightarrow>
     argv \<noteq> [] \<and> normalized_path env fs (hd argv) = normalized_path env fs expected \<and> has_role roles argv"

definition kernel_executable_matches :: "host_env \<Rightarrow> nodes \<Rightarrow> ps_process \<Rightarrow> string \<Rightarrow> bool" where
  "kernel_executable_matches env fs c expected \<longleftrightarrow>
     (case narrowed (ps_exe c) of
        Inl _ \<Rightarrow> False
      | Inr actual \<Rightarrow> normalized_path env fs actual = normalized_path env fs expected)"

definition names_executable ::
    "host_env \<Rightarrow> nodes \<Rightarrow> ps_process \<Rightarrow> string list \<Rightarrow> string \<Rightarrow> string list option \<Rightarrow> bool" where
  "names_executable env fs c argv expected roles \<longleftrightarrow>
     argv_names_executable env fs argv expected roles
     \<or> argv \<noteq> [] \<and> has_role roles argv \<and> kernel_executable_matches env fs c expected"

definition capture_executable :: "host_env \<Rightarrow> int \<Rightarrow> string \<Rightarrow> string list option \<Rightarrow> owned_process option host_act" where
  "capture_executable env pid expected roles =
     act_bind (look (\<lambda>n. ps_at env n pid)) (\<lambda>p. act_bind file_tree (\<lambda>fs. act_return
       (case p of
          Inl _ \<Rightarrow> None
        | Inr c \<Rightarrow>
            (case argv_of c of
               Inl _ \<Rightarrow> None
             | Inr argv \<Rightarrow>
                 if \<not> names_executable env fs c argv expected roles then None
                 else (case narrowed (ps_create_time c) of
                         Inl _ \<Rightarrow> None
                       | Inr t \<Rightarrow> Some \<lparr>op_pid = pid, op_executable = normalized_path env fs expected, op_created_at = t\<rparr>)))))"

definition pid_names_executable :: "host_env \<Rightarrow> int \<Rightarrow> string \<Rightarrow> string list option \<Rightarrow> bool host_act" where
  "pid_names_executable env pid expected roles =
     act_bind (process_argv env pid) (\<lambda>argv. act_bind file_tree (\<lambda>fs.
       if argv_names_executable env fs argv expected roles then act_return True
       else if argv = [] \<or> \<not> has_role roles argv then act_return False
       else act_bind (look (\<lambda>n. ps_at env n pid)) (\<lambda>p. act_return
              (case p of Inl _ \<Rightarrow> False | Inr c \<Rightarrow> kernel_executable_matches env fs c expected))))"

section \<open>Waiting for one process\<close>

text \<open>\<open>while True: try; remaining = deadline - now; give up when none is left; sleep(min(0.05, remaining))\<close>.\<close>

primrec retry :: "nat \<Rightarrow> rat \<Rightarrow> 'a option host_act \<Rightarrow> 'a option host_act" where
  "retry 0 deadline m = act_return None"
| "retry (Suc n) deadline m =
     act_bind m (\<lambda>r. case r of
       Some x \<Rightarrow> act_return (Some x)
     | None \<Rightarrow> act_bind monotonic (\<lambda>now.
         if deadline - now \<le> 0 then act_return None
         else act_then (elapse (min (1 / 20) (deadline - now))) (retry n deadline m)))"

definition retry_for :: "rat \<Rightarrow> 'a option host_act \<Rightarrow> 'a option host_act" where
  "retry_for timeout m =
     act_bind monotonic (\<lambda>now. retry (Suc (rounds (1 / 20) timeout)) (now + timeout) m)"

definition wait_for_executable ::
    "host_env \<Rightarrow> int \<Rightarrow> string \<Rightarrow> string list option \<Rightarrow> rat \<Rightarrow> owned_process option host_act" where
  "wait_for_executable env pid expected roles timeout = retry_for timeout (capture_executable env pid expected roles)"

definition ZOMBIE :: string where
  "ZOMBIE = ''zombie''"

definition alive_in :: "owned_process \<Rightarrow> ps_error + ps_process \<Rightarrow> bool" where
  "alive_in p view \<longleftrightarrow>
     (case view of
        Inl _ \<Rightarrow> False
      | Inr c \<Rightarrow> narrowed (ps_create_time c) = Inr (op_created_at p)
               \<and> (case narrowed (ps_status c) of Inl _ \<Rightarrow> False | Inr s \<Rightarrow> s \<noteq> ZOMBIE) \<and> narrowed (ps_is_running c) = Inr True)"

definition owned_process_alive :: "host_env \<Rightarrow> owned_process \<Rightarrow> bool host_act" where
  "owned_process_alive env p =
     act_bind (look (\<lambda>n. ps_at env n (op_pid p))) (\<lambda>view. act_return (alive_in p view))"

definition wait_for_exit :: "host_env \<Rightarrow> owned_process \<Rightarrow> rat \<Rightarrow> bool host_act" where
  "wait_for_exit env p timeout =
     act_bind (retry_for timeout (act_bind (owned_process_alive env p) (\<lambda>alive. act_return (if alive then None else Some ()))))
       (\<lambda>r. act_return (r \<noteq> None))"

section \<open>Ending one process\<close>

text \<open>\<open>candidate.terminate()\<close> and \<open>candidate.wait(timeout)\<close>, up to the first error.\<close>

definition end_process :: "host_env \<Rightarrow> int \<Rightarrow> rat \<Rightarrow> ps_error option host_act" where
  "end_process env pid timeout =
     act_then (called (Signal pid))
    (act_bind (look (\<lambda>n. ps_terminate env n pid)) (\<lambda>failed.
       if failed \<noteq> None then act_return failed
       else act_bind (look (\<lambda>n. ps_wait env n pid timeout)) (\<lambda>(t, r). act_then (elapse t) (act_return r))))"

definition timed_out_process_is_gone :: "host_env \<Rightarrow> owned_process \<Rightarrow> bool host_act" where
  "timed_out_process_is_gone env p =
     act_bind (look (\<lambda>n. ps_at env n (op_pid p))) (\<lambda>view. act_return
       (case view of
          Inl e \<Rightarrow> e = No_such_process
        | Inr c \<Rightarrow>
            (case narrowed (ps_create_time c) of
               Inl e \<Rightarrow> e = No_such_process
             | Inr t \<Rightarrow> t = op_created_at p \<and>
                 (case narrowed (ps_status c) of Inl e \<Rightarrow> e = No_such_process | Inr s \<Rightarrow> s = ZOMBIE))))"

definition after_error :: "host_env \<Rightarrow> owned_process \<Rightarrow> ps_error \<Rightarrow> bool host_act" where
  "after_error env p e =
     (if e = No_such_process then act_return True
      else if e = Timeout_expired then timed_out_process_is_gone env p
      else act_return False)"

definition terminate_owned_process :: "host_env \<Rightarrow> owned_process \<Rightarrow> rat \<Rightarrow> bool host_act" where
  "terminate_owned_process env p timeout =
     act_bind (look (\<lambda>n. ps_at env n (op_pid p))) (\<lambda>view.
       case view of
         Inl e \<Rightarrow> act_return (e = No_such_process)
       | Inr c \<Rightarrow>
           (case narrowed (ps_create_time c) of
              Inl e \<Rightarrow> after_error env p e
            | Inr t \<Rightarrow>
                if t \<noteq> op_created_at p then act_return False
                else (case narrowed (ps_status c) of
                        Inl e \<Rightarrow> after_error env p e
                      | Inr s \<Rightarrow>
                          if s = ZOMBIE then act_return True
                          else act_bind (end_process env (op_pid p) timeout) (\<lambda>r.
                                 case r of None \<Rightarrow> act_return True | Some e \<Rightarrow> after_error env p e))))"

definition terminate_executable :: "host_env \<Rightarrow> int \<Rightarrow> string \<Rightarrow> string list option \<Rightarrow> rat \<Rightarrow> bool host_act" where
  "terminate_executable env pid expected roles timeout =
     act_bind (pid_names_executable env pid expected roles) (\<lambda>named.
       if \<not> named then act_return False
       else act_bind (look (\<lambda>n. ps_at env n pid)) (\<lambda>view.
         case view of
           Inl e \<Rightarrow> act_return (e = No_such_process)
         | Inr c \<Rightarrow>
             act_bind (pid_names_executable env pid expected roles) (\<lambda>still.
               if \<not> still then act_return False
               else act_bind (end_process env pid timeout) (\<lambda>r.
                      act_return (r = None \<or> r = Some No_such_process)))))"

section \<open>All processes\<close>

definition listener_pids :: "host_env \<Rightarrow> int \<Rightarrow> int list host_act" where
  "listener_pids env p =
     act_bind (look (ps_connections env)) (\<lambda>(rows, failed).
       act_return (sort (remdups (map fst (filter (\<lambda>(pid, connections).
                     list_ex (\<lambda>(listens, q). listens \<and> q = Some p) connections) rows)))))"

definition process_inventory :: "host_env \<Rightarrow> (int \<times> string list) list host_act" where
  "process_inventory env =
     act_bind (look (ps_all env)) (\<lambda>(rows, failed). act_return
       (if failed then []
        else List.map_filter (\<lambda>(pid, c). case argv_of c of
               Inl _ \<Rightarrow> None | Inr argv \<Rightarrow> if argv = [] then None else Some (pid, argv)) rows))"

primrec filter_act :: "('a \<Rightarrow> bool host_act) \<Rightarrow> 'a list \<Rightarrow> 'a list host_act" where
  "filter_act f [] = act_return []"
| "filter_act f (x # xs) =
     act_bind (f x) (\<lambda>b. act_bind (filter_act f xs) (\<lambda>ys. act_return (if b then x # ys else ys)))"

definition pids_naming_executable :: "host_env \<Rightarrow> string \<Rightarrow> string list option \<Rightarrow> int list host_act" where
  "pids_naming_executable env expected roles =
     act_bind (process_inventory env) (\<lambda>rows.
       filter_act (\<lambda>pid. pid_names_executable env pid expected roles) (map fst rows))"

definition verified_proxy_listener_pids :: "host_env \<Rightarrow> runtime_context \<Rightarrow> int list host_act" where
  "verified_proxy_listener_pids env ctx =
     act_bind (listener_pids env (port ctx)) (\<lambda>pids.
       filter_act (\<lambda>pid. pid_names_executable env pid (executable ctx) (Some LISTENER_ROLES)) pids)"

section \<open>The native runtime\<close>

definition runtime_pids :: "host_env \<Rightarrow> runtime_context \<Rightarrow> int list host_act" where
  "runtime_pids env ctx = pids_naming_executable env (executable ctx) (Some RUNTIME_ROLES)"

definition pid_list_text :: "int list \<Rightarrow> string" where
  "pid_list_text pids = ''['' @ comma_list (map int_text pids) @ '']''"

definition end_runtime_process :: "host_env \<Rightarrow> runtime_context \<Rightarrow> rat \<Rightarrow> int \<Rightarrow> unit host_act" where
  "end_runtime_process env ctx timeout pid =
     act_bind (terminate_executable env pid (executable ctx) (Some RUNTIME_ROLES) timeout) (\<lambda>ended.
       if ended then act_return ()
       else act_raise (install_error (''verified runtime process '' @ int_text pid @ '' did not exit'')))"

definition terminate_runtime :: "host_env \<Rightarrow> runtime_context \<Rightarrow> rat \<Rightarrow> nat host_act" where
  "terminate_runtime env ctx timeout =
     act_bind (runtime_pids env ctx) (\<lambda>pids.
     act_then (act_each (end_runtime_process env ctx timeout) pids)
    (act_bind (runtime_pids env ctx) (\<lambda>remaining.
       if remaining \<noteq> [] then act_raise (install_error (''verified runtime processes remain: '' @ pid_list_text remaining))
       else act_return (length pids))))"

definition supervise :: "host_env \<Rightarrow> service_op \<Rightarrow> runtime_context \<Rightarrow> unit host_act" where
  "supervise env operation ctx =
     act_then (called (Supervise operation ctx))
       (act_bind (look (\<lambda>n. service_done env n operation ctx)) act_lift)"

definition configured_executable :: "host_env \<Rightarrow> runtime_context \<Rightarrow> string option host_act" where
  "configured_executable env ctx = act_bind (look (\<lambda>n. service_configured env n ctx)) act_lift"

definition native_status :: "host_env \<Rightarrow> runtime_context \<Rightarrow> string host_act" where
  "native_status env ctx = act_bind (look (\<lambda>n. service_status env n ctx)) act_lift"

section \<open>Retrying ends by itself\<close>

text \<open>The retries that fit before the deadline, and one more, are enough.\<close>

lemma retry_step:
  fixes d c c' :: rat
  assumes "c \<le> c'" "0 < d - c'"
  shows "rounds (1 / 20) (d - (c' + max 0 (min (1 / 20) (d - c')))) < rounds (1 / 20) (d - c)"
proof (cases "1 / 20 \<le> d - c'")
  case True
  with rounds_step [of "1 / 20" c d c'] assms show ?thesis by (simp add: min_def)
next
  case False
  then have "rounds (1 / 20) (d - (c' + max 0 (min (1 / 20) (d - c')))) = 0" by (simp add: rounds_def min_def max_def)
  moreover have "0 < rounds (1 / 20) (d - c)"
    using rounds_step [of "1 / 20" c d c] assms by (cases "rounds (1 / 20) (d - c)") auto
  ultimately show ?thesis by simp
qed

lemma retry_enough:
  assumes "\<And>w r w'. m w = (r, w') \<Longrightarrow> h_clock w \<le> h_clock w'"
    and "rounds (1 / 20) (deadline - h_clock w) < n" "rounds (1 / 20) (deadline - h_clock w) < k"
  shows "retry n deadline m w = retry k deadline m w"
  using assms(2,3)
proof (induction n arbitrary: k w)
  case (Suc n)
  then obtain j where k: "k = Suc j" by (cases k) auto
  have "retry n deadline m w2 = retry j deadline m w2"
    if "m w = (r, w1)" "0 < deadline - h_clock w1" "w2 = w1\<lparr>h_clock := h_clock w1 + max 0 (min (1 / 20) (deadline - h_clock w1))\<rparr>" for r w1 w2
  proof -
    have "rounds (1 / 20) (deadline - h_clock w2) < rounds (1 / 20) (deadline - h_clock w)"
      using retry_step [OF assms(1) [OF that(1)] that(2)] that(3) by simp
    with Suc.prems k show ?thesis by (intro Suc.IH) linarith+
  qed
  then show ?case
    unfolding k retry.simps act_bind_def act_then_def monotonic_run elapse_run
    by (auto simp: not_le split: prod.splits sum.splits option.splits)
qed simp

section \<open>Who is signalled\<close>

text \<open>
  What the looks before look \<open>m\<close> showed of a process: the last of them arguments with one of the roles
  that name the executable, or the last but one such a role in the arguments and the last that the kernel
  runs the executable for it.
\<close>

definition role_at :: "host_env \<Rightarrow> string list option \<Rightarrow> nat \<Rightarrow> int \<Rightarrow> string list \<Rightarrow> bool" where
  "role_at env roles n pid argv \<longleftrightarrow>
     (\<exists>c. ps_at env n pid = Inr c \<and> argv_of c = Inr argv) \<and> argv \<noteq> [] \<and> has_role roles argv"

definition proven :: "host_env \<Rightarrow> nodes \<Rightarrow> string \<Rightarrow> string list option \<Rightarrow> nat \<Rightarrow> int \<Rightarrow> bool" where
  "proven env fs expected roles m pid \<longleftrightarrow>
     (\<exists>n argv. m = n + 1 \<and> role_at env roles n pid argv \<and>
        normalized_path env fs (hd argv) = normalized_path env fs expected) \<or>
     (\<exists>n argv k. m = n + 2 \<and> role_at env roles n pid argv \<and>
        ps_at env (n + 1) pid = Inr k \<and> kernel_executable_matches env fs k expected)"

lemmas host_runs = act_bind_def act_then_def act_return_def act_modify_def look_def file_tree_def monotonic_def elapse_def called_def

definition argv_at :: "host_env \<Rightarrow> nat \<Rightarrow> int \<Rightarrow> string list" where
  "argv_at env n pid =
     (case ps_at env n pid of Inl _ \<Rightarrow> [] | Inr c \<Rightarrow> (case argv_of c of Inl _ \<Rightarrow> [] | Inr argv \<Rightarrow> argv))"

lemma process_argv_run: "process_argv env pid w = (Inr (argv_at env (h_looks w) pid), w\<lparr>h_looks := Suc (h_looks w)\<rparr>)"
  by (simp add: process_argv_def host_runs argv_at_def)

lemma argv_at_shown: "argv_at env n pid \<noteq> [] \<Longrightarrow> \<exists>c. ps_at env n pid = Inr c \<and> argv_of c = Inr (argv_at env n pid)"
  by (auto simp: argv_at_def split: sum.splits)

lemma role_at_argv: "argv_at env n pid \<noteq> [] \<Longrightarrow> has_role roles (argv_at env n pid) \<Longrightarrow> role_at env roles n pid (argv_at env n pid)"
  unfolding role_at_def using argv_at_shown [of env n pid] by blast

lemma proven_argv: "argv_names_executable env fs (argv_at env n pid) expected roles \<Longrightarrow> proven env fs expected roles (Suc n) pid"
  unfolding proven_def
  by (intro disjI1 exI [of _ n] exI [of _ "argv_at env n pid"]) (simp add: role_at_argv argv_names_executable_def)

lemma proven_kernel:
  "argv_at env n pid \<noteq> [] \<Longrightarrow> has_role roles (argv_at env n pid) \<Longrightarrow> ps_at env (Suc n) pid = Inr k \<Longrightarrow>
   kernel_executable_matches env fs k expected \<Longrightarrow> proven env fs expected roles (Suc (Suc n)) pid"
  unfolding proven_def
  by (intro disjI2 exI [of _ n] exI [of _ "argv_at env n pid"] exI [of _ k]) (simp add: role_at_argv)

lemma pid_names_run:
  assumes "pid_names_executable env pid expected roles w = (r, w')"
  shows "\<exists>b n. r = Inr b \<and> w' = w\<lparr>h_looks := n\<rparr> \<and> h_looks w < n \<and>
    (b \<longrightarrow> proven env (nodes (h_disk w)) expected roles n pid)"
proof -
  let ?argv = "argv_at env (h_looks w) pid" and ?fs = "nodes (h_disk w)"
  note run = assms [unfolded pid_names_executable_def act_bind_def process_argv_run file_tree_def look_def act_return_def, simplified]
  consider "argv_names_executable env ?fs ?argv expected roles"
    | "\<not> argv_names_executable env ?fs ?argv expected roles" "?argv = [] \<or> \<not> has_role roles ?argv"
    | "\<not> argv_names_executable env ?fs ?argv expected roles" "?argv \<noteq> []" "has_role roles ?argv" by blast
  then show ?thesis
  proof cases
    case 1
    then have "proven env ?fs expected roles (Suc (h_looks w)) pid"
      by (rule proven_argv)
    with 1 run show ?thesis by (intro exI [of _ True] exI [of _ "Suc (h_looks w)"]) simp
  next
    case 2
    with run show ?thesis by (auto split: if_splits)
  next
    case 3
    let ?b = "case ps_at env (Suc (h_looks w)) pid of Inl _ \<Rightarrow> False | Inr c \<Rightarrow> kernel_executable_matches env ?fs c expected"
    have "proven env ?fs expected roles (Suc (Suc (h_looks w))) pid" if ?b
      using that proven_kernel [OF 3(2,3)] by (auto split: sum.splits)
    moreover from 3 run have "r = Inr ?b" "w' = w\<lparr>h_looks := Suc (Suc (h_looks w))\<rparr>"
      by (cases "ps_at env (Suc (h_looks w)) pid"; simp)+
    ultimately show ?thesis by (metis less_Suc_eq lessI)
  qed
qed

text \<open>
  The calls made since: each of them signals a process, and at that moment, after so many looks, it is
  proven.
\<close>

definition signals_since :: "(nat \<Rightarrow> int \<Rightarrow> bool) \<Rightarrow> host \<Rightarrow> host \<Rightarrow> bool" where
  "signals_since ok w w' \<longleftrightarrow>
     h_disk w' = h_disk w \<and> h_looks w \<le> h_looks w' \<and>
     (\<exists>new moments. h_calls w' = h_calls w @ new \<and> h_called_at w' = h_called_at w @ moments \<and>
        list_all2 (\<lambda>c m. \<exists>pid. c = Signal pid \<and> h_looks w < m \<and> ok m pid) new moments)"

lemma signals_refl: "signals_since ok w w"
  by (simp add: signals_since_def)

lemma signals_looked: "h_looks w \<le> n \<Longrightarrow> signals_since ok w (w\<lparr>h_looks := n\<rparr>)" "signals_since ok w (w\<lparr>h_clock := c\<rparr>)"
  by (simp_all add: signals_since_def)

lemma signals_trans [trans]:
  assumes "signals_since ok u v" "signals_since ok v w"
  shows "signals_since ok u w"
proof -
  let ?ok = "\<lambda>u c m. \<exists>pid. c = Signal pid \<and> h_looks u < m \<and> ok m pid"
  from assms obtain a b i j where
    a: "h_calls v = h_calls u @ a" "h_called_at v = h_called_at u @ i" "list_all2 (?ok u) a i" and
    b: "h_calls w = h_calls v @ b" "h_called_at w = h_called_at v @ j" "list_all2 (?ok v) b j" and
    o: "h_looks u \<le> h_looks v" "h_looks v \<le> h_looks w" "h_disk v = h_disk u" "h_disk w = h_disk v"
    by (auto simp: signals_since_def)
  have "list_all2 (?ok u) b j" by (rule list_all2_mono [OF b(3)]) (use o(1) in auto)
  with a(3) have "list_all2 (?ok u) (a @ b) (i @ j)" by (rule list_all2_appendI)
  with a(1,2) b(1,2) o show ?thesis unfolding signals_since_def by (intro conjI exI [of _ "a @ b"] exI [of _ "i @ j"]) auto
qed

text \<open>An action all of whose runs only signal what is proven, and only look otherwise.\<close>

definition careful :: "(nat \<Rightarrow> int \<Rightarrow> bool) \<Rightarrow> nodes \<Rightarrow> 'a host_act \<Rightarrow> bool" where
  "careful ok fs m \<longleftrightarrow> (\<forall>w r w'. nodes (h_disk w) = fs \<longrightarrow> m w = (r, w') \<longrightarrow> signals_since ok w w')"

lemma carefulD: "careful ok fs m \<Longrightarrow> nodes (h_disk w) = fs \<Longrightarrow> m w = (r, w') \<Longrightarrow> signals_since ok w w'"
  by (simp add: careful_def)

lemma careful_bind:
  assumes "careful ok fs m" "\<And>x. careful ok fs (f x)"
  shows "careful ok fs (act_bind m f)"
  unfolding careful_def
proof (intro allI impI)
  fix w r w' assume w: "nodes (h_disk w) = fs" "act_bind m f w = (r, w')"
  obtain r1 w1 where m: "m w = (r1, w1)" by fastforce
  have 1: "signals_since ok w w1" by (rule carefulD [OF assms(1) w(1) m])
  then have fs: "nodes (h_disk w1) = fs" using w(1) by (simp add: signals_since_def)
  show "signals_since ok w w'"
  proof (cases r1)
    case (Inl e) with 1 m w show ?thesis by (simp add: act_bind_def)
  next
    case (Inr x)
    with w m have "f x w1 = (r, w')" by (simp add: act_bind_def)
    from signals_trans [OF 1 carefulD [OF assms(2) fs this]] show ?thesis .
  qed
qed

lemma careful_basic:
  "careful ok fs (act_return x)" "careful ok fs (act_raise e)" "careful ok fs (act_lift s)" "careful ok fs (look f)"
  "careful ok fs file_tree" "careful ok fs monotonic" "careful ok fs (elapse t)"
  by (auto simp: careful_def act_return_def act_raise_def act_lift_def look_def file_tree_def monotonic_def elapse_def act_modify_def
      intro: signals_refl signals_looked)

lemma careful_then: "careful ok fs m \<Longrightarrow> careful ok fs n \<Longrightarrow> careful ok fs (act_then m n)"
  unfolding act_then_def by (rule careful_bind)

lemma careful_each: "(\<And>x. careful ok fs (f x)) \<Longrightarrow> careful ok fs (act_each f xs)"
  by (induction xs) (simp_all add: careful_basic careful_then)

lemma careful_filter: "(\<And>x. careful ok fs (f x)) \<Longrightarrow> careful ok fs (filter_act f xs)"
  by (induction xs) (simp_all add: careful_basic careful_bind)

lemma careful_names: "careful ok fs (pid_names_executable env pid expected roles)"
  unfolding careful_def using pid_names_run [of env pid expected roles] by (fastforce intro: signals_looked)

lemma careful_inventory: "careful ok fs (process_inventory env)"
  unfolding process_inventory_def by (intro careful_bind careful_basic) (auto intro: careful_basic split: prod.splits)

lemma careful_runtime_pids: "careful ok fs (runtime_pids env ctx)"
  unfolding runtime_pids_def pids_naming_executable_def by (intro careful_bind careful_inventory careful_filter careful_names)

lemma end_process_signals:
  assumes "end_process env pid timeout v = (r, w')" "ok (h_looks v) pid" "h_looks w < h_looks v" "signals_since ok w v"
  shows "signals_since ok w w'"
proof -
  let ?v = "v\<lparr>h_calls := h_calls v @ [Signal pid], h_called_at := h_called_at v @ [h_looks v]\<rparr>"
  let ?ok = "\<lambda>c m. \<exists>pid. c = Signal pid \<and> h_looks w < m \<and> ok m pid"
  from assms(4) obtain new moments where new: "h_calls v = h_calls w @ new" "h_called_at v = h_called_at w @ moments"
      "list_all2 ?ok new moments"
    by (auto simp: signals_since_def)
  have "list_all2 ?ok (new @ [Signal pid]) (moments @ [h_looks v])"
    using new(3) assms(2,3) by (intro list_all2_appendI) auto
  with assms(4) new(1,2) have "signals_since ok w ?v"
    unfolding signals_since_def by (intro conjI exI [of _ "new @ [Signal pid]"] exI [of _ "moments @ [h_looks v]"]) auto
  also have "signals_since ok ?v w'"
  proof (rule carefulD [OF _ refl])
    show "careful ok (nodes (h_disk ?v)) (act_bind (look (\<lambda>n. ps_terminate env n pid)) (\<lambda>failed.
       if failed \<noteq> None then act_return failed
       else act_bind (look (\<lambda>n. ps_wait env n pid timeout)) (\<lambda>(t, r). act_then (elapse t) (act_return r))))" (is "careful _ _ ?m")
      by (intro careful_bind careful_basic) (auto intro!: careful_bind careful_basic careful_then split: prod.splits)
    show "?m ?v = (r, w')"
      using assms(1) unfolding end_process_def act_then_def called_def
      by (subst (asm) act_bind_eq [where x = "()" and ?w1.0 = ?v]) (simp_all add: act_modify_def)
  qed
  finally show ?thesis .
qed

lemma careful_terminate:
  "careful (proven env fs expected roles) fs (terminate_executable env pid expected roles timeout)"
  unfolding careful_def
proof (intro allI impI)
  let ?ok = "proven env fs expected roles"
  fix w r w' assume fs: "nodes (h_disk w) = fs" and run: "terminate_executable env pid expected roles timeout w = (r, w')"
  obtain r1 w1 where 1: "pid_names_executable env pid expected roles w = (r1, w1)" by fastforce
  obtain b where b: "r1 = Inr b" using pid_names_run [OF 1] by blast
  let ?w2 = "w1\<lparr>h_looks := Suc (h_looks w1)\<rparr>"
  obtain r3 w3 where 3: "pid_names_executable env pid expected roles ?w2 = (r3, w3)" by fastforce
  have s1: "signals_since ?ok w w1" by (rule carefulD [OF careful_names fs 1])
  then have s2: "signals_since ?ok w ?w2" by (rule signals_trans) (rule signals_looked, simp)
  have fs2: "nodes (h_disk ?w2) = fs" using s2 fs by (simp add: signals_since_def)
  have s3: "signals_since ?ok w w3" by (rule signals_trans [OF s2 carefulD [OF careful_names fs2 3]])
  obtain still n where still: "r3 = Inr still" "w3 = ?w2\<lparr>h_looks := n\<rparr>" "h_looks ?w2 < n"
      "still \<longrightarrow> proven env fs expected roles n pid"
    using pid_names_run [OF 3] fs2 by auto
  show "signals_since ?ok w w'"
  proof (cases "b \<and> still \<and> (\<exists>c. ps_at env (h_looks w1) pid = Inr c)")
    case True
    then obtain r4 where "end_process env pid timeout w3 = (r4, w')"
      using run 1 3 b still by (auto simp: terminate_executable_def act_bind_def look_def act_return_def split: prod.splits sum.splits)
    moreover have "h_looks w \<le> h_looks ?w2" using s2 by (simp add: signals_since_def)
    ultimately show ?thesis
      using True still s3 by (intro end_process_signals [of env pid timeout w3 r4 w' ?ok w]) auto
  next
    case False
    then have "w' \<in> {w1, ?w2, w3}"
      using run 1 3 b still(1) by (auto simp: terminate_executable_def act_bind_def look_def act_return_def split: prod.splits sum.splits if_splits)
    with s1 s2 s3 show ?thesis by auto
  qed
qed

text \<open>
  Claim C13.  The installation only ever ends its own processes: whichever processes come and go meanwhile,
  ending the runtime of a generation leaves the files alone and makes no call but signals, and every
  signal goes to a process that was proven at the very last looks before it, with no look in between: its
  arguments have one of the private roles, and either they name the executable of this generation or the
  kernel reports that executable for it.  A proof taken earlier, as in the inventory of the processes,
  does not count.
\<close>

theorem terminate_runtime_owned:
  assumes "terminate_runtime env ctx timeout w = (r, w')"
  shows "signals_since (proven env (nodes (h_disk w)) (executable ctx) (Some RUNTIME_ROLES)) w w'"
proof -
  let ?ok = "proven env (nodes (h_disk w)) (executable ctx) (Some RUNTIME_ROLES)"
  have "careful ?ok (nodes (h_disk w)) (terminate_runtime env ctx timeout)"
    unfolding terminate_runtime_def end_runtime_process_def
    by (intro careful_bind careful_then careful_each careful_runtime_pids careful_terminate) (auto intro: careful_basic)
  from carefulD [OF this refl assms] show ?thesis .
qed

end
