(* ===== verification/Disk_Facts.thy ===== *)
theory Disk_Facts
  imports Owned_Files
begin

text \<open>
  What system calls leave alone.  A \<open>view\<close> is the part of the tree on a set of paths; a path is plain in a
  view when the folders on its way are in it, so that the path is the place it names.  The lemmas say
  that a call on a plain path outside a view keeps the view, and that calls that only read keep
  everything.
\<close>

section \<open>Resolution\<close>

lemma lookup_Nil [simp]: "lookup fs [] = Some Folder"
  by (simp add: lookup_def)

lemma lookup_map_of: "p \<noteq> [] \<Longrightarrow> lookup fs p = map_of fs p"
  by (simp add: lookup_def)

lemma walk_folders:
  assumes "\<And>q. prefix q cs \<Longrightarrow> q \<noteq> [] \<Longrightarrow> lookup fs (pre @ q) = Some Folder" and "''..'' \<notin> set cs"
  shows "walk l fs n pre cs = Some (pre @ cs)"
  using assms
proof (induction cs arbitrary: pre)
  case (Cons c cs)
  from Cons.prems(1) [of "[c]"] have "lookup fs (pre @ [c]) = Some Folder" by simp
  moreover have "walk l fs n (pre @ [c]) cs = Some ((pre @ [c]) @ cs)"
  proof (rule Cons.IH)
    fix q assume "prefix q cs" "q \<noteq> []"
    then show "lookup fs ((pre @ [c]) @ q) = Some Folder" using Cons.prems(1) [of "c # q"] by simp
  qed (use Cons.prems(2) in simp)
  moreover have "c \<noteq> ''..''" using Cons.prems(2) by auto
  ultimately show ?case by (simp add: walk.simps(2))
qed simp

text \<open>A path whose ancestors are folders leads to itself, unless it is a link.\<close>

lemma walk_last:
  assumes "walk False fs n pre cs = Some d" and "lookup fs d = Some Folder"
  shows "\<exists>m. walk False fs n pre (cs @ [c]) = walk False fs m d [c]"
  using assms
proof (induction False fs n pre cs rule: walk.induct)
  case (2 fs n pre x cs)
  show ?case
  proof (cases "x = ''..''")
    case True
    with 2 show ?thesis by (auto simp: walk.simps(2) [of _ _ _ _ "''..''"])
  next
    case False
    note step = walk.simps(2) [of False fs _ pre x]
    show ?thesis
    proof (cases "lookup fs (pre @ [x])")
      case None
      with "2.prems" False have "d = pre @ [x]" by (auto simp: step split: if_splits)
      with None "2.prems"(2) show ?thesis by simp
    next
      case (Some k)
      show ?thesis
      proof (cases k)
        case Folder
        with 2(3) [OF False Some Folder] "2.prems" Some False show ?thesis by (simp add: step)
      next
        case (Regular i b)
        with "2.prems" Some False have "d = pre @ [x]" by (auto simp: step split: if_splits)
        with Some Regular "2.prems"(2) show ?thesis by simp
      next
        case (Symlink i t)
        show ?thesis
        proof (cases n)
          case 0
          with "2.prems"(1) Some Symlink False show ?thesis by (simp add: step)
        next
          case (Suc m)
          with 2(5) [OF False Some Symlink Suc] "2.prems" Some Symlink False show ?thesis by (simp add: step)
        qed
      qed
    qed
  qed
qed auto

lemma lstat_stat: "lstat fs p = Some k \<Longrightarrow> \<not> symlink_node (Some k) \<Longrightarrow> stat fs p = Some k"
proof (cases "p = [] \<or> last p = ''..''")
  case False
  assume k: "lstat fs p = Some k" "\<not> symlink_node (Some k)"
  with False obtain d where d: "real_path fs (butlast p) = Some d" "lookup fs d = Some Folder"
    "lookup fs (d @ [last p]) = Some k"
    by (auto simp: lstat_def entry_def split: option.splits if_splits)
  from walk_last [of fs MAX_LINKS "[]" "butlast p" d "last p"] d False
  obtain m where "real_path fs p = walk False fs m d [last p]"
    by (auto simp: real_path_def)
  then have "real_path fs p = Some (d @ [last p])"
    using d(3) k(2) False by (cases k) (auto simp: walk.simps(2))
  with d(3) show ?thesis by (simp add: stat_def)
qed (auto simp: lstat_def stat_def entry_def)

lemma walk_delete:
  assumes "walk False (AList.delete e fs) n pre cs = Some q" and "lookup fs e \<noteq> Some Folder"
  shows "walk False fs n pre cs = Some q \<or> q = e"
  using assms
proof (induction False "AList.delete e fs" n pre cs arbitrary: rule: walk.induct)
  case (2 n pre c cs)
  have look: "lookup (AList.delete e fs) p = (if p = e \<and> p \<noteq> [] then None else lookup fs p)" for p
    by (simp add: lookup_def)
  note old = walk.simps(2) [of False fs _ pre c cs] and new = walk.simps(2) [of False "AList.delete e fs" _ pre c cs]
  show ?case
  proof (cases "c = ''..''")
    case True
    with 2(1) [OF True] "2.prems" old new show ?thesis by simp
  next
    case False
    show ?thesis
    proof (cases "pre @ [c] = e")
      case True
      with "2.prems"(1) False show ?thesis by (auto simp: new look split: if_splits)
    next
      case other: False
      then have same: "lookup (AList.delete e fs) (pre @ [c]) = lookup fs (pre @ [c])" by (simp add: look)
      show ?thesis
      proof (cases "lookup fs (pre @ [c])")
        case None
        with "2.prems"(1) False same show ?thesis by (auto simp: old new split: if_splits)
      next
        case (Some k)
        show ?thesis
        proof (cases k)
          case Folder
          with 2(3) [OF False _ Folder] "2.prems" Some same False show ?thesis by (simp add: old new)
        next
          case (Regular i b)
          with "2.prems"(1) False Some same show ?thesis by (auto simp: old new split: if_splits)
        next
          case (Symlink i t)
          with 2(5) [OF False _ Symlink] "2.prems" Some same False show ?thesis by (cases n) (simp_all add: old new)
        qed
      qed
    qed
  qed
qed simp

section \<open>Removing one node\<close>

text \<open>What is not there before a file or link is removed is not there after, and it is gone itself.\<close>

lemma stat_delete:
  assumes "stat fs p = None" "lookup fs e \<noteq> Some Folder" "e \<noteq> []"
  shows "stat (AList.delete e fs) p = None"
proof (rule ccontr)
  assume "\<not> ?thesis"
  then obtain q k where q: "real_path (AList.delete e fs) p = Some q" "lookup (AList.delete e fs) q = Some k"
    by (auto simp: stat_def split: Option.bind_splits)
  with assms(3) have "q \<noteq> e" "lookup fs q = Some k" by (auto simp: lookup_def split: if_splits)
  with walk_delete [of e fs MAX_LINKS "[]" p q] q(1) assms(2) have "real_path fs p = Some q"
    by (simp add: real_path_def)
  with \<open>lookup fs q = Some k\<close> assms(1) show False by (simp add: stat_def)
qed

lemma lstat_delete:
  assumes "entry fs p = Some e" "lookup fs e \<noteq> Some Folder" "e \<noteq> []"
  shows "lstat (AList.delete e fs) p = None"
proof (rule ccontr)
  let ?fs = "AList.delete e fs"
  assume "\<not> ?thesis"
  then obtain q k where q: "entry ?fs p = Some q" "lookup ?fs q = Some k"
    by (auto simp: lstat_def split: Option.bind_splits)
  then have "q \<noteq> e" using assms(3) by (auto simp: lookup_def split: if_splits)
  have keep: "real_path fs p' = Some d" if "real_path ?fs p' = Some d" "d \<noteq> e" for p' d
    using walk_delete [of e fs MAX_LINKS "[]" p' d] that assms(2) by (simp add: real_path_def)
  have "entry fs p = Some q"
  proof (cases "p = [] \<or> last p = ''..''")
    case True
    with q(1) keep [of p q] \<open>q \<noteq> e\<close> show ?thesis by (simp add: entry_def)
  next
    case False
    with q(1) obtain d where d: "real_path ?fs (butlast p) = Some d" "lookup ?fs d = Some Folder" "q = d @ [last p]"
      by (auto simp: entry_def split: option.splits if_splits)
    then have "d \<noteq> e" "lookup fs d = Some Folder" using assms(3) by (auto simp: lookup_def split: if_splits)
    with keep [of "butlast p" d] d False show ?thesis by (simp add: entry_def)
  qed
  with assms(1) \<open>q \<noteq> e\<close> show False by simp
qed

section \<open>Runs of the lifecycle's combinators\<close>

lemma raising_run [returns]: "raising c e m w = (Inr x, w') \<longleftrightarrow> m w = (Inr x, w')"
  by (auto simp: raising_def act_catch_def act_raise_def split: prod.splits sum.splits if_splits)

lemma with_fs_run [returns]: "with_fs f w = (r, w') \<longleftrightarrow> f (nodes w) w = (r, w')"
  by (simp add: with_fs_def)

lemma fail_if_run [returns]: "fail_if b e w = (Inr y, w') \<longleftrightarrow> \<not> b \<and> w' = w"
  by (auto simp: fail_if_def act_raise_def act_return_def)

lemma os_call_run: "os_call w = (r, w') \<Longrightarrow> nodes w' = nodes w"
  by (auto simp: os_call_def split: list.splits if_splits)

lemma some_run [returns]:
  "(case x of None \<Rightarrow> act_raise e | Some a \<Rightarrow> f a) w = (Inr y, w') \<longleftrightarrow> (\<exists>a. x = Some a \<and> f a w = (Inr y, w'))"
  by (cases x) (auto simp: act_raise_run)

lemma at_entry_run [returns]:
  "at_entry p f w = (Inr y, w') \<longleftrightarrow>
     (\<exists>w1 e. os_call w = (Inr (), w1) \<and> nodes w1 = nodes w \<and> entry (nodes w) p = Some e \<and> f (nodes w) e w1 = (Inr y, w'))"
  by (auto simp: at_entry_def act_then_run with_fs_run some_run) (metis os_call_run)+

section \<open>Plain paths\<close>

text \<open>The ancestors of a plain path are folders, so that it is the place it names.\<close>

definition plain :: "(path \<Rightarrow> node option) \<Rightarrow> path \<Rightarrow> bool" where
  "plain v p \<longleftrightarrow> p \<noteq> [] \<and> ''..'' \<notin> set p \<and> (\<forall>q. strict_prefix q p \<longrightarrow> q \<noteq> [] \<longrightarrow> v q = Some Folder)"

lemma strict_prefix_butlast: "p \<noteq> [] \<Longrightarrow> strict_prefix q p \<longleftrightarrow> prefix q (butlast p)"
proof -
  assume "p \<noteq> []"
  then obtain a b where "p = a @ [b]" by (metis append_butlast_last_id)
  then show ?thesis by (auto simp: strict_prefix_def)
qed

lemma plain_parent: "plain (map_of fs) p \<Longrightarrow> real_path fs (butlast p) = Some (butlast p)"
proof -
  assume p: "plain (map_of fs) p"
  have "walk False fs MAX_LINKS [] (butlast p) = Some ([] @ butlast p)"
  proof (rule walk_folders)
    show "''..'' \<notin> set (butlast p)" using p by (auto simp: plain_def dest: in_set_butlastD)
    fix q assume "prefix q (butlast p)" "q \<noteq> []"
    with p show "lookup fs ([] @ q) = Some Folder"
      by (simp add: plain_def strict_prefix_butlast lookup_map_of)
  qed
  then show ?thesis by (simp add: real_path_def)
qed

lemma plain_folder: "plain (map_of fs) p \<Longrightarrow> lookup fs (butlast p) = Some Folder"
  by (cases "butlast p = []") (auto simp: plain_def strict_prefix_butlast lookup_map_of)

lemma entry_plain: "plain (map_of fs) p \<Longrightarrow> entry fs p = Some p"
proof -
  assume p: "plain (map_of fs) p"
  then have "p \<noteq> []" "''..'' \<notin> set p" by (simp_all add: plain_def)
  moreover then have "last p \<noteq> ''..''" by (metis last_in_set)
  ultimately show ?thesis using plain_parent [OF p] plain_folder [OF p] by (simp add: entry_def)
qed

lemma lstat_plain: "plain (map_of fs) p \<Longrightarrow> lstat fs p = map_of fs p"
  by (simp add: lstat_def entry_plain) (simp add: plain_def lookup_map_of)

lemma is_symlink_plain: "plain (map_of fs) p \<Longrightarrow> is_symlink fs p = symlink_node (map_of fs p)"
  by (simp add: is_symlink_def lstat_plain)

lemma plain_prefix: "plain v p \<Longrightarrow> prefix q p \<Longrightarrow> q \<noteq> [] \<Longrightarrow> plain v q"
  unfolding plain_def using prefix_order.less_le_trans by (auto dest: set_mono_prefix)

lemma folder_plain:
  assumes "plain (map_of fs) p" "strict_prefix q p" "q \<noteq> []"
  shows "is_dir fs q" "\<not> is_symlink fs q"
proof -
  have q: "map_of fs q = Some Folder" "plain (map_of fs) q"
    using assms plain_prefix [of "map_of fs" p q] by (auto simp: plain_def)
  then show "\<not> is_symlink fs q" by (simp add: is_symlink_plain)
  from lstat_stat [of fs q Folder] q show "is_dir fs q" by (simp add: is_dir_def lstat_plain)
qed

lemma is_dir_Nil: "is_dir fs []" "\<not> is_symlink fs []"
  by (simp_all add: is_dir_def is_symlink_def stat_def lstat_def entry_def real_path_def)

section \<open>Atomic writes\<close>

lemma mkdir_parents_plain:
  assumes "plain (map_of (nodes w)) p" "strict_prefix q p"
  shows "mkdir_parents q w = (Inr (), w)"
proof -
  have "is_dir (nodes w) a" if "a \<in> set (tl (prefixes q))" for a
    using that assms folder_plain(1) [of "nodes w" p a]
    by (metis in_set_prefixes list.set_sel(2) is_dir_Nil(1) prefix_order.le_less_trans prefixes_not_Nil)
  then have "act_each (\<lambda>q. with_fs (\<lambda>fs. if is_dir fs q then act_return () else mkdir q)) as w = (Inr (), w)"
    if "set as \<subseteq> set (tl (prefixes q))" for as
    using that by (induction as) (auto simp: act_return_def act_then_def act_bind_def with_fs_def)
  then show ?thesis by (simp add: mkdir_parents_def)
qed

lemma real_parent_plain:
  assumes "plain (map_of (nodes w)) p"
  shows "real_parent p (butlast p) w = (Inr (), w)"
proof -
  have less: "strict_prefix (butlast p) p" using assms by (simp add: plain_def strict_prefix_butlast)
  have "is_dir (nodes w) (butlast p) \<and> \<not> is_symlink (nodes w) (butlast p)"
    using folder_plain [OF assms less] is_dir_Nil by (cases "butlast p = []") auto
  moreover have "folders_below (butlast p) p = []" by (auto simp: folders_below_def filter_empty_conv)
  ultimately show ?thesis
    using mkdir_parents_plain [OF assms less] prefix_order.less_imp_le [OF less]
    by (simp add: real_parent_def act_then_def act_bind_def with_fs_def fail_if_def act_return_def)
qed

text \<open>A call on the place of a plain path, from the nodes it finds.\<close>

lemma valid_at_entry:
  assumes "\<And>w. P w \<Longrightarrow> plain (map_of (nodes w)) p" "\<And>w w'. nodes w' = nodes w \<Longrightarrow> P w \<Longrightarrow> P w'"
    and "\<And>w. P w \<Longrightarrow> E w"
    and "\<And>fs. valid (\<lambda>w. P w \<and> nodes w = fs) (f fs p) Q E"
  shows "valid P (at_entry p f) Q E"
proof -
  have "valid P os_call (\<lambda>_. P) E"
    unfolding valid_def using os_call_run assms(2,3)
    by (intro allI impI) (metis (mono_tags, lifting) case_prod_unfold prod.collapse sum.case_eq_if)
  moreover have "valid P (with_fs (\<lambda>fs. case entry fs p of None \<Rightarrow> act_raise OSError | Some e \<Rightarrow> f fs e)) Q E"
    using assms(1,4) by (auto simp: valid_def with_fs_def entry_plain)
  ultimately show ?thesis unfolding at_entry_def by (rule valid_then)
qed

lemma valid_with_fs: "(\<And>fs. valid (\<lambda>w. P w \<and> nodes w = fs) (f fs) Q E) \<Longrightarrow> valid P (with_fs f) Q E"
  by (simp add: valid_def with_fs_def)

lemma valid_raise: "(\<And>w. P w \<Longrightarrow> E w) \<Longrightarrow> valid P (act_raise e) Q E"
  by (simp add: valid_def act_raise_def)

lemma valid_fail_if: "(\<And>w. P w \<Longrightarrow> E w) \<Longrightarrow> (\<And>w. \<not> b \<Longrightarrow> P w \<Longrightarrow> Q () w) \<Longrightarrow> valid P (fail_if b e) Q E"
  by (simp add: valid_def fail_if_def act_raise_def act_return_def)

lemma valid_put_node: "(\<And>w. P w \<Longrightarrow> Q () (w\<lparr>nodes := AList.update e n (nodes w)\<rparr>)) \<Longrightarrow> valid P (put_node e n) Q E"
  unfolding put_node_def by (rule valid_modify)

lemma valid_drop_node: "(\<And>w. P w \<Longrightarrow> Q () (w\<lparr>nodes := AList.delete e (nodes w)\<rparr>)) \<Longrightarrow> valid P (drop_node e) Q E"
  unfolding drop_node_def by (rule valid_modify)

lemma plain_sibling:
  assumes "plain v p" "n \<noteq> ''..''"
  shows "plain v (butlast p @ [n])"
  unfolding plain_def
proof (intro conjI allI impI)
  show "''..'' \<notin> set (butlast p @ [n])" using assms by (auto simp: plain_def dest: in_set_butlastD)
  fix q assume "strict_prefix q (butlast p @ [n])" "q \<noteq> []"
  then have "prefix q (butlast p)" using strict_prefix_butlast [of "butlast p @ [n]" q] by simp
  moreover have "p \<noteq> []" using assms(1) by (simp add: plain_def)
  ultimately have "strict_prefix q p" using strict_prefix_butlast by blast
  with assms(1) \<open>q \<noteq> []\<close> show "v q = Some Folder" unfolding plain_def by blast
qed simp

lemma plain_cong:
  assumes "plain v p" "\<And>q. strict_prefix q p \<Longrightarrow> q \<noteq> [] \<Longrightarrow> v' q = v q"
  shows "plain v' p"
  using assms by (auto simp: plain_def)

lemma temporary_sibling: "plain v t \<Longrightarrow> plain v (temporary_name env t n)"
  unfolding temporary_name_def by (rule plain_sibling) auto

lemma temporary_other: "t \<noteq> [] \<Longrightarrow> temporary_name env t n \<noteq> t"
proof
  assume t: "t \<noteq> []" and same: "temporary_name env t n = t"
  from arg_cong [OF same, of "\<lambda>p. length (last p)"] t show False
    by (simp add: temporary_name_def path_name_def)
qed

text \<open>
  The steps of a write: only the temporary file differs, then it has the new bytes, then the target has
  them.
\<close>

definition only_at :: "path set \<Rightarrow> nodes \<Rightarrow> disk \<Rightarrow> bool" where
  "only_at ps fs w \<longleftrightarrow> (\<forall>q. q \<notin> ps \<longrightarrow> map_of (nodes w) q = map_of fs q)"

definition holds_bytes :: "path \<Rightarrow> bytes \<Rightarrow> disk \<Rightarrow> bool" where
  "holds_bytes p content w \<longleftrightarrow> (\<exists>i. map_of (nodes w) p = Some (Regular i content))"

lemma only_at_plain:
  assumes "only_at ps fs w" "plain (map_of fs) t" "\<And>q. q \<in> ps \<Longrightarrow> \<not> strict_prefix q t"
  shows "plain (map_of (nodes w)) t"
  by (rule plain_cong [OF assms(2)]) (use assms(1,3) in \<open>auto simp: only_at_def\<close>)

lemma only_at_kept: "nodes w' = nodes w \<Longrightarrow> only_at ps fs w \<Longrightarrow> only_at ps fs w'"
  "nodes w' = nodes w \<Longrightarrow> holds_bytes p c w \<Longrightarrow> holds_bytes p c w'"
  by (simp_all add: only_at_def holds_bytes_def)

lemma write_places:
  assumes "plain (map_of fs) t" "u = temporary_name env t n"
  shows "plain (map_of fs) u" "u \<noteq> t" "\<not> strict_prefix u t" "\<not> strict_prefix t u"
proof -
  have "t \<noteq> []" using assms(1) by (simp add: plain_def)
  then have "length u = length t" by (simp add: assms(2) temporary_name_def)
  then show "\<not> strict_prefix u t" "\<not> strict_prefix t u" by (auto dest: prefix_length_less)
  show "plain (map_of fs) u" "u \<noteq> t"
    using temporary_sibling [OF assms(1)] temporary_other [OF \<open>t \<noteq> []\<close>] by (simp_all add: assms(2))
qed

text \<open>A state in which only the target and its temporary file differ leaves both plain.\<close>

lemma written_plain:
  assumes "plain (map_of fs) t" "u = temporary_name env t n" "only_at ps fs w" "ps \<subseteq> {u, t}"
  shows "plain (map_of (nodes w)) t" "plain (map_of (nodes w)) u"
  using only_at_plain [OF assms(3,1)] only_at_plain [OF assms(3) write_places(1) [OF assms(1,2)]]
    write_places [OF assms(1,2)] assms(4) by blast+

lemma write_temporary:
  assumes t: "plain (map_of fs) t" and u: "u = temporary_name env t n"
  shows "valid (only_at {u} fs) (open_exclusive u) (\<lambda>_. only_at {u} fs) (only_at {u} fs)"
    and "valid (only_at {u} fs) (write_content u content) (\<lambda>_ w. only_at {u} fs w \<and> holds_bytes u content w) (only_at {u} fs)"
proof -
  have p: "only_at {u} fs w \<Longrightarrow> plain (map_of (nodes w)) u" for w
    using written_plain(2) [OF t u] by blast
  show "valid (only_at {u} fs) (open_exclusive u) (\<lambda>_. only_at {u} fs) (only_at {u} fs)"
    unfolding open_exclusive_def
    by (rule valid_at_entry [OF p])
      (auto simp: only_at_def valid_def act_raise_def act_bind_def new_inode_def put_node_def act_modify_def)
  show "valid (only_at {u} fs) (write_content u content) (\<lambda>_ w. only_at {u} fs w \<and> holds_bytes u content w) (only_at {u} fs)"
    unfolding write_content_def
    by (rule valid_at_entry [OF p])
      (auto simp: only_at_def holds_bytes_def valid_def act_raise_def put_node_def act_modify_def split: option.splits node.splits)
qed

definition written :: "path \<Rightarrow> path \<Rightarrow> nodes \<Rightarrow> bytes \<Rightarrow> disk \<Rightarrow> bool" where
  "written t u fs content w \<longleftrightarrow> only_at {u, t} fs w \<and> holds_bytes t content w"

lemma replace_temporary:
  assumes t: "plain (map_of fs) t" and u: "u = temporary_name env t n"
  shows "valid (\<lambda>w. only_at {u} fs w \<and> holds_bytes u content w) (replace u t) (\<lambda>_. written t u fs content) (only_at {u} fs)"
  unfolding replace_def
proof (rule valid_at_entry)
  fix fs'
  have p: "only_at {u} fs w \<Longrightarrow> plain (map_of (nodes w)) t" for w
    using written_plain(1) [OF t u] by blast
  have "t \<noteq> []" "u \<noteq> []" using t write_places(1) [OF t u] by (simp_all add: plain_def)
  with write_places(2) [OF t u]
  show "valid (\<lambda>w. (only_at {u} fs w \<and> holds_bytes u content w) \<and> nodes w = fs')
     (case (lookup fs' u, entry fs' t) of
        (Some n, Some t) \<Rightarrow>
          if n = Folder \<or> lookup fs' t = Some Folder then act_raise OSError
          else act_then (drop_node u) (put_node t n)
      | _ \<Rightarrow> act_raise OSError)
     (\<lambda>_. written t u fs content) (only_at {u} fs)"
    using entry_plain [OF p]
    by (auto simp: valid_def only_at_def holds_bytes_def written_def lookup_map_of act_raise_def act_then_def act_bind_def
        drop_node_def put_node_def act_modify_def split: if_splits)
qed (use written_plain(2) [OF t u] only_at_kept in blast)+

lemma unlink_temporary:
  assumes t: "plain (map_of fs) t" and u: "u = temporary_name env t n"
  shows "valid (only_at {u} fs) (unlink True u) (\<lambda>_. only_at {u} fs) (only_at {u} fs)"
    and "valid (written t u fs content) (unlink True u) (\<lambda>_ w. written t u fs content w \<and> map_of (nodes w) u = None)
           (written t u fs content)"
proof -
  have "t \<noteq> []" "u \<noteq> []" using t write_places(1) [OF t u] by (simp_all add: plain_def)
  show "valid (only_at {u} fs) (unlink True u) (\<lambda>_. only_at {u} fs) (only_at {u} fs)"
    unfolding unlink_def
    by (rule valid_at_entry)
      (use written_plain(2) [OF t u] only_at_kept in blast,
       auto simp: only_at_def valid_def act_raise_def act_return_def drop_node_def act_modify_def split: option.splits node.splits)
  show "valid (written t u fs content) (unlink True u) (\<lambda>_ w. written t u fs content w \<and> map_of (nodes w) u = None)
           (written t u fs content)"
    unfolding unlink_def
  proof (rule valid_at_entry)
    fix fs'
    show "valid (\<lambda>w. written t u fs content w \<and> nodes w = fs')
       (case lookup fs' u of None \<Rightarrow> if True then act_return () else act_raise OSError
        | Some Folder \<Rightarrow> act_raise OSError | Some _ \<Rightarrow> drop_node u)
       (\<lambda>_ w. written t u fs content w \<and> map_of (nodes w) u = None) (written t u fs content)"
      using \<open>u \<noteq> []\<close> write_places(2) [OF t u]
      by (auto simp: written_def only_at_def holds_bytes_def valid_def lookup_map_of act_raise_def act_return_def
          drop_node_def act_modify_def split: option.splits node.splits)
  qed (use written_plain(2) [OF t u] only_at_kept in \<open>auto simp: written_def\<close>)
qed

lemma real_parent_keeps:
  assumes "\<And>w. P w \<Longrightarrow> plain (map_of (nodes w)) t" "\<And>w. P w \<Longrightarrow> E w"
  shows "valid P (real_parent t (butlast t)) (\<lambda>_. P) E"
  using assms real_parent_plain by (auto simp: valid_def)

lemma replaceable_keeps: "(\<And>w. P w \<Longrightarrow> E w) \<Longrightarrow> valid P (replaceable m t) (\<lambda>_. P) E"
  unfolding replaceable_def by (rule valid_with_fs, rule valid_fail_if) auto

text \<open>The body of the write, once the temporary name is drawn.\<close>

lemma write_steps:
  assumes t: "plain (map_of fs) t" and u: "u = temporary_name env t n"
  shows "valid (only_at {u} fs)
     (act_then (open_exclusive u)
        (act_ensure
          (act_then (write_content u content)
          (act_then (real_parent t (butlast t))
          (act_then (replaceable m t) (replace u t))))
          (unlink True u)))
     (\<lambda>_ w. written t u fs content w \<and> map_of (nodes w) u = None)
     (\<lambda>w. only_at {u} fs w \<or> written t u fs content w)"
proof (rule valid_then)
  let ?A = "only_at {u} fs" and ?C = "\<lambda>w. only_at {u} fs w \<and> holds_bytes u content w"
  let ?E = "\<lambda>w. only_at {u} fs w \<or> written t u fs content w"
  show "valid ?A (open_exclusive u) (\<lambda>_. ?A) ?E"
    by (rule valid_conseq [OF write_temporary(1) [OF t u]]) auto
  have p: "?C w \<Longrightarrow> plain (map_of (nodes w)) t" for w using written_plain(1) [OF t u] by blast
  have body: "valid ?A (act_then (write_content u content) (act_then (real_parent t (butlast t))
      (act_then (replaceable m t) (replace u t)))) (\<lambda>_. written t u fs content) ?A"
    by (intro valid_then [OF write_temporary(2) [OF t u]] valid_then [OF real_parent_keeps]
        valid_then [OF replaceable_keeps] replace_temporary [OF t u]) (use p in auto)
  show "valid ?A (act_ensure (act_then (write_content u content) (act_then (real_parent t (butlast t))
      (act_then (replaceable m t) (replace u t)))) (unlink True u))
      (\<lambda>_ w. written t u fs content w \<and> map_of (nodes w) u = None) ?E"
    by (rule valid_ensure [OF body]; rule valid_conseq, rule unlink_temporary [OF t u]) auto
qed

lemma write_bytes_steps:
  assumes "plain (map_of (nodes w)) t" "root \<in> {None, Some (butlast t)}"
  shows "valid (\<lambda>v. v = w) (write_bytes env t content root)
    (\<lambda>_ v. written t (temporary_name env t (identifiers w)) (nodes w) content v \<and>
        map_of (nodes v) (temporary_name env t (identifiers w)) = None)
    (\<lambda>v. only_at {temporary_name env t (identifiers w)} (nodes w) v \<or>
        written t (temporary_name env t (identifiers w)) (nodes w) content v)"
proof -
  let ?u = "temporary_name env t (identifiers w)" and ?fs = "nodes w"
  have root: "(case root of Some r \<Rightarrow> r | None \<Rightarrow> butlast t) = butlast t" using assms(2) by auto
  let ?E = "\<lambda>v. only_at {?u} ?fs v \<or> written t ?u ?fs content v"
  have start: "only_at {?u} ?fs w" by (simp add: only_at_def)
  show ?thesis
    unfolding write_bytes_def Let_def root
  proof (rule valid_then [OF real_parent_keeps], goal_cases)
    case 3
    show ?case
    proof (rule valid_then [OF replaceable_keeps], goal_cases)
      case 2
      have "valid (\<lambda>v. v = w) new_identifier (\<lambda>n v. only_at {?u} ?fs v \<and> n = identifiers w) ?E"
        by (simp add: valid_def new_identifier_def only_at_def)
      then show ?case by (rule valid_bind) (auto intro!: valid_pure write_steps [OF assms(1)])
    qed (use start in simp)
  qed (use assms(1) start in simp_all)
qed

text \<open>
  Claim C24.  Durable files are written atomically: whichever system call fails, a write to a path in existing
  folders leaves the file with its old node or with exactly the new bytes, and touches no other path but
  its temporary file; when the write returns, the file has the new bytes and the temporary file is
  gone.
\<close>

theorem write_bytes_atomic:
  assumes "plain (map_of (nodes w)) t" "root \<in> {None, Some (butlast t)}" "write_bytes env t content root w = (r, w')"
  shows "(\<forall>q. q \<noteq> t \<longrightarrow> q \<noteq> temporary_name env t (identifiers w) \<longrightarrow> map_of (nodes w') q = map_of (nodes w) q) \<and>
    (map_of (nodes w') t = map_of (nodes w) t \<or> (\<exists>i. map_of (nodes w') t = Some (Regular i content))) \<and>
    (r = Inr () \<longrightarrow> (\<exists>i. map_of (nodes w') t = Some (Regular i content)) \<and>
       map_of (nodes w') (temporary_name env t (identifiers w)) = None)"
proof -
  note steps = validD [OF write_bytes_steps [OF assms(1,2), of env content] refl, unfolded written_def only_at_def holds_bytes_def]
  have "temporary_name env t (identifiers w) \<noteq> t" by (rule write_places(2) [OF assms(1) refl])
  with steps(1) [of "()" w'] steps(2) [of _ w'] assms(3) show ?thesis by (cases r) auto
qed

section \<open>Calls that only read\<close>

named_theorems reads \<open>actions that keep every node\<close>

lemma keeps_nodes_basic [reads]:
  "keeps nodes (act_return x)" "keeps nodes (act_raise e)" "keeps nodes (act_lift r)" "keeps nodes os_call"
  "keeps nodes (fail_if b e)" "keeps nodes new_identifier" "keeps nodes (act_bind (act_return x) f) \<longleftrightarrow> keeps nodes (f x)"
  by (auto intro!: keepsI simp: act_return_def act_raise_def act_lift_def fail_if_def new_identifier_def
      dest: os_call_run split: if_splits)

lemma keeps_with_fs: "(\<And>fs. keeps f (g fs)) \<Longrightarrow> keeps f (with_fs g)"
  by (rule keepsI) (auto simp: with_fs_def dest: keepsD)

lemma keeps_raising: "keeps f m \<Longrightarrow> keeps f (raising c e m)"
  unfolding raising_def by (rule keeps_catch) (auto intro!: keepsI simp: act_raise_def split: if_splits)

lemma keeps_let: "keeps f (g x) \<Longrightarrow> keeps f (let y = x in g y)"
  by simp

lemma keeps_json:
  "(\<And>d. v = JObj d \<Longrightarrow> keeps f (g d)) \<Longrightarrow> keeps f m \<Longrightarrow> keeps f (case v of JObj d \<Rightarrow> g d | _ \<Rightarrow> m)"
  "(\<And>s. v = JStr s \<Longrightarrow> keeps f (h s)) \<Longrightarrow> keeps f m \<Longrightarrow> keeps f (case v of JStr s \<Rightarrow> h s | _ \<Rightarrow> m)"
  by (cases v; simp)+

lemmas keeps_rules = keeps_let keeps_if keeps_option keeps_prod keeps_json keeps_with_fs keeps_raising keeps_then keeps_bind

lemma keeps_regular:
  "(\<And>i c. keeps f (g i c)) \<Longrightarrow> keeps f m \<Longrightarrow> keeps f (case v of Some (Regular i c) \<Rightarrow> g i c | _ \<Rightarrow> m)"
  by (simp split: option.splits node.splits)

lemma read_calls [reads]: "keeps nodes (read_bytes p)" "keeps nodes (iterdir p)" "keeps nodes (resolve_strict p)"
proof -
  show "keeps nodes (read_bytes p)" unfolding read_bytes_def by (intro keeps_then keeps_with_fs keeps_regular reads)
  show "keeps nodes (iterdir p)" unfolding iterdir_def by (intro keeps_then keeps_with_fs keeps_option keeps_if reads)
  show "keeps nodes (resolve_strict p)" unfolding resolve_strict_def by (intro keeps_then keeps_with_fs keeps_option keeps_if reads)
qed

end
