(* ===== verification/Transaction_Facts.thy ===== *)
theory Transaction_Facts
  imports Transaction Disk_Facts
begin

text \<open>
  Facts about payload transactions: a recovery that returns has closed the transaction; the
  object of a transaction only moves forward.
\<close>

section \<open>A closed transaction\<close>

definition closed :: "runtime_context \<Rightarrow> disk \<Rightarrow> bool" where
  "closed ctx w \<longleftrightarrow> \<not> lexists (nodes w) (journal_path ctx) \<and> \<not> exists_at (nodes w) (transaction_root ctx)"

abbreviation ends :: "runtime_context \<Rightarrow> 'a io \<Rightarrow> bool" where
  "ends ctx m \<equiv> valid (\<lambda>_. True) m (\<lambda>_. closed ctx) (\<lambda>_. True)"

lemma unlink_gone:
  assumes "unlink False p w = (Inr y, w')"
  shows "lstat (nodes w') p = None" and "stat (nodes w) q = None \<Longrightarrow> stat (nodes w') q = None"
proof -
  from assms obtain w1 e where w1: "nodes w1 = nodes w" and at: "entry (nodes w) p = Some e"
    and run: "(case lookup (nodes w) e of None \<Rightarrow> if False then act_return () else act_raise OSError
       | Some Folder \<Rightarrow> act_raise OSError | Some _ \<Rightarrow> drop_node e) w1 = (Inr y, w')"
    by (auto simp: unlink_def at_entry_run)
  from run have e: "lookup (nodes w) e \<noteq> None" "lookup (nodes w) e \<noteq> Some Folder" "drop_node e w1 = (Inr y, w')"
    by (auto simp: act_raise_run split: option.splits node.splits)
  with w1 have w': "nodes w' = AList.delete e (nodes w)" and "e \<noteq> []"
    by (auto simp: drop_node_def act_modify_def)
  with e at lstat_delete stat_delete show "lstat (nodes w') p = None"
    and "stat (nodes w) q = None \<Longrightarrow> stat (nodes w') q = None" by metis+
qed

lemma remove_transaction_root_gone:
  "remove_transaction_root ctx w = (Inr y, w') \<Longrightarrow> stat (nodes w') (transaction_root ctx) = None"
  by (auto simp: remove_transaction_root_def Let_def exists_at_def with_fs_run act_then_run
      fail_if_run act_return_run split: if_splits)

lemma finish_cleanup_ends: "ends ctx (finish_cleanup env ctx journal)"
proof -
  have "closed ctx w3" if "remove_transaction_root ctx w1 = (Inr y, w2)" "unlink_journal ctx w2 = (Inr z, w3)"
    for w1 w2 w3 y z
  proof -
    from that(2) have u: "unlink False (journal_path ctx) w2 = (Inr z, w3)"
      by (simp add: unlink_journal_def raising_run)
    from unlink_gone(2) [OF u remove_transaction_root_gone [OF that(1)]] unlink_gone(1) [OF u]
    show ?thesis by (simp add: closed_def lexists_def exists_at_def)
  qed
  then show ?thesis
    by (auto simp: finish_cleanup_def valid_def act_then_def act_bind_def act_return_def
        split: prod.splits sum.splits)
qed

lemma valid_any: "valid P m (\<lambda>_ _. True) (\<lambda>_. True)"
  by (auto simp: valid_def split: prod.splits sum.splits)

lemma ends_bind: "(\<And>x. ends ctx (f x)) \<Longrightarrow> ends ctx (act_bind m f)"
  by (rule valid_bind [where R = "\<lambda>_ _. True"]) (auto intro: valid_any)

lemma ends_then: "ends ctx n \<Longrightarrow> ends ctx (act_then m n)"
  unfolding act_then_def by (rule ends_bind)

lemma ends_raise: "ends ctx (act_raise e)"
  by (simp add: valid_def act_raise_def)

lemma ends_with_fs: "(\<And>fs. ends ctx (f fs)) \<Longrightarrow> ends ctx (with_fs f)"
  by (auto simp: valid_def with_fs_def)

lemma ends_option: "ends ctx m \<Longrightarrow> (\<And>x. ends ctx (f x)) \<Longrightarrow> ends ctx (case v of None \<Rightarrow> m | Some x \<Rightarrow> f x)"
  by (cases v) auto

lemma ends_if: "ends ctx m \<Longrightarrow> ends ctx n \<Longrightarrow> ends ctx (if b then m else n)"
  by simp

lemmas ends_rules = ends_if ends_option ends_raise ends_with_fs ends_then ends_bind

lemma complete_transaction_ends: "ends ctx (complete_transaction env ctx journal outcome)"
  unfolding complete_transaction_def by (rule ends_then, rule finish_cleanup_ends)

lemma closing_ends:
  "ends ctx (close_prepared env ctx journal)"
  "ends ctx (close_finalized env ctx journal b)"
  "ends ctx (finalize_installation env ctx journal runtime b)"
  unfolding close_prepared_def close_finalized_def finalize_installation_def
  by (intro ends_rules complete_transaction_ends)+

lemma restoring_ends:
  "ends ctx (restore_prior_generation env ctx journal runtime bind)"
  "ends ctx (rollback_materialized env ctx journal runtime bind)"
  unfolding restore_prior_generation_def rollback_materialized_def Let_def
  by (intro ends_rules complete_transaction_ends)+

lemma recover_mutated_ends: "ends ctx (recover_mutated env ctx journal runtime bind)"
  unfolding recover_mutated_def Let_def by (intro ends_rules closing_ends restoring_ends)

lemma status_None:
  assumes "status env ctx w = (Inr None, w')"
  shows "closed ctx w'"
proof -
  let ?fs = "nodes w"
  have no: "\<not> present ?fs (transaction_root ctx)" "\<not> present ?fs (journal_path ctx)" and "w' = w"
    using assms by (auto simp: status_def with_fs_run act_return_run act_bind_run act_raise_run
        split: if_splits dest!: act_catch_run)
  then show ?thesis
    using lstat_stat [of ?fs "journal_path ctx"]
    by (cases "lstat ?fs (journal_path ctx)")
      (auto simp: closed_def present_def exists_at_def lexists_def is_symlink_def)
qed

text \<open>
  Claim C21.  A recovery that returns has closed the transaction: whatever the journal said, whichever system
  calls failed on the way and whatever the runtime reported, afterwards neither the journal nor the
  transaction directory is there, so no later command finds a transaction to recover.
\<close>

theorem recover_closes:
  assumes "recover env ctx runtime bind w = (Inr result, w')"
  shows "\<not> lexists (nodes w') (journal_path ctx) \<and> \<not> exists_at (nodes w') (transaction_root ctx)"
proof -
  from assms obtain current w1 where st: "status env ctx w = (Inr current, w1)"
    and run: "(if current = None then act_return [(''state'', JStr ''not_required'')]
       else act_bind (as_recovery_state (read_journal env ctx)) (\<lambda>journal.
              if in_state journal TERMINAL_STATES then finish_cleanup env ctx journal
              else recover_mutated env ctx journal runtime bind)) w1 = (Inr result, w')"
    by (auto simp: recover_def act_bind_run)
  have "closed ctx w'"
  proof (cases current)
    case None
    with run status_None [OF st [unfolded None]] show ?thesis by (simp add: act_return_run)
  next
    case (Some d)
    have "ends ctx (act_bind (as_recovery_state (read_journal env ctx)) (\<lambda>journal.
        if in_state journal TERMINAL_STATES then finish_cleanup env ctx journal
        else recover_mutated env ctx journal runtime bind))"
      by (intro ends_rules finish_cleanup_ends recover_mutated_ends)
    from validD(1) [OF this TrueI] run Some show ?thesis by simp
  qed
  then show ?thesis by (simp add: closed_def)
qed

section \<open>The states of a transaction object\<close>

datatype tx_call =
    Commit
  | Activate
  | Finalize jdict
  | Rollback
  | Rollback_if_prepared
  | Preserve string

fun tx_method :: "lifecycle_env \<Rightarrow> tx_call \<Rightarrow> unit tx_act" where
  "tx_method env Commit = commit_projection env"
| "tx_method env Activate = activate env"
| "tx_method env (Finalize runtime) = finalize env runtime"
| "tx_method env Rollback = rollback_transaction env"
| "tx_method env Rollback_if_prepared = act_then (rollback_if_prepared env) (act_return ())"
| "tx_method env (Preserve reason) = preserve_for_recovery env reason"

text \<open>The states a call may leave, by the state it finds; a refused call leaves the state as it is.\<close>

fun tx_moves :: "tx_call \<Rightarrow> string \<Rightarrow> string set" where
  "tx_moves Commit s = (if s = ''prepared'' then {s, ''materialized'', ''rolled_back''} else {s})"
| "tx_moves Activate s = (if s = ''materialized'' then {s, ''activated''} else {s})"
| "tx_moves (Finalize r) s = (if s = ''activated'' then {s, ''finalized'', ''recovery_required''} else {s})"
| "tx_moves Rollback s = (if s \<in> {''prepared'', ''materialized'', ''activated''} then {s, ''rolled_back''} else {s})"
| "tx_moves Rollback_if_prepared s = (if s = ''prepared'' then {s, ''rolled_back''} else {s})"
| "tx_moves (Preserve m) s = (if s \<in> {''materialized'', ''activated''} then {s, ''recovery_required''} else {s})"

abbreviation state_in :: "string set \<Rightarrow> disk \<times> payload_transaction \<Rightarrow> bool" where
  "state_in S \<equiv> \<lambda>w. tx_state (snd w) \<in> S"

abbreviation stays_in :: "string set \<Rightarrow> 'a tx_act \<Rightarrow> string set \<Rightarrow> bool" where
  "stays_in A m B \<equiv> valid (state_in A) m (\<lambda>_. state_in B) (state_in B)"

lemma on_disk_stays: "A \<subseteq> B \<Longrightarrow> stays_in A (on_disk m) B"
  by (auto simp: valid_def on_disk_def split: prod.splits sum.splits)

lemma with_tx_stays:
  "(\<And>t. tx_state t \<in> A \<Longrightarrow> stays_in {tx_state t} (f t) B) \<Longrightarrow> stays_in A (with_tx f) B"
  by (fastforce simp: valid_def with_tx_def split: prod.splits sum.splits)

lemma basic_stays: "A \<subseteq> B \<Longrightarrow> stays_in A (act_return x) B" "A \<subseteq> B \<Longrightarrow> stays_in A (act_raise e) B"
  by (auto simp: valid_def act_return_def act_raise_def)

lemma set_state_stays: "s \<in> B \<Longrightarrow> stays_in A (set_state s) B"
  by (auto simp: valid_def set_state_def act_modify_def)

lemma bind_stays:
  "stays_in A m B \<Longrightarrow> (\<And>x. stays_in B (f x) C) \<Longrightarrow> B \<subseteq> C \<Longrightarrow> stays_in A (act_bind m f) C"
  by (rule valid_bind [where R = "\<lambda>_. state_in B"]) (auto elim: valid_conseq)

lemma then_stays: "stays_in A m B \<Longrightarrow> stays_in B n C \<Longrightarrow> B \<subseteq> C \<Longrightarrow> stays_in A (act_then m n) C"
  unfolding act_then_def by (rule bind_stays)

lemma disk_bind_stays: "(\<And>x. stays_in A (f x) C) \<Longrightarrow> A \<subseteq> C \<Longrightarrow> stays_in A (act_bind (on_disk m) f) C"
  by (rule bind_stays [where B = A]) (auto intro: on_disk_stays)

lemma disk_then_stays: "stays_in A n C \<Longrightarrow> A \<subseteq> C \<Longrightarrow> stays_in A (act_then (on_disk m) n) C"
  unfolding act_then_def by (rule disk_bind_stays)

lemma if_stays: "(b \<Longrightarrow> stays_in A m B) \<Longrightarrow> (\<not> b \<Longrightarrow> stays_in A n B) \<Longrightarrow> stays_in A (if b then m else n) B"
  by simp

lemma catch_stays:
  "stays_in A m B \<Longrightarrow> (\<And>e a. h e = Some a \<Longrightarrow> stays_in B a C) \<Longrightarrow> B \<subseteq> C \<Longrightarrow> stays_in A (act_catch m h) C"
  by (rule valid_catch_weaker [where R = "\<lambda>_. state_in B" and E = "state_in B"]) auto

lemma on_failure_stays:
  "stays_in A m B \<Longrightarrow> stays_in B h C \<Longrightarrow> B \<subseteq> C \<Longrightarrow> stays_in A (on_failure h m) C"
  unfolding on_failure_def by (erule catch_stays) (auto intro!: then_stays basic_stays)

lemma journal_stays: "A \<subseteq> B \<Longrightarrow> stays_in A (write_tx_journal env phase reason) B"
  unfolding write_tx_journal_def by (rule with_tx_stays, rule on_disk_stays) auto

lemma rollback_stays:
  assumes "A \<subseteq> {''prepared'', ''materialized'', ''activated'', ''rolled_back''}"
  shows "stays_in A (rollback_transaction env) (insert ''rolled_back'' A)"
  unfolding rollback_transaction_def
  by (intro with_tx_stays if_stays basic_stays disk_bind_stays then_stays [where B = "insert ''rolled_back'' A"]
      disk_then_stays set_state_stays) auto

lemma set_state_then_stays: "stays_in {s} n C \<Longrightarrow> s \<in> C \<Longrightarrow> stays_in A (act_then (set_state s) n) C"
  by (rule then_stays [where B = "{s}", OF set_state_stays], rule insertI1, assumption) blast

lemma journal_then_stays: "stays_in A n C \<Longrightarrow> A \<subseteq> C \<Longrightarrow> stays_in A (act_then (write_tx_journal env p r) n) C"
  by (rule then_stays [where B = A, OF journal_stays], rule subset_refl, assumption)

lemma stays_mono: "stays_in A m B \<Longrightarrow> A' \<subseteq> A \<Longrightarrow> B \<subseteq> B' \<Longrightarrow> stays_in A' m B'"
  by (erule valid_conseq) auto

lemma prod_stays: "(\<And>a b. stays_in A (f a b) C) \<Longrightarrow> stays_in A (case p of (a, b) \<Rightarrow> f a b) C"
  by (cases p) auto

lemmas stays_rules = with_tx_stays if_stays basic_stays disk_then_stays disk_bind_stays set_state_then_stays
  journal_then_stays set_state_stays journal_stays prod_stays on_disk_stays

lemma prepare_materialization_stays:
  "stays_in {''prepared''} (prepare_materialization env) {''prepared'', ''materialized''}"
  unfolding prepare_materialization_def by (intro stays_rules) auto

lemma materialize_stays: "stays_in A (materialize env) (insert ''materialized'' A)"
  unfolding materialize_def
  by (intro stays_rules then_stays [where A = "{tx_state t}" and B = "{tx_state t}" for t]) auto

lemma close_unmutated_stays:
  "stays_in A (close_unmutated env) (insert ''rolled_back'' A)"
  unfolding close_unmutated_def by (intro stays_rules) auto

lemma raising_handler_stays: "(if b then Some (act_raise e) else None) = Some a \<Longrightarrow> A \<subseteq> B \<Longrightarrow> stays_in A a B"
  by (auto simp: valid_def act_raise_def split: if_splits)

lemma undo_mutation_stays:
  assumes "A \<subseteq> {''prepared'', ''materialized'', ''activated'', ''rolled_back''}"
  shows "stays_in A (undo_mutation env) (insert ''rolled_back'' A)"
  unfolding undo_mutation_def
  by (rule catch_stays [OF rollback_stays [OF assms]], erule raising_handler_stays) (rule subset_refl)+

lemma commit_stays:
  "stays_in {''prepared''} (commit_projection env) {''prepared'', ''materialized'', ''rolled_back''}" (is "stays_in _ _ ?B")
proof -
  have prepare: "stays_in {''prepared''} (on_failure (close_unmutated env) (prepare_materialization env)) ?B"
    by (rule on_failure_stays [OF prepare_materialization_stays
          stays_mono [OF close_unmutated_stays [of "{''prepared'', ''materialized''}"]]]) auto
  have undo: "stays_in ?B (undo_mutation env) ?B"
    by (rule stays_mono [OF undo_mutation_stays [of ?B]]) auto
  have materialize: "stays_in ?B (on_failure (undo_mutation env) (materialize env)) ?B"
    by (rule on_failure_stays [OF stays_mono [OF materialize_stays [of ?B]] undo]) auto
  show ?thesis
    unfolding commit_projection_def
    by (intro with_tx_stays if_stays basic_stays disk_then_stays bind_stays [where B = ?B] materialize)
      (use prepare in auto)
qed

lemma method_moves:
  assumes "tx_method env c (w, t) = (r, (w', t'))"
  shows "tx_state t' \<in> tx_moves c (tx_state t)"
proof -
  have "stays_in {tx_state t} (tx_method env c) (tx_moves c (tx_state t))"
  proof (cases c)
    case Commit
    show ?thesis
    proof (cases "tx_state t = ''prepared''")
      case False
      then show ?thesis unfolding Commit tx_method.simps commit_projection_def
        by (intro with_tx_stays if_stays basic_stays) auto
    qed (use commit_stays Commit in simp)
  next
    case Activate
    show ?thesis unfolding Activate tx_method.simps activate_def by (intro stays_rules) auto
  next
    case (Finalize runtime)
    show ?thesis unfolding Finalize tx_method.simps finalize_def
      by (intro stays_rules then_stays [where B = "{tx_state t, ''recovery_required''}"] on_failure_stays) auto
  next
    case Rollback
    have "stays_in {tx_state t} (rollback_transaction env) (tx_moves Rollback (tx_state t))"
      if "tx_state t \<notin> {''prepared'', ''materialized'', ''activated'', ''rolled_back''}"
      unfolding rollback_transaction_def by (intro with_tx_stays if_stays basic_stays) (use that in auto)
    moreover have "stays_in {tx_state t} (rollback_transaction env) (tx_moves Rollback (tx_state t))"
      if "tx_state t \<in> {''prepared'', ''materialized'', ''activated'', ''rolled_back''}"
      using that by (intro stays_mono [OF rollback_stays [of "{tx_state t}"]]) auto
    ultimately show ?thesis unfolding Rollback tx_method.simps by blast
  next
    case Rollback_if_prepared
    have "stays_in {''prepared''} (rollback_transaction env) {''prepared'', ''rolled_back''}"
      by (rule stays_mono [OF rollback_stays [of "{''prepared''}"]]) auto
    then show ?thesis unfolding Rollback_if_prepared tx_method.simps rollback_if_prepared_def
      by (intro stays_rules then_stays [where B = "tx_moves Rollback_if_prepared (tx_state t)"]) auto
  next
    case (Preserve reason)
    show ?thesis unfolding Preserve tx_method.simps preserve_for_recovery_def
      by (intro stays_rules) auto
  qed
  with assms show ?thesis unfolding valid_def by (cases r) (drule spec [of _ "(w, t)"], simp)+
qed

text \<open>A sequence of calls on one object, each whatever the outcome of the calls before.\<close>

fun tx_run :: "lifecycle_env \<Rightarrow> tx_call list \<Rightarrow> disk \<times> payload_transaction \<Rightarrow> disk \<times> payload_transaction" where
  "tx_run env [] s = s"
| "tx_run env (c # cs) s = tx_run env cs (snd (tx_method env c s))"

lemma tx_run_snoc: "tx_run env (cs @ [c]) s = snd (tx_method env c (tx_run env cs s))"
  by (induction cs arbitrary: s) auto

text \<open>What the calls so far must contain for the object to be in a state.\<close>

definition earned :: "tx_call list \<Rightarrow> string \<Rightarrow> bool" where
  "earned calls s \<longleftrightarrow>
     s \<in> {''prepared'', ''materialized'', ''activated'', ''finalized'', ''rolled_back'', ''recovery_required''}
     \<and> (s = ''materialized'' \<longrightarrow> subseq [Commit] calls)
     \<and> (s = ''activated'' \<longrightarrow> subseq [Commit, Activate] calls)
     \<and> (s = ''finalized'' \<longrightarrow> (\<exists>r. subseq [Commit, Activate, Finalize r] calls))"

lemma subseq_snoc: "subseq xs ys \<Longrightarrow> subseq (xs @ [x]) (ys @ [x])" "subseq xs ys \<Longrightarrow> subseq xs (ys @ [y])"
  by (auto intro: list_emb_append2)

lemma earned_more: "earned calls s \<Longrightarrow> earned (calls @ [c]) s"
  unfolding earned_def by (meson subseq_snoc(2))

lemma earned_step:
  assumes e: "earned calls s" and m: "s' \<in> tx_moves c s"
  shows "earned (calls @ [c]) s'"
proof (cases "s' = s")
  case True
  with earned_more [OF e] show ?thesis by simp
next
  case False
  show ?thesis
  proof (cases c)
    case Commit
    have "subseq [Commit] (calls @ [Commit])" using subseq_snoc(1) [of "[]" calls Commit] by simp
    moreover from m False Commit have "s' \<in> {''materialized'', ''rolled_back''}" by (simp split: if_splits)
    ultimately show ?thesis using Commit by (auto simp: earned_def)
  next
    case Activate
    with m False have "s = ''materialized'' \<and> s' = ''activated''" by (simp split: if_splits)
    with e subseq_snoc(1) [of "[Commit]" calls Activate] Activate show ?thesis by (simp add: earned_def)
  next
    case (Finalize r)
    with m False have "s = ''activated'' \<and> s' \<in> {''finalized'', ''recovery_required''}" by (simp split: if_splits)
    with e subseq_snoc(1) [of "[Commit, Activate]" calls "Finalize r"] Finalize show ?thesis
      by (auto simp: earned_def)
  qed (use m False in \<open>simp_all add: earned_def split: if_splits\<close>)
qed

lemma tx_run_earned: "tx_state t = ''prepared'' \<Longrightarrow> earned calls (tx_state (snd (tx_run env calls (w, t))))"
proof (induction calls rule: rev_induct)
  case Nil
  then show ?case by (simp add: earned_def)
next
  case (snoc c calls)
  obtain w1 t1 where 1: "tx_run env calls (w, t) = (w1, t1)" by fastforce
  obtain r w2 t2 where 2: "tx_method env c (w1, t1) = (r, (w2, t2))" by (cases "tx_method env c (w1, t1)") auto
  from earned_step [OF _ method_moves [OF 2]] snoc 1 2 show ?case by (simp add: tx_run_snoc)
qed

text \<open>
  Claim C25.  A transaction is recorded as an installation only in order: whatever is called on the object in
  whatever sequence, and whichever calls fail, its state is \<open>finalized\<close> only if the projection was
  committed, then activated and then finalized, and \<open>activated\<close> only if it was committed before.
\<close>

theorem finalized_in_order:
  assumes "tx_state t = ''prepared''"
  shows "(tx_state (snd (tx_run env calls (w, t))) = ''finalized'' \<longrightarrow>
            (\<exists>r. subseq [Commit, Activate, Finalize r] calls)) \<and>
         (tx_state (snd (tx_run env calls (w, t))) = ''activated'' \<longrightarrow> subseq [Commit, Activate] calls)"
  using tx_run_earned [OF assms, of calls env w] by (simp add: earned_def)

text \<open>
  An object whose transaction ended stays where it ended: once it is finalized, rolled back or left for
  recovery, no sequence of further calls changes its state.
\<close>

theorem ended_transaction_stays:
  assumes "tx_state t \<in> {''finalized'', ''rolled_back'', ''recovery_required''}"
  shows "tx_state (snd (tx_run env calls (w, t))) = tx_state t"
proof (induction calls rule: rev_induct)
  case (snoc c calls)
  obtain w1 t1 where 1: "tx_run env calls (w, t) = (w1, t1)" by fastforce
  obtain r w2 t2 where 2: "tx_method env c (w1, t1) = (r, (w2, t2))" by (cases "tx_method env c (w1, t1)") auto
  from snoc 1 have "tx_state t1 = tx_state t" by simp
  with method_moves [OF 2] assms have "tx_state t2 = tx_state t" by (cases c) auto
  with 1 2 show ?case by (simp add: tx_run_snoc)
qed simp

end
