(* ===== verification/Disposal.thy ===== *)
theory Disposal
  imports Transaction_Facts
begin

text \<open>
  What the lifecycle may remove.  Disposal only removes nodes, and only below the places it is given: the
  lemmas follow this through the removal of generations, of the transaction directory and of an
  installation.
\<close>

section \<open>Operations that only read\<close>

lemma read_files [reads]:
  "keeps nodes (regular_file root relative label)" "keeps nodes (sha256_file env p)"
  "keeps nodes (decoded env p label)" "keeps nodes (read_json_object env p label)"
  "keeps nodes (read_canonical_json env p label)"
proof -
  show "keeps nodes (regular_file root relative label)"
    unfolding regular_file_def by (intro keeps_rules reads) (auto intro: reads split: option.splits node.splits)
  show "keeps nodes (sha256_file env p)" unfolding sha256_file_def by (intro keeps_rules reads)
  show d: "keeps nodes (decoded env p label)" for p label unfolding decoded_def by (intro keeps_rules reads)
  show "keeps nodes (read_json_object env p label)"
    unfolding read_json_object_def by (intro keeps_bind d keeps_prod keeps_json keeps_if reads)
  show "keeps nodes (read_canonical_json env p label)"
    unfolding read_canonical_json_def by (intro keeps_bind d keeps_prod keeps_json keeps_if reads)
qed

lemma keeps_or_none: "keeps nodes m \<Longrightarrow> keeps nodes (or_none m)"
  unfolding or_none_def by (rule keeps_catch) (auto intro!: keeps_rules reads split: if_splits)

lemma read_payloads [reads]:
  "keeps nodes (read_payload_selection env p)" "keeps nodes (runtime_root p)" "keeps nodes (read_manifest env p)"
  "keeps nodes (digests_match env root ds)" "keeps nodes (verify_runtime_files env root ds b)"
  "keeps nodes (payload_identity env root m a r)" "keeps nodes (committed_payload env p)"
proof -
  show "keeps nodes (read_payload_selection env p)"
    unfolding read_payload_selection_def by (intro keeps_rules reads)
  show rr: "keeps nodes (runtime_root p)" for p
    unfolding runtime_root_def by (intro keeps_rules reads)
  show rm: "keeps nodes (read_manifest env p)" for p unfolding read_manifest_def by (intro keeps_rules reads)
  show dm: "keeps nodes (digests_match env root ds)" for root ds
    by (induction env root ds rule: digests_match.induct) (auto intro!: keeps_rules reads)
  show vr: "keeps nodes (verify_runtime_files env root ds b)" for root ds b
    unfolding verify_runtime_files_def by (intro keeps_rules reads dm)
  show pi: "keeps nodes (payload_identity env root m a r)" for root m a r
    unfolding payload_identity_def Let_def
    by (auto intro!: keeps_rules reads split: json.splits)
  show "keeps nodes (committed_payload env p)"
    unfolding committed_payload_def by (intro keeps_or_none keeps_rules reads rr rm vr pi)
qed

lemma read_generations [reads]:
  "keeps nodes (generation_context ctx g)" "keeps nodes (real_generation ctx m g)" "keeps nodes (read_selection env ctx)"
  "keeps nodes (identified env ctx g)" "keeps nodes (control_context env ctx)" "keeps nodes (require_generation env ctx g role)"
proof -
  show gc: "keeps nodes (generation_context ctx g)" for g unfolding generation_context_def by (intro keeps_rules reads)
  show rg: "keeps nodes (real_generation ctx m g)" for m g unfolding real_generation_def by (intro keeps_rules reads)
  show rs: "keeps nodes (read_selection env ctx)"
    unfolding read_selection_def by (intro keeps_rules keeps_each reads rg)
  show id: "keeps nodes (identified env ctx g)" for g unfolding identified_def by (intro keeps_rules reads gc)
  show "keeps nodes (control_context env ctx)" unfolding control_context_def by (intro keeps_rules reads rs id)
  show "keeps nodes (require_generation env ctx g role)"
    unfolding require_generation_def by (intro keeps_rules reads rg gc)
qed

section \<open>Nodes that are only removed\<close>

text \<open>Against an earlier tree every node is as it was, or it is one of \<open>ps\<close> and gone.\<close>

definition pruned :: "path set \<Rightarrow> nodes \<Rightarrow> disk \<Rightarrow> bool" where
  "pruned ps fs w \<longleftrightarrow> (\<forall>q. map_of (nodes w) q = map_of fs q \<or> q \<in> ps \<and> map_of (nodes w) q = None)"

abbreviation removes :: "path set \<Rightarrow> nodes \<Rightarrow> 'a io \<Rightarrow> bool" where
  "removes ps fs m \<equiv> valid (pruned ps fs) m (\<lambda>_. pruned ps fs) (pruned ps fs)"

lemma removes_reads: "keeps nodes m \<Longrightarrow> removes ps fs m"
  by (erule valid_kept) (simp add: pruned_def)

lemma removes_bind: "removes ps fs m \<Longrightarrow> (\<And>x. removes ps fs (f x)) \<Longrightarrow> removes ps fs (act_bind m f)"
  by (rule valid_bind)

lemma removes_then: "removes ps fs m \<Longrightarrow> removes ps fs n \<Longrightarrow> removes ps fs (act_then m n)"
  by (rule valid_then)

lemma removes_with_fs: "(\<And>x. removes ps fs (f x)) \<Longrightarrow> removes ps fs (with_fs f)"
  by (simp add: valid_def with_fs_def)

lemma removes_option: "removes ps fs m \<Longrightarrow> (\<And>x. v = Some x \<Longrightarrow> removes ps fs (f x)) \<Longrightarrow>
    removes ps fs (case v of None \<Rightarrow> m | Some x \<Rightarrow> f x)"
  by (cases v) auto

lemma removes_raising: "removes ps fs m \<Longrightarrow> removes ps fs (raising c e m)"
  unfolding raising_def by (rule valid_catch) (auto simp: valid_def act_raise_def split: if_splits)

lemma removes_drop: "e \<in> ps \<Longrightarrow> removes ps fs (drop_node e)"
  by (rule valid_drop_node) (simp add: pruned_def)

lemma removes_basic: "removes ps fs (act_raise e)" "removes ps fs (act_return x)" "removes ps fs (act_lift r)"
    "removes ps fs (fail_if b e)" "removes ps fs os_call"
  by (rule removes_reads, rule reads)+

lemmas removes_rules = removes_basic valid_if removes_option removes_with_fs removes_raising removes_then removes_bind

text \<open>
  No ancestor of a path is a link or a file.  In a tree that lost nodes such a path names its own place or
  none.
\<close>

definition linkless :: "(path \<Rightarrow> node option) \<Rightarrow> path \<Rightarrow> bool" where
  "linkless v p \<longleftrightarrow>
     p \<noteq> [] \<and> ''..'' \<notin> set p \<and> (\<forall>q. strict_prefix q p \<longrightarrow> q \<noteq> [] \<longrightarrow> v q \<in> {None, Some Folder})"

lemma plain_linkless: "plain v p \<Longrightarrow> linkless v p"
  by (simp add: plain_def linkless_def)

lemma walk_pruned:
  assumes "\<And>q. prefix q cs \<Longrightarrow> q \<noteq> [] \<Longrightarrow> lookup fs (pre @ q) \<in> {None, Some Folder}" and "''..'' \<notin> set cs"
  shows "walk False fs n pre cs \<in> {None, Some (pre @ cs)}"
  using assms
proof (induction cs arbitrary: pre)
  case (Cons c cs)
  have "walk False fs n (pre @ [c]) cs \<in> {None, Some ((pre @ [c]) @ cs)}"
  proof (rule Cons.IH)
    fix q assume "prefix q cs" "q \<noteq> []"
    then show "lookup fs ((pre @ [c]) @ q) \<in> {None, Some Folder}" using Cons.prems(1) [of "c # q"] by simp
  qed (use Cons.prems(2) in simp)
  moreover have "lookup fs (pre @ [c]) \<in> {None, Some Folder}" using Cons.prems(1) [of "[c]"] by simp
  moreover have "c \<noteq> ''..''" using Cons.prems(2) by auto
  ultimately show ?case by (auto simp: walk.simps(2))
qed simp

lemma entry_pruned:
  assumes "linkless (map_of fs) p" "pruned ps fs w"
  shows "entry (nodes w) p \<in> {None, Some p}"
proof -
  have p: "p \<noteq> []" "''..'' \<notin> set p" using assms(1) by (simp_all add: linkless_def)
  then have "last p \<noteq> ''..''" by (metis last_in_set)
  have "walk False (nodes w) MAX_LINKS [] (butlast p) \<in> {None, Some ([] @ butlast p)}"
  proof (rule walk_pruned)
    show "''..'' \<notin> set (butlast p)" using p(2) by (auto dest: in_set_butlastD)
    fix q assume "prefix q (butlast p)" "q \<noteq> []"
    then have "map_of fs q \<in> {None, Some Folder}"
      using assms(1) strict_prefix_butlast [OF p(1), of q] unfolding linkless_def by blast
    with assms(2) \<open>q \<noteq> []\<close> show "lookup (nodes w) ([] @ q) \<in> {None, Some Folder}"
      unfolding pruned_def by (auto simp: lookup_map_of dest: spec [of _ q])
  qed
  with p(1) \<open>last p \<noteq> ''..''\<close> show ?thesis by (auto simp: entry_def real_path_def split: option.splits)
qed

lemma removes_at_entry:
  assumes "linkless (map_of fs) p" "\<And>fs'. removes ps fs (f fs' p)"
  shows "removes ps fs (at_entry p f)"
proof -
  have "removes ps fs (with_fs (\<lambda>fs'. case entry fs' p of None \<Rightarrow> act_raise OSError | Some e \<Rightarrow> f fs' e))"
    unfolding valid_def with_fs_def
  proof (intro allI impI)
    fix w assume w: "pruned ps fs w"
    with entry_pruned [OF assms(1)] have "entry (nodes w) p \<in> {None, Some p}" by blast
    with w assms(2) [of "nodes w"] show "case (case entry (nodes w) p of None \<Rightarrow> act_raise OSError | Some e \<Rightarrow> f (nodes w) e) w of
        (Inr x, w') \<Rightarrow> pruned ps fs w' | (Inl e, w') \<Rightarrow> pruned ps fs w'"
      by (auto simp: valid_def act_raise_def)
  qed
  then show ?thesis unfolding at_entry_def by (rule removes_then [OF removes_basic(5)])
qed

lemma removes_unlink: "linkless (map_of fs) p \<Longrightarrow> p \<in> ps \<Longrightarrow> removes ps fs (unlink b p)"
  unfolding unlink_def
  by (rule removes_at_entry) (auto intro!: removes_basic removes_drop split: option.splits node.splits)

lemma removes_rmdir: "linkless (map_of fs) p \<Longrightarrow> p \<in> ps \<Longrightarrow> removes ps fs (rmdir p)"
  unfolding rmdir_def by (rule removes_at_entry) (auto intro!: valid_if removes_basic removes_drop)

lemma removes_place: "e \<in> ps \<Longrightarrow> removes ps fs (remove_place e)"
  unfolding remove_place_def
  by (intro removes_then removes_with_fs removes_basic)
    (auto intro!: valid_if removes_basic removes_drop split: option.splits node.splits)

lemma removes_each: "(\<And>x. x \<in> set xs \<Longrightarrow> removes ps fs (f x)) \<Longrightarrow> removes ps fs (act_each f xs)"
  by (rule valid_each)

lemma removes_rmtree:
  assumes "linkless (map_of fs) p" "\<And>q. prefix p q \<Longrightarrow> q \<in> ps"
  shows "removes ps fs (rmtree p)"
  unfolding rmtree_def valid_def with_fs_def
proof (intro allI impI)
  fix w assume w: "pruned ps fs w"
  have "removes ps fs (act_each remove_place (rev (sort (below (nodes w) p)) @ [p]))"
    by (intro removes_each removes_place) (auto simp: below_def intro!: assms(2))
  with w entry_pruned [OF assms(1) w]
  show "case (case entry (nodes w) p of None \<Rightarrow> act_raise OSError
      | Some e \<Rightarrow> if lookup (nodes w) e = Some Folder then act_each remove_place (rev (sort (below (nodes w) e)) @ [e])
          else act_raise OSError) w of (Inr x, w') \<Rightarrow> pruned ps fs w' | (Inl e, w') \<Rightarrow> pruned ps fs w'"
    by (cases "lookup (nodes w) p = Some Folder") (auto simp: valid_def act_raise_def)
qed

section \<open>The places of an installation\<close>

text \<open>The installation directory is given by its absolute, normal text.\<close>

definition clean_part :: "string \<Rightarrow> bool" where
  "clean_part c \<longleftrightarrow> c \<noteq> [] \<and> c \<noteq> ''.'' \<and> c \<noteq> ''..'' \<and> CHR ''/'' \<notin> set c"

definition clean_path :: "path \<Rightarrow> bool" where
  "clean_path p \<longleftrightarrow> p \<noteq> [] \<and> list_all clean_part p"

lemma path_of_text: "clean_path p \<Longrightarrow> path_of (path_text p) = p"
  using split_join_on [of p "CHR ''/''"]
  by (auto simp: path_of_def path_text_def clean_path_def clean_part_def list_all_iff filter_id_conv)

lemma path_of_longer:
  assumes "clean_path p" "CHR ''/'' \<notin> set s" "length s > 2"
  shows "path_of (path_text p @ s) = butlast p @ [last p @ s]"
proof -
  obtain a b where p: "p = a @ [b]" using assms(1) by (metis append_butlast_last_id clean_path_def)
  have "path_text p @ s = path_text (a @ [b @ s])"
    using join_on_snoc [of "CHR ''/''" a b s] by (simp add: path_text_def p)
  moreover have "clean_path (a @ [b @ s])"
    using assms by (auto simp: p clean_path_def clean_part_def dest!: arg_cong [of "b @ s" _ length])
  ultimately show ?thesis using path_of_text [of "a @ [b @ s]"] by (simp add: p)
qed

definition well_placed :: "runtime_context \<Rightarrow> bool" where
  "well_placed ctx \<longleftrightarrow> clean_path (install_path ctx) \<and> install_dir ctx = path_text (install_path ctx)"

lemma transaction_places:
  assumes "well_placed ctx"
  shows "transaction_root ctx = butlast (install_path ctx) @ [last (install_path ctx) @ ''.transaction'']"
    and "journal_path ctx = butlast (install_path ctx) @ [last (install_path ctx) @ ''.transaction.json'']"
proof -
  let ?p = "install_path ctx"
  have p: "clean_path ?p" "install_dir ctx = path_text ?p" using assms by (simp_all add: well_placed_def)
  show t: "transaction_root ctx = butlast ?p @ [last ?p @ ''.transaction'']"
    using path_of_longer [OF p(1), of "''.transaction''"] by (simp add: transaction_root_def p(2))
  have "clean_path (transaction_root ctx)"
    using p(1) by (auto simp: t clean_path_def clean_part_def list_all_iff dest: in_set_butlastD)
  from path_of_longer [OF this, of "''.json''"] show "journal_path ctx = butlast ?p @ [last ?p @ ''.transaction.json'']"
    by (simp add: journal_path_def t)
qed

text \<open>
  The tree around an installation: the installation directory and its generation store are folders or not
  there, nothing on the way to them is a link, and no entry is named \<open>..\<close>.
\<close>

definition orderly_tree :: "runtime_context \<Rightarrow> nodes \<Rightarrow> bool" where
  "orderly_tree ctx fs \<longleftrightarrow>
     well_placed ctx \<and> (\<forall>q. prefix q (generations_root ctx) \<longrightarrow> q \<noteq> [] \<longrightarrow> map_of fs q \<in> {None, Some Folder})
     \<and> (\<forall>q. map_of fs q \<noteq> None \<longrightarrow> ''..'' \<notin> set q)"

lemma prefix_snoc_cases: "strict_prefix q (p @ [x]) \<Longrightarrow> prefix q p"
  by (auto simp: strict_prefix_def)

lemma orderly_linkless:
  assumes "orderly_tree ctx fs"
  shows "linkless (map_of fs) (install_path ctx)" "linkless (map_of fs) (generations_root ctx)"
    "x \<noteq> ''..'' \<Longrightarrow> linkless (map_of fs) (generations_root ctx @ [x])"
    "linkless (map_of fs) (transaction_root ctx)" "linkless (map_of fs) (journal_path ctx)"
proof -
  let ?p = "install_path ctx" and ?g = "generations_root ctx"
  have w: "well_placed ctx" and f: "\<And>q. prefix q ?g \<Longrightarrow> q \<noteq> [] \<Longrightarrow> map_of fs q \<in> {None, Some Folder}"
    using assms by (simp_all add: orderly_tree_def)
  have p: "?p \<noteq> []" "''..'' \<notin> set ?p" using w by (auto simp: well_placed_def clean_path_def clean_part_def list_all_iff)
  have g: "?g = ?p @ [PAYLOAD_GENERATIONS_DIRNAME]" "''..'' \<notin> set ?g" "prefix ?p ?g"
    using p(2) by (simp_all add: generations_root_def PAYLOAD_GENERATIONS_DIRNAME_def)
  have sub: "linkless (map_of fs) (q @ [x])" if "prefix q ?g" "x \<noteq> ''..''" for q x
    unfolding linkless_def
  proof (intro conjI allI impI)
    show "''..'' \<notin> set (q @ [x])" using that g(2) set_mono_prefix [OF that(1)] by auto
    fix r assume "strict_prefix r (q @ [x])" "r \<noteq> []"
    then show "map_of fs r \<in> {None, Some Folder}"
      using f [of r] prefix_snoc_cases [of r q x] prefix_order.trans [OF _ that(1)] by blast
  qed simp
  show "x \<noteq> ''..'' \<Longrightarrow> linkless (map_of fs) (?g @ [x])" by (rule sub) simp_all
  show "linkless (map_of fs) ?g"
    using sub [of ?p PAYLOAD_GENERATIONS_DIRNAME] g by (simp add: PAYLOAD_GENERATIONS_DIRNAME_def)
  have parent: "prefix (butlast ?p) ?g" using g(3) by (meson prefix_order.trans prefixeq_butlast)
  obtain a b where ab: "?p = a @ [b]" using p(1) by (metis append_butlast_last_id)
  then show "linkless (map_of fs) ?p" using sub [of a b] parent p(2) by auto
  have long: "b @ s \<noteq> ''..''" if "length s > 2" for s using that by (auto dest!: arg_cong [of _ _ length])
  show "linkless (map_of fs) (transaction_root ctx)" "linkless (map_of fs) (journal_path ctx)"
    unfolding transaction_places [OF w] using parent long by (auto simp: ab intro!: sub)
qed

section \<open>Generations\<close>

lemma removes_iterdir:
  assumes "\<And>q. map_of fs q \<noteq> None \<Longrightarrow> ''..'' \<notin> set q"
  shows "valid (pruned ps fs) (iterdir p) (\<lambda>es w. pruned ps fs w \<and> list_all (\<lambda>e. \<exists>x. e = p @ [x] \<and> x \<noteq> ''..'') es) (pruned ps fs)"
  unfolding iterdir_def
proof (rule valid_then [OF removes_basic(5)], rule valid_with_fs)
  fix fs'
  have "x \<noteq> ''..''" if "pruned ps fs w" "q \<in> set (children (nodes w) d)" "x = last q" for w q d x
  proof -
    from that have q: "q \<noteq> []" "map_of (nodes w) q \<noteq> None" by (auto simp: children_def map_of_eq_None_iff)
    with that(1) have "map_of fs q \<noteq> None" unfolding pruned_def by (auto dest: spec [of _ q])
    with assms q(1) that(3) show ?thesis by (metis last_in_set)
  qed
  then show "valid (\<lambda>w. pruned ps fs w \<and> nodes w = fs')
     (case real_path fs' p of
        Some d \<Rightarrow> if lookup fs' d = Some Folder then act_return (map (\<lambda>q. p @ [last q]) (children fs' d)) else act_raise OSError
      | None \<Rightarrow> act_raise OSError)
     (\<lambda>es w. pruned ps fs w \<and> list_all (\<lambda>e. \<exists>x. e = p @ [x] \<and> x \<noteq> ''..'') es) (pruned ps fs)"
    by (auto simp: valid_def act_return_def act_raise_def list_all_iff split: option.splits)
qed

lemma generation_path_Inr: "generation_path ctx g = Inr p \<longleftrightarrow> is_generation_name g \<and> p = generations_root ctx @ [g]"
  by (auto simp: generation_path_def require_name_def)

lemma removes_lift_bind: "(\<And>x. r = Inr x \<Longrightarrow> removes ps fs (f x)) \<Longrightarrow> removes ps fs (act_bind (act_lift r) f)"
  by (rule valid_lift_bind)

lemma removes_unselected:
  assumes o: "orderly_tree ctx fs" and ps: "generations_root ctx \<in> ps"
    "\<And>q. \<not> selects selection g \<Longrightarrow> prefix (generations_root ctx @ [g]) q \<Longrightarrow> q \<in> ps"
  shows "removes ps fs (remove_unselected ctx g selection)"
proof (cases "selects selection g")
  case True
  then show ?thesis by (simp add: remove_unselected_def fail_if_def valid_def act_then_def act_bind_def act_raise_def)
next
  case False
  have tree: "removes ps fs (rmtree (generations_root ctx @ [g]))" if "is_generation_name g"
    using that ps(2) [OF False] by (intro removes_rmtree orderly_linkless(3) [OF o]) (auto simp: is_generation_name_def)
  have store: "removes ps fs (drop_empty_store ctx)"
    unfolding drop_empty_store_def Let_def
    by (intro removes_rules removes_reads [OF read_calls(2)] removes_rmdir orderly_linkless(2) [OF o] ps(1))
  show ?thesis
    unfolding remove_unselected_def
    by (intro removes_basic removes_then removes_lift_bind removes_with_fs valid_if removes_raising store)
      (auto simp: generation_path_Inr intro: tree)
qed

lemma removes_prune:
  assumes o: "orderly_tree ctx fs"
    and ps: "\<And>h q. h \<notin> set (named_generations s) \<Longrightarrow> prefix (generations_root ctx @ [h]) q \<Longrightarrow> q \<in> ps"
  shows "removes ps fs (prune ctx s)"
proof -
  have one: "removes ps fs (prune_entry s e)" if "\<exists>x. e = generations_root ctx @ [x] \<and> x \<noteq> ''..''" for e
    using that unfolding prune_entry_def
    by (auto simp: path_name_def intro!: removes_with_fs valid_if removes_basic removes_rmtree orderly_linkless(3) [OF o] ps)
  have entries: "valid (\<lambda>w. pruned ps fs w \<and> list_all (\<lambda>e. \<exists>x. e = generations_root ctx @ [x] \<and> x \<noteq> ''..'') es)
      (act_each (prune_entry s) es) (\<lambda>_. pruned ps fs) (pruned ps fs)" for es
    by (rule valid_pure) (intro removes_each one, auto simp: list_all_iff)
  have "\<And>q. map_of fs q \<noteq> None \<Longrightarrow> ''..'' \<notin> set q" using o by (simp add: orderly_tree_def)
  from valid_bind [OF removes_iterdir [OF this] entries]
  show ?thesis unfolding prune_def Let_def by (intro removes_then removes_with_fs removes_raising removes_basic)
qed

section \<open>Cleaning up after a transaction\<close>

lemma bind_known: "m w = (Inr x, w1) \<Longrightarrow> valid P (f x) Q E \<Longrightarrow> P w1 \<Longrightarrow> valid (\<lambda>v. v = w) (act_bind m f) Q E"
  by (simp add: valid_def act_bind_def)

lemma pruned_self: "pruned ps (nodes w) w" "nodes w1 = nodes w \<Longrightarrow> pruned ps (nodes w) w1"
  by (simp_all add: pruned_def)

lemma removes_fresh_root:
  "orderly_tree ctx fs \<Longrightarrow> install_path ctx \<in> ps \<Longrightarrow>
   removes ps fs (with_fs (\<lambda>fs'. if jget journal ''fresh'' = JBool True \<and> is_dir fs' (install_path ctx)
     then act_bind (iterdir (install_path ctx)) (\<lambda>entries. if entries = [] then rmdir (install_path ctx) else act_return ())
     else act_return ()))"
  by (intro removes_with_fs valid_if removes_bind removes_basic removes_reads [OF read_calls(2)] removes_rmdir orderly_linkless(1))

lemma removes_transaction:
  assumes o: "orderly_tree ctx fs"
  shows "(\<And>q. prefix (transaction_root ctx) q \<Longrightarrow> q \<in> ps) \<Longrightarrow> removes ps fs (remove_transaction_root ctx)"
    and "journal_path ctx \<in> ps \<Longrightarrow> removes ps fs (unlink_journal ctx)"
  unfolding remove_transaction_root_def unlink_journal_def Let_def
  by (intro removes_with_fs valid_if removes_then removes_basic removes_raising removes_rmtree removes_unlink
      orderly_linkless [OF o]; simp)+

lemma valid_of_start: "P w \<Longrightarrow> valid P m Q E \<Longrightarrow> valid (\<lambda>v. v = w) m Q E"
  by (simp add: valid_def)

text \<open>What may go while a selection stands: the generations it does not name.\<close>

definition disposable :: "runtime_context \<Rightarrow> payload_selection \<Rightarrow> path set" where
  "disposable ctx s =
     {q. \<exists>h. h \<notin> set (named_generations s) \<and> prefix (generations_root ctx @ [h]) q} \<union> {generations_root ctx, install_path ctx}
     \<union> {q. prefix (transaction_root ctx) q} \<union> {journal_path ctx}"

lemma dispose_selected:
  assumes o: "orderly_tree ctx (nodes w)" and sel: "read_selection env ctx w = (Inr (Some s), w1)"
    and state: "jget journal ''state'' \<noteq> JStr ''purged''"
  shows "valid (\<lambda>v. v = w) (dispose env ctx journal) (\<lambda>_. pruned (disposable ctx s) (nodes w)) (pruned (disposable ctx s) (nodes w))"
proof -
  let ?ps = "disposable ctx s" and ?I = "pruned (disposable ctx s) (nodes w)"
  have w1: "?I w1" using keepsD [OF read_generations(3) sel] by (rule pruned_self(2))
  have known: "valid (\<lambda>v. v = w) (act_bind (read_selection env ctx) f) (\<lambda>_. ?I) ?I" if "removes ?ps (nodes w) (f (Some s))" for f :: "_ \<Rightarrow> unit io"
    using bind_known [of "read_selection env ctx" w "Some s" w1 ?I f "\<lambda>_. ?I" ?I] sel that w1 by blast
  have prune: "valid (\<lambda>v. v = w) (prune_finalized env ctx journal) (\<lambda>_. ?I) ?I"
    unfolding prune_finalized_def
    by (rule known) (auto simp: disposable_def intro!: valid_if removes_basic removes_prune [OF o])
  have gone: "valid (\<lambda>v. v = w) (remove_generation env ctx g) (\<lambda>_. ?I) ?I" for g
    unfolding remove_generation_def
    by (rule known) (auto simp: disposable_def selects_def intro!: removes_unselected [OF o])
  have fresh: "install_path ctx \<in> ?ps" by (simp add: disposable_def)
  have candidate: "valid (\<lambda>v. v = w) (remove_candidate env ctx journal) (\<lambda>_. ?I) ?I"
    unfolding remove_candidate_def
    by (intro valid_then [OF _ removes_fresh_root [OF o fresh]] valid_if gone valid_return) (simp_all add: pruned_self)
  show ?thesis
    unfolding dispose_def Let_def using state prune candidate
    by (auto intro!: valid_return valid_raise pruned_self)
qed

lemma selected_kept:
  assumes "well_placed ctx" "g \<in> set (named_generations s)" "prefix (generations_root ctx @ [g]) q \<or> q = selector_path ctx"
  shows "q \<notin> disposable ctx s"
proof -
  obtain a b where p: "install_path ctx = a @ [b]"
    using assms(1) by (metis append_butlast_last_id well_placed_def clean_path_def)
  have "q = selector_path ctx \<or> (\<exists>z. q = generations_root ctx @ g # z)" using assms(3) by (auto elim: prefixE)
  then show ?thesis
    using assms(2) transaction_places [OF assms(1)]
    by (auto simp: p disposable_def generations_root_def selector_path_def PAYLOAD_GENERATIONS_DIRNAME_def
        PAYLOAD_SELECTOR_FILENAME_def)
qed

text \<open>
  Claim C23.  Cleaning up after a transaction that is not a purge never costs a selected generation: on a tree of
  files whose directories down to the generations are plain directories, while a selection stands, and
  whichever system call fails half way, every file of the active generation and of its predecessor and
  the selector itself are as they were before.  A purge is excluded: it is there to remove the selected
  generations as well.
\<close>

theorem cleanup_keeps_selected:
  assumes "orderly_tree ctx (nodes w)" "read_selection env ctx w = (Inr (Some s), w1)"
    and "jget journal ''state'' \<noteq> JStr ''purged''" "finish_cleanup env ctx journal w = (r, w')"
    and "g \<in> set (named_generations s)" "prefix (generations_root ctx @ [g]) q \<or> q = selector_path ctx"
  shows "map_of (nodes w') q = map_of (nodes w) q"
proof -
  let ?I = "pruned (disposable ctx s) (nodes w)"
  have "valid (\<lambda>v. v = w) (finish_cleanup env ctx journal) (\<lambda>_. ?I) ?I"
    unfolding finish_cleanup_def
    by (intro valid_then [OF dispose_selected [OF assms(1-3)]] removes_then removes_transaction [OF assms(1)] removes_basic)
      (auto simp: disposable_def)
  from validD [OF this refl] assms(4) have "?I w'" by (cases r) auto
  moreover have "q \<notin> disposable ctx s"
    using assms(1) by (intro selected_kept [OF _ assms(5,6)]) (simp add: orderly_tree_def)
  ultimately show ?thesis unfolding pruned_def by (auto dest: spec [of _ q])
qed

section \<open>The terminal journal comes first\<close>

lemma removes_dispose:
  assumes o: "orderly_tree ctx fs" and ps: "\<And>q. prefix (install_path ctx) q \<Longrightarrow> q \<in> ps"
    and state: "jget journal ''state'' \<noteq> JStr ''purged''"
  shows "removes ps fs (dispose env ctx journal)"
proof -
  have gens: "q \<in> ps" if "prefix (generations_root ctx @ xs) q" for xs q
    using that by (intro ps) (auto simp: generations_root_def dest: append_prefixD)
  have store: "generations_root ctx \<in> ps" using gens [of "[]"] by simp
  have prune: "removes ps fs (prune ctx s)" for s by (rule removes_prune [OF o gens])
  have gone: "removes ps fs (remove_unselected ctx g selection)" for g selection
    by (rule removes_unselected [OF o store gens])
  show ?thesis
    unfolding dispose_def prune_finalized_def remove_candidate_def remove_generation_def Let_def
    using state by (intro removes_rules prune gone removes_fresh_root [OF o] ps removes_reads [OF read_generations(3)]) auto
qed

lemma unlink_failed: "(\<And>w w'. nodes w' = nodes w \<Longrightarrow> P w \<Longrightarrow> P w') \<Longrightarrow> valid P (unlink b p) (\<lambda>_ _. True) P"
  by (auto simp: valid_def unlink_def at_entry_def act_then_def act_bind_def with_fs_def drop_node_def act_modify_def
      act_raise_def act_return_def dest!: os_call_run split: prod.splits sum.splits option.splits node.splits)

lemma cleanup_failed:
  assumes o: "orderly_tree ctx fs" and state: "jget journal ''state'' \<noteq> JStr ''purged''"
    and ps: "\<And>q. prefix (install_path ctx) q \<or> prefix (transaction_root ctx) q \<Longrightarrow> q \<in> ps"
  shows "valid (pruned ps fs) (finish_cleanup env ctx journal) (\<lambda>_ _. True) (pruned ps fs)"
proof -
  have "valid (pruned ps fs) (unlink_journal ctx) (\<lambda>_ _. True) (pruned ps fs)"
    unfolding unlink_journal_def raising_def
    by (rule valid_catch_weaker [OF unlink_failed]) (auto simp: pruned_def valid_def act_raise_def split: if_splits)
  then show ?thesis
    unfolding finish_cleanup_def
    by (intro valid_then [OF removes_dispose [OF o _ state]] valid_then [OF removes_transaction(1) [OF o]]
        valid_then [where R = "\<lambda>_. True"] valid_return) (auto intro: ps)
qed

lemma journal_apart:
  assumes "well_placed ctx"
  shows "\<not> prefix (install_path ctx) (journal_path ctx)" "\<not> prefix (transaction_root ctx) (journal_path ctx)"
    "q \<in> {journal_path ctx, temporary_name env (journal_path ctx) n} \<Longrightarrow> \<not> prefix q (generations_root ctx)"
proof -
  obtain a b where p: "install_path ctx = a @ [b]"
    using assms by (metis append_butlast_last_id well_placed_def clean_path_def)
  have t: "transaction_root ctx = a @ [b @ ''.transaction'']" "journal_path ctx = a @ [b @ ''.transaction.json'']"
    using transaction_places [OF assms] by (simp_all add: p)
  show "\<not> prefix (install_path ctx) (journal_path ctx)" "\<not> prefix (transaction_root ctx) (journal_path ctx)"
    by (simp_all add: p t)
  have "temporary_name env (journal_path ctx) n = a @ [c] \<Longrightarrow> length c > length b" for c
    by (auto simp: t temporary_name_def path_name_def)
  moreover have "\<exists>c. temporary_name env (journal_path ctx) n = a @ [c]" by (simp add: t temporary_name_def)
  ultimately show "q \<in> {journal_path ctx, temporary_name env (journal_path ctx) n} \<Longrightarrow> \<not> prefix q (generations_root ctx)"
    by (auto simp: t p generations_root_def)
qed

lemma orderly_written:
  assumes "orderly_tree ctx fs" "plain (map_of fs) (journal_path ctx)"
    and "written (journal_path ctx) (temporary_name env (journal_path ctx) n) fs content v"
  shows "orderly_tree ctx (nodes v)"
proof -
  let ?J = "journal_path ctx" and ?u = "temporary_name env (journal_path ctx) n"
  have w: "well_placed ctx" using assms(1) by (simp add: orderly_tree_def)
  have same: "map_of (nodes v) q = map_of fs q" if "q \<notin> {?u, ?J}" for q
    using assms(3) that by (simp add: written_def only_at_def)
  have names: "''..'' \<notin> set ?J" "''..'' \<notin> set ?u"
    using assms(2) write_places(1) [OF assms(2) refl] by (simp_all add: plain_def)
  show ?thesis
    unfolding orderly_tree_def
  proof (intro conjI allI impI w)
    fix q assume q: "prefix q (generations_root ctx)" "q \<noteq> []"
    then have "map_of (nodes v) q = map_of fs q" using journal_apart(3) [OF w, of q env n] by (intro same) blast
    moreover have "map_of fs q \<in> {None, Some Folder}" using assms(1) q unfolding orderly_tree_def by blast
    ultimately show "map_of (nodes v) q \<in> {None, Some Folder}" by simp
  next
    fix q assume q: "map_of (nodes v) q \<noteq> None"
    show "''..'' \<notin> set q"
    proof (cases "q \<in> {?u, ?J}")
      case False
      with q same have "map_of fs q \<noteq> None" by simp
      with assms(1) show ?thesis unfolding orderly_tree_def by blast
    qed (use names in auto)
  qed
qed

text \<open>
  Claim C22.  A transaction's outcome is durable before anything recovery needs is disposed of: however closing a
  transaction ends, and whichever system call fails, either nothing but the journal and its temporary file
  has changed, or the journal on disk is the terminal one, or the closing returned and neither
  journal nor transaction directory is left.
\<close>

theorem terminal_before_disposal:
  assumes o: "orderly_tree ctx (nodes w)" and J: "plain (map_of (nodes w)) (journal_path ctx)"
    and content: "canonical_json (lpy env) (JObj (terminal_journal journal outcome)) = Inr content"
    and outcome: "outcome \<noteq> ''purged''" and run: "complete_transaction env ctx journal outcome w = (r, w')"
  shows "(\<forall>q. q \<noteq> journal_path ctx \<longrightarrow> q \<noteq> temporary_name env (journal_path ctx) (identifiers w) \<longrightarrow>
            map_of (nodes w') q = map_of (nodes w) q) \<or>
         (\<exists>i. map_of (nodes w') (journal_path ctx) = Some (Regular i content)) \<or>
         ((\<exists>x. r = Inr x) \<and> \<not> lexists (nodes w') (journal_path ctx) \<and> \<not> exists_at (nodes w') (transaction_root ctx))"
proof -
  let ?J = "journal_path ctx" and ?u = "temporary_name env (journal_path ctx) (identifiers w)"
  let ?t = "terminal_journal journal outcome"
  obtain s v where s: "write_bytes env ?J content None w = (s, v)" by fastforce
  note steps = validD [OF write_bytes_steps [OF J, of None env content] refl]
  have whole: "complete_transaction env ctx journal outcome w =
      (case s of Inl e \<Rightarrow> (Inl e, v) | Inr _ \<Rightarrow> finish_cleanup env ctx ?t v)"
    by (simp add: complete_transaction_def store_journal_def content act_then_def act_bind_def act_lift_def s split: sum.splits)
  show ?thesis
  proof (cases s)
    case (Inl e)
    with whole run have "w' = v" by simp
    with steps(2) [of e v] s Inl show ?thesis by (auto simp: written_def only_at_def holds_bytes_def)
  next
    case (Inr x)
    with steps(1) [of x v] s have v: "written ?J ?u (nodes w) content v" by auto
    show ?thesis
    proof (cases r)
      case (Inr y)
      with \<open>s = Inr x\<close> whole run have "finish_cleanup env ctx ?t v = (Inr y, w')" by simp
      from validD(1) [OF finish_cleanup_ends TrueI this] Inr show ?thesis by (simp add: closed_def)
    next
      case (Inl e)
      let ?ps = "{q. prefix (install_path ctx) q \<or> prefix (transaction_root ctx) q}"
      have "jget ?t ''state'' \<noteq> JStr ''purged''" using outcome by (simp add: terminal_journal_def)
      moreover have "finish_cleanup env ctx ?t v = (Inl e, w')" using \<open>s = Inr x\<close> whole run Inl by simp
      ultimately have "pruned ?ps (nodes v) w'"
        using validD(2) [OF cleanup_failed [OF orderly_written [OF o J v], of ?t ?ps env] pruned_self(1)] by simp
      moreover have "?J \<notin> ?ps" using journal_apart(1,2) o by (simp add: orderly_tree_def)
      ultimately have "map_of (nodes w') ?J = map_of (nodes v) ?J" unfolding pruned_def by blast
      with v show ?thesis by (simp add: written_def holds_bytes_def)
    qed
  qed
qed

end
