(* ===== verification/Command_Facts.thy ===== *)
theory Command_Facts
  imports Command Disk_Facts
begin

text \<open>
  Who owns the command path: no operation of the lifecycle changes a command that belongs to someone else.
\<close>

lemma classify_cases: "fst (classify_command fs cmd target) \<in> {''absent'', ''owned'', ''foreign''}"
  "fst (classify_command fs cmd target) = ''absent'' \<longleftrightarrow> \<not> lexists fs cmd"
  by (auto simp: classify_command_def split: option.splits node.splits)

text \<open>Removing one file or link elsewhere keeps a plain path and its node.\<close>

lemma plain_delete:
  assumes "plain (map_of fs) p" "e \<noteq> p" "map_of fs e \<noteq> Some Folder"
  shows "plain (map_of (AList.delete e fs)) p" "map_of (AList.delete e fs) p = map_of fs p"
  using assms by (auto simp: plain_def)

lemma unlink_plain:
  assumes "plain (map_of (nodes w)) p" "unlink False p w = (r, w')"
  shows "nodes w' = nodes w \<or> map_of (nodes w) p \<noteq> Some Folder \<and> nodes w' = AList.delete p (nodes w)"
proof -
  have p: "p \<noteq> []" using assms(1) by (simp add: plain_def)
  have "valid (\<lambda>v. v = w) (unlink False p)
      (\<lambda>_ v. map_of (nodes w) p \<noteq> Some Folder \<and> nodes v = AList.delete p (nodes w)) (\<lambda>v. nodes v = nodes w)"
    unfolding unlink_def at_entry_def
  proof (rule valid_then)
    show "valid (\<lambda>v. v = w) os_call (\<lambda>_ v. nodes v = nodes w) (\<lambda>v. nodes v = nodes w)"
      by (rule valid_conseq [OF valid_kept [where P = "\<lambda>v. nodes v = nodes w", OF keeps_nodes_basic(4)]]) auto
    show "valid (\<lambda>v. nodes v = nodes w)
      (with_fs (\<lambda>fs. case entry fs p of None \<Rightarrow> act_raise OSError
        | Some e \<Rightarrow> (case lookup fs e of None \<Rightarrow> if False then act_return () else act_raise OSError
            | Some Folder \<Rightarrow> act_raise OSError | Some _ \<Rightarrow> drop_node e)))
      (\<lambda>_ v. map_of (nodes w) p \<noteq> Some Folder \<and> nodes v = AList.delete p (nodes w)) (\<lambda>v. nodes v = nodes w)"
      using entry_plain [OF assms(1)] p
      by (auto simp: valid_def with_fs_def lookup_map_of act_raise_def drop_node_def act_modify_def
          split: option.splits node.splits)
  qed
  with assms(2) show ?thesis unfolding valid_def by (cases r) (drule spec [of _ w], simp)+
qed

lemma raising_nodes: "raising c e m w = (r, w') \<Longrightarrow> \<exists>r'. m w = (r', w')"
  by (cases "m w"; cases "fst (m w)")
    (auto simp: raising_def act_catch_def act_raise_def split: if_splits)

lemma remove_snapshot_elsewhere:
  assumes "plain (map_of (nodes w)) cmd" "plain (map_of (nodes w)) p" "p \<noteq> cmd" "remove_snapshot env p s w = (r, w')"
  shows "plain (map_of (nodes w')) cmd" "map_of (nodes w') cmd = map_of (nodes w) cmd"
proof -
  have "nodes w' = nodes w \<or> map_of (nodes w) p \<noteq> Some Folder \<and> nodes w' = AList.delete p (nodes w)"
    using assms(4) raising_nodes [of is_os_failure removal_failed "unlink False p" w r w'] unlink_plain [OF assms(2)]
    by (auto simp: remove_snapshot_def with_fs_def act_raise_def split: if_splits)
  with plain_delete [OF assms(1,3)] assms(1)
  show "plain (map_of (nodes w')) cmd" "map_of (nodes w') cmd = map_of (nodes w) cmd" by auto
qed

lemma project_foreign:
  assumes cmd: "plain (map_of (nodes w)) cmd" and foreign: "fst (classify_command (nodes w) cmd target) = ''foreign''"
    and own: "\<not> matches_snapshot env (nodes w) cmd s" and p: "plain (map_of (nodes w)) (path_of (sn_path s))"
    and run: "project env cmd target (Some s) w = (r, w')"
  shows "map_of (nodes w') cmd = map_of (nodes w) cmd"
proof (cases "moved cmd (Some s)")
  case None
  with run foreign own show ?thesis
    by (auto simp: project_def act_then_def act_bind_def with_fs_def fail_if_def act_raise_def act_return_def Let_def
        split: if_splits)
next
  case (Some s')
  then have s': "s' = s" "path_of (sn_path s) \<noteq> cmd" by (auto simp: moved_def split: if_splits)
  obtain r1 w1 where w1: "remove_snapshot env (path_of (sn_path s)) s w = (r1, w1)" by fastforce
  note kept = remove_snapshot_elsewhere [OF cmd p s'(2) w1]
  have "map_of (nodes w) cmd \<noteq> None"
    using foreign classify_cases(2) [of "nodes w" cmd target] cmd by (auto simp: lexists_def lstat_plain)
  with kept have "lexists (nodes w1) cmd" by (simp add: lexists_def lstat_plain)
  with classify_cases [of "nodes w1" cmd target] have st: "fst (classify_command (nodes w1) cmd target) \<in> {''owned'', ''foreign''}"
    by auto
  have "\<not> matches_snapshot env (nodes w1) cmd s" using s'(2) by (simp add: matches_snapshot_def)
  with st run Some s' w1 kept(2) show ?thesis
    by (auto simp: project_def act_then_def act_bind_def with_fs_def fail_if_def act_raise_def act_return_def Let_def
        split: if_splits sum.splits)
qed

text \<open>
  Claim C26.  A command that belongs to someone else is never touched: when the command path is neither this
  installation's link nor the link recorded before the transaction, exposing, detaching, restoring and
  removing the command all leave its node as it is, whether they return or fail.
\<close>

theorem foreign_command_kept:
  assumes "plain (map_of (nodes w)) cmd" "plain (map_of (nodes w)) (path_of (sn_path s))"
    and "fst (classify_command (nodes w) cmd target) = ''foreign''" "\<not> matches_snapshot env (nodes w) cmd s"
    and "op \<in> {project env cmd target (Some s), detach env cmd target s, restore env cmd target s,
               act_then (remove_command cmd target) (act_return ())}"
    and "op w = (r, w')"
  shows "map_of (nodes w') cmd = map_of (nodes w) cmd"
proof -
  have "nodes w' = nodes w" if "op \<noteq> project env cmd target (Some s)"
    using assms(3-6) that
    by (auto simp: detach_def restore_def remove_command_def with_fs_def act_then_def act_bind_def act_raise_def
        act_return_def Let_def split: if_splits)
  then show ?thesis using project_foreign [OF assms(1,3,4,2)] assms(5,6) by (cases "op = project env cmd target (Some s)") auto
qed

section \<open>A stored snapshot is read back\<close>

definition stored_snapshot :: "command_snapshot \<Rightarrow> jdict" where
  "stored_snapshot s =
     [(''device'', JInt (sn_device s)), (''inode'', JInt (sn_inode s)), (''kind'', JStr (sn_kind s)), (''path'', JStr (sn_path s)),
      (''schema_version'', JInt SNAPSHOT_SCHEMA), (''state'', JStr (sn_state s)), (''target'', JStr (sn_target s))]"

lemma sort_snapshot:
  "sort_json (JObj (snapshot_json s)) = JObj (stored_snapshot s)" "sort_json (JObj (stored_snapshot s)) = JObj (stored_snapshot s)"
  by (simp_all add: snapshot_json_def stored_snapshot_def sort_key_def)

lemma stored_is_object: "is_json_object (JObj (snapshot_json s))" "is_json_object (JObj (stored_snapshot s))"
  by (simp_all add: is_json_object_def snapshot_json_def stored_snapshot_def)

lemma canonical_snapshot: "canonical_json env (JObj (stored_snapshot s)) = canonical_json env (JObj (snapshot_json s))"
  by (simp add: canonical_json_def stored_is_object sort_snapshot del: sort_json.simps)

lemma classify_kind: "classify_command fs cmd target = (''owned'', kind) \<Longrightarrow> kind \<in> {''symlink'', ''launcher'', ''hardlink''}"
  by (auto simp: classify_command_def split: option.splits node.splits if_splits)

text \<open>A snapshot that was taken is one that is accepted again.\<close>

lemma taken_accepted:
  assumes "snapshot_command env cmd target w = (Inr s, w1)" "sn_state s = ''owned'' \<longrightarrow> sn_device s \<noteq> 0 \<and> sn_inode s \<noteq> 0"
  shows "snapshot_of (stored_snapshot s) = Inr s"
proof -
  have "absolute_text (path_text p)" for p by (simp add: absolute_text_def path_text_def is_absolute_def starts_with_def)
  with assms classify_cases(1) [of "nodes w" cmd target] classify_kind [of "nodes w" cmd target] show ?thesis
    by (auto simp: snapshot_command_def returns snapshot_of_def stored_snapshot_def SNAPSHOT_SCHEMA_def split: prod.splits if_splits)
qed

lemma plain_file_read:
  assumes "plain (map_of (nodes w)) p" "map_of (nodes w) p = Some (Regular i c)" "faults w = []"
  shows "read_bytes p w = (Inr c, w)"
proof -
  have "stat (nodes w) p = Some (Regular i c)" using lstat_stat [of "nodes w" p] lstat_plain [OF assms(1)] assms(2) by simp
  with assms(3) show ?thesis by (simp add: read_bytes_def os_call_def act_then_def act_bind_def with_fs_def act_return_def)
qed

text \<open>
  Claim C27.  The record of the command that a recovery relies on survives storage: a snapshot that was taken and
  written to the transaction directory is read back as it was taken, provided the device and inode
  numbers of an existing link are not zero, the read itself does not fail, and parsing inverts the
  canonical text.
\<close>

theorem snapshot_round_trip:
  assumes "snapshot_command env cmd target w = (Inr s, w1)" "sn_state s = ''owned'' \<longrightarrow> sn_device s \<noteq> 0 \<and> sn_inode s \<noteq> 0"
    and "plain (map_of (nodes w1)) (root @ [SNAPSHOT_FILENAME])" "write_snapshot env root s w1 = (Inr (), w')" "faults w' = []"
    and "canonical_json (lpy env) (JObj (snapshot_json s)) = Inr content" "loads (lpy env) content = Inr (sort_json (JObj (snapshot_json s)))"
  shows "read_snapshot env root w' = (Inr s, w')"
proof -
  let ?p = "root @ [SNAPSHOT_FILENAME]"
  have run: "write_bytes env ?p content None w1 = (Inr (), w')" using assms(4,6) by (simp add: write_snapshot_def returns)
  have "written ?p (temporary_name env ?p (identifiers w1)) (nodes w1) content w'"
    using validD(1) [OF write_bytes_steps [OF assms(3), of None env content] refl run] by simp
  then obtain i where "only_at {temporary_name env ?p (identifiers w1), ?p} (nodes w1) w'" and i: "map_of (nodes w') ?p = Some (Regular i content)"
    by (auto simp: written_def holds_bytes_def)
  then have "plain (map_of (nodes w')) ?p" using written_plain(1) [OF assms(3) refl] by blast
  from plain_file_read [OF this i assms(5)] show ?thesis
    using assms(6,7) taken_accepted [OF assms(1,2)] unfolding sort_snapshot
    by (simp add: read_snapshot_def read_canonical_json_def decoded_def raising_def act_catch_def act_bind_def act_lift_def act_return_def
        canonical_snapshot stored_is_object)
qed

end
