(* ===== verification/Lifecycle_Samples.thy ===== *)
theory Lifecycle_Samples
  imports Disposal Command_Facts
begin

text \<open>
  A small installation on which the theorems about the lifecycle are applied: one selected generation, one
  that is not selected, another owner's command, and the journal of a closed transaction.
\<close>

definition sample_generation :: string where
  "sample_generation = replicate 32 (CHR ''a'')"

definition sample_other :: string where
  "sample_other = replicate 32 (CHR ''b'')"

definition sample_selection :: payload_selection where
  "sample_selection = \<lparr>active = sample_generation, predecessor = None\<rparr>"

definition canonical_text :: "jdict \<Rightarrow> bytes" where
  "canonical_text d = json_text False (sort_json (JObj d)) @ [CHR 10]"

definition sample_facts :: journal_facts where
  "sample_facts = \<lparr>jf_transaction = sample_generation, jf_version = ''1.2.3'', jf_receipt = replicate 64 (CHR ''0''),
     jf_fresh = True, jf_generation = None, jf_predecessor = None\<rparr>"

definition sample_journal :: jdict where
  "sample_journal = journal_document sample_facts ''finalized'' None None"

definition closed_journal :: jdict where
  "closed_journal = journal_document sample_facts ''closed'' None None"

definition sample_lifecycle :: lifecycle_env where
  "sample_lifecycle =
     \<lparr>lpy = (sample_env JNull)\<lparr>loads := (\<lambda>c. Inr (JObj (selection_json sample_selection)))\<rparr>,
      pid_text = ''7'', uuid_hex = (\<lambda>n. replicate n (CHR ''c'')), st_dev = 1, prewarm_ok = (\<lambda>p fs. True)\<rparr>"

definition closed_lifecycle :: lifecycle_env where
  "closed_lifecycle = sample_lifecycle\<lparr>lpy := (sample_env JNull)\<lparr>loads := (\<lambda>c. Inr (JObj closed_journal))\<rparr>\<rparr>"

definition sample_ctx :: runtime_context where
  "sample_ctx =
     \<lparr>install_dir = ''/o/p'', executable = ''/o/p/bin/x'', command = ''/b/c'', log_dir = ''/l'', user_home = ''/h'', port = 1,
      proxy_log_max_bytes = 1, proxy_log_backup_count = 1, watchdog_log_max_bytes = 1, watchdog_log_backup_count = 1,
      upstream_timeout = ''1.0'', upstream_read_timeout = ''1.0'', watchdog_interval = ''1.0'', watchdog_max_backoff = ''1.0'',
      response_failed_compaction_budget = 1, response_failed_max_stages = 1, upstream_base_url = []\<rparr>"

definition sample_disk :: disk where
  "sample_disk =
     \<lparr>nodes = [([''o''], Folder), ([''o'', ''p''], Folder), ([''o'', ''p'', ''generations''], Folder),
               ([''o'', ''p'', ''generations'', sample_generation], Folder),
               ([''o'', ''p'', ''generations'', sample_other], Folder),
               ([''o'', ''p'', ''payload-selection.json''], Regular 1 (canonical_text (selection_json sample_selection))),
               ([''o'', ''p.transaction.json''], Regular 2 (canonical_text closed_journal)),
               ([''b''], Folder), ([''b'', ''c''], Regular 3 ''mine'')],
      faults = [], inodes = 3, identifiers = 0\<rparr>"

definition closed_disk :: disk where
  "closed_disk =
     \<lparr>nodes = [([''o''], Folder), ([''o'', ''p.transaction.json''], Regular 1 (canonical_text closed_journal))],
      faults = [], inodes = 1, identifiers = 0\<rparr>"

definition sample_snapshot :: command_snapshot where
  "sample_snapshot =
     \<lparr>sn_state = ''absent'', sn_path = ''/b/c'', sn_target = [], sn_kind = [], sn_device = 0, sn_inode = 0\<rparr>"

definition sample_transaction :: payload_transaction where
  "sample_transaction =
     \<lparr>tx_ctx = sample_ctx, tx_blobs = [], tx_version = ''1.2.3'', tx_receipt_sha256 = replicate 64 (CHR ''0''), tx_receipt = [],
      tx_id = sample_generation, tx_fresh = True, tx_state = ''prepared'', tx_candidate_ctx = sample_ctx, tx_reuse = False,
      tx_retained = None, tx_previous_generation = None, tx_previous_selection = None\<rparr>"

section \<open>The places and texts of the sample\<close>

lemma sample_places:
  "install_path sample_ctx = [''o'', ''p'']" "generations_root sample_ctx = [''o'', ''p'', ''generations'']"
  "selector_path sample_ctx = [''o'', ''p'', ''payload-selection.json'']"
  "transaction_root sample_ctx = [''o'', ''p.transaction'']" "journal_path sample_ctx = [''o'', ''p.transaction.json'']"
  by (simp_all add: install_path_def sample_ctx_def path_of_def generations_root_def selector_path_def transaction_root_def
      journal_path_def path_text_def PAYLOAD_GENERATIONS_DIRNAME_def PAYLOAD_SELECTOR_FILENAME_def)

lemma canonical_sample:
  assumes "is_json_object (JObj d)" "json_depth (sort_json (JObj d)) = 1" "\<not> has_surrogate (canonical_text d)"
    and "dump_depth env = 100"
  shows "canonical_json env (JObj d) = Inr (canonical_text d)"
  using assms by (simp add: canonical_json_def json_dumps_def encode_utf8_def canonical_text_def)

lemma sample_depths: "dump_depth (lpy sample_lifecycle) = 100" "dump_depth (lpy closed_lifecycle) = 100"
  by (simp_all add: sample_lifecycle_def closed_lifecycle_def sample_env_def)

lemma sample_objects: "is_json_object (JObj (selection_json sample_selection))" "is_json_object (JObj closed_journal)"
  by code_simp+

lemma sample_texts:
  "canonical_json (lpy sample_lifecycle) (JObj (selection_json sample_selection)) = Inr (canonical_text (selection_json sample_selection))"
  "canonical_json (lpy closed_lifecycle) (JObj closed_journal) = Inr (canonical_text closed_journal)"
proof -
  have plain_text: "json_depth (sort_json (JObj (selection_json sample_selection))) = 1" "json_depth (sort_json (JObj closed_journal)) = 1"
    "\<not> has_surrogate (canonical_text (selection_json sample_selection))" "\<not> has_surrogate (canonical_text closed_journal)"
    by code_simp+
  then show "canonical_json (lpy sample_lifecycle) (JObj (selection_json sample_selection)) =
      Inr (canonical_text (selection_json sample_selection))"
    "canonical_json (lpy closed_lifecycle) (JObj closed_journal) = Inr (canonical_text closed_journal)"
    using canonical_sample sample_objects sample_depths by auto
qed

lemma sample_prefixes:
  "strict_prefix q [a, b] \<longleftrightarrow> q = [] \<or> q = [a]"
  by (auto simp: strict_prefix_def prefix_Cons)

lemma sample_plain:
  "plain (map_of (nodes sample_disk)) [''b'', ''c'']" "plain (map_of (nodes sample_disk)) [''o'', ''p.transaction.json'']"
  by (auto simp: plain_def sample_prefixes sample_disk_def)

lemma sample_distinct: "sample_generation \<noteq> sample_other" "sample_generation \<noteq> ''..''" "''..'' \<noteq> sample_generation" "''..'' \<noteq> sample_other"
  by code_simp+

lemma sample_orderly: "orderly_tree sample_ctx (nodes sample_disk)"
proof -
  have "well_placed sample_ctx"
    by (simp add: well_placed_def sample_places clean_path_def clean_part_def) (simp add: sample_ctx_def path_text_def)
  moreover have "\<forall>q. prefix q [''o'', ''p'', ''generations''] \<longrightarrow> q \<noteq> [] \<longrightarrow> map_of (nodes sample_disk) q \<in> {None, Some Folder}"
    by (auto simp: prefix_Cons sample_disk_def)
  moreover have "''..'' \<notin> set q" if "map_of (nodes sample_disk) q \<noteq> None" for q
  proof -
    have "list_all (\<lambda>q. ''..'' \<notin> set q) (map fst (nodes sample_disk))"
      by (simp add: sample_disk_def sample_distinct)
    with that show ?thesis by (force simp: list_all_iff dest!: map_of_SomeD)
  qed
  ultimately show ?thesis by (simp add: orderly_tree_def sample_places)
qed

section \<open>The theorems on the sample\<close>

theorem write_bytes_atomic_witness:
  "plain (map_of (nodes sample_disk)) [''b'', ''c''] \<and>
   (let w' = snd (write_bytes sample_lifecycle [''b'', ''c''] ''new'' None sample_disk) in
      map_of (nodes w') [''o''] = Some Folder \<and>
      (map_of (nodes w') [''b'', ''c''] = Some (Regular 3 ''mine'') \<or> (\<exists>i. map_of (nodes w') [''b'', ''c''] = Some (Regular i ''new''))))"
  using sample_plain(1) write_bytes_atomic [OF sample_plain(1), of None sample_lifecycle "''new''"
      "fst (write_bytes sample_lifecycle [''b'', ''c''] ''new'' None sample_disk)"]
  by (auto simp: Let_def temporary_name_def sample_disk_def)

theorem foreign_command_kept_witness:
  "fst (classify_command (nodes sample_disk) [''b'', ''c''] [''o'', ''x'']) = ''foreign'' \<and>
   map_of (nodes (snd (detach sample_lifecycle [''b'', ''c''] [''o'', ''x''] sample_snapshot sample_disk))) [''b'', ''c''] =
     Some (Regular 3 ''mine'')"
proof -
  have places: "path_of (sn_path sample_snapshot) = [''b'', ''c'']"
    by (simp add: sample_snapshot_def path_of_def)
  have foreign: "fst (classify_command (nodes sample_disk) [''b'', ''c''] [''o'', ''x'']) = ''foreign''"
    by (simp add: sample_disk_def classify_command_def resolved_def is_file_def is_symlink_def lexists_def lstat_def stat_def entry_def
        real_path_def walk.simps lookup_def is_launcher_path_def Let_def path_name_def lower_def)
  have "\<not> matches_snapshot sample_lifecycle (nodes sample_disk) [''b'', ''c''] sample_snapshot"
    by (simp add: matches_snapshot_def sample_snapshot_def)
  from foreign_command_kept [OF sample_plain(1) _ foreign this, of "detach sample_lifecycle [''b'', ''c''] [''o'', ''x''] sample_snapshot"
      "fst (detach sample_lifecycle [''b'', ''c''] [''o'', ''x''] sample_snapshot sample_disk)"] sample_plain(1)
  have "map_of (nodes (snd (detach sample_lifecycle [''b'', ''c''] [''o'', ''x''] sample_snapshot sample_disk))) [''b'', ''c''] =
      map_of (nodes sample_disk) [''b'', ''c'']"
    by (simp add: places)
  with foreign show ?thesis by (simp add: sample_disk_def)
qed

lemma closed_terminal: "terminal_journal closed_journal ''closed'' = closed_journal"
  by code_simp

theorem terminal_before_disposal_witness:
  "canonical_json (lpy closed_lifecycle) (JObj (terminal_journal closed_journal ''closed'')) = Inr (canonical_text closed_journal) \<and>
   (let (r, w') = complete_transaction closed_lifecycle sample_ctx closed_journal ''closed'' sample_disk in
      (\<exists>x. r = Inr x) \<or> map_of (nodes w') [''b'', ''c''] = Some (Regular 3 ''mine'') \<or>
      (\<exists>i. map_of (nodes w') (journal_path sample_ctx) = Some (Regular i (canonical_text closed_journal))))"
proof -
  have content: "canonical_json (lpy closed_lifecycle) (JObj (terminal_journal closed_journal ''closed'')) =
      Inr (canonical_text closed_journal)"
    by (simp only: closed_terminal sample_texts)
  obtain r w' where run: "complete_transaction closed_lifecycle sample_ctx closed_journal ''closed'' sample_disk = (r, w')"
    by (cases "complete_transaction closed_lifecycle sample_ctx closed_journal ''closed'' sample_disk")
  from terminal_before_disposal [OF sample_orderly _ content _ run] sample_plain(2) content run show ?thesis
    by (auto simp: sample_places temporary_name_def sample_disk_def)
qed

theorem finalized_in_order_witness:
  "tx_state sample_transaction = ''prepared'' \<and>
   tx_state (snd (tx_run sample_lifecycle [Activate, Finalize []] (sample_disk, sample_transaction))) \<notin> {''finalized'', ''activated''}"
  using finalized_in_order [of sample_transaction sample_lifecycle "[Activate, Finalize []]" sample_disk]
  by (auto simp: sample_transaction_def)

theorem ended_transaction_stays_witness:
  "tx_state (snd (tx_run sample_lifecycle [Rollback, Commit] (sample_disk, sample_transaction\<lparr>tx_state := ''finalized''\<rparr>))) = ''finalized''"
  using ended_transaction_stays [of "sample_transaction\<lparr>tx_state := ''finalized''\<rparr>" sample_lifecycle "[Rollback, Commit]" sample_disk]
  by simp

section \<open>Reading the sample\<close>

lemmas sample_views = is_file_def is_symlink_def lexists_def lstat_def stat_def entry_def real_path_def walk.simps lookup_def
  present_def exists_at_def is_dir_def

lemma sample_nodes:
  "stat (nodes sample_disk) [''o'', ''p'', ''payload-selection.json''] =
     Some (Regular 1 (canonical_text (selection_json sample_selection)))"
  "stat (nodes sample_disk) [''o'', ''p'', ''generations'', sample_generation] = Some Folder"
  "lstat (nodes sample_disk) [''o'', ''p'', ''payload-selection.json''] =
     Some (Regular 1 (canonical_text (selection_json sample_selection)))"
  "lstat (nodes sample_disk) [''o'', ''p'', ''generations'', sample_generation] = Some Folder"
  by (simp_all add: sample_disk_def sample_views sample_distinct del: list.inject)

lemma sample_selection_fields:
  "keys_exactly (selection_json sample_selection) [''schema_version'', ''active'', ''predecessor'']"
  "equals_number (jget (selection_json sample_selection) ''schema_version'') PAYLOAD_SELECTOR_SCHEMA"
  "selection_fields (selection_json sample_selection) = Inr sample_selection"
  "generation_path sample_ctx sample_generation = Inr [''o'', ''p'', ''generations'', sample_generation]"
  "named_generations sample_selection = [sample_generation]"
  by code_simp+

lemma sample_loads:
  "loads (lpy sample_lifecycle) c = Inr (JObj (selection_json sample_selection))" "loads (lpy closed_lifecycle) c = Inr (JObj closed_journal)"
  by (simp_all add: sample_lifecycle_def closed_lifecycle_def)

lemma sample_selected: "read_selection sample_lifecycle sample_ctx sample_disk = (Inr (Some sample_selection), sample_disk)"
proof -
  have "faults sample_disk = []" by (simp add: sample_disk_def)
  then show ?thesis
    by (simp add: read_selection_def read_payload_selection_def real_generation_def sample_places sample_texts sample_nodes
       is_file_def is_symlink_def present_def exists_at_def is_dir_def sample_selection_fields sample_loads
        read_bytes_def os_call_def Let_def returns)
qed

lemma closed_nodes:
  "stat (nodes closed_disk) [''o'', ''p.transaction''] = None" "lstat (nodes closed_disk) [''o'', ''p.transaction''] = None"
  "stat (nodes closed_disk) [''o'', ''p.transaction.json''] = Some (Regular 1 (canonical_text closed_journal))"
  "lstat (nodes closed_disk) [''o'', ''p.transaction.json''] = Some (Regular 1 (canonical_text closed_journal))"
  "entry (nodes closed_disk) [''o'', ''p.transaction.json''] = Some [''o'', ''p.transaction.json'']"
  "lookup (nodes closed_disk) [''o'', ''p.transaction.json''] = Some (Regular 1 (canonical_text closed_journal))"
  "faults closed_disk = []"
  by (simp_all add: closed_disk_def sample_views)

lemma closed_fields:
  "check_journal False closed_journal = Inr ()" "in_state closed_journal TERMINAL_STATES" "jget closed_journal ''state'' = JStr ''closed''"
  by code_simp+

lemma closed_recovered:
  "\<exists>result w'. recover closed_lifecycle sample_ctx None (\<lambda>_. act_return ()) closed_disk = (Inr result, w')"
proof -
  have journal: "read_journal closed_lifecycle sample_ctx closed_disk = (Inr closed_journal, closed_disk)"
    by (simp add: read_journal_def sample_places sample_texts closed_nodes closed_fields sample_loads sample_objects
       is_file_def is_symlink_def exists_at_def read_bytes_def os_call_def Let_def returns)
  have "unlink False (journal_path sample_ctx) closed_disk = (Inr (), closed_disk\<lparr>nodes := AList.delete [''o'', ''p.transaction.json''] (nodes closed_disk)\<rparr>)"
    by (simp add: unlink_def sample_places at_entry_def closed_nodes os_call_def drop_node_def returns)
  then have "\<exists>result w'. finish_cleanup closed_lifecycle sample_ctx closed_journal closed_disk = (Inr result, w')"
    by (simp add: finish_cleanup_def dispose_def remove_transaction_root_def unlink_journal_def sample_places closed_nodes
        closed_fields exists_at_def Let_def returns)
  moreover have "\<exists>current. status closed_lifecycle sample_ctx closed_disk = (Inr (Some current), closed_disk)"
    using journal by (simp add: status_def sample_places present_def exists_at_def closed_nodes act_catch_def returns with_fs_def
        act_bind_def act_return_def)
  ultimately show ?thesis
    using journal by (auto simp: recover_def as_recovery_state_def act_catch_def closed_fields act_bind_def)
qed

theorem recover_closes_witness:
  "lexists (nodes closed_disk) (journal_path sample_ctx) \<and>
   (\<exists>result w'. recover closed_lifecycle sample_ctx None (\<lambda>_. act_return ()) closed_disk = (Inr result, w') \<and>
      \<not> lexists (nodes w') (journal_path sample_ctx) \<and> \<not> exists_at (nodes w') (transaction_root sample_ctx))"
  using closed_recovered recover_closes [of closed_lifecycle sample_ctx None "\<lambda>_. act_return ()" closed_disk]
  by (auto simp: sample_places lexists_def closed_nodes)

theorem cleanup_keeps_selected_witness:
  "read_selection sample_lifecycle sample_ctx sample_disk = (Inr (Some sample_selection), sample_disk) \<and>
   map_of (nodes (snd (finish_cleanup sample_lifecycle sample_ctx sample_journal sample_disk))) (generations_root sample_ctx @ [sample_generation]) =
     Some Folder"
proof -
  have "jget sample_journal ''state'' \<noteq> JStr ''purged''" by code_simp
  from cleanup_keeps_selected [OF sample_orderly sample_selected this, of "fst (finish_cleanup sample_lifecycle sample_ctx sample_journal sample_disk)"
      _ sample_generation "generations_root sample_ctx @ [sample_generation]"]
  show ?thesis by (simp add: sample_selection_fields sample_selected sample_places) (simp add: sample_disk_def)
qed

section \<open>Storing a snapshot\<close>

definition taken_snapshot :: command_snapshot where
  "taken_snapshot =
     \<lparr>sn_state = ''absent'', sn_path = ''/b/n'', sn_target = ''/o/x'', sn_kind = [], sn_device = 0, sn_inode = 0\<rparr>"

definition snapshot_lifecycle :: lifecycle_env where
  "snapshot_lifecycle = sample_lifecycle\<lparr>lpy := (sample_env JNull)\<lparr>loads := (\<lambda>c. Inr (JObj (stored_snapshot taken_snapshot)))\<rparr>\<rparr>"

lemma snapshot_taken: "snapshot_command snapshot_lifecycle [''b'', ''n''] [''o'', ''x''] sample_disk = (Inr taken_snapshot, sample_disk)"
  by (simp add: snapshot_command_def with_fs_def classify_command_def sample_views sample_disk_def taken_snapshot_def path_text_def act_return_def)

lemma snapshot_text:
  "canonical_json (lpy snapshot_lifecycle) (JObj (snapshot_json taken_snapshot)) = Inr (canonical_text (snapshot_json taken_snapshot))"
proof -
  have "json_depth (sort_json (JObj (snapshot_json taken_snapshot))) = 1" "\<not> has_surrogate (canonical_text (snapshot_json taken_snapshot))"
    by code_simp+
  moreover have "dump_depth (lpy snapshot_lifecycle) = 100" by (simp add: snapshot_lifecycle_def sample_env_def)
  ultimately show ?thesis using canonical_sample stored_is_object(1) by blast
qed

lemma snapshot_plain: "plain (map_of (nodes sample_disk)) [''b'', ''command.json'']"
  by (auto simp: plain_def sample_prefixes sample_disk_def)

lemma snapshot_written:
  "\<exists>w'. write_bytes snapshot_lifecycle [''b'', ''command.json''] content None sample_disk = (Inr (), w') \<and> faults w' = []"
  by (simp add: write_bytes_def real_parent_def replaceable_def mkdir_parents_def folders_below_def temporary_name_def sample_disk_def sample_views
      open_exclusive_def write_content_def replace_def unlink_def at_entry_def put_node_def drop_node_def new_identifier_def new_inode_def
      act_then_def act_bind_def act_return_def act_modify_def act_ensure_def with_fs_def fail_if_def os_call_def path_name_def
      snapshot_lifecycle_def sample_lifecycle_def Let_def)

theorem snapshot_round_trip_witness:
  "\<exists>w'. write_snapshot snapshot_lifecycle [''b''] taken_snapshot sample_disk = (Inr (), w') \<and>
     read_snapshot snapshot_lifecycle [''b''] w' = (Inr taken_snapshot, w')"
proof -
  obtain w' where "write_bytes snapshot_lifecycle [''b'', ''command.json''] (canonical_text (snapshot_json taken_snapshot)) None sample_disk = (Inr (), w')"
    and faults: "faults w' = []" using snapshot_written by blast
  then have run: "write_snapshot snapshot_lifecycle [''b''] taken_snapshot sample_disk = (Inr (), w')"
    by (simp add: write_snapshot_def returns snapshot_text SNAPSHOT_FILENAME_def)
  have "loads (lpy snapshot_lifecycle) c = Inr (sort_json (JObj (snapshot_json taken_snapshot)))" for c
    by (simp add: snapshot_lifecycle_def sort_snapshot del: sort_json.simps)
  from snapshot_round_trip [OF snapshot_taken _ _ run faults snapshot_text this] snapshot_plain run show ?thesis
    by (auto simp: taken_snapshot_def SNAPSHOT_FILENAME_def)
qed

end
