(* ===== verification/Host_Samples.thy ===== *)
theory Host_Samples
  imports Process Lifecycle_Samples
begin

text \<open>
  A small host on which the theorems about processes are applied: one listener of the sample installation,
  which only the first inventory of processes shows.
\<close>

definition sample_process :: ps_process where
  "sample_process =
     \<lparr>ps_create_time = Inr (Some 1), ps_status = Inr (Some ''running''), ps_is_running = Inr (Some True),
      ps_cmdline = Inr (Some [''/o/p/bin/x'', ''--internal-listener'']), ps_exe = Inr (Some ''/o/p/bin/x'')\<rparr>"

definition sample_host_env :: host_env where
  "sample_host_env =
     \<lparr>life = sample_lifecycle, current_dir = [''o''],
      ps_at = (\<lambda>n pid. if pid = 5 then Inr sample_process else Inl No_such_process),
      ps_all = (\<lambda>n. if n = 0 then ([(5, sample_process)], False) else ([], False)),
      ps_connections = (\<lambda>n. ([], False)), ps_terminate = (\<lambda>n pid. None), ps_wait = (\<lambda>n pid t. (1, None)),
      http_at = (\<lambda>n verb route data. (0, Http_unavailable)), service_done = (\<lambda>n op ctx. Inr ()),
      service_configured = (\<lambda>n ctx. Inr None), service_status = (\<lambda>n ctx. Inr ''running''), format_g = (\<lambda>t. ''1'')\<rparr>"

definition sample_host :: host where
  "sample_host = \<lparr>h_disk = sample_disk, h_clock = 0, h_looks = 0, h_calls = [], h_called_at = []\<rparr>"

lemma sample_named:
  "pid_names_executable sample_host_env 5 ''/o/p/bin/x'' (Some RUNTIME_ROLES) w = (Inr True, w\<lparr>h_looks := Suc (h_looks w)\<rparr>)"
  by (simp add: pid_names_executable_def process_argv_def argv_names_executable_def has_role_def RUNTIME_ROLES_def LISTENER_MODE_def
      sample_host_env_def sample_process_def argv_of_def narrowed_def host_runs)

lemma sample_executable: "executable sample_ctx = ''/o/p/bin/x''"
  by (simp add: sample_ctx_def)

lemma sample_pids:
  "runtime_pids sample_host_env sample_ctx w =
     (if h_looks w = 0 then (Inr [5], w\<lparr>h_looks := 2\<rparr>) else (Inr [], w\<lparr>h_looks := Suc (h_looks w)\<rparr>))"
proof -
  have "process_inventory sample_host_env w =
      (Inr (if h_looks w = 0 then [(5, [''/o/p/bin/x'', ''--internal-listener''])] else []), w\<lparr>h_looks := Suc (h_looks w)\<rparr>)"
    by (simp add: process_inventory_def host_runs sample_host_env_def sample_process_def argv_of_def narrowed_def map_filter_simps)
  then show ?thesis
    by (simp add: runtime_pids_def pids_naming_executable_def sample_executable sample_named act_bind_def act_return_def)
qed

lemma sample_ended:
  "\<exists>n t. end_runtime_process sample_host_env sample_ctx 1 5 w =
     (Inr (), w\<lparr>h_looks := Suc n, h_calls := h_calls w @ [Signal 5], h_called_at := h_called_at w @ [h_looks w + 3], h_clock := t\<rparr>)"
proof -
  have views: "ps_at sample_host_env n 5 = Inr sample_process" "ps_terminate sample_host_env n 5 = None" "ps_wait sample_host_env n 5 t = (1, None)" for n t
    by (simp_all add: sample_host_env_def)
  show ?thesis
    by (simp add: end_runtime_process_def terminate_executable_def end_process_def sample_executable sample_named views host_runs)
      (rule exI [of _ "h_looks w + 4"], rule exI [of _ "h_clock w + 1"], cases w, simp)
qed

lemma sample_terminated:
  "\<exists>w'. terminate_runtime sample_host_env sample_ctx 1 sample_host = (Inr 1, w') \<and> h_calls w' = [Signal 5] \<and> h_called_at w' = [5]"
proof -
  obtain n t where "end_runtime_process sample_host_env sample_ctx 1 5 (sample_host\<lparr>h_looks := 2\<rparr>) =
      (Inr (), sample_host\<lparr>h_looks := Suc n, h_calls := [Signal 5], h_called_at := [5], h_clock := t\<rparr>)"
    using sample_ended [of "sample_host\<lparr>h_looks := 2\<rparr>"] by (auto simp: sample_host_def)
  then show ?thesis
    by (simp add: terminate_runtime_def act_bind_def act_then_def act_return_def sample_pids) (simp add: sample_host_def)
qed

theorem terminate_runtime_owned_witness:
  "\<exists>w'. terminate_runtime sample_host_env sample_ctx 1 sample_host = (Inr 1, w') \<and> h_calls w' = [Signal 5] \<and>
     h_called_at w' = [5] \<and> signals_since (proven sample_host_env (nodes sample_disk) ''/o/p/bin/x'' (Some RUNTIME_ROLES)) sample_host w'"
  using sample_terminated terminate_runtime_owned [of sample_host_env sample_ctx 1 sample_host]
  by (auto simp: sample_host_def sample_ctx_def)

end
