(* ===== verification/Journal_Facts.thy ===== *)
theory Journal_Facts
  imports Journal
begin

text \<open>
  The order of release versions and the confinement of canonical relative paths.
\<close>

section \<open>Versions\<close>

lemma decimal_value_snoc: "decimal_value (s @ [c]) = 10 * decimal_value s + (of_char c - 48)"
  by (simp add: decimal_value_def)

lemma digit_value: "decimal_digit c \<Longrightarrow> (of_char c :: nat) - 48 < 10 \<and> (48 :: nat) \<le> of_char c"
  by (auto simp: decimal_digit_def)

lemma digit_value_inj:
  assumes "decimal_digit c" "decimal_digit d" "(of_char c :: nat) - 48 = of_char d - 48"
  shows "c = d"
proof -
  from assms digit_value have "(of_char c :: nat) = of_char d" by (metis le_add_diff_inverse2)
  then show ?thesis by simp
qed

lemma digit_zero: "decimal_digit c \<Longrightarrow> (of_char c :: nat) - 48 = 0 \<Longrightarrow> c = CHR ''0''"
  by (rule digit_value_inj) (auto simp: decimal_digit_def)

lemma decimal_value_zero: "list_all decimal_digit s \<Longrightarrow> decimal_value s = 0 \<Longrightarrow> set s \<subseteq> {CHR ''0''}"
  by (induction s rule: rev_induct) (auto simp: decimal_value_snoc dest: digit_zero)

lemma tens_inj: "10 * m + i = 10 * n + j \<Longrightarrow> i < 10 \<Longrightarrow> j < 10 \<Longrightarrow> m = n \<and> i = j" for m n i j :: nat
  using linorder_neqE_nat [of m n] by fastforce

lemma leading_digits_inj:
  assumes "list_all decimal_digit s" "list_all decimal_digit t" "decimal_value s = decimal_value t"
    and "s \<noteq> [] \<longrightarrow> hd s \<noteq> CHR ''0''" "t \<noteq> [] \<longrightarrow> hd t \<noteq> CHR ''0''"
  shows "s = t"
  using assms
proof (induction s arbitrary: t rule: rev_induct)
  case Nil
  have "t = []"
  proof (rule ccontr)
    assume "t \<noteq> []"
    with Nil decimal_value_zero [of t] have "hd t = CHR ''0''" by (cases t) (auto simp: decimal_value_def)
    with Nil(5) \<open>t \<noteq> []\<close> show False by simp
  qed
  then show ?case by simp
next
  case (snoc c s)
  have "t \<noteq> []"
  proof
    assume "t = []"
    with snoc.prems(3) have "decimal_value (s @ [c]) = 0" by (simp add: decimal_value_def)
    with snoc.prems(1) decimal_value_zero [of "s @ [c]"] have "hd (s @ [c]) = CHR ''0''" by (cases s) auto
    with snoc.prems(4) show False by simp
  qed
  then obtain t' d where t: "t = t' @ [d]" by (metis append_butlast_last_id)
  have digits: "decimal_digit c" "decimal_digit d" using snoc.prems(1,2) t by auto
  have "10 * decimal_value s + (of_char c - 48) = 10 * decimal_value t' + (of_char d - 48)"
    using snoc.prems(3) by (simp add: t decimal_value_snoc)
  from tens_inj [OF this] digits [THEN digit_value]
  have "decimal_value s = decimal_value t'" "(of_char c :: nat) - 48 = of_char d - 48" by blast+
  moreover have "s \<noteq> [] \<longrightarrow> hd s \<noteq> CHR ''0''" "t' \<noteq> [] \<longrightarrow> hd t' \<noteq> CHR ''0''"
    using snoc.prems(4,5) t by auto
  ultimately have "s = t'" using snoc.IH [of t'] snoc.prems(1,2) t by simp
  with digit_value_inj [OF digits] \<open>(of_char c :: nat) - 48 = of_char d - 48\<close> t show ?case by simp
qed

lemma version_part_inj:
  assumes "version_part s" "version_part t" "decimal_value s = decimal_value t"
  shows "s = t"
proof -
  have zero: "decimal_value ''0'' = 0" by (simp add: decimal_value_def)
  have nonzero: "u = ''0''" if "version_part u" "decimal_value u = 0" for u
  proof (rule ccontr)
    assume "u \<noteq> ''0''"
    with that have "hd u \<noteq> CHR ''0''" "u \<noteq> []" by (auto simp: version_part_def)
    with that decimal_value_zero [of u] show False by (cases u) (auto simp: version_part_def)
  qed
  show ?thesis
  proof (cases "decimal_value s = 0")
    case True
    with nonzero assms show ?thesis by metis
  next
    case False
    with assms zero have "s \<noteq> ''0''" "t \<noteq> ''0''" by auto
    with assms show ?thesis by (intro leading_digits_inj) (auto simp: version_part_def)
  qed
qed

lemma version_key_Inr:
  "version_key s = Inr (x, y, z) \<longleftrightarrow>
     (\<exists>a b c. split_on (CHR ''.'') s = [a, b, c] \<and> list_all version_part [a, b, c]
        \<and> list_all (\<lambda>p. length p \<le> MAX_STR_DIGITS) [a, b, c]
        \<and> x = decimal_value a \<and> y = decimal_value b \<and> z = decimal_value c)"
  by (auto simp: version_key_def strict_version_def decimal_int_def not_less split: list.splits)

lemma version_key_inj:
  assumes "version_key s = Inr k" "version_key t = Inr k"
  shows "s = t"
proof -
  obtain x y z where k: "k = (x, y, z)" by (cases k)
  from assms k version_part_inj have "split_on (CHR ''.'') s = split_on (CHR ''.'') t"
    by (auto simp: version_key_Inr)
  then show ?thesis by (metis join_split_on)
qed

lemma key_less_order:
  "\<not> key_less k k" "key_less k l \<Longrightarrow> \<not> key_less l k" "key_less k l \<or> k = l \<or> key_less l k"
  "key_less k l \<Longrightarrow> key_less l m \<Longrightarrow> key_less k m"
  by (cases k; cases l; cases m; auto)+

text \<open>
  Versions are compared as a total order in which only the same text is equal: for two valid versions
  the comparison is zero exactly when they are the same version, it is negated when they are swapped, and
  "newer" passes on from one version to the next.  So the replay guard refuses exactly the installed
  version and the downgrade guard every older one.
\<close>

theorem compare_versions_order:
  assumes "compare_versions a b = Inr n"
  shows "(n = 0 \<longleftrightarrow> a = b) \<and> compare_versions b a = Inr (- n) \<and> n \<in> {-1, 0, 1} \<and>
    (compare_versions b c = Inr m \<longrightarrow> n < 0 \<longrightarrow> m < 0 \<longrightarrow> compare_versions a c = Inr (-1))"
proof -
  from assms obtain k l where k: "version_key a = Inr k" "version_key b = Inr l"
    and n: "n = (if key_less l k then 1 else 0) - (if key_less k l then 1 else 0)"
    by (auto simp: compare_versions_def)
  have "n = 0 \<longleftrightarrow> k = l" using n key_less_order(2,3) [of k l] key_less_order(1) by auto
  moreover have "k = l \<longleftrightarrow> a = b" using k version_key_inj [of a k b] by auto
  moreover have "compare_versions a c = Inr (-1)" if "compare_versions b c = Inr m" "n < 0" "m < 0"
  proof -
    from that k obtain j where j: "version_key c = Inr j"
      "m = (if key_less j l then 1 else 0) - (if key_less l j then 1 else 0)"
      by (auto simp: compare_versions_def)
    from n j(2) that key_less_order(2) [of k l] key_less_order(2) [of l j] have "key_less k l" "key_less l j"
      by (auto split: if_splits)
    then have "key_less k j" by (rule key_less_order(4))
    with k j key_less_order(2) [OF this] show ?thesis by (simp add: compare_versions_def)
  qed
  ultimately show ?thesis using k n by (auto simp: compare_versions_def)
qed

theorem compare_versions_order_witness:
  "compare_versions ''1.9.0'' ''1.10.0'' = Inr (-1) \<and> compare_versions ''1.10.0'' ''1.9.0'' = Inr (- (-1))"
proof -
  have "compare_versions ''1.9.0'' ''1.10.0'' = Inr (-1)"
    by (simp add: compare_versions_def version_key_def strict_version_def version_part_def decimal_digit_def
        decimal_int_def decimal_value_def MAX_STR_DIGITS_def)
  from compare_versions_order [OF this] this show ?thesis by blast
qed

section \<open>Relative paths\<close>

text \<open>
  An accepted relative path stays below its root: its parts are the texts between the slashes, none of
  them empty or a step to the same or the parent folder, the path names a place strictly below the
  root whatever the root is, and different texts name different places.
\<close>

theorem canonical_relative_confined:
  assumes "canonical_relative a label = Inr b"
  shows "b = a \<and> path_of a = split_on (CHR ''/'') a \<and> set (path_of a) \<inter> {[], ''.'', ''..''} = {} \<and>
    strict_prefix root (owned_path root a) \<and>
    (canonical_relative a' label = Inr b' \<longrightarrow> owned_path root a = owned_path root a' \<longrightarrow> a = a')"
proof -
  have parts: "path_of c = split_on (CHR ''/'') c \<and> set (path_of c) \<inter> {[], ''.'', ''..''} = {}"
    if "canonical_relative c l = Inr d" for c l d
    using that by (auto simp: canonical_relative_def path_of_def list_ex_iff filter_id_conv split: if_splits)
  have "a = a'" if "canonical_relative a' label = Inr b'" "owned_path root a = owned_path root a'"
    using that parts [OF assms] parts [OF that(1)] join_split_on [of "CHR ''/''"] by (metis owned_path_def same_append_eq)
  moreover have "path_of a \<noteq> []" using parts [OF assms] by simp
  ultimately show ?thesis
    using assms parts [OF assms] by (auto simp: owned_path_def strict_prefix_def canonical_relative_def split: if_splits)
qed

theorem canonical_relative_confined_witness:
  "canonical_relative ''bin/tool'' [] = Inr ''bin/tool'' \<and> strict_prefix [''opt''] (owned_path [''opt''] ''bin/tool'')"
proof -
  have "canonical_relative ''bin/tool'' [] = Inr ''bin/tool''"
    by (simp add: canonical_relative_def is_absolute_def starts_with_def posix_text_def path_of_def has_drive_def)
  from canonical_relative_confined [OF this, of "[''opt'']"] this show ?thesis by blast
qed

end
