(* ===== verification/Rollout.thy ===== *)
theory Rollout
  imports Process
begin

text \<open>
  \<open>lifecycle/deployment/handoff.py\<close>: the controller's side of a handoff.  It captures the listening process,
  asks it over loopback to drain or to hand over, and reads the outcome from the health endpoint and the
  process table, never from its own request alone.
\<close>

section \<open>Reading a health snapshot\<close>

text \<open>Python's \<open>==\<close> on parsed values, where \<open>True\<close>, \<open>1\<close> and \<open>1.0\<close> are equal and \<open>nan\<close> is equal to nothing.\<close>

definition py_same :: "json \<Rightarrow> json \<Rightarrow> bool" where
  "py_same v w =
     (case w of
        JInt n \<Rightarrow> equals_number v n
      | JBool b \<Rightarrow> equals_number v (if b then 1 else 0)
      | JFloat r \<Rightarrow>
          (case v of
             JInt n \<Rightarrow> equals_number w n
           | JBool b \<Rightarrow> equals_number w (if b then 1 else 0)
           | JFloat s \<Rightarrow> s = r \<and> r \<noteq> ''nan'' \<or> {s, r} = {''0.0'', ''-0.0''}
           | _ \<Rightarrow> False)
      | _ \<Rightarrow> json_eq v w)"

definition fields_match :: "jdict \<Rightarrow> jdict \<Rightarrow> bool" where
  "fields_match actual expected \<longleftrightarrow> list_all (\<lambda>(k, v). py_same (jget actual k) v) expected"

fun positive_int :: "json \<Rightarrow> bool" where
  "positive_int (JInt i) = (0 < i)"
| "positive_int _ = False"

fun int_of :: "json \<Rightarrow> int" where
  "int_of (JInt i) = i"
| "int_of _ = 0"

fun nonempty_text :: "json \<Rightarrow> bool" where
  "nonempty_text (JStr s) = (s \<noteq> [])"
| "nonempty_text _ = False"

fun sha256_value :: "json \<Rightarrow> bool" where
  "sha256_value (JStr s) = is_sha256 s"
| "sha256_value _ = False"

definition CONTROL_PROTOCOL_VERSION :: int where
  "CONTROL_PROTOCOL_VERSION = 2"

definition MAX_BODY_BYTES :: nat where
  "MAX_BODY_BYTES = 64 * 1024"

definition TRANSPORT_MARGIN_SECONDS :: rat where
  "TRANSPORT_MARGIN_SECONDS = 1"

definition RUNTIME_DIGEST_FIELDS :: "string list" where
  "RUNTIME_DIGEST_FIELDS = [''serving_payload_sha256'', ''release_receipt_sha256'', ''payload_manifest_sha256'']"

definition RUNTIME_IDENTITY_FIELDS :: "string list" where
  "RUNTIME_IDENTITY_FIELDS = ''release'' # RUNTIME_DIGEST_FIELDS"

definition SELECTED_GENERATION_HANDOFF_CAPABILITY :: string where
  "SELECTED_GENERATION_HANDOFF_CAPABILITY = ''selected-generation-handoff''"

definition ADMISSION_PRESERVING_HANDOFF_CAPABILITY :: string where
  "ADMISSION_PRESERVING_HANDOFF_CAPABILITY = ''admission-preserving-handoff''"

definition available_transaction :: "json \<Rightarrow> json \<Rightarrow> bool" where
  "available_transaction state transaction_id \<longleftrightarrow>
     (if state = JStr ''idle'' then transaction_id = JNull
      else state = JStr ''finalized'' \<and> nonempty_text transaction_id)"

definition has_capability :: "jdict \<Rightarrow> string \<Rightarrow> bool" where
  "has_capability runtime capability \<longleftrightarrow>
     (case jget runtime ''handoff_capabilities'' of
        JArr xs \<Rightarrow> list_all is_str xs \<and> JStr capability \<in> set xs
      | _ \<Rightarrow> False)"

definition runtime_supports_selected_generation_handoff :: "jdict option \<Rightarrow> bool" where
  "runtime_supports_selected_generation_handoff runtime \<longleftrightarrow>
     (case runtime of None \<Rightarrow> False | Some r \<Rightarrow> has_capability r SELECTED_GENERATION_HANDOFF_CAPABILITY)"

definition runtime_supports_admission_preserving_handoff :: "jdict option \<Rightarrow> bool" where
  "runtime_supports_admission_preserving_handoff runtime \<longleftrightarrow>
     runtime_supports_selected_generation_handoff runtime
     \<and> (case runtime of None \<Rightarrow> False | Some r \<Rightarrow> has_capability r ADMISSION_PRESERVING_HANDOFF_CAPABILITY)"

definition deployment_strategy_identity_is_valid :: "jdict option \<Rightarrow> bool" where
  "deployment_strategy_identity_is_valid runtime \<longleftrightarrow>
     (case runtime of
        None \<Rightarrow> False
      | Some r \<Rightarrow>
          positive_int (jget r ''pid'') \<and> nonempty_text (jget r ''release'')
          \<and> list_all (\<lambda>k. sha256_value (jget r k)) RUNTIME_DIGEST_FIELDS
          \<and> fields_match r [(''handoff_protocol_version'', JInt CONTROL_PROTOCOL_VERSION), (''accepting'', JBool True),
                            (''draining'', JBool False)]
          \<and> available_transaction (jget r ''handoff_state'') (jget r ''handoff_transaction_id''))"

datatype deployment_strategy = Handoff_strategy | Native_generation | Unsupported

definition strategy_of :: "jdict option \<Rightarrow> deployment_strategy" where
  "strategy_of runtime =
     (if \<not> deployment_strategy_identity_is_valid runtime then Unsupported
      else if runtime_supports_admission_preserving_handoff runtime then Handoff_strategy
      else Native_generation)"

definition runtime_supports_handoff :: "jdict option \<Rightarrow> bool" where
  "runtime_supports_handoff runtime \<longleftrightarrow>
     deployment_strategy_identity_is_valid runtime \<and> runtime_supports_selected_generation_handoff runtime"

section \<open>The captured listener\<close>

definition capture_source_listener :: "host_env \<Rightarrow> runtime_context \<Rightarrow> jdict \<Rightarrow> owned_process host_act" where
  "capture_source_listener env ctx runtime =
     (let unverified = install_error ''installed listener process generation is not verified'' in
      if \<not> positive_int (jget runtime ''pid'') then act_raise (install_error ''installed runtime identity is not verified'')
      else act_bind (capture_executable env (int_of (jget runtime ''pid'')) (executable ctx) (Some LISTENER_ROLES)) (\<lambda>owned.
             case owned of
               None \<Rightarrow> act_raise unverified
             | Some p \<Rightarrow> act_bind (owned_process_alive env p) (\<lambda>alive.
                           if alive then act_return p else act_raise unverified)))"

text \<open>The pure part of \<open>_runtime_is_captured_source\<close>.\<close>

definition same_source :: "owned_process \<Rightarrow> jdict option \<Rightarrow> jdict \<Rightarrow> bool" where
  "same_source p runtime source \<longleftrightarrow>
     (case runtime of
        None \<Rightarrow> False
      | Some r \<Rightarrow>
          py_same (jget source ''pid'') (JInt (op_pid p)) \<and> nonempty_text (jget source ''release'')
          \<and> list_all (\<lambda>k. sha256_value (jget source k)) RUNTIME_DIGEST_FIELDS
          \<and> py_same (jget r ''pid'') (JInt (op_pid p))
          \<and> list_all (\<lambda>k. py_same (jget r k) (jget source k)) RUNTIME_IDENTITY_FIELDS)"

definition runtime_is_captured_source :: "host_env \<Rightarrow> owned_process \<Rightarrow> jdict option \<Rightarrow> jdict \<Rightarrow> bool host_act" where
  "runtime_is_captured_source env p runtime source =
     act_bind (owned_process_alive env p) (\<lambda>alive. act_return (alive \<and> same_source p runtime source))"

definition runtime_matches_successor :: "jdict option \<Rightarrow> jdict \<Rightarrow> int \<Rightarrow> bool" where
  "runtime_matches_successor runtime expected child_pid \<longleftrightarrow>
     (case runtime of
        None \<Rightarrow> False
      | Some r \<Rightarrow>
          runtime_payload_matches r expected
          \<and> fields_match r [(''pid'', JInt child_pid), (''handoff_protocol_version'', JInt CONTROL_PROTOCOL_VERSION),
                            (''handoff_transaction_id'', jget expected ''transaction_id''), (''handoff_state'', JStr ''finalized''),
                            (''accepting'', JBool True), (''draining'', JBool False)])"

definition successor_is_finalized ::
    "host_env \<Rightarrow> owned_process \<Rightarrow> owned_process \<Rightarrow> jdict option \<Rightarrow> jdict \<Rightarrow> int \<Rightarrow> bool host_act" where
  "successor_is_finalized env old successor runtime expected child_pid =
     act_bind (owned_process_alive env old) (\<lambda>old_alive.
       if old_alive then act_return False
       else act_bind (owned_process_alive env successor) (\<lambda>alive.
              act_return (alive \<and> runtime_matches_successor runtime expected child_pid)))"

definition old_runtime_resumed :: "jdict option \<Rightarrow> jdict \<Rightarrow> bool" where
  "old_runtime_resumed runtime old \<longleftrightarrow>
     (case runtime of
        None \<Rightarrow> False
      | Some r \<Rightarrow>
          fields_match r
            ((''pid'', jget old ''pid'') # map (\<lambda>k. (k, jget old k)) RUNTIME_DIGEST_FIELDS @
             [(''handoff_protocol_version'', JInt CONTROL_PROTOCOL_VERSION), (''handoff_state'', JStr ''idle''),
              (''handoff_transaction_id'', JNull), (''accepting'', JBool True), (''draining'', JBool False)]))"

section \<open>Control requests\<close>

text \<open>One request to a control endpoint and its JSON answer, with the errors the three callers share.\<close>

definition control_call ::
    "host_env \<Rightarrow> string \<Rightarrow> int \<Rightarrow> string \<Rightarrow> string \<Rightarrow> (string \<times> string) list \<Rightarrow> bytes \<Rightarrow> json host_act" where
  "control_call env label expected_status verb route header_list data =
     act_then (called (Control verb route header_list data))
    (act_bind (look (\<lambda>n. http_at env n verb route data)) (\<lambda>(t, reply).
     act_then (elapse t)
       (case reply of
          Http_unavailable \<Rightarrow> act_raise (install_error (label @ '' is unavailable''))
        | Http_error code \<Rightarrow> act_raise (install_error (label @ '' returned HTTP '' @ int_text code))
        | Http_reply code raw \<Rightarrow>
            if code \<noteq> expected_status then act_raise (install_error (label @ '' returned HTTP '' @ int_text code))
            else if MAX_BODY_BYTES < length raw then act_raise (install_error (label @ '' response is too large''))
            else act_lift (res_catch is_value_error (loads (lpy (life env)) raw)
                             (\<lambda>_. Inl (install_error (label @ '' is unavailable'')))))))"

text \<open>\<open>control.read_runtime\<close>, the health snapshot of the listener.\<close>

definition read_runtime :: "host_env \<Rightarrow> runtime_context \<Rightarrow> jdict option host_act" where
  "read_runtime env ctx =
     act_then (called (Control ''GET'' ''/healthz'' [(''Accept'', ''application/json'')] []))
    (act_bind (look (\<lambda>n. http_at env n ''GET'' ''/healthz'' [])) (\<lambda>(t, reply).
     act_then (elapse t)
       (case reply of
          Http_reply code raw \<Rightarrow>
            if code \<noteq> 200 then act_return None
            else (case loads (lpy (life env)) raw of
                    Inl e \<Rightarrow> if is_value_error e then act_return None else act_raise e
                  | Inr (JObj d) \<Rightarrow> act_return (Some d)
                  | Inr _ \<Rightarrow> act_return None)
        | _ \<Rightarrow> act_return None)))"

text \<open>\<open>int(x)\<close> of a float, and \<open>json.dumps\<close> of a flat object.\<close>

definition truncated :: "rat \<Rightarrow> int" where
  "truncated x = (if 0 \<le> x then \<lfloor>x\<rfloor> else \<lceil>x\<rceil>)"

definition flat_text :: "jdict \<Rightarrow> string" where
  "flat_text d = ''{'' @ comma_list (map (\<lambda>(k, v). json_text True (JStr k) @ '': '' @ json_text True v) d) @ ''}''"

definition ready_body :: "jdict \<Rightarrow> rat \<Rightarrow> rat \<Rightarrow> jdict" where
  "ready_body expected lease timeout =
     map (\<lambda>k. (k, jget expected k))
       [''transaction_id'', ''release'', ''serving_payload_sha256'', ''release_receipt_sha256'', ''manifest_sha256'']
     @ [(''lease_seconds'', JInt (max 1 (truncated lease))), (''timeout_seconds'', JInt (max 1 (min 120 (truncated timeout))))]"

definition check_ready :: "jdict \<Rightarrow> json \<Rightarrow> jdict res" where
  "check_ready expected answer =
     (case answer of
        JObj d \<Rightarrow>
          if \<not> fields_match d [(''ok'', JBool True), (''state'', JStr ''ready''), (''protocol_version'', JInt CONTROL_PROTOCOL_VERSION)]
          then Inl (install_error ''handoff control did not return a protocol-v2 READY acknowledgement'')
          else if \<not> py_same (jget d ''transaction_id'') (jget expected ''transaction_id'')
          then Inl (install_error ''handoff control acknowledged an unexpected transaction'')
          else if \<not> positive_int (jget d ''child_pid'')
          then Inl (install_error ''handoff control response is missing a valid child pid'')
          else Inr d
      | _ \<Rightarrow> Inl (install_error ''handoff control returned an invalid response''))"

definition post_ready :: "host_env \<Rightarrow> jdict \<Rightarrow> rat \<Rightarrow> rat \<Rightarrow> jdict host_act" where
  "post_ready env expected lease timeout =
     (let data = flat_text (ready_body expected lease timeout) in
      if MAX_BODY_BYTES < length data then act_raise (install_error ''handoff request payload is too large'')
      else act_bind (control_call env ''handoff control'' 202 ''POST'' ''/control/handoff''
                       [(''Content-Type'', ''application/json''), (''Accept'', ''application/json'')] data) (\<lambda>answer.
             act_lift (check_ready expected answer)))"

definition unless_source :: "host_env \<Rightarrow> owned_process \<Rightarrow> jdict option \<Rightarrow> jdict \<Rightarrow> string \<Rightarrow> unit host_act" where
  "unless_source env p runtime source message =
     act_bind (runtime_is_captured_source env p runtime source) (\<lambda>same.
       if same then act_return () else act_raise (install_error message))"

definition no_longer_active :: "owned_process \<Rightarrow> string" where
  "no_longer_active p = ''captured proxy listener generation '' @ int_text (op_pid p) @ '' is no longer active''"

section \<open>Draining and resuming\<close>

definition is_drained :: "jdict \<Rightarrow> bool" where
  "is_drained r \<longleftrightarrow>
     jget r ''draining'' = JBool True \<and> jget r ''accepting'' = JBool False
     \<and> equals_number (jget r ''active_responses'') 0 \<and> equals_number (jget r ''active_handlers'') 1"

definition drain_round ::
    "host_env \<Rightarrow> owned_process \<Rightarrow> jdict \<Rightarrow> jdict option host_act \<Rightarrow> unit option host_act" where
  "drain_round env p source reader =
     act_bind reader (\<lambda>runtime.
     act_then (unless_source env p runtime source ''predecessor changed while draining active Responses'')
       (act_return (case runtime of Some r \<Rightarrow> if is_drained r then Some () else None | None \<Rightarrow> None)))"

definition drain_lease_header :: "rat \<Rightarrow> string \<times> string" where
  "drain_lease_header timeout =
     (''X-OpenAI-Responses-Proxy-Drain-Lease-Seconds'', int_text (max 1 \<lceil>timeout + TRANSPORT_MARGIN_SECONDS\<rceil>))"

text \<open>Both control requests answer with the state of the drain.\<close>

definition drain_answer :: "bool \<Rightarrow> string \<Rightarrow> json \<Rightarrow> unit host_act" where
  "drain_answer flag message answer =
     (case answer of
        JObj d \<Rightarrow> if jget d ''draining'' = JBool flag then act_return () else act_raise (install_error message)
      | _ \<Rightarrow> act_raise (install_error message))"

definition drain_responses ::
    "host_env \<Rightarrow> owned_process \<Rightarrow> jdict \<Rightarrow> jdict option host_act \<Rightarrow> rat \<Rightarrow> unit host_act" where
  "drain_responses env p source reader timeout =
     act_bind reader (\<lambda>runtime.
     act_then (unless_source env p runtime source (no_longer_active p))
    (act_bind (control_call env ''drain control'' 200 ''POST'' ''/control/drain''
                 [(''Accept'', ''application/json''), drain_lease_header timeout] []) (\<lambda>answer.
     act_then (drain_answer True ''drain control did not close Responses admission'' answer)
    (act_bind monotonic (\<lambda>now.
     act_bind (poll_until (now + timeout) (drain_round env p source reader)) (\<lambda>r.
       if r \<noteq> None then act_return ()
       else act_raise (install_error (''predecessor did not drain active Responses within '' @ format_g env timeout @ ''s''))))))))"

definition release_drain :: "host_env \<Rightarrow> owned_process \<Rightarrow> jdict \<Rightarrow> jdict option host_act \<Rightarrow> bool host_act" where
  "release_drain env p source reader =
     act_bind (control_call env ''drain release'' 200 ''DELETE'' ''/control/drain'' [(''Accept'', ''application/json'')] []) (\<lambda>answer.
     act_then (drain_answer False ''drain release did not reopen Responses admission'' answer)
    (act_bind reader (\<lambda>after. act_bind (runtime_is_captured_source env p after source) (\<lambda>still.
       act_return (case after of
                     Some r \<Rightarrow> still \<and> jget r ''accepting'' = JBool True \<and> jget r ''draining'' = JBool False
                   | None \<Rightarrow> False)))))"

definition resume_responses :: "host_env \<Rightarrow> owned_process \<Rightarrow> jdict \<Rightarrow> jdict option host_act \<Rightarrow> bool host_act" where
  "resume_responses env p source reader =
     act_bind reader (\<lambda>runtime. act_bind (runtime_is_captured_source env p runtime source) (\<lambda>same.
       if same then release_drain env p source reader else act_return False))"

section \<open>Handing over\<close>

definition finalized_round ::
    "host_env \<Rightarrow> owned_process \<Rightarrow> owned_process \<Rightarrow> jdict \<Rightarrow> int \<Rightarrow> jdict option host_act \<Rightarrow> jdict option host_act" where
  "finalized_round env old successor expected child_pid reader =
     act_bind reader (\<lambda>runtime. act_bind (successor_is_finalized env old successor runtime expected child_pid) (\<lambda>final.
       act_return (if final then runtime else None)))"

definition handed_over :: "owned_process \<Rightarrow> int \<Rightarrow> jdict \<Rightarrow> jdict \<Rightarrow> jdict" where
  "handed_over old child_pid expected runtime =
     [(''old_pid'', JInt (op_pid old)), (''new_pid'', JInt child_pid), (''child_pid'', JInt child_pid),
      (''transaction_id'', jget expected ''transaction_id''), (''release'', jget expected ''release''), (''runtime'', JObj runtime)]"

definition convergence_seconds :: "rat \<Rightarrow> rat \<Rightarrow> rat" where
  "convergence_seconds timeout lease = timeout * 3 + max 1 lease + 5"

definition await_successor ::
    "host_env \<Rightarrow> runtime_context \<Rightarrow> jdict \<Rightarrow> owned_process \<Rightarrow> jdict option host_act \<Rightarrow> rat \<Rightarrow> rat \<Rightarrow> int \<Rightarrow> jdict host_act" where
  "await_successor env ctx expected p reader timeout lease child_pid =
     act_bind (wait_for_executable env child_pid (executable ctx) (Some [HANDOFF_CHILD_MODE]) timeout) (\<lambda>successor.
       case successor of
         None \<Rightarrow> act_raise (install_error ''handoff control response names an unverified successor process'')
       | Some s \<Rightarrow>
           act_bind monotonic (\<lambda>now.
           act_bind (poll_until (now + convergence_seconds timeout lease) (finalized_round env p s expected child_pid reader)) (\<lambda>r.
             case r of
               Some proof_runtime \<Rightarrow> act_return (handed_over p child_pid expected proof_runtime)
             | None \<Rightarrow>
                 act_raise (install_error (''handoff did not converge on finalized listener '' @ int_text child_pid @ '' within ''
                   @ format_g env (convergence_seconds timeout lease) @ ''s'')))))"

definition request_rollout ::
    "host_env \<Rightarrow> runtime_context \<Rightarrow> jdict \<Rightarrow> owned_process \<Rightarrow> jdict \<Rightarrow> jdict option host_act \<Rightarrow> rat \<Rightarrow> rat \<Rightarrow> jdict host_act" where
  "request_rollout env ctx expected p source reader timeout lease =
     act_bind reader (\<lambda>runtime.
     act_then (unless_source env p runtime source (no_longer_active p))
    (act_bind (post_ready env expected lease timeout) (\<lambda>ready.
     await_successor env ctx expected p reader timeout lease (int_of (jget ready ''child_pid'')))))"

section \<open>Resolving a failure from what the host shows\<close>

definition rollback_round :: "host_env \<Rightarrow> runtime_context \<Rightarrow> jdict \<Rightarrow> jdict option host_act \<Rightarrow> jdict option host_act" where
  "rollback_round env ctx old reader =
     act_bind (verified_proxy_listener_pids env ctx) (\<lambda>pids.
       case pids of
         [pid] \<Rightarrow>
           if py_same (jget old ''pid'') (JInt pid)
           then act_bind reader (\<lambda>runtime. act_return (if old_runtime_resumed runtime old then runtime else None))
           else act_return None
       | _ \<Rightarrow> act_return None)"

definition wait_for_rollback :: "host_env \<Rightarrow> runtime_context \<Rightarrow> jdict \<Rightarrow> jdict option host_act \<Rightarrow> rat \<Rightarrow> jdict host_act" where
  "wait_for_rollback env ctx old reader timeout =
     act_bind monotonic (\<lambda>now.
     act_bind (poll_until (now + timeout) (rollback_round env ctx old reader)) (\<lambda>r.
       case r of
         Some runtime \<Rightarrow> act_return runtime
       | None \<Rightarrow>
           act_raise (install_error (''old proxy listener '' @ int_text (int_of (jget old ''pid''))
             @ '' did not resume after handoff rollback within '' @ format_g env timeout @ ''s''))))"

datatype resolution = Resolved_finalized jdict | Resolved_rolled_back jdict | Unresolved

definition finalized_in ::
    "host_env \<Rightarrow> runtime_context \<Rightarrow> jdict \<Rightarrow> jdict \<Rightarrow> owned_process \<Rightarrow> jdict \<Rightarrow> bool host_act" where
  "finalized_in env ctx old expected p r =
     (if positive_int (jget r ''pid'') \<and> int_of (jget r ''pid'') \<noteq> int_of (jget old ''pid'')
      then act_bind (capture_executable env (int_of (jget r ''pid'')) (executable ctx) (Some [HANDOFF_CHILD_MODE])) (\<lambda>successor.
             case successor of
               None \<Rightarrow> act_return False
             | Some s \<Rightarrow> successor_is_finalized env p s (Some r) expected (int_of (jget r ''pid'')))
      else act_return False)"

definition resolution_round ::
    "host_env \<Rightarrow> runtime_context \<Rightarrow> jdict \<Rightarrow> jdict \<Rightarrow> owned_process \<Rightarrow> jdict option host_act \<Rightarrow> resolution option host_act" where
  "resolution_round env ctx old expected p reader =
     act_bind reader (\<lambda>runtime.
       case runtime of
         None \<Rightarrow> act_return None
       | Some r \<Rightarrow>
           act_bind (finalized_in env ctx old expected p r) (\<lambda>final.
             if final then act_return (Some (Resolved_finalized r))
             else act_bind (runtime_is_captured_source env p runtime old) (\<lambda>same.
                    act_return (if same \<and> old_runtime_resumed runtime old then Some (Resolved_rolled_back r) else None))))"

definition resolve_after_controller_failure ::
    "host_env \<Rightarrow> runtime_context \<Rightarrow> jdict \<Rightarrow> jdict \<Rightarrow> owned_process \<Rightarrow> jdict option host_act \<Rightarrow> rat \<Rightarrow> rat \<Rightarrow> resolution host_act" where
  "resolve_after_controller_failure env ctx old expected p reader timeout lease =
     (if \<not> positive_int (jget old ''pid'') then act_return Unresolved
      else act_bind monotonic (\<lambda>now.
           act_bind (poll_until (now + timeout + max 1 lease + 5) (resolution_round env ctx old expected p reader)) (\<lambda>r.
             act_return (case r of None \<Rightarrow> Unresolved | Some x \<Rightarrow> x))))"

end
