(* ===== verification/Deploy.thy ===== *)
theory Deploy
  imports Rollout
begin

text \<open>
  \<open>lifecycle/deployment/apply.py\<close>: one admitted release applied to a fresh or a running installation.  The
  state is the host and the transaction object; however a step fails, the transaction is rolled back,
  or preserved for recovery when the outcome on the host is not known.
\<close>

type_synonym 'a deploy = "(host \<times> payload_transaction, 'a) eff"

type_synonym runtime_reader = "runtime_context \<Rightarrow> jdict option host_act"

definition on_host :: "'a host_act \<Rightarrow> 'a deploy" where
  "on_host m = (\<lambda>(w, t). case m w of (r, w') \<Rightarrow> (r, (w', t)))"

definition on_payload :: "'a tx_act \<Rightarrow> 'a deploy" where
  "on_payload m = (\<lambda>(w, t). case m (h_disk w, t) of (r, (d, t')) \<Rightarrow> (r, (w\<lparr>h_disk := d\<rparr>, t')))"

definition with_payload :: "(payload_transaction \<Rightarrow> 'a deploy) \<Rightarrow> 'a deploy" where
  "with_payload f = (\<lambda>(w, t). f t (w, t))"

definition unknown_outcome :: "string \<Rightarrow> py_exc" where
  "unknown_outcome m = InstallError Unknown_outcome m"

fun is_unknown_outcome :: "py_exc \<Rightarrow> bool" where
  "is_unknown_outcome (InstallError c m) = (c = Unknown_outcome)"
| "is_unknown_outcome _ = False"

fun is_service_unavailable :: "py_exc \<Rightarrow> bool" where
  "is_service_unavailable (InstallError c m) = (c = Service_unavailable)"
| "is_service_unavailable _ = False"

text \<open>\<open>_public_failure\<close>; the product errors that are no installation errors are not raised below.\<close>

definition public_failure :: "py_exc \<Rightarrow> string" where
  "public_failure e = (if is_install_error e then error_text e else exc_label e)"

section \<open>Proof of a serving successor\<close>

definition serving_matches :: "jdict \<Rightarrow> jdict \<Rightarrow> bool" where
  "serving_matches runtime expected \<longleftrightarrow>
     runtime_payload_matches runtime expected \<and> jget runtime ''accepting'' = JBool True \<and> jget runtime ''draining'' \<noteq> JBool True"

definition serving_proof :: "host_env \<Rightarrow> runtime_context \<Rightarrow> jdict \<Rightarrow> int option \<Rightarrow> jdict \<Rightarrow> jdict option host_act" where
  "serving_proof env ctx expected old_pid r =
     (case jget r ''pid'' of
        JInt pid \<Rightarrow>
          act_bind (capture_executable env pid (executable ctx) (Some LISTENER_ROLES)) (\<lambda>captured.
            if pid \<le> 0 then act_return None
            else act_bind (verified_proxy_listener_pids env ctx) (\<lambda>pids.
                   act_return (if (pids = [pid] \<or> captured \<noteq> None) \<and> Some pid \<noteq> old_pid \<and> serving_matches r expected
                               then Some r else None)))
      | _ \<Rightarrow> act_return None)"

definition serving_round ::
    "host_env \<Rightarrow> runtime_context \<Rightarrow> jdict \<Rightarrow> jdict option host_act \<Rightarrow> int option \<Rightarrow> jdict option host_act" where
  "serving_round env ctx expected reader old_pid =
     act_bind reader (\<lambda>runtime.
       case runtime of None \<Rightarrow> act_return None | Some r \<Rightarrow> serving_proof env ctx expected old_pid r)"

definition wait_for_serving_runtime ::
    "host_env \<Rightarrow> runtime_context \<Rightarrow> jdict \<Rightarrow> jdict option host_act \<Rightarrow> rat \<Rightarrow> int option \<Rightarrow> jdict host_act" where
  "wait_for_serving_runtime env ctx expected reader timeout old_pid =
     act_bind monotonic (\<lambda>now.
     act_bind (poll_until (now + timeout) (serving_round env ctx expected reader old_pid)) (\<lambda>r.
       case r of
         Some runtime \<Rightarrow> act_return runtime
       | None \<Rightarrow> act_raise (install_error ''released successor did not prove SERVING identity'')))"

section \<open>The supervisor\<close>

definition bound_to :: "host_env \<Rightarrow> runtime_context \<Rightarrow> string \<Rightarrow> unit host_act" where
  "bound_to env control message =
     act_bind (configured_executable env control) (\<lambda>configured. act_bind file_tree (\<lambda>fs.
       case configured of
         Some c \<Rightarrow> if normalized_path env fs c = normalized_path env fs (executable control) then act_return ()
                    else act_raise (install_error message)
       | None \<Rightarrow> act_raise (install_error message)))"

definition bind_control_supervisor :: "host_env \<Rightarrow> runtime_context \<Rightarrow> unit host_act" where
  "bind_control_supervisor env control =
     act_then (supervise env Service_install control)
       (bound_to env control ''native supervisor did not bind the lifecycle control executable'')"

definition remove_candidate_runtime :: "host_env \<Rightarrow> runtime_context \<Rightarrow> rat \<Rightarrow> unit host_act" where
  "remove_candidate_runtime env candidate timeout =
     act_catch (act_then (supervise env Service_uninstall candidate)
                 (act_then (terminate_runtime env candidate timeout) (act_return ())))
       (\<lambda>e. Some (act_raise (unknown_outcome ''candidate runtime cleanup is unconfirmed; transaction preserved for recovery'')))"

definition replace_native_generation ::
    "host_env \<Rightarrow> runtime_context \<Rightarrow> jdict \<Rightarrow> owned_process \<Rightarrow> runtime_reader \<Rightarrow> rat \<Rightarrow> jdict host_act" where
  "replace_native_generation env ctx expected p reader timeout =
     act_bind (terminate_owned_process env p timeout) (\<lambda>gone.
       if \<not> gone then act_raise (unknown_outcome ''native generation replacement outcome is unconfirmed'')
       else act_catch
              (act_bind (on_files (control_context (life env) ctx)) (\<lambda>control.
               act_then (bind_control_supervisor env control)
                 (wait_for_serving_runtime env ctx expected (reader ctx) timeout (Some (op_pid p)))))
              (\<lambda>e. Some (act_raise (unknown_outcome ''native successor startup is unconfirmed after predecessor exit''))))"

definition request_handoff ::
    "host_env \<Rightarrow> runtime_context \<Rightarrow> jdict \<Rightarrow> jdict \<Rightarrow> owned_process \<Rightarrow> runtime_reader \<Rightarrow> rat \<Rightarrow> jdict host_act" where
  "request_handoff env ctx expected current p reader timeout =
     act_catch
       (act_bind (request_rollout env ctx expected p current (reader ctx) timeout (max 1 timeout)) (\<lambda>result.
          case jget result ''runtime'' of
            JObj runtime \<Rightarrow> act_return runtime
          | _ \<Rightarrow> act_raise (install_error ''handoff did not return successor runtime proof'')))
       (\<lambda>e. Some
          (act_bind
             (act_catch (resolve_after_controller_failure env ctx current expected p (reader ctx) timeout (max 1 timeout))
                (\<lambda>x. if is_os_failure x \<or> is_install_error x then Some (act_return Unresolved) else None)) (\<lambda>outcome.
             case outcome of
               Resolved_finalized runtime \<Rightarrow> act_return runtime
             | Unresolved \<Rightarrow> act_raise (unknown_outcome ''handoff outcome is unconfirmed; transaction preserved for recovery'')
             | Resolved_rolled_back runtime \<Rightarrow> act_raise e)))"

section \<open>A fresh installation\<close>

definition expected_of :: "host_env \<Rightarrow> jdict deploy" where
  "expected_of env = with_payload (\<lambda>t. act_lift (expected_identity (life env) t))"

definition preserve :: "host_env \<Rightarrow> string \<Rightarrow> unit deploy" where
  "preserve env reason = on_payload (preserve_for_recovery (life env) reason)"

definition undo :: "host_env \<Rightarrow> unit deploy" where
  "undo env = on_payload (rollback_transaction (life env))"

definition fresh_failed :: "host_env \<Rightarrow> rat \<Rightarrow> py_exc \<Rightarrow> 'a deploy" where
  "fresh_failed env timeout e =
     (if is_service_unavailable e then act_then (undo env) (act_raise e)
      else with_payload (\<lambda>t.
             act_then (act_catch (on_host (remove_candidate_runtime env (tx_candidate_ctx t) timeout))
                         (\<lambda>x. if is_unknown_outcome x then Some (act_then (preserve env (error_text x)) (act_raise x)) else None))
               (act_then (undo env) (act_raise e))))"

definition deployed :: "string \<Rightarrow> jdict \<Rightarrow> jdict" where
  "deployed state runtime = [(''state'', JStr state), (''runtime'', JObj runtime)]"

definition fresh_install :: "host_env \<Rightarrow> runtime_reader \<Rightarrow> rat \<Rightarrow> jdict deploy" where
  "fresh_install env reader timeout =
     act_then (on_payload (commit_projection (life env)))
       (with_payload (\<lambda>t.
          let candidate = tx_candidate_ctx t in
          act_bind
            (act_catch
               (act_then (on_payload (activate (life env)))
               (act_then (on_host (supervise env Service_install candidate))
               (act_bind (expected_of env) (\<lambda>expected.
                  on_host (wait_for_serving_runtime env candidate expected (reader candidate) timeout None)))))
               (\<lambda>e. Some (fresh_failed env timeout e))) (\<lambda>runtime.
            act_then (on_payload (finalize (life env) runtime)) (act_return (deployed ''installed'' runtime)))))"

section \<open>An upgrade\<close>

definition restore_admission ::
    "host_env \<Rightarrow> runtime_context \<Rightarrow> jdict \<Rightarrow> owned_process \<Rightarrow> runtime_reader \<Rightarrow> py_exc \<Rightarrow> unit deploy" where
  "restore_admission env ctx current p reader e =
     act_catch
       (act_bind (on_host (resume_responses env p current (reader ctx))) (\<lambda>resumed.
          if resumed then act_return ()
          else act_raise (install_error ''predecessor listener no longer owns Responses admission'')))
       (\<lambda>x. let unknown = unknown_outcome (''native supervisor rollback could not restore predecessor admission; upgrade failure: ''
                 @ public_failure e @ ''; admission recovery failure: '' @ public_failure x) in
            Some (act_then (preserve env (error_text unknown)) (act_raise unknown)))"

text \<open>
  The handlers of \<open>_upgrade\<close>, with the two local variables that say how far it came: whether the
  predecessor's admission may be closed, and whether the successor is committed.
\<close>

definition upgrade_failed ::
    "host_env \<Rightarrow> runtime_context \<Rightarrow> jdict \<Rightarrow> owned_process \<Rightarrow> runtime_reader \<Rightarrow> bool \<Rightarrow> bool \<Rightarrow> py_exc \<Rightarrow> 'a deploy" where
  "upgrade_failed env ctx current p reader shut committed e =
     (if is_unknown_outcome e then act_then (preserve env (error_text e)) (act_raise e)
      else if committed
      then act_then
             (act_catch (preserve env (''successor committed but native supervisor rebind failed; failure: '' @ public_failure e))
                (\<lambda>x. if is_install_error x
                     then Some (act_raise (unknown_outcome ''successor committed but native supervisor recovery is unconfirmed'')) else None))
             (act_raise (unknown_outcome
                ''successor committed but native supervisor rebind failed; transaction preserved for recovery''))
      else act_then (if shut then restore_admission env ctx current p reader e else act_return ())
             (act_then (undo env) (act_raise e)))"

definition guarded :: "(py_exc \<Rightarrow> 'a deploy) \<Rightarrow> 'a deploy \<Rightarrow> 'a deploy" where
  "guarded h m = act_catch m (\<lambda>e. Some (h e))"

definition upgrade ::
    "host_env \<Rightarrow> runtime_context \<Rightarrow> jdict \<Rightarrow> owned_process \<Rightarrow> bool \<Rightarrow> runtime_reader \<Rightarrow> rat \<Rightarrow> jdict deploy" where
  "upgrade env ctx current p native reader timeout =
     act_then (on_payload (commit_projection (life env)))
       (with_payload (\<lambda>t.
          let candidate = tx_candidate_ctx t in
          act_then (guarded (upgrade_failed env ctx current p reader True False)
                      (if native then on_host (drain_responses env p current (reader candidate) timeout) else act_return ()))
         (act_then (guarded (upgrade_failed env ctx current p reader native False) (on_payload (activate (life env))))
         (act_bind (guarded (upgrade_failed env ctx current p reader True False)
                      (act_bind (expected_of env) (\<lambda>expected. on_host
                        (if native then replace_native_generation env candidate expected p reader timeout
                         else request_handoff env candidate expected current p reader timeout)))) (\<lambda>runtime.
          act_then (guarded (upgrade_failed env ctx current p reader True True)
                      (if native then act_return ()
                       else on_host (act_bind (on_files (control_context (life env) ctx)) (bind_control_supervisor env))))
            (act_then (on_payload (finalize (life env) runtime)) (act_return (deployed ''upgraded'' runtime))))))))"

section \<open>Applying a release\<close>

definition install ::
    "host_env \<Rightarrow> runtime_context \<Rightarrow> runtime_reader \<Rightarrow> rat \<Rightarrow> jdict deploy" where
  "install env ctx reader timeout =
     (let unverified = install_error ''installed runtime identity is not verified'' in
      act_bind (on_host (reader ctx)) (\<lambda>current.
        case current of
          None \<Rightarrow>
            act_bind (on_host (listener_pids env (port ctx))) (\<lambda>pids.
              if pids = [] then fresh_install env reader timeout else act_raise unverified)
        | Some runtime \<Rightarrow>
            (case jget runtime ''pid'' of
               JInt pid \<Rightarrow>
                 let strategy = strategy_of (Some runtime) in
                 if strategy = Unsupported
                 then act_raise (install_error ''installed runtime is incompatible; remove it before installing this release'')
                 else act_bind (on_host (capture_source_listener env ctx runtime)) (\<lambda>p.
                      act_bind (on_host (on_files (control_context (life env) ctx))) (\<lambda>control.
                      act_then (on_host (bound_to env control ''native supervisor is not bound to the lifecycle control executable''))
                        (upgrade env ctx runtime p (strategy = Native_generation) reader timeout)))
             | _ \<Rightarrow> act_raise unverified)))"

definition rollback_release ::
    "host_env \<Rightarrow> runtime_context \<Rightarrow> retained_rollback \<Rightarrow> runtime_reader \<Rightarrow> rat \<Rightarrow> jdict host_act" where
  "rollback_release env ctx retained reader timeout =
     act_bind (on_files (begin_rollback_transaction (life env) ctx retained)) (\<lambda>t.
     act_bind (\<lambda>w. case install env ctx reader timeout (w, t) of (r, (w', _)) \<Rightarrow> (r, w')) (\<lambda>result.
       if jget result ''state'' \<noteq> JStr ''upgraded''
       then act_raise (install_error ''rollback requires a verified running successor'')
       else act_return [(''state'', JStr ''rolled_back''), (''from_release'', JStr (lp_release (rr_successor retained))),
                        (''to_release'', JStr (lp_release (rr_predecessor retained))), (''runtime'', jget result ''runtime'')]))"

end
