(* ===== verification/Rollout_Facts.thy ===== *)
theory Rollout_Facts
  imports Rollout
begin

text \<open>
  What the controller does to the host: which calls an action can make, that time and looks only grow, and
  what has been seen when draining, resuming or handing over returns.
\<close>

section \<open>The calls of an action\<close>

definition since :: "(host_call \<Rightarrow> bool) \<Rightarrow> host \<Rightarrow> host \<Rightarrow> bool" where
  "since P w w' \<longleftrightarrow> h_looks w \<le> h_looks w' \<and> (\<exists>new. h_calls w' = h_calls w @ new \<and> list_all P new)"

lemma since_refl: "since P w w"
  by (simp add: since_def)

lemma since_same: "h_calls w' = h_calls w \<Longrightarrow> h_looks w \<le> h_looks w' \<Longrightarrow> since P w w'"
  by (simp add: since_def)

lemma since_trans [trans]: "since P u v \<Longrightarrow> since P v w \<Longrightarrow> since P u w"
  unfolding since_def by (metis append.assoc list_all_append order.trans)

lemma since_mono: "since P u v \<Longrightarrow> (\<And>c. P c \<Longrightarrow> Q c) \<Longrightarrow> since Q u v"
  unfolding since_def by (metis list_all_iff)

definition emits :: "(host_call \<Rightarrow> bool) \<Rightarrow> 'a host_act \<Rightarrow> bool" where
  "emits P m \<longleftrightarrow> (\<forall>w r w'. m w = (r, w') \<longrightarrow> since P w w')"

lemma emitsD: "emits P m \<Longrightarrow> m w = (r, w') \<Longrightarrow> since P w w'"
  by (simp add: emits_def)

lemma emits_mono: "emits P m \<Longrightarrow> (\<And>c. P c \<Longrightarrow> Q c) \<Longrightarrow> emits Q m"
  unfolding emits_def by (blast intro: since_mono)

named_theorems emitting \<open>which calls an action can make\<close>

lemma emits_bind [emitting]: "emits P m \<Longrightarrow> (\<And>x. emits P (f x)) \<Longrightarrow> emits P (act_bind m f)"
  unfolding emits_def
proof (intro allI impI)
  fix w r w' assume m: "\<forall>w r w'. m w = (r, w') \<longrightarrow> since P w w'" and f: "\<And>x. \<forall>w r w'. f x w = (r, w') \<longrightarrow> since P w w'"
    and run: "act_bind m f w = (r, w')"
  obtain r1 w1 where 1: "m w = (r1, w1)" by fastforce
  with m have s: "since P w w1" by blast
  show "since P w w'"
  proof (cases r1)
    case (Inl e) with run 1 s show ?thesis by (simp add: act_bind_def)
  next
    case (Inr x)
    with run 1 have "f x w1 = (r, w')" by (simp add: act_bind_def)
    with f have "since P w1 w'" by blast
    with s show ?thesis by (rule since_trans)
  qed
qed

lemma emits_then [emitting]: "emits P m \<Longrightarrow> emits P n \<Longrightarrow> emits P (act_then m n)"
  unfolding act_then_def by (rule emits_bind)

lemma emits_catch [emitting]: "emits P m \<Longrightarrow> (\<And>e a. h e = Some a \<Longrightarrow> emits P a) \<Longrightarrow> emits P (act_catch m h)"
  unfolding emits_def
proof (intro allI impI)
  fix w r w' assume m: "\<forall>w r w'. m w = (r, w') \<longrightarrow> since P w w'"
    and h: "\<And>e a. h e = Some a \<Longrightarrow> \<forall>w r w'. a w = (r, w') \<longrightarrow> since P w w'" and run: "act_catch m h w = (r, w')"
  obtain r1 w1 where 1: "m w = (r1, w1)" by fastforce
  with m have s: "since P w w1" by blast
  show "since P w w'"
  proof (cases "\<exists>e a. r1 = Inl e \<and> h e = Some a")
    case True
    then obtain e a where "r1 = Inl e" "h e = Some a" by blast
    with run 1 have "a w1 = (r, w')" by (simp add: act_catch_def)
    with h [OF \<open>h e = Some a\<close>] have "since P w1 w'" by blast
    with s show ?thesis by (rule since_trans)
  next
    case False
    with run 1 have "w' = w1" by (auto simp: act_catch_def split: sum.splits option.splits)
    with s show ?thesis by simp
  qed
qed

lemma emits_basic [emitting]:
  "emits P (act_return x)" "emits P (act_raise e)" "emits P (act_lift s)" "emits P (look f)"
  "emits P file_tree" "emits P monotonic" "emits P (elapse t)" "emits P (on_files m)"
  by (auto simp: emits_def act_return_def act_raise_def act_lift_def look_def file_tree_def monotonic_def elapse_def act_modify_def
      on_files_def intro!: since_same since_refl split: prod.splits)

lemma emits_called [emitting]: "P c \<Longrightarrow> emits P (called c)"
  by (auto simp: emits_def called_def act_modify_def since_def)

lemma emits_if [emitting]: "(b \<Longrightarrow> emits P m) \<Longrightarrow> (\<not> b \<Longrightarrow> emits P n) \<Longrightarrow> emits P (if b then m else n)"
  by simp

lemma emits_option [emitting]:
  "(x = None \<Longrightarrow> emits P m) \<Longrightarrow> (\<And>y. x = Some y \<Longrightarrow> emits P (f y)) \<Longrightarrow> emits P (case x of None \<Rightarrow> m | Some y \<Rightarrow> f y)"
  by (cases x) auto

lemma emits_sum [emitting]:
  "(\<And>a. emits P (f a)) \<Longrightarrow> (\<And>b. emits P (g b)) \<Longrightarrow> emits P (case s of Inl a \<Rightarrow> f a | Inr b \<Rightarrow> g b)"
  by (cases s) auto

lemma emits_prod [emitting]: "(\<And>a b. emits P (f a b)) \<Longrightarrow> emits P (case p of (a, b) \<Rightarrow> f a b)"
  by (cases p) auto

lemma emits_reply [emitting]:
  "(\<And>c raw. emits P (f c raw)) \<Longrightarrow> (\<And>c. emits P (g c)) \<Longrightarrow> emits P h \<Longrightarrow>
   emits P (case r of Http_reply c raw \<Rightarrow> f c raw | Http_error c \<Rightarrow> g c | Http_unavailable \<Rightarrow> h)"
  by (cases r) auto

lemma emits_json [emitting]:
  "(\<And>d. emits P (f d)) \<Longrightarrow> emits P m \<Longrightarrow>
   emits P (case v of JNull \<Rightarrow> m | JBool b \<Rightarrow> m | JInt i \<Rightarrow> m | JFloat x \<Rightarrow> m | JStr s \<Rightarrow> m | JArr xs \<Rightarrow> m | JObj d \<Rightarrow> f d)"
  by (cases v) auto

lemma emits_each [emitting]: "(\<And>x. emits P (f x)) \<Longrightarrow> emits P (act_each f xs)"
  by (induction xs) (simp_all add: emits_basic emits_then)

lemma emits_filter [emitting]: "(\<And>x. emits P (f x)) \<Longrightarrow> emits P (filter_act f xs)"
  by (induction xs) (simp_all add: emits_basic emits_bind)

lemma emits_rounds: "emits P m \<Longrightarrow> emits P (poll_rounds n pause deadline m)"
  by (induction n) (auto intro!: emitting)

lemma emits_poll [emitting]: "emits P m \<Longrightarrow> emits P (poll_until deadline m)"
  unfolding poll_until_def by (intro emitting emits_rounds)

lemma emits_retries: "emits P m \<Longrightarrow> emits P (retry n deadline m)"
  by (induction n) (auto intro!: emitting)

lemma emits_retry [emitting]: "emits P m \<Longrightarrow> emits P (retry_for timeout m)"
  unfolding retry_for_def by (intro emitting emits_retries)

section \<open>Who makes which calls\<close>

fun is_get :: "host_call \<Rightarrow> bool" where
  "is_get (Control verb route hs data) = (verb = ''GET'')"
| "is_get _ = False"

lemma looking_emits [emitting]:
  "emits P (process_argv env pid)" "emits P (capture_executable env pid x roles)" "emits P (owned_process_alive env p)"
  "emits P (pid_names_executable env pid x roles)" "emits P (listener_pids env n)" "emits P (process_inventory env)"
  unfolding process_argv_def capture_executable_def owned_process_alive_def pid_names_executable_def listener_pids_def process_inventory_def
  by (intro emitting)+

lemma looking_more [emitting]:
  "emits P (wait_for_executable env pid x roles t)" "emits P (verified_proxy_listener_pids env ctx)"
  "emits P (pids_naming_executable env x roles)" "emits P (runtime_is_captured_source env p r s)"
  "emits P (successor_is_finalized env a b r s n)" "emits P (timed_out_process_is_gone env p)"
  "emits P (unless_source env p r s m)" "emits P (capture_source_listener env ctx s)"
  unfolding wait_for_executable_def verified_proxy_listener_pids_def pids_naming_executable_def runtime_is_captured_source_def
    successor_is_finalized_def timed_out_process_is_gone_def unless_source_def capture_source_listener_def Let_def
  by (intro emitting)+

lemma read_runtime_emits [emitting]: "(\<And>c. is_get c \<Longrightarrow> P c) \<Longrightarrow> emits P (read_runtime env ctx)"
  unfolding read_runtime_def by (intro emitting) (auto intro: emitting)

lemma control_call_emits [emitting]: "P (Control verb route hs data) \<Longrightarrow> emits P (control_call env label n verb route hs data)"
  unfolding control_call_def by (intro emitting)

lemma post_ready_emits [emitting]:
  "(\<And>hs data. P (Control ''POST'' ''/control/handoff'' hs data)) \<Longrightarrow> emits P (post_ready env expected lease timeout)"
  unfolding post_ready_def Let_def by (intro emitting)

lemma finalized_round_emits [emitting]: "emits P reader \<Longrightarrow> emits P (finalized_round env old s expected child_pid reader)"
  unfolding finalized_round_def by (intro emitting)

lemma await_successor_emits [emitting]: "emits P reader \<Longrightarrow> emits P (await_successor env ctx expected p reader timeout lease child_pid)"
  unfolding await_successor_def by (intro emitting)

lemma request_rollout_emits [emitting]:
  "emits P reader \<Longrightarrow> (\<And>hs data. P (Control ''POST'' ''/control/handoff'' hs data)) \<Longrightarrow>
   emits P (request_rollout env ctx expected p source reader timeout lease)"
  unfolding request_rollout_def by (intro emitting)

lemma finalized_in_emits [emitting]: "emits P (finalized_in env ctx old expected p r)"
  unfolding finalized_in_def by (intro emitting)

lemma resolution_round_emits [emitting]: "emits P reader \<Longrightarrow> emits P (resolution_round env ctx old expected p reader)"
  unfolding resolution_round_def by (intro emitting)

lemma resolve_emits [emitting]:
  "emits P reader \<Longrightarrow> emits P (resolve_after_controller_failure env ctx old expected p reader timeout lease)"
  unfolding resolve_after_controller_failure_def by (intro emitting)

lemma drain_round_emits [emitting]: "emits P reader \<Longrightarrow> emits P (drain_round env p source reader)"
  unfolding drain_round_def by (intro emitting)

lemma drain_answer_emits [emitting]: "emits P (drain_answer flag message answer)"
  unfolding drain_answer_def by (intro emitting)

lemma drain_emits [emitting]:
  "emits P reader \<Longrightarrow> (\<And>hs data. P (Control ''POST'' ''/control/drain'' hs data)) \<Longrightarrow> emits P (drain_responses env p source reader timeout)"
  unfolding drain_responses_def by (intro emitting)

lemma resume_emits [emitting]:
  "emits P reader \<Longrightarrow> (\<And>hs data. P (Control ''DELETE'' ''/control/drain'' hs data)) \<Longrightarrow> emits P (resume_responses env p source reader)"
  unfolding resume_responses_def release_drain_def by (intro emitting)

lemma terminate_emits [emitting]: "P (Signal (op_pid p)) \<Longrightarrow> emits P (terminate_owned_process env p timeout)"
  unfolding terminate_owned_process_def after_error_def end_process_def by (intro emitting)

lemma supervise_emits [emitting]: "P (Supervise operation ctx) \<Longrightarrow> emits P (supervise env operation ctx)"
  unfolding supervise_def by (intro emitting)

lemma configured_emits [emitting]: "emits P (configured_executable env ctx)"
  unfolding configured_executable_def by (intro emitting)

end
