(* ===== verification/Deploy_Facts.thy ===== *)
theory Deploy_Facts
  imports Deploy Rollout_Facts Transaction_Facts
begin

text \<open>
  What applying a release shows: a deployment that succeeds was proven by the health of a process that
  serves exactly the admitted payload, and one that fails has not finalized its transaction.
\<close>

section \<open>Runs of a deployment\<close>

lemma on_host_run [returns]: "on_host m s = (Inr x, s') \<longleftrightarrow> m (fst s) = (Inr x, fst s') \<and> snd s' = snd s"
  by (cases s; cases s') (auto simp: on_host_def split: prod.splits)

lemma on_payload_run:
  "on_payload m s = (r, s') \<Longrightarrow> \<exists>d. m (h_disk (fst s), snd s) = (r, (d, snd s')) \<and> fst s' = (fst s)\<lparr>h_disk := d\<rparr>"
  by (cases s; cases s') (auto simp: on_payload_def split: prod.splits)

lemma with_payload_run [returns]: "with_payload f s = (r, s') \<longleftrightarrow> f (snd s) s = (r, s')"
  by (cases s) (simp add: with_payload_def)

text \<open>The failure handlers always raise, so a guarded step returns only by itself.\<close>

definition always_raises :: "('s, 'a) eff \<Rightarrow> bool" where
  "always_raises m \<longleftrightarrow> (\<forall>w x w'. m w \<noteq> (Inr x, w'))"

lemma raises_then: "always_raises n \<Longrightarrow> always_raises (act_then m n)"
  by (auto simp: always_raises_def act_then_run)

lemma raises_basic: "always_raises (act_raise e)" "always_raises m \<Longrightarrow> always_raises n \<Longrightarrow> always_raises (if b then m else n)"
  by (auto simp: always_raises_def act_raise_def)

lemma raises_with_payload: "(\<And>t. always_raises (f t)) \<Longrightarrow> always_raises (with_payload f)"
  by (simp add: always_raises_def with_payload_run)

lemma failed_raises: "always_raises (fresh_failed env timeout e)" "always_raises (upgrade_failed env ctx current p reader shut committed e)"
  unfolding fresh_failed_def upgrade_failed_def by (intro raises_then raises_basic raises_with_payload)+

lemma guarded_returns: "(\<And>e. always_raises (h e)) \<Longrightarrow> guarded h m w = (Inr x, w') \<longleftrightarrow> m w = (Inr x, w')"
  by (cases w') (auto simp: guarded_def act_catch_def always_raises_def split: prod.splits sum.splits)

lemma guarded_run:
  "guarded (fresh_failed env timeout) m w = (Inr x, w') \<longleftrightarrow> m w = (Inr x, w')"
  "guarded (upgrade_failed env ctx current p reader shut committed) m w = (Inr x, w') \<longleftrightarrow> m w = (Inr x, w')"
  by (simp_all add: guarded_returns failed_raises)

section \<open>What the transaction keeps\<close>

text \<open>The methods change nothing of a transaction object but its state, so the payload it expects is fixed.\<close>

definition payload_of :: "'w \<times> payload_transaction \<Rightarrow> payload_transaction" where
  "payload_of s = (snd s)\<lparr>tx_state := []\<rparr>"

lemma keeps_payload_basic:
  "keeps payload_of (on_disk m)" "keeps payload_of (set_state v)" "keeps payload_of (act_return x)" "keeps payload_of (act_raise e)"
  by (rule keepsI, auto simp: on_disk_def set_state_def act_modify_def act_return_def act_raise_def payload_of_def split: prod.splits)+

lemma keeps_with_tx: "(\<And>t. keeps f (g t)) \<Longrightarrow> keeps f (with_tx g)"
  by (rule keepsI) (auto simp: with_tx_def dest: keepsD split: prod.splits)

lemma keeps_on_failure: "keeps f h \<Longrightarrow> keeps f m \<Longrightarrow> (\<And>e. keeps f (act_raise e :: ('s, 'a) eff)) \<Longrightarrow> keeps f (on_failure h m :: ('s, 'a) eff)"
  unfolding on_failure_def by (rule keeps_catch) (auto intro!: keeps_then)

lemmas keeps_payload_rules = keeps_payload_basic keeps_with_tx keeps_on_failure keeps_bind keeps_then keeps_if keeps_prod

lemma write_tx_journal_keeps: "keeps payload_of (write_tx_journal env phase reason)"
  unfolding write_tx_journal_def by (intro keeps_payload_rules)

lemma rollback_keeps: "keeps payload_of (rollback_transaction env)"
  unfolding rollback_transaction_def by (intro keeps_payload_rules)

lemma undo_mutation_keeps: "keeps payload_of (undo_mutation env)"
  unfolding undo_mutation_def by (rule keeps_catch [OF rollback_keeps]) (auto intro: keeps_payload_rules split: if_splits)

lemma methods_keep:
  "keeps payload_of (commit_projection env)" "keeps payload_of (activate env)" "keeps payload_of (finalize env runtime)"
  unfolding commit_projection_def prepare_materialization_def materialize_def close_unmutated_def activate_def finalize_def
  by (intro keeps_payload_rules write_tx_journal_keeps undo_mutation_keeps)+

lemma expected_identity_state: "expected_identity env (payload_of s) = expected_identity env (snd s)"
  by (simp add: payload_of_def expected_identity_def cong: option.case_cong)

lemma expected_identity_fixed: "payload_of s' = payload_of s \<Longrightarrow> expected_identity env (snd s') = expected_identity env (snd s)"
  by (metis expected_identity_state)

lemma on_payload_keeps: "keeps payload_of m \<Longrightarrow> on_payload m s = (r, s') \<Longrightarrow> payload_of s' = payload_of s"
  by (drule on_payload_run) (auto dest: keepsD simp: payload_of_def)

lemma finalize_returns: "finalize env runtime s = (Inr x, s') \<Longrightarrow> tx_state (snd s') = ''finalized''"
  by (cases s) (auto simp: finalize_def with_tx_def returns set_state_def act_raise_def split: if_splits)

lemma finalize_closes:
  assumes "finalize env runtime s = (Inr x, s')"
  shows "closed (tx_ctx (snd s)) (fst s')"
proof -
  obtain w t where s: "s = (w, t)" by fastforce
  from assms s obtain journal w1 w2 d where "finalize_installation env (tx_ctx t) journal runtime None w1 = (Inr d, w2)" "fst s' = w2"
    by (auto simp: finalize_def with_tx_def returns on_failure_def on_disk_def set_state_def act_catch_def act_raise_def
        split: if_splits prod.splits sum.splits)
  with validD(1) [OF closing_ends(3) TrueI] s show ?thesis by simp
qed

section \<open>What a controller has seen\<close>

definition health_at :: "host_env \<Rightarrow> nat \<Rightarrow> jdict \<Rightarrow> bool" where
  "health_at env n r \<longleftrightarrow>
     (\<exists>t raw. http_at env n ''GET'' ''/healthz'' [] = (t, Http_reply 200 raw) \<and> loads (lpy (life env)) raw = Inr (JObj r))"

definition seen :: "host_env \<Rightarrow> host \<Rightarrow> host \<Rightarrow> jdict \<Rightarrow> bool" where
  "seen env w w' r \<longleftrightarrow> (\<exists>n. h_looks w \<le> n \<and> n < h_looks w' \<and> health_at env n r)"

definition proves_serving :: "jdict \<Rightarrow> jdict \<Rightarrow> bool" where
  "proves_serving runtime expected \<longleftrightarrow>
     runtime_payload_matches runtime expected \<and> py_same (jget runtime ''accepting'') (JBool True) \<and> jget runtime ''draining'' \<noteq> JBool True"

lemma seen_more: "seen env u v r \<Longrightarrow> h_looks w \<le> h_looks u \<Longrightarrow> h_looks v \<le> h_looks w' \<Longrightarrow> seen env w w' r"
  unfolding seen_def by (meson order.trans order.strict_trans2)

lemma looksD: "emits P m \<Longrightarrow> m w = (r, w') \<Longrightarrow> h_looks w \<le> h_looks w'"
  by (drule emitsD) (auto simp: since_def)

lemma read_runtime_seen:
  assumes "read_runtime env ctx w = (Inr (Some r), w')"
  shows "seen env w w' r"
proof -
  obtain t reply where h: "http_at env (h_looks w) ''GET'' ''/healthz'' [] = (t, reply)" by fastforce
  from assms have "health_at env (h_looks w) r \<and> h_looks w' = Suc (h_looks w)"
    by (auto simp: read_runtime_def host_runs h act_raise_def health_at_def split: http_reply.splits if_splits sum.splits json.splits)
  then show ?thesis by (auto simp: seen_def)
qed

lemma poll_rounds_found:
  "emits P m \<Longrightarrow> poll_rounds n pause deadline m w = (Inr (Some x), w') \<Longrightarrow> \<exists>w1. since P w w1 \<and> m w1 = (Inr (Some x), w')"
proof (induction n arbitrary: w)
  case (Suc n)
  obtain r w1 where m: "m w = (r, w1)" by fastforce
  have "r = Inr (Some x) \<and> w1 = w' \<or> r = Inr None \<and> poll_rounds n pause deadline m (snd (elapse pause w1)) = (Inr (Some x), w')"
    using Suc.prems(2) m
    by (auto simp: act_bind_def act_then_def act_return_def monotonic_run elapse_run split: if_splits option.splits sum.splits)
  then show ?case
  proof (elim disjE conjE)
    assume "r = Inr (Some x)" "w1 = w'" with m show ?thesis by (blast intro: since_refl)
  next
    assume "r = Inr None" and more: "poll_rounds n pause deadline m (snd (elapse pause w1)) = (Inr (Some x), w')"
    from Suc.IH [OF Suc.prems(1) more] obtain w2 where "since P (snd (elapse pause w1)) w2" "m w2 = (Inr (Some x), w')" by blast
    moreover have "since P w (snd (elapse pause w1))"
      using emitsD [OF Suc.prems(1) m] by (simp add: elapse_run since_def)
    ultimately show ?thesis by (blast intro: since_trans)
  qed
qed (simp add: returns)

lemma poll_found: "emits P m \<Longrightarrow> poll_until deadline m w = (Inr (Some x), w') \<Longrightarrow> \<exists>w1. since P w w1 \<and> m w1 = (Inr (Some x), w')"
  by (auto simp: poll_until_def returns monotonic_run dest: poll_rounds_found)

section \<open>Proofs of a serving successor\<close>

lemma serving_proof_emits [emitting]: "emits P (serving_proof env ctx expected old_pid r)"
  unfolding serving_proof_def by (cases "jget r ''pid''") (auto intro!: emitting)

lemma serving_round_emits [emitting]: "emits P reader \<Longrightarrow> emits P (serving_round env ctx expected reader old_pid)"
  unfolding serving_round_def by (intro emitting)

lemma wait_for_serving_emits [emitting]: "emits P reader \<Longrightarrow> emits P (wait_for_serving_runtime env ctx expected reader timeout old_pid)"
  unfolding wait_for_serving_runtime_def by (intro emitting)

lemma serving_proof_matches: "serving_proof env ctx expected old_pid q w = (Inr (Some r), w') \<Longrightarrow> q = r \<and> serving_matches r expected"
  by (auto simp: serving_proof_def returns split: json.splits if_splits)

lemma serving_round_proves:
  assumes "serving_round env ctx expected (read_runtime env c) old_pid w = (Inr (Some r), w')"
  shows "proves_serving r expected \<and> seen env w w' r"
proof -
  from assms obtain q w1 where read: "read_runtime env c w = (Inr (Some q), w1)"
    and shown: "serving_proof env ctx expected old_pid q w1 = (Inr (Some r), w')"
    by (auto simp: serving_round_def returns split: option.splits)
  from serving_proof_matches [OF shown] have ok: "q = r" "serving_matches r expected" by blast+
  have "seen env w w' r"
    using read_runtime_seen [OF read] looksD [OF serving_proof_emits shown] ok(1) by (auto elim: seen_more)
  with ok show ?thesis by (simp add: serving_matches_def proves_serving_def py_same_def)
qed

lemma get_always: "emits (\<lambda>_. True) (read_runtime env c)"
  by (rule read_runtime_emits) simp

lemma wait_for_serving_proves:
  assumes "wait_for_serving_runtime env ctx expected (read_runtime env c) timeout old_pid w = (Inr r, w')"
  shows "proves_serving r expected \<and> seen env w w' r"
proof -
  from assms have "poll_until (h_clock w + timeout) (serving_round env ctx expected (read_runtime env c) old_pid) w = (Inr (Some r), w')"
    by (auto simp: wait_for_serving_runtime_def returns monotonic_run split: option.splits)
  from poll_found [OF serving_round_emits [OF get_always] this] obtain w1 where
    "since (\<lambda>_. True) w w1" "serving_round env ctx expected (read_runtime env c) old_pid w1 = (Inr (Some r), w')" by blast
  then show ?thesis
    using serving_round_proves [of env ctx expected c old_pid w1 r w'] by (auto simp: since_def elim: seen_more)
qed

lemma matches_successor_serving: "runtime_matches_successor (Some r) expected child_pid \<Longrightarrow> proves_serving r expected"
  by (auto simp: runtime_matches_successor_def proves_serving_def fields_match_def py_same_def)

lemma successor_finalized_matches:
  "successor_is_finalized env old successor runtime expected child_pid w = (Inr True, w') \<Longrightarrow>
   runtime_matches_successor runtime expected child_pid"
  by (auto simp: successor_is_finalized_def returns split: if_splits)

lemma finalized_round_proves:
  assumes "finalized_round env old s expected child_pid (read_runtime env c) w = (Inr (Some r), w')"
  shows "proves_serving r expected \<and> seen env w w' r"
proof -
  from assms obtain w1 where read: "read_runtime env c w = (Inr (Some r), w1)"
    and final: "successor_is_finalized env old s (Some r) expected child_pid w1 = (Inr True, w')"
    by (auto simp: finalized_round_def returns split: if_splits)
  have "seen env w w' r" using read_runtime_seen [OF read] looksD [OF looking_more(5) final] by (auto elim: seen_more)
  with matches_successor_serving [OF successor_finalized_matches [OF final]] show ?thesis by blast
qed

lemma finalized_in_serving: "finalized_in env ctx old expected p r w = (Inr True, w') \<Longrightarrow> proves_serving r expected"
  by (auto simp: finalized_in_def returns split: if_splits option.splits
      dest!: successor_finalized_matches intro: matches_successor_serving)

lemma resolution_round_proves:
  assumes "resolution_round env ctx old expected p (read_runtime env c) w = (Inr (Some (Resolved_finalized r)), w')"
  shows "proves_serving r expected \<and> seen env w w' r"
proof -
  from assms obtain w1 where read: "read_runtime env c w = (Inr (Some r), w1)"
    and final: "finalized_in env ctx old expected p r w1 = (Inr True, w')"
    by (auto simp: resolution_round_def returns split: option.splits if_splits)
  have "seen env w w' r" using read_runtime_seen [OF read] looksD [OF finalized_in_emits final] by (auto elim: seen_more)
  with finalized_in_serving [OF final] show ?thesis by blast
qed

text \<open>What is seen while polling is seen in the whole action.\<close>

lemma poll_proves:
  assumes "\<And>w w'. m w = (Inr (Some x), w') \<Longrightarrow> Q \<and> seen env w w' r" "emits P m" "poll_until deadline m w = (Inr (Some x), w')"
  shows "Q \<and> seen env w w' r"
proof -
  from poll_found [OF assms(2,3)] obtain w1 where "since P w w1" "m w1 = (Inr (Some x), w')" by blast
  with assms(1) [of w1 w'] show ?thesis by (auto simp: since_def elim: seen_more)
qed

lemma await_successor_proves:
  assumes "await_successor env ctx expected p (read_runtime env c) timeout lease child_pid w = (Inr result, w')" "jget result ''runtime'' = JObj r"
  shows "proves_serving r expected \<and> seen env w w' r"
proof -
  from assms obtain s w1 deadline where
      captured: "wait_for_executable env child_pid (executable ctx) (Some [HANDOFF_CHILD_MODE]) timeout w = (Inr (Some s), w1)"
    and poll: "poll_until deadline (finalized_round env p s expected child_pid (read_runtime env c)) w1 = (Inr (Some r), w')"
    by (auto simp: await_successor_def handed_over_def returns monotonic_run split: option.splits)
  have "proves_serving r expected \<and> seen env w1 w' r"
    by (rule poll_proves [OF _ finalized_round_emits [OF get_always] poll]) (erule finalized_round_proves)
  with looksD [OF looking_more(1) captured] show ?thesis by (auto elim: seen_more)
qed

lemma request_rollout_proves:
  assumes "request_rollout env ctx expected p source (read_runtime env c) timeout lease w = (Inr result, w')" "jget result ''runtime'' = JObj r"
  shows "proves_serving r expected \<and> seen env w w' r"
proof -
  from assms(1) obtain runtime w1 u w2 ready w3 where 1: "read_runtime env c w = (Inr runtime, w1)"
    "unless_source env p runtime source (no_longer_active p) w1 = (Inr u, w2)" "post_ready env expected lease timeout w2 = (Inr ready, w3)"
    and last: "await_successor env ctx expected p (read_runtime env c) timeout lease (int_of (jget ready ''child_pid'')) w3 = (Inr result, w')"
    unfolding request_rollout_def act_then_run act_bind_run by blast
  have "h_looks w \<le> h_looks w3"
    using looksD [OF get_always 1(1)] looksD [OF looking_more(7) 1(2)] looksD [OF post_ready_emits 1(3), of "\<lambda>_. True"] by simp
  with await_successor_proves [OF last assms(2)] show ?thesis by (auto elim: seen_more)
qed

lemma resolve_proves:
  assumes "resolve_after_controller_failure env ctx old expected p (read_runtime env c) timeout lease w = (Inr (Resolved_finalized r), w')"
  shows "proves_serving r expected \<and> seen env w w' r"
proof -
  from assms obtain deadline where "poll_until deadline (resolution_round env ctx old expected p (read_runtime env c)) w = (Inr (Some (Resolved_finalized r)), w')"
    by (auto simp: resolve_after_controller_failure_def returns monotonic_run split: if_splits option.splits)
  note poll = poll_proves [OF _ resolution_round_emits [OF get_always] this]
  show ?thesis by (rule poll) (erule resolution_round_proves)
qed

lemma object_returns: "(case v of JObj d \<Rightarrow> act_return d | _ \<Rightarrow> act_raise e) w = (Inr r, w') \<longleftrightarrow> v = JObj r \<and> w' = w"
  by (cases v) (auto simp: returns)

lemma resolution_returns:
  "(case x of Resolved_finalized y \<Rightarrow> act_return y | Resolved_rolled_back z \<Rightarrow> act_raise b | Unresolved \<Rightarrow> act_raise a) w = (Inr r, w')
   \<longleftrightarrow> x = Resolved_finalized r \<and> w' = w"
  by (cases x) (auto simp: returns)

lemma caught_resolution:
  "act_catch m (\<lambda>x. if b x then Some (act_return Unresolved) else None) w = (Inr (Resolved_finalized r), w') \<Longrightarrow>
   m w = (Inr (Resolved_finalized r), w')"
  by (auto dest!: act_catch_run simp: returns split: if_splits)

lemma request_handoff_proves:
  assumes "request_handoff env ctx expected current p (read_runtime env) timeout w = (Inr r, w')"
  shows "proves_serving r expected \<and> seen env w w' r"
proof -
  let ?first = "act_bind (request_rollout env ctx expected p current (read_runtime env ctx) timeout (max 1 timeout)) (\<lambda>result.
          case jget result ''runtime'' of
            JObj runtime \<Rightarrow> act_return runtime
          | _ \<Rightarrow> act_raise (install_error ''handoff did not return successor runtime proof''))"
  have first_emits: "emits (\<lambda>_. True) ?first"
    by (intro emitting get_always) simp
  have "?first w = (Inr r, w') \<or> (\<exists>e w1. ?first w = (Inl e, w1) \<and>
    resolve_after_controller_failure env ctx current expected p (read_runtime env ctx) timeout (max 1 timeout) w1 = (Inr (Resolved_finalized r), w'))"
    using assms unfolding request_handoff_def
    by (drule_tac act_catch_run) (auto simp: act_bind_run [where f = "case_resolution a b c" for a b c] resolution_returns dest: caught_resolution)
  then show ?thesis
  proof (elim disjE exE conjE)
    assume "?first w = (Inr r, w')"
    then show ?thesis by (auto simp: act_bind_run object_returns dest: request_rollout_proves)
  next
    fix e w1 assume 2: "?first w = (Inl e, w1)" 
      "resolve_after_controller_failure env ctx current expected p (read_runtime env ctx) timeout (max 1 timeout) w1 = (Inr (Resolved_finalized r), w')"
    from resolve_proves [OF 2(2)] looksD [OF first_emits 2(1)] show ?thesis by (auto elim: seen_more)
  qed
qed

lemma bound_to_emits [emitting]: "emits P (bound_to env control m)"
  unfolding bound_to_def by (intro emitting)

lemma bind_control_emits [emitting]: "P (Supervise Service_install control) \<Longrightarrow> emits P (bind_control_supervisor env control)"
  unfolding bind_control_supervisor_def by (intro emitting)

lemma replace_native_proves:
  assumes "replace_native_generation env ctx expected p (read_runtime env) timeout w = (Inr r, w')"
  shows "proves_serving r expected \<and> seen env w w' r"
proof -
  from assms obtain w1 control w2 u w3 where 1: "terminate_owned_process env p timeout w = (Inr True, w1)"
    "on_files (control_context (life env) ctx) w1 = (Inr control, w2)" "bind_control_supervisor env control w2 = (Inr u, w3)"
    and last: "wait_for_serving_runtime env ctx expected (read_runtime env ctx) timeout (Some (op_pid p)) w3 = (Inr r, w')"
    by (auto simp: replace_native_generation_def returns split: if_splits dest!: act_catch_run)
  have "h_looks w \<le> h_looks w3"
    using looksD [OF terminate_emits 1(1), of "\<lambda>_. True"] looksD [OF emits_basic(8) 1(2)] looksD [OF bind_control_emits 1(3), of "\<lambda>_. True"] by simp
  with wait_for_serving_proves [OF last] show ?thesis by (auto elim: seen_more)
qed

section \<open>A deployment that succeeds is proven\<close>

lemma expected_of_run: "expected_of env s = (Inr x, s') \<longleftrightarrow> expected_identity (life env) (snd s) = Inr x \<and> s' = s"
  by (auto simp: expected_of_def returns)

text \<open>A step of the transaction keeps the payload and looks at nothing of the host.\<close>

definition quiet :: "host \<times> payload_transaction \<Rightarrow> host \<times> payload_transaction \<Rightarrow> bool" where
  "quiet s s' \<longleftrightarrow> payload_of s' = payload_of s \<and> h_looks (fst s) \<le> h_looks (fst s')"

lemma quiet_trans [trans]: "quiet s u \<Longrightarrow> quiet u v \<Longrightarrow> quiet s v"
  by (auto simp: quiet_def)

lemma on_payload_quiet: "keeps payload_of m \<Longrightarrow> on_payload m s = (r, s') \<Longrightarrow> quiet s s'"
  using on_payload_keeps [of m s r s'] on_payload_run [of m s r s'] by (auto simp: quiet_def)

lemma on_host_quiet: "emits P m \<Longrightarrow> on_host m s = (r, s') \<Longrightarrow> quiet s s'"
  by (auto simp: quiet_def on_host_def payload_of_def dest: looksD split: prod.splits)

text \<open>What has been shown of a deployment between two of its states.\<close>

definition shown :: "host_env \<Rightarrow> host \<times> payload_transaction \<Rightarrow> host \<times> payload_transaction \<Rightarrow> jdict \<Rightarrow> bool" where
  "shown env s s' r \<longleftrightarrow>
     (\<exists>expected. expected_identity (life env) (snd s) = Inr expected \<and> proves_serving r expected \<and> seen env (fst s) (fst s') r)"

lemma shown_more: "shown env u v r \<Longrightarrow> quiet s u \<Longrightarrow> quiet v s' \<Longrightarrow> shown env s s' r"
  unfolding shown_def quiet_def using expected_identity_fixed [of u s] by (auto elim: seen_more)

text \<open>
  The end of a deployment: the object is finalized, and its transaction is finished on disk, where neither
  its journal nor its directory is left.
\<close>

definition finished :: "host \<times> payload_transaction \<Rightarrow> host \<times> payload_transaction \<Rightarrow> bool" where
  "finished s s' \<longleftrightarrow> payload_of s' = payload_of s \<and> tx_state (snd s') = ''finalized'' \<and> closed (tx_ctx (snd s)) (h_disk (fst s'))"

lemma same_ctx: "payload_of u = payload_of s \<Longrightarrow> tx_ctx (snd u) = tx_ctx (snd s)"
  by (drule arg_cong [of _ _ tx_ctx]) (simp add: payload_of_def)

lemma finished_quiet: "finished u s' \<Longrightarrow> payload_of u = payload_of s \<Longrightarrow> finished s s'"
  using same_ctx [of u s] by (simp add: finished_def)

lemma on_host_payload: "on_host m s = (r, s') \<Longrightarrow> payload_of s' = payload_of s"
  by (auto simp: on_host_def payload_of_def split: prod.splits)

lemma on_payload_payload: "keeps payload_of m \<Longrightarrow> on_payload m s = (r, s') \<Longrightarrow> payload_of s' = payload_of s"
  by (drule (1) on_payload_quiet) (simp add: quiet_def)

lemma finalized_ends:
  assumes "act_then (on_payload (finalize (life env) r)) (act_return d) u = (Inr x, s')" "shown env s u r"
  shows "x = d \<and> finished u s' \<and> shown env s s' r"
proof -
  from assms(1) obtain y where f: "on_payload (finalize (life env) r) u = (Inr y, s')" and "x = d" by (auto simp: returns)
  from on_payload_run [OF f] on_payload_payload [OF methods_keep(3) f] have "finished u s'"
    by (auto simp: finished_def dest: finalize_returns finalize_closes)
  moreover have "quiet s s" by (simp add: quiet_def)
  ultimately show ?thesis
    using \<open>x = d\<close> shown_more [OF assms(2) _ on_payload_quiet [OF methods_keep(3) f]] by blast
qed

lemma fresh_install_shows:
  assumes "fresh_install env (read_runtime env) timeout s = (Inr d, s')"
  shows "\<exists>r. d = deployed ''installed'' r \<and> finished s s' \<and> shown env s s' r"
proof -
  let ?c = "\<lambda>u :: host \<times> payload_transaction. tx_candidate_ctx (snd u)"
  from assms obtain a u1 b u2 c u3 r u4 expected where 1: "on_payload (commit_projection (life env)) s = (Inr a, u1)"
    "on_payload (activate (life env)) u1 = (Inr b, u2)" "on_host (supervise env Service_install (?c u1)) u2 = (Inr c, u3)"
    and expected: "expected_identity (life env) (snd u3) = Inr expected"
    and wait: "on_host (wait_for_serving_runtime env (?c u1) expected (read_runtime env (?c u1)) timeout None) u3 = (Inr r, u4)"
    and fin: "act_then (on_payload (finalize (life env) r)) (act_return (deployed ''installed'' r)) u4 = (Inr d, s')"
    unfolding fresh_install_def Let_def act_then_run act_bind_run with_payload_run expected_of_run guarded_def [symmetric] guarded_run
    by blast
  have "quiet s u3"
    using on_payload_quiet [OF methods_keep(1) 1(1)] on_payload_quiet [OF methods_keep(2) 1(2)]
      on_host_quiet [OF supervise_emits [of "\<lambda>_. True"] 1(3)] by (blast intro: quiet_trans)
  moreover have "shown env u3 u4 r"
    using wait_for_serving_proves [of env _ expected "?c u1"] wait expected unfolding shown_def on_host_run by blast
  ultimately have shown: "shown env s u4 r" by (auto elim: shown_more simp: quiet_def)
  have "payload_of u4 = payload_of s" using \<open>quiet s u3\<close> on_host_payload [OF wait] by (simp add: quiet_def)
  with finalized_ends [OF fin shown] finished_quiet show ?thesis by blast
qed

lemma upgrade_shows:
  assumes "upgrade env ctx current p native (read_runtime env) timeout s = (Inr d, s')"
  shows "\<exists>r. d = deployed ''upgraded'' r \<and> finished s s' \<and> shown env s s' r"
proof -
  let ?c = "\<lambda>u :: host \<times> payload_transaction. tx_candidate_ctx (snd u)"
  from assms obtain a u1 b u2 c u3 r u4 e u5 expected where 1: "on_payload (commit_projection (life env)) s = (Inr a, u1)"
    "(if native then on_host (drain_responses env p current (read_runtime env (?c u1)) timeout) else act_return ()) u1 = (Inr b, u2)"
    "on_payload (activate (life env)) u2 = (Inr c, u3)"
    and expected: "expected_identity (life env) (snd u3) = Inr expected"
    and replaced: "on_host (if native then replace_native_generation env (?c u1) expected p (read_runtime env) timeout
                            else request_handoff env (?c u1) expected current p (read_runtime env) timeout) u3 = (Inr r, u4)"
    and bound: "(if native then act_return ()
                 else on_host (act_bind (on_files (control_context (life env) ctx)) (bind_control_supervisor env))) u4 = (Inr e, u5)"
    and fin: "act_then (on_payload (finalize (life env) r)) (act_return (deployed ''upgraded'' r)) u5 = (Inr d, s')"
    unfolding upgrade_def Let_def act_then_run act_bind_run with_payload_run expected_of_run guarded_run by blast
  have drain: "emits (\<lambda>_. True) (drain_responses env p current (read_runtime env (?c u1)) timeout)" by (rule drain_emits [OF get_always]) simp
  have bind: "emits (\<lambda>_. True) (act_bind (on_files (control_context (life env) ctx)) (bind_control_supervisor env))"
    by (intro emitting) simp
  have "quiet u1 u2" using 1(2) on_host_quiet [OF drain] by (auto simp: act_return_run quiet_def split: if_splits)
  with on_payload_quiet [OF methods_keep(1) 1(1)] on_payload_quiet [OF methods_keep(2) 1(3)] have "quiet s u3"
    by (blast intro: quiet_trans)
  moreover have "quiet u4 u5" using bound on_host_quiet [OF bind] by (auto simp: act_return_run quiet_def split: if_splits)
  moreover have "shown env u3 u4 r"
    using replaced expected replace_native_proves request_handoff_proves unfolding shown_def on_host_run by (cases native) auto
  ultimately have shown: "shown env s u5 r" by (auto elim: shown_more)
  have "payload_of u5 = payload_of s" using \<open>quiet s u3\<close> \<open>quiet u4 u5\<close> on_host_payload [OF replaced] by (simp add: quiet_def)
  with finalized_ends [OF fin shown] finished_quiet show ?thesis by blast
qed

text \<open>What comes before the upgrade or the fresh installation only looks.\<close>

lemma on_host_looks: "emits (\<lambda>_. True) m \<Longrightarrow> on_host m s = (r, s') \<Longrightarrow> quiet s s'"
  by (rule on_host_quiet)

lemma install_returns:
  assumes "install env ctx (read_runtime env) timeout s = (Inr d, s')"
  shows "\<exists>u. quiet s u \<and> (fresh_install env (read_runtime env) timeout u = (Inr d, s')
               \<or> (\<exists>current p native. upgrade env ctx current p native (read_runtime env) timeout u = (Inr d, s')))"
proof -
  from assms obtain current u1 where read: "on_host (read_runtime env ctx) s = (Inr current, u1)"
    unfolding install_def Let_def act_bind_run by blast
  note q1 = on_host_looks [OF get_always read]
  show ?thesis
  proof (cases current)
    case None
    with assms read obtain pids u2 where "on_host (listener_pids env (port ctx)) u1 = (Inr pids, u2)"
      "fresh_install env (read_runtime env) timeout u2 = (Inr d, s')"
      by (auto simp: install_def Let_def act_bind_run act_raise_run split: if_splits)
    with q1 on_host_looks [OF looking_emits(5)] show ?thesis by (blast intro: quiet_trans)
  next
    case (Some runtime)
    with assms read obtain pid where pid: "jget runtime ''pid'' = JInt pid"
      by (cases "jget runtime ''pid''") (auto simp: install_def Let_def act_bind_run act_raise_run)
    with assms read Some obtain p u2 control u3 x u4 where 1: "on_host (capture_source_listener env ctx runtime) u1 = (Inr p, u2)"
      "on_host (on_files (control_context (life env) ctx)) u2 = (Inr control, u3)"
      "on_host (bound_to env control ''native supervisor is not bound to the lifecycle control executable'') u3 = (Inr x, u4)"
      and up: "upgrade env ctx runtime p (strategy_of (Some runtime) = Native_generation) (read_runtime env) timeout u4 = (Inr d, s')"
      by (auto simp: install_def Let_def act_bind_run act_then_run act_raise_run split: if_splits)
    from q1 on_host_looks [OF looking_more(8) 1(1)] on_host_looks [OF emits_basic(8) 1(2)] on_host_looks [OF bound_to_emits 1(3)]
    have "quiet s u4" by (blast intro: quiet_trans)
    with up show ?thesis by blast
  qed
qed

section \<open>A deployment that fails is not finalized\<close>

definition ended :: "'w \<times> payload_transaction \<Rightarrow> bool" where
  "ended s \<longleftrightarrow> tx_state (snd s) = ''finalized''"

lemma method_ended:
  assumes "\<And>r. c \<noteq> Finalize r" "tx_method env c s = (x, s')"
  shows "ended s' = ended s"
  using method_moves [of env c "fst s" "snd s"] assms by (cases c; cases s; cases s') (auto simp: ended_def split: if_splits)

lemma keeps_on_payload: "(\<And>s r s'. m s = (r, s') \<Longrightarrow> ended s' = ended s) \<Longrightarrow> keeps ended (on_payload m)"
  by (rule keepsI) (metis ended_def on_payload_run snd_conv)

lemma methods_ended:
  "keeps ended (on_payload (commit_projection env))" "keeps ended (on_payload (activate env))"
  "keeps ended (undo henv)" "keeps ended (preserve henv reason)"
  using method_ended [of Commit] method_ended [of Activate] method_ended [of Rollback] method_ended [of "Preserve reason"]
  unfolding undo_def preserve_def by (auto intro!: keeps_on_payload)

lemma keeps_ended_basic:
  "keeps ended (on_host m)" "keeps ended (act_return x)" "keeps ended (act_raise e)" "keeps ended (expected_of env)"
  by (rule keepsI, auto simp: ended_def on_host_def act_return_def act_raise_def expected_of_def with_payload_def act_lift_def split: prod.splits)+

lemma keeps_with_payload: "(\<And>t. keeps f (g t)) \<Longrightarrow> keeps f (with_payload g)"
  by (rule keepsI) (auto simp: with_payload_run dest: keepsD)

lemma keeps_handled: "keeps f m \<Longrightarrow> (\<And>e. b e \<Longrightarrow> keeps f (g e)) \<Longrightarrow> keeps f (act_catch m (\<lambda>e. if b e then Some (g e) else None))"
  by (rule keeps_catch) (auto split: if_splits)

lemma keeps_guarded: "keeps f m \<Longrightarrow> (\<And>e. keeps f (h e)) \<Longrightarrow> keeps f (guarded h m)"
  unfolding guarded_def by (rule keeps_catch) auto

lemmas keeps_ended_rules = keeps_ended_basic methods_ended keeps_with_payload keeps_handled keeps_guarded keeps_bind keeps_then keeps_if

lemma restore_admission_ended: "keeps ended (restore_admission env ctx current p reader e)"
  unfolding restore_admission_def Let_def guarded_def [symmetric] by (intro keeps_ended_rules)

lemma failed_ended:
  "keeps ended (fresh_failed env timeout e)" "keeps ended (upgrade_failed env ctx current p reader shut committed e)"
  unfolding fresh_failed_def upgrade_failed_def by (intro keeps_ended_rules restore_admission_ended)+

text \<open>An exception leaves the transaction as ended as it was.\<close>

definition fails_open :: "(host \<times> payload_transaction, 'a) eff \<Rightarrow> bool" where
  "fails_open m \<longleftrightarrow> (\<forall>s e s'. m s = (Inl e, s') \<longrightarrow> ended s' = ended s)"

lemma fails_open_bind: "keeps ended m \<Longrightarrow> (\<And>x. fails_open (f x)) \<Longrightarrow> fails_open (act_bind m f)"
  unfolding fails_open_def act_bind_def using keepsD [of ended m] by (fastforce split: prod.splits sum.splits)

lemma fails_open_then: "keeps ended m \<Longrightarrow> fails_open n \<Longrightarrow> fails_open (act_then m n)"
  unfolding act_then_def by (rule fails_open_bind)

lemma fails_open_kept: "keeps ended m \<Longrightarrow> fails_open m"
  unfolding fails_open_def by (auto dest: keepsD)

lemma fails_open_if: "fails_open m \<Longrightarrow> fails_open n \<Longrightarrow> fails_open (if b then m else n)"
  by simp

lemma fails_open_option: "fails_open m \<Longrightarrow> (\<And>x. fails_open (f x)) \<Longrightarrow> fails_open (case v of None \<Rightarrow> m | Some x \<Rightarrow> f x)"
  by (cases v) auto

lemma fails_open_pid: "(\<And>pid. fails_open (f pid)) \<Longrightarrow> fails_open (case v of JInt pid \<Rightarrow> f pid | _ \<Rightarrow> act_raise e)"
  by (cases v) (auto intro: fails_open_kept keeps_ended_basic)

lemma fails_open_with_payload: "(\<And>t. fails_open (f t)) \<Longrightarrow> fails_open (with_payload f)"
  by (auto simp: fails_open_def with_payload_run)

lemma finalize_fails_open: "fails_open (act_then (on_payload (finalize env r)) (act_return x))"
  unfolding fails_open_def
proof (intro allI impI)
  fix s e s' assume "act_then (on_payload (finalize env r)) (act_return x) s = (Inl e, s')"
  then have "on_payload (finalize env r) s = (Inl e, s')"
    by (auto simp: act_then_def act_bind_def act_return_def split: prod.splits sum.splits)
  then obtain d where "finalize env r (h_disk (fst s), snd s) = (Inl e, (d, snd s'))" by (blast dest: on_payload_run)
  then show "ended s' = ended s"
    by (cases s; cases s')
      (auto simp: finalize_def with_tx_def on_failure_def act_catch_def act_bind_def act_then_def on_disk_def set_state_def act_modify_def
        act_raise_def ended_def split: if_splits prod.splits sum.splits)
qed

lemmas fails_open_rules = fails_open_if fails_open_option fails_open_with_payload finalize_fails_open fails_open_then fails_open_bind

lemma install_fails_open: "fails_open (install env ctx reader timeout)"
proof -
  have fresh: "fails_open (fresh_install env reader timeout)"
    unfolding fresh_install_def Let_def guarded_def [symmetric] by (intro fails_open_rules keeps_ended_rules failed_ended)
  have up: "fails_open (upgrade env ctx current p native reader timeout)" for current p native
    unfolding upgrade_def Let_def by (intro fails_open_rules keeps_ended_rules failed_ended)
  show ?thesis
    unfolding install_def Let_def by (intro fails_open_rules fails_open_pid keeps_ended_basic fresh up fails_open_kept [of "act_raise e" for e])
qed

text \<open>
  Claim C10.  A deployment reports success only with proof: its transaction is finalized and finished on disk,
  where neither its journal nor its directory is left, and during the deployment the health endpoint
  showed a process that serves exactly the payload admitted by this transaction, accepting requests and
  not draining; the report is what was shown.  A deployment that fails, at whatever step, leaves the
  transaction object in another state than finalized, unless it was so before; about the journal on disk this
  part says nothing, since a cleanup can fail after the terminal journal is written.
\<close>

theorem deploy_proven:
  "case install env ctx (read_runtime env) timeout (w, t) of
     (Inr d, (w', t')) \<Rightarrow>
       \<exists>name runtime expected. d = deployed name runtime \<and> tx_state t' = ''finalized''
         \<and> \<not> lexists (nodes (h_disk w')) (journal_path (tx_ctx t)) \<and> \<not> exists_at (nodes (h_disk w')) (transaction_root (tx_ctx t))
         \<and> expected_identity (life env) t = Inr expected \<and> proves_serving runtime expected \<and> seen env w w' runtime
   | (Inl e, (w', t')) \<Rightarrow> tx_state t' = ''finalized'' \<longleftrightarrow> tx_state t = ''finalized''"
proof -
  obtain r w' t' where run: "install env ctx (read_runtime env) timeout (w, t) = (r, (w', t'))" by (metis prod.exhaust)
  show ?thesis
  proof (cases r)
    case (Inl e)
    then show ?thesis using run install_fails_open [of env ctx "read_runtime env" timeout] by (auto simp: fails_open_def ended_def)
  next
    case (Inr d)
    then obtain s name rt where s: "quiet (w, t) s" "d = deployed name rt" "finished s (w', t')" "shown env s (w', t') rt"
      using install_returns [of env ctx timeout "(w, t)" d "(w', t')"] run fresh_install_shows upgrade_shows by metis
    then have "finished (w, t) (w', t')" by (auto elim: finished_quiet simp: quiet_def)
    moreover from s have "shown env (w, t) (w', t') rt" by (auto elim: shown_more simp: quiet_def)
    ultimately show ?thesis using run Inr s(2) by (auto simp: shown_def finished_def closed_def)
  qed
qed

end
