(* ===== verification/Deploy_Safety.thy ===== *)
theory Deploy_Safety
  imports Deploy_Facts
begin

text \<open>
  What an upgrade does to the running service: when it is undone the predecessor serves again, and nothing
  but the drained predecessor is ever signalled.
\<close>

section \<open>An upgrade that is undone\<close>

fun is_control :: "host_call \<Rightarrow> bool" where
  "is_control (Control verb route hs data) = True"
| "is_control _ = False"

text \<open>
  The last calls released the drain and asked for the health, and the last looks showed the captured
  process alive with the identity it had, accepting requests.
\<close>

definition reopened :: "host_env \<Rightarrow> owned_process \<Rightarrow> jdict \<Rightarrow> host \<Rightarrow> bool" where
  "reopened env p current w \<longleftrightarrow>
     (\<exists>n r. h_looks w = Suc (Suc n) \<and> health_at env n r \<and> alive_in p (ps_at env (Suc n) (op_pid p))
        \<and> same_source p (Some r) current \<and> jget r ''accepting'' = JBool True \<and> jget r ''draining'' = JBool False)
     \<and> (\<exists>cs hs data hs'. h_calls w = cs @ [Control ''DELETE'' ''/control/drain'' hs data, Control ''GET'' ''/healthz'' hs' []])"

lemma read_runtime_run:
  assumes "read_runtime env ctx w = (r, w')"
  shows "h_looks w' = Suc (h_looks w)
    \<and> (\<exists>hs. h_calls w' = h_calls w @ [Control ''GET'' ''/healthz'' hs []])
    \<and> (r = Inr (Some d) \<longrightarrow> health_at env (h_looks w) d)"
proof -
  obtain t reply where h: "http_at env (h_looks w) ''GET'' ''/healthz'' [] = (t, reply)" by fastforce
  from assms show ?thesis
    by (auto simp: read_runtime_def host_runs h act_raise_def health_at_def split: http_reply.splits if_splits sum.splits json.splits)
qed

lemma control_call_run:
  assumes "control_call env label n verb route hs data w = (r, w')"
  shows "h_calls w' = h_calls w @ [Control verb route hs data]"
proof -
  obtain t reply where h: "http_at env (h_looks w) verb route data = (t, reply)" by fastforce
  from assms show ?thesis
    by (cases reply) (auto simp: control_call_def host_runs h act_raise_def act_lift_def split: if_splits)
qed

lemma captured_source_run:
  "runtime_is_captured_source env p runtime source w =
     (Inr (alive_in p (ps_at env (h_looks w) (op_pid p)) \<and> same_source p runtime source), w\<lparr>h_looks := Suc (h_looks w)\<rparr>)"
  by (simp add: runtime_is_captured_source_def owned_process_alive_def host_runs)

lemma resumed_reopened:
  assumes "resume_responses env p current (read_runtime env ctx) w = (Inr True, w')"
  shows "reopened env p current w'"
proof -
  from assms obtain w0 where
      "release_drain env p current (read_runtime env ctx) w0 = (Inr True, w')"
    by (auto simp: resume_responses_def returns split: if_splits)
  then obtain answer w2 u w3 after w4 still where
      released: "control_call env ''drain release'' 200 ''DELETE'' ''/control/drain'' [(''Accept'', ''application/json'')] [] w0 = (Inr answer, w2)"
    and checked: "drain_answer False ''drain release did not reopen Responses admission'' answer w2 = (Inr u, w3)"
    and read: "read_runtime env ctx w3 = (Inr after, w4)"
    and last: "runtime_is_captured_source env p after current w4 = (Inr still, w')"
      "case after of Some r \<Rightarrow> still \<and> jget r ''accepting'' = JBool True \<and> jget r ''draining'' = JBool False | None \<Rightarrow> False"
    unfolding release_drain_def act_then_run act_bind_run act_return_run by blast
  have "w3 = w2" using checked by (cases answer) (auto simp: drain_answer_def returns split: if_splits)
  moreover obtain r where r: "after = Some r" using last(2) by (cases after) auto
  ultimately show ?thesis
    using last read_runtime_run [OF read, of r] control_call_run [OF released]
    by (auto simp: reopened_def captured_source_run)
qed

definition live :: "string set" where
  "live = {''materialized'', ''activated'', ''finalized'', ''recovery_required''}"

text \<open>How an upgrade that began in \<open>w\<close> may end.\<close>

definition settled_since :: "host_env \<Rightarrow> owned_process \<Rightarrow> jdict \<Rightarrow> host \<Rightarrow> host \<times> payload_transaction \<Rightarrow> bool" where
  "settled_since env p current w s \<longleftrightarrow>
     h_calls (fst s) = h_calls w \<or> tx_state (snd s) \<in> live \<or> since is_control w (fst s) \<and> reopened env p current (fst s)"

lemma commit_materializes: "commit_projection env s = (Inr x, s') \<Longrightarrow> tx_state (snd s') = ''materialized''"
proof -
  have written: "tx_state (snd v) = tx_state (snd u)" if "write_tx_journal env a b u = (r, v)" for u v a b r
    using that by (cases u) (auto simp: write_tx_journal_def with_tx_def on_disk_def split: prod.splits)
  have set: "tx_state (snd v) = st" if "set_state st u = (r, v)" for u v st r
    using that by (cases u) (auto simp: set_state_def act_modify_def)
  have prepared: "tx_state (snd v) = ''materialized''" if "prepare_materialization env u = (Inr True, v)" for u v
    using that by (cases u) (auto simp: prepare_materialization_def with_tx_def returns split: if_splits dest!: written set)
  have made: "tx_state (snd v) = ''materialized''" if "materialize env u = (Inr y, v)" for u v y
    using that by (cases u) (auto simp: materialize_def with_tx_def returns split: if_splits prod.splits dest!: written set)
  assume "commit_projection env s = (Inr x, s')"
  then show ?thesis
    by (cases s) (auto simp: commit_projection_def with_tx_def on_failure_def returns split: if_splits
        dest!: act_catch_run dest: prepared made)
qed

lemma on_payload_calls: "on_payload m s = (r, s') \<Longrightarrow> h_calls (fst s') = h_calls (fst s) \<and> h_looks (fst s') = h_looks (fst s)"
  by (drule on_payload_run) auto

lemma on_payload_method:
  "on_payload (tx_method env c) s = (r, s') \<Longrightarrow> tx_state (snd s') \<in> tx_moves c (tx_state (snd s))"
  by (cases s; cases s') (auto dest!: on_payload_run intro: method_moves)

lemma preserve_live: "preserve env reason s = (r, s') \<Longrightarrow> tx_state (snd s) \<in> live \<Longrightarrow> tx_state (snd s') \<in> live"
  using on_payload_method [of "life env" "Preserve reason" s r s'] by (auto simp: preserve_def live_def split: if_splits)

lemma reopened_files: "reopened env p current w' \<Longrightarrow> h_calls v = h_calls w' \<Longrightarrow> h_looks v = h_looks w' \<Longrightarrow> reopened env p current v"
  by (simp add: reopened_def)

lemma undo_settles:
  assumes "undo env s = (r, s')" "h_calls (fst s) = h_calls w \<or> since is_control w (fst s) \<and> reopened env p current (fst s)"
  shows "settled_since env p current w s'"
  using assms on_payload_calls [of "rollback_transaction (life env)" s r s']
  by (auto simp: undo_def settled_since_def since_def reopened_def)

lemma act_then_fails: "act_then m n s = (Inl e, s') \<longleftrightarrow> m s = (Inl e, s') \<or> (\<exists>x s1. m s = (Inr x, s1) \<and> n s1 = (Inl e, s'))"
  by (auto simp: act_then_def act_bind_def split: prod.splits sum.splits)

lemma act_bind_fails: "act_bind m f s = (Inl e, s') \<longleftrightarrow> m s = (Inl e, s') \<or> (\<exists>x s1. m s = (Inr x, s1) \<and> f x s1 = (Inl e, s'))"
  by (auto simp: act_bind_def split: prod.splits sum.splits)

lemma guarded_fails: "guarded h m s = (Inl e, s') \<Longrightarrow> \<exists>x s1. m s = (Inl x, s1) \<and> h x s1 = (Inl e, s')"
  by (auto simp: guarded_def act_catch_def split: prod.splits sum.splits)

lemma on_host_fails: "on_host m s = (Inl e, s') \<longleftrightarrow> m (fst s) = (Inl e, fst s') \<and> snd s' = snd s"
  by (cases s; cases s') (auto simp: on_host_def split: prod.splits)

text \<open>Restoring the predecessor's admission: it is open again, or the transaction is preserved.\<close>

lemma restore_admission_settles:
  assumes "restore_admission env ctx current p (read_runtime env) e s = (r, s')" "tx_state (snd s) \<in> live" "since is_control w (fst s)"
  shows "(case r of Inr _ \<Rightarrow> since is_control w (fst s') \<and> reopened env p current (fst s') | Inl _ \<Rightarrow> tx_state (snd s') \<in> live)"
proof -
  let ?resume = "act_bind (on_host (resume_responses env p current (read_runtime env ctx))) (\<lambda>resumed.
          if resumed then act_return ()
          else act_raise (install_error ''predecessor listener no longer owns Responses admission''))"
  obtain q s1 where m: "?resume s = (q, s1)" by (cases "?resume s") blast
  have state: "snd s1 = snd s"
    using m by (auto simp: act_bind_def on_host_def act_return_def act_raise_def split: prod.splits sum.splits if_splits)
  show ?thesis
  proof (cases q)
    case (Inr x)
    then have "resume_responses env p current (read_runtime env ctx) (fst s) = (Inr True, fst s1)"
      using m by (auto simp: returns split: if_splits)
    moreover have "emits is_control (resume_responses env p current (read_runtime env ctx))"
      by (intro emitting) (auto elim: is_get.elims)
    ultimately have "since is_control w (fst s1)" "reopened env p current (fst s1)"
      using assms(3) by (blast intro: since_trans emitsD resumed_reopened)+
    with assms(1) m Inr show ?thesis by (auto simp: restore_admission_def act_catch_def)
  next
    case (Inl x)
    with assms(1) m obtain reason u where "act_then (preserve env reason) (act_raise u) s1 = (r, s')"
      by (auto simp: restore_admission_def act_catch_def Let_def)
    with state assms(2) show ?thesis
      by (cases r) (auto simp: act_then_fails act_raise_def returns dest: preserve_live)
  qed
qed

lemma upgrade_failed_settles:
  assumes "upgrade_failed env ctx current p (read_runtime env) shut committed e s = (Inl x :: 'a res, s')" "tx_state (snd s) \<in> live"
    and "is_unknown_outcome e \<or> committed \<or> (if shut then since is_control w (fst s) else h_calls (fst s) = h_calls w)"
  shows "settled_since env p current w s'"
proof -
  consider (kept) "is_unknown_outcome e \<or> committed" | (undone) "\<not> is_unknown_outcome e" "\<not> committed" by blast
  then show ?thesis
  proof cases
    case kept
    then have "tx_state (snd s') \<in> live"
      using assms(1,2) by (auto simp: upgrade_failed_def act_then_fails act_raise_def act_catch_def split: if_splits prod.splits sum.splits
          dest: preserve_live)
    then show ?thesis by (simp add: settled_since_def)
  next
    case undone
    then have run: "act_then (if shut then restore_admission env ctx current p (read_runtime env) e else act_return ())
             (act_then (undo env) (act_raise e)) s = (Inl x :: 'a res, s')"
      using assms(1) by (cases shut) (simp_all add: upgrade_failed_def)
    have undone_ends: "settled_since env p current w s'"
      if "act_then (undo env) (act_raise e) s1 = (Inl x :: 'a res, s')"
        "h_calls (fst s1) = h_calls w \<or> since is_control w (fst s1) \<and> reopened env p current (fst s1)" for s1
      using that by (auto simp: act_then_fails act_raise_def intro: undo_settles)
    show ?thesis
    proof (cases shut)
      case False
      with run have "act_then (undo env) (act_raise e) s = (Inl x :: 'a res, s')"
        by (simp add: act_then_eq [of "act_return ()" s "()" s] act_return_def)
      with False undone assms(3) show ?thesis by (auto intro: undone_ends)
    next
      case True
      with assms(3) undone have calls: "since is_control w (fst s)" by simp
      from run True consider (stuck) "restore_admission env ctx current p (read_runtime env) e s = (Inl x, s')"
        | (resumed) y s1 where "restore_admission env ctx current p (read_runtime env) e s = (Inr y, s1)"
            "act_then (undo env) (act_raise e) s1 = (Inl x :: 'a res, s')"
        by (auto simp: act_then_fails [of "restore_admission a b c d e' f" for a b c d e' f])
      then show ?thesis
      proof cases
        case stuck
        from restore_admission_settles [OF stuck assms(2) calls] show ?thesis by (simp add: settled_since_def)
      next
        case resumed
        from restore_admission_settles [OF resumed(1) assms(2) calls] show ?thesis by (simp add: undone_ends [OF resumed(2)])
      qed
    qed
  qed
qed

text \<open>Looking and signalling never raise, so once the predecessor is signalled every failure is an unknown outcome.\<close>

definition sure :: "'a host_act \<Rightarrow> bool" where
  "sure m \<longleftrightarrow> (\<forall>w. \<exists>x w'. m w = (Inr x, w'))"

lemma sure_bind: "sure m \<Longrightarrow> (\<And>x. sure (f x)) \<Longrightarrow> sure (act_bind m f)"
  unfolding sure_def by (metis act_bind_eq)

lemma sure_then: "sure m \<Longrightarrow> sure n \<Longrightarrow> sure (act_then m n)"
  unfolding act_then_def by (rule sure_bind)

lemma sure_basic: "sure (act_return x)" "sure (look f)" "sure (called c)" "sure (elapse t)"
  by (simp_all add: sure_def host_runs)

lemma sure_cases:
  "sure m \<Longrightarrow> sure n \<Longrightarrow> sure (if b then m else n)" "sure m \<Longrightarrow> (\<And>y. sure (f y)) \<Longrightarrow> sure (case v of None \<Rightarrow> m | Some y \<Rightarrow> f y)"
  by (auto split: option.splits)

lemma sure_sum: "(\<And>a. sure (f a)) \<Longrightarrow> (\<And>b. sure (g b)) \<Longrightarrow> sure (case s of Inl a \<Rightarrow> f a | Inr b \<Rightarrow> g b)"
  by (cases s) auto

lemma sure_prod: "(\<And>a b. sure (f a b)) \<Longrightarrow> sure (case q of (a, b) \<Rightarrow> f a b)"
  by (cases q) auto

lemma terminate_sure: "sure (terminate_owned_process env p timeout)"
  unfolding terminate_owned_process_def after_error_def timed_out_process_is_gone_def end_process_def
  by (intro sure_bind sure_then sure_basic sure_cases sure_sum sure_prod)

lemma replace_native_unknown:
  assumes "replace_native_generation env ctx expected p reader timeout w = (Inl e, w')"
  shows "is_unknown_outcome e"
proof -
  obtain gone w1 where "terminate_owned_process env p timeout w = (Inr gone, w1)" using terminate_sure by (meson sure_def)
  with assms show ?thesis
    by (auto simp: replace_native_generation_def act_bind_def [of "terminate_owned_process a b c" for a b c] act_raise_def act_catch_def
        unknown_outcome_def split: if_splits prod.splits sum.splits)
qed

lemma guarded_settles:
  fixes m :: "'a deploy"
  assumes "\<And>s x s1. P s \<Longrightarrow> m s = (Inr x, s1) \<Longrightarrow> Q x s1"
    and "\<And>s e s1. P s \<Longrightarrow> m s = (Inl e, s1) \<Longrightarrow> tx_state (snd s1) \<in> live \<and>
           (is_unknown_outcome e \<or> committed \<or> (if shut then since is_control w (fst s1) else h_calls (fst s1) = h_calls w))"
  shows "valid P (guarded (upgrade_failed env ctx current p (read_runtime env) shut committed) m) Q (settled_since env p current w)"
  unfolding valid_def
proof (intro allI impI)
  fix s assume P: "P s"
  let ?run = "guarded (upgrade_failed env ctx current p (read_runtime env) shut committed) m s"
  obtain r s' where run: "?run = (r, s')" by (cases ?run) blast
  show "case ?run of (Inr x, s') \<Rightarrow> Q x s' | (Inl e, s') \<Rightarrow> settled_since env p current w s'"
  proof (cases r)
    case (Inl x)
    with run have "?run = (Inl x, s')" by simp
    from guarded_fails [OF this] obtain e s1 where m: "m s = (Inl e, s1)"
      and h: "upgrade_failed env ctx current p (read_runtime env) shut committed e s1 = (Inl x :: 'a res, s')" by blast
    have "settled_since env p current w s'" by (rule upgrade_failed_settles [OF h]) (use assms(2) [OF P m] in blast)+
    with run Inl show ?thesis by simp
  next
    case (Inr x)
    with run have "m s = (Inr x, s')" by (simp add: guarded_run)
    with assms(1) [OF P] run Inr show ?thesis by simp
  qed
qed

text \<open>How far an upgrade has come: the predecessor is untouched or only its drain was asked for.\<close>

definition asked :: "bool \<Rightarrow> host \<Rightarrow> host \<times> payload_transaction \<Rightarrow> bool" where
  "asked shut w s \<longleftrightarrow> (if shut then since is_control w (fst s) else h_calls (fst s) = h_calls w \<and> h_looks w \<le> h_looks (fst s))"

lemma asked_since: "asked shut w s \<Longrightarrow> since is_control w (fst s)"
  by (auto simp: asked_def since_def split: if_splits)

lemma on_payload_asked: "on_payload m s = (r, s') \<Longrightarrow> asked shut w s \<Longrightarrow> asked shut w s'"
  using on_payload_calls [of m s r s'] by (auto simp: asked_def since_def)

lemma on_host_since: "emits is_control m \<Longrightarrow> on_host m s = (r, s') \<Longrightarrow> since is_control w (fst s) \<Longrightarrow> since is_control w (fst s')"
  using emitsD [of is_control m "fst s" r "fst s'"] by (auto simp: on_host_def split: prod.splits intro: since_trans)

lemma on_host_state: "on_host m s = (r, s') \<Longrightarrow> snd s' = snd s"
  by (auto simp: on_host_def split: prod.splits)

lemma reading_is_control: "emits is_control (read_runtime env ctx)"
  by (rule read_runtime_emits) (auto elim: is_get.elims)

lemma drain_step:
  "valid (\<lambda>s. asked False w s \<and> tx_state (snd s) \<in> live)
     (guarded (upgrade_failed env ctx current p (read_runtime env) True False)
        (if native then on_host (drain_responses env p current (read_runtime env c) timeout) else act_return ()))
     (\<lambda>_ s. asked native w s \<and> tx_state (snd s) \<in> live) (settled_since env p current w)"
proof (rule guarded_settles)
  have drain: "emits is_control (drain_responses env p current (read_runtime env c) timeout)"
    by (intro drain_emits reading_is_control) simp
  let ?m = "if native then on_host (drain_responses env p current (read_runtime env c) timeout) else act_return ()"
  have step: "asked native w s1 \<and> snd s1 = snd s" if "asked False w s" "?m s = (x, s1)" for s x s1
    using that on_host_since [OF drain, of s _ s1 w] asked_since [of False w s]
    by (auto simp: asked_def act_return_def dest: on_host_state split: if_splits)
  fix s s1 assume P: "asked False w s \<and> tx_state (snd s) \<in> live"
  { fix x assume "?m s = (Inr x, s1)" with P step [of s "Inr x" s1] show "asked native w s1 \<and> tx_state (snd s1) \<in> live" by simp }
  { fix e assume "?m s = (Inl e, s1)"
    with P step [of s "Inl e" s1] show "tx_state (snd s1) \<in> live \<and> (is_unknown_outcome e \<or> False \<or> (if True then since is_control w (fst s1) else h_calls (fst s1) = h_calls w))"
      by (auto dest: asked_since) }
qed

lemma live_moves: "on_payload (tx_method env c) s = (r, s') \<Longrightarrow> c = Activate \<or> c = Finalize d \<Longrightarrow> tx_state (snd s) \<in> live \<Longrightarrow> tx_state (snd s') \<in> live"
  using on_payload_method [of env c s r s'] by (auto simp: live_def split: if_splits)

lemma activate_step:
  "valid (\<lambda>s. asked native w s \<and> tx_state (snd s) \<in> live)
     (guarded (upgrade_failed env ctx current p (read_runtime env) native False) (on_payload (activate (life env))))
     (\<lambda>_ s. asked native w s \<and> tx_state (snd s) \<in> live) (settled_since env p current w)"
proof (rule guarded_settles)
  have step: "asked native w s1 \<and> tx_state (snd s1) \<in> live"
    if "asked native w s \<and> tx_state (snd s) \<in> live" "on_payload (activate (life env)) s = (r, s1)" for s r s1
    using that live_moves [of "life env" Activate s r s1] on_payload_asked [OF that(2)] by simp
  fix s s1 assume P: "asked native w s \<and> tx_state (snd s) \<in> live"
  { fix x assume "on_payload (activate (life env)) s = (Inr x, s1)"
    from step [OF P this] show "asked native w s1 \<and> tx_state (snd s1) \<in> live" . }
  { fix e assume "on_payload (activate (life env)) s = (Inl e, s1)"
    from step [OF P this] show "tx_state (snd s1) \<in> live \<and>
        (is_unknown_outcome e \<or> False \<or> (if native then since is_control w (fst s1) else h_calls (fst s1) = h_calls w))"
      by (auto simp: asked_def split: if_splits) }
qed

lemma request_handoff_emits: "emits is_control (request_handoff env ctx expected current p (read_runtime env) timeout)"
  unfolding request_handoff_def by (intro emitting reading_is_control) (auto intro!: emitting reading_is_control split: resolution.splits if_splits)

lemma replace_step:
  "valid (\<lambda>s. asked native w s \<and> tx_state (snd s) \<in> live)
     (guarded (upgrade_failed env ctx current p (read_runtime env) True False)
        (act_bind (expected_of env) (\<lambda>expected. on_host
           (if native then replace_native_generation env c expected p (read_runtime env) timeout
            else request_handoff env c expected current p (read_runtime env) timeout))))
     (\<lambda>_ s. tx_state (snd s) \<in> live) (settled_since env p current w)"
proof (rule guarded_settles)
  let ?do = "\<lambda>expected. if native then replace_native_generation env c expected p (read_runtime env) timeout
            else request_handoff env c expected current p (read_runtime env) timeout"
  let ?m = "act_bind (expected_of env) (\<lambda>expected. on_host (?do expected))"
  fix s s1 assume P: "asked native w s \<and> tx_state (snd s) \<in> live"
  { fix x assume "?m s = (Inr x, s1)"
    then have "snd s1 = snd s" by (auto simp: act_bind_run expected_of_run dest: on_host_state)
    with P show "tx_state (snd s1) \<in> live" by simp }
  { fix e assume "?m s = (Inl e, s1)"
    then consider "s1 = s" | expected where "on_host (?do expected) s = (Inl e, s1)"
      unfolding act_bind_fails expected_of_run by (auto simp: expected_of_def with_payload_def act_lift_def split: prod.splits)
    then have "snd s1 = snd s \<and> (is_unknown_outcome e \<or> since is_control w (fst s1))"
    proof cases
      case 1 with P show ?thesis by (auto dest: asked_since)
    next
      case 2
      show ?thesis
      proof (cases native)
        case True with 2 show ?thesis by (auto simp: on_host_fails dest: replace_native_unknown)
      next
        case False
        with 2 P on_host_since [OF request_handoff_emits, of env c expected current p timeout s "Inl e" s1 w] show ?thesis
          by (auto dest: asked_since on_host_state)
      qed
    qed
    with P show "tx_state (snd s1) \<in> live \<and> (is_unknown_outcome e \<or> False \<or> (if True then since is_control w (fst s1) else h_calls (fst s1) = h_calls w))"
      by simp }
qed

lemma rebind_step:
  "valid (\<lambda>s. tx_state (snd s) \<in> live) (guarded (upgrade_failed env ctx current p (read_runtime env) True True) (if native then act_return () else on_host m))
     (\<lambda>_ s. tx_state (snd s) \<in> live) (settled_since env p current w)"
  by (rule guarded_settles) (auto simp: act_return_def dest: on_host_state split: if_splits)

lemma valid_with_payload: "(\<And>t. valid P (f t) Q E) \<Longrightarrow> valid P (with_payload f) Q E"
  by (auto simp: valid_def with_payload_def split: prod.splits)

lemma commit_step:
  "valid (\<lambda>s. fst s = w) (on_payload (commit_projection (life env)))
     (\<lambda>_ s. asked False w s \<and> tx_state (snd s) \<in> live) (settled_since env p current w)"
proof -
  have "asked False w s' \<and> tx_state (snd s') \<in> live" if "on_payload (commit_projection (life env)) s = (Inr x, s')" "fst s = w" for s x s'
    using that on_payload_run [OF that(1)] by (auto simp: asked_def live_def dest: commit_materializes)
  moreover have "settled_since env p current w s'" if "on_payload (commit_projection (life env)) s = (Inl e, s')" "fst s = w" for s e s'
    using that on_payload_calls [OF that(1)] by (simp add: settled_since_def)
  ultimately show ?thesis unfolding valid_def by (auto split: prod.splits sum.splits)
qed

lemma finalize_step:
  "valid (\<lambda>s. tx_state (snd s) \<in> live) (act_then (on_payload (finalize (life env) r)) (act_return d))
     (\<lambda>_. settled_since env p current w) (settled_since env p current w)"
proof -
  have "settled_since env p current w s'" if "on_payload (finalize (life env) r) s = (x, s')" "tx_state (snd s) \<in> live" for s x s'
    using that live_moves [of "life env" "Finalize r" s x s' r] by (simp add: settled_since_def)
  then have "valid (\<lambda>s. tx_state (snd s) \<in> live) (on_payload (finalize (life env) r)) (\<lambda>_. settled_since env p current w) (settled_since env p current w)"
    unfolding valid_def by (auto split: prod.splits sum.splits)
  then show ?thesis by (rule valid_then) (rule valid_return)
qed

text \<open>
  Claim C11.  An upgrade that touched the running service and is undone leaves the service as it was: when any
  request other than the projection of files was made and the transaction is rolled back, then nothing
  but control requests was sent (no process was signalled, the supervisor was not called), the last of
  them released the drain and read the health, and the last looks at the host showed the captured
  predecessor alive, with the identity it had, accepting requests and not draining.
\<close>

theorem undone_upgrade_reopens:
  "case upgrade env ctx current p native (read_runtime env) timeout (w, t) of
     (r, (w', t')) \<Rightarrow> h_calls w' = h_calls w \<or> tx_state t' \<in> live \<or> since is_control w w' \<and> reopened env p current w'"
proof -
  have "valid (\<lambda>s. fst s = w) (upgrade env ctx current p native (read_runtime env) timeout)
      (\<lambda>_. settled_since env p current w) (settled_since env p current w)"
    unfolding upgrade_def Let_def
    by (intro valid_then [OF commit_step] valid_with_payload valid_then [OF drain_step] valid_then [OF activate_step]
        valid_bind [OF replace_step] valid_then [OF rebind_step] finalize_step)
  then show ?thesis unfolding valid_def settled_since_def by (drule_tac spec [of _ "(w, t)"]) (auto split: prod.splits sum.splits)
qed

section \<open>Who is signalled, and when\<close>

fun is_signal :: "host_call \<Rightarrow> bool" where
  "is_signal (Signal q) = True"
| "is_signal _ = False"

abbreviation unsignalled :: "host \<Rightarrow> host \<Rightarrow> bool" where
  "unsignalled \<equiv> since (\<lambda>c. \<not> is_signal c)"

lemma reading_unsignalled: "emits (\<lambda>c. \<not> is_signal c) (read_runtime env ctx)"
  by (rule read_runtime_emits) (auto elim: is_get.elims)

text \<open>The same for actions of a deployment.\<close>

definition deploys :: "(host_call \<Rightarrow> bool) \<Rightarrow> 'a deploy \<Rightarrow> bool" where
  "deploys P m \<longleftrightarrow> (\<forall>s r s'. m s = (r, s') \<longrightarrow> since P (fst s) (fst s'))"

lemma deploysD: "deploys P m \<Longrightarrow> m s = (r, s') \<Longrightarrow> since P (fst s) (fst s')"
  unfolding deploys_def by blast

named_theorems deploying \<open>which calls a step of a deployment can make\<close>

lemma deploys_basic [deploying]:
  "deploys P (act_return x)" "deploys P (act_raise e)" "deploys P (expected_of env)"
  by (auto simp: deploys_def act_return_def act_raise_def expected_of_def with_payload_def act_lift_def since_refl)

lemma deploys_on_payload [deploying]: "deploys P (on_payload m)"
  by (auto simp: deploys_def since_def dest!: on_payload_calls)

lemma deploys_on_host [deploying]: "emits P m \<Longrightarrow> deploys P (on_host m)"
  by (auto simp: deploys_def on_host_def dest: emitsD split: prod.splits)

lemma deploys_with_payload [deploying]: "(\<And>t. deploys P (f t)) \<Longrightarrow> deploys P (with_payload f)"
  by (auto simp: deploys_def with_payload_def)

lemma deploys_bind [deploying]: "deploys P m \<Longrightarrow> (\<And>x. deploys P (f x)) \<Longrightarrow> deploys P (act_bind m f)"
  unfolding deploys_def act_bind_def
  by (auto split: prod.splits sum.splits) (metis fst_conv since_trans)+

lemma deploys_then [deploying]: "deploys P m \<Longrightarrow> deploys P n \<Longrightarrow> deploys P (act_then m n)"
  unfolding act_then_def by (rule deploys_bind)

lemma deploys_if [deploying]: "(b \<Longrightarrow> deploys P m) \<Longrightarrow> (\<not> b \<Longrightarrow> deploys P n) \<Longrightarrow> deploys P (if b then m else n)"
  by simp

lemma deploys_catch: "deploys P m \<Longrightarrow> (\<And>e a. h e = Some a \<Longrightarrow> deploys P a) \<Longrightarrow> deploys P (act_catch m h)"
  unfolding deploys_def act_catch_def
  by (auto split: prod.splits sum.splits option.splits) (metis fst_conv since_trans)+

lemma deploys_handled [deploying]:
  "deploys P m \<Longrightarrow> (\<And>e. deploys P (g e)) \<Longrightarrow> deploys P (act_catch m (\<lambda>e. if b e then Some (g e) else None))"
  by (rule deploys_catch) (auto split: if_splits)

lemma deploys_guarded [deploying]: "deploys P m \<Longrightarrow> (\<And>e. deploys P (h e)) \<Longrightarrow> deploys P (guarded h m)"
  unfolding guarded_def by (rule deploys_catch) auto

lemma restore_admission_unsignalled: "deploys (\<lambda>c. \<not> is_signal c) (restore_admission env ctx current p (read_runtime env) e)"
  unfolding restore_admission_def Let_def guarded_def [symmetric] preserve_def
  by (intro deploying emitting reading_unsignalled) simp

lemma upgrade_failed_unsignalled:
  "deploys (\<lambda>c. \<not> is_signal c) (upgrade_failed env ctx current p (read_runtime env) shut committed e)"
  unfolding upgrade_failed_def undo_def preserve_def by (intro deploying restore_admission_unsignalled)

text \<open>Ending the captured process signals it at most once.\<close>

lemma end_process_calls:
  assumes "end_process env pid timeout w = (r, w')"
  shows "h_calls w' = h_calls w @ [Signal pid] \<and> h_looks w \<le> h_looks w'"
  using assms by (auto simp: end_process_def host_runs split: if_splits prod.splits)

lemma after_error_calls: "after_error env p e w = (r, w') \<Longrightarrow> h_calls w' = h_calls w \<and> h_looks w \<le> h_looks w'"
  by (auto simp: after_error_def timed_out_process_is_gone_def host_runs split: if_splits)

lemma terminate_calls:
  assumes "terminate_owned_process env p timeout w = (r, w')"
  shows "h_looks w \<le> h_looks w' \<and> (h_calls w' = h_calls w \<or> h_calls w' = h_calls w @ [Signal (op_pid p)])"
proof -
  obtain q w1 where e: "end_process env (op_pid p) timeout (w\<lparr>h_looks := Suc (h_looks w)\<rparr>) = (q, w1)" by fastforce
  show ?thesis
    using assms end_process_calls [OF e]
    by (auto simp: terminate_owned_process_def act_bind_def look_def act_return_def e split: sum.splits if_splits option.splits dest!: after_error_calls)
qed

definition drained_seen :: "host_env \<Rightarrow> owned_process \<Rightarrow> jdict \<Rightarrow> host \<Rightarrow> host \<Rightarrow> bool" where
  "drained_seen env p current w w' \<longleftrightarrow> (\<exists>r. seen env w w' r \<and> same_source p (Some r) current \<and> is_drained r)"

lemma drained_seen_more:
  "drained_seen env p current u v \<Longrightarrow> h_looks w \<le> h_looks u \<Longrightarrow> h_looks v \<le> h_looks w' \<Longrightarrow> drained_seen env p current w w'"
  unfolding drained_seen_def by (blast intro: seen_more)

lemma drain_round_drained:
  assumes "drain_round env p current (read_runtime env c) w = (Inr (Some x), w')"
  shows "drained_seen env p current w w'"
proof -
  from assms obtain r w1 where read: "read_runtime env c w = (Inr (Some r), w1)" and r: "is_drained r"
    and src: "unless_source env p (Some r) current ''predecessor changed while draining active Responses'' w1 = (Inr (), w')"
    by (auto simp: drain_round_def returns split: option.splits if_splits)
  from src have "same_source p (Some r) current" by (auto simp: unless_source_def captured_source_run returns split: if_splits)
  moreover have "seen env w w' r" using read_runtime_seen [OF read] looksD [OF looking_more(7) src] by (auto elim: seen_more)
  ultimately show ?thesis using r by (auto simp: drained_seen_def)
qed

lemma drain_drained:
  assumes "drain_responses env p current (read_runtime env c) timeout w = (Inr x, w')"
  shows "drained_seen env p current w w'"
proof -
  from assms obtain a w1 b w2 answer w3 d w4 y where 1: "read_runtime env c w = (Inr a, w1)"
    "unless_source env p a current (no_longer_active p) w1 = (Inr b, w2)"
    "control_call env ''drain control'' 200 ''POST'' ''/control/drain'' [(''Accept'', ''application/json''), drain_lease_header timeout] [] w2 = (Inr answer, w3)"
    "drain_answer True ''drain control did not close Responses admission'' answer w3 = (Inr d, w4)"
    and poll: "poll_until (h_clock w4 + timeout) (drain_round env p current (read_runtime env c)) w4 = (Inr (Some y), w')"
    by (auto simp: drain_responses_def returns monotonic_run split: if_splits)
  have "h_looks w \<le> h_looks w4"
    using looksD [OF get_always 1(1)] looksD [OF looking_more(7) 1(2)] looksD [OF control_call_emits 1(3), of "\<lambda>_. True"]
      looksD [OF drain_answer_emits 1(4)] by simp
  moreover obtain w5 where "since (\<lambda>_. True) w4 w5" "drain_round env p current (read_runtime env c) w5 = (Inr (Some y), w')"
    using poll_found [OF drain_round_emits [OF get_always] poll] by blast
  ultimately show ?thesis
    using drain_round_drained [of env p current c w5 y w'] by (auto simp: since_def elim: drained_seen_more)
qed

definition signals :: "host \<Rightarrow> host \<Rightarrow> host_call list" where
  "signals w w' = filter is_signal (drop (length (h_calls w)) (h_calls w'))"

lemma unsignalled_none: "unsignalled w w' \<Longrightarrow> signals w w' = []"
  by (auto simp: since_def signals_def list_all_iff filter_empty_conv)

lemma signals_later: "unsignalled w' v \<Longrightarrow> h_calls w' = h_calls w @ new \<Longrightarrow> signals w v = signals w w'"
  by (auto simp: since_def signals_def list_all_iff filter_empty_conv)

text \<open>No process is signalled, or the captured one, once, after it was seen to be drained.\<close>

definition signalled_drained :: "host_env \<Rightarrow> owned_process \<Rightarrow> jdict \<Rightarrow> bool \<Rightarrow> host \<Rightarrow> host \<Rightarrow> bool" where
  "signalled_drained env p current native w w' \<longleftrightarrow> h_looks w \<le> h_looks w' \<and> (\<exists>new. h_calls w' = h_calls w @ new) \<and>
     (signals w w' = [] \<or> native \<and> signals w w' = [Signal (op_pid p)] \<and> drained_seen env p current w w')"

lemma signalled_more: "signalled_drained env p current native w w' \<Longrightarrow> unsignalled w' v \<Longrightarrow> signalled_drained env p current native w v"
  using signals_later [of w' v w] drained_seen_more [of env p current w w' w v]
  by (auto simp: signalled_drained_def since_def)

lemma signalled_start: "unsignalled w w' \<Longrightarrow> signalled_drained env p current native w w'"
  using unsignalled_none [of w w'] by (auto simp: signalled_drained_def since_def)

abbreviation sound :: "host_env \<Rightarrow> owned_process \<Rightarrow> jdict \<Rightarrow> bool \<Rightarrow> host \<Rightarrow> host \<times> payload_transaction \<Rightarrow> bool" where
  "sound env p current native w \<equiv> \<lambda>s. signalled_drained env p current native w (fst s)"

lemma deploys_sound:
  assumes "deploys (\<lambda>c. \<not> is_signal c) m"
  shows "valid (sound env p current native w) m (\<lambda>_. sound env p current native w) (sound env p current native w)"
  unfolding valid_def using deploysD [OF assms] signalled_more by (fastforce split: prod.splits sum.splits)

lemma replace_sound:
  "valid (\<lambda>s. unsignalled w (fst s) \<and> drained_seen env p current w (fst s))
     (on_host (replace_native_generation env c expected p (read_runtime env) timeout))
     (\<lambda>_. sound env p current True w) (sound env p current True w)"
proof -
  let ?rest = "act_catch (act_bind (on_files (control_context (life env) c)) (\<lambda>control.
               act_then (bind_control_supervisor env control)
                 (wait_for_serving_runtime env c expected (read_runtime env c) timeout (Some (op_pid p)))))
              (\<lambda>e. Some (act_raise (unknown_outcome ''native successor startup is unconfirmed after predecessor exit'')))"
  have rest: "emits (\<lambda>c. \<not> is_signal c) ?rest" by (intro emitting) (auto elim: is_get.elims intro: emitting)
  have "signalled_drained env p current True w w'"
    if start: "unsignalled w u" "drained_seen env p current w u"
      and run: "replace_native_generation env c expected p (read_runtime env) timeout u = (r, w')" for u r w'
  proof -
    obtain gone u1 where t: "terminate_owned_process env p timeout u = (Inr gone, u1)" using terminate_sure by (meson sure_def)
    from terminate_calls [OF t] start have "signalled_drained env p current True w u1"
      by (auto simp: signalled_drained_def since_def signals_def list_all_iff filter_empty_conv elim: drained_seen_more)
    moreover have "unsignalled u1 w'"
      using run t emitsD [OF rest] by (auto simp: replace_native_generation_def act_bind_def [of "terminate_owned_process a b c" for a b c]
          act_raise_def since_refl split: if_splits)
    ultimately show ?thesis by (rule signalled_more)
  qed
  then show ?thesis unfolding valid_def by (auto simp: on_host_def split: prod.splits sum.splits)
qed

text \<open>A guarded step of an upgrade: what it guarantees, and that whatever raised in it left the host sound.\<close>

lemma raises_valid:
  assumes "always_raises m" "valid P m R E"
  shows "valid P m Q E"
  unfolding valid_def
proof (intro allI impI)
  fix s assume P: "P s"
  obtain r s' where m: "m s = (r, s')" by (cases "m s") blast
  moreover have "r \<noteq> Inr x" for x using assms(1) m unfolding always_raises_def by blast
  then obtain e where "r = Inl e" by (cases r) auto
  ultimately show "case m s of (Inr x, s') \<Rightarrow> Q x s' | (Inl e, s') \<Rightarrow> E s'" using validD(2) [OF assms(2) P] by simp
qed

lemma guarded_sound:
  assumes "valid P m Q (sound env p current native w)"
  shows "valid P (guarded (upgrade_failed env ctx current q (read_runtime env) shut committed) m) Q (sound env p current native w)"
  unfolding guarded_def
  by (rule valid_catch_all [OF assms])
    (intro exI conjI, rule refl, rule raises_valid [OF failed_raises(2) deploys_sound [OF upgrade_failed_unsignalled]])

lemma drain_sound:
  "valid (\<lambda>s. unsignalled w (fst s)) (if native then on_host (drain_responses env p current (read_runtime env c) timeout) else act_return ())
     (\<lambda>_ s. unsignalled w (fst s) \<and> (if native then drained_seen env p current w (fst s) else True)) (sound env p current native w)"
proof -
  have "emits (\<lambda>c. \<not> is_signal c) (drain_responses env p current (read_runtime env c) timeout)"
    by (intro drain_emits reading_unsignalled) simp
  note u = emitsD [OF this]
  have "unsignalled w w'" if "unsignalled w v" "drain_responses env p current (read_runtime env c) timeout v = (r, w')" for v r w'
    using that u by (blast intro: since_trans)
  moreover have "drained_seen env p current w w'"
    if "unsignalled w v" "drain_responses env p current (read_runtime env c) timeout v = (Inr x, w')" for v x w'
    using drain_drained [OF that(2)] that(1) by (auto simp: since_def elim: drained_seen_more)
  ultimately show ?thesis
    unfolding valid_def by (auto simp: on_host_def act_return_def intro: signalled_start split: prod.splits sum.splits)
qed

lemma kept_sound:
  assumes "deploys (\<lambda>c. \<not> is_signal c) m"
  shows "valid (\<lambda>s. unsignalled w (fst s) \<and> (if native then drained_seen env p current w (fst s) else True)) m
     (\<lambda>_ s. unsignalled w (fst s) \<and> (if native then drained_seen env p current w (fst s) else True)) (sound env p current native w)"
proof -
  have "unsignalled w v' \<and> (if native then drained_seen env p current w v' else True)"
    if "m s = (r, s')" "v = fst s" "v' = fst s'" "unsignalled w v" "if native then drained_seen env p current w v else True" for s r s' v v'
    using deploysD [OF assms that(1)] that(2-5)
    by (auto intro: since_trans elim!: drained_seen_more split: if_splits simp: since_def)
  then show ?thesis unfolding valid_def by (fastforce intro: signalled_start split: prod.splits sum.splits)
qed

text \<open>
  Claim C12.  An upgrade signals no process at all, or only the captured predecessor, and this once, only
  when the runtime cannot hand over by itself, and only after its health endpoint had shown the same
  payload with its admission closed and no response and no other handler active.
\<close>

theorem upgrade_signals_drained:
  "case upgrade env ctx current p native (read_runtime env) timeout (w, t) of
     (r, (w', t')) \<Rightarrow> signals w w' = [] \<or> native \<and> signals w w' = [Signal (op_pid p)] \<and> drained_seen env p current w w'"
proof -
  let ?D = "\<lambda>s :: host \<times> payload_transaction. unsignalled w (fst s) \<and> (if native then drained_seen env p current w (fst s) else True)"
  let ?G = "sound env p current native w"
  have commit: "valid (\<lambda>s. fst s = w) (on_payload (commit_projection (life env))) (\<lambda>_ s. unsignalled w (fst s)) ?G"
    using deploysD [OF deploys_on_payload [of _ "commit_projection (life env)"]]
    unfolding valid_def by (fastforce intro: signalled_start split: prod.splits sum.splits)
  have handoff: "deploys (\<lambda>c. \<not> is_signal c) (on_host (request_handoff env c expected current p (read_runtime env) timeout))" for c expected
    by (rule deploys_on_host, rule emits_mono [OF request_handoff_emits]) (auto elim: is_control.elims)
  have replace: "valid ?D (on_host (if native then replace_native_generation env c expected p (read_runtime env) timeout
            else request_handoff env c expected current p (read_runtime env) timeout)) (\<lambda>_. ?G) ?G" for c expected
    using replace_sound [of w env p current c expected timeout]
    by (cases native) (auto intro: valid_conseq [OF deploys_sound [OF handoff]] signalled_start)
  have bind: "deploys (\<lambda>c. \<not> is_signal c) (if native then act_return ()
      else on_host (act_bind (on_files (control_context (life env) ctx)) (bind_control_supervisor env)))"
    by (intro deploying emitting) simp
  have "valid (\<lambda>s. fst s = w) (upgrade env ctx current p native (read_runtime env) timeout) (\<lambda>_. ?G) ?G"
    unfolding upgrade_def Let_def
    by (intro valid_then [OF commit] valid_with_payload valid_then [OF guarded_sound [OF drain_sound]]
        valid_then [OF guarded_sound [OF kept_sound [OF deploys_on_payload]]]
        valid_bind [OF guarded_sound [OF valid_bind [OF kept_sound [OF deploys_basic(3)] replace]]]
        valid_then [OF guarded_sound [OF deploys_sound [OF bind]]] deploys_sound deploying)
  then show ?thesis unfolding valid_def signalled_drained_def
    by (drule_tac spec [of _ "(w, t)"]) (auto split: prod.splits sum.splits)
qed

end
