(* ===== verification/Control.thy ===== *)
theory Control
  imports Deploy
begin

text \<open>
  \<open>lifecycle/control.py\<close> and \<open>lifecycle/uninstall.py\<close>: what a user asks of an installation.  The status is read
  from files, processes, the service manager and the health endpoint without changing any of them;
  reload, recovery, rollback and removal act on the installation.
\<close>

section \<open>Errors\<close>

definition DISPLAY_NAME :: string where
  "DISPLAY_NAME = ''OpenAI Responses Proxy''"

definition unsupported_platform :: py_exc where
  "unsupported_platform = OtherError ''UnsupportedPlatformError''"

definition recovery_required :: "string \<Rightarrow> py_exc" where
  "recovery_required m = InstallError Recovery_required m"

definition rollback_state :: "string \<Rightarrow> py_exc" where
  "rollback_state m = InstallError Rollback_state m"

definition transaction_evidence_invalid :: py_exc where
  "transaction_evidence_invalid = recovery_state ''payload transaction evidence is invalid; preserve it for diagnosis''"

section \<open>Reading the status\<close>

definition observed_installed :: "host_env \<Rightarrow> runtime_context \<Rightarrow> (jdict option \<times> string option) host_act" where
  "observed_installed env ctx =
     act_catch (act_bind (on_files (read_installed (life env) ctx)) (\<lambda>i. act_return (i, None)))
       (\<lambda>e. if is_install_error e then Some (act_return (None, Some (error_text e))) else None)"

definition observed_integrity :: "host_env \<Rightarrow> runtime_context \<Rightarrow> (bool \<times> string) host_act" where
  "observed_integrity env ctx =
     act_catch (on_files (verify_payload_manifest (life env) ctx))
       (\<lambda>e. if is_install_error e then Some (act_return (False, error_text e)) else None)"

definition observed_service :: "host_env \<Rightarrow> runtime_context \<Rightarrow> string host_act" where
  "observed_service env ctx =
     act_catch (native_status env ctx)
       (\<lambda>e. if is_os_failure e \<or> is_install_error e \<or> e = unsupported_platform then Some (act_return ''unknown'') else None)"

fun int_pid :: "jdict option \<Rightarrow> int option" where
  "int_pid (Some r) = (case jget r ''pid'' of JInt i \<Rightarrow> Some i | _ \<Rightarrow> None)"
| "int_pid None = None"

definition runtime_process :: "host_env \<Rightarrow> runtime_context \<Rightarrow> jdict option \<Rightarrow> owned_process option host_act" where
  "runtime_process env ctx runtime =
     (case int_pid runtime of
        Some pid \<Rightarrow> capture_executable env pid (executable ctx) (Some LISTENER_ROLES)
      | None \<Rightarrow> act_return None)"

definition installed_matches :: "runtime_context \<Rightarrow> jdict option \<Rightarrow> loaded_payload option \<Rightarrow> payload_selection option \<Rightarrow> bool" where
  "installed_matches ctx installed committed selection \<longleftrightarrow>
     (case (installed, committed) of
        (Some d, Some p) \<Rightarrow>
          jget d ''version'' = JStr (lp_release p) \<and> jget d ''receipt_sha256'' = JStr (lp_receipt_sha256 p)
          \<and> jget d ''command'' = JStr (command ctx)
          \<and> (case selection of None \<Rightarrow> True | Some s \<Rightarrow> jget d ''transaction_id'' = JStr (active s))
      | _ \<Rightarrow> False)"

definition runtime_matches_committed :: "jdict option \<Rightarrow> loaded_payload option \<Rightarrow> bool" where
  "runtime_matches_committed runtime committed \<longleftrightarrow>
     (case (runtime, committed) of
        (Some r, Some p) \<Rightarrow> runtime_payload_matches r (handoff_fields p)
                           \<and> jget r ''accepting'' = JBool True \<and> jget r ''draining'' = JBool False
      | _ \<Rightarrow> False)"

text \<open>A runtime counts only with a process of this installation and the payload on disk.\<close>

definition proven_runtime :: "int list \<Rightarrow> jdict option \<Rightarrow> owned_process option \<Rightarrow> loaded_payload option \<Rightarrow> jdict option" where
  "proven_runtime listeners runtime captured committed =
     (case int_pid runtime of
        None \<Rightarrow> None
      | Some pid \<Rightarrow>
          if listeners \<noteq> [pid] \<and> captured = None \<or> \<not> runtime_matches_committed runtime committed then None else runtime)"

definition observed_runtime ::
    "host_env \<Rightarrow> runtime_context \<Rightarrow> bool \<Rightarrow> (string \<times> int list \<times> loaded_payload option \<times> jdict option) host_act" where
  "observed_runtime env ctx ok =
     act_bind (observed_service env ctx) (\<lambda>service.
     act_bind (verified_proxy_listener_pids env ctx) (\<lambda>listeners.
     act_bind (read_runtime env ctx) (\<lambda>runtime.
     act_bind (runtime_process env ctx runtime) (\<lambda>captured.
     act_bind (if ok then on_files (committed_payload (life env) (executable_path ctx)) else act_return None) (\<lambda>committed.
       act_return (service, listeners, committed, proven_runtime listeners runtime captured committed))))))"

definition control_executable :: "host_env \<Rightarrow> runtime_context \<Rightarrow> runtime_context \<Rightarrow> string host_act" where
  "control_executable env ctx selected =
     act_catch (act_bind (on_files (control_context (life env) ctx)) (\<lambda>c. act_return (executable c)))
       (\<lambda>e. if is_install_error e then Some (act_return (executable selected)) else None)"

definition rollback_evidence :: "host_env \<Rightarrow> runtime_context \<Rightarrow> jdict option \<Rightarrow> retained_evidence host_act" where
  "rollback_evidence env ctx pending =
     (if pending \<noteq> None
      then act_return \<lparr>re_state = ''deferred'', re_from = None, re_to = None,
                       re_detail = Some ''payload transaction owns rollback finalization''\<rparr>
      else on_files (retained_status (life env) ctx))"

definition no_root :: "runtime_context \<Rightarrow> bool host_act" where
  "no_root ctx = act_bind file_tree (\<lambda>fs. act_return (\<not> exists_at fs (install_path ctx) \<and> \<not> is_symlink fs (install_path ctx)))"

section \<open>The verdict\<close>

record status_facts =
  sf_installed :: "jdict option"
  sf_installed_error :: "string option"
  sf_integrity_ok :: bool
  sf_integrity_detail :: string
  sf_service :: string
  sf_listeners :: "int list"
  sf_runtime :: "jdict option"
  sf_matches :: bool
  sf_command :: jdict
  sf_transaction :: "jdict option"
  sf_rollback :: "retained_evidence option"
  sf_no_root :: bool

definition is_absent :: "status_facts \<Rightarrow> bool" where
  "is_absent f \<longleftrightarrow>
     sf_installed f = None \<and> sf_no_root f \<and> sf_service f = ''absent'' \<and> sf_listeners f = [] \<and> sf_runtime f = None
     \<and> sf_transaction f = None \<and> jget (sf_command f) ''state'' = JStr ''absent''"

definition degraded_detail :: "status_facts \<Rightarrow> string" where
  "degraded_detail f =
     (if \<not> sf_integrity_ok f then sf_integrity_detail f
      else if sf_installed f \<noteq> None \<and> \<not> sf_matches f then ''installed release state does not match selected payload''
      else if sf_service f \<noteq> ''running'' then ''native service is '' @ sf_service f
      else if sf_runtime f = None then ''listener runtime identity is unavailable''
      else if jget (sf_command f) ''state'' \<noteq> JStr ''owned'' then ''native command ownership is unavailable''
      else ''installation is degraded'')"

text \<open>\<open>str(payload_transaction["detail"])\<close>, which \<open>state.status\<close> gives as a text.\<close>

definition detail_text :: "jdict \<Rightarrow> string" where
  "detail_text d = (case jget d ''detail'' of JStr s \<Rightarrow> s | _ \<Rightarrow> [])"

definition verdict :: "status_facts \<Rightarrow> string \<times> string" where
  "verdict f =
     (let pending = (\<lambda>states. case sf_transaction f of None \<Rightarrow> False | Some d \<Rightarrow> in_state d states) in
      if sf_installed_error f \<noteq> None then (''invalid'', the (sf_installed_error f))
      else if pending [''invalid''] then (''invalid'', detail_text (the (sf_transaction f)))
      else if (case sf_rollback f of None \<Rightarrow> False | Some e \<Rightarrow> re_state e = ''invalid'')
      then (''invalid'', case re_detail (the (sf_rollback f)) of
                           None \<Rightarrow> ''selected rollback predecessor is invalid''
                         | Some m \<Rightarrow> if m = [] then ''selected rollback predecessor is invalid'' else m)
      else if is_absent f then (''not_installed'', ''not installed'')
      else if sf_integrity_ok f \<and> sf_matches f \<and> sf_service f = ''running'' \<and> sf_runtime f \<noteq> None
              \<and> jget (sf_command f) ''state'' = JStr ''owned'' \<and> sf_transaction f = None
      then (''running'', ''healthy'')
      else if pending ([''prepared'', ''materialized'', ''activated'', ''recovery_required''] @ TERMINAL_STATES)
      then (''recovery_required'', if pending TERMINAL_STATES then ''payload cleanup is required'' else ''payload recovery is required'')
      else (''degraded'', degraded_detail f))"

definition optional_obj :: "jdict option \<Rightarrow> json" where
  "optional_obj d = (case d of None \<Rightarrow> JNull | Some x \<Rightarrow> JObj x)"

definition rollback_fields :: "retained_evidence \<Rightarrow> jdict" where
  "rollback_fields e =
     (''state'', JStr (re_state e)) # optional_field ''from_release'' (re_from e) @ optional_field ''to_release'' (re_to e)
     @ optional_field ''detail'' (re_detail e)"

definition evidence_of :: "status_facts \<Rightarrow> string option \<Rightarrow> jdict" where
  "evidence_of f release =
     (case verdict f of (state, detail) \<Rightarrow>
        [(''state'', JStr state), (''detail'', JStr detail), (''release'', case release of None \<Rightarrow> JNull | Some v \<Rightarrow> JStr v),
         (''command'', JObj (sf_command f)),
         (''payload_integrity'', JObj [(''ok'', JBool (sf_integrity_ok f)),
            (''detail'', JStr (if state = ''not_installed'' then ''not installed'' else sf_integrity_detail f))]),
         (''service'', JStr (sf_service f)), (''listener_pids'', JArr (map JInt (sf_listeners f))),
         (''runtime'', optional_obj (sf_runtime f)), (''payload_transaction'', optional_obj (sf_transaction f))]
        @ (case sf_rollback f of None \<Rightarrow> [] | Some e \<Rightarrow> [(''rollback'', JObj (rollback_fields e))]))"

text \<open>The second half of \<open>status\<close>: from what was read of release, payload and runtime to the evidence.\<close>

definition status_evidence ::
    "host_env \<Rightarrow> runtime_context \<Rightarrow> bool \<Rightarrow> runtime_context \<Rightarrow> jdict option \<times> string option \<Rightarrow> bool \<times> string
     \<Rightarrow> string \<times> int list \<times> loaded_payload option \<times> jdict option \<Rightarrow> jdict host_act" where
  "status_evidence env ctx include_rollback selected = (\<lambda>(installed, installed_error) (ok, detail) (service, listeners, committed, runtime).
     act_bind (on_files (read_selection (life env) ctx)) (\<lambda>selection.
     act_bind (case installed of None \<Rightarrow> act_return (command selected) | Some d \<Rightarrow> act_lift (require_command d)) (\<lambda>installed_command.
     act_bind (control_executable env ctx selected) (\<lambda>control.
     act_bind file_tree (\<lambda>fs.
     act_bind (on_files (status (life env) ctx)) (\<lambda>pending.
     act_bind (if include_rollback then act_bind (rollback_evidence env ctx pending) (\<lambda>e. act_return (Some e)) else act_return None) (\<lambda>retained.
     act_bind (no_root ctx) (\<lambda>rootless.
     act_bind (case installed of None \<Rightarrow> act_return None
               | Some d \<Rightarrow> act_bind (act_lift (require_version d)) (\<lambda>v. act_return (Some v))) (\<lambda>release.
       act_return (evidence_of
         \<lparr>sf_installed = installed, sf_installed_error = installed_error, sf_integrity_ok = ok, sf_integrity_detail = detail,
          sf_service = service, sf_listeners = listeners, sf_runtime = runtime,
          sf_matches = installed_matches ctx installed committed selection,
          sf_command = command_state fs (path_of installed_command) (path_of control), sf_transaction = pending,
          sf_rollback = retained, sf_no_root = rootless\<rparr> release))))))))))"

definition control_status :: "host_env \<Rightarrow> runtime_context \<Rightarrow> bool \<Rightarrow> jdict host_act" where
  "control_status env ctx include_rollback =
     act_bind (on_files (selected_context (life env) ctx)) (\<lambda>selected.
     act_bind (observed_installed env ctx) (\<lambda>installed.
     act_bind (observed_integrity env selected) (\<lambda>integrity.
     act_bind (observed_runtime env selected (fst integrity)) (\<lambda>running.
       status_evidence env ctx include_rollback selected installed integrity running))))"

section \<open>Reloading\<close>

text \<open>
  \<open>handoff.expected_metadata\<close>: the identity of the payload on disk, for a new transaction.  As in the manifest
  check, a manifest that is not UTF-8 raises an exception that is not caught.
\<close>

definition metadata_unavailable :: py_exc where
  "metadata_unavailable = install_error ''payload files are unavailable for a handoff transaction''"

definition expected_metadata :: "lifecycle_env \<Rightarrow> path \<Rightarrow> jdict io" where
  "expected_metadata env base =
     (let manifest_path = base @ [MANIFEST_FILENAME] in
      act_bind (act_catch
        (act_bind (read_bytes manifest_path) (\<lambda>content.
         act_bind (act_lift (loads (lpy env) content)) (\<lambda>v.
           case v of
             JObj manifest \<Rightarrow>
               if has_key manifest ''release'' \<and> has_key manifest ''serving_payload_sha256'' \<and> has_key manifest ''release_receipt_sha256''
               then act_bind (sha256_file env manifest_path) (\<lambda>sha. act_return (manifest, sha))
               else act_raise metadata_unavailable
           | _ \<Rightarrow> act_raise metadata_unavailable)))
        (\<lambda>e. if is_read_failure e \<and> e \<noteq> UnicodeError then Some (act_raise metadata_unavailable) else None)) (\<lambda>(manifest, sha).
      if \<not> nonempty_text (jget manifest ''release'') then act_raise (install_error ''payload manifest has no release version'')
      else if \<not> sha256_value (jget manifest ''serving_payload_sha256'')
      then act_raise (install_error ''payload manifest has no valid serving identity'')
      else if \<not> sha256_value (jget manifest ''release_receipt_sha256'')
      then act_raise (install_error ''payload manifest has no valid release receipt identity'')
      else act_bind new_identifier (\<lambda>n. act_return
             [(''transaction_id'', JStr (uuid_hex env n)), (''release'', jget manifest ''release''),
              (''serving_payload_sha256'', jget manifest ''serving_payload_sha256''),
              (''release_receipt_sha256'', jget manifest ''release_receipt_sha256''), (''manifest_sha256'', JStr sha)])))"

definition refuse_pending :: "host_env \<Rightarrow> runtime_context \<Rightarrow> string \<Rightarrow> unit host_act" where
  "refuse_pending env ctx message =
     act_bind (on_files (status (life env) ctx)) (\<lambda>pending.
       case pending of
         None \<Rightarrow> act_return ()
       | Some d \<Rightarrow> act_raise (if in_state d [''invalid''] then transaction_evidence_invalid else recovery_required message))"

definition reloaded_after_failure :: "jdict \<Rightarrow> jdict \<Rightarrow> jdict \<Rightarrow> jdict" where
  "reloaded_after_failure old successor expected =
     [(''state'', JStr ''reloaded''), (''old_pid'', jget old ''pid''), (''new_pid'', jget successor ''pid''),
      (''transaction_id'', jget expected ''transaction_id''), (''recovered_after_controller_failure'', JBool True)]"

definition handed_reload :: "host_env \<Rightarrow> runtime_context \<Rightarrow> jdict \<Rightarrow> jdict \<Rightarrow> owned_process \<Rightarrow> rat \<Rightarrow> jdict host_act" where
  "handed_reload env ctx runtime expected p timeout =
     act_catch
       (act_bind (request_rollout env ctx expected p runtime (read_runtime env ctx) timeout (max 1 timeout)) (\<lambda>result.
          act_return [(''state'', JStr ''reloaded''), (''old_pid'', jget result ''old_pid''), (''new_pid'', jget result ''child_pid'')]))
       (\<lambda>e. Some
          (act_bind
             (act_catch (resolve_after_controller_failure env ctx runtime expected p (read_runtime env ctx) timeout (max 1 timeout))
                (\<lambda>x. if is_os_failure x \<or> is_install_error x then Some (act_return Unresolved) else None)) (\<lambda>outcome.
             case outcome of
               Resolved_finalized successor \<Rightarrow> act_return (reloaded_after_failure runtime successor expected)
             | Unresolved \<Rightarrow>
                 act_raise (install_error ''reload handoff outcome is unconfirmed; inspect transaction-bound listener health'')
             | Resolved_rolled_back _ \<Rightarrow> act_raise e)))"

definition reload_service :: "host_env \<Rightarrow> runtime_context \<Rightarrow> rat \<Rightarrow> jdict host_act" where
  "reload_service env ctx timeout =
     act_bind (on_files (read_installed (life env) ctx)) (\<lambda>installed.
     act_bind (no_root ctx) (\<lambda>rootless.
     if installed = None \<and> rootless then act_raise (InstallError Not_installed (DISPLAY_NAME @ '' is not installed''))
     else act_then (refuse_pending env ctx ''complete payload recovery before reloading'')
    (act_bind (read_runtime env ctx) (\<lambda>runtime.
     case runtime of
       None \<Rightarrow> act_raise (install_error ''installed runtime is not healthy enough to reload'')
     | Some r \<Rightarrow>
         if \<not> runtime_supports_handoff runtime then act_raise (install_error ''installed runtime is not healthy enough to reload'')
         else act_bind (on_files (verify_payload_manifest (life env) ctx)) (\<lambda>(ok, detail).
              if \<not> ok then act_raise (install_error (''payload integrity check failed before handoff reload: '' @ detail))
              else act_bind (on_files (expected_metadata (life env) (payload_path ctx))) (\<lambda>expected.
                   act_bind (capture_source_listener env ctx r) (\<lambda>p.
                     handed_reload env ctx r expected p timeout)))))))"

section \<open>Removal\<close>

text \<open>\<open>{selected.executable: selected for selected in contexts}.values()\<close>: the first place, the last value.\<close>

definition unique_contexts :: "runtime_context list \<Rightarrow> runtime_context list" where
  "unique_contexts contexts = map snd (fold (\<lambda>c. AList.update (executable c) c) contexts [])"

fun stop_each :: "host_env \<Rightarrow> runtime_context list \<Rightarrow> nat host_act" where
  "stop_each env [] = act_return 0"
| "stop_each env (c # cs) = act_bind (terminate_runtime env c 5) (\<lambda>n. act_bind (stop_each env cs) (\<lambda>m. act_return (n + m)))"

definition stop_proxy :: "host_env \<Rightarrow> runtime_context \<Rightarrow> nat host_act" where
  "stop_proxy env ctx =
     act_bind (on_files (owned_contexts ctx)) (\<lambda>owned. stop_each env (unique_contexts (owned @ [ctx])))"

definition remove_service :: "host_env \<Rightarrow> runtime_context \<Rightarrow> unit host_act" where
  "remove_service env ctx =
     act_then (supervise env Service_uninstall ctx)
    (act_bind (native_status env ctx) (\<lambda>state.
       if state = ''absent'' then act_return () else act_raise (install_error (''watchdog service remains '' @ state))))"

definition removal_result :: "string \<Rightarrow> nat \<Rightarrow> bool \<Rightarrow> jdict" where
  "removal_result state stopped command_removed =
     [(''state'', JStr state), (''stopped'', JInt (int stopped)), (''command_removed'', JBool command_removed)]"

definition finish_purge :: "host_env \<Rightarrow> runtime_context \<Rightarrow> jdict host_act" where
  "finish_purge env ctx =
     act_then (remove_service env ctx)
    (act_bind (stop_proxy env ctx) (\<lambda>stopped.
     act_bind (on_files (recover (life env) ctx None (\<lambda>_. act_return ()))) (\<lambda>result.
       act_return (AList.update ''command_removed'' (JBool False) (AList.update ''stopped'' (JInt (int stopped)) result)))))"

definition remove_installation :: "host_env \<Rightarrow> runtime_context \<Rightarrow> bool \<Rightarrow> path \<Rightarrow> path \<Rightarrow> jdict host_act" where
  "remove_installation env ctx purging cmd target =
     act_then (remove_service env ctx)
    (act_bind (stop_proxy env ctx) (\<lambda>stopped.
     act_bind (on_files (remove_command cmd target)) (\<lambda>command_removed.
     act_then (if purging then act_then (on_files (purge (life env) ctx)) (act_return ()) else act_return ())
       (act_return (removal_result (if purging then ''purged'' else ''uninstalled'') stopped command_removed)))))"

definition uninstall_product :: "host_env \<Rightarrow> runtime_context \<Rightarrow> bool \<Rightarrow> jdict host_act" where
  "uninstall_product env ctx purging =
     act_bind (on_files (status (life env) ctx)) (\<lambda>pending.
     case pending of
       Some d \<Rightarrow>
         if purging \<and> in_state d [''purged''] then finish_purge env ctx
         else act_raise (if in_state d [''invalid''] then transaction_evidence_invalid
                         else recovery_required ''complete payload recovery before uninstalling'')
     | None \<Rightarrow>
         act_bind (on_files (read_installed (life env) ctx)) (\<lambda>installed.
         act_bind (case installed of None \<Rightarrow> act_return (command ctx) | Some d \<Rightarrow> act_lift (require_command d)) (\<lambda>cmd.
         act_bind (on_files (control_context (life env) ctx)) (\<lambda>control.
         act_bind file_tree (\<lambda>fs.
         act_bind (native_status env ctx) (\<lambda>service.
         act_bind (verified_proxy_listener_pids env ctx) (\<lambda>listeners.
         act_bind (no_root ctx) (\<lambda>rootless.
           if installed = None \<and> rootless \<and> service = ''absent'' \<and> listeners = []
              \<and> jget (command_state fs (path_of cmd) (executable_path control)) ''state'' = JStr ''absent''
           then act_return (removal_result ''not_installed'' 0 False)
           else remove_installation env ctx purging (path_of cmd) (executable_path control)))))))))"

section \<open>Recovery and rollback\<close>

text \<open>
  \<open>bind_terminal\<close>, with what the service manager does and reports from the look it is called at.  It is called inside
  the recovery of files, so its request is not in the record of calls.
\<close>

definition bind_terminal :: "host_env \<Rightarrow> nat \<Rightarrow> runtime_context \<Rightarrow> unit io" where
  "bind_terminal env n control =
     act_then (act_lift (service_done env n Service_install control))
    (act_bind (act_lift (service_configured env (Suc n) control)) (\<lambda>configured. with_fs (\<lambda>fs.
       let unproved = recovery_state ''payload recovery cannot close before native supervisor identity is proved'' in
       case configured of
         None \<Rightarrow> act_raise unproved
       | Some c \<Rightarrow> if normalized_path env fs c = normalized_path env fs (executable control) then act_return () else act_raise unproved)))"

definition recover_installation :: "host_env \<Rightarrow> runtime_context \<Rightarrow> jdict host_act" where
  "recover_installation env ctx =
     act_bind (on_files (status (life env) ctx)) (\<lambda>pending.
       if (case pending of None \<Rightarrow> False | Some d \<Rightarrow> in_state d [''purged'']) then uninstall_product env ctx True
       else act_bind (read_runtime env ctx) (\<lambda>runtime.
            act_bind (look (\<lambda>n. n)) (\<lambda>n.
            act_then (look (\<lambda>_. ()))
              (on_files (recover (life env) ctx runtime (bind_terminal env n))))))"

definition as_rollback_state :: "'a io \<Rightarrow> 'a io" where
  "as_rollback_state m = act_catch m (\<lambda>e. if is_install_error e then Some (act_raise (rollback_state (error_text e))) else None)"

definition proven_unchanged :: "jdict \<Rightarrow> string \<Rightarrow> jdict \<Rightarrow> loaded_payload option \<Rightarrow> payload_selection option \<Rightarrow> bool" where
  "proven_unchanged observed to_release installed committed selection \<longleftrightarrow>
     jget observed ''state'' = JStr ''running'' \<and> jget observed ''release'' = JStr to_release
     \<and> (case committed of None \<Rightarrow> False
        | Some p \<Rightarrow> lp_release p = to_release \<and> jget installed ''receipt_sha256'' = JStr (lp_receipt_sha256 p))
     \<and> (case selection of None \<Rightarrow> True | Some s \<Rightarrow> jget installed ''transaction_id'' = JStr (active s))"

text \<open>What is installed, its committed identity and the selection.\<close>

definition active_evidence ::
    "lifecycle_env \<Rightarrow> runtime_context \<Rightarrow> (jdict \<times> loaded_payload option \<times> payload_selection option) option io" where
  "active_evidence env ctx =
     act_bind (read_installed env ctx) (\<lambda>installed.
       case installed of
         None \<Rightarrow> act_return None
       | Some d \<Rightarrow>
           act_bind (selected_context env ctx) (\<lambda>selected.
           act_bind (committed_payload env (executable_path selected)) (\<lambda>committed.
           act_bind (read_selection env ctx) (\<lambda>selection. act_return (Some (d, committed, selection))))))"

definition to_retained :: "host_env \<Rightarrow> runtime_context \<Rightarrow> string \<Rightarrow> rat \<Rightarrow> jdict host_act" where
  "to_retained env ctx to_release timeout =
     act_bind (on_files (as_rollback_state (load_retained_or_none (life env) ctx))) (\<lambda>retained.
       case retained of
         None \<Rightarrow> act_return [(''state'', JStr ''unavailable''), (''detail'', JStr ''no verified predecessor is retained'')]
       | Some x \<Rightarrow>
           if lp_release (rr_predecessor x) \<noteq> to_release
           then act_raise (rollback_state (''requested release '' @ to_release @ '' is not the verified predecessor''))
           else rollback_release env ctx x (read_runtime env) timeout)"

definition control_rollback :: "host_env \<Rightarrow> runtime_context \<Rightarrow> string \<Rightarrow> rat \<Rightarrow> jdict host_act" where
  "control_rollback env ctx to_release timeout =
     act_then (act_lift (res_catch is_install_error (version_key to_release) (\<lambda>_. Inl (rollback_state ''requested rollback release is invalid''))))
    (act_bind (on_files (status (life env) ctx)) (\<lambda>pending.
     if pending \<noteq> None then act_raise (recovery_required ''complete payload recovery before rollback'')
     else act_bind (on_files (as_rollback_state (active_evidence (life env) ctx))) (\<lambda>evidence.
       case evidence of
         None \<Rightarrow> to_retained env ctx to_release timeout
       | Some (installed, committed, selection) \<Rightarrow>
           act_bind (act_lift (require_version installed)) (\<lambda>v.
             if v = to_release
             then act_bind (control_status env ctx False) (\<lambda>observed.
                    if proven_unchanged observed to_release installed committed selection
                    then act_return [(''state'', JStr ''unchanged''), (''release'', JStr to_release)]
                    else act_raise (rollback_state ''requested rollback release is installed but not proven active''))
             else to_retained env ctx to_release timeout))))"

end
