(* ===== verification/Settings.thy ===== *)
theory Settings
  imports Control
begin

text \<open>
  \<open>runtime/config.py\<close>, \<open>runtime/process_environment.py\<close>, the reading side of \<open>lifecycle/runtime_spec.py\<close> and
  \<open>lifecycle/context.py\<close>: the settings of a process with their bounds, the carrier an installation keeps
  them in, the environment a new process gets, and the context of an operation.  Paths have the syntax
  of a POSIX host.
\<close>

section \<open>Names\<close>

definition ENVIRONMENT_PREFIX :: string where
  "ENVIRONMENT_PREFIX = ''OPENAI_RESPONSES_PROXY''"

definition environment_name :: "string \<Rightarrow> string" where
  "environment_name ending = ENVIRONMENT_PREFIX @ ''_'' @ ending"

definition HOME_ENV :: string where "HOME_ENV = environment_name ''HOME''"

definition STATE_HOME_ENV :: string where "STATE_HOME_ENV = environment_name ''STATE_HOME''"

definition PROXY_PORT_ENV :: string where "PROXY_PORT_ENV = environment_name ''PROXY_PORT''"

definition PROXY_LOG_ENV :: string where "PROXY_LOG_ENV = environment_name ''PROXY_LOG''"

definition WATCHDOG_LOG_ENV :: string where "WATCHDOG_LOG_ENV = environment_name ''WATCHDOG_LOG''"

definition PROXY_LOG_MAX_BYTES_ENV :: string where "PROXY_LOG_MAX_BYTES_ENV = environment_name ''PROXY_LOG_MAX_BYTES''"

definition PROXY_LOG_BACKUP_COUNT_ENV :: string where "PROXY_LOG_BACKUP_COUNT_ENV = environment_name ''PROXY_LOG_BACKUP_COUNT''"

definition WATCHDOG_LOG_MAX_BYTES_ENV :: string where "WATCHDOG_LOG_MAX_BYTES_ENV = environment_name ''WATCHDOG_LOG_MAX_BYTES''"

definition WATCHDOG_LOG_BACKUP_COUNT_ENV :: string where
  "WATCHDOG_LOG_BACKUP_COUNT_ENV = environment_name ''WATCHDOG_LOG_BACKUP_COUNT''"

definition UPSTREAM_TIMEOUT_ENV :: string where "UPSTREAM_TIMEOUT_ENV = environment_name ''UPSTREAM_TIMEOUT''"

definition UPSTREAM_READ_TIMEOUT_ENV :: string where "UPSTREAM_READ_TIMEOUT_ENV = environment_name ''UPSTREAM_READ_TIMEOUT''"

definition UPSTREAM_BASE_URL_ENV :: string where "UPSTREAM_BASE_URL_ENV = environment_name ''UPSTREAM_BASE_URL''"

definition WATCHDOG_INTERVAL_ENV :: string where "WATCHDOG_INTERVAL_ENV = environment_name ''WATCHDOG_INTERVAL''"

definition WATCHDOG_MAX_BACKOFF_ENV :: string where "WATCHDOG_MAX_BACKOFF_ENV = environment_name ''WATCHDOG_MAX_BACKOFF''"

definition RESPONSE_FAILED_COMPACTION_BUDGET_ENV :: string where
  "RESPONSE_FAILED_COMPACTION_BUDGET_ENV = environment_name ''RESPONSE_FAILED_COMPACTION_BUDGET''"

definition RESPONSE_FAILED_MAX_STAGES_ENV :: string where
  "RESPONSE_FAILED_MAX_STAGES_ENV = environment_name ''RESPONSE_FAILED_MAX_STAGES''"

definition RUNTIME_ENVIRONMENT :: "string list" where
  "RUNTIME_ENVIRONMENT =
     [HOME_ENV, STATE_HOME_ENV, PROXY_PORT_ENV, PROXY_LOG_ENV, WATCHDOG_LOG_ENV, PROXY_LOG_MAX_BYTES_ENV, PROXY_LOG_BACKUP_COUNT_ENV,
      WATCHDOG_LOG_MAX_BYTES_ENV, WATCHDOG_LOG_BACKUP_COUNT_ENV, UPSTREAM_TIMEOUT_ENV, UPSTREAM_READ_TIMEOUT_ENV, UPSTREAM_BASE_URL_ENV,
      WATCHDOG_INTERVAL_ENV, WATCHDOG_MAX_BACKOFF_ENV, RESPONSE_FAILED_COMPACTION_BUDGET_ENV, RESPONSE_FAILED_MAX_STAGES_ENV]"

definition DEFAULT_PORT :: int where "DEFAULT_PORT = 8792"

definition DEFAULT_PROXY_LOG_MAX_BYTES :: int where "DEFAULT_PROXY_LOG_MAX_BYTES = 4 * 1024 * 1024"

definition DEFAULT_PROXY_LOG_BACKUP_COUNT :: int where "DEFAULT_PROXY_LOG_BACKUP_COUNT = 3"

definition DEFAULT_WATCHDOG_LOG_MAX_BYTES :: int where "DEFAULT_WATCHDOG_LOG_MAX_BYTES = 512 * 1024"

definition DEFAULT_WATCHDOG_LOG_BACKUP_COUNT :: int where "DEFAULT_WATCHDOG_LOG_BACKUP_COUNT = 2"

definition DEFAULT_UPSTREAM_TIMEOUT :: rat where "DEFAULT_UPSTREAM_TIMEOUT = 900"

definition DEFAULT_UPSTREAM_READ_TIMEOUT :: rat where "DEFAULT_UPSTREAM_READ_TIMEOUT = 240"

definition DEFAULT_WATCHDOG_INTERVAL :: rat where "DEFAULT_WATCHDOG_INTERVAL = 15"

definition DEFAULT_WATCHDOG_MAX_BACKOFF :: rat where "DEFAULT_WATCHDOG_MAX_BACKOFF = 120"

definition DEFAULT_RESPONSE_FAILED_COMPACTION_BUDGET :: int where "DEFAULT_RESPONSE_FAILED_COMPACTION_BUDGET = 512 * 1024"

definition DEFAULT_RESPONSE_FAILED_MAX_STAGES :: int where "DEFAULT_RESPONSE_FAILED_MAX_STAGES = 3"

section \<open>The surroundings of a process\<close>

text \<open>
  The environment variables, \<open>os.path.expanduser\<close> of \<open>~\<close> and of a text, whether the host is macOS, the working
  directory, and what \<open>int\<close> and \<open>float\<close> make of a text; \<open>None\<close> stands for an exception and for a float
  that is not finite, which the settings treat alike.
\<close>

record system =
  environ :: "string dict"
  sys_home :: string
  expand_user :: "string \<Rightarrow> string"
  is_darwin :: bool
  working_dir :: path
  int_of_text :: "string \<Rightarrow> int option"
  finite_of_text :: "string \<Rightarrow> rat option"

definition setting :: "string dict \<Rightarrow> string \<Rightarrow> string" where
  "setting source name = (case map_of source name of None \<Rightarrow> [] | Some v \<Rightarrow> v)"

text \<open>\<open>PureWindowsPath(s).is_absolute()\<close>: a drive or two slashes, and a slash.\<close>

definition is_slash :: "char \<Rightarrow> bool" where
  "is_slash c \<longleftrightarrow> c = CHR ''/'' \<or> c = CHR 92"

fun windows_absolute :: "string \<Rightarrow> bool" where
  "windows_absolute (a # b # c # s) = (b = CHR '':'' \<and> is_slash c \<or> is_slash a \<and> is_slash b)"
| "windows_absolute [a, b] = (is_slash a \<and> is_slash b)"
| "windows_absolute _ = False"

definition absolute_value :: "string \<Rightarrow> bool" where
  "absolute_value s \<longleftrightarrow> is_absolute s \<or> windows_absolute s"

text \<open>\<open>os.path.abspath\<close> of a text that is not absolute, or of any.\<close>

definition abspath :: "system \<Rightarrow> string \<Rightarrow> string" where
  "abspath sys s = path_text (lexical [] (if is_absolute s then path_of s else working_dir sys @ path_of s))"

definition expand_home :: "system \<Rightarrow> string dict \<Rightarrow> string \<Rightarrow> string" where
  "expand_home sys source raw =
     (if raw = ''~'' \<or> starts_with ''~/'' raw \<or> starts_with [CHR ''~'', CHR 92] raw
      then let home = (if setting source ''HOME'' \<noteq> [] then setting source ''HOME''
                       else if setting source ''USERPROFILE'' \<noteq> [] then setting source ''USERPROFILE'' else sys_home sys)
           in if length raw > 1 then join_text home (map (\<lambda>c. if c = CHR 92 then CHR ''/'' else c) (drop 2 raw)) else home
      else raw)"

definition absolute_override :: "system \<Rightarrow> string dict \<Rightarrow> string \<Rightarrow> string option" where
  "absolute_override sys source name =
     (if setting source name = [] then None
      else let raw = expand_home sys source (setting source name) in
           Some (if absolute_value raw then raw else abspath sys raw))"

definition default_data_dir :: "system \<Rightarrow> string dict \<Rightarrow> string" where
  "default_data_dir sys source =
     (if is_darwin sys then foldl join_text (sys_home sys) [''Library'', ''Application Support'', PRODUCT_SLUG]
      else join_text (case map_of source ''XDG_DATA_HOME'' of Some b \<Rightarrow> b | None \<Rightarrow> foldl join_text (sys_home sys) [''.local'', ''share''])
             PRODUCT_SLUG)"

definition data_dir :: "system \<Rightarrow> string dict \<Rightarrow> string" where
  "data_dir sys source =
     (case absolute_override sys source HOME_ENV of Some d \<Rightarrow> d | None \<Rightarrow> default_data_dir sys source)"

definition state_dir :: "system \<Rightarrow> string dict \<Rightarrow> string" where
  "state_dir sys source =
     (case absolute_override sys source STATE_HOME_ENV of
        Some d \<Rightarrow> d
      | None \<Rightarrow>
          if is_darwin sys then foldl join_text (sys_home sys) [''Library'', ''Logs'', PRODUCT_SLUG]
          else join_text (case map_of source ''XDG_STATE_HOME'' of Some b \<Rightarrow> b | None \<Rightarrow> foldl join_text (sys_home sys) [''.local'', ''state''])
                 PRODUCT_SLUG)"

section \<open>Bounded settings\<close>

definition configuration_error :: "string \<Rightarrow> py_exc" where
  "configuration_error m = ValueError m"

definition integer_setting :: "system \<Rightarrow> string dict \<Rightarrow> string \<Rightarrow> int \<Rightarrow> int \<Rightarrow> int \<Rightarrow> int res" where
  "integer_setting sys source name fallback minimum maximum =
     (let bad = Inl (configuration_error (name @ '' must be an integer in '' @ int_text minimum @ ''..'' @ int_text maximum)) in
      case (case map_of source name of None \<Rightarrow> Some fallback | Some raw \<Rightarrow> int_of_text sys raw) of
        None \<Rightarrow> bad
      | Some v \<Rightarrow> if minimum \<le> v \<and> v \<le> maximum then Inr v else bad)"

text \<open>\<open>range\<close> is the text of the bounds in the \<open>:g\<close> format.\<close>

definition number_setting :: "system \<Rightarrow> string dict \<Rightarrow> string \<Rightarrow> rat \<Rightarrow> rat \<Rightarrow> rat \<Rightarrow> string \<Rightarrow> rat res" where
  "number_setting sys source name fallback minimum maximum range_text =
     (let bad = Inl (configuration_error (name @ '' must be a finite number in '' @ range_text)) in
      case (case map_of source name of None \<Rightarrow> Some fallback | Some raw \<Rightarrow> finite_of_text sys raw) of
        None \<Rightarrow> bad
      | Some v \<Rightarrow> if minimum \<le> v \<and> v \<le> maximum then Inr v else bad)"

record log_retention =
  log_file :: string
  log_max_bytes :: int
  log_backup_count :: int

record settings =
  st_host :: string
  st_port :: int
  st_proxy_log :: log_retention
  st_watchdog_log :: log_retention
  st_upstream_timeout :: rat
  st_upstream_read_timeout :: rat
  st_watchdog_interval :: rat
  st_watchdog_max_backoff :: rat
  st_compaction_budget :: int
  st_max_stages :: int

definition listener_host :: string where
  "listener_host = ''127.0.0.1''"

definition loopback_url :: "int \<Rightarrow> string \<Rightarrow> string" where
  "loopback_url p route = ''http://'' @ listener_host @ '':'' @ int_text p @ route"

definition listener_port :: "system \<Rightarrow> string dict \<Rightarrow> int res" where
  "listener_port sys source = integer_setting sys source PROXY_PORT_ENV DEFAULT_PORT 1 65535"

definition proxy_log_path :: "system \<Rightarrow> string dict \<Rightarrow> string" where
  "proxy_log_path sys source =
     (case map_of source PROXY_LOG_ENV of Some p \<Rightarrow> p | None \<Rightarrow> join_text (state_dir sys source) ''proxy.log'')"

definition watchdog_log_path :: "system \<Rightarrow> string dict \<Rightarrow> string" where
  "watchdog_log_path sys source =
     (case map_of source WATCHDOG_LOG_ENV of Some p \<Rightarrow> p | None \<Rightarrow> join_text (state_dir sys source) ''watchdog.log'')"

definition load_settings :: "system \<Rightarrow> string dict \<Rightarrow> settings res" where
  "load_settings sys source =
     res_bind (listener_port sys source) (\<lambda>p.
     res_bind (integer_setting sys source PROXY_LOG_MAX_BYTES_ENV DEFAULT_PROXY_LOG_MAX_BYTES (4 * 1024) (64 * 1024 * 1024)) (\<lambda>proxy_max.
     res_bind (integer_setting sys source PROXY_LOG_BACKUP_COUNT_ENV DEFAULT_PROXY_LOG_BACKUP_COUNT 0 10) (\<lambda>proxy_count.
     res_bind (integer_setting sys source WATCHDOG_LOG_MAX_BYTES_ENV DEFAULT_WATCHDOG_LOG_MAX_BYTES (4 * 1024) (64 * 1024 * 1024)) (\<lambda>watchdog_max.
     res_bind (integer_setting sys source WATCHDOG_LOG_BACKUP_COUNT_ENV DEFAULT_WATCHDOG_LOG_BACKUP_COUNT 0 10) (\<lambda>watchdog_count.
     res_bind (number_setting sys source UPSTREAM_TIMEOUT_ENV DEFAULT_UPSTREAM_TIMEOUT (1 / 1000) 3600 ''0.001..3600'') (\<lambda>timeout.
     res_bind (number_setting sys source UPSTREAM_READ_TIMEOUT_ENV DEFAULT_UPSTREAM_READ_TIMEOUT (1 / 1000) 3600 ''0.001..3600'') (\<lambda>read_timeout.
     res_bind (number_setting sys source WATCHDOG_INTERVAL_ENV DEFAULT_WATCHDOG_INTERVAL (1 / 10) 3600 ''0.1..3600'') (\<lambda>interval.
     res_bind (number_setting sys source WATCHDOG_MAX_BACKOFF_ENV DEFAULT_WATCHDOG_MAX_BACKOFF (1 / 10) 86400 ''0.1..86400'') (\<lambda>backoff.
     res_bind (integer_setting sys source RESPONSE_FAILED_COMPACTION_BUDGET_ENV DEFAULT_RESPONSE_FAILED_COMPACTION_BUDGET
                 (4 * 1024) (64 * 1024 * 1024)) (\<lambda>budget.
     res_bind (integer_setting sys source RESPONSE_FAILED_MAX_STAGES_ENV DEFAULT_RESPONSE_FAILED_MAX_STAGES 0 8) (\<lambda>stages.
       Inr \<lparr>st_host = listener_host, st_port = p,
            st_proxy_log = \<lparr>log_file = proxy_log_path sys source, log_max_bytes = proxy_max, log_backup_count = proxy_count\<rparr>,
            st_watchdog_log = \<lparr>log_file = watchdog_log_path sys source, log_max_bytes = watchdog_max, log_backup_count = watchdog_count\<rparr>,
            st_upstream_timeout = timeout, st_upstream_read_timeout = read_timeout, st_watchdog_interval = interval,
            st_watchdog_max_backoff = backoff, st_compaction_budget = budget, st_max_stages = stages\<rparr>)))))))))))"

section \<open>The carrier of an installation\<close>

definition SPEC_SCHEMA_VERSION :: int where "SPEC_SCHEMA_VERSION = 1"

definition SPEC_FIELDS :: "string list" where
  "SPEC_FIELDS =
     [''install_dir'', ''log_dir'', ''port'', ''proxy_log_max_bytes'', ''proxy_log_backup_count'', ''watchdog_log_max_bytes'',
      ''watchdog_log_backup_count'', ''upstream_timeout'', ''upstream_read_timeout'', ''watchdog_interval'', ''watchdog_max_backoff'',
      ''response_failed_compaction_budget'', ''response_failed_max_stages'']"

definition spec_path :: "runtime_context \<Rightarrow> path" where
  "spec_path ctx = payload_path ctx @ [RUNTIME_CONFIG_FILENAME]"

text \<open>\<open>str\<close> of a parsed value; of a list or an object it matters only that its text is no number.\<close>

fun value_text :: "json \<Rightarrow> string" where
  "value_text JNull = ''None''"
| "value_text (JBool b) = (if b then ''True'' else ''False'')"
| "value_text (JInt i) = int_text i"
| "value_text (JFloat f) = f"
| "value_text (JStr s) = s"
| "value_text (JArr xs) = ''[]''"
| "value_text (JObj d) = ''{}''"

definition project_spec :: "jdict \<Rightarrow> string dict res" where
  "project_spec d =
     (case (jget d ''install_dir'', jget d ''log_dir'') of
        (JStr base, JStr logs) \<Rightarrow>
          Inr [(HOME_ENV, base), (STATE_HOME_ENV, logs), (PROXY_PORT_ENV, value_text (jget d ''port'')),
               (PROXY_LOG_ENV, join_text logs ''proxy.log''), (WATCHDOG_LOG_ENV, join_text logs ''watchdog.log''),
               (PROXY_LOG_MAX_BYTES_ENV, value_text (jget d ''proxy_log_max_bytes'')),
               (PROXY_LOG_BACKUP_COUNT_ENV, value_text (jget d ''proxy_log_backup_count'')),
               (WATCHDOG_LOG_MAX_BYTES_ENV, value_text (jget d ''watchdog_log_max_bytes'')),
               (WATCHDOG_LOG_BACKUP_COUNT_ENV, value_text (jget d ''watchdog_log_backup_count'')),
               (UPSTREAM_TIMEOUT_ENV, value_text (jget d ''upstream_timeout'')),
               (UPSTREAM_READ_TIMEOUT_ENV, value_text (jget d ''upstream_read_timeout'')),
               (WATCHDOG_INTERVAL_ENV, value_text (jget d ''watchdog_interval'')),
               (WATCHDOG_MAX_BACKOFF_ENV, value_text (jget d ''watchdog_max_backoff'')),
               (RESPONSE_FAILED_COMPACTION_BUDGET_ENV, value_text (jget d ''response_failed_compaction_budget'')),
               (RESPONSE_FAILED_MAX_STAGES_ENV, value_text (jget d ''response_failed_max_stages'')),
               (UPSTREAM_BASE_URL_ENV, if has_key d ''upstream_base_url'' then value_text (jget d ''upstream_base_url'') else [])]
      | _ \<Rightarrow> Inl (install_error ''native runtime configuration paths are invalid''))"

definition check_upstream :: "lifecycle_env \<Rightarrow> jdict \<Rightarrow> unit res" where
  "check_upstream env d =
     (if \<not> has_key d ''upstream_base_url'' then Inr ()
      else (case jget d ''upstream_base_url'' of
              JStr upstream \<Rightarrow>
                if upstream = [] then Inl (install_error ''native runtime configuration upstream is invalid'')
                else (case normalize_upstream (lpy env) upstream of
                        Inl (ValueError m) \<Rightarrow> Inl (install_error m)
                      | Inl e \<Rightarrow> Inl e
                      | Inr u \<Rightarrow> if u \<noteq> upstream then Inl (install_error ''upstream must be canonical'') else Inr ())
            | _ \<Rightarrow> Inl (install_error ''native runtime configuration upstream is invalid'')))"

definition owned_carrier_location :: "host_env \<Rightarrow> nodes \<Rightarrow> path \<Rightarrow> string \<Rightarrow> bool" where
  "owned_carrier_location env fs target base \<longleftrightarrow>
     (let norm = (\<lambda>p. normalized_path env fs (path_text p)); installed = path_of base in
      norm target = norm (installed @ [RUNTIME_CONFIG_FILENAME])
      \<or> path_name target = RUNTIME_CONFIG_FILENAME
        \<and> norm (butlast (butlast target)) = norm (installed @ [PAYLOAD_GENERATIONS_DIRNAME]))"

definition check_spec :: "host_env \<Rightarrow> system \<Rightarrow> nodes \<Rightarrow> path \<Rightarrow> jdict \<Rightarrow> unit res" where
  "check_spec env sys fs target d =
     (if \<not> equals_number (jget d ''schema_version'') SPEC_SCHEMA_VERSION
         \<or> \<not> (keys_exactly d (''schema_version'' # SPEC_FIELDS) \<or> keys_exactly d (''schema_version'' # SPEC_FIELDS @ [''upstream_base_url'']))
      then Inl (install_error ''native runtime configuration schema is unsupported'')
      else res_bind (check_upstream (life env) d) (\<lambda>_.
           if \<not> text_satisfies absolute_value (jget d ''install_dir'')
           then Inl (install_error ''native runtime configuration install_dir is invalid'')
           else if \<not> text_satisfies absolute_value (jget d ''log_dir'')
           then Inl (install_error ''native runtime configuration log_dir is invalid'')
           else if \<not> owned_carrier_location env fs target (value_text (jget d ''install_dir''))
           then Inl (install_error ''native runtime configuration is outside the installed payload layout'')
           else res_bind (project_spec d) (\<lambda>projected.
                (case load_settings sys projected of
                   Inl (ValueError m) \<Rightarrow> Inl (install_error m)
                 | Inl e \<Rightarrow> Inl e
                 | Inr _ \<Rightarrow> Inr ()))))"

definition read_spec :: "host_env \<Rightarrow> system \<Rightarrow> path \<Rightarrow> jdict io" where
  "read_spec env sys target =
     act_bind (read_canonical_json (life env) target ''native runtime configuration'') (\<lambda>d. with_fs (\<lambda>fs.
       act_then (act_lift (check_spec env sys fs target d)) (act_return d)))"

definition spec_environment :: "host_env \<Rightarrow> system \<Rightarrow> path \<Rightarrow> string dict io" where
  "spec_environment env sys target = act_bind (read_spec env sys target) (\<lambda>d. act_lift (project_spec d))"

definition spec_from_executable :: "path \<Rightarrow> path io" where
  "spec_from_executable exe =
     act_bind (resolve_strict exe) (\<lambda>p.
       if path_name (butlast p) \<noteq> ''bin''
       then act_raise (install_error ''native executable is outside the installed payload layout'')
       else act_return (butlast (butlast p) @ [RUNTIME_CONFIG_FILENAME]))"

text \<open>\<open>activate\<close>: the new environment variables of the process.\<close>

definition activate_spec :: "host_env \<Rightarrow> system \<Rightarrow> path \<Rightarrow> system io" where
  "activate_spec env sys exe =
     act_bind (spec_from_executable exe) (\<lambda>target.
     act_bind (spec_environment env sys target) (\<lambda>projected.
       act_return (sys\<lparr>environ := filter (\<lambda>(k, v). k \<notin> set RUNTIME_ENVIRONMENT) (environ sys) @ projected\<rparr>)))"

section \<open>The environment of a new process\<close>

definition upper :: "string \<Rightarrow> string" where
  "upper s = map (\<lambda>c. if CHR ''a'' \<le> c \<and> c \<le> CHR ''z'' then char_of (of_char c - 32 :: nat) else c) s"

definition is_runtime_state :: "string \<Rightarrow> bool" where
  "is_runtime_state name \<longleftrightarrow>
     starts_with (ENVIRONMENT_PREFIX @ ''_'') (upper name)
     \<or> list_ex (\<lambda>p. starts_with p (upper name)) [''PYTHON'', ''PYINSTALLER_'', ''_PYI_'']"

text \<open>\<open>dict.update\<close>.\<close>

definition updated :: "string dict \<Rightarrow> string dict \<Rightarrow> string dict" where
  "updated d new = fold (\<lambda>(k, v). AList.update k v) new d"

definition user_variables :: "string \<Rightarrow> string dict" where
  "user_variables home =
     (let under = (\<lambda>parts. foldl join_text home parts) in
      [(''APPDATA'', under [''AppData'', ''Roaming'']), (''HOME'', home), (''LOCALAPPDATA'', under [''AppData'', ''Local'']),
       (''USERPROFILE'', home), (''XDG_BIN_HOME'', under [''.local'', ''bin'']), (''XDG_CACHE_HOME'', under [''.cache'']),
       (''XDG_CONFIG_HOME'', under [''.config'']), (''XDG_DATA_HOME'', under [''.local'', ''share'']),
       (''XDG_STATE_HOME'', under [''.local'', ''state''])])"

definition DEFAULT_SEARCH_PATH :: string where
  "DEFAULT_SEARCH_PATH = ''/bin:/usr/bin''"

definition inherited_path :: "string dict \<Rightarrow> string" where
  "inherited_path source = (case find (\<lambda>(k, v). upper k = ''PATH'') source of Some (k, v) \<Rightarrow> v | None \<Rightarrow> DEFAULT_SEARCH_PATH)"

text \<open>\<open>Path(user_home).absolute()\<close>.\<close>

definition absolute_home :: "system \<Rightarrow> string \<Rightarrow> string" where
  "absolute_home sys h = path_text (path_of (if is_absolute h then h else join_text (path_text (working_dir sys)) h))"

definition native_process_environment ::
    "system \<Rightarrow> string \<Rightarrow> string \<Rightarrow> string option \<Rightarrow> string option \<Rightarrow> bool \<Rightarrow> string dict \<Rightarrow> string dict" where
  "native_process_environment sys install_root state_root search_path home restart source =
     (let kept = filter (\<lambda>(k, v). upper k \<noteq> ''PATH'' \<and> \<not> is_runtime_state k) source;
          own = updated kept
                  [(HOME_ENV, abspath sys install_root), (STATE_HOME_ENV, abspath sys state_root),
                   (''PATH'', case search_path of None \<Rightarrow> inherited_path source | Some p \<Rightarrow> p)];
          users = (case home of None \<Rightarrow> own | Some h \<Rightarrow> updated own (user_variables (absolute_home sys h)))
      in if restart then updated users [(''PYINSTALLER_RESET_ENVIRONMENT'', ''1'')] else users)"

section \<open>The context of an operation\<close>

definition service_id :: "lifecycle_env \<Rightarrow> system \<Rightarrow> string \<Rightarrow> string" where
  "service_id env sys base =
     (let installed = abspath sys base; named = PRODUCT_SLUG @ ''.watchdog'' in
      if installed = abspath sys (default_data_dir sys (environ sys)) then named
      else named @ ''.'' @ take 12 (sha256_hex (lpy env) installed))"

definition validate_port :: "int \<Rightarrow> int res" where
  "validate_port p = (if 1 \<le> p \<and> p \<le> 65535 then Inr p else Inl (install_error ''port must be an integer in 1..65535''))"

definition validate_log_retention :: "int \<Rightarrow> string \<Rightarrow> int \<Rightarrow> int \<Rightarrow> int res" where
  "validate_log_retention v name minimum maximum =
     (if minimum \<le> v \<and> v \<le> maximum then Inr v
      else Inl (install_error (name @ '' must be an integer in '' @ int_text minimum @ ''..'' @ int_text maximum)))"

definition command_place :: "system \<Rightarrow> string res" where
  "command_place sys =
     (let configured = setting (environ sys) ''XDG_BIN_HOME'' in
      if configured = [] then Inr (path_text (path_of (sys_home sys) @ [''.local'', ''bin'', PRODUCT_SLUG]))
      else if \<not> is_absolute (expand_user sys configured) then Inl (install_error ''XDG_BIN_HOME must be absolute'')
      else Inr (path_text (path_of (expand_user sys configured) @ [PRODUCT_SLUG])))"

text \<open>The arguments of \<open>create\<close> with their defaults.\<close>

record context_request =
  cr_executable :: "string option"
  cr_port :: int
  cr_proxy_max :: int
  cr_proxy_count :: int
  cr_watchdog_max :: int
  cr_watchdog_count :: int
  cr_upstream :: "string option"

definition default_request :: context_request where
  "default_request =
     \<lparr>cr_executable = None, cr_port = DEFAULT_PORT, cr_proxy_max = DEFAULT_PROXY_LOG_MAX_BYTES,
      cr_proxy_count = DEFAULT_PROXY_LOG_BACKUP_COUNT, cr_watchdog_max = DEFAULT_WATCHDOG_LOG_MAX_BYTES,
      cr_watchdog_count = DEFAULT_WATCHDOG_LOG_BACKUP_COUNT, cr_upstream = None\<rparr>"

definition projected_context :: "system \<Rightarrow> context_request \<Rightarrow> runtime_context res" where
  "projected_context sys q =
     (let base = data_dir sys (environ sys) in
      res_bind (command_place sys) (\<lambda>cmd.
      res_bind (validate_port (cr_port q)) (\<lambda>p.
      res_bind (validate_log_retention (cr_proxy_max q) ''proxy log max bytes'' (4 * 1024) (64 * 1024 * 1024)) (\<lambda>proxy_max.
      res_bind (validate_log_retention (cr_proxy_count q) ''proxy log backup count'' 0 10) (\<lambda>proxy_count.
      res_bind (validate_log_retention (cr_watchdog_max q) ''watchdog log max bytes'' (4 * 1024) (64 * 1024 * 1024)) (\<lambda>watchdog_max.
      res_bind (validate_log_retention (cr_watchdog_count q) ''watchdog log backup count'' 0 10) (\<lambda>watchdog_count.
        Inr \<lparr>install_dir = base,
             executable = (case cr_executable q of Some x \<Rightarrow> if x = [] then installed_executable base False else x
                           | None \<Rightarrow> installed_executable base False),
             command = cmd, log_dir = state_dir sys (environ sys), user_home = sys_home sys, port = p, proxy_log_max_bytes = proxy_max,
             proxy_log_backup_count = proxy_count, watchdog_log_max_bytes = watchdog_max, watchdog_log_backup_count = watchdog_count,
             upstream_timeout = ''900.0'', upstream_read_timeout = ''240.0'', watchdog_interval = ''15.0'', watchdog_max_backoff = ''120.0'',
             response_failed_compaction_budget = DEFAULT_RESPONSE_FAILED_COMPACTION_BUDGET,
             response_failed_max_stages = DEFAULT_RESPONSE_FAILED_MAX_STAGES, upstream_base_url = []\<rparr>)))))))"

definition chosen_upstream :: "host_env \<Rightarrow> system \<Rightarrow> runtime_context \<Rightarrow> string option \<Rightarrow> string io" where
  "chosen_upstream env sys selected given =
     (case given of
        Some u \<Rightarrow> act_return u
      | None \<Rightarrow> with_fs (\<lambda>fs.
          if exists_at fs (spec_path selected)
          then act_bind (spec_environment env sys (spec_path selected)) (\<lambda>e. act_return (setting e UPSTREAM_BASE_URL_ENV))
          else act_return (setting (environ sys) UPSTREAM_BASE_URL_ENV)))"

definition create_context :: "host_env \<Rightarrow> system \<Rightarrow> context_request \<Rightarrow> runtime_context io" where
  "create_context env sys q =
     act_bind (act_lift (projected_context sys q)) (\<lambda>projected.
     act_bind (selected_context (life env) projected) (\<lambda>selected.
     act_bind (chosen_upstream env sys selected (cr_upstream q)) (\<lambda>u.
       if u = [] then act_return (selected\<lparr>upstream_base_url := []\<rparr>)
       else (case normalize_upstream (lpy (life env)) u of
               Inl (ValueError m) \<Rightarrow> act_raise (install_error m)
             | Inl e \<Rightarrow> act_raise e
             | Inr v \<Rightarrow> act_return (selected\<lparr>upstream_base_url := v\<rparr>)))))"

end
