(* ===== verification/Settings_Facts.thy ===== *)
theory Settings_Facts
  imports Settings Disposal
begin

text \<open>
  What the configuration of a process guarantees: every setting lies in its documented range, an installed
  process runs with the settings of its carrier whatever it inherited, and a process it starts inherits none of
  the settings of its parent.
\<close>

section \<open>Settings\<close>

named_theorems ranged \<open>the ranges the readers of settings enforce\<close>

lemma integer_setting_range [ranged]: "integer_setting sys source name fallback lo hi = Inr v \<Longrightarrow> lo \<le> v \<and> v \<le> hi"
  by (auto simp: integer_setting_def Let_def split: option.splits if_splits)

lemma number_setting_range [ranged]: "number_setting sys source name fallback lo hi t = Inr v \<Longrightarrow> lo \<le> v \<and> v \<le> hi"
  by (auto simp: number_setting_def Let_def split: option.splits if_splits)

text \<open>Only a variable that is set can be refused, when the fallback is within the bounds.\<close>

definition refused :: "string dict \<Rightarrow> string list \<Rightarrow> py_exc \<Rightarrow> bool" where
  "refused source names e \<longleftrightarrow>
     (\<exists>name rest. name \<in> set names \<and> map_of source name \<noteq> None \<and> e = configuration_error (name @ '' must be '' @ rest))"

lemma refusedI: "name \<in> set names \<Longrightarrow> map_of source name \<noteq> None \<Longrightarrow> refused source names (configuration_error (name @ '' must be '' @ rest))"
  by (auto simp: refused_def)

lemma integer_setting_refused [ranged]:
  assumes "integer_setting sys source name fallback lo hi = Inl e" "lo \<le> fallback \<and> fallback \<le> hi" "name \<in> set names"
  shows "refused source names e"
proof -
  have "e = configuration_error (name @ '' must be '' @ ''an integer in '' @ int_text lo @ ''..'' @ int_text hi)"
    using assms by (auto simp: integer_setting_def Let_def split: option.splits if_splits)
  moreover have "map_of source name \<noteq> None"
    using assms by (auto simp: integer_setting_def Let_def split: option.splits if_splits)
  ultimately show ?thesis using refusedI [OF assms(3)] by (auto simp del: append_Cons)
qed

lemma number_setting_refused [ranged]:
  assumes "number_setting sys source name fallback lo hi t = Inl e" "lo \<le> fallback \<and> fallback \<le> hi" "name \<in> set names"
  shows "refused source names e"
proof -
  have "e = configuration_error (name @ '' must be '' @ ''a finite number in '' @ t)"
    using assms by (auto simp: number_setting_def Let_def split: option.splits if_splits)
  moreover have "map_of source name \<noteq> None"
    using assms by (auto simp: number_setting_def Let_def split: option.splits if_splits)
  ultimately show ?thesis using refusedI [OF assms(3)] by (auto simp del: append_Cons)
qed

definition retention_in_range :: "log_retention \<Rightarrow> bool" where
  "retention_in_range r \<longleftrightarrow>
     4096 \<le> log_max_bytes r \<and> log_max_bytes r \<le> 67108864 \<and> 0 \<le> log_backup_count r \<and> log_backup_count r \<le> 10"

definition settings_in_range :: "settings \<Rightarrow> bool" where
  "settings_in_range s \<longleftrightarrow>
     st_host s = ''127.0.0.1'' \<and> 1 \<le> st_port s \<and> st_port s \<le> 65535
     \<and> retention_in_range (st_proxy_log s) \<and> retention_in_range (st_watchdog_log s)
     \<and> 1 / 1000 \<le> st_upstream_timeout s \<and> st_upstream_timeout s \<le> 3600
     \<and> 1 / 1000 \<le> st_upstream_read_timeout s \<and> st_upstream_read_timeout s \<le> 3600
     \<and> 1 / 10 \<le> st_watchdog_interval s \<and> st_watchdog_interval s \<le> 3600
     \<and> 1 / 10 \<le> st_watchdog_max_backoff s \<and> st_watchdog_max_backoff s \<le> 86400
     \<and> 4096 \<le> st_compaction_budget s \<and> st_compaction_budget s \<le> 67108864
     \<and> 0 \<le> st_max_stages s \<and> st_max_stages s \<le> 8"

lemmas fallbacks = DEFAULT_PORT_def DEFAULT_PROXY_LOG_MAX_BYTES_def DEFAULT_PROXY_LOG_BACKUP_COUNT_def
  DEFAULT_WATCHDOG_LOG_MAX_BYTES_def DEFAULT_WATCHDOG_LOG_BACKUP_COUNT_def DEFAULT_UPSTREAM_TIMEOUT_def
  DEFAULT_UPSTREAM_READ_TIMEOUT_def DEFAULT_WATCHDOG_INTERVAL_def DEFAULT_WATCHDOG_MAX_BACKOFF_def
  DEFAULT_RESPONSE_FAILED_COMPACTION_BUDGET_def DEFAULT_RESPONSE_FAILED_MAX_STAGES_def

lemma load_settings_in_range: "load_settings sys source = Inr s \<Longrightarrow> settings_in_range s"
  unfolding load_settings_def listener_port_def res_bind_Inr
  by (elim exE conjE) (auto simp: settings_in_range_def retention_in_range_def listener_host_def
      dest!: integer_setting_range number_setting_range)

lemma load_settings_refused: "load_settings sys source = Inl e \<Longrightarrow> refused source RUNTIME_ENVIRONMENT e"
  unfolding load_settings_def listener_port_def res_bind_Inl
  by (elim disjE exE conjE; ((rule integer_setting_refused number_setting_refused, assumption, simp add: fallbacks, simp add: RUNTIME_ENVIRONMENT_def)
      | simp))

section \<open>The environment of a new process\<close>

lemma updated_lookup: "map_of (updated d new) k = (case map_of (rev new) k of Some v \<Rightarrow> Some v | None \<Rightarrow> map_of d k)"
proof (induction new arbitrary: d)
  case Nil
  show ?case by (simp add: updated_def)
next
  case (Cons kv new)
  obtain a b where "kv = (a, b)" by force
  then have "updated d (kv # new) = updated (AList.update a b d) new" by (simp add: updated_def)
  then show ?case using Cons [of "AList.update a b d"] \<open>kv = (a, b)\<close> by (auto simp: update_conv' map_add_def split: option.splits)
qed

lemma kept_lookup: "map_of (filter (\<lambda>(k, v). P k) d) name = (if P name then map_of d name else None)"
  by (induction d) auto

lemma native_environment_lookup:
  "map_of (native_process_environment sys base logs search home restart source) name =
     (if restart \<and> name = ''PYINSTALLER_RESET_ENVIRONMENT'' then Some ''1''
      else case (case home of None \<Rightarrow> None | Some h \<Rightarrow> map_of (user_variables (absolute_home sys h)) name) of
             Some v \<Rightarrow> Some v
           | None \<Rightarrow>
               if name = ''PATH'' then Some (case search of None \<Rightarrow> inherited_path source | Some p \<Rightarrow> p)
               else if name = STATE_HOME_ENV then Some (abspath sys logs)
               else if name = HOME_ENV then Some (abspath sys base)
               else if upper name = ''PATH'' \<or> is_runtime_state name then None else map_of source name)"
proof -
  let ?kept = "filter (\<lambda>(k, v). upper k \<noteq> ''PATH'' \<and> \<not> is_runtime_state k) source"
  let ?own = "[(HOME_ENV, abspath sys base), (STATE_HOME_ENV, abspath sys logs), (''PATH'', case search of None \<Rightarrow> inherited_path source | Some p \<Rightarrow> p)]"
  have distinct: "distinct (map fst (user_variables h))" for h by (simp add: user_variables_def)
  have users: "map_of (updated d (user_variables h)) n = (case map_of (user_variables h) n of Some v \<Rightarrow> Some v | None \<Rightarrow> map_of d n)" for d h n
    using distinct [of h] map_of_inject_set [of "user_variables h" "rev (user_variables h)"] by (simp add: updated_lookup rev_map [symmetric])
  have own: "map_of (updated ?kept ?own) n =
      (if n = ''PATH'' then Some (case search of None \<Rightarrow> inherited_path source | Some p \<Rightarrow> p)
       else if n = STATE_HOME_ENV then Some (abspath sys logs) else if n = HOME_ENV then Some (abspath sys base)
       else if upper n = ''PATH'' \<or> is_runtime_state n then None else map_of source n)" for n
    by (simp add: updated_lookup kept_lookup [where P = "\<lambda>k. upper k \<noteq> ''PATH'' \<and> \<not> is_runtime_state k"])
  have single: "map_of (updated d [(a, b)]) n = (if n = a then Some b else map_of d n)" for d n a and b :: string
    by (simp add: updated_lookup)
  show ?thesis
    unfolding native_process_environment_def Let_def
    by (cases home; cases restart) (simp_all only: single users own option.case if_True if_False simp_thms)
qed

lemma own_name_is_runtime_state: "is_runtime_state (environment_name ending)"
proof -
  have "upper (ENVIRONMENT_PREFIX @ ''_'') = ENVIRONMENT_PREFIX @ ''_''" by code_simp
  then have "upper (environment_name ending) = (ENVIRONMENT_PREFIX @ ''_'') @ upper ending"
    by (simp add: environment_name_def upper_def)
  then show ?thesis by (simp add: is_runtime_state_def starts_with_def)
qed

lemma own_name_is_no_user_variable: "map_of (user_variables h) (environment_name ending) = None"
  by (simp add: user_variables_def environment_name_def ENVIRONMENT_PREFIX_def)

lemma own_settings_not_inherited:
  assumes "environment_name ending \<noteq> HOME_ENV" "environment_name ending \<noteq> STATE_HOME_ENV"
  shows "map_of (native_process_environment sys base logs search home restart source) (environment_name ending) = None"
proof -
  have "environment_name ending \<noteq> ''PYINSTALLER_RESET_ENVIRONMENT''" "environment_name ending \<noteq> ''PATH''"
    by (simp_all add: environment_name_def ENVIRONMENT_PREFIX_def)
  then show ?thesis
    using assms by (simp add: native_environment_lookup own_name_is_runtime_state own_name_is_no_user_variable split: option.splits)
qed

lemma own_state_root:
  "map_of (native_process_environment sys base logs search home restart source) STATE_HOME_ENV = Some (abspath sys logs)"
proof -
  have "STATE_HOME_ENV \<noteq> ''PYINSTALLER_RESET_ENVIRONMENT''" "STATE_HOME_ENV \<noteq> ''PATH''"
    by (simp_all add: STATE_HOME_ENV_def environment_name_def ENVIRONMENT_PREFIX_def)
  then show ?thesis
    using own_name_is_no_user_variable [of _ "''STATE_HOME''"]
    by (simp add: native_environment_lookup STATE_HOME_ENV_def [symmetric] split: option.splits)
qed

lemma absolute_override_kept:
  assumes "map_of source name = Some (CHR ''/'' # s)" shows "absolute_override sys source name = Some (CHR ''/'' # s)"
  using assms by (simp add: absolute_override_def setting_def expand_home_def starts_with_def absolute_value_def is_absolute_def)

text \<open>The settings when nothing is set but the directory of the logs.\<close>

definition fallback_settings :: "string \<Rightarrow> settings" where
  "fallback_settings logs =
     \<lparr>st_host = ''127.0.0.1'', st_port = 8792,
      st_proxy_log = \<lparr>log_file = join_text logs ''proxy.log'', log_max_bytes = 4194304, log_backup_count = 3\<rparr>,
      st_watchdog_log = \<lparr>log_file = join_text logs ''watchdog.log'', log_max_bytes = 524288, log_backup_count = 2\<rparr>,
      st_upstream_timeout = 900, st_upstream_read_timeout = 240, st_watchdog_interval = 15, st_watchdog_max_backoff = 120,
      st_compaction_budget = 524288, st_max_stages = 3\<rparr>"

lemmas names_of_settings = HOME_ENV_def STATE_HOME_ENV_def PROXY_PORT_ENV_def PROXY_LOG_ENV_def WATCHDOG_LOG_ENV_def PROXY_LOG_MAX_BYTES_ENV_def
  PROXY_LOG_BACKUP_COUNT_ENV_def WATCHDOG_LOG_MAX_BYTES_ENV_def WATCHDOG_LOG_BACKUP_COUNT_ENV_def UPSTREAM_TIMEOUT_ENV_def
  UPSTREAM_READ_TIMEOUT_ENV_def UPSTREAM_BASE_URL_ENV_def WATCHDOG_INTERVAL_ENV_def WATCHDOG_MAX_BACKOFF_ENV_def
  RESPONSE_FAILED_COMPACTION_BUDGET_ENV_def RESPONSE_FAILED_MAX_STAGES_ENV_def

lemma environment_name_inject [simp]: "environment_name a = environment_name b \<longleftrightarrow> a = b"
  by (simp add: environment_name_def)

lemma load_fallback_settings:
  assumes unset: "\<And>ending. ending \<notin> {''HOME'', ''STATE_HOME''} \<Longrightarrow> map_of source (environment_name ending) = None"
    and logs: "map_of source STATE_HOME_ENV = Some (CHR ''/'' # s)"
  shows "load_settings sys source = Inr (fallback_settings (CHR ''/'' # s))"
proof -
  have "state_dir sys source = CHR ''/'' # s"
    by (simp add: state_dir_def absolute_override_kept [OF logs])
  then show ?thesis
    by (simp add: load_settings_def listener_port_def integer_setting_def number_setting_def proxy_log_path_def watchdog_log_path_def unset
        fallbacks fallback_settings_def listener_host_def names_of_settings)
qed

section \<open>Activation\<close>

lemma project_spec_names: "project_spec d = Inr projected \<Longrightarrow> set (map fst projected) = set RUNTIME_ENVIRONMENT"
  by (auto simp: project_spec_def RUNTIME_ENVIRONMENT_def split: json.splits)

lemma activated_lookup:
  assumes "project_spec d = Inr projected"
  shows "map_of (filter (\<lambda>(k, v). k \<notin> set RUNTIME_ENVIRONMENT) inherited @ projected) name =
    (if name \<in> set RUNTIME_ENVIRONMENT then map_of projected name else map_of inherited name)"
proof (cases "name \<in> set RUNTIME_ENVIRONMENT")
  case False
  then have "map_of projected name = None" using project_spec_names [OF assms] by (auto simp: map_of_eq_None_iff)
  then show ?thesis using False by (simp add: map_add_def kept_lookup [where P = "\<lambda>k. k \<notin> set RUNTIME_ENVIRONMENT"] split: option.splits)
qed (simp add: map_add_def kept_lookup [where P = "\<lambda>k. k \<notin> set RUNTIME_ENVIRONMENT"])

lemma load_settings_same:
  assumes "\<And>name. name \<in> set RUNTIME_ENVIRONMENT \<Longrightarrow> map_of a name = map_of b name"
    and "map_of b PROXY_LOG_ENV = Some p" "map_of b WATCHDOG_LOG_ENV = Some w"
  shows "load_settings (sys\<lparr>environ := e\<rparr>) a = load_settings sys b"
proof -
  note in_list = assms(1) [unfolded RUNTIME_ENVIRONMENT_def, simplified]
  show ?thesis using assms(2,3)
    by (simp add: load_settings_def listener_port_def integer_setting_def number_setting_def proxy_log_path_def watchdog_log_path_def in_list
        cong: option.case_cong sum.case_cong)
qed

lemma check_spec_loads:
  assumes "check_spec env sys fs target spec = Inr ()"
  obtains projected s where "project_spec spec = Inr projected" "load_settings sys projected = Inr s"
proof -
  obtain projected where p: "project_spec spec = Inr projected"
    "(case load_settings sys projected of Inl (ValueError m) \<Rightarrow> Inl (install_error m) | Inl e \<Rightarrow> Inl e | Inr _ \<Rightarrow> Inr ()) = Inr ()"
    using assms by (simp add: check_spec_def split: if_split_asm) blast
  then obtain s where "load_settings sys projected = Inr s"
    by (cases "load_settings sys projected") (simp_all split: py_exc.splits)
  with p(1) show ?thesis by (rule that)
qed

lemma read_spec_checked:
  assumes "read_spec env sys target d = (Inr spec, d')"
  obtains fs where "check_spec env sys fs target spec = Inr ()"
  using assms unfolding read_spec_def act_bind_run act_then_run act_lift_run act_return_run with_fs_run by auto

lemma reads_spec [reads]:
  "keeps nodes (read_spec env sys target)" "keeps nodes (spec_environment env sys target)" "keeps nodes (spec_from_executable exe)"
  "keeps nodes (activate_spec env sys exe)"
proof -
  show r: "keeps nodes (read_spec env sys target)" for target unfolding read_spec_def by (intro keeps_rules reads)
  show e: "keeps nodes (spec_environment env sys target)" for target unfolding spec_environment_def by (intro keeps_rules reads r)
  show x: "keeps nodes (spec_from_executable exe)"
    unfolding spec_from_executable_def by (intro keeps_rules reads)
  show "keeps nodes (activate_spec env sys exe)" unfolding activate_spec_def by (intro keeps_rules reads e x)
qed

lemma project_spec_logs:
  assumes "project_spec spec = Inr projected"
  obtains p w where "map_of projected PROXY_LOG_ENV = Some p" "map_of projected WATCHDOG_LOG_ENV = Some w"
  using assms by (auto simp: project_spec_def names_of_settings split: json.splits)

text \<open>
  A process that is started with \<open>native_process_environment\<close> inherits no setting of its parent: it loads the
  settings the code falls back on, with its logs in the state directory it was given.
\<close>

lemma isolated_settings:
  "load_settings sys (native_process_environment sys base logs search home restart source) = Inr (fallback_settings (abspath sys logs))"
proof -
  obtain s where s: "abspath sys logs = CHR ''/'' # s" by (simp add: abspath_def path_text_def)
  show ?thesis
    unfolding s by (rule load_fallback_settings) (simp_all add: own_settings_not_inherited own_state_root s, simp add: names_of_settings own_settings_not_inherited)
qed

section \<open>What the configuration guarantees\<close>

text \<open>
  Whatever the environment of a process holds, loading its settings gives settings in which every
  value lies in its range and the host is the loopback address, or refuses one of the product's own variables,
  which is set, by its name; the values the code falls back on are never refused.
\<close>

theorem settings_bounded:
  "case load_settings sys source of
     Inr s \<Rightarrow> settings_in_range s
   | Inl e \<Rightarrow> refused source RUNTIME_ENVIRONMENT e"
  by (auto split: sum.splits dest: load_settings_in_range load_settings_refused)

text \<open>
  Claim C20.  An installed process that activates its carrier runs with the settings of the carrier beside its
  executable: they load, every value in its range, whatever settings the process inherited, and no other
  variable and no file changes.
\<close>

theorem activation_selects_carrier:
  "case activate_spec env sys exe d of
     (Inr sys', d') \<Rightarrow>
       \<exists>target d1 projected s.
         spec_from_executable exe d = (Inr target, d1) \<and> spec_environment env sys target d1 = (Inr projected, d')
         \<and> nodes d' = nodes d \<and> load_settings sys' (environ sys') = Inr s \<and> load_settings sys projected = Inr s \<and> settings_in_range s
         \<and> (\<forall>name. map_of (environ sys') name =
              (if name \<in> set RUNTIME_ENVIRONMENT then map_of projected name else map_of (environ sys) name))
   | (Inl e, d') \<Rightarrow> nodes d' = nodes d"
proof (cases "activate_spec env sys exe d")
  case (Pair r d')
  then have same: "nodes d' = nodes d" by (rule keepsD [OF reads_spec(4)])
  show ?thesis
  proof (cases r)
    case (Inr sys')
    then obtain target d1 projected where found: "spec_from_executable exe d = (Inr target, d1)"
      and read: "spec_environment env sys target d1 = (Inr projected, d')"
      and sys': "sys' = sys\<lparr>environ := filter (\<lambda>(k, v). k \<notin> set RUNTIME_ENVIRONMENT) (environ sys) @ projected\<rparr>"
      using Pair by (auto simp: activate_spec_def act_bind_run act_return_run)
    obtain spec where proj: "project_spec spec = Inr projected" and spec: "read_spec env sys target d1 = (Inr spec, d')"
      using read by (auto simp: spec_environment_def act_bind_run act_lift_run)
    obtain s where loads: "load_settings sys projected = Inr s" using read_spec_checked [OF spec] check_spec_loads proj by (metis sum.inject(2))
    obtain p w where logs: "map_of projected PROXY_LOG_ENV = Some p" "map_of projected WATCHDOG_LOG_ENV = Some w"
      using project_spec_logs [OF proj] .
    have "load_settings sys' (environ sys') = Inr s"
      unfolding sys' using load_settings_same [OF _ logs] activated_lookup [OF proj] loads by simp
    then show ?thesis
      using same Pair Inr found read loads load_settings_in_range [OF loads] activated_lookup [OF proj] by (auto simp: sys')
  qed (use Pair same in simp)
qed

end
