(* ===== verification/Artifact.thy ===== *)
theory Artifact
  imports Transaction
begin

text \<open>
  \<open>lifecycle/artifact.py\<close>: admitting a release archive whose checksums carry an authorized signature, and the
  artifact that stands for it, whose bytes can be claimed once.  What \<open>ssh-keygen\<close> answers and what \<open>tarfile\<close>
  finds in an archive are parameters, and so is SHA-256.  Frozen evidence is given by the value it freezes.
\<close>

section \<open>The surroundings\<close>

record tar_member =
  tm_name :: string
  tm_isfile :: bool
  tm_mode :: int
  tm_content :: "bytes res"

text \<open>
  Whether \<open>ssh-keygen\<close> is there; the exit code and the lines of \<open>find-principals\<close> for a signature, a trust anchor and
  the signed bytes; the exit code of \<open>verify\<close> for a principal and a namespace; the members of an archive.
\<close>

record artifact_env =
  has_keygen :: bool
  find_principals :: "nodes \<Rightarrow> path \<Rightarrow> path \<Rightarrow> bytes \<Rightarrow> int \<times> string list"
  verify_signed :: "nodes \<Rightarrow> path \<Rightarrow> path \<Rightarrow> string \<Rightarrow> string \<Rightarrow> bytes \<Rightarrow> int"
  tar_members :: "bytes \<Rightarrow> tar_member list res"

definition RECEIPT_SCHEMA :: int where "RECEIPT_SCHEMA = 1"

definition MAX_ASSET_BYTES :: nat where "MAX_ASSET_BYTES = 512 * 1024 * 1024"

definition RELEASE_NAMESPACE :: string where "RELEASE_NAMESPACE = PRODUCT_SLUG @ ''-release''"

section \<open>The artifact\<close>

record verified_artifact =
  va_blobs :: "artifact_file list"
  va_receipt :: jdict
  va_sidecar :: jdict
  va_receipt_sha256 :: string
  va_issued :: bool
  va_claimed :: bool

definition artifact_error :: "string \<Rightarrow> py_exc" where
  "artifact_error m = OtherError (''ArtifactError: '' @ m)"

abbreviation not_intact :: py_exc where
  "not_intact \<equiv> artifact_error ''verified artifact integrity check failed''"

definition artifact_version :: "verified_artifact \<Rightarrow> string" where
  "artifact_version a = field_text (va_receipt a) ''version''"

definition artifact_serving_sha256 :: "verified_artifact \<Rightarrow> string" where
  "artifact_serving_sha256 a = field_text (va_receipt a) ''serving_payload_sha256''"

definition mint :: "py_env \<Rightarrow> artifact_file list \<Rightarrow> jdict \<Rightarrow> jdict \<Rightarrow> verified_artifact res" where
  "mint env blobs receipt sidecar =
     (if \<not> is_json_object (JObj receipt) \<or> \<not> is_json_object (JObj sidecar) then Inl TypeError
      else res_bind (canonical_json env (JObj receipt)) (\<lambda>raw.
           Inr \<lparr>va_blobs = blobs, va_receipt = receipt, va_sidecar = sidecar, va_receipt_sha256 = sha256_hex env raw,
                va_issued = True, va_claimed = False\<rparr>))"

definition payload_entry :: "artifact_file \<Rightarrow> string \<Rightarrow> jdict" where
  "payload_entry b sha =
     [(''path'', JStr (af_path b)), (''mode'', JStr (af_mode b)), (''blob_oid'', JStr (af_blob_oid b)), (''sha256'', JStr sha)]"

text \<open>\<open>dict(entry) != expected\<close> for the four text fields.\<close>

definition entry_intact :: "py_env \<Rightarrow> json \<Rightarrow> artifact_file \<Rightarrow> bool" where
  "entry_intact env e b =
     (let sha = sha256_hex env (af_content b); expected = payload_entry b sha in
      case e of
        JObj d \<Rightarrow> keys_exactly d (map fst expected) \<and> list_all (\<lambda>(k, v). jget d k = v) expected \<and> af_sha256 b = sha
      | _ \<Rightarrow> False)"

definition digests_of :: "artifact_file list \<Rightarrow> string dict" where
  "digests_of blobs = foldl (\<lambda>d b. AList.update (af_path b) (af_sha256 b) d) [] blobs"

definition integrity_header :: "verified_artifact \<Rightarrow> string \<Rightarrow> bool" where
  "integrity_header a sha \<longleftrightarrow>
     sha = va_receipt_sha256 a \<and> equals_number (jget (va_sidecar a) ''schema_version'') RECEIPT_SCHEMA
     \<and> jget (va_sidecar a) ''algorithm'' = JStr ''sha256'' \<and> jget (va_sidecar a) ''receipt_sha256'' = JStr sha
     \<and> jget (va_sidecar a) ''serving_payload_sha256'' = jget (va_receipt a) ''serving_payload_sha256''"

definition verify_integrity :: "py_env \<Rightarrow> verified_artifact \<Rightarrow> unit res" where
  "verify_integrity env a =
     res_bind (canonical_json env (JObj (va_receipt a))) (\<lambda>raw.
       if \<not> integrity_header a (sha256_hex env raw) then Inl not_intact
       else (case jget (va_receipt a) ''payload'' of
               JArr entries \<Rightarrow>
                 if \<not> list_all2 (entry_intact env) entries (va_blobs a) then Inl not_intact
                 else (case jget (va_receipt a) ''serving_files'' of
                         JArr served \<Rightarrow>
                           (case validated_serving_payload_sha256 env (digests_of (filter (\<lambda>b. JStr (af_path b) \<in> set served) (va_blobs a))) of
                              Inl (ValueError m) \<Rightarrow> Inl not_intact
                            | Inl e \<Rightarrow> Inl e
                            | Inr actual \<Rightarrow>
                                if jget (va_receipt a) ''serving_payload_sha256'' \<noteq> JStr actual then Inl not_intact else Inr ())
                       | _ \<Rightarrow> Inl not_intact)
             | _ \<Rightarrow> Inl not_intact))"

text \<open>What \<open>claim\<close> gives, and the artifact after it.\<close>

definition claim ::
    "py_env \<Rightarrow> verified_artifact \<Rightarrow> (artifact_file list \<times> string \<times> string \<times> jdict \<times> jdict) res \<times> verified_artifact" where
  "claim env a =
     (if \<not> va_issued a then (Inl (artifact_error ''installation requires an admitted VerifiedArtifact''), a)
      else (case verify_integrity env a of
              Inl e \<Rightarrow> (Inl e, a)
            | Inr _ \<Rightarrow>
                if va_claimed a then (Inl (artifact_error ''verified artifact bytes were already claimed''), a)
                else (Inr (va_blobs a, artifact_version a, va_receipt_sha256 a, va_receipt a, va_sidecar a), a\<lparr>va_claimed := True\<rparr>)))"

section \<open>Names and checksums\<close>

definition version_digits :: "string \<Rightarrow> bool" where
  "version_digits s \<longleftrightarrow>
     (case split_on (CHR ''.'') s of [a, b, c] \<Rightarrow> list_all (\<lambda>p. p \<noteq> [] \<and> list_all decimal_digit p) [a, b, c] | _ \<Rightarrow> False)"

definition platform_char :: "char \<Rightarrow> bool" where
  "platform_char c \<longleftrightarrow> CHR ''a'' \<le> c \<and> c \<le> CHR ''z'' \<or> decimal_digit c"

definition platform_parts :: "string list \<Rightarrow> bool" where
  "platform_parts ps \<longleftrightarrow>
     (case ps of
        p # q # rest \<Rightarrow> p \<noteq> [] \<and> list_all platform_char p
                        \<and> list_all (\<lambda>s. s \<noteq> [] \<and> list_all (\<lambda>c. platform_char c \<or> c = CHR ''_'') s) (q # rest)
      | _ \<Rightarrow> False)"

text \<open>\<open>_ARCHIVE.fullmatch\<close>: the version and the platform.  Neither has the separator of the other.\<close>

definition archive_identity :: "string \<Rightarrow> (string \<times> string) option" where
  "archive_identity name =
     (let lead = PRODUCT_SLUG @ ''-''; final = ''.tar.gz''; rest = drop (length lead) name in
      if starts_with lead name \<and> ends_with final rest
      then (case split_on (CHR ''-'') (take (length rest - length final) rest) of
              v # ps \<Rightarrow> if version_digits v \<and> platform_parts ps then Some (v, join_on (CHR ''-'') ps) else None
            | [] \<Rightarrow> None)
      else None)"

text \<open>\<open>str.splitlines\<close> of an ASCII text.\<close>

definition line_end :: "char \<Rightarrow> bool" where
  "line_end c \<longleftrightarrow> of_char c \<in> {10, 11, 12, 13, 28, 29, 30 :: nat}"

fun ascii_lines :: "string \<Rightarrow> string list" where
  "ascii_lines [] = []"
| "ascii_lines [c] = (if line_end c then [[]] else [[c]])"
| "ascii_lines (c # x # s) =
     (if c = CHR 13 \<and> x = CHR 10 then [] # ascii_lines s
      else if line_end c then [] # ascii_lines (x # s)
      else (case ascii_lines (x # s) of [] \<Rightarrow> [[c]] | l # ls \<Rightarrow> (c # l) # ls))"

text \<open>\<open>line.split("  ", 1)\<close>, with both parts there.\<close>

fun split_spaces :: "string \<Rightarrow> (string \<times> string) option" where
  "split_spaces (c # x # s) =
     (if c = CHR '' '' \<and> x = CHR '' '' then Some ([], s)
      else map_option (\<lambda>(a, b). (c # a, b)) (split_spaces (x # s)))"
| "split_spaces _ = None"

definition malformed_checksums :: py_exc where
  "malformed_checksums = install_error ''release checksum manifest is malformed''"

text \<open>\<open>Path(name).name == name\<close>.\<close>

definition plain_name :: "string \<Rightarrow> bool" where
  "plain_name name \<longleftrightarrow> CHR ''/'' \<notin> set name \<and> name \<noteq> ''.''"

fun checksum_lines :: "string list \<Rightarrow> string dict \<Rightarrow> string dict res" where
  "checksum_lines [] parsed = Inr parsed"
| "checksum_lines (line # rest) parsed =
     (case split_spaces line of
        Some (sha, name) \<Rightarrow>
          if is_sha256 sha \<and> plain_name name \<and> \<not> has_key parsed name then checksum_lines rest (parsed @ [(name, sha)])
          else Inl malformed_checksums
      | None \<Rightarrow> Inl malformed_checksums)"

definition parse_checksums :: "bytes \<Rightarrow> string dict res" where
  "parse_checksums content =
     (if list_ex (\<lambda>c. of_char c \<ge> (128 :: nat)) content then Inl malformed_checksums else checksum_lines (ascii_lines content) [])"

section \<open>The signature\<close>

definition verify_signer :: "artifact_env \<Rightarrow> bytes \<Rightarrow> path \<Rightarrow> path \<Rightarrow> nodes \<Rightarrow> unit io" where
  "verify_signer env content signature anchor fs =
     (let (code, printed) = find_principals env fs signature anchor content in
      case filter (\<lambda>l. l \<noteq> []) printed of
        [signer] \<Rightarrow>
          if code \<noteq> 0 then act_raise (install_error ''release signature has no unique authorized principal'')
          else act_then os_call
                 (if verify_signed env fs signature anchor signer RELEASE_NAMESPACE content \<noteq> 0
                  then act_raise (install_error ''release signature verification failed'')
                  else act_return ())
      | _ \<Rightarrow> act_raise (install_error ''release signature has no unique authorized principal''))"

definition verify_signature :: "artifact_env \<Rightarrow> bytes \<Rightarrow> path \<Rightarrow> path \<Rightarrow> unit io" where
  "verify_signature env content signature anchor =
     (if \<not> has_keygen env then act_raise (install_error ''ssh-keygen is required to verify release assets'')
      else act_then os_call (with_fs (verify_signer env content signature anchor)))"

section \<open>The archive\<close>

definition archive_name :: "string \<Rightarrow> string \<Rightarrow> string" where
  "archive_name version platform = PRODUCT_SLUG @ ''-'' @ version @ ''-'' @ platform @ ''.tar.gz''"

definition MANIFEST_FIELDS :: "string list" where
  "MANIFEST_FIELDS = [''schema_version'', ''product'', ''version'', ''platform'', ''archive'', ''archive_sha256'', ''files'']"

definition verify_archive :: "py_env \<Rightarrow> bytes \<Rightarrow> bytes \<Rightarrow> string \<Rightarrow> string \<Rightarrow> jdict res" where
  "verify_archive env archive manifest version platform =
     res_bind (res_catch is_value_error (loads env manifest) (\<lambda>_. Inl (install_error ''release platform manifest is malformed''))) (\<lambda>v.
       let inconsistent = Inl (install_error ''release platform manifest is inconsistent'') in
       case v of
         JObj d \<Rightarrow>
           if is_json_object v \<and> keys_exactly d MANIFEST_FIELDS \<and> equals_number (jget d ''schema_version'') 1
              \<and> jget d ''product'' = JStr PRODUCT_SLUG \<and> jget d ''version'' = JStr version \<and> jget d ''platform'' = JStr platform
              \<and> jget d ''archive'' = JStr (archive_name version platform) \<and> jget d ''archive_sha256'' = JStr (sha256_hex env archive)
              \<and> is_obj (jget d ''files'')
           then Inr d else inconsistent
       | _ \<Rightarrow> inconsistent)"

definition invalid_inventory :: py_exc where
  "invalid_inventory = install_error ''release archive inventory is invalid''"

definition invalid_member :: py_exc where
  "invalid_member = install_error ''release archive contains an invalid member''"

definition on_windows :: "string \<Rightarrow> bool" where
  "on_windows platform \<longleftrightarrow> starts_with ''windows-'' platform"

text \<open>\<open>document["files"]\<close> as the digests it declares.\<close>

definition declared_digests :: "jdict \<Rightarrow> string dict res" where
  "declared_digests d =
     (case jget d ''files'' of
        JObj files \<Rightarrow>
          (let windows = on_windows (field_text d ''platform'') in
           if \<not> list_all (\<lambda>(k, v). is_str v) files \<or> files = []
              \<or> \<not> list_all (has_key files) [executable_name windows, PROVIDER_MANIFEST, ''LICENSE'']
              \<or> list_ex (\<lambda>(k, v). k \<noteq> ''LICENSE'' \<and> \<not> is_runtime_file k windows) files
           then Inl invalid_inventory else Inr (map (\<lambda>(k, v). (k, field_text files k)) files))
      | _ \<Rightarrow> Inl invalid_inventory)"

definition blob_of :: "string \<Rightarrow> string \<Rightarrow> bytes \<Rightarrow> bool \<Rightarrow> artifact_file" where
  "blob_of relative sha content is_exe =
     \<lparr>af_path = relative, af_mode = (if is_exe then ''100755'' else ''100644''), af_blob_oid = sha, af_content = content, af_sha256 = sha\<rparr>"

definition EXECUTABLE_MODE :: int where "EXECUTABLE_MODE = 493"

definition PLAIN_MODE :: int where "PLAIN_MODE = 420"

text \<open>One member: the file it gives, or none for the license.\<close>

definition member_blob ::
    "py_env \<Rightarrow> string dict \<Rightarrow> string \<Rightarrow> string \<Rightarrow> string list \<Rightarrow> tar_member \<Rightarrow> (string \<times> artifact_file option) res" where
  "member_blob env files lead exe_name seen m =
     (if \<not> tm_isfile m \<or> \<not> starts_with lead (tm_name m) then Inl invalid_member
      else let relative = drop (length lead) (tm_name m) in
           if \<not> has_key files relative \<or> relative \<in> set seen then Inl invalid_member
           else res_bind (tm_content m) (\<lambda>content.
                let sha = sha256_hex env content; is_exe = (relative = exe_name) in
                if map_of files relative \<noteq> Some sha then Inl (install_error ''release archive member digest mismatch'')
                else if relative = ''LICENSE'' then Inr (relative, None)
                else if tm_mode m \<noteq> (if is_exe then EXECUTABLE_MODE else PLAIN_MODE)
                then Inl (install_error ''release archive member mode is invalid'')
                else Inr (relative, Some (blob_of relative sha content is_exe))))"

fun member_blobs ::
    "py_env \<Rightarrow> string dict \<Rightarrow> string \<Rightarrow> string \<Rightarrow> string list \<Rightarrow> tar_member list \<Rightarrow> artifact_file list res" where
  "member_blobs env files lead exe_name seen [] = Inr []"
| "member_blobs env files lead exe_name seen (m # ms) =
     res_bind (member_blob env files lead exe_name seen m) (\<lambda>(relative, b).
     res_bind (member_blobs env files lead exe_name (relative # seen) ms) (\<lambda>bs.
       Inr ((case b of None \<Rightarrow> [] | Some x \<Rightarrow> [x]) @ bs)))"

definition is_tar_failure :: "py_exc \<Rightarrow> bool" where
  "is_tar_failure e \<longleftrightarrow> e \<in> {OtherError ''TarError'', OSError, OtherError ''EOFError''}"

definition archive_blobs :: "artifact_env \<Rightarrow> py_env \<Rightarrow> bytes \<Rightarrow> jdict \<Rightarrow> artifact_file list res" where
  "archive_blobs aenv env archive d =
     (let platform = field_text d ''platform''; version = field_text d ''version'' in
      res_bind (declared_digests d) (\<lambda>files.
      res_bind (res_catch is_tar_failure
                 (res_bind (tar_members aenv archive) (\<lambda>members.
                    if length members \<noteq> length files then Inl invalid_inventory
                    else member_blobs env files (PRODUCT_SLUG @ ''-'' @ version @ ''-'' @ platform @ ''/'')
                           (executable_name (on_windows platform)) [] members))
                 (\<lambda>_. Inl (install_error ''release archive is malformed''))) (\<lambda>blobs.
        Inr (sort_key af_path blobs))))"

section \<open>Admission\<close>

definition file_size :: "path \<Rightarrow> nat io" where
  "file_size p =
     act_then os_call (with_fs (\<lambda>fs. case stat fs p of
       Some (Regular i c) \<Rightarrow> act_return (length c) | Some _ \<Rightarrow> act_return 0 | None \<Rightarrow> act_raise OSError))"

definition admitted_archive :: "path \<Rightarrow> path io" where
  "admitted_archive asset = with_fs (\<lambda>fs.
     if \<not> is_file fs asset then act_raise (install_error ''native release archive is unavailable'')
     else act_bind (resolve_strict asset) (\<lambda>archive. with_fs (\<lambda>fs.
          let refused = install_error ''native release archive is unavailable or too large'' in
          if \<not> is_file fs archive then act_raise refused
          else act_bind (file_size archive) (\<lambda>n. act_then (fail_if (n > MAX_ASSET_BYTES) refused) (act_return archive)))))"

definition beside :: "path \<Rightarrow> string \<Rightarrow> path" where
  "beside archive name = butlast archive @ [name]"

definition platform_manifest :: "path \<Rightarrow> string \<Rightarrow> path" where
  "platform_manifest archive platform = beside archive (PRODUCT_SLUG @ ''-'' @ platform @ ''.manifest.json'')"

definition checksums_at :: "path \<Rightarrow> path" where "checksums_at archive = beside archive ''SHA256SUMS''"

definition signature_at :: "path \<Rightarrow> path" where "signature_at archive = beside archive ''SHA256SUMS.sig''"

definition admitted_anchor :: "path \<Rightarrow> path io" where
  "admitted_anchor trust_anchor = with_fs (\<lambda>fs.
     if \<not> is_file fs trust_anchor then act_raise (install_error ''release trust anchor is unavailable'') else resolve_strict trust_anchor)"

definition require_release_files :: "path \<Rightarrow> string \<Rightarrow> path \<Rightarrow> unit io" where
  "require_release_files archive platform anchor =
     act_each (\<lambda>(p, label). with_fs (\<lambda>fs. fail_if (\<not> is_file fs p) (install_error (''release '' @ label @ '' is unavailable''))))
       [(platform_manifest archive platform, ''platform manifest''), (checksums_at archive, ''checksum manifest''),
        (signature_at archive, ''checksum signature''), (anchor, ''trust anchor'')]"

definition receipt_for ::
    "py_env \<Rightarrow> string \<Rightarrow> string \<Rightarrow> string \<Rightarrow> bytes \<Rightarrow> bytes \<Rightarrow> bytes \<Rightarrow> artifact_file list \<Rightarrow> string \<Rightarrow> jdict" where
  "receipt_for env version platform name archive checksums anchor blobs serving =
     [(''schema_version'', JInt 1), (''verification_scope'', JStr ''signed-native-release-asset''), (''version'', JStr version),
      (''platform'', JStr platform), (''archive'', JStr name), (''archive_sha256'', JStr (sha256_hex env archive)),
      (''checksum_manifest_sha256'', JStr (sha256_hex env checksums)), (''trust_anchor_sha256'', JStr (sha256_hex env anchor)),
      (''serving_files'', JArr (map (\<lambda>b. JStr (af_path b)) blobs)), (''serving_payload_sha256'', JStr serving),
      (''payload'', JArr (map (\<lambda>b. JObj (payload_entry b (af_sha256 b))) blobs))]"

definition sidecar_for :: "string \<Rightarrow> string \<Rightarrow> jdict" where
  "sidecar_for receipt_sha256 serving =
     [(''schema_version'', JInt 1), (''algorithm'', JStr ''sha256''), (''receipt_sha256'', JStr receipt_sha256),
      (''serving_payload_sha256'', JStr serving)]"

definition minted_from :: "py_env \<Rightarrow> artifact_file list \<Rightarrow> string \<Rightarrow> (string \<Rightarrow> jdict) \<Rightarrow> verified_artifact res" where
  "minted_from env blobs serving receipt =
     res_bind (canonical_json env (JObj (receipt serving))) (\<lambda>raw.
       mint env blobs (receipt serving) (sidecar_for (sha256_hex env raw) serving))"

text \<open>The bytes of the release: the archive and its manifest, each with the digest the signed checksums give.\<close>

definition release_bytes :: "lifecycle_env \<Rightarrow> path \<Rightarrow> string \<Rightarrow> bytes \<Rightarrow> (bytes \<times> bytes) io" where
  "release_bytes env archive platform checksums =
     act_bind (read_bytes archive) (\<lambda>content.
     act_bind (read_bytes (platform_manifest archive platform)) (\<lambda>manifest.
     act_bind (act_lift (parse_checksums checksums)) (\<lambda>sums.
       if map_of sums (path_name archive) = Some (sha256_hex (lpy env) content)
          \<and> map_of sums (path_name (platform_manifest archive platform)) = Some (sha256_hex (lpy env) manifest)
       then act_return (content, manifest) else act_raise (install_error ''release assets do not match signed SHA256SUMS''))))"

definition admit_asset :: "artifact_env \<Rightarrow> lifecycle_env \<Rightarrow> path \<Rightarrow> path \<Rightarrow> verified_artifact io" where
  "admit_asset aenv env asset trust_anchor =
     act_bind (admitted_archive asset) (\<lambda>archive.
       case archive_identity (path_name archive) of
         None \<Rightarrow> act_raise (install_error ''native release archive name is invalid'')
       | Some (version, platform) \<Rightarrow>
           act_bind (admitted_anchor trust_anchor) (\<lambda>anchor.
           act_then (require_release_files archive platform anchor)
          (act_bind (read_bytes (checksums_at archive)) (\<lambda>checksums.
           act_then (verify_signature aenv checksums (signature_at archive) anchor)
          (act_bind (release_bytes env archive platform checksums) (\<lambda>(content, manifest).
           act_bind (act_lift (verify_archive (lpy env) content manifest version platform)) (\<lambda>document.
           act_bind (act_lift (archive_blobs aenv (lpy env) content document)) (\<lambda>blobs.
           act_bind (read_bytes anchor) (\<lambda>anchored.
           act_bind (act_lift (validated_serving_payload_sha256 (lpy env) (digests_of blobs))) (\<lambda>serving.
             act_lift (minted_from (lpy env) blobs serving
               (receipt_for (lpy env) version platform (path_name archive) content checksums anchored blobs))))))))))))"

end
