(* ===== verification/Artifact_Facts.thy ===== *)
theory Artifact_Facts
  imports Artifact Disposal
begin

text \<open>
  What admission of a release guarantees: every byte of an admitted artifact is covered by the signed checksums, and
  its bytes can be claimed exactly once.
\<close>

section \<open>Reading only\<close>

lemma reads_admission [reads]:
  "keeps nodes (file_size p)" "keeps nodes (admitted_archive asset)" "keeps nodes (admitted_anchor p)"
  "keeps nodes (require_release_files archive platform anchor)" "keeps nodes (verify_signature aenv content signature anchor)"
  "keeps nodes (release_bytes env archive platform checksums)"
proof -
  show s: "keeps nodes (file_size p)" for p
    unfolding file_size_def by (intro keeps_rules reads) (auto intro!: reads split: option.splits node.splits)
  show "keeps nodes (admitted_archive asset)" unfolding admitted_archive_def by (intro keeps_rules reads s)
  show "keeps nodes (admitted_anchor p)" unfolding admitted_anchor_def by (intro keeps_rules reads)
  show "keeps nodes (require_release_files archive platform anchor)"
    unfolding require_release_files_def by (auto intro!: keeps_rules reads)
  show "keeps nodes (verify_signature aenv content signature anchor)"
    unfolding verify_signature_def verify_signer_def by (intro keeps_rules reads) (auto intro!: keeps_rules reads split: list.splits prod.splits)
  show "keeps nodes (release_bytes env archive platform checksums)" unfolding release_bytes_def by (intro keeps_rules reads)
qed

lemma reads_admit [reads]: "keeps nodes (admit_asset aenv env asset anchor)"
  unfolding admit_asset_def by (intro keeps_rules reads)

section \<open>What a step that succeeds has seen\<close>

definition file_holds :: "nodes \<Rightarrow> path \<Rightarrow> bytes \<Rightarrow> bool" where
  "file_holds fs p content \<longleftrightarrow> (\<exists>i. stat fs p = Some (Regular i content))"

definition signed :: "artifact_env \<Rightarrow> nodes \<Rightarrow> path \<Rightarrow> path \<Rightarrow> bytes \<Rightarrow> bool" where
  "signed aenv fs signature anchor content \<longleftrightarrow>
     (\<exists>signer printed. find_principals aenv fs signature anchor content = (0, printed) \<and> filter (\<lambda>l. l \<noteq> []) printed = [signer]
        \<and> verify_signed aenv fs signature anchor signer RELEASE_NAMESPACE content = 0)"

lemma os_call_files: "os_call w = (r, w') \<Longrightarrow> nodes w' = nodes w"
  by (rule keepsD [OF keeps_nodes_basic(4)])

lemma after_os_call:
  assumes "act_then os_call (with_fs f) w = (Inr y, w')"
  obtains w1 where "f (nodes w) w1 = (Inr y, w')" "nodes w1 = nodes w"
  using assms unfolding act_then_run with_fs_run by (metis os_call_files)

lemma read_bytes_holds: "read_bytes p w = (Inr content, w') \<Longrightarrow> file_holds (nodes w) p content"
  unfolding read_bytes_def file_holds_def
  by (erule after_os_call) (auto simp: act_return_run act_raise_run split: option.splits node.splits)

lemma resolve_strict_path: "resolve_strict p w = (Inr q, w') \<Longrightarrow> real_path (nodes w) p = Some q"
  unfolding resolve_strict_def
  by (erule after_os_call) (auto simp: act_return_run act_raise_run split: option.splits if_splits)

lemma verify_signature_signed:
  assumes "verify_signature aenv content signature anchor w = (Inr (), w')"
  shows "signed aenv (nodes w) signature anchor content"
proof -
  have "act_then os_call (with_fs (verify_signer aenv content signature anchor)) w = (Inr (), w')"
    using assms by (auto simp: verify_signature_def act_raise_run split: if_split_asm)
  then show ?thesis
    unfolding signed_def verify_signer_def
    by (rule after_os_call) (auto simp: Let_def act_then_run act_raise_run act_return_run split: prod.splits list.splits if_splits)
qed

lemma release_bytes_listed:
  assumes "release_bytes env archive platform checksums w = (Inr (content, manifest), w')"
  shows "\<exists>sums. parse_checksums checksums = Inr sums \<and> file_holds (nodes w) archive content
    \<and> file_holds (nodes w) (platform_manifest archive platform) manifest
    \<and> map_of sums (path_name archive) = Some (sha256_hex (lpy env) content)
    \<and> map_of sums (path_name (platform_manifest archive platform)) = Some (sha256_hex (lpy env) manifest)"
proof -
  let ?listed = "\<lambda>sums. map_of sums (path_name archive) = Some (sha256_hex (lpy env) content)
    \<and> map_of sums (path_name (platform_manifest archive platform)) = Some (sha256_hex (lpy env) manifest)"
  obtain c m sums w1 w2 w3 where "read_bytes archive w = (Inr c, w1)" "read_bytes (platform_manifest archive platform) w1 = (Inr m, w2)"
    and sums: "parse_checksums checksums = Inr sums"
    and "(if map_of sums (path_name archive) = Some (sha256_hex (lpy env) c)
          \<and> map_of sums (path_name (platform_manifest archive platform)) = Some (sha256_hex (lpy env) m)
       then act_return (c, m) else act_raise (install_error ''release assets do not match signed SHA256SUMS'')) w3 = (Inr (content, manifest), w')"
    using assms unfolding release_bytes_def act_bind_run act_lift_run by blast
  then have "read_bytes archive w = (Inr content, w1)" "read_bytes (platform_manifest archive platform) w1 = (Inr manifest, w2)" "?listed sums"
    by (simp_all add: act_return_run act_raise_run split: if_split_asm)
  note this sums
  moreover from this(1) have "nodes w1 = nodes w" by (rule keepsD [OF read_calls(1)])
  ultimately show ?thesis by (auto dest: read_bytes_holds)
qed

section \<open>The members of an archive\<close>

definition comes_from :: "py_env \<Rightarrow> string dict \<Rightarrow> string \<Rightarrow> tar_member list \<Rightarrow> artifact_file \<Rightarrow> bool" where
  "comes_from env files lead ms b \<longleftrightarrow>
     (\<exists>m\<in>set ms. tm_isfile m \<and> tm_name m = lead @ af_path b \<and> tm_content m = Inr (af_content b))
     \<and> map_of files (af_path b) = Some (sha256_hex env (af_content b))
     \<and> af_sha256 b = sha256_hex env (af_content b) \<and> af_mode b \<in> {''100644'', ''100755''}"

lemma member_blob_checked:
  assumes "member_blob env files lead exe_name seen m = Inr (relative, b)"
  shows "relative \<in> set (map fst files)" "relative \<notin> set seen"
    "(case b of None \<Rightarrow> [] | Some x \<Rightarrow> [af_path x]) = filter (\<lambda>r. r \<noteq> ''LICENSE'') [relative]"
    "b = Some x \<Longrightarrow> comes_from env files lead [m] x"
proof -
  have name: "tm_name m = lead @ relative" "tm_isfile m" and key: "has_key files relative" and new: "relative \<notin> set seen"
    using assms by (auto simp: member_blob_def Let_def starts_with_def split: if_split_asm) (metis append_take_drop_id)+
  then show "relative \<in> set (map fst files)" "relative \<notin> set seen" by (simp_all add: has_key_def)
  obtain content where c: "tm_content m = Inr content" "map_of files relative = Some (sha256_hex env content)"
    and b: "relative = ''LICENSE'' \<and> b = None \<or> relative \<noteq> ''LICENSE'' \<and> b = Some (blob_of relative (sha256_hex env content) content (relative = exe_name))"
    using assms by (auto simp: member_blob_def Let_def split: if_split_asm)
  show "(case b of None \<Rightarrow> [] | Some x \<Rightarrow> [af_path x]) = filter (\<lambda>r. r \<noteq> ''LICENSE'') [relative]"
    using b by (auto simp: blob_of_def)
  show "b = Some x \<Longrightarrow> comes_from env files lead [m] x" using b c name by (auto simp: comes_from_def blob_of_def)
qed

lemma comes_from_more: "comes_from env files lead ms b \<Longrightarrow> set ms \<subseteq> set ms' \<Longrightarrow> comes_from env files lead ms' b"
  by (auto simp: comes_from_def)

lemma member_blobs_checked:
  "member_blobs env files lead exe_name seen ms = Inr bs \<Longrightarrow>
   (\<forall>b\<in>set bs. comes_from env files lead ms b)
   \<and> (\<exists>rels. length rels = length ms \<and> distinct rels \<and> set rels \<inter> set seen = {} \<and> set rels \<subseteq> set (map fst files)
        \<and> map af_path bs = filter (\<lambda>r. r \<noteq> ''LICENSE'') rels)"
proof (induction ms arbitrary: seen bs)
  case (Cons m ms)
  then obtain relative b bs' where one: "member_blob env files lead exe_name seen m = Inr (relative, b)"
    and more: "member_blobs env files lead exe_name (relative # seen) ms = Inr bs'"
    and bs: "bs = (case b of None \<Rightarrow> [] | Some x \<Rightarrow> [x]) @ bs'" by auto
  from Cons.IH [OF more] obtain rels where rels: "length rels = length ms" "distinct rels" "set rels \<inter> set (relative # seen) = {}"
    "set rels \<subseteq> set (map fst files)" "map af_path bs' = filter (\<lambda>r. r \<noteq> ''LICENSE'') rels" by blast
  have "map af_path bs = filter (\<lambda>r. r \<noteq> ''LICENSE'') (relative # rels)"
    using member_blob_checked(3) [OF one] rels(5) bs by (cases b) (auto split: if_splits)
  moreover have "\<forall>b\<in>set bs. comes_from env files lead (m # ms) b"
    using Cons.IH [OF more] member_blob_checked(4) [OF one] bs by (auto intro: comes_from_more split: option.splits)
  ultimately show ?case
    using rels member_blob_checked(1,2) [OF one] by (intro conjI exI [of _ "relative # rels"]) auto
qed simp

lemma res_catch_refused [simp]: "res_catch caught m (\<lambda>_. Inl e) = Inr y \<longleftrightarrow> m = Inr y"
  by (auto simp: res_catch_def split: sum.splits)

lemma archive_blobs_checked:
  assumes "archive_blobs aenv env archive d = Inr blobs"
  obtains files members lead where "declared_digests d = Inr files" "tar_members aenv archive = Inr members"
    "\<forall>b\<in>set blobs. comes_from env files lead members b" "distinct (map af_path blobs)"
    "set (map af_path blobs) = set (map fst files) - {''LICENSE''}"
proof -
  define lead where "lead = PRODUCT_SLUG @ ''-'' @ field_text d ''version'' @ ''-'' @ field_text d ''platform'' @ ''/''"
  obtain files members bs where f: "declared_digests d = Inr files" "tar_members aenv archive = Inr members" "length members = length files"
    and bs: "member_blobs env files lead (executable_name (on_windows (field_text d ''platform''))) [] members = Inr bs" "blobs = sort_key af_path bs"
    using assms by (auto simp: archive_blobs_def lead_def Let_def split: if_split_asm)
  from member_blobs_checked [OF bs(1)] obtain rels where from_archive: "\<forall>b\<in>set bs. comes_from env files lead members b"
    and rels: "length rels = length files" "distinct rels" "set rels \<subseteq> set (map fst files)" "map af_path bs = filter (\<lambda>r. r \<noteq> ''LICENSE'') rels"
    using f(3) by auto
  have "card (set (map fst files)) \<le> card (set rels)" using rels(1,2) by (metis card_length distinct_card length_map)
  then have all: "set rels = set (map fst files)" by (intro card_seteq [OF _ rels(3)]) auto
  have "mset (map af_path blobs) = mset (map af_path bs)" by (simp add: bs(2))
  then have "set (map af_path blobs) = set (map af_path bs)" "distinct (map af_path blobs) = distinct (map af_path bs)"
    by (metis set_mset_mset, metis distinct_map mset_eq_imp_distinct_iff)
  then show ?thesis
    using f from_archive rels all by (intro that [of files members lead]) (auto simp: bs(2))
qed

section \<open>Admission\<close>

definition listed :: "py_env \<Rightarrow> string dict \<Rightarrow> nodes \<Rightarrow> path \<Rightarrow> bytes \<Rightarrow> bool" where
  "listed env sums fs p content \<longleftrightarrow> file_holds fs p content \<and> map_of sums (path_name p) = Some (sha256_hex env content)"

lemma admitted_archive_path: "admitted_archive asset d = (Inr archive, d') \<Longrightarrow> real_path (nodes d) asset = Some archive"
  by (auto simp: admitted_archive_def Let_def with_fs_run act_bind_run act_then_run act_return_run act_raise_run dest!: resolve_strict_path
      split: if_split_asm)

lemma admitted_anchor_path: "admitted_anchor p d = (Inr q, d') \<Longrightarrow> real_path (nodes d) p = Some q"
  by (auto simp: admitted_anchor_def with_fs_run act_raise_run dest: resolve_strict_path split: if_split_asm)

lemma admit_steps:
  assumes "admit_asset aenv env asset anchor d = (Inr a, d')"
  obtains archive version platform key checksums sums content manifest document blobs anchored serving where
    "real_path (nodes d) asset = Some archive" "archive_identity (path_name archive) = Some (version, platform)"
    "real_path (nodes d) anchor = Some key" "file_holds (nodes d) (checksums_at archive) checksums"
    "signed aenv (nodes d) (signature_at archive) key checksums" "parse_checksums checksums = Inr sums"
    "listed (lpy env) sums (nodes d) archive content"
    "listed (lpy env) sums (nodes d) (platform_manifest archive platform) manifest"
    "verify_archive (lpy env) content manifest version platform = Inr document"
    "archive_blobs aenv (lpy env) content document = Inr blobs"
    "validated_serving_payload_sha256 (lpy env) (digests_of blobs) = Inr serving"
    "minted_from (lpy env) blobs serving
       (receipt_for (lpy env) version platform (path_name archive) content checksums anchored blobs) = Inr a"
proof -
  obtain archive d1 where archive: "admitted_archive asset d = (Inr archive, d1)"
    and "archive_identity (path_name archive) \<noteq> None"
    using assms unfolding admit_asset_def act_bind_run by (auto simp: act_raise_run split: option.splits)
  then obtain version platform where name: "archive_identity (path_name archive) = Some (version, platform)" by auto
  obtain key checksums content manifest document blobs anchored serving d2 d3 d4 d5 d6 d7 where
    key: "admitted_anchor anchor d1 = (Inr key, d2)" and there: "require_release_files archive platform key d2 = (Inr (), d3)"
    and sums: "read_bytes (checksums_at archive) d3 = (Inr checksums, d4)"
    and sig: "verify_signature aenv checksums (signature_at archive) key d4 = (Inr (), d5)"
    and got: "release_bytes env archive platform checksums d5 = (Inr (content, manifest), d6)"
    and rest: "verify_archive (lpy env) content manifest version platform = Inr document"
      "archive_blobs aenv (lpy env) content document = Inr blobs"
      "validated_serving_payload_sha256 (lpy env) (digests_of blobs) = Inr serving"
      "minted_from (lpy env) blobs serving
         (receipt_for (lpy env) version platform (path_name archive) content checksums anchored blobs) = Inr a"
    using assms archive name unfolding admit_asset_def act_bind_run act_then_run act_lift_run
    by (auto simp: act_bind_run act_then_run act_lift_run)
  have same: "nodes d1 = nodes d" "nodes d2 = nodes d1" "nodes d3 = nodes d2" "nodes d4 = nodes d3" "nodes d5 = nodes d4"
    using keepsD [OF reads_admission(2) archive] keepsD [OF reads_admission(3) key] keepsD [OF reads_admission(4) there]
      keepsD [OF read_calls(1) sums] keepsD [OF reads_admission(5) sig] by simp_all
  obtain table where "parse_checksums checksums = Inr table" "listed (lpy env) table (nodes d) archive content"
    "listed (lpy env) table (nodes d) (platform_manifest archive platform) manifest"
    using release_bytes_listed [OF got] same by (auto simp: listed_def)
  then show ?thesis
    using that [OF admitted_archive_path [OF archive] name _ _ _ _ _ _ rest] admitted_anchor_path [OF key] read_bytes_holds [OF sums]
      verify_signature_signed [OF sig] same by simp
qed

lemma receipt_fields:
  "jget (receipt_for env version platform name archive checksums anchored blobs serving) ''version'' = JStr version"
  "jget (receipt_for env version platform name archive checksums anchored blobs serving) ''payload'' =
     JArr (map (\<lambda>b. JObj (payload_entry b (af_sha256 b))) blobs)"
  "jget (receipt_for env version platform name archive checksums anchored blobs serving) ''serving_files'' = JArr (map (\<lambda>b. JStr (af_path b)) blobs)"
  "jget (receipt_for env version platform name archive checksums anchored blobs serving) ''serving_payload_sha256'' = JStr serving"
  by (simp_all add: receipt_for_def jget_def)

lemma sidecar_fields:
  "jget (sidecar_for sha serving) ''schema_version'' = JInt 1" "jget (sidecar_for sha serving) ''algorithm'' = JStr ''sha256''"
  "jget (sidecar_for sha serving) ''receipt_sha256'' = JStr sha" "jget (sidecar_for sha serving) ''serving_payload_sha256'' = JStr serving"
  by (simp_all add: sidecar_for_def jget_def)

lemma minted_parts:
  assumes "minted_from env blobs serving receipt = Inr a"
  obtains raw where "canonical_json env (JObj (receipt serving)) = Inr raw"
    "a = \<lparr>va_blobs = blobs, va_receipt = receipt serving, va_sidecar = sidecar_for (sha256_hex env raw) serving,
          va_receipt_sha256 = sha256_hex env raw, va_issued = True, va_claimed = False\<rparr>"
  using assms by (auto simp: minted_from_def mint_def split: if_split_asm)

lemma entries_intact:
  "\<forall>b\<in>set blobs. af_sha256 b = sha256_hex env (af_content b) \<Longrightarrow>
   list_all2 (entry_intact env) (map (\<lambda>b. JObj (payload_entry b (af_sha256 b))) blobs) blobs"
  by (induction blobs) (auto simp: entry_intact_def Let_def payload_entry_def keys_exactly_def keys_within_def has_key_def jget_def)

lemma minted_intact:
  assumes minted: "minted_from env blobs serving (receipt_for env version platform name archive checksums anchored blobs) = Inr a"
    and sha: "\<forall>b\<in>set blobs. af_sha256 b = sha256_hex env (af_content b)"
    and serving: "validated_serving_payload_sha256 env (digests_of blobs) = Inr serving"
  shows "verify_integrity env a = Inr ()"
proof -
  obtain raw where raw: "canonical_json env (JObj (receipt_for env version platform name archive checksums anchored blobs serving)) = Inr raw"
    and a: "a = \<lparr>va_blobs = blobs, va_receipt = receipt_for env version platform name archive checksums anchored blobs serving,
      va_sidecar = sidecar_for (sha256_hex env raw) serving, va_receipt_sha256 = sha256_hex env raw, va_issued = True, va_claimed = False\<rparr>"
    using minted_parts [OF minted] by blast
  have "integrity_header a (sha256_hex env raw)"
    by (simp add: a integrity_header_def sidecar_fields receipt_fields RECEIPT_SCHEMA_def)
  moreover have "filter (\<lambda>b. JStr (af_path b) \<in> set (map (\<lambda>b. JStr (af_path b)) blobs)) blobs = blobs" by (simp add: filter_id_conv)
  ultimately show ?thesis
    using entries_intact [OF sha] by (simp add: verify_integrity_def a raw receipt_fields serving del: set_map)
qed

lemma integrity_after_claim: "verify_integrity env (a\<lparr>va_claimed := True\<rparr>) = verify_integrity env a"
proof -
  have same: "va_blobs (a\<lparr>va_claimed := True\<rparr>) = va_blobs a" "va_receipt (a\<lparr>va_claimed := True\<rparr>) = va_receipt a"
    "va_sidecar (a\<lparr>va_claimed := True\<rparr>) = va_sidecar a" "va_receipt_sha256 (a\<lparr>va_claimed := True\<rparr>) = va_receipt_sha256 a" by simp_all
  show ?thesis unfolding verify_integrity_def integrity_header_def same by (rule refl)
qed

section \<open>What admission guarantees\<close>

text \<open>
  Claim C15.  Admission reads files and changes none.  When it admits an artifact, the checksum file beside the archive has a
  signature that \<open>ssh-keygen\<close> verifies for the one principal the trust anchor authorizes, these signed checksums list the
  digest of the archive and of the platform manifest, and the manifest lists the digest of every file of the artifact:
  each is a regular member of the archive, no path occurs twice, none is missing and none is added but the license.
\<close>

theorem admitted_is_signed:
  "case admit_asset aenv env asset trust_anchor d of
     (Inr a, d') \<Rightarrow>
       nodes d' = nodes d \<and>
       (\<exists>archive version platform key checksums sums content manifest document files members lead.
          real_path (nodes d) asset = Some archive \<and> archive_identity (path_name archive) = Some (version, platform)
          \<and> real_path (nodes d) trust_anchor = Some key
          \<and> file_holds (nodes d) (checksums_at archive) checksums \<and> signed aenv (nodes d) (signature_at archive) key checksums
          \<and> parse_checksums checksums = Inr sums
          \<and> listed (lpy env) sums (nodes d) archive content
          \<and> listed (lpy env) sums (nodes d) (platform_manifest archive platform) manifest
          \<and> verify_archive (lpy env) content manifest version platform = Inr document
          \<and> declared_digests document = Inr files \<and> tar_members aenv content = Inr members
          \<and> artifact_version a = version
          \<and> list_all (comes_from (lpy env) files lead members) (va_blobs a)
          \<and> distinct (map af_path (va_blobs a)) \<and> set (map af_path (va_blobs a)) = set (map fst files) - {''LICENSE''})
   | (Inl e, d') \<Rightarrow> nodes d' = nodes d"
proof (cases "admit_asset aenv env asset trust_anchor d")
  case (Pair r d')
  then have same: "nodes d' = nodes d" by (rule keepsD [OF reads_admit])
  show ?thesis
  proof (cases r)
    case (Inr a)
    from Pair [unfolded this] show ?thesis
    proof (rule admit_steps)
      fix archive version platform key checksums sums content manifest document blobs anchored serving
      assume "archive_blobs aenv (lpy env) content document = Inr blobs"
      then obtain files members lead where files: "declared_digests document = Inr files" "tar_members aenv content = Inr members"
        "\<forall>b\<in>set blobs. comes_from (lpy env) files lead members b" "distinct (map af_path blobs)"
        "set (map af_path blobs) = set (map fst files) - {''LICENSE''}" by (rule archive_blobs_checked)
      from files(3) have all: "list_all (comes_from (lpy env) files lead members) blobs" by (simp add: list_all_iff)
      assume "minted_from (lpy env) blobs serving
          (receipt_for (lpy env) version platform (path_name archive) content checksums anchored blobs) = Inr a"
      then have blobs: "va_blobs a = blobs" and "artifact_version a = version"
        by (auto elim!: minted_parts simp: artifact_version_def field_text_def receipt_fields)
      moreover assume "real_path (nodes d) asset = Some archive" "archive_identity (path_name archive) = Some (version, platform)"
        "real_path (nodes d) trust_anchor = Some key" "file_holds (nodes d) (checksums_at archive) checksums"
        "signed aenv (nodes d) (signature_at archive) key checksums" "parse_checksums checksums = Inr sums"
        "listed (lpy env) sums (nodes d) archive content" "listed (lpy env) sums (nodes d) (platform_manifest archive platform) manifest"
        "verify_archive (lpy env) content manifest version platform = Inr document"
      ultimately show ?thesis
        unfolding Pair Inr prod.case sum.case blobs using same files(1,2,4,5) all by (intro conjI exI) assumption+
    qed
  qed (use Pair same in simp)
qed

text \<open>
  Claim C16.  The bytes of an admitted artifact can be claimed: the integrity check of the artifact passes, and the claim
  gives its files, its version, its receipt and its sidecar.  They can be claimed once: the claim marks the artifact and a second claim
  is refused.
\<close>

theorem admitted_claimed_once:
  "case admit_asset aenv env asset trust_anchor d of
     (Inr a, d') \<Rightarrow>
       claim (lpy env) a = (Inr (va_blobs a, artifact_version a, va_receipt_sha256 a, va_receipt a, va_sidecar a), a\<lparr>va_claimed := True\<rparr>)
       \<and> claim (lpy env) (a\<lparr>va_claimed := True\<rparr>)
           = (Inl (artifact_error ''verified artifact bytes were already claimed''), a\<lparr>va_claimed := True\<rparr>)
   | (Inl e, d') \<Rightarrow> nodes d' = nodes d"
proof (cases "admit_asset aenv env asset trust_anchor d")
  case (Pair r d')
  show ?thesis
  proof (cases r)
    case (Inr a)
    from Pair [unfolded this] have "verify_integrity (lpy env) a = Inr () \<and> va_issued a \<and> \<not> va_claimed a"
    proof (rule admit_steps)
      fix archive version platform checksums content document blobs anchored serving
      assume minted: "minted_from (lpy env) blobs serving
          (receipt_for (lpy env) version platform (path_name archive) content checksums anchored blobs) = Inr a"
      assume "archive_blobs aenv (lpy env) content document = Inr blobs"
      then have "\<forall>b\<in>set blobs. af_sha256 b = sha256_hex (lpy env) (af_content b)"
        by (rule archive_blobs_checked) (auto simp: comes_from_def)
      moreover assume "validated_serving_payload_sha256 (lpy env) (digests_of blobs) = Inr serving"
      moreover from minted have "va_issued a" "\<not> va_claimed a" by (auto elim: minted_parts)
      ultimately show ?thesis using minted_intact [OF minted] by simp
    qed
    then show ?thesis by (simp add: Pair Inr claim_def integrity_after_claim)
  qed (use Pair keepsD [OF reads_admit Pair] in simp)
qed

end
