(* ===== verification/Control_Facts.thy ===== *)
theory Control_Facts
  imports Control Deploy_Facts Disposal
begin

text \<open>
  What the user's operations guarantee: reading the status changes nothing and says that the service runs
  only with proof, and nothing of an installation is removed before its service is gone.
\<close>

section \<open>Files that are only read\<close>

lemma keeps_handled_files: "keeps nodes m \<Longrightarrow> (\<And>e. keeps nodes (g e)) \<Longrightarrow> keeps nodes (act_catch m (\<lambda>e. if b e then Some (g e) else None))"
  by (rule keeps_catch) (auto split: if_splits)

lemmas reading_rules = keeps_rules keeps_handled_files keeps_sum reads

lemma reads_journal [reads]: "keeps nodes (read_journal env ctx)" "keeps nodes (status env ctx)" "keeps nodes (read_installed env ctx)"
proof -
  show j: "keeps nodes (read_journal env ctx)" unfolding read_journal_def by (intro reading_rules)
  show "keeps nodes (status env ctx)" unfolding status_def by (intro reading_rules j)
  show "keeps nodes (read_installed env ctx)" unfolding read_installed_def by (intro reading_rules)
qed

lemma reads_verified [reads]:
  "keeps nodes (files_verified env base files)" "keeps nodes (receipt_verified env base receipt message)"
  "keeps nodes (verify_manifest env base manifest)" "keeps nodes (verify_payload_manifest env ctx)"
proof -
  show f: "keeps nodes (files_verified env base files)" for base files
    by (induction env base files rule: files_verified.induct) (auto intro!: reading_rules split: json.splits)
  show r: "keeps nodes (receipt_verified env base receipt message)" for base receipt message
    unfolding receipt_verified_def by (auto intro!: reading_rules split: json.splits)
  have u: "keeps nodes (unless b message m)" if "keeps nodes m" for b message m using that by (auto simp: unless_def intro: reads)
  show v: "keeps nodes (verify_manifest env base manifest)" for base manifest
    unfolding verify_manifest_def
    by (auto intro!: u keeps_bind f r reads split: json.splits sum.splits option.splits py_exc.splits)
  show "keeps nodes (verify_payload_manifest env ctx)"
    unfolding verify_payload_manifest_def by (intro reading_rules u v)
qed

lemma reads_contexts [reads]: "keeps nodes (contexts_of ctx es)" "keeps nodes (owned_contexts ctx)" "keeps nodes (selected_context env ctx)"
proof -
  show c: "keeps nodes (contexts_of ctx es)" for es by (induction es) (auto intro!: reading_rules)
  show "keeps nodes (owned_contexts ctx)" unfolding owned_contexts_def by (intro reading_rules c)
  show "keeps nodes (selected_context env ctx)" unfolding selected_context_def by (intro reading_rules)
qed

lemma reads_retained [reads]: "keeps nodes (load_retained_or_none env ctx)" "keeps nodes (retained_status env ctx)"
proof -
  have store: "keeps nodes (require_closed_generation_store ctx selection)" for selection
    unfolding require_closed_generation_store_def by (intro reading_rules)
  have sel: "keeps nodes (load_selected env ctx s pred)" for s pred
    unfolding load_selected_def by (intro keeps_bind reads) (auto intro!: reads split: option.splits)
  show l: "keeps nodes (load_retained_or_none env ctx)"
    unfolding load_retained_or_none_def by (intro reading_rules store sel)
  show "keeps nodes (retained_status env ctx)" unfolding retained_status_def by (intro reading_rules l)
qed

section \<open>Actions that leave the files alone\<close>

definition files_of :: "host \<Rightarrow> nodes" where
  "files_of w = nodes (h_disk w)"

named_theorems harmless \<open>actions on the host that leave the files alone\<close>

lemma harmless_basic [harmless]:
  "keeps files_of (act_return x)" "keeps files_of (act_raise e)" "keeps files_of (act_lift r)" "keeps files_of (look f)"
  "keeps files_of (called c)" "keeps files_of (elapse t)" "keeps files_of monotonic" "keeps files_of file_tree"
  by (rule keepsI, auto simp: files_of_def act_return_def act_raise_def act_lift_def look_def called_def act_modify_def elapse_def
      monotonic_def file_tree_def)+

lemma harmless_files [harmless]: "keeps nodes m \<Longrightarrow> keeps files_of (on_files m)"
  by (rule keepsI) (auto simp: on_files_def files_of_def dest: keepsD split: prod.splits)

lemma harmless_handled [harmless]:
  "keeps files_of m \<Longrightarrow> (\<And>e. keeps files_of (g e)) \<Longrightarrow> keeps files_of (act_catch m (\<lambda>e. if b e then Some (g e) else None))"
  by (rule keeps_catch) (auto split: if_splits)

lemma harmless_reply [harmless]:
  "(\<And>c raw. keeps f (g c raw)) \<Longrightarrow> (\<And>c. keeps f (h c)) \<Longrightarrow> keeps f m \<Longrightarrow>
   keeps f (case r of Http_reply c raw \<Rightarrow> g c raw | Http_error c \<Rightarrow> h c | Http_unavailable \<Rightarrow> m)"
  by (cases r) auto

lemma harmless_filter [harmless]: "(\<And>x. keeps files_of (f x)) \<Longrightarrow> keeps files_of (filter_act f xs)"
  by (induction xs) (auto intro!: keeps_bind harmless_basic)

lemmas [harmless] = keeps_bind keeps_then keeps_if keeps_option keeps_prod keeps_sum keeps_json keeps_each

lemma looking_harmless [harmless]:
  "keeps files_of (process_argv env pid)" "keeps files_of (capture_executable env pid x roles)"
  "keeps files_of (pid_names_executable env pid x roles)" "keeps files_of (listener_pids env n)"
  "keeps files_of (process_inventory env)" "keeps files_of (native_status env ctx)" "keeps files_of (end_process env pid timeout)"
  "keeps files_of (supervise env operation ctx)" "keeps files_of (no_root ctx)" "keeps files_of (read_runtime env ctx)"
  unfolding process_argv_def capture_executable_def pid_names_executable_def listener_pids_def process_inventory_def native_status_def
    end_process_def supervise_def no_root_def read_runtime_def
  by (intro harmless)+

lemma processes_harmless [harmless]:
  "keeps files_of (verified_proxy_listener_pids env ctx)" "keeps files_of (runtime_pids env ctx)"
  "keeps files_of (terminate_executable env pid x roles timeout)" "keeps files_of (runtime_process env ctx runtime)"
  unfolding verified_proxy_listener_pids_def runtime_pids_def pids_naming_executable_def terminate_executable_def runtime_process_def
  by (intro harmless)+

lemma terminate_harmless [harmless]: "keeps files_of (terminate_runtime env ctx timeout)"
  unfolding terminate_runtime_def end_runtime_process_def by (intro harmless)

lemma observing_harmless [harmless]:
  "keeps files_of (observed_installed env ctx)" "keeps files_of (observed_integrity env ctx)" "keeps files_of (observed_service env ctx)"
  "keeps files_of (control_executable env ctx selected)" "keeps files_of (rollback_evidence env ctx pending)"
  unfolding observed_installed_def observed_integrity_def observed_service_def control_executable_def rollback_evidence_def
  by (intro harmless reads)+

lemma observed_runtime_harmless [harmless]: "keeps files_of (observed_runtime env ctx ok)"
  unfolding observed_runtime_def by (intro harmless reads)

lemma evidence_harmless [harmless]: "keeps files_of (status_evidence env ctx include_rollback selected a b c)"
  unfolding status_evidence_def by (cases a; cases b; cases c) (simp, intro harmless reads)

lemma status_harmless: "keeps files_of (control_status env ctx include_rollback)"
  unfolding control_status_def by (intro harmless reads)

lemma stopping_harmless [harmless]: "keeps files_of (stop_proxy env ctx)" "keeps files_of (remove_service env ctx)"
proof -
  have "keeps files_of (stop_each env cs)" for cs by (induction cs) (auto intro!: harmless)
  then show "keeps files_of (stop_proxy env ctx)" unfolding stop_proxy_def by (intro harmless reads)
  show "keeps files_of (remove_service env ctx)" unfolding remove_service_def by (intro harmless)
qed

section \<open>Removal comes last\<close>

text \<open>The process table showed no process of the executable.\<close>

definition empty_between :: "host_env \<Rightarrow> runtime_context \<Rightarrow> host \<Rightarrow> host \<Rightarrow> bool" where
  "empty_between env ctx w w' \<longleftrightarrow> (\<exists>u u'. runtime_pids env ctx u = (Inr [], u') \<and> h_looks w \<le> h_looks u \<and> h_looks u' \<le> h_looks w')"

text \<open>The service manager reported the service absent, and no process of the executable was left.\<close>

definition gone :: "host_env \<Rightarrow> runtime_context \<Rightarrow> host \<Rightarrow> host \<Rightarrow> bool" where
  "gone env ctx w w' \<longleftrightarrow>
     (\<exists>n. h_looks w \<le> n \<and> n < h_looks w' \<and> service_status env n ctx = Inr ''absent'')
     \<and> empty_between env ctx w w'"

lemma gone_more: "gone env ctx u v \<Longrightarrow> h_looks w \<le> h_looks u \<Longrightarrow> h_looks v \<le> h_looks w' \<Longrightarrow> gone env ctx w w'"
  unfolding gone_def empty_between_def by (meson order.trans order.strict_trans2)

abbreviation watching :: "'a host_act \<Rightarrow> bool" where
  "watching \<equiv> emits (\<lambda>_. True)"

lemma more_emits [emitting]:
  "emits P (native_status env ctx)" "emits P (no_root ctx)" "emits P (runtime_pids env ctx)"
  unfolding native_status_def no_root_def runtime_pids_def by (intro emitting)+

lemma watching_terminate: "watching (terminate_runtime env ctx timeout)"
  unfolding terminate_runtime_def end_runtime_process_def terminate_executable_def end_process_def by (intro emitting) simp_all

lemma terminate_empties:
  assumes "terminate_runtime env c timeout w = (Inr n, w')"
  shows "empty_between env c w w'"
proof -
  from assms obtain pids w1 u w2 remaining where 1: "runtime_pids env c w = (Inr pids, w1)"
    "act_each (end_runtime_process env c timeout) pids w1 = (Inr u, w2)" and last: "runtime_pids env c w2 = (Inr [], w')"
    by (auto simp: terminate_runtime_def returns split: if_splits)
  have "watching (act_each (end_runtime_process env c timeout) pids)"
    unfolding end_runtime_process_def terminate_executable_def end_process_def by (intro emitting) simp
  then have "h_looks w \<le> h_looks w2" using looksD [OF more_emits(3) 1(1)] looksD 1(2) by (meson order.trans)
  with last show ?thesis unfolding empty_between_def by blast
qed

lemma watching_stop_each: "watching (stop_each env cs)"
  by (induction cs) (auto intro!: emitting watching_terminate)

lemma stop_each_empties: "stop_each env cs w = (Inr n, w') \<Longrightarrow> c \<in> set cs \<Longrightarrow> empty_between env c w w'"
proof (induction cs arbitrary: w n)
  case (Cons d cs)
  then obtain k w1 m where 1: "terminate_runtime env d 5 w = (Inr k, w1)" and 2: "stop_each env cs w1 = (Inr m, w')"
    by (auto simp: returns)
  note looks = looksD [OF watching_terminate 1] looksD [OF watching_stop_each 2]
  from Cons.prems(2) consider "c = d" | "c \<in> set cs" by auto
  then show ?case
  proof cases
    case 1 with terminate_empties [OF \<open>terminate_runtime env d 5 w = (Inr k, w1)\<close>] looks show ?thesis
      unfolding empty_between_def by (meson order.trans)
  next
    case 2
    from Cons.IH [OF \<open>stop_each env cs w1 = (Inr m, w')\<close> this] looks show ?thesis unfolding empty_between_def by (meson order.trans)
  qed
qed simp

lemma own_context_stopped: "ctx \<in> set (unique_contexts (owned @ [ctx]))"
proof -
  have "map_of (AList.update (executable ctx) ctx (fold (\<lambda>c. AList.update (executable c) c) owned [])) (executable ctx) = Some ctx"
    by (simp add: AList.update_conv')
  from map_of_SomeD [OF this] show ?thesis by (force simp: unique_contexts_def)
qed

lemma stop_proxy_empties:
  assumes "stop_proxy env ctx w = (Inr n, w')"
  shows "empty_between env ctx w w'"
proof -
  from assms obtain owned w1 where 1: "on_files (owned_contexts ctx) w = (Inr owned, w1)"
    and 2: "stop_each env (unique_contexts (owned @ [ctx])) w1 = (Inr n, w')" by (auto simp: stop_proxy_def returns)
  from stop_each_empties [OF 2 own_context_stopped] looksD [OF emits_basic(8) 1] show ?thesis
    unfolding empty_between_def by (metis order.trans)
qed

text \<open>An action removes late when it changes files only after the service is gone.\<close>

definition removes_late :: "host_env \<Rightarrow> runtime_context \<Rightarrow> 'a host_act \<Rightarrow> bool" where
  "removes_late env ctx m \<longleftrightarrow>
     (\<forall>w r w'. m w = (r, w') \<longrightarrow> h_looks w \<le> h_looks w' \<and> (files_of w' = files_of w \<or> gone env ctx w w'))"

lemma late_harmless: "keeps files_of m \<Longrightarrow> watching m \<Longrightarrow> removes_late env ctx m"
  unfolding removes_late_def by (blast dest: keepsD looksD)

lemma late_bind:
  assumes "keeps files_of m" "watching m" "\<And>x. removes_late env ctx (f x)"
  shows "removes_late env ctx (act_bind m f)"
  unfolding removes_late_def
proof (intro allI impI)
  fix w r w' assume run: "act_bind m f w = (r, w')"
  obtain q w1 where m: "m w = (q, w1)" by fastforce
  note first = keepsD [OF assms(1) m] looksD [OF assms(2) m]
  show "h_looks w \<le> h_looks w' \<and> (files_of w' = files_of w \<or> gone env ctx w w')"
  proof (cases q)
    case (Inl e) with run m first show ?thesis by (simp add: act_bind_def)
  next
    case (Inr x)
    with run m have "f x w1 = (r, w')" by (simp add: act_bind_def)
    with assms(3) [of x] first show ?thesis unfolding removes_late_def by (metis gone_more order.refl order.trans)
  qed
qed

lemma late_cases:
  "(b \<Longrightarrow> removes_late env ctx m) \<Longrightarrow> (\<not> b \<Longrightarrow> removes_late env ctx n) \<Longrightarrow> removes_late env ctx (if b then m else n)"
  "removes_late env ctx m \<Longrightarrow> (\<And>x. removes_late env ctx (f x)) \<Longrightarrow> removes_late env ctx (case v of None \<Rightarrow> m | Some x \<Rightarrow> f x)"
  by (auto split: option.splits)

lemma remove_service_absent:
  assumes "remove_service env ctx w = (Inr u, w')"
  shows "\<exists>n. h_looks w \<le> n \<and> n < h_looks w' \<and> service_status env n ctx = Inr ''absent''"
proof -
  from assms obtain x w1 where s: "supervise env Service_uninstall ctx w = (Inr x, w1)" and n: "native_status env ctx w1 = (Inr ''absent'', w')"
    by (auto simp: remove_service_def returns split: if_splits)
  from n have "service_status env (h_looks w1) ctx = Inr ''absent''" "h_looks w' = Suc (h_looks w1)"
    by (auto simp: native_status_def look_def act_bind_def act_lift_def)
  with looksD [OF supervise_emits [of "\<lambda>_. True"] s] show ?thesis by auto
qed

lemma watching_stop: "watching (remove_service env ctx)" "watching (stop_proxy env ctx)"
  unfolding remove_service_def stop_proxy_def by (intro emitting watching_stop_each | simp)+

lemma late_tail:
  assumes "\<And>n. watching (f n)"
  shows "removes_late env ctx (act_then (remove_service env ctx) (act_bind (stop_proxy env ctx) f))"
  unfolding removes_late_def
proof (intro allI impI)
  fix w r w' assume run: "act_then (remove_service env ctx) (act_bind (stop_proxy env ctx) f) w = (r, w')"
  let ?start = "act_then (remove_service env ctx) (stop_proxy env ctx)"
  have whole: "act_bind ?start f w = (r, w')"
    using run by (simp add: act_then_def act_bind_def split: prod.splits sum.splits)
  obtain q w1 where s: "?start w = (q, w1)" by fastforce
  have "keeps files_of ?start" "watching ?start" by (intro harmless emitting watching_stop)+
  note first = keepsD [OF this(1) s] looksD [OF this(2) s]
  show "h_looks w \<le> h_looks w' \<and> (files_of w' = files_of w \<or> gone env ctx w w')"
  proof (cases q)
    case (Inl e) with whole s first show ?thesis by (simp add: act_bind_def)
  next
    case (Inr n)
    with whole s have "f n w1 = (r, w')" by (simp add: act_bind_def)
    then have later: "h_looks w1 \<le> h_looks w'" using looksD [OF assms] by blast
    from s Inr obtain u w0 where 1: "remove_service env ctx w = (Inr u, w0)" and 2: "stop_proxy env ctx w0 = (Inr n, w1)"
      by (auto simp: act_then_run)
    have "gone env ctx w w1"
      using remove_service_absent [OF 1] stop_proxy_empties [OF 2] looksD [OF watching_stop(1) 1] looksD [OF watching_stop(2) 2]
      unfolding gone_def empty_between_def by (meson order.trans order.strict_trans2)
    with gone_more first(2) later show ?thesis by (meson order.refl order.trans)
  qed
qed


section \<open>A running status is proven\<close>

lemma observing_emits [emitting]:
  "emits P (observed_installed env ctx)" "emits P (observed_integrity env ctx)" "emits P (observed_service env ctx)"
  "emits P (runtime_process env ctx runtime)" "emits P (control_executable env ctx selected)" "emits P (rollback_evidence env ctx pending)"
  unfolding observed_installed_def observed_integrity_def observed_service_def runtime_process_def control_executable_def rollback_evidence_def
  by (intro emitting; auto intro!: emitting split: if_splits)+

lemma observed_runtime_emits [emitting]: "(\<And>c. is_get c \<Longrightarrow> P c) \<Longrightarrow> emits P (observed_runtime env ctx ok)"
  unfolding observed_runtime_def by (intro emitting)

lemma evidence_emits [emitting]: "emits P (status_evidence env ctx include_rollback selected a b c)"
  unfolding status_evidence_def by (cases a; cases b; cases c) (simp, intro emitting)

lemma status_emits: "emits is_get (control_status env ctx include_rollback)"
  unfolding control_status_def by (intro emitting)

text \<open>Reading from the files of the host gives a value.\<close>

definition reads_as :: "nodes \<Rightarrow> 'a io \<Rightarrow> 'a \<Rightarrow> bool" where
  "reads_as fs m x \<longleftrightarrow> (\<exists>d d'. nodes d = fs \<and> m d = (Inr x, d'))"

lemma reads_asI: "on_files m w = (Inr x, w') \<Longrightarrow> reads_as (files_of w) m x"
  by (auto simp: reads_as_def on_files_def files_of_def split: prod.splits)

text \<open>
  During the reading the process was shown to be a listener of the executable: it listened on the port and
  its arguments or the kernel proved it, or one look at it showed role and executable.
\<close>

definition listening :: "host_env \<Rightarrow> nat \<Rightarrow> int \<Rightarrow> int \<Rightarrow> bool" where
  "listening env n q pid \<longleftrightarrow> (\<exists>conns. (pid, conns) \<in> set (fst (ps_connections env n)) \<and> (True, Some q) \<in> set conns)"

definition captured_at :: "host_env \<Rightarrow> nodes \<Rightarrow> string \<Rightarrow> string list option \<Rightarrow> nat \<Rightarrow> int \<Rightarrow> bool" where
  "captured_at env fs expected roles n pid \<longleftrightarrow>
     (\<exists>c argv. ps_at env n pid = Inr c \<and> argv_of c = Inr argv \<and> names_executable env fs c argv expected roles)"

definition listener_shown :: "host_env \<Rightarrow> runtime_context \<Rightarrow> nodes \<Rightarrow> host \<Rightarrow> host \<Rightarrow> int \<Rightarrow> bool" where
  "listener_shown env ctx fs w w' pid \<longleftrightarrow>
     (\<exists>n m. h_looks w \<le> n \<and> n < m \<and> m \<le> h_looks w' \<and> listening env n (port ctx) pid
        \<and> proven env fs (executable ctx) (Some LISTENER_ROLES) m pid)
     \<or> (\<exists>n. h_looks w \<le> n \<and> n < h_looks w' \<and> captured_at env fs (executable ctx) (Some LISTENER_ROLES) n pid)"

text \<open>The record of the installed release is about the payload, and its command belongs to the installation.\<close>

definition release_proof :: "host_env \<Rightarrow> runtime_context \<Rightarrow> runtime_context \<Rightarrow> nodes \<Rightarrow> loaded_payload \<Rightarrow> jdict \<Rightarrow> bool" where
  "release_proof env ctx selected fs p owned \<longleftrightarrow>
     (\<exists>d selection control. reads_as fs (read_installed (life env) ctx) (Some d)
        \<and> jget d ''version'' = JStr (lp_release p) \<and> jget d ''receipt_sha256'' = JStr (lp_receipt_sha256 p)
        \<and> jget d ''command'' = JStr (command ctx)
        \<and> reads_as fs (read_selection (life env) ctx) selection
        \<and> (case selection of None \<Rightarrow> True | Some s \<Rightarrow> jget d ''transaction_id'' = JStr (active s))
        \<and> (control = executable selected \<or> (\<exists>c. reads_as fs (control_context (life env) ctx) c \<and> control = executable c))
        \<and> owned = command_state fs (path_of (command ctx)) (path_of control) \<and> jget owned ''state'' = JStr ''owned'')"

text \<open>What stands behind a status that says the service is running.\<close>

definition running_proof :: "host_env \<Rightarrow> runtime_context \<Rightarrow> host \<Rightarrow> host \<Rightarrow> jdict \<Rightarrow> bool" where
  "running_proof env ctx w w' evidence \<longleftrightarrow>
     (\<exists>selected p r pid owned. reads_as (files_of w) (selected_context (life env) ctx) selected
        \<and> (\<exists>detail. reads_as (files_of w) (verify_payload_manifest (life env) selected) (True, detail))
        \<and> reads_as (files_of w) (committed_payload (life env) (executable_path selected)) (Some p)
        \<and> jget evidence ''runtime'' = JObj r \<and> seen env w w' r
        \<and> runtime_payload_matches r (handoff_fields p) \<and> jget r ''accepting'' = JBool True \<and> jget r ''draining'' = JBool False
        \<and> jget r ''pid'' = JInt pid \<and> listener_shown env selected (files_of w) w w' pid
        \<and> jget evidence ''service'' = JStr ''running''
        \<and> (\<exists>n. h_looks w \<le> n \<and> n < h_looks w' \<and> service_status env n selected = Inr ''running'')
        \<and> jget evidence ''command'' = JObj owned \<and> release_proof env ctx selected (files_of w) p owned
        \<and> jget evidence ''payload_transaction'' = JNull \<and> reads_as (files_of w) (status (life env) ctx) None)"

lemma verdict_running:
  "fst (verdict f) = ''running'' \<Longrightarrow> sf_integrity_ok f \<and> sf_matches f \<and> sf_service f = ''running'' \<and> sf_runtime f \<noteq> None
     \<and> jget (sf_command f) ''state'' = JStr ''owned'' \<and> sf_transaction f = None"
  "fst (verdict f) \<in> {''invalid'', ''not_installed'', ''running'', ''recovery_required'', ''degraded''}"
  by (auto simp: verdict_def Let_def split: if_splits)

lemma int_pid_Some: "int_pid (Some r) = Some pid \<longleftrightarrow> jget r ''pid'' = JInt pid"
  by (auto split: json.splits)

lemma proven_runtime_shown:
  "proven_runtime listeners runtime captured committed = Some r \<Longrightarrow>
   runtime = Some r \<and> (\<exists>pid. jget r ''pid'' = JInt pid \<and> int_pid runtime = Some pid \<and> (listeners = [pid] \<or> captured \<noteq> None))
     \<and> (\<exists>p. committed = Some p \<and> runtime_payload_matches r (handoff_fields p)
     \<and> jget r ''accepting'' = JBool True \<and> jget r ''draining'' = JBool False)"
  by (auto simp: proven_runtime_def runtime_matches_committed_def int_pid_Some [symmetric] split: option.splits if_splits)

lemma named_filter_run:
  assumes "filter_act (\<lambda>pid. pid_names_executable env pid x roles) pids w = (r, w')"
  shows "h_disk w' = h_disk w \<and> h_looks w \<le> h_looks w' \<and> (\<forall>ys pid. r = Inr ys \<longrightarrow> pid \<in> set ys \<longrightarrow>
    pid \<in> set pids \<and> (\<exists>m. h_looks w < m \<and> m \<le> h_looks w' \<and> proven env (files_of w) x roles m pid))"
  using assms
proof (induction pids arbitrary: w w' r)
  case Nil
  then show ?case by (auto simp: act_return_def)
next
  case (Cons q pids)
  obtain q1 w1 where 1: "pid_names_executable env q x roles w = (q1, w1)" by fastforce
  from pid_names_run [OF 1] obtain b n where b: "q1 = Inr b" "w1 = w\<lparr>h_looks := n\<rparr>" "h_looks w < n"
    "b \<longrightarrow> proven env (files_of w) x roles n q" by (auto simp: files_of_def)
  obtain r2 w2 where 2: "filter_act (\<lambda>pid. pid_names_executable env pid x roles) pids w1 = (r2, w2)" by fastforce
  note ih = Cons.IH [OF 2]
  have same: "files_of w1 = files_of w" by (simp add: b(2) files_of_def)
  from Cons.prems 1 2 b(1) have w': "w' = w2" and r: "r = (case r2 of Inl e \<Rightarrow> Inl e | Inr ys \<Rightarrow> Inr (if b then q # ys else ys))"
    by (auto simp: act_bind_def act_return_def split: sum.splits)
  have tail: "pid \<in> set pids \<and> (\<exists>m. h_looks w < m \<and> m \<le> h_looks w' \<and> proven env (files_of w) x roles m pid)"
    if "r2 = Inr ys" "pid \<in> set ys" for ys pid
    using ih that b(2,3) same w' by (auto intro: order.strict_trans)
  have head: "\<exists>m. h_looks w < m \<and> m \<le> h_looks w' \<and> proven env (files_of w) x roles m q" if b
    using that b ih w' by auto
  show ?case
    using ih b(2,3) w' r head tail by (auto split: sum.splits if_splits)
qed

lemma listeners_shown:
  assumes "verified_proxy_listener_pids env ctx w = (Inr pids, w')" "pid \<in> set pids"
  shows "listener_shown env ctx (files_of w) w w' pid"
proof -
  obtain listed w1 where 1: "listener_pids env (port ctx) w = (Inr listed, w1)"
    and 2: "filter_act (\<lambda>pid. pid_names_executable env pid (executable ctx) (Some LISTENER_ROLES)) listed w1 = (Inr pids, w')"
    using assms(1) by (auto simp: verified_proxy_listener_pids_def act_bind_run)
  from 1 have w1: "w1 = w\<lparr>h_looks := Suc (h_looks w)\<rparr>" and listed: "q \<in> set listed \<Longrightarrow> listening env (h_looks w) (port ctx) q" for q
    by (auto simp: listener_pids_def look_def act_bind_def act_return_def listening_def list_ex_iff split: prod.splits)
      (metis fst_conv)
  from named_filter_run [OF 2] assms(2) obtain m where "pid \<in> set listed" "h_looks w1 < m" "m \<le> h_looks w'"
    "proven env (files_of w1) (executable ctx) (Some LISTENER_ROLES) m pid" by blast
  with listed w1 show ?thesis unfolding listener_shown_def by (intro disjI1 exI [of _ "h_looks w"] exI [of _ m]) (simp add: files_of_def)
qed

lemma runtime_process_shown:
  assumes "runtime_process env ctx runtime w = (Inr (Some q), w')" "int_pid runtime = Some pid"
  shows "listener_shown env ctx (files_of w) w w' pid"
proof -
  from assms obtain c argv where "ps_at env (h_looks w) pid = Inr c" "argv_of c = Inr argv" "h_looks w' = Suc (h_looks w)"
    "names_executable env (files_of w) c argv (executable ctx) (Some LISTENER_ROLES)"
    by (auto simp: runtime_process_def capture_executable_def host_runs files_of_def split: sum.splits if_splits)
  then show ?thesis unfolding listener_shown_def captured_at_def by (intro disjI2 exI [of _ "h_looks w"]) simp
qed

lemma listener_shown_more:
  "listener_shown env ctx fs u v pid \<Longrightarrow> h_looks w \<le> h_looks u \<Longrightarrow> h_looks v \<le> h_looks w' \<Longrightarrow> listener_shown env ctx fs w w' pid"
  unfolding listener_shown_def by (meson order.trans order.strict_trans2)

lemma service_running_shown:
  assumes "observed_service env ctx w = (Inr ''running'', w')"
  shows "h_looks w' = Suc (h_looks w) \<and> service_status env (h_looks w) ctx = Inr ''running''"
  using assms by (auto simp: observed_service_def native_status_def act_catch_def act_bind_def look_def act_lift_def act_return_def
      split: sum.splits if_splits)

lemma evidence_fields:
  "jget (evidence_of f release) ''state'' = JStr (fst (verdict f))" "jget (evidence_of f release) ''runtime'' = optional_obj (sf_runtime f)"
  "jget (evidence_of f release) ''service'' = JStr (sf_service f)"
  "jget (evidence_of f release) ''command'' = JObj (sf_command f)"
  "jget (evidence_of f release) ''payload_transaction'' = optional_obj (sf_transaction f)"
  by (auto simp: evidence_of_def jget_def split: prod.splits)

lemma observed_runtime_proven:
  assumes "observed_runtime env ctx ok w = (Inr (''running'', listeners, committed, Some r), w')"
  shows "seen env w w' r \<and> (\<exists>p. committed = Some p \<and> reads_as (files_of w) (committed_payload (life env) (executable_path ctx)) (Some p)
       \<and> runtime_payload_matches r (handoff_fields p))
     \<and> jget r ''accepting'' = JBool True \<and> jget r ''draining'' = JBool False
     \<and> (\<exists>pid. jget r ''pid'' = JInt pid \<and> listener_shown env ctx (files_of w) w w' pid)
     \<and> (\<exists>n. h_looks w \<le> n \<and> n < h_looks w' \<and> service_status env n ctx = Inr ''running'')"
proof -
  let ?committed = "if ok then on_files (committed_payload (life env) (executable_path ctx)) else act_return None"
  from assms obtain w1 w2 runtime w3 captured w4 where service: "observed_service env ctx w = (Inr ''running'', w1)"
    and listeners: "verified_proxy_listener_pids env ctx w1 = (Inr listeners, w2)" and read: "read_runtime env ctx w2 = (Inr runtime, w3)"
    and process: "runtime_process env ctx runtime w3 = (Inr captured, w4)" and last: "?committed w4 = (Inr committed, w')"
    and r: "proven_runtime listeners runtime captured committed = Some r"
    by (auto simp: observed_runtime_def act_bind_run act_return_run)
  from proven_runtime_shown [OF r] obtain p pid where p: "runtime = Some r" "committed = Some p" "runtime_payload_matches r (handoff_fields p)"
    "jget r ''accepting'' = JBool True" "jget r ''draining'' = JBool False" and pid: "jget r ''pid'' = JInt pid" "int_pid runtime = Some pid"
    "listeners = [pid] \<or> captured \<noteq> None" by blast
  have files: "files_of w1 = files_of w" "files_of w3 = files_of w" "files_of w4 = files_of w"
    using keepsD [OF observing_harmless(3) service] keepsD [OF processes_harmless(1) listeners] keepsD [OF looking_harmless(10) read]
      keepsD [OF processes_harmless(4) process] by simp_all
  have later: "h_looks w \<le> h_looks w1" "h_looks w1 \<le> h_looks w2" "h_looks w2 \<le> h_looks w3" "h_looks w3 \<le> h_looks w4" "h_looks w4 \<le> h_looks w'"
  proof -
    have "watching ?committed" by (intro emitting)
    from looksD [OF this last] show "h_looks w4 \<le> h_looks w'" .
  qed (rule looksD [OF observing_emits(3) service] looksD [OF looking_more(2) listeners] looksD [OF get_always read]
      looksD [OF observing_emits(4) process])+
  have committed: "reads_as (files_of w) (committed_payload (life env) (executable_path ctx)) (Some p)"
    using last p(2) reads_asI [of "committed_payload (life env) (executable_path ctx)" w4 "Some p" w'] files(3)
    by (auto simp: act_return_def split: if_splits)
  have "seen env w w' r"
    using read_runtime_seen [of env ctx w2 r w3] read p(1) later by (auto elim!: seen_more)
  moreover have "listener_shown env ctx (files_of w) w w' pid"
  proof (cases "listeners = [pid]")
    case True
    with listeners_shown [OF listeners, of pid] have "listener_shown env ctx (files_of w) w1 w2 pid" by (simp add: files)
    with later show ?thesis by (elim listener_shown_more) simp_all
  next
    case False
    with pid(3) obtain q where "captured = Some q" by blast
    from runtime_process_shown [OF process [unfolded this] pid(2)] have "listener_shown env ctx (files_of w) w3 w4 pid" by (simp add: files)
    with later show ?thesis by (elim listener_shown_more) simp_all
  qed
  moreover have "\<exists>n. h_looks w \<le> n \<and> n < h_looks w' \<and> service_status env n ctx = Inr ''running''"
    using service_running_shown [OF service] later by (intro exI [of _ "h_looks w"]) simp
  ultimately show ?thesis using p committed pid(1) by blast
qed

lemma evidence_shown:
  assumes "status_evidence env ctx include_rollback selected (installed, failed) (ok, detail) (service, listeners, committed, runtime) w
      = (Inr evidence, w')"
  shows "\<exists>f release selection cmd control. evidence = evidence_of f release
    \<and> sf_service f = service \<and> sf_runtime f = runtime \<and> sf_integrity_ok f = ok
    \<and> reads_as (files_of w) (read_selection (life env) ctx) selection
    \<and> sf_matches f = installed_matches ctx installed committed selection
    \<and> (case installed of None \<Rightarrow> True | Some d \<Rightarrow> require_command d = Inr cmd)
    \<and> (control = executable selected \<or> (\<exists>c. reads_as (files_of w) (control_context (life env) ctx) c \<and> control = executable c))
    \<and> sf_command f = command_state (files_of w) (path_of cmd) (path_of control)
    \<and> reads_as (files_of w) (status (life env) ctx) (sf_transaction f)"
proof -
  let ?installed_command = "case installed of None \<Rightarrow> act_return (command selected) | Some d \<Rightarrow> act_lift (require_command d)"
  from assms obtain selection w1 cmd w2 control w3 fs w4 pending w5 retained rootless release where
      selection: "on_files (read_selection (life env) ctx) w = (Inr selection, w1)" and cmd: "?installed_command w1 = (Inr cmd, w2)"
    and control: "control_executable env ctx selected w2 = (Inr control, w3)" and fs: "file_tree w3 = (Inr fs, w4)"
    and pending: "on_files (status (life env) ctx) w4 = (Inr pending, w5)"
    and evidence: "evidence = evidence_of
         \<lparr>sf_installed = installed, sf_installed_error = failed, sf_integrity_ok = ok, sf_integrity_detail = detail,
          sf_service = service, sf_listeners = listeners, sf_runtime = runtime,
          sf_matches = installed_matches ctx installed committed selection,
          sf_command = command_state fs (path_of cmd) (path_of control), sf_transaction = pending,
          sf_rollback = retained, sf_no_root = rootless\<rparr> release"
    unfolding status_evidence_def case_prod_conv act_bind_run act_return_run by blast
  have quiet: "keeps files_of (on_files (read_selection (life env) ctx))" "keeps files_of ?installed_command"
    by (intro harmless reads)+
  have files: "files_of w2 = files_of w" "files_of w4 = files_of w" "fs = files_of w"
    using keepsD [OF quiet(1) selection] keepsD [OF quiet(2) cmd] keepsD [OF observing_harmless(4) control] fs
    by (auto simp: file_tree_def files_of_def)
  have "control = executable selected \<or> (\<exists>c. reads_as (files_of w) (control_context (life env) ctx) c \<and> control = executable c)"
    using control reads_asI [of "control_context (life env) ctx" w2] files(1)
    by (auto simp: control_executable_def act_catch_def act_bind_def act_return_def split: sum.splits prod.splits if_splits)
  moreover have "case installed of None \<Rightarrow> True | Some d \<Rightarrow> require_command d = Inr cmd"
    using cmd by (auto simp: act_lift_def split: option.splits)
  ultimately show ?thesis
    using reads_asI [OF selection] reads_asI [OF pending] files(2,3) unfolding evidence
    by (intro exI conjI) (rule refl | simp)+
qed

lemma release_shown:
  assumes "installed_matches ctx installed (Some p) selection" "case installed of None \<Rightarrow> True | Some d \<Rightarrow> require_command d = Inr cmd"
    and "\<And>d. installed = Some d \<Longrightarrow> reads_as fs (read_installed (life env) ctx) (Some d)"
    and "reads_as fs (read_selection (life env) ctx) selection"
    and "control = executable selected \<or> (\<exists>c. reads_as fs (control_context (life env) ctx) c \<and> control = executable c)"
    and "owned = command_state fs (path_of cmd) (path_of control)" "jget owned ''state'' = JStr ''owned''"
  shows "release_proof env ctx selected fs p owned"
proof -
  from assms(1) obtain d where d: "installed = Some d" "jget d ''version'' = JStr (lp_release p)"
    "jget d ''receipt_sha256'' = JStr (lp_receipt_sha256 p)" "jget d ''command'' = JStr (command ctx)"
    "case selection of None \<Rightarrow> True | Some s \<Rightarrow> jget d ''transaction_id'' = JStr (active s)"
    by (auto simp: installed_matches_def split: option.splits)
  from assms(2) d(1,4) have "cmd = command ctx" by (simp add: require_command_def split: if_splits)
  with d assms(3) [OF d(1)] assms(4-7) show ?thesis unfolding release_proof_def by blast
qed

lemma installed_shown:
  assumes "observed_installed env ctx w = (Inr (Some d, failed), w')"
  shows "reads_as (files_of w) (read_installed (life env) ctx) (Some d)"
  using assms reads_asI [of "read_installed (life env) ctx" w "Some d"]
  by (auto simp: observed_installed_def act_catch_def act_bind_def act_return_def split: sum.splits prod.splits if_splits)

lemma integrity_shown:
  assumes "observed_integrity env ctx w = (Inr (True, detail), w')"
  shows "reads_as (files_of w) (verify_payload_manifest (life env) ctx) (True, detail)"
  using assms reads_asI [of "verify_payload_manifest (life env) ctx" w]
  by (auto simp: observed_integrity_def act_catch_def act_return_def split: sum.splits prod.splits if_splits)

lemma running_shown:
  assumes "control_status env ctx include_rollback w = (Inr evidence, w')"
  shows "\<exists>f release. evidence = evidence_of f release \<and> (fst (verdict f) = ''running'' \<longrightarrow> running_proof env ctx w w' evidence)"
proof -
  from assms obtain selected w1 installed failed w2 ok detail w3 service listeners committed runtime w4 where
      selected: "on_files (selected_context (life env) ctx) w = (Inr selected, w1)"
    and installed: "observed_installed env ctx w1 = (Inr (installed, failed), w2)"
    and integrity: "observed_integrity env selected w2 = (Inr (ok, detail), w3)"
    and running: "observed_runtime env selected ok w3 = (Inr (service, listeners, committed, runtime), w4)"
    and last: "status_evidence env ctx include_rollback selected (installed, failed) (ok, detail) (service, listeners, committed, runtime) w4
        = (Inr evidence, w')"
    unfolding control_status_def act_bind_run by (metis prod.collapse fst_conv)
  have files: "files_of w1 = files_of w" "files_of w2 = files_of w" "files_of w3 = files_of w" "files_of w4 = files_of w"
    using keepsD [OF harmless_files [OF reads_contexts(3)] selected] keepsD [OF observing_harmless(1) installed]
      keepsD [OF observing_harmless(2) integrity] keepsD [OF observed_runtime_harmless running] by simp_all
  have later: "h_looks w \<le> h_looks w3" "h_looks w4 \<le> h_looks w'"
    using looksD [OF emits_basic(8) selected] looksD [OF observing_emits(1) installed] looksD [OF observing_emits(2) integrity]
      looksD [OF evidence_emits last] by simp_all
  from evidence_shown [OF last] obtain f release selection cmd control where f: "evidence = evidence_of f release"
      "sf_service f = service" "sf_runtime f = runtime" "sf_integrity_ok f = ok"
      "sf_matches f = installed_matches ctx installed committed selection"
    and read: "reads_as (files_of w) (read_selection (life env) ctx) selection"
      "case installed of None \<Rightarrow> True | Some d \<Rightarrow> require_command d = Inr cmd"
      "control = executable selected \<or> (\<exists>c. reads_as (files_of w) (control_context (life env) ctx) c \<and> control = executable c)"
      "sf_command f = command_state (files_of w) (path_of cmd) (path_of control)"
      "reads_as (files_of w) (status (life env) ctx) (sf_transaction f)"
    unfolding files by blast
  have "running_proof env ctx w w' evidence" if "fst (verdict f) = ''running''"
  proof -
    note facts = verdict_running(1) [OF that]
    with f obtain r where r: "runtime = Some r" "service = ''running''" by auto
    note shown = observed_runtime_proven [OF running [unfolded r], unfolded files]
    then obtain p pid where p: "committed = Some p" "reads_as (files_of w) (committed_payload (life env) (executable_path selected)) (Some p)"
      "runtime_payload_matches r (handoff_fields p)" "jget r ''pid'' = JInt pid" "listener_shown env selected (files_of w) w3 w4 pid" by blast
    have release: "release_proof env ctx selected (files_of w) p (sf_command f)"
      using facts f(5) p(1) read installed_shown [of env ctx w1 _ failed w2] installed files(1)
      by (intro release_shown [of ctx installed p selection cmd]) auto
    have "listener_shown env selected (files_of w) w w' pid" using listener_shown_more [OF p(5)] later by simp
    moreover have "seen env w w' r" using shown later by (auto elim: seen_more)
    moreover have "\<exists>n. h_looks w \<le> n \<and> n < h_looks w' \<and> service_status env n selected = Inr ''running''"
      using shown later by (meson order.trans order.strict_trans2)
    moreover have "reads_as (files_of w) (verify_payload_manifest (life env) selected) (True, detail)"
      using integrity_shown [of env selected w2 detail w3] integrity facts f(4) files(2) by simp
    moreover have "reads_as (files_of w) (status (life env) ctx) None" using read(5) facts by simp
    ultimately show ?thesis
      using reads_asI [OF selected] p shown release facts f(1-3) r unfolding running_proof_def
      by (intro exI [of _ selected] exI [of _ p] exI [of _ r] exI [of _ pid] exI [of _ "sf_command f"] conjI)
        (auto simp: evidence_fields optional_obj_def)
  qed
  with f(1) show ?thesis by blast
qed

text \<open>
  Claim C18.  Reading the status only reads: no file changes and nothing but the health endpoint is asked, also when
  it fails.  It says that the service is running only with proof, taken during this reading.  The health
  endpoint showed a runtime that accepts requests and serves exactly the payload of the selected generation
  on disk, which its manifest verifies.  The process that the runtime names was shown to be a listener of
  the selected executable: it was listening on the port and its arguments or the kernel then proved it, or a
  look at it showed both role and executable.  The service manager reported the service running.  The
  record of the installed release names the version, receipt, command and transaction of that payload, the
  command on disk is owned by the installation, and no transaction is open.
\<close>

theorem status_proven:
  "case control_status env ctx include_rollback w of
     (Inl e, w') \<Rightarrow> files_of w' = files_of w \<and> since is_get w w'
   | (Inr evidence, w') \<Rightarrow> files_of w' = files_of w \<and> since is_get w w' \<and>
       (jget evidence ''state'' \<in> JStr ` {''invalid'', ''not_installed'', ''recovery_required'', ''degraded''}
        \<or> jget evidence ''state'' = JStr ''running'' \<and> running_proof env ctx w w' evidence)"
proof -
  obtain x w' where run: "control_status env ctx include_rollback w = (x, w')" by fastforce
  note kept = keepsD [OF status_harmless run] emitsD [OF status_emits run]
  show ?thesis
  proof (cases x)
    case (Inl e) with run kept show ?thesis by simp
  next
    case (Inr evidence)
    with run have "control_status env ctx include_rollback w = (Inr evidence, w')" by simp
    from running_shown [OF this] obtain f release where f: "evidence = evidence_of f release"
      "fst (verdict f) = ''running'' \<Longrightarrow> running_proof env ctx w w' evidence" by blast
    with verdict_running(2) [of f] run Inr kept show ?thesis by (auto simp: evidence_fields)
  qed
qed

end
