(* ===== verification/Release.thy ===== *)
theory Release
  imports Settings_Facts Artifact_Facts Control_Facts
begin

text \<open>
  \<open>lifecycle/install.py\<close>: a release asset is admitted, the release that already runs is left alone, any other is applied in
  a transaction.  A release that is not signed changes nothing on the host.
\<close>

section \<open>Installing an asset\<close>

definition install_input :: "string \<Rightarrow> py_exc" where
  "install_input m = InstallError Install_input m"

definition admitted_release :: "artifact_env \<Rightarrow> lifecycle_env \<Rightarrow> path \<Rightarrow> path \<Rightarrow> verified_artifact io" where
  "admitted_release aenv env asset trust_anchor =
     act_catch (admit_asset aenv env asset trust_anchor)
       (\<lambda>e. if is_install_error e then Some (act_raise (install_input (error_text e))) else None)"

text \<open>
  \<open>artifact.claim\<close> in \<open>_begin_transaction\<close>, an \<open>ArtifactError\<close> raised again as an \<open>InstallError\<close>; the
  sidecar is not used any further.
\<close>

definition claimed_payload :: "py_env \<Rightarrow> verified_artifact \<Rightarrow> (artifact_file list \<times> string \<times> string \<times> jdict) res" where
  "claimed_payload env a =
     (case fst (claim env a) of
        Inl (OtherError label) \<Rightarrow>
          if starts_with ''ArtifactError: '' label then Inl (install_error (drop (length ''ArtifactError: '') label)) else Inl (OtherError label)
      | Inl e \<Rightarrow> Inl e
      | Inr (blobs, version, receipt_sha256, receipt, sidecar) \<Rightarrow> Inr (blobs, version, receipt_sha256, receipt))"

definition serves_release :: "jdict \<Rightarrow> verified_artifact \<Rightarrow> bool" where
  "serves_release observed released \<longleftrightarrow>
     jget observed ''state'' = JStr ''running''
     \<and> (case jget observed ''runtime'' of
          JObj runtime \<Rightarrow> jget runtime ''release_receipt_sha256'' = JStr (va_receipt_sha256 released)
            \<and> jget runtime ''serving_payload_sha256'' = JStr (artifact_serving_sha256 released)
        | _ \<Rightarrow> False)"

definition same_release :: "host_env \<Rightarrow> system \<Rightarrow> runtime_context \<Rightarrow> verified_artifact \<Rightarrow> jdict host_act" where
  "same_release env sys ctx released =
     act_bind (on_files (status (life env) ctx)) (\<lambda>pending.
     if pending \<noteq> None then act_raise (recovery_required ''complete payload recovery before installing'')
     else act_bind (control_status env ctx False) (\<lambda>observed.
          act_bind (on_files (control_context (life env) ctx)) (\<lambda>control.
          act_bind (configured_executable env control) (\<lambda>configured.
          act_bind (on_files (spec_environment env sys (spec_path control))) (\<lambda>selected.
            if setting selected UPSTREAM_BASE_URL_ENV \<noteq> upstream_base_url ctx
            then act_raise (install_input ''upstream selection differs from the active installation'')
            else act_bind file_tree (\<lambda>fs.
                 if serves_release observed released
                    \<and> (case configured of None \<Rightarrow> False | Some c \<Rightarrow> normalized_path env fs c = normalized_path env fs (executable control))
                 then act_return [(''state'', JStr ''unchanged''), (''release'', JStr (artifact_version released))]
                 else act_raise (install_error ''requested artifact is not the verified active installation'')))))))"

text \<open>\<open>apply.install\<close> on the new transaction; whatever it raises, a transaction that is only prepared is rolled back.\<close>

definition apply_release :: "host_env \<Rightarrow> runtime_context \<Rightarrow> rat \<Rightarrow> payload_transaction \<Rightarrow> jdict host_act" where
  "apply_release env ctx timeout t w =
     (case on_failure (act_then (on_payload (rollback_if_prepared (life env))) (act_return ()))
             (install env ctx (read_runtime env) timeout) (w, t) of
        (r, (w', _)) \<Rightarrow> (r, w'))"

definition install_asset ::
    "host_env \<Rightarrow> artifact_env \<Rightarrow> system \<Rightarrow> runtime_context \<Rightarrow> path \<Rightarrow> path \<Rightarrow> rat \<Rightarrow> jdict host_act" where
  "install_asset env aenv sys ctx asset trust_anchor timeout =
     act_bind (on_files (admitted_release aenv (life env) asset trust_anchor)) (\<lambda>released.
     act_bind (on_files (read_installed (life env) ctx)) (\<lambda>previous.
       if (case previous of None \<Rightarrow> False | Some d \<Rightarrow> jget d ''version'' = JStr (artifact_version released))
       then same_release env sys ctx released
       else act_bind (on_files (begin_transaction (life env) ctx (claimed_payload (lpy (life env)) released)))
              (apply_release env ctx timeout)))"

section \<open>What it guarantees\<close>

lemma admitted_release_run:
  "admitted_release aenv env asset trust_anchor d = (Inr a, d') \<longleftrightarrow> admit_asset aenv env asset trust_anchor d = (Inr a, d')"
  by (auto simp: admitted_release_def act_catch_def act_raise_def split: prod.splits sum.splits)

lemma reads_admitted_release [reads]: "keeps nodes (admitted_release aenv env asset trust_anchor)"
  unfolding admitted_release_def by (rule keeps_catch) (auto intro: reads split: if_splits)

definition asset_signed :: "artifact_env \<Rightarrow> lifecycle_env \<Rightarrow> nodes \<Rightarrow> path \<Rightarrow> path \<Rightarrow> bool" where
  "asset_signed aenv env fs asset trust_anchor \<longleftrightarrow>
     (\<exists>archive key checksums table content.
        real_path fs asset = Some archive \<and> real_path fs trust_anchor = Some key \<and> file_holds fs (checksums_at archive) checksums
        \<and> signed aenv fs (signature_at archive) key checksums \<and> parse_checksums checksums = Inr table
        \<and> listed (lpy env) table fs archive content)"

lemma admit_asset_signed: "admit_asset aenv env asset trust_anchor d = (Inr a, d') \<Longrightarrow> asset_signed aenv env (nodes d) asset trust_anchor"
  unfolding asset_signed_def by (erule admit_steps) blast

text \<open>
  Claim C14.  An asset that is not signed is never installed: unless the checksums beside the archive carry a signature
  for the one principal the trust anchor authorizes and list the digest of the archive, the command raises
  an exception, no file of the host has changed, no process was signalled and neither the service manager nor the running service was called.
\<close>

theorem unsigned_never_installed:
  "case install_asset env aenv sys ctx asset trust_anchor timeout w of
     (r, w') \<Rightarrow>
       asset_signed aenv (life env) (files_of w) asset trust_anchor
       \<or> (\<exists>e. r = Inl e) \<and> files_of w' = files_of w \<and> h_calls w' = h_calls w"
proof (cases "admitted_release aenv (life env) asset trust_anchor (h_disk w)")
  case (Pair r d)
  show ?thesis
  proof (cases r)
    case (Inl e)
    then have "install_asset env aenv sys ctx asset trust_anchor timeout w = (Inl e, w\<lparr>h_disk := d\<rparr>)"
      using Pair by (simp add: install_asset_def act_bind_def on_files_def)
    then show ?thesis using keepsD [OF reads_admitted_release Pair] by (simp add: files_of_def)
  next
    case (Inr a)
    then have "asset_signed aenv (life env) (files_of w) asset trust_anchor"
      using Pair admit_asset_signed by (simp add: admitted_release_run files_of_def)
    then show ?thesis by (simp split: prod.splits)
  qed
qed

text \<open>Installing the release that is installed already changes no file.\<close>

lemma same_release_harmless: "keeps files_of (same_release env sys ctx released)"
  unfolding same_release_def configured_executable_def by (intro harmless reads status_harmless)

end
