(* ===== verification/Watchdog.thy ===== *)
theory Watchdog
  imports Settings
begin

text \<open>
  \<open>lifecycle/supervision/watchdog.py\<close>: the resident loop that starts the installed listener when nothing accepts
  connections and no payload transaction owns the runtime.  Whether a connection is accepted, whether a child has
  exited and what starting a process gives are taken from the environment at each look.  The lines for its
  log are recorded; \<open>bounded_log.append\<close> raises nothing.
\<close>

record watchdog_env =
  wd_env :: host_env
  wd_sys :: system
  wd_settings :: settings
  wd_executable :: string
  accepts :: "nat \<Rightarrow> bool"
  exited :: "nat \<Rightarrow> int \<Rightarrow> bool"
  popen :: "nat \<Rightarrow> string list \<Rightarrow> string dict \<Rightarrow> int option"
  float_text :: "rat \<Rightarrow> string"

record watchdog =
  wd_host :: host
  wd_children :: "int list"
  wd_failures :: nat
  wd_started :: "(string list \<times> string dict) list"
  wd_log :: "string list"

type_synonym 'a watch = "(watchdog, 'a) eff"

definition watching_host :: "'a host_act \<Rightarrow> 'a watch" where
  "watching_host m w = (case m (wd_host w) of (r, h) \<Rightarrow> (r, w\<lparr>wd_host := h\<rparr>))"

definition log_message :: "string \<Rightarrow> unit watch" where
  "log_message m = act_modify (\<lambda>w. w\<lparr>wd_log := wd_log w @ [m]\<rparr>)"

definition reap_children :: "watchdog_env \<Rightarrow> unit watch" where
  "reap_children env =
     act_bind (watching_host (look (exited env))) (\<lambda>gone.
       act_modify (\<lambda>w. w\<lparr>wd_children := filter (\<lambda>c. \<not> gone c) (wd_children w)\<rparr>))"

definition is_proxy_up :: "watchdog_env \<Rightarrow> bool watch" where
  "is_proxy_up env = watching_host (look (accepts env))"

text \<open>The environment of the listener that is started for an executable.\<close>

definition listener_environment :: "watchdog_env \<Rightarrow> string \<Rightarrow> string dict" where
  "listener_environment env exe =
     native_process_environment (wd_sys env) (dirname (dirname exe)) (state_dir (wd_sys env) (environ (wd_sys env))) None None True
       (environ (wd_sys env))"

definition spawn_proxy :: "watchdog_env \<Rightarrow> string \<Rightarrow> int option watch" where
  "spawn_proxy env exe =
     act_bind (watching_host file_tree) (\<lambda>fs.
       if \<not> exists_at fs (path_of exe)
       then act_then (log_message ''ERROR installed proxy executable is unavailable'') (act_return None)
       else let start = [exe, LISTENER_MODE]; variables = listener_environment env exe in
            act_then (act_modify (\<lambda>w. w\<lparr>wd_started := wd_started w @ [(start, variables)]\<rparr>))
           (act_bind (watching_host (look (\<lambda>n. popen env n start variables))) (\<lambda>child.
              case child of
                Some pid \<Rightarrow> act_then (log_message (''spawned proxy pid='' @ int_text pid)) (act_return (Some pid))
              | None \<Rightarrow> act_then (log_message ''ERROR failed to spawn proxy: OSError'') (act_return None))))"

definition listener_text :: "watchdog_env \<Rightarrow> string" where
  "listener_text env = st_host (wd_settings env) @ '':'' @ int_text (st_port (wd_settings env))"

text \<open>The executable that is selected and the transaction that is pending.\<close>

definition startup_owner :: "watchdog_env \<Rightarrow> (string \<times> jdict option) watch" where
  "startup_owner env =
     act_catch
       (watching_host (on_files
          (act_bind (create_context (wd_env env) (wd_sys env)
                       (default_request\<lparr>cr_executable := Some (wd_executable env), cr_port := st_port (wd_settings env)\<rparr>)) (\<lambda>ctx.
           act_bind (status (life (wd_env env)) ctx) (\<lambda>pending. act_return (executable ctx, pending))))))
       (\<lambda>e. if is_install_error e
            then Some (act_then (log_message ''ERROR installed runtime ownership is invalid; refusing to start'')
                        (act_return (wd_executable env, Some [(''state'', JStr ''invalid'')])))
            else None)"

definition owned_by_transaction :: "jdict option \<Rightarrow> bool" where
  "owned_by_transaction pending \<longleftrightarrow> (case pending of None \<Rightarrow> False | Some d \<Rightarrow> jget d ''state'' \<noteq> JStr ''activated'')"

definition idle :: "watchdog_env \<Rightarrow> rat watch" where
  "idle env = act_then (act_modify (\<lambda>w. w\<lparr>wd_failures := 0\<rparr>)) (act_return (st_watchdog_interval (wd_settings env)))"

definition start_listener :: "watchdog_env \<Rightarrow> string \<Rightarrow> rat watch" where
  "start_listener env exe =
     act_then (log_message (''proxy unavailable on '' @ listener_text env @ '' '' @ [CHR 226, CHR 128, CHR 148] @ '' starting it''))
    (act_bind (spawn_proxy env exe) (\<lambda>child.
     act_then (act_modify (\<lambda>w. w\<lparr>wd_children := wd_children w @ (case child of None \<Rightarrow> [] | Some pid \<Rightarrow> [pid]),
                                wd_failures := Suc (wd_failures w)\<rparr>))
       (\<lambda>w. (Inr (min (st_watchdog_max_backoff (wd_settings env)) (st_watchdog_interval (wd_settings env) * of_nat (wd_failures w))), w))))"

definition when_down :: "watchdog_env \<Rightarrow> rat watch" where
  "when_down env =
     act_bind (startup_owner env) (\<lambda>(exe, pending).
       if owned_by_transaction pending
       then act_then (log_message ''payload transaction owns runtime startup; watchdog is waiting'') (idle env)
       else start_listener env exe)"

text \<open>One pass of the loop: the time to sleep after it.\<close>

definition watch_round :: "watchdog_env \<Rightarrow> rat watch" where
  "watch_round env =
     act_then (reap_children env) (act_bind (is_proxy_up env) (\<lambda>up. if up then idle env else when_down env))"

primrec watch_rounds :: "watchdog_env \<Rightarrow> nat \<Rightarrow> unit watch" where
  "watch_rounds env 0 = act_return ()"
| "watch_rounds env (Suc n) =
     act_bind (watch_round env) (\<lambda>pause.
       if n = 0 then act_return () else act_then (watching_host (elapse pause)) (watch_rounds env n))"

text \<open>\<open>run(max_iterations)\<close>; at least one pass.  The resident loop is this for every number of passes.\<close>

definition run_watchdog :: "watchdog_env \<Rightarrow> nat \<Rightarrow> unit watch" where
  "run_watchdog env iterations =
     act_then (log_message (''watchdog starting: guard '' @ listener_text env @ '' every '' @ float_text env (st_watchdog_interval (wd_settings env))
                         @ ''s executable='' @ path_name (path_of (wd_executable env))))
       (watch_rounds env (max 1 iterations))"

section \<open>Passes\<close>

lemma watching_host_run: "watching_host m w = (r, w') \<longleftrightarrow> (\<exists>h. m (wd_host w) = (r, h) \<and> w' = w\<lparr>wd_host := h\<rparr>)"
  by (auto simp: watching_host_def split: prod.splits)

end
