(* ===== verification/Watchdog_Facts.thy ===== *)
theory Watchdog_Facts
  imports Watchdog Settings_Facts Control_Facts
begin

text \<open>
  What the watchdog guarantees: it changes no file, it starts a listener exactly when nothing accepts connections and no
  transaction owns the runtime, with settings of its own, and its pauses stay within the bounds of its settings.
\<close>

lemma reads_create_context [reads]: "keeps nodes (chosen_upstream env sys selected given)" "keeps nodes (create_context env sys q)"
proof -
  show u: "keeps nodes (chosen_upstream env sys selected given)" for selected given
    unfolding chosen_upstream_def by (intro keeps_rules reads)
  show "keeps nodes (create_context env sys q)"
    unfolding create_context_def
    by (intro keeps_rules reads u) (auto intro: reads split: sum.splits py_exc.splits)
qed

text \<open>What was there before the files were looked at, for a pass of the loop.\<close>

abbreviation watched_files :: "watchdog \<Rightarrow> nodes" where
  "watched_files w \<equiv> nodes (h_disk (wd_host w))"

text \<open>The executable to start: nothing accepts connections, and no transaction owns the runtime.\<close>

definition unowned :: "watchdog_env \<Rightarrow> watchdog \<Rightarrow> string option" where
  "unowned env w =
     (if accepts env (Suc (h_looks (wd_host w))) then None
      else case create_context (wd_env env) (wd_sys env)
                  (default_request\<lparr>cr_executable := Some (wd_executable env), cr_port := st_port (wd_settings env)\<rparr>) (h_disk (wd_host w)) of
             (Inr ctx, d) \<Rightarrow>
               (case fst (status (life (wd_env env)) ctx d) of
                  Inr pending \<Rightarrow> if owned_by_transaction pending then None else Some (executable ctx)
                | Inl e \<Rightarrow> None)
           | (Inl e, d) \<Rightarrow> None)"

lemmas watch_steps = act_then_def act_bind_def act_return_def act_modify_def log_message_def watching_host_def look_def file_tree_def

lemma reap_children_eval:
  "\<exists>cs. reap_children env w = (Inr (), w\<lparr>wd_children := cs, wd_host := (wd_host w)\<lparr>h_looks := Suc (h_looks (wd_host w))\<rparr>\<rparr>)"
  by (cases w) (auto simp: reap_children_def watch_steps)

lemma is_proxy_up_eval:
  "is_proxy_up env w = (Inr (accepts env (h_looks (wd_host w))), w\<lparr>wd_host := (wd_host w)\<lparr>h_looks := Suc (h_looks (wd_host w))\<rparr>\<rparr>)"
  by (simp add: is_proxy_up_def watch_steps)

lemma idle_eval: "idle env w = (Inr (st_watchdog_interval (wd_settings env)), w\<lparr>wd_failures := 0\<rparr>)"
  by (simp add: idle_def watch_steps)

lemma log_message_eval: "log_message m w = (Inr (), w\<lparr>wd_log := wd_log w @ [m]\<rparr>)"
  by (simp add: watch_steps)

definition pause_after :: "watchdog_env \<Rightarrow> nat \<Rightarrow> rat" where
  "pause_after env k = min (st_watchdog_max_backoff (wd_settings env)) (st_watchdog_interval (wd_settings env) * of_nat k)"

definition started_for :: "watchdog_env \<Rightarrow> nodes \<Rightarrow> string \<Rightarrow> (string list \<times> string dict) list" where
  "started_for env fs exe = (if exists_at fs (path_of exe) then [([exe, LISTENER_MODE], listener_environment env exe)] else [])"

lemma start_listener_eval:
  "\<exists>w'. start_listener env exe w = (Inr (pause_after env (Suc (wd_failures w))), w') \<and> watched_files w' = watched_files w
     \<and> wd_started w' = wd_started w @ started_for env (watched_files w) exe \<and> wd_failures w' = Suc (wd_failures w)"
  by (auto simp: start_listener_def spawn_proxy_def pause_after_def started_for_def watch_steps Let_def split: option.splits)

lemma startup_owner_eval:
  assumes "\<not> accepts env (Suc (h_looks (wd_host w)))" "h_disk (wd_host w1) = h_disk (wd_host w)"
    "startup_owner env w1 = (r, w2)"
  shows "watched_files w2 = watched_files w1 \<and> wd_started w2 = wd_started w1 \<and> wd_failures w2 = wd_failures w1"
    and "case r of Inr (exe, pending) \<Rightarrow> unowned env w = (if owned_by_transaction pending then None else Some exe) | Inl e \<Rightarrow> unowned env w = None"
proof -
  let ?q = "default_request\<lparr>cr_executable := Some (wd_executable env), cr_port := st_port (wd_settings env)\<rparr>"
  let ?create = "create_context (wd_env env) (wd_sys env) ?q" and ?status = "status (life (wd_env env))"
  let ?m = "act_bind ?create (\<lambda>ctx. act_bind (?status ctx) (\<lambda>pending. act_return (executable ctx, pending)))"
  obtain x d where run: "?m (h_disk (wd_host w)) = (x, d)" by force
  have "keeps nodes ?m" by (intro keeps_rules reads)
  then have "nodes d = nodes (h_disk (wd_host w))" using run by (rule keepsD)
  then show "watched_files w2 = watched_files w1 \<and> wd_started w2 = wd_started w1 \<and> wd_failures w2 = wd_failures w1"
    using assms run
    by (auto simp: startup_owner_def act_catch_def watching_host_def on_files_def log_message_eval act_then_def act_bind_def [of "log_message m" for m] act_return_def
        split: sum.splits if_splits prod.splits)
  show "case r of Inr (exe, pending) \<Rightarrow> unowned env w = (if owned_by_transaction pending then None else Some exe) | Inl e \<Rightarrow> unowned env w = None"
  proof (cases "?create (h_disk (wd_host w))")
    case (Pair c d1)
    show ?thesis
      using assms Pair
      by (cases c; cases "?status (projr c) d1"; cases "fst (?status (projr c) d1)")
        (auto simp: startup_owner_def unowned_def act_catch_def watching_host_def on_files_def watch_steps owned_by_transaction_def jget_def
          split: if_splits)
  qed
qed

text \<open>How a pass of the loop ends.\<close>

definition round_ends :: "watchdog_env \<Rightarrow> watchdog \<Rightarrow> rat res \<Rightarrow> watchdog \<Rightarrow> bool" where
  "round_ends env w r w' \<longleftrightarrow>
     watched_files w' = watched_files w
     \<and> (case (r, unowned env w) of
          (Inr pause, Some exe) \<Rightarrow>
            wd_started w' = wd_started w @ started_for env (watched_files w) exe
            \<and> wd_failures w' = Suc (wd_failures w) \<and> pause = pause_after env (wd_failures w')
        | (Inr pause, None) \<Rightarrow> wd_started w' = wd_started w \<and> wd_failures w' = 0 \<and> pause = st_watchdog_interval (wd_settings env)
        | (Inl e, exe) \<Rightarrow> exe = None \<and> wd_started w' = wd_started w)"

lemma when_down_ends:
  assumes "\<not> accepts env (Suc (h_looks (wd_host w)))" "h_disk (wd_host w1) = h_disk (wd_host w)"
    "wd_started w1 = wd_started w" "wd_failures w1 = wd_failures w" "when_down env w1 = (r, w')"
  shows "round_ends env w r w'"
proof -
  obtain x w2 where owner: "startup_owner env w1 = (x, w2)" by force
  note own = startup_owner_eval [OF assms(1,2) owner]
  show ?thesis
  proof (cases x)
    case (Inl e)
    then show ?thesis using own assms owner by (auto simp: when_down_def act_bind_def round_ends_def)
  next
    case (Inr y)
    obtain exe pending where y: "y = (exe, pending)" by force
    show ?thesis
    proof (cases "owned_by_transaction pending")
      case True
      then show ?thesis using own assms owner Inr y
        by (auto simp: when_down_def act_bind_def act_then_def log_message_eval idle_eval round_ends_def)
    next
      case False
      then show ?thesis using own assms owner Inr y start_listener_eval [of env exe w2]
        by (auto simp: when_down_def act_bind_def round_ends_def)
    qed
  qed
qed

lemma watch_round_ends:
  assumes "watch_round env w = (r, w')" shows "round_ends env w r w'"
proof -
  obtain cs where reap: "reap_children env w = (Inr (), w\<lparr>wd_children := cs, wd_host := (wd_host w)\<lparr>h_looks := Suc (h_looks (wd_host w))\<rparr>\<rparr>)"
    using reap_children_eval by blast
  define w1 where "w1 = w\<lparr>wd_children := cs, wd_host := (wd_host w)\<lparr>h_looks := Suc (Suc (h_looks (wd_host w)))\<rparr>\<rparr>"
  have run: "(if accepts env (Suc (h_looks (wd_host w))) then idle env w1 else when_down env w1) = (r, w')"
    using assms by (simp add: watch_round_def act_then_def act_bind_def reap is_proxy_up_eval w1_def split: if_splits)
  show ?thesis
  proof (cases "accepts env (Suc (h_looks (wd_host w)))")
    case True
    then show ?thesis using run by (auto simp: idle_eval round_ends_def unowned_def w1_def)
  next
    case False
    show ?thesis by (rule when_down_ends [of env w w1]) (use False run in \<open>simp_all add: w1_def\<close>)
  qed
qed

section \<open>What the watchdog guarantees\<close>

text \<open>
  Claim C19.  A pass of the watchdog changes no file.  It starts a listener, the executable of the selected
  generation in listener mode, exactly when nothing accepts connections, the ownership of the installation is valid, no transaction
  but an activated one is pending and the executable is there; the failures in a row and the pause follow.
  The listener it starts inherits no setting: it would load the settings the code falls back on, with the logs where
  the watchdog has its own.
\<close>

theorem watchdog_starts_unowned:
  "case watch_round env w of (r, w') \<Rightarrow>
     round_ends env w r w'
     \<and> load_settings (wd_sys env) (listener_environment env exe)
         = Inr (fallback_settings (abspath (wd_sys env) (state_dir (wd_sys env) (environ (wd_sys env)))))"
proof (cases "watch_round env w")
  case (Pair r w')
  have "load_settings (wd_sys env) (listener_environment env exe)
      = Inr (fallback_settings (abspath (wd_sys env) (state_dir (wd_sys env) (environ (wd_sys env)))))"
    unfolding listener_environment_def by (rule isolated_settings)
  then show ?thesis using watch_round_ends [OF Pair] by (simp add: Pair)
qed

lemma pause_after_bounded:
  assumes "settings_in_range (wd_settings env)" shows "1 / 10 \<le> pause_after env (Suc k)" "pause_after env (Suc k) \<le> 86400"
proof -
  have "1 / 10 \<le> st_watchdog_interval (wd_settings env)" using assms by (simp add: settings_in_range_def)
  also have "\<dots> \<le> st_watchdog_interval (wd_settings env) * of_nat (Suc k)" using calculation by (simp add: algebra_simps)
  finally show "1 / 10 \<le> pause_after env (Suc k)" using assms by (simp add: pause_after_def settings_in_range_def)
  show "pause_after env (Suc k) \<le> 86400" using assms by (simp add: pause_after_def settings_in_range_def min_le_iff_disj)
qed

text \<open>
  With the settings of any environment that loads, every pause of the watchdog is at least a tenth of a
  second and at most a day: it never spins, however often the listener fails to start, and it always looks again.
\<close>

theorem watchdog_paced:
  "case load_settings sys source of
     Inr s \<Rightarrow>
       (case watch_round (env\<lparr>wd_settings := s\<rparr>) w of
          (Inr pause, w') \<Rightarrow> 1 / 10 \<le> pause \<and> pause \<le> 86400
        | (Inl e, w') \<Rightarrow> wd_started w' = wd_started w)
   | Inl e \<Rightarrow> refused source RUNTIME_ENVIRONMENT e"
proof (cases "load_settings sys source")
  case (Inr s)
  note range = load_settings_in_range [OF Inr]
  obtain r w' where run: "watch_round (env\<lparr>wd_settings := s\<rparr>) w = (r, w')" by force
  have "1 / 10 \<le> st_watchdog_interval s \<and> st_watchdog_interval s \<le> 86400" using range by (simp add: settings_in_range_def)
  then show ?thesis
    using watch_round_ends [OF run] pause_after_bounded [of "env\<lparr>wd_settings := s\<rparr>"] range
    by (auto simp: Inr run round_ends_def split: sum.splits option.splits)
qed (simp add: load_settings_refused)

end
