(* ===== verification/Systemd.thy ===== *)
theory Systemd
  imports Settings
begin

text \<open>
  \<open>lifecycle/supervision/linux.py\<close>: the watchdog as a service of the systemd user manager.  A call of \<open>systemctl\<close> gives an exit
  code and a text, from the environment at each look; the unit file is on the disk.
\<close>

section \<open>Rendering the unit\<close>

fun escape_unit :: "string \<Rightarrow> string" where
  "escape_unit [] = []"
| "escape_unit (c # s) =
     (if c = CHR 92 then [CHR 92, CHR 92] else if c = CHR 34 then [CHR 92, CHR 34] else if c = CHR ''%'' then ''%%'' else [c]) @ escape_unit s"

definition unit_value :: "string \<Rightarrow> string res" where
  "unit_value s =
     (if CHR 0x00 \<in> set s \<or> CHR 10 \<in> set s \<or> CHR 13 \<in> set s
      then Inl (install_error ''systemd service value contains a control character'') else Inr (escape_unit s))"

definition newline_end :: "string \<Rightarrow> string" where
  "newline_end s = s @ [CHR 10]"

definition exec_start :: "string \<Rightarrow> string" where
  "exec_start escaped = ''ExecStart='' @ [CHR 34] @ escaped @ [CHR 34] @ '' '' @ WATCHDOG_MODE"

definition unit_lines :: "string \<Rightarrow> string list" where
  "unit_lines escaped =
     [''[Unit]'', ''Description='' @ DISPLAY_NAME @ '' watchdog'', ''After=network-online.target'', ''Wants=network-online.target'', [],
      ''[Service]'', ''Type=simple'', exec_start escaped, ''KillMode=process'', ''Restart=always'', ''RestartSec=3'', [],
      ''[Install]'', ''WantedBy=default.target'']"

definition render_unit :: "runtime_context \<Rightarrow> string res" where
  "render_unit ctx = res_bind (unit_value (executable ctx)) (\<lambda>escaped. Inr (concat (map newline_end (unit_lines escaped))))"

section \<open>Reading it back\<close>

text \<open>
  \<open>str.splitlines\<close> on the UTF-8 bytes of a text: the ASCII separators, U+0085, U+2028 and U+2029.
\<close>

definition ascii_break :: "char \<Rightarrow> bool" where
  "ascii_break c \<longleftrightarrow> of_char c \<in> {10, 11, 12, 13, 28, 29, 30 :: nat}"

fun break_length :: "string \<Rightarrow> nat" where
  "break_length (c # x # y # s) =
     (if c = CHR 13 \<and> x = CHR 10 then 2 else if ascii_break c then 1 else if c = CHR 194 \<and> x = CHR 133 then 2
      else if c = CHR 226 \<and> x = CHR 128 \<and> (y = CHR 168 \<or> y = CHR 169) then 3 else 0)"
| "break_length [c, x] =
     (if c = CHR 13 \<and> x = CHR 10 then 2 else if ascii_break c then 1 else if c = CHR 194 \<and> x = CHR 133 then 2 else 0)"
| "break_length [c] = (if ascii_break c then 1 else 0)"
| "break_length [] = 0"

function lines_from :: "string \<Rightarrow> string \<Rightarrow> string list" where
  "lines_from acc [] = (if acc = [] then [] else [acc])"
| "lines_from acc (c # s) =
     (if break_length (c # s) > 0 then acc # lines_from [] (drop (break_length (c # s)) (c # s)) else lines_from (acc @ [c]) s)"
  by pat_completeness auto
termination
  by (relation "measure (\<lambda>(acc, s). length s)") auto

declare lines_from.simps(2) [simp del]

definition text_lines :: "string \<Rightarrow> string list" where
  "text_lines s = lines_from [] s"

text \<open>\<open>shlex.split(s, posix=True)\<close>; \<open>None\<close> stands for \<open>ValueError\<close>.\<close>

datatype shlex_state = Between | In_word | In_quote char | Escaped "char option"

definition shlex_space :: "char \<Rightarrow> bool" where
  "shlex_space c \<longleftrightarrow> c = CHR '' '' \<or> c = CHR 9 \<or> c = CHR 13 \<or> c = CHR 10"

definition shlex_quote :: "char \<Rightarrow> bool" where
  "shlex_quote c \<longleftrightarrow> c = CHR 34 \<or> c = CHR 39"

fun shlex_from :: "shlex_state \<Rightarrow> bool \<Rightarrow> string \<Rightarrow> string \<Rightarrow> string list option" where
  "shlex_from Between quoted token [] = Some []"
| "shlex_from Between quoted token (c # s) =
     (if shlex_space c then shlex_from Between False [] s
      else if c = CHR 92 then shlex_from (Escaped None) False [] s
      else if shlex_quote c then shlex_from (In_quote c) True [] s
      else shlex_from In_word False [c] s)"
| "shlex_from In_word quoted token [] = Some (if token = [] \<and> \<not> quoted then [] else [token])"
| "shlex_from In_word quoted token (c # s) =
     (if shlex_space c
      then (if token = [] \<and> \<not> quoted then shlex_from Between False [] s
            else map_option (\<lambda>ts. token # ts) (shlex_from Between False [] s))
      else if shlex_quote c then shlex_from (In_quote c) True token s
      else if c = CHR 92 then shlex_from (Escaped None) quoted token s
      else shlex_from In_word quoted (token @ [c]) s)"
| "shlex_from (In_quote k) quoted token [] = None"
| "shlex_from (In_quote k) quoted token (c # s) =
     (if c = k then shlex_from In_word True token s
      else if c = CHR 92 \<and> k = CHR 34 then shlex_from (Escaped (Some k)) True token s
      else shlex_from (In_quote k) True (token @ [c]) s)"
| "shlex_from (Escaped outer) quoted token [] = None"
| "shlex_from (Escaped None) quoted token (c # s) = shlex_from In_word quoted (token @ [c]) s"
| "shlex_from (Escaped (Some k)) quoted token (c # s) =
     shlex_from (In_quote k) quoted (token @ (if c \<noteq> CHR 92 \<and> c \<noteq> k then [CHR 92, c] else [c])) s"

definition shlex_split :: "string \<Rightarrow> string list option" where
  "shlex_split s = shlex_from Between False [] s"

text \<open>\<open>s.replace("%%", "%")\<close>.\<close>

fun unpercent :: "string \<Rightarrow> string" where
  "unpercent (c # x # s) = (if c = CHR ''%'' \<and> x = CHR ''%'' then CHR ''%'' # unpercent s else c # unpercent (x # s))"
| "unpercent s = s"

definition EXEC_START :: string where "EXEC_START = ''ExecStart=''"

definition unit_executable :: "string \<Rightarrow> string option" where
  "unit_executable content =
     (case map (drop (length EXEC_START)) (filter (starts_with EXEC_START) (text_lines content)) of
        [line] \<Rightarrow>
          (case shlex_split line of
             Some [exe, mode] \<Rightarrow> if mode = WATCHDOG_MODE then Some (unpercent exe) else None
           | _ \<Rightarrow> None)
      | _ \<Rightarrow> None)"

section \<open>The service manager\<close>

text \<open>Whether \<open>systemctl\<close> is found, what a call of it gives, and whether bytes are UTF-8.\<close>

record systemd_env =
  sd_env :: host_env
  sd_sys :: system
  has_systemctl :: "nat \<Rightarrow> bool"
  systemctl :: "nat \<Rightarrow> string list \<Rightarrow> int \<times> string"
  is_utf8 :: "bytes \<Rightarrow> bool"

text \<open>The host, and the calls of \<open>systemctl\<close> made.\<close>

type_synonym 'a sd_act = "(host \<times> string list list, 'a) eff"

definition sd_host :: "'a host_act \<Rightarrow> 'a sd_act" where
  "sd_host m = (\<lambda>(w, calls). case m w of (r, w') \<Rightarrow> (r, (w', calls)))"

definition run_systemctl :: "systemd_env \<Rightarrow> string list \<Rightarrow> (int \<times> string) sd_act" where
  "run_systemctl env arguments =
     act_then (act_modify (\<lambda>(w, calls). (w, calls @ [''--user'' # arguments])))
       (sd_host (look (\<lambda>n. systemctl env n (''--user'' # arguments))))"

definition found_systemctl :: "systemd_env \<Rightarrow> bool sd_act" where
  "found_systemctl env = sd_host (look (has_systemctl env))"

definition service_name :: "systemd_env \<Rightarrow> runtime_context \<Rightarrow> string" where
  "service_name env ctx = service_id (life (sd_env env)) (sd_sys env) (install_dir ctx) @ ''.service''"

definition unit_path :: "systemd_env \<Rightarrow> runtime_context \<Rightarrow> path" where
  "unit_path env ctx = path_of (user_home ctx) @ [''.config'', ''systemd'', ''user'', service_name env ctx]"

definition is_blank :: "string \<Rightarrow> bool" where
  "is_blank s \<longleftrightarrow> list_all (\<lambda>c. ascii_break c \<or> shlex_space c \<or> of_char c = (31 :: nat)) s"

definition has_user_systemd :: "systemd_env \<Rightarrow> bool sd_act" where
  "has_user_systemd env =
     act_bind (found_systemctl env) (\<lambda>found.
       if \<not> found then act_return False
       else act_bind (run_systemctl env [''show'', ''--property=SystemState'', ''--value'']) (\<lambda>(code, out).
              act_return (code = 0 \<and> \<not> is_blank out)))"

definition sd_configured :: "systemd_env \<Rightarrow> runtime_context \<Rightarrow> string option io" where
  "sd_configured env ctx =
     act_catch (act_bind (read_bytes (unit_path env ctx)) (\<lambda>content.
                  act_return (if is_utf8 env content then unit_executable content else None)))
       (\<lambda>e. if is_os_failure e then Some (act_return None) else None)"

text \<open>The properties that a call of \<open>show\<close> prints; a later one counts.\<close>

definition sd_property :: "string \<Rightarrow> string \<Rightarrow> string" where
  "sd_property out key =
     (case map_of (rev (map (\<lambda>(k, found, v). (k, v)) (filter (\<lambda>(k, found, v). found) (map (partition_at (CHR ''='')) (text_lines out))))) key of
        None \<Rightarrow> [] | Some v \<Rightarrow> v)"

definition unit_presence :: "systemd_env \<Rightarrow> runtime_context \<Rightarrow> string sd_act" where
  "unit_presence env ctx =
     act_bind (sd_host file_tree) (\<lambda>fs. act_return (if exists_at fs (unit_path env ctx) then ''installed'' else ''absent''))"

definition sd_status :: "systemd_env \<Rightarrow> runtime_context \<Rightarrow> string sd_act" where
  "sd_status env ctx =
     act_bind (found_systemctl env) (\<lambda>found.
       if \<not> found then unit_presence env ctx
       else act_bind (run_systemctl env [''show'', service_name env ctx, ''--property=LoadState'', ''--property=ActiveState'']) (\<lambda>(code, out).
            if code \<noteq> 0 \<or> sd_property out ''LoadState'' = [] \<or> sd_property out ''ActiveState'' = []
            then act_raise (install_error ''systemd service state is unproven; query the user manager'')
            else if sd_property out ''LoadState'' \<noteq> ''not-found''
            then act_return (if sd_property out ''ActiveState'' = ''active'' then ''running'' else ''installed'')
            else unit_presence env ctx))"

section \<open>Installing\<close>

text \<open>\<open>Path.write_text\<close>: the file the path leads to is created or emptied, then written.\<close>

definition write_text :: "path \<Rightarrow> string \<Rightarrow> unit io" where
  "write_text p content =
     act_then os_call (with_fs (\<lambda>fs. case real_path fs p of
       None \<Rightarrow> act_raise OSError
     | Some q \<Rightarrow>
         (case lookup fs q of
            Some (Regular i c) \<Rightarrow> act_then (put_node q (Regular i [])) (act_then os_call (put_node q (Regular i content)))
          | None \<Rightarrow>
              if q = [] \<or> lookup fs (butlast q) \<noteq> Some Folder then act_raise OSError
              else act_bind new_inode (\<lambda>i. act_then (put_node q (Regular i [])) (act_then os_call (put_node q (Regular i content))))
          | _ \<Rightarrow> act_raise OSError)))"

definition require_zero :: "systemd_env \<Rightarrow> string list \<Rightarrow> string \<Rightarrow> unit sd_act" where
  "require_zero env arguments label =
     act_bind (run_systemctl env arguments) (\<lambda>(code, out).
       if code \<noteq> 0 then act_raise (install_error (label @ '' failed (exit '' @ int_text code @ '')'')) else act_return ())"

definition main_pid :: "systemd_env \<Rightarrow> runtime_context \<Rightarrow> int sd_act" where
  "main_pid env ctx =
     act_bind (run_systemctl env [''show'', service_name env ctx, ''--property=MainPID'', ''--value'']) (\<lambda>(code, out).
       act_return (if code = 0 then (case int_of_text (sd_sys env) out of Some i \<Rightarrow> i | None \<Rightarrow> 0) else 0))"

definition prove_watchdog :: "systemd_env \<Rightarrow> runtime_context \<Rightarrow> int \<Rightarrow> unit sd_act" where
  "prove_watchdog env ctx pid =
     (let unproved = act_raise (install_error ''systemd successor watchdog process identity is unproved'') in
      if pid \<le> 0 then unproved
      else act_bind (sd_host (wait_for_executable (sd_env env) pid (executable ctx) (Some [WATCHDOG_MODE]) 5)) (\<lambda>watchdog.
           case watchdog of
             None \<Rightarrow> unproved
           | Some p \<Rightarrow> act_bind (sd_host (owned_process_alive (sd_env env) p)) (\<lambda>alive. if alive then act_return () else unproved)))"

definition write_unit :: "systemd_env \<Rightarrow> runtime_context \<Rightarrow> unit io" where
  "write_unit env ctx =
     act_then (mkdir_parents (butlast (unit_path env ctx)))
       (act_bind (act_lift (render_unit ctx)) (write_text (unit_path env ctx)))"

definition install_systemd :: "systemd_env \<Rightarrow> runtime_context \<Rightarrow> unit sd_act" where
  "install_systemd env ctx =
     act_then (sd_host (on_files (write_unit env ctx)))
    (act_bind (run_systemctl env [''daemon-reload'']) (\<lambda>(code, out).
     act_then (if code \<noteq> 0 then act_raise (OtherError ''CalledProcessError'') else act_return ())
    (act_then (require_zero env [''enable'', path_text (unit_path env ctx)] ''systemctl enable'')
    (act_then (require_zero env [''restart'', service_name env ctx] ''systemctl restart'')
    (act_bind (main_pid env ctx) (prove_watchdog env ctx))))))"

definition sd_install :: "systemd_env \<Rightarrow> runtime_context \<Rightarrow> unit sd_act" where
  "sd_install env ctx =
     act_bind (has_user_systemd env) (\<lambda>there.
       if there then install_systemd env ctx
       else act_raise (InstallError Service_unavailable
              ''a reachable systemd user manager is required for Linux installation; enable a systemd user session and retry installation''))"

section \<open>Removing\<close>

definition deregister :: "systemd_env \<Rightarrow> runtime_context \<Rightarrow> bool \<Rightarrow> unit sd_act" where
  "deregister env ctx registered =
     act_bind (found_systemctl env) (\<lambda>found.
       if \<not> found then act_raise (install_error ''systemctl is unavailable; service removal is unproven'')
       else act_bind (run_systemctl env [''disable'', ''--now'', service_name env ctx]) (\<lambda>(code, out).
            act_then (if code \<noteq> 0 \<and> registered
                      then act_raise (install_error (''systemctl disable failed (exit '' @ int_text code @ '')'')) else act_return ())
           (act_then (sd_host (on_files (unlink True (unit_path env ctx))))
           (act_bind (run_systemctl env [''daemon-reload'']) (\<lambda>(code, out).
            act_then (if code \<noteq> 0 then act_raise (install_error ''systemctl daemon-reload failed after unit removal'') else act_return ())
           (act_bind (sd_status env ctx) (\<lambda>state.
              if state \<noteq> ''absent'' then act_raise (install_error ''systemd watchdog remains registered after removal'')
              else act_return ())))))))"

definition watchdog_pids :: "systemd_env \<Rightarrow> runtime_context \<Rightarrow> int list sd_act" where
  "watchdog_pids env ctx = sd_host (pids_naming_executable (sd_env env) (executable ctx) (Some [WATCHDOG_MODE]))"

definition end_watchdog :: "systemd_env \<Rightarrow> runtime_context \<Rightarrow> int \<Rightarrow> unit sd_act" where
  "end_watchdog env ctx pid =
     act_bind (sd_host (terminate_executable (sd_env env) pid (executable ctx) (Some [WATCHDOG_MODE]) 5)) (\<lambda>ended.
       if ended then act_return () else act_raise (install_error (''verified watchdog '' @ int_text pid @ '' did not exit'')))"

definition end_watchdogs :: "systemd_env \<Rightarrow> runtime_context \<Rightarrow> unit sd_act" where
  "end_watchdogs env ctx =
     act_bind (watchdog_pids env ctx) (\<lambda>pids.
     act_then (act_each (end_watchdog env ctx) pids)
    (act_bind (watchdog_pids env ctx) (\<lambda>remaining.
       if remaining \<noteq> [] then act_raise (install_error (''verified watchdogs remain: '' @ pid_list_text remaining)) else act_return ())))"

definition sd_uninstall :: "systemd_env \<Rightarrow> runtime_context \<Rightarrow> unit sd_act" where
  "sd_uninstall env ctx =
     act_bind (sd_status env ctx) (\<lambda>state.
     act_bind (sd_host file_tree) (\<lambda>fs.
     act_then (if state \<noteq> ''absent'' \<or> exists_at fs (unit_path env ctx) then deregister env ctx (state \<noteq> ''absent'') else act_return ())
       (end_watchdogs env ctx)))"

end
