(* ===== verification/Systemd_Facts.thy ===== *)
theory Systemd_Facts
  imports Systemd
begin

text \<open>
  The unit file of the watchdog gives back the executable it was rendered for, and the removal of the service
  ends with the service absent and no watchdog left.
\<close>

section \<open>Lines\<close>

text \<open>No line ends inside a text, when another one follows it.\<close>

fun unbroken_before :: "string \<Rightarrow> string \<Rightarrow> bool" where
  "unbroken_before [] t = True"
| "unbroken_before (c # s) t = (break_length (c # s @ t) = 0 \<and> unbroken_before s t)"

definition unbroken :: "string \<Rightarrow> bool" where
  "unbroken s \<longleftrightarrow> unbroken_before s []"

lemma unbroken_append: "unbroken_before (a @ b) t \<longleftrightarrow> unbroken_before a (b @ t) \<and> unbroken_before b t"
  by (induction a) auto

definition plain_byte :: "char \<Rightarrow> bool" where
  "plain_byte c \<longleftrightarrow> \<not> ascii_break c \<and> c \<noteq> CHR 194 \<and> c \<noteq> CHR 226"

lemma CR_breaks [simp]: "ascii_break (CHR 13)" "ascii_break (CHR 10)"
  by (simp_all add: ascii_break_def)

lemma plain_no_break: "plain_byte c \<Longrightarrow> break_length (c # s) = 0"
  by (cases "c # s" rule: break_length.cases) (auto simp: plain_byte_def)

lemma plain_unbroken: "list_all plain_byte s \<Longrightarrow> unbroken_before s t"
  by (induction s) (auto simp: plain_no_break)

lemma lines_from_unbroken: "unbroken_before s t \<Longrightarrow> lines_from acc (s @ t) = lines_from (acc @ s) t"
  by (induction s arbitrary: acc) (auto simp: lines_from.simps(2))

lemma break_newline: "break_length (CHR 10 # t) = 1"
  by (cases "CHR 10 # t" rule: break_length.cases) auto

lemma lines_from_newline: "lines_from acc (CHR 10 # t) = acc # lines_from [] t"
  by (simp add: lines_from.simps(2) break_newline)

lemma lines_of_unit:
  assumes "\<And>l t. l \<in> set ls \<Longrightarrow> unbroken_before l (CHR 10 # t)"
  shows "text_lines (concat (map newline_end ls)) = ls"
  using assms unfolding text_lines_def
proof (induction ls)
  case (Cons l ls)
  have "lines_from [] (l @ CHR 10 # concat (map newline_end ls)) = l # lines_from [] (concat (map newline_end ls))"
    using Cons.prems by (simp add: lines_from_unbroken lines_from_newline)
  moreover have "lines_from [] (concat (map newline_end ls)) = ls" using Cons by simp
  moreover have "concat (map newline_end (l # ls)) = l @ CHR 10 # concat (map newline_end ls)" by (simp add: newline_end_def)
  ultimately show ?case by simp
qed simp

section \<open>Escapes\<close>

lemma break_escaped:
  assumes "c \<noteq> CHR 92" "c \<noteq> CHR 34" "c \<noteq> CHR ''%''" "break_length (c # s) = 0"
  shows "break_length (c # escape_unit s @ CHR 34 # u) = 0"
proof (cases s)
  case Nil
  then show ?thesis using assms by (cases u) (auto split: if_splits)
next
  case (Cons x s')
  then show ?thesis using assms by (cases s'; cases u) (auto split: if_splits)
qed

lemma escaped_unbroken: "unbroken_before s [] \<Longrightarrow> unbroken_before (escape_unit s) (CHR 34 # u)"
proof (induction s)
  case (Cons c s)
  have "plain_byte (CHR 92)" "plain_byte (CHR 34)" "plain_byte (CHR ''%'')" by (simp_all add: plain_byte_def ascii_break_def)
  then show ?case using Cons break_escaped [of c s u] by (auto simp: plain_no_break)
qed simp

definition percented :: "string \<Rightarrow> string" where
  "percented s = concat (map (\<lambda>c. if c = CHR ''%'' then ''%%'' else [c]) s)"

lemma percented_simps [simp]:
  "percented [] = []" "percented (c # s) = (if c = CHR ''%'' then CHR ''%'' # CHR ''%'' # percented s else c # percented s)"
  by (simp_all add: percented_def)

lemma unpercent_other: "c \<noteq> CHR ''%'' \<Longrightarrow> unpercent (c # s) = c # unpercent s"
  by (cases s) auto

lemma unpercent_percented: "unpercent (percented s) = s"
  by (induction s) (auto simp: unpercent_other)

lemma shlex_quoted:
  "shlex_from (In_quote (CHR 34)) True token (escape_unit s @ CHR 34 # u) = shlex_from In_word True (token @ percented s) u"
  by (induction s arbitrary: token) auto

lemma shlex_exec_start: "shlex_split ([CHR 34] @ escape_unit s @ [CHR 34] @ '' '' @ WATCHDOG_MODE) = Some [percented s, WATCHDOG_MODE]"
  by (simp add: shlex_split_def shlex_space_def shlex_quote_def shlex_quoted WATCHDOG_MODE_def)

section \<open>What the unit guarantees\<close>

lemma quoted_unbroken:
  assumes "list_all plain_byte a" "unbroken s" "list_all plain_byte b"
  shows "unbroken_before (a @ escape_unit s @ CHR 34 # b) t"
proof -
  have "list_all plain_byte (CHR 34 # b)" using assms(3) by (simp add: plain_byte_def ascii_break_def)
  then show ?thesis
    using escaped_unbroken [OF assms(2) [unfolded unbroken_def], of "b @ t"] plain_unbroken [of a] plain_unbroken [of "CHR 34 # b"] assms(1)
    by (simp add: unbroken_append)
qed

lemma unit_lines_unbroken:
  assumes "unbroken s" "l \<in> set (unit_lines (escape_unit s))"
  shows "unbroken_before l (CHR 10 # t)"
proof (cases "l = exec_start (escape_unit s)")
  case True
  have "list_all plain_byte (''ExecStart='' @ [CHR 34])" "list_all plain_byte ('' '' @ WATCHDOG_MODE)"
    by (simp_all add: plain_byte_def ascii_break_def WATCHDOG_MODE_def)
  from quoted_unbroken [OF this(1) assms(1) this(2)] show ?thesis by (simp only: True exec_start_def append_assoc append_Cons append_Nil)
next
  case False
  then have "list_all plain_byte l"
    using assms(2) by (auto simp: unit_lines_def plain_byte_def ascii_break_def DISPLAY_NAME_def)
  then show ?thesis by (rule plain_unbroken)
qed

lemma one_exec_start:
  "filter (starts_with EXEC_START) (unit_lines (escape_unit s)) = [exec_start (escape_unit s)]"
  by (simp add: unit_lines_def exec_start_def EXEC_START_def starts_with_def DISPLAY_NAME_def)

text \<open>
  Claim C28.  The unit file rendered for an executable is read back as exactly this executable, whatever quotes, backslashes, percent
  signs or spaces its path has, when the path has no line break.
\<close>

theorem unit_round_trip:
  assumes "render_unit ctx = Inr content" "unbroken (executable ctx)"
  shows "unit_executable content = Some (executable ctx)"
proof -
  let ?e = "escape_unit (executable ctx)"
  have "content = concat (map newline_end (unit_lines ?e))" using assms(1) by (auto simp: render_unit_def unit_value_def split: if_splits)
  then have "text_lines content = unit_lines ?e" using lines_of_unit unit_lines_unbroken [OF assms(2)] by blast
  moreover have "drop (length EXEC_START) (exec_start ?e) = [CHR 34] @ ?e @ [CHR 34] @ '' '' @ WATCHDOG_MODE"
    by (simp add: exec_start_def EXEC_START_def)
  ultimately show ?thesis
    using shlex_exec_start [of "executable ctx"] by (simp add: unit_executable_def one_exec_start unpercent_percented)
qed

definition unit_context :: "string \<Rightarrow> runtime_context" where
  "unit_context exe =
     \<lparr>install_dir = ''/opt/p'', executable = exe, command = ''/opt/c'', log_dir = ''/opt/l'', user_home = ''/home/u'', port = 8792,
      proxy_log_max_bytes = 4096, proxy_log_backup_count = 1, watchdog_log_max_bytes = 4096, watchdog_log_backup_count = 1,
      upstream_timeout = ''900.0'', upstream_read_timeout = ''240.0'', watchdog_interval = ''15.0'', watchdog_max_backoff = ''120.0'',
      response_failed_compaction_budget = 4096, response_failed_max_stages = 3, upstream_base_url = []\<rparr>"

definition awkward_path :: string where
  "awkward_path = ''/opt/100% a'' @ [CHR 34, CHR 92] @ ''b/bin/p''"

theorem unit_round_trip_witness:
  "let ctx = unit_context awkward_path; content = concat (map newline_end (unit_lines (escape_unit awkward_path))) in
   render_unit ctx = Inr content \<and> unbroken (executable ctx) \<and> unit_executable content = Some (executable ctx)"
proof -
  let ?content = "concat (map newline_end (unit_lines (escape_unit awkward_path)))"
  have "render_unit (unit_context awkward_path) = Inr ?content"
    by (simp add: render_unit_def unit_value_def unit_context_def awkward_path_def)
  moreover have "unbroken (executable (unit_context awkward_path))"
    by (simp add: unit_context_def awkward_path_def unbroken_def ascii_break_def)
  ultimately show ?thesis using unit_round_trip by (simp add: Let_def)
qed

text \<open>The test for control characters lets other line breaks through, and then the unit cannot be read back.\<close>

lemma vertical_tab_unreadable:
  "\<exists>content. render_unit (unit_context (''/a'' @ [CHR 11] @ ''b'')) = Inr content \<and> unit_executable content = None"
proof -
  let ?content = "concat (map newline_end (unit_lines (''/a'' @ [CHR 11] @ ''b'')))"
  have "render_unit (unit_context (''/a'' @ [CHR 11] @ ''b'')) = Inr ?content"
    by (simp add: render_unit_def unit_value_def unit_context_def)
  moreover have "unit_executable ?content = None" by code_simp
  ultimately show ?thesis by blast
qed

section \<open>Removal\<close>

lemma sd_host_run: "sd_host m s = (Inr x, s') \<longleftrightarrow> (\<exists>w'. m (fst s) = (Inr x, w') \<and> s' = (w', snd s))"
  by (cases s) (auto simp: sd_host_def split: prod.splits)

text \<open>
  A removal that returns has seen the service absent, at the start with no unit file or after it was deregistered, and
  the last list of processes had no watchdog of this executable.
\<close>

lemma sd_uninstall_absent:
  assumes "sd_uninstall env ctx s = (Inr (), s')"
  shows "\<exists>s1 s2 s3. sd_status env ctx s1 = (Inr ''absent'', s2) \<and> watchdog_pids env ctx s3 = (Inr [], s')"
proof -
  obtain state s1 s2 where st: "sd_status env ctx s = (Inr state, s1)"
    and reg: "(if state \<noteq> ''absent'' \<or> exists_at (nodes (h_disk (fst s1))) (unit_path env ctx) then deregister env ctx (state \<noteq> ''absent'') else act_return ()) s1 = (Inr (), s2)"
    and ends: "end_watchdogs env ctx s2 = (Inr (), s')"
    using assms unfolding sd_uninstall_def act_bind_run act_then_run sd_host_run by (auto simp: file_tree_def)
  have "\<exists>s3. watchdog_pids env ctx s3 = (Inr [], s')"
    using ends unfolding end_watchdogs_def act_bind_run act_then_run
    by (auto simp: act_raise_run act_return_run split: if_split_asm)
  moreover have "\<exists>s1 s2. sd_status env ctx s1 = (Inr ''absent'', s2)"
  proof (cases "state = ''absent''")
    case False
    then have "deregister env ctx True s1 = (Inr (), s2)" using reg by simp
    then show ?thesis
      unfolding deregister_def act_bind_run
      by (auto simp: act_bind_run act_then_run act_raise_run act_return_run split: if_split_asm)
  qed (use st in blast)
  ultimately show ?thesis by blast
qed

end
