(* ===== verification/Spec2Isabelle.thy ===== *)
theory Spec2Isabelle
  imports Relay_Answers Projection_Facts Service_Facts Host_Samples Journal_Facts Deploy_Safety Release Watchdog_Facts Systemd_Facts
begin

text \<open>
  Verification of the OpenAI Responses proxy (\<open>src/src/openai_responses_proxy\<close>).

  The program is a local HTTP proxy for the Responses API.  A request passes an admission gate, is
  resolved to a provider, its history is projected onto a provider-neutral form, and it is sent
  upstream, again with smaller bodies when the provider rejects or fails it; the answer is relayed as
  a stream of events or as a body.  The listening process can hand its socket over to a replacement.
  Releases are installed as immutable generations by journaled transactions on the file system.

  Conventions.  A Python \<open>str\<close> is the HOL string of its UTF-8 bytes and \<open>bytes\<close> the string itself; a
  dictionary is an association list in insertion order; JSON values are \<^typ>\<open>json\<close>.  Code that may
  raise returns \<^typ>\<open>'a res\<close>, a sum whose left side is a \<^typ>\<open>py_exc\<close>; code with effects is an action
  of \<open>Effects\<close>, which returns a result or an exception and the state it leaves, so that effects before
  an exception are kept.  The Hoare triples there have one postcondition for returning and one for
  raising.  Records named \<open>\<dots>_env\<close> hold what is not under \<open>src/\<close> or cannot be computed: the JSON parser,
  SHA-256, base64, Unicode tables, the answers of upstream servers and of other processes, the texts
  of floats.  Every theorem holds for all of them; a theorem that relies on more says so in a hypothesis.

  \<^bold>\<open>The protocol.\<close>  \<open>Json\<close> is \<open>json_value.py\<close> and the Python operations on parsed values; \<open>Digest\<close> is
  \<open>service/digest.py\<close> and freezing; \<open>Url\<close> the part of \<open>urllib.parse\<close> in use.  \<open>Items\<close>, \<open>Content\<close> and
  \<open>Projection\<close> are \<open>protocol/replay/\<close>: \<open>observe\<close> is the owner of tool relationships, \<open>project_item\<close> the loop
  body over the input and \<open>sanitize_responses_body\<close> the whole projection.  \<open>Items\<close> shows that the owner
  refines a declarative pairing of calls and outputs (the locale \<open>issue_owner\<close>), \<open>Projection_Facts\<close> that
  what leaves the projection is in a closed portable grammar.  \<open>Response\<close>, \<open>Agent_Delivery\<close>,
  \<open>Recovery_Execution\<close> and \<open>Recovery_Input\<close> are the remaining files of \<open>protocol/\<close>; their lemmas show that
  each recovery is strictly smaller, within its budget, and made of the right parts.

  \<^bold>\<open>The relay.\<close>  \<open>Cooldown\<close>, \<open>Telemetry\<close>, \<open>Admission\<close> and \<open>Registry\<close> are the files of these names in \<open>relay/\<close>
  and \<open>providers/\<close>; the gate is a state machine whose reachable states satisfy an invariant.
  \<open>Relay_World\<close> is the state all requests share, with the clock, the log and what the client received;
  \<open>Exchange\<close>, \<open>Sse\<close> and \<open>Relay\<close> are \<open>exchange.py\<close>, \<open>sse.py\<close>, \<open>relay.py\<close> and \<open>responses.py\<close>.  \<open>Exchange_Facts\<close>
  bounds the requests of one exchange, \<open>Relay_Facts\<close> has the framing of events and that a
  stream reaches the client unchanged, one event to a chunk, \<open>Relay_Guarantees\<close> what a request never touches (the locales \<open>bystander\<close> and \<open>observer\<close>,
  interpreted for each part of the state) and \<open>Relay_Answers\<close> that a client is answered once.  An
  upstream is a function from the number of the request and its body to what the client library
  reports; the loops are bounded by the attempt lists of the code, and a stream by its read outcomes.

  \<^bold>\<open>The service.\<close>  \<open>Handoff_Protocol\<close> and \<open>Handoff\<close> are \<open>service/handoff/\<close>: the control messages, the child
  process as a behaviour that answers and exits when it does, the session with its transition table,
  \<open>prepare\<close> and \<open>commit\<close> in the old process and \<open>run_child\<close> in the replacement.  \<open>Handoff_Facts\<close> and
  \<open>Handoff_Prepare\<close> show how a commit ends, when a replacement serves, and that a prepared handoff whose
  child answers is finalized.  \<open>Service\<close> composes relay and handoff in one process: \<open>control.py\<close>, the
  dispatch of \<open>server.py\<close>, \<open>process_request\<close>; \<open>Service_Facts\<close> has the balance of its counters, who may
  control it, and that requests are answered.  Waiting is modelled by the clock: \<open>drain_wait\<close> and
  \<open>probe_loop\<close> are total, by the deadline they carry, and \<open>resume_loop\<close> by the outcomes it consumes.

  \<^bold>\<open>The lifecycle.\<close>  \<open>Disk\<close> is a file system of folders, files and symbolic links with the resolution of
  paths (at most forty links) and the system calls; the list \<open>faults\<close> of a disk decides for every call
  whether it fails, so a theorem over all disks covers a failure at every call, and the state after a
  failure is also what a crash leaves.  \<open>Inventory\<close>, \<open>Owned_Files\<close>, \<open>Payload_Identity\<close>, \<open>Journal\<close>,
  \<open>Generation\<close>, \<open>Command\<close>, \<open>Payload\<close> and \<open>Transaction\<close> are \<open>service/inventory.py\<close>, \<open>service/identity.py\<close> and the files of
  \<open>lifecycle/\<close>: \<open>owned_files.py\<close>, \<open>state.py\<close>, \<open>generation.py\<close> with \<open>rollback.py\<close>, \<open>command.py\<close>, \<open>projection.py\<close> with
  \<open>candidate.py\<close>, and \<open>transaction.py\<close>; the methods of \<open>PayloadTransaction\<close> act on the disk and the object.
  \<open>Disk_Facts\<close> says what calls leave alone and that durable writes are atomic; \<open>Journal_Facts\<close> has
  the order of versions and the confinement of paths; \<open>Command_Facts\<close> that another owner's command is
  kept and that its snapshot survives being stored; \<open>Transaction_Facts\<close> that recovery closes a transaction and that its object only moves forward;
  \<open>Disposal\<close> that nothing selected is removed and that the outcome is durable before anything is
  disposed of.  \<open>Lifecycle_Samples\<close> applies these theorems to a small installation.

  \<^bold>\<open>The host and its releases.\<close>  \<open>Host\<close> adds to the disk a clock and everything in other processes: each look
  at the process table, an endpoint or the service manager is numbered, and its answer is given by the
  environment for that number, so a theorem holds however the host changes between two looks; what is
  done to the host is a list of calls, and \<open>h_called_at\<close> says after how many looks each was made.  \<open>Process\<close> is \<open>supervision/process.py\<close> and the native runtime, \<open>Rollout\<close>
  and \<open>Deploy\<close> are \<open>deployment/handoff.py\<close> and \<open>deployment/apply.py\<close>, \<open>Control\<close> is \<open>control.py\<close> with
  \<open>uninstall.py\<close>.  Polling takes as many rounds as fit before its deadline (\<open>rounds\<close>); \<open>poll_enough\<close> and
  \<open>retry_enough\<close> show that more rounds change nothing.  \<open>Rollout_Facts\<close> says what each step may call,
  \<open>Process\<close> that a signal goes only to a process proven by the looks right before it, \<open>Deploy_Facts\<close> that a
  deployment returns only with a proven successor and a transaction finished on disk, \<open>Deploy_Safety\<close> that a process is
  signalled only when it was seen drained and that an upgrade that is undone opens the predecessor
  again, \<open>Control_Facts\<close> that the status is proven and that removal takes the service first.  \<open>Host_Samples\<close>
  applies \<open>Process\<close> to a small host.  \<open>Artifact\<close> is \<open>artifact.py\<close>: \<open>Artifact_Facts\<close> shows that every byte of an
  admitted artifact is covered by the signed checksums and can be claimed once.  \<open>Release\<close> is \<open>install.py\<close>,
  where an asset that is not signed changes nothing.  \<open>Settings\<close> is \<open>runtime/config.py\<close>,
  \<open>process_environment.py\<close>, \<open>context.py\<close> and the reading side of \<open>runtime_spec.py\<close>, with \<open>Settings_Facts\<close> for ranges, activation
  and isolation; \<open>Watchdog\<close> is \<open>watchdog.py\<close>, a pass of its loop as one action, and \<open>Watchdog_Facts\<close> says
  when it starts a listener and how long it pauses.  \<open>Systemd\<close> is \<open>linux.py\<close>, with the quoting of \<open>shlex\<close> and the line breaks
  of \<open>str.splitlines\<close> written out; \<open>Systemd_Facts\<close> shows that a unit is read back as it was rendered.

  \<^bold>\<open>Not modelled.\<close>  Permission bits, \<open>fsync\<close>, reuse of inode numbers and Windows paths; the adapters for
  the service managers of macOS and Windows, while the deployment takes what a service manager does from
  the environment look by look (the request that recovery makes to one is not in the list of calls); the functions of \<open>process.py\<close> for processes of older releases;
  rotation and redaction of log files; the command line; sockets, threads and the start of
  processes.  A few exceptions of the interpreter are left out: those of reading the body of an upstream
  error, of a malformed \<open>Content-Length\<close> and a body shorter than it, and of \<open>lstat\<close> on the command path; an
  operation of the gate reads its clock once.  Requests are handled one after another: the shared state is only used under locks, and
  the gate is a machine of whole operations in any order, but two relays do not interleave.
\<close>

end
